(* ===== verification/JsPrelude.thy ===== *)
theory JsPrelude
  imports Main
begin

text \<open>
  Shared vocabulary of the development: the JavaScript standard-library operations the
  source uses on strings and numbers, and the simplification collections of the components.

  A JavaScript string is a list of \<open>char\<close>, one per UTF-16 code unit; only code units below
  256 are representable, so the em dash of the source's messages is written as a hyphen.
  A JavaScript number is an \<open>int\<close> wherever the code keeps milliseconds, seconds, counters and
  token counts. An optional property is an \<open>option\<close>; \<open>undefined\<close> and an absent property are
  both \<open>None\<close>.
\<close>

named_theorems js_defs "definitions of the JavaScript library functions"
named_theorems orch_defs "definitions of the orchestration's monadic primitives"

subsection \<open>Truthiness of optional strings\<close>

text \<open>\<open>if (s)\<close> for an optional string: present and not empty.\<close>

definition truthy :: "string option \<Rightarrow> bool" where
  [js_defs]: "truthy s = (case s of None \<Rightarrow> False | Some t \<Rightarrow> t \<noteq> [])"

text \<open>\<open>s || d\<close>, for an optional string and a string.\<close>

definition or_str :: "string option \<Rightarrow> string \<Rightarrow> string" where
  [js_defs]: "or_str s d = (case s of None \<Rightarrow> d | Some t \<Rightarrow> if t = [] then d else t)"

text \<open>\<open>s ?? d\<close>.\<close>

definition default_to :: "'a option \<Rightarrow> 'a \<Rightarrow> 'a" where
  [js_defs]: "default_to x d = (case x of None \<Rightarrow> d | Some y \<Rightarrow> y)"

text \<open>\<open>a ?? b\<close> where both sides may be absent.\<close>

definition or_else :: "'a option \<Rightarrow> 'a option \<Rightarrow> 'a option" where
  [js_defs]: "or_else x y = (case x of None \<Rightarrow> y | Some z \<Rightarrow> Some z)"

text \<open>\<open>...(s ? { k: s } : {})\<close>: a property that is kept only when truthy.\<close>

definition keep_truthy :: "string option \<Rightarrow> string option" where
  [js_defs]: "keep_truthy s = (if truthy s then s else None)"

lemma truthy_simps [simp]:
  "truthy None = False" "truthy (Some s) = (s \<noteq> [])"
  by (simp_all add: truthy_def)

lemma default_to_simps [simp]:
  "default_to None d = d" "default_to (Some x) d = x"
  by (simp_all add: default_to_def)

lemma or_else_simps [simp]:
  "or_else None y = y" "or_else (Some x) y = Some x" "or_else z None = z"
  by (simp_all add: or_else_def split: option.splits)

lemma or_str_simps [simp]:
  "or_str None d = d" "or_str (Some s) d = (if s = [] then d else s)"
  by (simp_all add: or_str_def)

lemma keep_truthy_simps [simp]:
  "keep_truthy None = None" "keep_truthy (Some s) = (if s = [] then None else Some s)"
  "truthy (keep_truthy x) = truthy x"
  by (simp_all add: keep_truthy_def)

lemma keep_truthy_idem [simp]: "keep_truthy (keep_truthy s) = keep_truthy s"
  by (simp add: keep_truthy_def)

lemma find_append: "find P (xs @ ys) = (case find P xs of None \<Rightarrow> find P ys | Some x \<Rightarrow> Some x)"
  by (induction xs) auto

subsection \<open>Strings\<close>

abbreviation nl :: char where
  "nl \<equiv> CHR 0x0A"

definition is_ws :: "char \<Rightarrow> bool" where
  "is_ws c = (c \<in> set [CHR 0x09, CHR 0x0A, CHR 0x0B, CHR 0x0C, CHR 0x0D, CHR 0x20, CHR 0xA0])"

definition trim_start :: "string \<Rightarrow> string" where
  "trim_start s = dropWhile is_ws s"

definition trim_end :: "string \<Rightarrow> string" where
  "trim_end s = rev (dropWhile is_ws (rev s))"

definition trim :: "string \<Rightarrow> string" where
  "trim s = trim_end (trim_start s)"

definition starts_with :: "string \<Rightarrow> string \<Rightarrow> bool" where
  "starts_with s p = (take (length p) s = p)"

definition ends_with :: "string \<Rightarrow> string \<Rightarrow> bool" where
  "ends_with s p = starts_with (rev s) (rev p)"

text \<open>\<open>indexOf\<close>, \<open>lastIndexOf\<close> and \<open>includes\<close>; \<open>None\<close> stands for \<open>-1\<close>.\<close>

fun index_of :: "string \<Rightarrow> string \<Rightarrow> nat option" where
  "index_of [] p = (if p = [] then Some 0 else None)"
| "index_of (c # s) p =
     (if starts_with (c # s) p then Some 0 else map_option Suc (index_of s p))"

fun last_index_of :: "string \<Rightarrow> string \<Rightarrow> nat option" where
  "last_index_of [] p = (if p = [] then Some 0 else None)"
| "last_index_of (c # s) p =
     (case last_index_of s p of
        Some i \<Rightarrow> Some (Suc i)
      | None \<Rightarrow> if starts_with (c # s) p then Some 0 else None)"

definition str_includes :: "string \<Rightarrow> string \<Rightarrow> bool" where
  "str_includes s p = (index_of s p \<noteq> None)"

fun split_on :: "char \<Rightarrow> string \<Rightarrow> string list" where
  "split_on d [] = [[]]"
| "split_on d (c # s) =
     (if c = d then [] # split_on d s
      else (case split_on d s of [] \<Rightarrow> [[c]] | l # ls \<Rightarrow> (c # l) # ls))"

fun join :: "string \<Rightarrow> string list \<Rightarrow> string" where
  "join d [] = []"
| "join d [x] = x"
| "join d (x # y # zs) = x @ d @ join d (y # zs)"

definition to_lower :: "char \<Rightarrow> char" where
  "to_lower c =
     (let n = (of_char c :: nat) in if 65 \<le> n \<and> n \<le> 90 then char_of (n + 32) else c)"

text \<open>The word characters of a regular expression: letters, digits and the underscore.\<close>

definition is_word_char :: "char \<Rightarrow> bool" where
  "is_word_char c =
     (let n = (of_char c :: nat)
      in (48 \<le> n \<and> n \<le> 57) \<or> (65 \<le> n \<and> n \<le> 90) \<or> (97 \<le> n \<and> n \<le> 122) \<or> n = 95)"

text \<open>\<open>s.replace(/]$/, "")\<close>\<close>

definition strip_bracket :: "string \<Rightarrow> string" where
  "strip_bracket s = (if s \<noteq> [] \<and> last s = CHR '']'' then butlast s else s)"

lemma starts_with_append [simp]: "starts_with (p @ s) p"
  by (simp add: starts_with_def)

lemma starts_withE: "starts_with s p \<Longrightarrow> \<exists>r. s = p @ r"
  by (metis append_take_drop_id starts_with_def)

lemma ends_with_append [simp]: "ends_with (s @ p) p"
  by (simp add: ends_with_def)

lemma split_on_not_Nil [simp]: "split_on d s \<noteq> []"
  by (cases s) (auto split: list.splits)

lemma split_on_no_sep: "d \<notin> set s \<Longrightarrow> split_on d s = [s]"
  by (induction s) auto

lemma join_split: "join [d] (split_on d s) = s"
proof (induction s)
  case (Cons c s)
  then show ?case
    by (cases "split_on d s"; cases "tl (split_on d s)") auto
qed simp

lemma join_append: "xs \<noteq> [] \<Longrightarrow> ys \<noteq> [] \<Longrightarrow> join d (xs @ ys) = join d xs @ d @ join d ys"
proof (induction d xs rule: join.induct)
  case (2 d x)
  then show ?case by (cases ys) simp_all
qed simp_all

lemma str_includes_char: "str_includes s [c] \<longleftrightarrow> c \<in> set s"
  by (induction s) (auto simp: str_includes_def starts_with_def)

lemma split_on_head:
  "d \<notin> set h \<Longrightarrow> split_on d (h @ d # r) = h # split_on d r"
  by (induction h) auto

text \<open>A string that neither starts nor ends with white space.\<close>

definition trimmed :: "string \<Rightarrow> bool" where
  "trimmed s = (s = [] \<or> (\<not> is_ws (hd s) \<and> \<not> is_ws (last s)))"

lemma dropWhile_hd_id: "s = [] \<or> \<not> P (hd s) \<Longrightarrow> dropWhile P s = s"
  by (cases s) auto

lemma trim_trimmed: "trimmed s \<Longrightarrow> trim s = s"
  by (simp add: trimmed_def trim_def trim_start_def trim_end_def dropWhile_hd_id hd_rev)
     (metis rev_is_Nil_conv dropWhile_hd_id hd_rev rev_rev_ident)

lemma dropWhile_hd: "dropWhile P s \<noteq> [] \<Longrightarrow> \<not> P (hd (dropWhile P s))"
  by (induction s) auto

lemma trim_end_prefix: "\<exists>w. s = trim_end s @ w"
proof -
  have "rev s = takeWhile is_ws (rev s) @ dropWhile is_ws (rev s)" by simp
  then have "s = rev (dropWhile is_ws (rev s)) @ rev (takeWhile is_ws (rev s))"
    by (metis rev_append rev_rev_ident)
  then show ?thesis unfolding trim_end_def by blast
qed

lemma trimmed_trim: "trimmed (trim s)"
proof -
  let ?t = "trim_start s"
  obtain w where w: "?t = trim_end ?t @ w" using trim_end_prefix by blast
  have "trim_end ?t \<noteq> [] \<Longrightarrow> \<not> is_ws (hd (trim_end ?t))"
  proof -
    assume ne: "trim_end ?t \<noteq> []"
    then have "?t \<noteq> []" using w by auto
    then have "\<not> is_ws (hd ?t)" unfolding trim_start_def by (rule dropWhile_hd)
    then show ?thesis using ne w by (metis hd_append2)
  qed
  moreover have "trim_end ?t \<noteq> [] \<Longrightarrow> \<not> is_ws (last (trim_end ?t))"
    unfolding trim_end_def by (simp add: last_rev dropWhile_hd)
  ultimately show ?thesis unfolding trimmed_def trim_def by blast
qed

lemma trim_idem [simp]: "trim (trim s) = trim s"
  by (rule trim_trimmed [OF trimmed_trim])

subsection \<open>Numbers as text, rounding\<close>

definition digit_char :: "nat \<Rightarrow> char" where
  "digit_char d = char_of (48 + d)"

fun show_nat :: "nat \<Rightarrow> string" where
  "show_nat n = (if n < 10 then [digit_char n] else show_nat (n div 10) @ [digit_char (n mod 10)])"

declare show_nat.simps [simp del]

definition show_int :: "int \<Rightarrow> string" where
  "show_int i = (if i < 0 then CHR ''-'' # show_nat (nat (- i)) else show_nat (nat i))"

definition char_digit :: "char \<Rightarrow> nat" where
  "char_digit c = of_char c - 48"

definition parse_nat :: "string \<Rightarrow> nat" where
  "parse_nat s = foldl (\<lambda>n c. 10 * n + char_digit c) 0 s"

lemma char_digit_char [simp]: "d < 10 \<Longrightarrow> char_digit (digit_char d) = d"
  by (simp add: char_digit_def digit_char_def of_char_of)

lemma parse_show_nat [simp]: "parse_nat (show_nat n) = n"
proof (induction n rule: show_nat.induct)
  case (1 n)
  show ?case
  proof (cases "n < 10")
    case True
    then show ?thesis by (simp add: show_nat.simps [of n] parse_nat_def)
  next
    case False
    then have "parse_nat (show_nat (n div 10)) = n div 10" using 1 by blast
    then show ?thesis
      using False by (simp add: show_nat.simps [of n] parse_nat_def)
  qed
qed

lemma show_nat_inject [simp]: "show_nat m = show_nat n \<longleftrightarrow> m = n"
  by (metis parse_show_nat)

lemma show_nat_digits: "c \<in> set (show_nat n) \<Longrightarrow> \<exists>d < 10. c = digit_char d"
proof (induction n rule: show_nat.induct)
  case (1 n)
  then show ?case
    by (cases "n < 10") (auto simp: show_nat.simps [of n] intro: exI [of _ "n mod 10"])
qed

text \<open>\<open>Math.round(ms / 1000)\<close> and \<open>Math.ceil(ms / 1000)\<close> on integers.\<close>

definition round_sec :: "int \<Rightarrow> int" where
  "round_sec ms = (ms + 500) div 1000"

definition ceil_sec :: "int \<Rightarrow> int" where
  "ceil_sec ms = - ((- ms) div 1000)"

lemma round_sec_of_seconds [simp]: "round_sec (s * 1000) = s"
  by (simp add: round_sec_def)

lemma ceil_sec_of_seconds [simp]: "ceil_sec (s * 1000) = s"
  by (simp add: ceil_sec_def)

end
