(* ===== verification/WaitAffinity.thy ===== *)
theory WaitAffinity
  imports JsPrelude
begin

text \<open>
  Model of \<open>packages/sdk/src/wait-affinity.ts\<close>: whether a durable wait dehydrates the session,
  and whether the worker affinity survives it.
\<close>

record wait_plan_input =
  wp_blobEnabled :: bool
  wp_seconds :: int
  wp_dehydrateThreshold :: int
  wp_preserveWorkerAffinity :: "bool option"

record wait_plan =
  shouldDehydrate :: bool
  resetAffinityOnDehydrate :: bool
  preserveAffinityOnHydrate :: bool

definition planWaitHandling :: "wait_plan_input \<Rightarrow> wait_plan" where
  "planWaitHandling i =
     (let sd = wp_blobEnabled i \<and> wp_dehydrateThreshold i < wp_seconds i;
          keep = sd \<and> wp_preserveWorkerAffinity i = Some True
      in \<lparr> shouldDehydrate = sd,
           resetAffinityOnDehydrate = (if sd then \<not> keep else False),
           preserveAffinityOnHydrate = keep \<rparr>)"

lemma plan_shouldDehydrate [simp]:
  "shouldDehydrate (planWaitHandling i) \<longleftrightarrow>
     wp_blobEnabled i \<and> wp_dehydrateThreshold i < wp_seconds i"
  by (simp add: planWaitHandling_def Let_def)

text \<open>A plan either leaves the session alone or decides the affinity in exactly one way.\<close>

lemma plan_exclusive:
  "shouldDehydrate (planWaitHandling i) \<longleftrightarrow>
     resetAffinityOnDehydrate (planWaitHandling i) \<noteq> preserveAffinityOnHydrate (planWaitHandling i)"
  by (auto simp: planWaitHandling_def Let_def)

lemma plan_stay:
  "\<not> shouldDehydrate (planWaitHandling i) \<Longrightarrow>
     \<not> resetAffinityOnDehydrate (planWaitHandling i) \<and>
     \<not> preserveAffinityOnHydrate (planWaitHandling i)"
  by (auto simp: planWaitHandling_def Let_def)

end
