(* ===== verification/Json.thy ===== *)
theory Json
  imports JsPrelude
begin

text \<open>
  JSON values and \<open>JSON.stringify\<close>, of which the work buffer uses the length of the text.
  Numbers are integers; an object is its list of properties in insertion order.
\<close>

datatype json =
    JNull
  | JBool bool
  | JNum int
  | JStr string
  | JArr "json list"
  | JObj "(string \<times> json) list"

fun json_get :: "json \<Rightarrow> string \<Rightarrow> json option" where
  "json_get (JObj fs) k = map_of fs k"
| "json_get _ k = None"

text \<open>\<open>data && typeof data === "object"\<close>: null is excluded by truthiness.\<close>

fun json_is_object :: "json \<Rightarrow> bool" where
  "json_is_object (JObj _) = True"
| "json_is_object (JArr _) = True"
| "json_is_object _ = False"

definition hex_char :: "nat \<Rightarrow> char" where
  "hex_char d = (if d < 10 then char_of (48 + d) else char_of (87 + d))"

definition escape_char :: "char \<Rightarrow> string" where
  "escape_char c =
     (let n = (of_char c :: nat)
      in if n = 34 then [char_of (92::nat), c]
         else if n = 92 then [c, c]
         else if n = 8 then [char_of (92::nat), CHR ''b'']
         else if n = 12 then [char_of (92::nat), CHR ''f'']
         else if n = 10 then [char_of (92::nat), CHR ''n'']
         else if n = 13 then [char_of (92::nat), CHR ''r'']
         else if n = 9 then [char_of (92::nat), CHR ''t'']
         else if n < 32 then [char_of (92::nat), CHR ''u'', CHR ''0'', CHR ''0'',
                              hex_char (n div 16), hex_char (n mod 16)]
         else [c])"

definition quote :: "string \<Rightarrow> string" where
  "quote s = char_of (34::nat) # concat (map escape_char s) @ [char_of (34::nat)]"

fun stringify :: "json \<Rightarrow> string"
  and stringify_items :: "json list \<Rightarrow> string list"
  and stringify_fields :: "(string \<times> json) list \<Rightarrow> string list" where
  "stringify JNull = ''null''"
| "stringify (JBool b) = (if b then ''true'' else ''false'')"
| "stringify (JNum i) = show_int i"
| "stringify (JStr s) = quote s"
| "stringify (JArr xs) = ''['' @ join '','' (stringify_items xs) @ '']''"
| "stringify (JObj fs) = ''{'' @ join '','' (stringify_fields fs) @ ''}''"
| "stringify_items [] = []"
| "stringify_items (x # xs) = stringify x # stringify_items xs"
| "stringify_fields [] = []"
| "stringify_fields ((k, x) # fs) = (quote k @ '':'' @ stringify x) # stringify_fields fs"

text \<open>Properties whose value is \<open>undefined\<close> are left out of the text.\<close>

definition opt_field :: "string \<Rightarrow> ('a \<Rightarrow> json) \<Rightarrow> 'a option \<Rightarrow> (string \<times> json) list" where
  "opt_field k f x = (case x of None \<Rightarrow> [] | Some v \<Rightarrow> [(k, f v)])"

lemma length_join:
  "length (join d xs) = sum_list (map length xs) + (length xs - 1) * length d"
  by (induction d xs rule: join.induct) (auto simp: algebra_simps)

lemma length_stringify_items [simp]: "length (stringify_items xs) = length xs"
  by (induction xs) auto

lemma stringify_items_append [simp]:
  "stringify_items (xs @ ys) = stringify_items xs @ stringify_items ys"
  by (induction xs) auto

lemma stringify_items_map: "stringify_items xs = map stringify xs"
  by (induction xs) auto

text \<open>The text of an array is at least as long as the text of each of its elements.\<close>

lemma stringify_item_le:
  "x \<in> set xs \<Longrightarrow> length (stringify x) \<le> length (stringify (JArr xs))"
proof -
  assume "x \<in> set xs"
  then have "length (stringify x) \<in> set (map length (stringify_items xs))"
    by (simp add: stringify_items_map)
  then have "length (stringify x) \<le> sum_list (map length (stringify_items xs))"
    by (rule member_le_sum_list) simp
  then show ?thesis by (simp add: length_join)
qed

text \<open>Appending one element adds its text and at most one comma.\<close>

lemma stringify_snoc:
  "length (stringify (JArr (xs @ [x]))) =
     length (stringify (JArr xs)) + length (stringify x) + (if xs = [] then 0 else 1)"
  by (cases xs) (auto simp: length_join)

end
