(* ===== verification/DataModel.thy ===== *)
theory DataModel
  imports Complex_Main WaitAffinity Json
begin

text \<open>
  The data of \<open>packages/sdk/src/types.ts\<close>: turn results and actions, session configuration,
  context usage, the orchestration input carried by continue-as-new, command messages and the
  published status. Optional properties are \<open>option\<close>; a property read only through
  \<open>x === true\<close> or truthiness keeps its presence as \<open>bool option\<close>.
\<close>

subsection \<open>Session configuration\<close>

datatype system_mode = ModeAppend | ModeReplace

datatype system_message = SysText string | SysObj system_mode string

datatype prompt_layer = AppAgent | AppSystemAgent | PilotswarmSystemAgent

record session_config =
  c_model :: "string option"
  c_systemMessage :: "system_message option"
  c_turnSystemPrompt :: "string option"
  c_workingDirectory :: "string option"
  c_waitThreshold :: "int option"
  c_boundAgentName :: "string option"
  c_promptLayering :: "prompt_layer option"
  c_toolNames :: "string list option"
  c_reasoningEffort :: "string option"
  c_agentIdentity :: "string option"

subsection \<open>Turn actions and results\<close>

datatype cron_action = CronSet int string | CronCancel

record spawn_args =
  sp_task :: string
  sp_model :: "string option"
  sp_reasoningEffort :: "string option"
  sp_systemMessage :: "system_message option"
  sp_toolNames :: "string list option"
  sp_agentName :: "string option"
  sp_title :: "string option"

record input_question =
  iq_question :: string
  iq_choices :: "string list option"
  iq_allowFreeform :: "bool option"

datatype turn_action =
    TCompleted string
  | TWait int string "bool option" "string option"
  | TCron cron_action
  | TInputRequired input_question
  | TSpawnAgent spawn_args
  | TMessageAgent string string
  | TCheckAgents
  | TWaitForAgents "string list"
  | TListSessions
  | TCompleteAgent string
  | TCancelAgent string "string option"
  | TDeleteAgent string "string option"
  | TCancelled
  | TError string

record captured_event =
  ev_type :: string
  ev_data :: json

record turn_result =
  tr_action :: turn_action
  tr_model :: "string option"
  tr_events :: "captured_event list"
  tr_queued :: "turn_action list"

subsection \<open>Session status and context usage\<close>

datatype session_status =
    Pending | Running | Idle | Waiting | InputRequired | Completed | Cancelled | Failed | Errored

datatype compaction_state = CompIdle | CompRunning | CompSucceeded | CompFailed

record compaction_snapshot =
  cp_state :: compaction_state
  cp_startedAt :: "int option"
  cp_completedAt :: "int option"
  cp_error :: "string option"
  cp_preCompactionTokens :: "int option"
  cp_postCompactionTokens :: "int option"
  cp_preCompactionMessagesLength :: "int option"
  cp_messagesRemoved :: "int option"
  cp_tokensRemoved :: "int option"
  cp_systemTokens :: "int option"
  cp_conversationTokens :: "int option"
  cp_toolDefinitionsTokens :: "int option"
  cp_inputTokens :: "int option"
  cp_outputTokens :: "int option"
  cp_cachedInputTokens :: "int option"

record context_usage =
  cu_tokenLimit :: int
  cu_currentTokens :: int
  cu_utilization :: rat
  cu_messagesLength :: int
  cu_systemTokens :: "int option"
  cu_conversationTokens :: "int option"
  cu_toolDefinitionsTokens :: "int option"
  cu_isInitial :: "bool option"
  cu_lastInputTokens :: "int option"
  cu_lastOutputTokens :: "int option"
  cu_lastCacheReadTokens :: "int option"
  cu_lastCacheWriteTokens :: "int option"
  cu_updatedAt :: "int option"
  cu_compaction :: "compaction_snapshot option"

record cron_schedule =
  cs_intervalSeconds :: int
  cs_reason :: string

subsection \<open>Sub-agents, timers, shutdown and child updates\<close>

datatype agent_status = AgRunning | AgWaiting | AgCompleted | AgFailed | AgCancelled

record sub_agent =
  sa_orchId :: string
  sa_sessionId :: string
  sa_task :: string
  sa_status :: agent_status
  sa_result :: "string option"
  sa_agentId :: "string option"

datatype timer_type = TmWait | TmCron | TmIdle | TmAgentPoll | TmInputGrace

record active_timer =
  tm_deadlineMs :: int
  tm_originalDurationMs :: int
  tm_reason :: string
  tm_type :: timer_type
  tm_shouldRehydrate :: "bool option"
  tm_waitPlan :: "wait_plan option"
  tm_content :: "string option"
  tm_question :: "string option"
  tm_choices :: "string list option"
  tm_allowFreeform :: "bool option"
  tm_agentIds :: "string list option"

record active_timer_state =
  ts_remainingMs :: int
  ts_reason :: string
  ts_type :: timer_type
  ts_originalDurationMs :: "int option"
  ts_shouldRehydrate :: "bool option"
  ts_waitPlan :: "wait_plan option"
  ts_content :: "string option"
  ts_question :: "string option"
  ts_choices :: "string list option"
  ts_allowFreeform :: "bool option"
  ts_agentIds :: "string list option"

datatype interrupt_kind = ByChild | ByUser

record interrupted_wait =
  iw_remainingSec :: int
  iw_reason :: string
  iw_shouldRehydrate :: bool
  iw_waitPlan :: "wait_plan option"
  iw_interruptKind :: "interrupt_kind option"

record interrupted_cron =
  ic_remainingMs :: int
  ic_reason :: string
  ic_originalDurationMs :: "int option"
  ic_shouldRehydrate :: "bool option"

record child_update =
  up_sessionId :: string
  up_updateType :: string
  up_content :: string

record digest_entry =
  de_sessionId :: string
  de_updateType :: string
  de_content :: "string option"
  de_observedAtMs :: int

record child_digest =
  cd_startedAtMs :: int
  cd_ready :: bool
  cd_updates :: "digest_entry list"

datatype shutdown_mode = ModeDone | ModeCancel | ModeDelete

record pending_shutdown =
  ps_mode :: shutdown_mode
  ps_reason :: string
  ps_startedAtMs :: int
  ps_deadlineAtMs :: int
  ps_targetAgentIds :: "string list"
  ps_commandId :: "string option"

subsection \<open>Messages on the session's queue\<close>

text \<open>
  A queued message is read through its properties: \<open>type\<close> selects a command, \<open>answer\<close> an answer
  to a question, \<open>prompt\<close> a prompt or a child update.
\<close>

record message =
  m_type :: "string option"
  m_cmd :: string
  m_id :: string
  m_args :: "(string \<times> json) list"
  m_prompt :: "string option"
  m_bootstrap :: "bool option"
  m_requiredTool :: "string option"
  m_answer :: "string option"
  m_wasFreeform :: "bool option"

record command_message =
  cm_cmd :: string
  cm_id :: string
  cm_args :: "(string \<times> json) list"

record session_info =
  nf_model :: string
  nf_iteration :: nat
  nf_sessionId :: string
  nf_affinityKey :: string
  nf_affinityKeyShort :: string
  nf_preserveAffinityOnHydrate :: bool
  nf_needsHydration :: bool
  nf_blobEnabled :: bool
  nf_contextUsage :: "context_usage option"

datatype command_result =
    ResMessage string
  | ResModelSet string string
  | ResModels json "string option"
  | ResInfo session_info

record command_response =
  cr_id :: string
  cr_cmd :: string
  cr_result :: "command_result option"
  cr_error :: "string option"

datatype response_type = RespCompleted | RespWait | RespInputRequired

record session_response =
  sr_version :: nat
  sr_iteration :: nat
  sr_type :: response_type
  sr_content :: "string option"
  sr_question :: "input_question option"
  sr_waitReason :: "string option"
  sr_waitSeconds :: "int option"
  sr_waitStartedAt :: "int option"
  sr_emittedAt :: int
  sr_model :: "string option"

record session_command_response =
  scr_response :: command_response
  scr_version :: nat
  scr_emittedAt :: int

record status_signal =
  sg_status :: session_status
  sg_iteration :: nat
  sg_responseVersion :: "nat option"
  sg_commandVersion :: "nat option"
  sg_commandId :: "string option"
  sg_cronActive :: bool
  sg_cronInterval :: "int option"
  sg_cronReason :: "string option"
  sg_contextUsage :: "context_usage option"
  sg_cmdProcessing :: "string option"
  sg_waitReason :: "string option"
  sg_waitSeconds :: "int option"
  sg_waitStartedAt :: "int option"
  sg_preserveWorkerAffinity :: "bool option"
  sg_error :: "string option"
  sg_retriesExhausted :: bool
  sg_recoverableTransportLoss :: bool
  sg_lossyHandoff :: "bool option"
  sg_fatal :: bool
  sg_policyRejected :: bool
  sg_workerManagedAgent :: bool

subsection \<open>The input of an orchestration execution\<close>

record orch_input =
  in_sessionId :: string
  in_config :: session_config
  in_sourceOrchestrationVersion :: "string option"
  in_iteration :: "nat option"
  in_affinityKey :: "string option"
  in_preserveAffinityOnHydrate :: "bool option"
  in_needsHydration :: "bool option"
  in_blobEnabled :: "bool option"
  in_prompt :: "string option"
  in_requiredTool :: "string option"
  in_systemPrompt :: "string option"
  in_bootstrapPrompt :: "bool option"
  in_dehydrateThreshold :: "int option"
  in_idleTimeout :: "int option"
  in_inputGracePeriod :: "int option"
  in_nextSummarizeAt :: "int option"
  in_retryCount :: "nat option"
  in_taskContext :: "string option"
  in_baseSystemMessage :: "system_message option"
  in_checkpointInterval :: "int option"
  in_rehydrationMessage :: "string option"
  in_forgottenTimerNudged :: "bool option"
  in_cronSchedule :: "cron_schedule option"
  in_contextUsage :: "context_usage option"
  in_activeTimerState :: "active_timer_state option"
  in_waitingForAgentIds :: "string list option"
  in_pendingInputQuestion :: "input_question option"
  in_interruptedWaitTimer :: "interrupted_wait option"
  in_interruptedCronTimer :: "interrupted_cron option"
  in_pendingChildDigest :: "child_digest option"
  in_pendingShutdown :: "pending_shutdown option"
  in_subAgents :: "sub_agent list option"
  in_pendingToolActions :: "turn_action list option"
  in_pendingMessage :: "message option"
  in_parentSessionId :: "string option"
  in_parentOrchId :: "string option"
  in_nestingLevel :: "nat option"
  in_isSystem :: "bool option"
  in_agentId :: "string option"

definition SESSION_STATE_MISSING_PREFIX :: string where
  "SESSION_STATE_MISSING_PREFIX = ''SESSION_STATE_MISSING:''"

definition RESPONSE_VERSION_KEY :: string where
  "RESPONSE_VERSION_KEY = ''meta.responseVersion''"

definition COMMAND_VERSION_KEY :: string where
  "COMMAND_VERSION_KEY = ''meta.commandVersion''"

definition RESPONSE_LATEST_KEY :: string where
  "RESPONSE_LATEST_KEY = ''response.latest''"

definition commandResponseKey :: "string \<Rightarrow> string" where
  "commandResponseKey cmdId = ''command.response.'' @ cmdId"

definition DURABLE_SESSION_LATEST_VERSION :: string where
  "DURABLE_SESSION_LATEST_VERSION = ''1.0.44''"

lemma commandResponseKey_inject [simp]: "commandResponseKey a = commandResponseKey b \<longleftrightarrow> a = b"
  by (simp add: commandResponseKey_def)

subsection \<open>An input with nothing but a session id\<close>

text \<open>Used to state examples: every optional property is absent.\<close>

definition blank_config :: session_config where
  "blank_config = \<lparr> c_model = None, c_systemMessage = None, c_turnSystemPrompt = None,
     c_workingDirectory = None, c_waitThreshold = None, c_boundAgentName = None,
     c_promptLayering = None, c_toolNames = None, c_reasoningEffort = None, c_agentIdentity = None \<rparr>"

definition blank_input :: "string \<Rightarrow> orch_input" where
  "blank_input sid = \<lparr> in_sessionId = sid, in_config = blank_config,
     in_sourceOrchestrationVersion = None, in_iteration = None, in_affinityKey = None,
     in_preserveAffinityOnHydrate = None, in_needsHydration = None, in_blobEnabled = None,
     in_prompt = None, in_requiredTool = None, in_systemPrompt = None, in_bootstrapPrompt = None,
     in_dehydrateThreshold = None, in_idleTimeout = None, in_inputGracePeriod = None,
     in_nextSummarizeAt = None, in_retryCount = None, in_taskContext = None,
     in_baseSystemMessage = None, in_checkpointInterval = None, in_rehydrationMessage = None,
     in_forgottenTimerNudged = None, in_cronSchedule = None, in_contextUsage = None,
     in_activeTimerState = None, in_waitingForAgentIds = None, in_pendingInputQuestion = None,
     in_interruptedWaitTimer = None, in_interruptedCronTimer = None, in_pendingChildDigest = None,
     in_pendingShutdown = None, in_subAgents = None, in_pendingToolActions = None,
     in_pendingMessage = None, in_parentSessionId = None, in_parentOrchId = None,
     in_nestingLevel = None, in_isSystem = None, in_agentId = None \<rparr>"

lemma blank_fields [simp]:
  "in_sessionId (blank_input s) = s" "in_config (blank_input s) = blank_config"
  "in_sourceOrchestrationVersion (blank_input s) = None"
  "in_iteration (blank_input s) = None"
  "in_affinityKey (blank_input s) = None"
  "in_preserveAffinityOnHydrate (blank_input s) = None"
  "in_needsHydration (blank_input s) = None"
  "in_blobEnabled (blank_input s) = None"
  "in_prompt (blank_input s) = None"
  "in_requiredTool (blank_input s) = None"
  "in_systemPrompt (blank_input s) = None"
  "in_bootstrapPrompt (blank_input s) = None"
  "in_dehydrateThreshold (blank_input s) = None"
  "in_idleTimeout (blank_input s) = None"
  "in_inputGracePeriod (blank_input s) = None"
  "in_nextSummarizeAt (blank_input s) = None"
  "in_retryCount (blank_input s) = None"
  "in_taskContext (blank_input s) = None"
  "in_baseSystemMessage (blank_input s) = None"
  "in_checkpointInterval (blank_input s) = None"
  "in_rehydrationMessage (blank_input s) = None"
  "in_forgottenTimerNudged (blank_input s) = None"
  "in_cronSchedule (blank_input s) = None"
  "in_contextUsage (blank_input s) = None"
  "in_activeTimerState (blank_input s) = None"
  "in_waitingForAgentIds (blank_input s) = None"
  "in_pendingInputQuestion (blank_input s) = None"
  "in_interruptedWaitTimer (blank_input s) = None"
  "in_interruptedCronTimer (blank_input s) = None"
  "in_pendingChildDigest (blank_input s) = None"
  "in_pendingShutdown (blank_input s) = None"
  "in_subAgents (blank_input s) = None"
  "in_pendingToolActions (blank_input s) = None"
  "in_pendingMessage (blank_input s) = None"
  "in_parentSessionId (blank_input s) = None"
  "in_parentOrchId (blank_input s) = None"
  "in_nestingLevel (blank_input s) = None"
  "in_isSystem (blank_input s) = None"
  "in_agentId (blank_input s) = None"
  by (simp_all add: blank_input_def)

definition command_to :: "string \<Rightarrow> string \<Rightarrow> (string \<times> json) list \<Rightarrow> message" where
  "command_to cmd i args = \<lparr> m_type = Some ''cmd'', m_cmd = cmd, m_id = i, m_args = args,
     m_prompt = None, m_bootstrap = None, m_requiredTool = None, m_answer = None,
     m_wasFreeform = None \<rparr>"

end
