(* ===== verification/OrchMonad.thy ===== *)
theory OrchMonad
  imports JsPrelude
begin

text \<open>
  The execution model of a durable orchestration. The source is a generator: its local
  variables are a state, a \<open>yield\<close> asks the runtime for an effect and may throw what the
  activity threw, and the generator may never be resumed (it waits for a response the history
  does not hold, or it has continued as new). A program is a function from the state to an
  outcome and the new state.
\<close>

datatype ('h, 'a) outcome = Ret 'a | Throw string | Stop 'h

type_synonym ('s, 'h, 'a) prog = "'s \<Rightarrow> ('h, 'a) outcome \<times> 's"

definition ret :: "'a \<Rightarrow> ('s, 'h, 'a) prog" where
  [orch_defs]: "ret x s = (Ret x, s)"

definition throw :: "string \<Rightarrow> ('s, 'h, 'a) prog" where
  [orch_defs]: "throw e s = (Throw e, s)"

definition stop :: "'h \<Rightarrow> ('s, 'h, 'a) prog" where
  [orch_defs]: "stop h s = (Stop h, s)"

definition bind :: "('s, 'h, 'a) prog \<Rightarrow> ('a \<Rightarrow> ('s, 'h, 'b) prog) \<Rightarrow> ('s, 'h, 'b) prog" where
  [orch_defs]: "bind m f s =
     (case m s of
        (Ret x, s') \<Rightarrow> f x s'
      | (Throw e, s') \<Rightarrow> (Throw e, s')
      | (Stop h, s') \<Rightarrow> (Stop h, s'))"

definition andThen :: "('s, 'h, 'a) prog \<Rightarrow> ('s, 'h, 'b) prog \<Rightarrow> ('s, 'h, 'b) prog" where
  [orch_defs]: "andThen m n = bind m (\<lambda>_. n)"

text \<open>\<open>doing [m1, \<dots>, mk]\<close> runs statements in order.\<close>

primrec doing :: "('s, 'h, unit) prog list \<Rightarrow> ('s, 'h, unit) prog" where
  "doing [] = ret ()"
| "doing (m # ms) = andThen m (doing ms)"

definition read_state :: "('s \<Rightarrow> 'a) \<Rightarrow> ('s, 'h, 'a) prog" where
  [orch_defs]: "read_state f s = (Ret (f s), s)"

definition modify :: "('s \<Rightarrow> 's) \<Rightarrow> ('s, 'h, unit) prog" where
  [orch_defs]: "modify f s = (Ret (), f s)"

text \<open>A block whose shape depends on the current values of the local variables.\<close>

definition inspect :: "('s \<Rightarrow> ('s, 'h, 'a) prog) \<Rightarrow> ('s, 'h, 'a) prog" where
  [orch_defs]: "inspect f s = f s s"

definition try_catch ::
    "('s, 'h, 'a) prog \<Rightarrow> (string \<Rightarrow> ('s, 'h, 'a) prog) \<Rightarrow> ('s, 'h, 'a) prog" where
  [orch_defs]: "try_catch m h s =
     (case m s of (Throw e, s') \<Rightarrow> h e s' | r \<Rightarrow> r)"

definition cond :: "bool \<Rightarrow> ('s, 'h, unit) prog \<Rightarrow> ('s, 'h, unit) prog" where
  [orch_defs]: "cond b m = (if b then m else ret ())"

primrec for_each :: "'a list \<Rightarrow> ('a \<Rightarrow> ('s, 'h, unit) prog) \<Rightarrow> ('s, 'h, unit) prog" where
  "for_each [] f = ret ()"
| "for_each (x # xs) f = andThen (f x) (for_each xs f)"

lemma ret_bind [simp]: "bind (ret x) f = f x"
  by (simp add: orch_defs fun_eq_iff)

lemma bind_ret [simp]: "bind m ret = m"
  by (auto simp: orch_defs fun_eq_iff split: prod.splits outcome.splits)

lemma bind_assoc: "bind (bind m f) g = bind m (\<lambda>x. bind (f x) g)"
  by (auto simp: bind_def fun_eq_iff split: prod.splits outcome.splits)

lemma throw_bind [simp]: "bind (throw e) f = throw e"
  by (simp add: orch_defs fun_eq_iff)

lemma stop_bind [simp]: "bind (stop h) f = stop h"
  by (simp add: orch_defs fun_eq_iff)

lemma catch_throw [simp]: "try_catch (throw e) h = h e"
  by (simp add: orch_defs fun_eq_iff)

lemma catch_ret [simp]: "try_catch (ret x) h = ret x"
  by (simp add: orch_defs fun_eq_iff)

lemma catch_stop [simp]: "try_catch (stop k) h = stop k"
  by (simp add: orch_defs fun_eq_iff)

subsection \<open>Contracts kept by every program\<close>

text \<open>
  \<open>steps R Q s m\<close>: running \<open>m\<close> from \<open>s\<close> ends, however it ends, in a state related to \<open>s\<close>, and
  where it halts for good, the halt and the state satisfy \<open>Q\<close>. For a preorder \<open>R\<close> the
  combinators keep it, so a contract that every primitive keeps is kept by every handler.
  Invariants are the instance \<open>I s \<longrightarrow> I s'\<close>, frame conditions \<open>f s' = f s\<close>, monotonicity
  \<open>f s \<le> f s'\<close>.
\<close>

definition steps ::
    "('s \<Rightarrow> 's \<Rightarrow> bool) \<Rightarrow> ('h \<Rightarrow> 's \<Rightarrow> bool) \<Rightarrow> 's \<Rightarrow> ('s, 'h, 'a) prog \<Rightarrow> bool" where
  "steps R Q s m = (case m s of
     (Stop h, s') \<Rightarrow> R s s' \<and> Q h s' | (_, s') \<Rightarrow> R s s')"

definition keeps ::
    "('s \<Rightarrow> 's \<Rightarrow> bool) \<Rightarrow> ('h \<Rightarrow> 's \<Rightarrow> bool) \<Rightarrow> ('s, 'h, 'a) prog \<Rightarrow> bool" where
  "keeps R Q m = (\<forall>s. steps R Q s m)"

lemma stepsD: "steps R Q s m \<Longrightarrow> R s (snd (m s))"
  by (auto simp: steps_def split: prod.splits outcome.splits)

lemma keepsD: "keeps R Q m \<Longrightarrow> R s (snd (m s))"
  unfolding keeps_def by (blast intro: stepsD)

lemma steps_halt: "steps R Q s m \<Longrightarrow> m s = (Stop h, s') \<Longrightarrow> Q h s'"
  by (simp add: steps_def)

lemma keeps_halt: "keeps R Q m \<Longrightarrow> m s = (Stop h, s') \<Longrightarrow> Q h s'"
  by (metis keeps_def steps_halt)

lemma keeps_result: "keeps R Q m \<Longrightarrow> m s = (r, s') \<Longrightarrow> R s s'"
  by (metis keepsD snd_conv)

lemma keepsI: "(\<And>s. steps R Q s m) \<Longrightarrow> keeps R Q m"
  by (simp add: keeps_def)

lemma keeps_steps: "keeps R Q m \<Longrightarrow> steps R Q s m"
  by (simp add: keeps_def)

locale step_contract =
  fixes R :: "'s \<Rightarrow> 's \<Rightarrow> bool" and Q :: "'h \<Rightarrow> 's \<Rightarrow> bool"
  assumes contract_refl: "R s s"
    and contract_trans: "R s t \<Longrightarrow> R t u \<Longrightarrow> R s u"
begin

lemma steps_ret: "steps R Q s (ret x)"
  by (simp add: steps_def ret_def contract_refl)

lemma steps_throw: "steps R Q s (throw e)"
  by (simp add: steps_def throw_def contract_refl)

lemma steps_stop: "Q h s \<Longrightarrow> steps R Q s (stop h)"
  by (simp add: steps_def stop_def contract_refl)

lemma steps_read: "steps R Q s (read_state f)"
  by (simp add: steps_def read_state_def contract_refl)

lemma steps_modify: "R s (f s) \<Longrightarrow> steps R Q s (modify f)"
  by (simp add: steps_def modify_def)

lemma steps_inspect: "steps R Q s (f s) \<Longrightarrow> steps R Q s (inspect f)"
  by (simp add: steps_def inspect_def)

lemma steps_bind:
  assumes "steps R Q s m" and "\<And>x s'. m s = (Ret x, s') \<Longrightarrow> steps R Q s' (f x)"
  shows "steps R Q s (bind m f)"
proof (cases "m s")
  case (Pair r s')
  then show ?thesis
    using assms by (cases r) (auto simp: steps_def bind_def intro: contract_trans split: prod.splits outcome.splits)
qed

lemma steps_andThen:
  assumes "steps R Q s m" and "\<And>x s'. m s = (Ret x, s') \<Longrightarrow> steps R Q s' n"
  shows "steps R Q s (andThen m n)"
  unfolding andThen_def using assms by (rule steps_bind)

lemma steps_catch:
  assumes "steps R Q s m" and "\<And>e s'. m s = (Throw e, s') \<Longrightarrow> steps R Q s' (h e)"
  shows "steps R Q s (try_catch m h)"
proof (cases "m s")
  case (Pair r s')
  then show ?thesis
    using assms by (cases r) (auto simp: steps_def try_catch_def intro: contract_trans split: prod.splits outcome.splits)
qed

lemma steps_cond: "(b \<Longrightarrow> steps R Q s m) \<Longrightarrow> steps R Q s (cond b m)"
  by (auto simp: cond_def steps_ret)

lemma steps_if:
  "(b \<Longrightarrow> steps R Q s m) \<Longrightarrow> (\<not> b \<Longrightarrow> steps R Q s n) \<Longrightarrow> steps R Q s (if b then m else n)"
  by simp

lemma keeps_ret: "keeps R Q (ret x)"
  by (simp add: keeps_def steps_ret)

lemma keeps_throw: "keeps R Q (throw e)"
  by (simp add: keeps_def steps_throw)

lemma keeps_stop: "(\<And>s. Q h s) \<Longrightarrow> keeps R Q (stop h)"
  by (simp add: keeps_def steps_stop)

lemma keeps_read: "keeps R Q (read_state f)"
  by (simp add: keeps_def steps_read)

lemma keeps_modify: "(\<And>s. R s (f s)) \<Longrightarrow> keeps R Q (modify f)"
  by (simp add: keeps_def steps_modify)

lemma keeps_bind: "keeps R Q m \<Longrightarrow> (\<And>x. keeps R Q (f x)) \<Longrightarrow> keeps R Q (bind m f)"
  by (auto simp: keeps_def intro: steps_bind)

lemma keeps_andThen: "keeps R Q m \<Longrightarrow> keeps R Q n \<Longrightarrow> keeps R Q (andThen m n)"
  by (auto simp: keeps_def intro: steps_andThen)

lemma keeps_catch: "keeps R Q m \<Longrightarrow> (\<And>e. keeps R Q (h e)) \<Longrightarrow> keeps R Q (try_catch m h)"
  by (auto simp: keeps_def intro: steps_catch)

lemma keeps_inspect: "(\<And>s. keeps R Q (f s)) \<Longrightarrow> keeps R Q (inspect f)"
  by (auto simp: keeps_def intro: steps_inspect)

lemma keeps_cond: "keeps R Q m \<Longrightarrow> keeps R Q (cond b m)"
  by (auto simp: cond_def keeps_ret)

lemma keeps_if: "keeps R Q m \<Longrightarrow> keeps R Q n \<Longrightarrow> keeps R Q (if b then m else n)"
  by simp

lemma keeps_let: "(\<And>x. keeps R Q (f x)) \<Longrightarrow> keeps R Q (let x = e in f x)"
  by simp

lemma keeps_option:
  "keeps R Q m \<Longrightarrow> (\<And>x. keeps R Q (f x)) \<Longrightarrow>
     keeps R Q (case y of None \<Rightarrow> m | Some x \<Rightarrow> f x)"
  by (cases y) auto

lemma keeps_list:
  "keeps R Q m \<Longrightarrow> (\<And>x xs. keeps R Q (f x xs)) \<Longrightarrow>
     keeps R Q (case y of [] \<Rightarrow> m | x # xs \<Rightarrow> f x xs)"
  by (cases y) auto

lemma keeps_doing: "(\<And>m. m \<in> set ms \<Longrightarrow> keeps R Q m) \<Longrightarrow> keeps R Q (doing ms)"
  by (induction ms) (auto intro: keeps_ret keeps_andThen)

lemma keeps_doing_Nil: "keeps R Q (doing [])"
  by (simp add: keeps_ret)

lemma keeps_doing_Cons: "keeps R Q m \<Longrightarrow> keeps R Q (doing ms) \<Longrightarrow> keeps R Q (doing (m # ms))"
  by (simp add: keeps_andThen)

lemma keeps_for_each: "(\<And>x. keeps R Q (f x)) \<Longrightarrow> keeps R Q (for_each xs f)"
  by (induction xs) (auto intro: keeps_ret keeps_andThen)

lemmas keeps_intros =
  keeps_ret keeps_throw keeps_read keeps_inspect keeps_bind keeps_andThen
  keeps_catch keeps_cond keeps_if keeps_let keeps_option keeps_list
  keeps_doing_Nil keeps_doing_Cons keeps_for_each

end

text \<open>The standard families of contracts.\<close>

lemma invariant_contract: "step_contract (\<lambda>s t. I s \<longrightarrow> I t)"
  by unfold_locales auto

lemma frame_contract: "step_contract (\<lambda>s t. f t = f s)"
  by unfold_locales auto

subsection \<open>Running a program on a concrete state\<close>

text \<open>
  With these congruences the simplifier runs a program applied to a state as an interpreter
  would: the continuations of the combinators are not simplified before they are reached.
\<close>

lemma bind_cong: "bind m f = bind m f" by (rule refl)

lemma andThen_cong: "andThen m n = andThen m n" by (rule refl)

lemma inspect_cong: "inspect f = inspect f" by (rule refl)

lemma catch_cong: "try_catch m h = try_catch m h" by (rule refl)

lemma cond_cong: "cond b m = cond b m" by (rule refl)

lemma doing_cong: "doing ms = doing ms" by (rule refl)

lemma modify_cong: "modify f = modify f" by (rule refl)

lemma for_each_cong: "for_each xs f = for_each xs f" by (rule refl)

lemmas run_congs = bind_cong andThen_cong inspect_cong catch_cong cond_cong doing_cong modify_cong
  for_each_cong

lemma doing_run: "doing [] s = ret () s" "doing (m # ms) s = andThen m (doing ms) s"
  by simp_all

lemma for_each_run:
  "for_each [] f s = ret () s" "for_each (x # xs) f s = andThen (f x) (for_each xs f) s"
  by simp_all

lemmas run_simps = orch_defs doing_run for_each_run

end
