(* ===== verification/OrchState.thy ===== *)
theory OrchState
  imports DataModel OrchMonad
begin

text \<open>
  The state of \<open>durableSessionOrchestration_1_0_44\<close> (\<open>packages/sdk/src/orchestration.ts\<close>): the
  generator's local variables, the key-value store of the orchestration instance, the history
  of responses still to be replayed and the trace of effects asked for. The runtime (duroxide)
  and the worker's activities are the history: a response per \<open>yield\<close>, which is any value of
  the effect's type or the error the activity threw.
\<close>

subsection \<open>The work buffer's items and the key-value store\<close>

datatype fifo_item =
    FPrompt string bool "string option"
  | FAnswer string "bool option"
  | FTimer active_timer int
  | FAgentsDone string
  | FUnknown string

datatype kv_value =
    KvCounter nat
  | KvItems "fifo_item list"
  | KvResponse session_response
  | KvCommand session_command_response

subsection \<open>Effects and responses\<close>

datatype session_op =
    SDehydrate string "(string \<times> json) list"
  | SHydrate
  | SNeedsHydration
  | SCheckpoint
  | SDestroy
  | SRunTurn session_config string bool nat "string option" nat "string option" nat

datatype manager_op =
    MRecordEvent string "(string \<times> json) list"
  | MSummarize
  | MSendToSession string string
  | MSendCommand string command_message
  | MGetSessionStatus string
  | MListChildren
  | MListSessions
  | MListModels
  | MUpdateCmsState string "string option"
  | MDeleteSession string string
  | MGetDescendants
  | MSpawnChild session_config string nat bool "string option" "string option" "string option" bool
  | MResolveAgent string
  | MGetPolicy
  | MLoadKnowledge
  | MGetStats

datatype effect =
    EUtcNow
  | ENewGuid
  | EScheduleTimer int
  | EDequeue
  | ERaceDequeue int
  | EStatus status_signal
  | ESession string session_op
  | EManager manager_op
  | EContinueAsNew orch_input string

record child_status =
  ct_status :: string
  ct_result :: "string option"
  ct_iterations :: "int option"

record child_session =
  ch_orchId :: string
  ch_sessionId :: string
  ch_title :: "string option"
  ch_status :: "string option"
  ch_isSystem :: bool
  ch_agentId :: "string option"
  ch_result :: "string option"

record listed_session =
  ls_sessionId :: string
  ls_title :: "string option"
  ls_status :: string
  ls_iterations :: "int option"
  ls_parentSessionId :: "string option"

record creation_policy =
  pol_allowlist :: bool
  pol_allowGeneric :: "bool option"

record agent_definition =
  ad_name :: string
  ad_id :: "string option"
  ad_title :: "string option"
  ad_initialPrompt :: "string option"
  ad_tools :: "string list option"
  ad_system :: "bool option"
  ad_creatable :: "bool option"
  ad_splash :: "string option"
  ad_namespace :: "string option"
  ad_promptLayerKind :: "prompt_layer option"

datatype resp =
    RUnit
  | RErr string
  | RInt int
  | RStr string
  | RBool bool
  | RMessage message
  | RTimerFired
  | RTurn turn_result
  | RLossy "json option"
  | RAgentStatus child_status
  | RChildren "child_session list"
  | RSessions "listed_session list"
  | RModels json
  | RIds "string list"
  | RPolicy "creation_policy option" "string list"
  | RAgentDef "agent_definition option"
  | RHistorySize "int option"

datatype halt = Suspended | BadHistory | ContinuedAsNew orch_input

subsection \<open>The orchestration's state\<close>

record orch =
  inp :: orch_input
  kv :: "string \<Rightarrow> kv_value option"
  history :: "resp list"
  trace :: "effect list"
  v_pendingRehydrationMessage :: "string option"
  v_needsHydration :: bool
  v_affinityKey :: string
  v_session :: string
  v_preserveAffinity :: bool
  v_iteration :: nat
  v_config :: session_config
  v_retryCount :: nat
  v_taskContext :: "string option"
  v_cronSchedule :: "cron_schedule option"
  v_contextUsage :: "context_usage option"
  v_subAgents :: "sub_agent list"
  v_pendingToolActions :: "turn_action list"
  v_nextSummarizeAt :: int
  v_lastResponseVersion :: nat
  v_lastCommandVersion :: nat
  v_lastCommandId :: "string option"
  v_pendingPrompt :: "string option"
  v_pendingRequiredTool :: "string option"
  v_pendingSystemPrompt :: "string option"
  v_bootstrapPrompt :: bool
  v_activeTimer :: "active_timer option"
  v_waitingForAgentIds :: "string list option"
  v_pendingInputQuestion :: "input_question option"
  v_orchestrationResult :: "string option"
  v_interruptedWaitTimer :: "interrupted_wait option"
  v_interruptedCronTimer :: "interrupted_cron option"
  v_pendingChildDigest :: "child_digest option"
  v_pendingShutdown :: "pending_shutdown option"
  v_legacyPendingMessage :: "message option"

type_synonym 'a orchp = "(orch, halt, 'a) prog"

text \<open>Values the generator computes once from its input.\<close>

definition dehydrateThreshold :: "orch_input \<Rightarrow> int" where
  "dehydrateThreshold i = default_to (in_dehydrateThreshold i) 29"

definition idleTimeout :: "orch_input \<Rightarrow> int" where
  "idleTimeout i = default_to (in_idleTimeout i) 60"

definition inputGracePeriod :: "orch_input \<Rightarrow> int" where
  "inputGracePeriod i = default_to (in_inputGracePeriod i) 30"

definition checkpointInterval :: "orch_input \<Rightarrow> int" where
  "checkpointInterval i = default_to (in_checkpointInterval i) (- 1)"

definition blobEnabled :: "orch_input \<Rightarrow> bool" where
  "blobEnabled i = default_to (in_blobEnabled i) False"

definition isSystem :: "orch_input \<Rightarrow> bool" where
  "isSystem i = default_to (in_isSystem i) False"

definition nestingLevel :: "orch_input \<Rightarrow> nat" where
  "nestingLevel i = default_to (in_nestingLevel i) 0"

definition baseSystemMessage :: "orch_input \<Rightarrow> system_message option" where
  "baseSystemMessage i = or_else (in_baseSystemMessage i) (c_systemMessage (in_config i))"

definition parentSessionId :: "orch_input \<Rightarrow> string option" where
  "parentSessionId i =
     or_else (in_parentSessionId i)
       (case in_parentOrchId i of
          None \<Rightarrow> None
        | Some p \<Rightarrow>
            if p = [] then None
            else Some (if starts_with p ''session-'' then drop 8 p else p))"

subsection \<open>Asking the runtime\<close>

text \<open>
  A \<open>yield\<close> appends the effect to the trace and takes the next response; when the history is
  exhausted the generator stays suspended at this \<open>yield\<close>.
\<close>

definition emit :: "effect \<Rightarrow> unit orchp" where
  "emit e = modify (\<lambda>w. w\<lparr>trace := trace w @ [e]\<rparr>)"

definition perform :: "effect \<Rightarrow> resp orchp" where
  "perform e w =
     (case history w of
        [] \<Rightarrow> (Stop Suspended, w\<lparr>trace := trace w @ [e]\<rparr>)
      | r # rs \<Rightarrow> (Ret r, w\<lparr>trace := trace w @ [e], history := rs\<rparr>))"

definition utcNow :: "int orchp" where
  "utcNow = bind (perform EUtcNow) (\<lambda>r. case r of RInt t \<Rightarrow> ret t | _ \<Rightarrow> stop BadHistory)"

definition newGuid :: "string orchp" where
  "newGuid = bind (perform ENewGuid) (\<lambda>r. case r of RStr g \<Rightarrow> ret g | _ \<Rightarrow> stop BadHistory)"

definition scheduleTimer :: "int \<Rightarrow> unit orchp" where
  "scheduleTimer ms =
     bind (perform (EScheduleTimer ms)) (\<lambda>r. case r of RTimerFired \<Rightarrow> ret () | _ \<Rightarrow> stop BadHistory)"

definition dequeueMessage :: "message orchp" where
  "dequeueMessage = bind (perform EDequeue) (\<lambda>r. case r of RMessage m \<Rightarrow> ret m | _ \<Rightarrow> stop BadHistory)"

text \<open>\<open>ctx.race(dequeue, timer)\<close>: the message, or nothing when the timer fired first.\<close>

definition raceDequeue :: "int \<Rightarrow> message option orchp" where
  "raceDequeue ms =
     bind (perform (ERaceDequeue ms))
       (\<lambda>r. case r of RMessage m \<Rightarrow> ret (Some m) | RTimerFired \<Rightarrow> ret None | _ \<Rightarrow> stop BadHistory)"

definition continueAsNew :: "orch_input \<Rightarrow> 'a orchp" where
  "continueAsNew i =
     andThen (emit (EContinueAsNew i DURABLE_SESSION_LATEST_VERSION)) (stop (ContinuedAsNew i))"

definition activity :: "effect \<Rightarrow> resp orchp" where
  "activity e = bind (perform e) (\<lambda>r. case r of RErr m \<Rightarrow> throw m | _ \<Rightarrow> ret r)"

definition manager :: "manager_op \<Rightarrow> resp orchp" where
  "manager op = activity (EManager op)"

text \<open>The session proxy sends its activities to the worker of the affinity key it was made with.\<close>

definition session :: "session_op \<Rightarrow> resp orchp" where
  "session op = inspect (\<lambda>w. activity (ESession (v_session w) op))"

definition await_unit :: "resp orchp \<Rightarrow> unit orchp" where
  "await_unit m = bind m (\<lambda>r. case r of RUnit \<Rightarrow> ret () | _ \<Rightarrow> stop BadHistory)"

definition recordSessionEvent :: "string \<Rightarrow> (string \<times> json) list \<Rightarrow> unit orchp" where
  "recordSessionEvent t d = await_unit (manager (MRecordEvent t d))"

lemmas runtime_defs = emit_def perform_def utcNow_def newGuid_def scheduleTimer_def
  dequeueMessage_def raceDequeue_def continueAsNew_def activity_def manager_def session_def
  await_unit_def recordSessionEvent_def

end
