(* ===== verification/PromptText.thy ===== *)
theory PromptText
  imports DataModel
begin

text \<open>
  The text conventions of \<open>orchestration.ts\<close>: the \<open>[SYSTEM: \<dots>]\<close> suffix that carries system
  guidance inside a prompt, the \<open>[CHILD_UPDATE \<dots>]\<close> header by which a child session reports to
  its parent, and the merging of prompts. All functions are pure.
\<close>

definition system_tag :: string where
  "system_tag = ''[SYSTEM:''"

definition system_marker :: string where
  "system_marker = nl # nl # ''[SYSTEM:''"

definition INTERNAL_SYSTEM_TURN_PROMPT :: string where
  "INTERNAL_SYSTEM_TURN_PROMPT =
     ''Internal orchestration wake-up. The user did not send a new message. Continue with the latest system instructions.''"

definition mergePrompt :: "string option \<Rightarrow> string option \<Rightarrow> string option" where
  "mergePrompt existing next =
     (if \<not> truthy existing then next
      else if \<not> truthy next then existing
      else Some (or_str existing [] @ [nl, nl] @ or_str next []))"

definition extractPromptSystemContext :: "string option \<Rightarrow> string option \<times> string option" where
  "extractPromptSystemContext rawPrompt =
     (if \<not> truthy rawPrompt then (None, None)
      else
        let raw = or_str rawPrompt []; trimmed = trim raw in
        if starts_with trimmed system_tag \<and> ends_with trimmed '']''
        then (None, Some (trim (drop 8 (butlast trimmed))))
        else
          (case last_index_of raw system_marker of
             None \<Rightarrow> (Some raw, None)
           | Some marker \<Rightarrow>
               if ends_with (trim_end raw) '']''
               then (let prompt = trim (take marker raw);
                         systemPrompt = trim (drop (marker + 2) raw)
                     in (if prompt = [] then None else Some prompt,
                         Some (trim (drop 8 (butlast systemPrompt)))))
               else (Some raw, None)))"

definition system_wrap :: "string \<Rightarrow> string" where
  "system_wrap s = ''[SYSTEM: '' @ s @ '']''"

definition appendSystemContext :: "string option \<Rightarrow> string option \<Rightarrow> string option" where
  "appendSystemContext rawPrompt extra =
     (if \<not> truthy extra then rawPrompt
      else
        (case extractPromptSystemContext rawPrompt of
           (p, s) \<Rightarrow>
             let merged = mergePrompt s extra in
             if \<not> truthy merged then or_else p rawPrompt
             else if truthy p then Some (or_str p [] @ [nl, nl] @ system_wrap (or_str merged []))
             else Some (system_wrap (or_str merged []))))"

text \<open>The wrapper is stripped from followups, which become visible prompt text.\<close>

definition strip_system_wrapper :: "string \<Rightarrow> string" where
  "strip_system_wrapper nextPrompt =
     (let trimmed = trim nextPrompt in
      if starts_with trimmed system_tag \<and> ends_with trimmed '']''
      then trim (drop 8 (butlast trimmed)) else nextPrompt)"

definition child_update_tag :: string where
  "child_update_tag = ''[CHILD_UPDATE from=''"

definition type_tag :: string where
  "type_tag = '' type=''"

text \<open>The regular expression \<open>^\[CHILD_UPDATE from=(\S+) type=(\S+)\<close> and the body below it.\<close>

definition parseChildUpdate :: "string option \<Rightarrow> child_update option" where
  "parseChildUpdate promptText =
     (case promptText of
        None \<Rightarrow> None
      | Some s \<Rightarrow>
          if starts_with s child_update_tag then
            (let r = drop (length child_update_tag) s;
                 sid = takeWhile (\<lambda>c. \<not> is_ws c) r;
                 r2 = dropWhile (\<lambda>c. \<not> is_ws c) r
             in if sid \<noteq> [] \<and> starts_with r2 type_tag then
                  (let r3 = drop (length type_tag) r2;
                       ty = takeWhile (\<lambda>c. \<not> is_ws c) r3
                   in if ty \<noteq> [] then
                        Some \<lparr> up_sessionId = sid,
                               up_updateType = strip_bracket ty,
                               up_content = trim (join [nl] (drop 1 (split_on nl s))) \<rparr>
                      else None)
                else None)
          else None)"

text \<open>The message a session sends to its parent.\<close>

definition childUpdateText :: "string \<Rightarrow> string \<Rightarrow> nat \<Rightarrow> string \<Rightarrow> string" where
  "childUpdateText sessionId updateType iter body =
     child_update_tag @ sessionId @ type_tag @ updateType @
     '' iter='' @ show_nat iter @ '']'' @ [nl] @ body"

subsection \<open>Laws of the text conventions\<close>

lemma mergePrompt_None [simp]: "mergePrompt None n = n"
  by (simp add: mergePrompt_def)

lemma mergePrompt_None2 [simp]: "truthy e \<Longrightarrow> mergePrompt e None = e"
  by (simp add: mergePrompt_def)

lemma truthy_mergePrompt: "truthy (mergePrompt a b) \<longleftrightarrow> truthy a \<or> truthy b"
  by (auto simp: mergePrompt_def or_str_def truthy_def split: option.splits)

lemma mergePrompt_Some:
  "a \<noteq> [] \<Longrightarrow> b \<noteq> [] \<Longrightarrow> mergePrompt (Some a) (Some b) = Some (a @ [nl, nl] @ b)"
  by (simp add: mergePrompt_def)

lemma mergePrompt_assoc:
  "mergePrompt (mergePrompt a b) c = mergePrompt a (mergePrompt b c)"
  by (auto simp: mergePrompt_def truthy_def or_str_def split: option.splits if_splits)

lemma last_index_of_split:
  "last_index_of s p = None \<Longrightarrow> starts_with (c # s) p \<Longrightarrow>
     last_index_of (a @ c # s) p = Some (length a)"
  by (induction a) auto

lemma starts_with_snoc:
  "starts_with (y @ [c]) p \<Longrightarrow> p \<noteq> [] \<Longrightarrow> last p \<noteq> c \<Longrightarrow> starts_with y p"
proof -
  assume s: "starts_with (y @ [c]) p" and p: "p \<noteq> []" "last p \<noteq> c"
  then obtain r where r: "y @ [c] = p @ r" using starts_withE by blast
  with p have "r \<noteq> []" by (metis append_Nil2 last_snoc)
  then obtain r' d where "r = r' @ [d]" by (metis rev_exhaust)
  with r have "y = p @ r'" by simp
  then show ?thesis by simp
qed

lemma last_index_of_snoc:
  "p \<noteq> [] \<Longrightarrow> last p \<noteq> c \<Longrightarrow> last_index_of s p = None \<Longrightarrow> last_index_of (s @ [c]) p = None"
proof (induction s)
  case Nil
  then show ?case using starts_with_snoc [of "[]" c p] by (auto simp: starts_with_def)
next
  case (Cons d s)
  then show ?case
    using starts_with_snoc [of "d # s" c p] by (auto split: option.splits if_splits)
qed

lemma no_marker_in_wrap:
  "last_index_of x system_marker = None \<Longrightarrow>
     last_index_of (nl # system_wrap x) system_marker = None"
  using last_index_of_snoc [of system_marker "CHR '']''" x]
  by (simp add: system_marker_def system_wrap_def starts_with_def)

lemma is_ws_bracket [simp]: "\<not> is_ws (CHR '']'')" "\<not> is_ws (CHR ''['')" "is_ws nl" "is_ws (CHR '' '')"
  by (simp_all add: is_ws_def)

lemma trim_space_Cons: "trim (CHR '' '' # x) = trim x"
  by (simp add: trim_def trim_start_def)

lemma ends_with_bracket [simp]: "ends_with (s @ '']'') '']''"
  by simp

lemma trimmed_suffix: "p \<noteq> [] \<Longrightarrow> trimmed p \<Longrightarrow> trimmed (p @ m @ [c]) = (\<not> is_ws c)"
  by (cases p) (auto simp: trimmed_def)

lemma length_system_tag: "length system_tag = 8"
  by (simp add: system_tag_def)

text \<open>What is appended to a prompt is what is extracted from it.\<close>

lemma extract_wrapped:
  assumes p: "p \<noteq> []" "trimmed p" "\<not> starts_with p system_tag"
    and x: "trimmed x" "last_index_of x system_marker = None"
  shows "extractPromptSystemContext (Some (p @ [nl, nl] @ system_wrap x)) = (Some p, Some x)"
proof -
  let ?raw = "p @ [nl, nl] @ system_wrap x"
  have tr: "trimmed ?raw" using p trimmed_suffix [of p "[nl, nl] @ ''[SYSTEM: '' @ x" "CHR '']''"]
    by (simp add: system_wrap_def)
  have t: "trim ?raw = ?raw" by (rule trim_trimmed [OF tr])
  have te: "trim_end ?raw = ?raw"
  proof -
    have "\<not> is_ws (hd (rev ?raw))" by (simp add: system_wrap_def)
    then have "dropWhile is_ws (rev ?raw) = rev ?raw" by (intro dropWhile_hd_id) blast
    then show ?thesis by (simp add: trim_end_def)
  qed
  have ns: "\<not> starts_with ?raw system_tag"
  proof
    assume "starts_with ?raw system_tag"
    then have s: "take 8 ?raw = system_tag" unfolding starts_with_def length_system_tag .
    show False
    proof (cases "length p < 8")
      case True
      then have "nl \<in> set (take 8 ?raw)" by (simp add: take_Cons')
      with s show False by (simp add: system_tag_def)
    next
      case False
      with s have "take 8 p = system_tag" by simp
      with p(3) show False unfolding starts_with_def length_system_tag ..
    qed
  qed
  have li: "last_index_of ?raw system_marker = Some (length p)"
    using last_index_of_split [OF no_marker_in_wrap [OF x(2)], of nl p]
    by (simp add: starts_with_def system_marker_def system_wrap_def)
  have d: "drop (length p + 2) ?raw = system_wrap x" by simp
  have w: "trim (system_wrap x) = system_wrap x"
    by (rule trim_trimmed) (simp add: trimmed_def system_wrap_def)
  have x8: "trim (drop 8 (butlast (system_wrap x))) = x"
    using trim_trimmed [OF x(1)] by (simp add: system_wrap_def butlast_append trim_space_Cons)
  have e: "ends_with ?raw '']''" using ends_with_append [of "p @ [nl, nl] @ ''[SYSTEM: '' @ x" "'']''"]
    by (simp only: system_wrap_def append_assoc)
  define raw where "raw = ?raw"
  have "raw \<noteq> []" "take (length p) raw = p" by (simp_all add: raw_def)
  with p(1) ns li d w t te e x8 trim_trimmed [OF p(2)] have
    "extractPromptSystemContext (Some raw) = (Some p, Some x)"
    unfolding raw_def [symmetric] by (simp add: extractPromptSystemContext_def)
  then show ?thesis by (simp only: raw_def)
qed

lemma extract_plain:
  "p \<noteq> [] \<Longrightarrow> \<not> starts_with (trim p) system_tag \<Longrightarrow> last_index_of p system_marker = None \<Longrightarrow>
     extractPromptSystemContext (Some p) = (Some p, None)"
  by (simp add: extractPromptSystemContext_def Let_def)

lemma append_plain:
  "p \<noteq> [] \<Longrightarrow> \<not> starts_with (trim p) system_tag \<Longrightarrow> last_index_of p system_marker = None \<Longrightarrow>
     x \<noteq> [] \<Longrightarrow> appendSystemContext (Some p) (Some x) = Some (p @ [nl, nl] @ system_wrap x)"
  by (simp add: appendSystemContext_def extract_plain)

text \<open>A parent reads back the session, the kind and the body its child sent.\<close>

lemma word_hd_not_ws: "(\<forall>c \<in> set w. \<not> is_ws c) \<Longrightarrow> w \<noteq> [] \<Longrightarrow> \<not> is_ws (hd w)"
  by (cases w) auto

lemma takeWhile_word:
  "(\<forall>c \<in> set w. \<not> is_ws c) \<Longrightarrow> is_ws d \<Longrightarrow>
     takeWhile (\<lambda>c. \<not> is_ws c) (w @ d # r) = w \<and> dropWhile (\<lambda>c. \<not> is_ws c) (w @ d # r) = d # r"
  by (induction w) auto

lemma split_on_drop_head:
  "nl \<notin> set h \<Longrightarrow> join [nl] (drop 1 (split_on nl (h @ nl # r))) = r"
  by (simp add: split_on_head join_split)

lemma word_no_nl: "(\<forall>c \<in> set w. \<not> is_ws c) \<Longrightarrow> nl \<notin> set w"
  by (auto simp: is_ws_def)

lemma show_nat_no_nl: "nl \<notin> set (show_nat n)"
proof
  assume "nl \<in> set (show_nat n)"
  then obtain d where "d < 10" "nl = digit_char d" using show_nat_digits by blast
  then have "(of_char nl :: nat) = of_char (digit_char d)" by simp
  with \<open>d < 10\<close> show False by (simp add: digit_char_def of_char_of)
qed

lemma parse_shape:
  assumes s: "sid \<noteq> []" "\<forall>c \<in> set sid. \<not> is_ws c"
    and t: "ty \<noteq> []" "\<forall>c \<in> set ty. \<not> is_ws c" "last ty \<noteq> CHR '']''"
  shows "parseChildUpdate (Some (child_update_tag @ sid @ type_tag @ ty @ CHR '' '' # r)) =
           Some \<lparr> up_sessionId = sid, up_updateType = ty,
                  up_content = trim (join [nl] (drop 1 (split_on nl
                    (child_update_tag @ sid @ type_tag @ ty @ CHR '' '' # r)))) \<rparr>"
proof -
  let ?rest = "type_tag @ ty @ CHR '' '' # r"
  have sp: "?rest = CHR '' '' # tl ?rest" by (simp add: type_tag_def)
  have w1: "takeWhile (\<lambda>c. \<not> is_ws c) (sid @ ?rest) = sid"
           "dropWhile (\<lambda>c. \<not> is_ws c) (sid @ ?rest) = ?rest"
    using takeWhile_word [OF s(2) is_ws_bracket(4), of "tl ?rest"] unfolding sp [symmetric] by blast+
  have w2: "takeWhile (\<lambda>c. \<not> is_ws c) (ty @ CHR '' '' # r) = ty"
    using takeWhile_word [OF t(2) is_ws_bracket(4)] by blast
  show ?thesis
    using s(1) t(1,3) by (simp add: parseChildUpdate_def Let_def w1 w2 strip_bracket_def)
qed

lemma parse_childUpdateText:
  assumes s: "sid \<noteq> []" "\<forall>c \<in> set sid. \<not> is_ws c"
    and t: "ty \<noteq> []" "\<forall>c \<in> set ty. \<not> is_ws c" "last ty \<noteq> CHR '']''"
  shows "parseChildUpdate (Some (childUpdateText sid ty n body)) =
           Some \<lparr> up_sessionId = sid, up_updateType = ty, up_content = trim body \<rparr>"
proof -
  let ?head = "child_update_tag @ sid @ type_tag @ ty @ '' iter='' @ show_nat n @ '']''"
  have e: "childUpdateText sid ty n body = ?head @ nl # body"
    by (simp add: childUpdateText_def)
  have "nl \<notin> set ?head"
    using word_no_nl [OF s(2)] word_no_nl [OF t(2)] show_nat_no_nl [of n]
    by (simp add: child_update_tag_def type_tag_def)
  then have body: "join [nl] (drop 1 (split_on nl (?head @ nl # body))) = body"
    by (rule split_on_drop_head)
  have h: "?head @ nl # body =
      child_update_tag @ sid @ type_tag @ ty @ CHR '' '' # (''iter='' @ show_nat n @ '']'' @ nl # body)"
    by simp
  show ?thesis unfolding e
    using parse_shape [OF s t, of "''iter='' @ show_nat n @ '']'' @ nl # body"] body
    unfolding h by (simp only:)
qed

text \<open>Only text that starts with the header is ever taken for a child update.\<close>

lemma parseChildUpdate_needs_tag:
  "parseChildUpdate (Some s) = Some u \<Longrightarrow> starts_with s child_update_tag"
  by (simp add: parseChildUpdate_def split: if_splits)

subsection \<open>Properties\<close>

text \<open>
  System guidance appended to a prompt is recovered exactly: extracting from the appended
  text gives back the prompt and the guidance, so nothing leaks from one into the other.
\<close>

theorem system_context_roundtrip:
  assumes "p \<noteq> []" "trimmed p" "\<not> starts_with p system_tag" "last_index_of p system_marker = None"
    and "x \<noteq> []" "trimmed x" "last_index_of x system_marker = None"
  shows "extractPromptSystemContext (appendSystemContext (Some p) (Some x)) = (Some p, Some x)"
proof -
  have a: "appendSystemContext (Some p) (Some x) = Some (p @ [nl, nl] @ system_wrap x)"
    by (rule append_plain) (simp_all add: assms trim_trimmed)
  show ?thesis unfolding a by (rule extract_wrapped) (simp_all add: assms)
qed

theorem system_context_roundtrip_witness:
  "extractPromptSystemContext (appendSystemContext (Some ''do it'') (Some ''be brief'')) =
     (Some ''do it'', Some ''be brief'')"
  by (rule system_context_roundtrip; code_simp)

text \<open>
  A parent reads back exactly the session, the kind and the (trimmed) body of the update its
  child sent, for every session id and kind without whitespace.
\<close>

theorem child_update_roundtrip:
  assumes "sid \<noteq> []" "\<forall>c \<in> set sid. \<not> is_ws c"
    and "ty \<noteq> []" "\<forall>c \<in> set ty. \<not> is_ws c" "last ty \<noteq> CHR '']''"
  shows "parseChildUpdate (Some (childUpdateText sid ty n body)) =
           Some \<lparr> up_sessionId = sid, up_updateType = ty, up_content = trim body \<rparr>"
  using assms by (rule parse_childUpdateText)

theorem child_update_roundtrip_witness:
  "parseChildUpdate (Some (childUpdateText ''s-1'' ''completed'' 4 ''all done'')) =
     Some \<lparr> up_sessionId = ''s-1'', up_updateType = ''completed'', up_content = trim ''all done'' \<rparr>"
  by (rule child_update_roundtrip; code_simp)

text \<open>
  Followups merge in any grouping: merging is associative and an absent or empty prompt is
  neutral, so the text of the next turn does not depend on how its parts were batched.
\<close>

theorem mergePrompt_monoid:
  "mergePrompt (mergePrompt a b) c = mergePrompt a (mergePrompt b c) \<and> mergePrompt None a = a \<and>
   truthy (mergePrompt a b) = (truthy a \<or> truthy b)"
  by (simp add: mergePrompt_assoc truthy_mergePrompt)

end
