(* ===== verification/Publishing.thy ===== *)
theory Publishing
  imports OrchState PromptText
begin

text \<open>
  The channels by which an orchestration reports to clients: the versioned response and command
  counters of the key-value store, the latest-response and command-response slots, and the
  custom status. Also the resume wrapper put around the first prompt after a hydration.
\<close>

subsection \<open>Counters and values of the store\<close>

definition setValue :: "string \<Rightarrow> kv_value \<Rightarrow> unit orchp" where
  "setValue k x = modify (\<lambda>w. w\<lparr>kv := (kv w)(k \<mapsto> x)\<rparr>)"

text \<open>\<open>Number(raw)\<close> is finite only for a stored counter; anything else reads as 0.\<close>

definition counter_of :: "(string \<Rightarrow> kv_value option) \<Rightarrow> string \<Rightarrow> nat" where
  "counter_of m k = (case m k of Some (KvCounter n) \<Rightarrow> n | _ \<Rightarrow> 0)"

definition readCounter :: "string \<Rightarrow> nat orchp" where
  "readCounter k = read_state (\<lambda>w. counter_of (kv w) k)"

definition bumpCounter :: "string \<Rightarrow> nat orchp" where
  "bumpCounter k =
     bind (readCounter k) (\<lambda>n.
     andThen (setValue k (KvCounter (n + 1))) (ret (n + 1)))"

subsection \<open>Status\<close>

definition base_signal :: "orch \<Rightarrow> session_status \<Rightarrow> status_signal" where
  "base_signal w s =
     \<lparr> sg_status = s, sg_iteration = v_iteration w,
       sg_responseVersion =
         (if 0 < v_lastResponseVersion w then Some (v_lastResponseVersion w) else None),
       sg_commandVersion =
         (if 0 < v_lastCommandVersion w then Some (v_lastCommandVersion w) else None),
       sg_commandId = keep_truthy (v_lastCommandId w),
       sg_cronActive = (v_cronSchedule w \<noteq> None),
       sg_cronInterval = map_option cs_intervalSeconds (v_cronSchedule w),
       sg_cronReason = map_option cs_reason (v_cronSchedule w),
       sg_contextUsage = v_contextUsage w,
       sg_cmdProcessing = None, sg_waitReason = None, sg_waitSeconds = None,
       sg_waitStartedAt = None, sg_preserveWorkerAffinity = None, sg_error = None,
       sg_retriesExhausted = False, sg_recoverableTransportLoss = False,
       sg_lossyHandoff = None, sg_fatal = False, sg_policyRejected = False,
       sg_workerManagedAgent = False \<rparr>"

text \<open>The \<open>extra\<close> object overrides the base properties: an update of the record.\<close>

definition publishStatus :: "session_status \<Rightarrow> (status_signal \<Rightarrow> status_signal) \<Rightarrow> unit orchp" where
  "publishStatus s extra = inspect (\<lambda>w. emit (EStatus (extra (base_signal w s))))"

definition waiting_extra :: "int \<Rightarrow> string \<Rightarrow> int \<Rightarrow> status_signal \<Rightarrow> status_signal" where
  "waiting_extra secs reason startedAt g =
     g\<lparr>sg_waitSeconds := Some secs, sg_waitReason := Some reason, sg_waitStartedAt := Some startedAt\<rparr>"

subsection \<open>Responses\<close>

record response_payload =
  rp_type :: response_type
  rp_content :: "string option"
  rp_question :: "input_question option"
  rp_waitReason :: "string option"
  rp_waitSeconds :: "int option"
  rp_waitStartedAt :: "int option"
  rp_model :: "string option"

definition writeLatestResponse :: "response_payload \<Rightarrow> unit orchp" where
  "writeLatestResponse p =
     bind (bumpCounter RESPONSE_VERSION_KEY) (\<lambda>version.
     bind utcNow (\<lambda>emittedAt.
     doing [
       inspect (\<lambda>w. setValue RESPONSE_LATEST_KEY (KvResponse
         \<lparr> sr_version = version, sr_iteration = v_iteration w, sr_type = rp_type p,
           sr_content = rp_content p, sr_question = rp_question p,
           sr_waitReason = rp_waitReason p, sr_waitSeconds = rp_waitSeconds p,
           sr_waitStartedAt = rp_waitStartedAt p, sr_emittedAt = emittedAt,
           sr_model = rp_model p \<rparr>)),
       modify (\<lambda>w. w\<lparr>v_lastResponseVersion := version\<rparr>)]))"

definition writeCommandResponse :: "command_response \<Rightarrow> unit orchp" where
  "writeCommandResponse r =
     bind (bumpCounter COMMAND_VERSION_KEY) (\<lambda>version.
     bind utcNow (\<lambda>emittedAt.
     doing [
       setValue (commandResponseKey (cr_id r)) (KvCommand
         \<lparr> scr_response = r, scr_version = version, scr_emittedAt = emittedAt \<rparr>),
       modify (\<lambda>w. w\<lparr>v_lastCommandVersion := version, v_lastCommandId := Some (cr_id r)\<rparr>),
       recordSessionEvent ''session.command_completed''
         [(''cmd'', JStr (cr_cmd r)), (''id'', JStr (cr_id r))]]))"

subsection \<open>The resume wrapper\<close>

definition default_rehydration :: string where
  "default_rehydration =
     ''The session was dehydrated and has been rehydrated on a new worker. '' @
     ''The LLM conversation history is preserved.''"

definition resume_text :: "string option \<Rightarrow> string \<Rightarrow> string option \<Rightarrow> string" where
  "resume_text pending userPrompt extra =
     join [nl] ([userPrompt, [], ''[SYSTEM: '' @ default_to pending default_rehydration] @
       (if truthy extra then [or_str extra []] else []) @ ['']''])"

definition wrapWithResumeContext :: "string \<Rightarrow> string option \<Rightarrow> string orchp" where
  "wrapWithResumeContext userPrompt extra =
     bind (read_state (\<lambda>w. resume_text (v_pendingRehydrationMessage w) userPrompt extra)) (\<lambda>t.
     andThen (modify (\<lambda>w. w\<lparr>v_pendingRehydrationMessage := None\<rparr>)) (ret t))"

subsection \<open>Behaviour\<close>

lemmas publishing_defs =
  setValue_def readCounter_def bumpCounter_def publishStatus_def emit_def
  writeLatestResponse_def writeCommandResponse_def wrapWithResumeContext_def

lemma counter_of_update [simp]:
  "counter_of (m(k \<mapsto> KvCounter n)) k = n"
  "k \<noteq> k' \<Longrightarrow> counter_of (m(k \<mapsto> x)) k' = counter_of m k'"
  by (simp_all add: counter_of_def)

lemma key_neqs [simp]:
  "RESPONSE_VERSION_KEY \<noteq> COMMAND_VERSION_KEY"
  "RESPONSE_VERSION_KEY \<noteq> RESPONSE_LATEST_KEY"
  "COMMAND_VERSION_KEY \<noteq> RESPONSE_LATEST_KEY"
  "RESPONSE_VERSION_KEY \<noteq> commandResponseKey i"
  "COMMAND_VERSION_KEY \<noteq> commandResponseKey i"
  "RESPONSE_LATEST_KEY \<noteq> commandResponseKey i"
  "COMMAND_VERSION_KEY \<noteq> RESPONSE_VERSION_KEY"
  "RESPONSE_LATEST_KEY \<noteq> RESPONSE_VERSION_KEY"
  "RESPONSE_LATEST_KEY \<noteq> COMMAND_VERSION_KEY"
  "commandResponseKey i \<noteq> RESPONSE_VERSION_KEY"
  "commandResponseKey i \<noteq> COMMAND_VERSION_KEY"
  by (simp_all add: RESPONSE_VERSION_KEY_def COMMAND_VERSION_KEY_def RESPONSE_LATEST_KEY_def
      commandResponseKey_def)

subsection \<open>Properties\<close>

text \<open>
  Writing a response raises the stored response version by one, stores the response under
  that version with the turn it belongs to and its timestamp, and raises the version the next
  status will publish to the same number.
\<close>

theorem response_is_published:
  "writeLatestResponse p (w\<lparr>history := RInt now # rs\<rparr>) =
     (Ret (),
      w\<lparr>history := rs, trace := trace w @ [EUtcNow],
        kv := (kv w)
          (RESPONSE_VERSION_KEY \<mapsto> KvCounter (counter_of (kv w) RESPONSE_VERSION_KEY + 1),
           RESPONSE_LATEST_KEY \<mapsto> KvResponse
             \<lparr> sr_version = counter_of (kv w) RESPONSE_VERSION_KEY + 1, sr_iteration = v_iteration w,
               sr_type = rp_type p, sr_content = rp_content p, sr_question = rp_question p,
               sr_waitReason = rp_waitReason p, sr_waitSeconds = rp_waitSeconds p,
               sr_waitStartedAt = rp_waitStartedAt p, sr_emittedAt = now, sr_model = rp_model p \<rparr>),
        v_lastResponseVersion := counter_of (kv w) RESPONSE_VERSION_KEY + 1\<rparr>)"
  by (simp add: publishing_defs run_simps runtime_defs)

text \<open>
  Answering a command stores the answer under the command's own key, bumps the command
  version, makes both visible in the next status and records the completion; the latest response
  and its version are untouched.
\<close>

theorem command_is_answered:
  "case writeCommandResponse r (w\<lparr>history := RInt now # RUnit # rs\<rparr>) of
     (Ret u, w') \<Rightarrow>
       kv w' (commandResponseKey (cr_id r)) = Some (KvCommand
         \<lparr> scr_response = r, scr_version = counter_of (kv w) COMMAND_VERSION_KEY + 1,
           scr_emittedAt = now \<rparr>) \<and>
       sg_commandVersion (base_signal w' s) = Some (counter_of (kv w') COMMAND_VERSION_KEY) \<and>
       counter_of (kv w') COMMAND_VERSION_KEY = counter_of (kv w) COMMAND_VERSION_KEY + 1 \<and>
       v_lastCommandId w' = Some (cr_id r) \<and>
       kv w' RESPONSE_LATEST_KEY = kv w RESPONSE_LATEST_KEY \<and>
       counter_of (kv w') RESPONSE_VERSION_KEY = counter_of (kv w) RESPONSE_VERSION_KEY \<and>
       history w' = rs
   | _ \<Rightarrow> False"
  using key_neqs by (simp add: publishing_defs run_simps runtime_defs base_signal_def counter_of_def)

end
