(* ===== verification/WorkQueue.thy ===== *)
theory WorkQueue
  imports Main
begin

text \<open>
  The contract between the drain phase and the decide phase of the event loop: what is appended
  in batches is taken out one item at a time, in arrival order, each item once. A provider may
  be bounded: appending then stores a prefix, and all of it when there is room.
\<close>

datatype 'a queue_op = Enqueue "'a list" | Dequeue

fun run_queue ::
    "('q \<Rightarrow> 'a list \<Rightarrow> 'q) \<Rightarrow> ('q \<Rightarrow> 'a option \<times> 'q) \<Rightarrow> 'q \<Rightarrow> 'a queue_op list \<Rightarrow> 'a list \<times> 'q"
  where
  "run_queue enqs deq q [] = ([], q)"
| "run_queue enqs deq q (Enqueue xs # ops) = run_queue enqs deq (enqs q xs) ops"
| "run_queue enqs deq q (Dequeue # ops) =
     (case deq q of
        (None, q') \<Rightarrow> run_queue enqs deq q' ops
      | (Some x, q') \<Rightarrow> (case run_queue enqs deq q' ops of (out, q'') \<Rightarrow> (x # out, q'')))"

fun enqueued :: "'a queue_op list \<Rightarrow> 'a list" where
  "enqueued [] = []"
| "enqueued (Enqueue xs # ops) = xs @ enqueued ops"
| "enqueued (Dequeue # ops) = enqueued ops"

text \<open>Every append of the run finds room when it is made.\<close>

fun run_room ::
    "('q \<Rightarrow> 'a list \<Rightarrow> bool) \<Rightarrow> ('q \<Rightarrow> 'a list \<Rightarrow> 'q) \<Rightarrow> ('q \<Rightarrow> 'a option \<times> 'q) \<Rightarrow>
       'q \<Rightarrow> 'a queue_op list \<Rightarrow> bool" where
  "run_room room enqs deq q [] = True"
| "run_room room enqs deq q (Enqueue xs # ops) =
     (room q xs \<and> run_room room enqs deq (enqs q xs) ops)"
| "run_room room enqs deq q (Dequeue # ops) = run_room room enqs deq (snd (deq q)) ops"

locale work_queue =
  fixes enqs :: "'q \<Rightarrow> 'a list \<Rightarrow> 'q"
    and deq :: "'q \<Rightarrow> 'a option \<times> 'q"
    and items :: "'q \<Rightarrow> 'a list"
    and room :: "'q \<Rightarrow> 'a list \<Rightarrow> bool"
  assumes enqs_room: "room q xs \<Longrightarrow> items (enqs q xs) = items q @ xs"
    and enqs_prefix: "\<exists>n. items (enqs q xs) = items q @ take n xs"
    and deq_empty: "items q = [] \<Longrightarrow> deq q = (None, q)"
    and deq_first: "items q = x # xs \<Longrightarrow> fst (deq q) = Some x \<and> items (snd (deq q)) = xs"
begin

lemma deq_items:
  "case deq q of (None, q') \<Rightarrow> items q = [] \<and> q' = q | (Some x, q') \<Rightarrow> items q = x # items q'"
proof (cases "items q")
  case Nil
  then show ?thesis by (simp add: deq_empty)
next
  case (Cons x xs)
  then have "fst (deq q) = Some x" "items (snd (deq q)) = xs" using deq_first by blast+
  with Cons show ?thesis by (cases "deq q") auto
qed

text \<open>In-order, exactly-once delivery for every interleaving of appends and pops.\<close>

lemma delivery:
  "run_room room enqs deq q ops \<Longrightarrow> run_queue enqs deq q ops = (out, q') \<Longrightarrow>
     out @ items q' = items q @ enqueued ops"
proof (induction ops arbitrary: q out)
  case Nil
  then show ?case by simp
next
  case (Cons op ops)
  show ?case
  proof (cases op)
    case (Enqueue xs)
    then show ?thesis using Cons.IH [of "enqs q xs" out] Cons.prems by (simp add: enqs_room)
  next
    case Dequeue
    then show ?thesis
      using Cons.IH [of "snd (deq q)"] Cons.prems deq_items [of q]
      by (auto split: prod.splits option.splits)
  qed
qed

text \<open>Without room, what comes out is still a subsequence of what went in, in order.\<close>

lemma no_invention:
  "run_queue enqs deq q ops = (out, q') \<Longrightarrow>
     set (out @ items q') \<subseteq> set (items q) \<union> set (enqueued ops)"
proof (induction ops arbitrary: q out)
  case Nil
  then show ?case by simp
next
  case (Cons op ops)
  show ?case
  proof (cases op)
    case (Enqueue xs)
    obtain n where "items (enqs q xs) = items q @ take n xs" using enqs_prefix by blast
    moreover have "set (out @ items q') \<subseteq> set (items (enqs q xs)) \<union> set (enqueued ops)"
      using Cons.IH [of "enqs q xs" out] Cons.prems Enqueue by simp
    ultimately show ?thesis using Enqueue set_take_subset [of n xs] by auto
  next
    case Dequeue
    then show ?thesis
      using Cons.IH [of "snd (deq q)"] Cons.prems deq_items [of q]
      by (fastforce split: prod.splits option.splits)
  qed
qed

end

end
