(* ===== verification/FifoBuffer.thy ===== *)
theory FifoBuffer
  imports Publishing WorkQueue
begin

text \<open>
  The work buffer of \<open>orchestration.ts\<close>: twenty key-value buckets of at most 14 KiB of JSON
  text each, used as one queue. Items are appended to the last bucket in use and popped from
  the first bucket that holds any. A bucket's value is the item list its JSON text denotes;
  its size is the length of that text.
\<close>

type_synonym kv_map = "string \<Rightarrow> kv_value option"

definition FIFO_BUCKET_COUNT :: nat where
  "FIFO_BUCKET_COUNT = 20"

definition MAX_BUCKET_BYTES :: nat where
  "MAX_BUCKET_BYTES = 14 * 1024"

subsection \<open>The JSON form of an item\<close>

fun timer_type_name :: "timer_type \<Rightarrow> string" where
  "timer_type_name TmWait = ''wait''"
| "timer_type_name TmCron = ''cron''"
| "timer_type_name TmIdle = ''idle''"
| "timer_type_name TmAgentPoll = ''agent-poll''"
| "timer_type_name TmInputGrace = ''input-grace''"

definition plan_json :: "wait_plan \<Rightarrow> json" where
  "plan_json p = JObj
     [(''shouldDehydrate'', JBool (shouldDehydrate p)),
      (''resetAffinityOnDehydrate'', JBool (resetAffinityOnDehydrate p)),
      (''preserveAffinityOnHydrate'', JBool (preserveAffinityOnHydrate p))]"

definition strs_json :: "string list \<Rightarrow> json" where
  "strs_json xs = JArr (map JStr xs)"

definition timer_json :: "active_timer \<Rightarrow> json" where
  "timer_json t = JObj
     ([(''deadlineMs'', JNum (tm_deadlineMs t)),
       (''originalDurationMs'', JNum (tm_originalDurationMs t)),
       (''reason'', JStr (tm_reason t)),
       (''type'', JStr (timer_type_name (tm_type t)))] @
      opt_field ''shouldRehydrate'' JBool (tm_shouldRehydrate t) @
      opt_field ''waitPlan'' plan_json (tm_waitPlan t) @
      opt_field ''content'' JStr (tm_content t) @
      opt_field ''question'' JStr (tm_question t) @
      opt_field ''choices'' strs_json (tm_choices t) @
      opt_field ''allowFreeform'' JBool (tm_allowFreeform t) @
      opt_field ''agentIds'' strs_json (tm_agentIds t))"

fun item_json :: "fifo_item \<Rightarrow> json" where
  "item_json (FPrompt p b tool) = JObj
     ([(''kind'', JStr ''prompt''), (''prompt'', JStr p), (''bootstrap'', JBool b)] @
      opt_field ''requiredTool'' JStr tool)"
| "item_json (FAnswer a f) = JObj
     ([(''kind'', JStr ''answer''), (''answer'', JStr a)] @ opt_field ''wasFreeform'' JBool f)"
| "item_json (FTimer t fired) = JObj
     [(''kind'', JStr ''timer''), (''timer'', timer_json t), (''firedAtMs'', JNum fired)]"
| "item_json (FAgentsDone s) = JObj [(''kind'', JStr ''agents-done''), (''summary'', JStr s)]"
| "item_json (FUnknown k) = JObj [(''kind'', JStr k)]"

definition bucket_size :: "fifo_item list \<Rightarrow> nat" where
  "bucket_size items = length (stringify (JArr (map item_json items)))"

subsection \<open>Buckets\<close>

definition fifoBucketKey :: "nat \<Rightarrow> string" where
  "fifoBucketKey i = ''fifo.'' @ show_nat i"

definition readFifoBucket :: "kv_map \<Rightarrow> nat \<Rightarrow> fifo_item list" where
  "readFifoBucket m i = (case m (fifoBucketKey i) of Some (KvItems xs) \<Rightarrow> xs | _ \<Rightarrow> [])"

definition writeFifoBucket :: "kv_map \<Rightarrow> nat \<Rightarrow> fifo_item list \<Rightarrow> kv_map" where
  "writeFifoBucket m i items =
     (if items = [] then m(fifoBucketKey i := None) else m(fifoBucketKey i \<mapsto> KvItems items))"

subsection \<open>The queue operations\<close>

text \<open>The last bucket in use; the scan of the source runs from the top down.\<close>

fun last_used :: "kv_map \<Rightarrow> nat \<Rightarrow> nat" where
  "last_used m 0 = 0"
| "last_used m (Suc i) = (if readFifoBucket m i \<noteq> [] then i else last_used m i)"

fun append_loop :: "kv_map \<Rightarrow> nat \<Rightarrow> fifo_item list \<Rightarrow> kv_map" where
  "append_loop m idx [] = m"
| "append_loop m idx (item # rest) =
     (let bucket = readFifoBucket m idx in
      if MAX_BUCKET_BYTES < bucket_size (bucket @ [item]) then
        (let m1 = writeFifoBucket m idx bucket in
         if FIFO_BUCKET_COUNT \<le> Suc idx then m1
         else append_loop (writeFifoBucket m1 (Suc idx) [item]) (Suc idx) rest)
      else append_loop (writeFifoBucket m idx (bucket @ [item])) idx rest)"

definition appendToFifo :: "kv_map \<Rightarrow> fifo_item list \<Rightarrow> kv_map" where
  "appendToFifo m items = append_loop m (last_used m FIFO_BUCKET_COUNT) items"

fun pop_from :: "kv_map \<Rightarrow> nat list \<Rightarrow> fifo_item option \<times> kv_map" where
  "pop_from m [] = (None, m)"
| "pop_from m (i # is) =
     (case readFifoBucket m i of
        [] \<Rightarrow> pop_from m is
      | first # rest \<Rightarrow> (Some first, writeFifoBucket m i rest))"

definition popFifoItem :: "kv_map \<Rightarrow> fifo_item option \<times> kv_map" where
  "popFifoItem m = pop_from m [0..<FIFO_BUCKET_COUNT]"

definition hasFifoItems :: "kv_map \<Rightarrow> bool" where
  "hasFifoItems m = list_ex (\<lambda>i. readFifoBucket m i \<noteq> []) [0..<FIFO_BUCKET_COUNT]"

text \<open>The queue the buckets represent.\<close>

definition fifo_items :: "kv_map \<Rightarrow> fifo_item list" where
  "fifo_items m = concat (map (readFifoBucket m) [0..<FIFO_BUCKET_COUNT])"

subsection \<open>Bucket lemmas\<close>

lemma fifoBucketKey_inject [simp]: "fifoBucketKey i = fifoBucketKey j \<longleftrightarrow> i = j"
  by (simp add: fifoBucketKey_def)

lemma read_write_bucket [simp]: "readFifoBucket (writeFifoBucket m i xs) i = xs"
  by (simp add: readFifoBucket_def writeFifoBucket_def)

lemma read_write_other [simp]:
  "i \<noteq> j \<Longrightarrow> readFifoBucket (writeFifoBucket m i xs) j = readFifoBucket m j"
  by (simp add: readFifoBucket_def writeFifoBucket_def)

lemma write_frame: "(\<And>i. k \<noteq> fifoBucketKey i) \<Longrightarrow> writeFifoBucket m i xs k = m k"
  by (simp add: writeFifoBucket_def)

lemma append_loop_frame:
  "(\<And>i. k \<noteq> fifoBucketKey i) \<Longrightarrow> append_loop m idx xs k = m k"
  by (induction m idx xs rule: append_loop.induct) (simp_all add: Let_def write_frame)

lemma pop_from_frame: "(\<And>i. k \<noteq> fifoBucketKey i) \<Longrightarrow> snd (pop_from m is) k = m k"
  by (induction "is") (auto simp: write_frame split: list.splits)

lemma counter_keys_not_fifo [simp]:
  "RESPONSE_VERSION_KEY \<noteq> fifoBucketKey i" "COMMAND_VERSION_KEY \<noteq> fifoBucketKey i"
  "fifoBucketKey i \<noteq> RESPONSE_VERSION_KEY" "fifoBucketKey i \<noteq> COMMAND_VERSION_KEY"
  by (simp_all add: RESPONSE_VERSION_KEY_def COMMAND_VERSION_KEY_def fifoBucketKey_def)

lemma hasFifoItems_iff: "hasFifoItems m \<longleftrightarrow> fifo_items m \<noteq> []"
  by (simp add: hasFifoItems_def fifo_items_def list_ex_iff)

lemma pop_other:
  "i \<notin> set is \<Longrightarrow> snd (pop_from m is) (fifoBucketKey i) = m (fifoBucketKey i)"
  by (induction "is") (auto simp: writeFifoBucket_def split: list.splits)

lemma pop_from_items:
  "distinct is \<Longrightarrow>
     (case pop_from m is of
        (None, m') \<Rightarrow> concat (map (readFifoBucket m) is) = [] \<and> m' = m
      | (Some x, m') \<Rightarrow>
          concat (map (readFifoBucket m) is) = x # concat (map (readFifoBucket m') is))"
proof (induction "is")
  case Nil
  then show ?case by simp
next
  case (Cons i "is")
  have other: "map (readFifoBucket (writeFifoBucket m i xs)) is = map (readFifoBucket m) is" for xs
    using Cons.prems by (intro map_cong refl read_write_other) auto
  show ?case
  proof (cases "readFifoBucket m i")
    case (Cons x xs)
    then show ?thesis by (simp add: other)
  next
    case Nil
    have ih: "case pop_from m is of
        (None, m') \<Rightarrow> concat (map (readFifoBucket m) is) = [] \<and> m' = m
      | (Some x, m') \<Rightarrow>
          concat (map (readFifoBucket m) is) = x # concat (map (readFifoBucket m') is)"
      using Cons.IH Cons.prems by simp
    have same: "readFifoBucket (snd (pop_from m is)) i = readFifoBucket m i"
      unfolding readFifoBucket_def
      using pop_other [of i "is" m] Cons.prems by simp
    show ?thesis using ih Nil same by (auto split: prod.splits option.splits)
  qed
qed

subsection \<open>Appending\<close>

definition top_free :: "kv_map \<Rightarrow> nat \<Rightarrow> bool" where
  "top_free m idx = (\<forall>j. idx < j \<and> j < FIFO_BUCKET_COUNT \<longrightarrow> readFifoBucket m j = [])"

lemma last_used_top_free:
  "\<forall>j. last_used m n < j \<and> j < n \<longrightarrow> readFifoBucket m j = []"
proof (induction n)
  case (Suc n)
  then show ?case by (auto simp: less_Suc_eq)
qed simp

lemma last_used_less: "0 < n \<Longrightarrow> last_used m n < n"
proof (induction n)
  case (Suc n)
  then show ?case by (cases n) (auto intro: less_SucI)
qed simp

lemma last_used_nonempty: "last_used m n = i \<Longrightarrow> 0 < i \<Longrightarrow> readFifoBucket m i \<noteq> []"
  by (induction n) (auto split: if_splits)

lemma upt_split3: "i < n \<Longrightarrow> [0..<n] = [0..<i] @ i # [Suc i..<n]"
  using upt_add_eq_append [of 0 i "n - i"] upt_conv_Cons [of i n] by simp

lemma concat_map_Nil: "\<forall>x \<in> set xs. f x = [] \<Longrightarrow> concat (map f xs) = []"
  by simp

lemma fifo_items_split:
  assumes "idx < FIFO_BUCKET_COUNT" and "top_free m idx"
  shows "fifo_items m = concat (map (readFifoBucket m) [0..<idx]) @ readFifoBucket m idx"
proof -
  have "concat (map (readFifoBucket m) [Suc idx..<FIFO_BUCKET_COUNT]) = []"
    using assms(2) by (intro concat_map_Nil) (auto simp: top_free_def)
  then show ?thesis
    using assms(1) by (simp add: fifo_items_def upt_split3 [OF assms(1)])
qed

lemma map_read_write_below:
  "map (readFifoBucket (writeFifoBucket m idx xs)) [0..<idx] = map (readFifoBucket m) [0..<idx]"
  by (intro map_cong refl read_write_other) auto

lemma top_free_write: "top_free m idx \<Longrightarrow> top_free (writeFifoBucket m idx xs) idx"
  by (auto simp: top_free_def)

lemma top_free_next: "top_free m idx \<Longrightarrow> top_free (writeFifoBucket m (Suc idx) xs) (Suc idx)"
  by (auto simp: top_free_def)

lemma fifo_items_write:
  assumes "idx < FIFO_BUCKET_COUNT" and "top_free m idx"
  shows "fifo_items (writeFifoBucket m idx (readFifoBucket m idx @ xs)) = fifo_items m @ xs"
  using assms by (simp add: fifo_items_split top_free_write map_read_write_below)

lemma fifo_items_next:
  assumes i: "Suc idx < FIFO_BUCKET_COUNT" and f: "top_free m idx"
  shows "fifo_items (writeFifoBucket (writeFifoBucket m idx (readFifoBucket m idx)) (Suc idx) [x]) =
           fifo_items m @ [x]"
proof -
  let ?m1 = "writeFifoBucket m idx (readFifoBucket m idx)"
  have f1: "top_free ?m1 idx" using f by (rule top_free_write)
  have m1: "fifo_items ?m1 = fifo_items m"
    using fifo_items_write [of idx m "[]"] i f by simp
  have e: "readFifoBucket ?m1 (Suc idx) = []" using f1 i by (simp add: top_free_def)
  have f2: "top_free ?m1 (Suc idx)" using f1 by (simp add: top_free_def)
  show ?thesis
    using fifo_items_write [OF i f2, of "[x]"] e m1 by simp
qed

text \<open>
  An append stores a prefix of the new items behind everything already queued; the rest is
  lost. With one free bucket per item nothing is lost, whatever the sizes.
\<close>

lemma append_loop_prefix:
  "idx < FIFO_BUCKET_COUNT \<Longrightarrow> top_free m idx \<Longrightarrow>
     \<exists>n \<le> length xs. fifo_items (append_loop m idx xs) = fifo_items m @ take n xs \<and>
       (idx + length xs < FIFO_BUCKET_COUNT \<longrightarrow> n = length xs)"
proof (induction m idx xs rule: append_loop.induct)
  case (1 m idx)
  then show ?case by simp
next
  case (2 m idx x xs)
  let ?b = "readFifoBucket m idx"
  let ?m1 = "writeFifoBucket m idx ?b"
  have extend: "\<exists>n \<le> length (x # xs). its = fifo_items m @ take n (x # xs) \<and>
      (idx + length (x # xs) < FIFO_BUCKET_COUNT \<longrightarrow> n = length (x # xs))"
    if "n \<le> length xs" "its = (fifo_items m @ [x]) @ take n xs"
      "Suc idx + length xs < FIFO_BUCKET_COUNT \<longrightarrow> n = length xs" for n its
    using that by (intro exI [of _ "Suc n"]) auto
  show ?case
  proof (cases "MAX_BUCKET_BYTES < bucket_size (?b @ [x])")
    case big: True
    show ?thesis
    proof (cases "FIFO_BUCKET_COUNT \<le> Suc idx")
      case True
      then show ?thesis
        using big fifo_items_write [OF 2(3,4), of "[]"] by (auto simp: Let_def intro!: exI [of _ 0])
    next
      case False
      then have i: "Suc idx < FIFO_BUCKET_COUNT" by simp
      let ?m2 = "writeFifoBucket ?m1 (Suc idx) [x]"
      have "top_free ?m2 (Suc idx)" using 2(4) by (intro top_free_next top_free_write)
      then obtain n where "n \<le> length xs"
          "fifo_items (append_loop ?m2 (Suc idx) xs) = fifo_items ?m2 @ take n xs"
          "Suc idx + length xs < FIFO_BUCKET_COUNT \<longrightarrow> n = length xs"
        using 2(1) [OF refl big refl False i] by blast
      then show ?thesis
        using big False extend [of n] fifo_items_next [OF i 2(4)] by (simp add: Let_def)
    qed
  next
    case small: False
    let ?m2 = "writeFifoBucket m idx (?b @ [x])"
    obtain n where "n \<le> length xs"
        "fifo_items (append_loop ?m2 idx xs) = fifo_items ?m2 @ take n xs"
        "idx + length xs < FIFO_BUCKET_COUNT \<longrightarrow> n = length xs"
      using 2(2) [OF refl small 2(3) top_free_write [OF 2(4)]] by blast
    then show ?thesis
      using small extend [of n] fifo_items_write [OF 2(3,4)] by (simp add: Let_def)
  qed
qed

lemma bucket_size_snoc:
  "bucket_size (xs @ [x]) =
     bucket_size xs + length (stringify (item_json x)) + (if xs = [] then 0 else 1)"
  using stringify_snoc [of "map item_json xs" "item_json x"] by (simp add: bucket_size_def)

lemma bucket_size_mono: "bucket_size xs \<le> bucket_size (xs @ ys)"
proof (induction ys rule: rev_induct)
  case (snoc y ys)
  have "bucket_size (xs @ ys) \<le> bucket_size ((xs @ ys) @ [y])" unfolding bucket_size_snoc by simp
  with snoc show ?case by simp
qed simp

lemma append_loop_small:
  "idx < FIFO_BUCKET_COUNT \<Longrightarrow> top_free m idx \<Longrightarrow>
     bucket_size (readFifoBucket m idx @ xs) \<le> MAX_BUCKET_BYTES \<Longrightarrow>
     fifo_items (append_loop m idx xs) = fifo_items m @ xs"
proof (induction xs arbitrary: m)
  case Nil
  then show ?case by simp
next
  case (Cons x xs)
  let ?b = "readFifoBucket m idx"
  let ?m2 = "writeFifoBucket m idx (?b @ [x])"
  have small: "bucket_size (?b @ [x]) \<le> MAX_BUCKET_BYTES"
    using bucket_size_mono [of "?b @ [x]" xs] Cons.prems(3) by simp
  have "fifo_items (append_loop ?m2 idx xs) = fifo_items ?m2 @ xs"
    using Cons.prems by (intro Cons.IH top_free_write) simp_all
  then show ?case
    using small fifo_items_write [OF Cons.prems(1,2), of "[x]"] by (simp add: Let_def)
qed

lemma appendToFifo_start:
  "last_used m FIFO_BUCKET_COUNT < FIFO_BUCKET_COUNT"
  "top_free m (last_used m FIFO_BUCKET_COUNT)"
  using last_used_less [of FIFO_BUCKET_COUNT m] last_used_top_free [of m FIFO_BUCKET_COUNT]
  by (auto simp: FIFO_BUCKET_COUNT_def top_free_def)

text \<open>Room for the new items: a bucket for each, or all of them in the bucket in use.\<close>

definition fifo_room :: "kv_map \<Rightarrow> fifo_item list \<Rightarrow> bool" where
  "fifo_room m xs =
     (let i = last_used m FIFO_BUCKET_COUNT in
      i + length xs < FIFO_BUCKET_COUNT \<or>
      bucket_size (readFifoBucket m i @ xs) \<le> MAX_BUCKET_BYTES)"

lemma append_stores_prefix:
  "\<exists>n. fifo_items (appendToFifo m xs) = fifo_items m @ take n xs"
  using append_loop_prefix [OF appendToFifo_start(1) [of m] appendToFifo_start(2) [of m], of xs] unfolding appendToFifo_def by blast

lemma append_room: "fifo_room m xs \<Longrightarrow> fifo_items (appendToFifo m xs) = fifo_items m @ xs"
  using append_loop_prefix [OF appendToFifo_start(1) [of m] appendToFifo_start(2) [of m], of xs]
    append_loop_small [OF appendToFifo_start(1) [of m] appendToFifo_start(2) [of m], of xs]
  unfolding appendToFifo_def fifo_room_def Let_def by fastforce

lemma pop_items_Nil: "fifo_items m = [] \<Longrightarrow> popFifoItem m = (None, m)"
  using pop_from_items [of "[0..<FIFO_BUCKET_COUNT]" m]
  by (auto simp: popFifoItem_def fifo_items_def simp del: concat_eq_Nil_conv
      split: prod.splits option.splits)

lemma pop_items_Cons:
  "fifo_items m = x # xs \<Longrightarrow>
     fst (popFifoItem m) = Some x \<and> fifo_items (snd (popFifoItem m)) = xs"
  using pop_from_items [of "[0..<FIFO_BUCKET_COUNT]" m]
  by (auto simp: popFifoItem_def fifo_items_def split: prod.splits option.splits)

lemma hasFifoItems_empty: "(\<And>i. readFifoBucket m i = []) \<Longrightarrow> \<not> hasFifoItems m"
  by (simp add: hasFifoItems_iff fifo_items_def)

interpretation fq: work_queue appendToFifo popFifoItem fifo_items fifo_room
  by unfold_locales (auto simp: append_room append_stores_prefix pop_items_Nil pop_items_Cons)

subsection \<open>Properties\<close>

lemma prompt_size: "length p \<le> bucket_size [FPrompt p b t]"
proof -
  have esc: "1 \<le> length (escape_char c)" for c by (simp add: escape_char_def Let_def)
  have "length p \<le> length (concat (map escape_char p))"
  proof (induction p)
    case (Cons c p)
    then show ?case using esc [of c] by simp
  qed simp
  then show ?thesis by (simp add: bucket_size_def quote_def length_join)
qed

text \<open>
  C7: In-order, exactly-once delivery: for every interleaving of appends and pops in which each
  append finds room, the items taken out followed by the items still buffered are the items that
  were there followed by all items appended, in order.
\<close>

theorem fifo_delivery:
  assumes "run_room fifo_room appendToFifo popFifoItem m ops"
    and "run_queue appendToFifo popFifoItem m ops = (out, m')"
  shows "out @ fifo_items m' = fifo_items m @ enqueued ops"
  using assms by (rule fq.delivery)

theorem fifo_delivery_witness:
  "\<exists>out m'. out @ fifo_items m' =
     fifo_items Map.empty @ enqueued [Enqueue [FAnswer ''a'' None, FAgentsDone ''b''], Dequeue]"
proof -
  let ?ops = "[Enqueue [FAnswer ''a'' None, FAgentsDone ''b''], Dequeue]"
  obtain out m' where r: "run_queue appendToFifo popFifoItem Map.empty ?ops = (out, m')" by force
  have "last_used Map.empty n = 0" for n by (induction n) (simp_all add: readFifoBucket_def)
  then have "run_room fifo_room appendToFifo popFifoItem Map.empty ?ops"
    by (simp add: fifo_room_def FIFO_BUCKET_COUNT_def)
  from fifo_delivery [OF this r] show ?thesis by blast
qed

text \<open>
  Without any assumption on room the buffer never invents, duplicates or reorders within an
  append: what an append stores is a prefix of the new items behind everything already queued,
  and the buffer reports work exactly when a pop returns an item.
\<close>

theorem fifo_append_and_pop:
  "(\<exists>stored. fifo_items (appendToFifo m xs) = fifo_items m @ take stored xs) \<and>
   hasFifoItems m = (fst (popFifoItem m) \<noteq> None)"
proof -
  have "hasFifoItems m = (fst (popFifoItem m) \<noteq> None)"
    using fq.deq_items [of m] by (cases "popFifoItem m"; cases "fst (popFifoItem m)")
      (auto simp: hasFifoItems_iff)
  then show ?thesis using append_stores_prefix by blast
qed

text \<open>
  Overflow loses work: once the last bucket is in use and an item does not fit into it, the
  append drops that item and everything after it, even when all the other buckets are empty. The
  source only logs this; the caller has already taken the messages off the durable queue.
\<close>

theorem fifo_overflow_drops:
  assumes "readFifoBucket m 19 = b" and "b \<noteq> []" and "MAX_BUCKET_BYTES < bucket_size (b @ [x])"
  shows "fifo_items (appendToFifo m (x # xs)) = fifo_items m"
proof -
  have "last_used m FIFO_BUCKET_COUNT = 19"
    using assms(1,2) by (simp add: FIFO_BUCKET_COUNT_def eval_nat_numeral)
  then have "appendToFifo m (x # xs) = writeFifoBucket m 19 b"
    using assms by (simp add: appendToFifo_def FIFO_BUCKET_COUNT_def)
  moreover have "readFifoBucket (writeFifoBucket m 19 b) = readFifoBucket m"
    using assms(1) read_write_bucket [of m 19 b] read_write_other [of 19 _ m b] by (metis ext)
  ultimately show ?thesis by (simp add: fifo_items_def)
qed

definition full_buffer :: kv_map where
  "full_buffer = [fifoBucketKey 19 \<mapsto> KvItems [FPrompt (replicate 14336 (CHR ''x'')) False None]]"

theorem fifo_overflow_drops_witness:
  "fifo_items (appendToFifo full_buffer [FAnswer ''yes'' None]) = fifo_items full_buffer"
proof (rule fifo_overflow_drops [OF refl])
  have b: "readFifoBucket full_buffer 19 = [FPrompt (replicate 14336 (CHR ''x'')) False None]"
    by (simp add: full_buffer_def readFifoBucket_def)
  show "readFifoBucket full_buffer 19 \<noteq> []" by (simp add: b)
  have "14336 \<le> bucket_size [FPrompt (replicate 14336 (CHR ''x'')) False None]"
    using prompt_size [of "replicate 14336 (CHR ''x'')"] by simp
  moreover have "1 \<le> length (stringify (item_json (FAnswer ''yes'' None)))" by simp
  ultimately show "MAX_BUCKET_BYTES < bucket_size (readFifoBucket full_buffer 19 @ [FAnswer ''yes'' None])"
    unfolding b bucket_size_snoc by (simp add: MAX_BUCKET_BYTES_def)
qed

end
