(* ===== verification/ContextUsage.thy ===== *)
theory ContextUsage
  imports DataModel
begin

text \<open>
  The context-window snapshot of \<open>orchestration.ts\<close>: \<open>updateContextUsageFromEvents\<close> folds the
  events captured during a turn over the previous snapshot.
\<close>

definition cloneContextUsage :: "context_usage option \<Rightarrow> context_usage option" where
  "cloneContextUsage u = u"

fun finiteNumber :: "json option \<Rightarrow> int option" where
  "finiteNumber (Some (JNum i)) = Some i"
| "finiteNumber _ = None"

fun optionalBoolean :: "json option \<Rightarrow> bool option" where
  "optionalBoolean (Some (JBool b)) = Some b"
| "optionalBoolean _ = None"

definition num_field :: "json \<Rightarrow> string \<Rightarrow> int option" where
  "num_field d k = finiteNumber (json_get d k)"

definition utilization_of :: "int \<Rightarrow> int \<Rightarrow> rat" where
  "utilization_of tokens limit = (if 0 < limit then of_int tokens / of_int limit else 0)"

definition empty_usage :: context_usage where
  "empty_usage = \<lparr> cu_tokenLimit = 0, cu_currentTokens = 0, cu_utilization = 0, cu_messagesLength = 0,
     cu_systemTokens = None, cu_conversationTokens = None, cu_toolDefinitionsTokens = None,
     cu_isInitial = None, cu_lastInputTokens = None, cu_lastOutputTokens = None,
     cu_lastCacheReadTokens = None, cu_lastCacheWriteTokens = None, cu_updatedAt = None,
     cu_compaction = None \<rparr>"

definition idle_compaction :: compaction_snapshot where
  "idle_compaction = \<lparr> cp_state = CompIdle, cp_startedAt = None, cp_completedAt = None, cp_error = None,
     cp_preCompactionTokens = None, cp_postCompactionTokens = None,
     cp_preCompactionMessagesLength = None, cp_messagesRemoved = None, cp_tokensRemoved = None,
     cp_systemTokens = None, cp_conversationTokens = None, cp_toolDefinitionsTokens = None,
     cp_inputTokens = None, cp_outputTokens = None, cp_cachedInputTokens = None \<rparr>"

text \<open>\<open>session.usage_info\<close>: ignored unless the three required numbers are present.\<close>

definition usage_info :: "json \<Rightarrow> int \<Rightarrow> context_usage option \<Rightarrow> context_usage option" where
  "usage_info d observedAt next =
     (case (num_field d ''tokenLimit'', num_field d ''currentTokens'', num_field d ''messagesLength'') of
        (Some limit, Some tokens, Some messages) \<Rightarrow>
          (let u = default_to next empty_usage in
           Some (u\<lparr>cu_tokenLimit := limit, cu_currentTokens := tokens,
                  cu_utilization := utilization_of tokens limit,
                  cu_messagesLength := messages, cu_updatedAt := Some observedAt,
                  cu_systemTokens := or_else (num_field d ''systemTokens'') (cu_systemTokens u),
                  cu_conversationTokens :=
                    or_else (num_field d ''conversationTokens'') (cu_conversationTokens u),
                  cu_toolDefinitionsTokens :=
                    or_else (num_field d ''toolDefinitionsTokens'') (cu_toolDefinitionsTokens u),
                  cu_isInitial :=
                    or_else (optionalBoolean (json_get d ''isInitial'')) (cu_isInitial u)\<rparr>))
      | _ \<Rightarrow> next)"

definition assistant_usage :: "json \<Rightarrow> int \<Rightarrow> context_usage \<Rightarrow> context_usage" where
  "assistant_usage d observedAt u =
     u\<lparr>cu_lastInputTokens := or_else (num_field d ''inputTokens'') (cu_lastInputTokens u),
       cu_lastOutputTokens := or_else (num_field d ''outputTokens'') (cu_lastOutputTokens u),
       cu_lastCacheReadTokens := or_else (num_field d ''cacheReadTokens'') (cu_lastCacheReadTokens u),
       cu_lastCacheWriteTokens := or_else (num_field d ''cacheWriteTokens'') (cu_lastCacheWriteTokens u),
       cu_updatedAt := Some observedAt\<rparr>"

definition compaction_start :: "int \<Rightarrow> context_usage \<Rightarrow> context_usage" where
  "compaction_start observedAt u =
     u\<lparr>cu_compaction := Some ((default_to (cu_compaction u) idle_compaction)
         \<lparr>cp_state := CompRunning, cp_startedAt := Some observedAt,
          cp_completedAt := None, cp_error := None\<rparr>),
       cu_updatedAt := Some observedAt\<rparr>"

definition completed_compaction :: "json \<Rightarrow> int \<Rightarrow> compaction_snapshot \<Rightarrow> compaction_snapshot" where
  "completed_compaction d observedAt c =
     (let used = (case json_get d ''compactionTokensUsed'' of
                    Some o' \<Rightarrow> if json_is_object o' then Some o' else None
                  | None \<Rightarrow> None);
          used_num = (\<lambda>k. case used of None \<Rightarrow> None | Some o' \<Rightarrow> num_field o' k)
      in c\<lparr>cp_state := (if json_get d ''success'' = Some (JBool False) then CompFailed else CompSucceeded),
           cp_completedAt := Some observedAt,
           cp_error := (case json_get d ''error'' of
                          Some (JStr e) \<Rightarrow> if e = [] then None else Some e | _ \<Rightarrow> None),
           cp_preCompactionTokens := or_else (num_field d ''preCompactionTokens'') (cp_preCompactionTokens c),
           cp_postCompactionTokens := or_else (num_field d ''postCompactionTokens'') (cp_postCompactionTokens c),
           cp_preCompactionMessagesLength :=
             or_else (num_field d ''preCompactionMessagesLength'') (cp_preCompactionMessagesLength c),
           cp_messagesRemoved := or_else (num_field d ''messagesRemoved'') (cp_messagesRemoved c),
           cp_tokensRemoved := or_else (num_field d ''tokensRemoved'') (cp_tokensRemoved c),
           cp_systemTokens := or_else (num_field d ''systemTokens'') (cp_systemTokens c),
           cp_conversationTokens := or_else (num_field d ''conversationTokens'') (cp_conversationTokens c),
           cp_toolDefinitionsTokens :=
             or_else (num_field d ''toolDefinitionsTokens'') (cp_toolDefinitionsTokens c),
           cp_inputTokens := or_else (used_num ''input'') (cp_inputTokens c),
           cp_outputTokens := or_else (used_num ''output'') (cp_outputTokens c),
           cp_cachedInputTokens := or_else (used_num ''cachedInput'') (cp_cachedInputTokens c)\<rparr>)"

definition compaction_complete :: "json \<Rightarrow> int \<Rightarrow> context_usage \<Rightarrow> context_usage" where
  "compaction_complete d observedAt u =
     (let post = num_field d ''postCompactionTokens'';
          u1 = (case post of
                  None \<Rightarrow> u
                | Some t \<Rightarrow> u\<lparr>cu_currentTokens := t,
                              cu_utilization := utilization_of t (cu_tokenLimit u)\<rparr>);
          u2 = (case (num_field d ''preCompactionMessagesLength'', num_field d ''messagesRemoved'') of
                  (Some len, Some rem) \<Rightarrow> u1\<lparr>cu_messagesLength := max 0 (len - rem)\<rparr>
                | _ \<Rightarrow> u1)
      in u2\<lparr>cu_systemTokens := or_else (num_field d ''systemTokens'') (cu_systemTokens u2),
            cu_conversationTokens := or_else (num_field d ''conversationTokens'') (cu_conversationTokens u2),
            cu_toolDefinitionsTokens :=
              or_else (num_field d ''toolDefinitionsTokens'') (cu_toolDefinitionsTokens u2),
            cu_compaction :=
              Some (completed_compaction d observedAt (default_to (cu_compaction u) idle_compaction)),
            cu_updatedAt := Some observedAt\<rparr>)"

definition usage_event :: "int \<Rightarrow> captured_event \<Rightarrow> context_usage option \<Rightarrow> context_usage option" where
  "usage_event observedAt event next =
     (let t = ev_type event; d = ev_data event in
      if t = [] \<or> \<not> json_is_object d then next
      else if t = ''session.usage_info'' then usage_info d observedAt next
      else
        (case next of
           None \<Rightarrow> None
         | Some u \<Rightarrow>
             if t = ''assistant.usage'' then Some (assistant_usage d observedAt u)
             else if t = ''session.compaction_start'' then Some (compaction_start observedAt u)
             else if t = ''session.compaction_complete'' then Some (compaction_complete d observedAt u)
             else Some u))"

definition updateContextUsageFromEvents ::
    "context_usage option \<Rightarrow> captured_event list \<Rightarrow> int \<Rightarrow> context_usage option" where
  "updateContextUsageFromEvents previous events observedAt =
     fold (usage_event observedAt) events (cloneContextUsage previous)"

subsection \<open>Invariant of the snapshot\<close>

text \<open>The stored utilization is always the ratio of the stored token counts.\<close>

definition usage_ok :: "context_usage \<Rightarrow> bool" where
  "usage_ok u \<longleftrightarrow> cu_utilization u = utilization_of (cu_currentTokens u) (cu_tokenLimit u)"

lemma usage_event_ok:
  "(\<forall>u. next = Some u \<longrightarrow> usage_ok u) \<Longrightarrow> usage_event t e next = Some u' \<Longrightarrow> usage_ok u'"
  by (auto simp: usage_event_def Let_def usage_info_def assistant_usage_def compaction_start_def
      compaction_complete_def usage_ok_def split: option.splits if_splits)

lemma update_usage_ok:
  "(\<forall>u. prev = Some u \<longrightarrow> usage_ok u) \<Longrightarrow>
     updateContextUsageFromEvents prev events t = Some u' \<Longrightarrow> usage_ok u'"
proof (induction events arbitrary: prev)
  case Nil
  then show ?case by (simp add: updateContextUsageFromEvents_def cloneContextUsage_def)
next
  case (Cons e events)
  have "\<forall>u. usage_event t e prev = Some u \<longrightarrow> usage_ok u"
    using usage_event_ok Cons.prems(1) by blast
  moreover have "updateContextUsageFromEvents (usage_event t e prev) events t = Some u'"
    using Cons.prems(2) by (simp add: updateContextUsageFromEvents_def cloneContextUsage_def)
  ultimately show ?case by (rule Cons.IH)
qed

text \<open>A snapshot never disappears, and only a usage report creates one.\<close>

lemma usage_event_persists: "next \<noteq> None \<Longrightarrow> usage_event t e next \<noteq> None"
  by (auto simp: usage_event_def usage_info_def Let_def split: option.splits)

lemma usage_event_creates:
  "usage_event t e None \<noteq> None \<Longrightarrow> ev_type e = ''session.usage_info''"
  by (auto simp: usage_event_def Let_def split: if_splits)

end
