(* ===== verification/ContinueAsNew.thy ===== *)
theory ContinueAsNew
  imports FifoBuffer ContextUsage
begin

text \<open>
  What an execution hands to the next one and how the next one rebuilds its variables from it:
  the task context, the recurring schedule, \<open>continueInput\<close>, \<open>versionedContinueAsNew\<close> and the
  initialisation of the generator.
\<close>

subsection \<open>Task context and recurring schedule\<close>

definition system_text :: "system_message option \<Rightarrow> string" where
  "system_text m = (case m of None \<Rightarrow> [] | Some (SysText s) \<Rightarrow> s | Some (SysObj _ c) \<Rightarrow> c)"

definition recurring_message :: "system_message option \<Rightarrow> string \<Rightarrow> system_message" where
  "recurring_message base tc =
     SysText (system_text base @ (if system_text base = [] then [] else [nl, nl]) @
       ''[RECURRING TASK]'' @ [nl] @
       ''Original user request (always remember, even if conversation history is truncated):'' @
       [nl] @ [char_of (34::nat)] @ tc @ [char_of (34::nat)])"

definition set_task_context :: "string \<Rightarrow> orch \<Rightarrow> orch" where
  "set_task_context tc w =
     w\<lparr>v_taskContext := Some tc,
       v_config := (v_config w)\<lparr>c_systemMessage :=
         Some (recurring_message (baseSystemMessage (inp w)) tc)\<rparr>\<rparr>"

definition ensureTaskContext :: "string option \<Rightarrow> unit orchp" where
  "ensureTaskContext sourcePrompt =
     modify (\<lambda>w. if truthy (v_taskContext w) \<or> \<not> truthy sourcePrompt then w
                 else set_task_context (take 2000 (or_str sourcePrompt [])) w)"

definition applyCronAction :: "cron_action \<Rightarrow> string option \<Rightarrow> unit orchp" where
  "applyCronAction action sourcePrompt =
     andThen (modify (\<lambda>w. w\<lparr>v_interruptedCronTimer := None\<rparr>))
       (case action of
          CronCancel \<Rightarrow> modify (\<lambda>w. w\<lparr>v_cronSchedule := None\<rparr>)
        | CronSet seconds reason \<Rightarrow>
            andThen (ensureTaskContext sourcePrompt)
              (modify (\<lambda>w. w\<lparr>v_cronSchedule :=
                 Some \<lparr> cs_intervalSeconds = seconds, cs_reason = reason \<rparr>\<rparr>)))"

fun drain_cron_queue :: "turn_action list \<Rightarrow> string option \<Rightarrow> unit orchp" where
  "drain_cron_queue (TCron a # rest) src =
     doing [modify (\<lambda>w. w\<lparr>v_pendingToolActions := rest\<rparr>), applyCronAction a src,
            drain_cron_queue rest src]"
| "drain_cron_queue _ src = ret ()"

definition drainLeadingQueuedCronActions :: "string option \<Rightarrow> unit orchp" where
  "drainLeadingQueuedCronActions src = inspect (\<lambda>w. drain_cron_queue (v_pendingToolActions w) src)"

subsection \<open>The input of the next execution\<close>

record can_overrides =
  ov_prompt :: "string option"
  ov_requiredTool :: "string option"
  ov_systemPrompt :: "string option"
  ov_bootstrapPrompt :: "bool option"
  ov_rehydrationMessage :: "string option"
  ov_retryCount :: "nat option"
  ov_needsHydration :: "bool option"
  ov_forgottenTimerNudged :: "bool option"

definition no_overrides :: can_overrides where
  "no_overrides = \<lparr> ov_prompt = None, ov_requiredTool = None, ov_systemPrompt = None,
     ov_bootstrapPrompt = None, ov_rehydrationMessage = None, ov_retryCount = None,
     ov_needsHydration = None, ov_forgottenTimerNudged = None \<rparr>"

definition continueInput :: "can_overrides \<Rightarrow> orch \<Rightarrow> orch_input" where
  "continueInput ov w =
     (let i = inp w;
          carriedPrompt = or_else (ov_prompt ov) (v_pendingPrompt w);
          carriedRequiredTool = or_else (ov_requiredTool ov) (v_pendingRequiredTool w);
          carriedSystemPrompt = or_else (ov_systemPrompt ov) (v_pendingSystemPrompt w);
          carriedRehydration = or_else (ov_rehydrationMessage ov) (v_pendingRehydrationMessage w);
          promptForInput = or_else carriedPrompt
            (if truthy carriedSystemPrompt then Some INTERNAL_SYSTEM_TURN_PROMPT else None);
          bootstrapForInput = or_else (ov_bootstrapPrompt ov)
            (if truthy carriedPrompt then Some (v_bootstrapPrompt w)
             else if truthy carriedSystemPrompt then Some True else None)
      in \<lparr> in_sessionId = in_sessionId i,
           in_config = v_config w,
           in_sourceOrchestrationVersion = None,
           in_iteration = Some (v_iteration w),
           in_affinityKey = Some (v_affinityKey w),
           in_preserveAffinityOnHydrate = Some (v_preserveAffinity w),
           in_needsHydration = or_else (ov_needsHydration ov) (Some (v_needsHydration w)),
           in_blobEnabled = Some (blobEnabled i),
           in_prompt = keep_truthy promptForInput,
           in_requiredTool = keep_truthy carriedRequiredTool,
           in_systemPrompt = keep_truthy carriedSystemPrompt,
           in_bootstrapPrompt = (if truthy promptForInput then bootstrapForInput else None),
           in_dehydrateThreshold = Some (dehydrateThreshold i),
           in_idleTimeout = Some (idleTimeout i),
           in_inputGracePeriod = Some (inputGracePeriod i),
           in_nextSummarizeAt = Some (v_nextSummarizeAt w),
           in_retryCount = or_else (ov_retryCount ov) (Some 0),
           in_taskContext = v_taskContext w,
           in_baseSystemMessage = baseSystemMessage i,
           in_checkpointInterval = Some (checkpointInterval i),
           in_rehydrationMessage = keep_truthy carriedRehydration,
           in_forgottenTimerNudged = ov_forgottenTimerNudged ov,
           in_cronSchedule = v_cronSchedule w,
           in_contextUsage = v_contextUsage w,
           in_activeTimerState = None,
           in_waitingForAgentIds = v_waitingForAgentIds w,
           in_pendingInputQuestion = v_pendingInputQuestion w,
           in_interruptedWaitTimer = v_interruptedWaitTimer w,
           in_interruptedCronTimer = v_interruptedCronTimer w,
           in_pendingChildDigest = v_pendingChildDigest w,
           in_pendingShutdown = v_pendingShutdown w,
           in_subAgents = Some (v_subAgents w),
           in_pendingToolActions =
             (if v_pendingToolActions w = [] then None else Some (v_pendingToolActions w)),
           in_pendingMessage = None,
           in_parentSessionId = parentSessionId i,
           in_parentOrchId = None,
           in_nestingLevel = Some (nestingLevel i),
           in_isSystem = (if isSystem i then Some True else None),
           in_agentId = None \<rparr>)"

definition continueInputWithPrompt :: "string option \<Rightarrow> can_overrides \<Rightarrow> orch \<Rightarrow> orch_input" where
  "continueInputWithPrompt nextPrompt ov w =
     (case extractPromptSystemContext nextPrompt of
        (p, s) \<Rightarrow>
          let mergedPrompt = mergePrompt (v_pendingPrompt w) p;
              mergedSystemPrompt = mergePrompt (v_pendingSystemPrompt w) s
          in continueInput
               (ov\<lparr>ov_prompt := or_else (ov_prompt ov) (keep_truthy mergedPrompt),
                   ov_systemPrompt := or_else (ov_systemPrompt ov) (keep_truthy mergedSystemPrompt)\<rparr>) w)"

definition queueFollowup :: "string \<Rightarrow> unit orchp" where
  "queueFollowup nextPrompt =
     modify (\<lambda>w. w\<lparr>v_pendingPrompt :=
       mergePrompt (v_pendingPrompt w) (Some (strip_system_wrapper nextPrompt))\<rparr>)"

definition ensureWarmResumeCheckpoint :: "unit orchp" where
  "ensureWarmResumeCheckpoint =
     inspect (\<lambda>w. cond (blobEnabled (inp w))
       (try_catch (await_unit (session SCheckpoint)) (\<lambda>e. ret ())))"

definition carry_timer :: "int \<Rightarrow> active_timer \<Rightarrow> active_timer_state" where
  "carry_timer now t =
     \<lparr> ts_remainingMs = max 0 (tm_deadlineMs t - now),
       ts_reason = tm_reason t,
       ts_type = tm_type t,
       ts_originalDurationMs = Some (tm_originalDurationMs t),
       ts_shouldRehydrate = (if tm_shouldRehydrate t = Some True then Some True else None),
       ts_waitPlan = tm_waitPlan t,
       ts_content = keep_truthy (tm_content t),
       ts_question = keep_truthy (tm_question t),
       ts_choices = tm_choices t,
       ts_allowFreeform = tm_allowFreeform t,
       ts_agentIds = tm_agentIds t \<rparr>"

definition versionedContinueAsNew :: "orch_input \<Rightarrow> 'a orchp" where
  "versionedContinueAsNew canInput =
     bind (inspect (\<lambda>w.
       case v_activeTimer w of
         None \<Rightarrow> ret canInput
       | Some t \<Rightarrow> bind utcNow (\<lambda>now. ret (canInput\<lparr>in_activeTimerState := Some (carry_timer now t)\<rparr>))))
     (\<lambda>i. andThen (cond (in_needsHydration i \<noteq> Some True) ensureWarmResumeCheckpoint)
       (continueAsNew (i\<lparr>in_sourceOrchestrationVersion := Some DURABLE_SESSION_LATEST_VERSION\<rparr>)))"

definition continueWith :: "can_overrides \<Rightarrow> 'a orchp" where
  "continueWith ov = inspect (\<lambda>w. versionedContinueAsNew (continueInput ov w))"

subsection \<open>Rebuilding the variables\<close>

definition restore_timer :: "int \<Rightarrow> active_timer_state \<Rightarrow> active_timer" where
  "restore_timer now s =
     \<lparr> tm_deadlineMs = now + ts_remainingMs s,
       tm_originalDurationMs = default_to (ts_originalDurationMs s) (ts_remainingMs s),
       tm_reason = ts_reason s,
       tm_type = ts_type s,
       tm_shouldRehydrate = (if ts_shouldRehydrate s = Some True then Some True else None),
       tm_waitPlan = ts_waitPlan s,
       tm_content = keep_truthy (ts_content s),
       tm_question = keep_truthy (ts_question s),
       tm_choices = ts_choices s,
       tm_allowFreeform = ts_allowFreeform s,
       tm_agentIds = ts_agentIds s \<rparr>"

definition start_config :: "orch_input \<Rightarrow> session_config" where
  "start_config i =
     (if truthy (in_taskContext i)
      then (in_config i)\<lparr>c_systemMessage :=
             Some (recurring_message (baseSystemMessage i) (or_str (in_taskContext i) []))\<rparr>
      else in_config i)"

definition initial_state :: "orch_input \<Rightarrow> kv_map \<Rightarrow> resp list \<Rightarrow> orch" where
  "initial_state i m h =
     \<lparr> inp = i, kv = m, history = h, trace = [],
       v_pendingRehydrationMessage = in_rehydrationMessage i,
       v_needsHydration = default_to (in_needsHydration i) False,
       v_affinityKey = default_to (in_affinityKey i) (in_sessionId i),
       v_session = default_to (in_affinityKey i) (in_sessionId i),
       v_preserveAffinity = default_to (in_preserveAffinityOnHydrate i) False,
       v_iteration = default_to (in_iteration i) 0,
       v_config = start_config i,
       v_retryCount = default_to (in_retryCount i) 0,
       v_taskContext = in_taskContext i,
       v_cronSchedule = in_cronSchedule i,
       v_contextUsage = cloneContextUsage (in_contextUsage i),
       v_subAgents = default_to (in_subAgents i) [],
       v_pendingToolActions = default_to (in_pendingToolActions i) [],
       v_nextSummarizeAt = default_to (in_nextSummarizeAt i) 0,
       v_lastResponseVersion = counter_of m RESPONSE_VERSION_KEY,
       v_lastCommandVersion = counter_of m COMMAND_VERSION_KEY,
       v_lastCommandId = None,
       v_pendingPrompt = in_prompt i,
       v_pendingRequiredTool = in_requiredTool i,
       v_pendingSystemPrompt = in_systemPrompt i,
       v_bootstrapPrompt = default_to (in_bootstrapPrompt i) False,
       v_activeTimer = None,
       v_waitingForAgentIds = in_waitingForAgentIds i,
       v_pendingInputQuestion = in_pendingInputQuestion i,
       v_orchestrationResult = None,
       v_interruptedWaitTimer = in_interruptedWaitTimer i,
       v_interruptedCronTimer = in_interruptedCronTimer i,
       v_pendingChildDigest = in_pendingChildDigest i,
       v_pendingShutdown = in_pendingShutdown i,
       v_legacyPendingMessage = None \<rparr>"

definition reconstructTimer :: "unit orchp" where
  "reconstructTimer =
     inspect (\<lambda>w. case in_activeTimerState (inp w) of
       None \<Rightarrow> ret ()
     | Some s \<Rightarrow> bind utcNow (\<lambda>initNow.
         modify (\<lambda>w. w\<lparr>v_activeTimer := Some (restore_timer initNow s)\<rparr>)))"

definition adoptLegacyMessage :: "unit orchp" where
  "adoptLegacyMessage =
     modify (\<lambda>w. case in_pendingMessage (inp w) of
         None \<Rightarrow> w
       | Some msg \<Rightarrow>
           if truthy (m_prompt msg) \<and> \<not> truthy (v_pendingPrompt w)
           then w\<lparr>v_pendingPrompt := m_prompt msg,
                  v_bootstrapPrompt := (m_bootstrap msg = Some True),
                  v_pendingRequiredTool := m_requiredTool msg\<rparr>
           else w\<lparr>v_legacyPendingMessage := Some msg\<rparr>)"

subsection \<open>The initial values\<close>

lemma initial_fields [simp]:
  "inp (initial_state i m h) = i"
  "kv (initial_state i m h) = m"
  "history (initial_state i m h) = h"
  "trace (initial_state i m h) = []"
  "v_pendingRehydrationMessage (initial_state i m h) = in_rehydrationMessage i"
  "v_needsHydration (initial_state i m h) = default_to (in_needsHydration i) False"
  "v_affinityKey (initial_state i m h) = default_to (in_affinityKey i) (in_sessionId i)"
  "v_session (initial_state i m h) = default_to (in_affinityKey i) (in_sessionId i)"
  "v_preserveAffinity (initial_state i m h) = default_to (in_preserveAffinityOnHydrate i) False"
  "v_iteration (initial_state i m h) = default_to (in_iteration i) 0"
  "v_config (initial_state i m h) = start_config i"
  "v_retryCount (initial_state i m h) = default_to (in_retryCount i) 0"
  "v_taskContext (initial_state i m h) = in_taskContext i"
  "v_cronSchedule (initial_state i m h) = in_cronSchedule i"
  "v_contextUsage (initial_state i m h) = cloneContextUsage (in_contextUsage i)"
  "v_subAgents (initial_state i m h) = default_to (in_subAgents i) []"
  "v_pendingToolActions (initial_state i m h) = default_to (in_pendingToolActions i) []"
  "v_nextSummarizeAt (initial_state i m h) = default_to (in_nextSummarizeAt i) 0"
  "v_lastResponseVersion (initial_state i m h) = counter_of m RESPONSE_VERSION_KEY"
  "v_lastCommandVersion (initial_state i m h) = counter_of m COMMAND_VERSION_KEY"
  "v_lastCommandId (initial_state i m h) = None"
  "v_pendingPrompt (initial_state i m h) = in_prompt i"
  "v_pendingRequiredTool (initial_state i m h) = in_requiredTool i"
  "v_pendingSystemPrompt (initial_state i m h) = in_systemPrompt i"
  "v_bootstrapPrompt (initial_state i m h) = default_to (in_bootstrapPrompt i) False"
  "v_activeTimer (initial_state i m h) = None"
  "v_waitingForAgentIds (initial_state i m h) = in_waitingForAgentIds i"
  "v_pendingInputQuestion (initial_state i m h) = in_pendingInputQuestion i"
  "v_orchestrationResult (initial_state i m h) = None"
  "v_interruptedWaitTimer (initial_state i m h) = in_interruptedWaitTimer i"
  "v_interruptedCronTimer (initial_state i m h) = in_interruptedCronTimer i"
  "v_pendingChildDigest (initial_state i m h) = in_pendingChildDigest i"
  "v_pendingShutdown (initial_state i m h) = in_pendingShutdown i"
  "v_legacyPendingMessage (initial_state i m h) = None"
  by (simp_all add: initial_state_def)

subsection \<open>Properties\<close>

text \<open>
  What is still pending is handed over too, where the continuing handler does not give a prompt of
  its own: the prompt with its bootstrap mark, or the internal turn that a system prompt alone asks
  for, the required tool, the system prompt and the rehydration message.
\<close>

theorem pending_prompt_is_carried:
  "let s = initial_state (continueInput no_overrides w) m h;
       p = or_else (v_pendingPrompt w)
         (if truthy (v_pendingSystemPrompt w) then Some INTERNAL_SYSTEM_TURN_PROMPT else None) in
     v_pendingPrompt s = keep_truthy p \<and>
     (truthy (v_pendingPrompt w) \<longrightarrow> v_bootstrapPrompt s = v_bootstrapPrompt w) \<and>
     v_pendingSystemPrompt s = keep_truthy (v_pendingSystemPrompt w) \<and>
     v_pendingRequiredTool s = keep_truthy (v_pendingRequiredTool w) \<and>
     v_pendingRehydrationMessage s = keep_truthy (v_pendingRehydrationMessage w) \<and>
     v_needsHydration s = v_needsHydration w"
  by (cases "v_pendingPrompt w")
     (simp_all add: Let_def continueInput_def no_overrides_def truthy_def default_to_def split: if_splits)

text \<open>
  A durable timer never fires early and keeps what it was armed for: carried over at one time
  and rebuilt at a later one, its deadline moves later by exactly the time in between (or to the
  rebuild time when it had already passed), and its kind, reason, length, plan and agents are
  those it had.
\<close>

theorem timer_survives_continue_as_new:
  assumes "now \<le> later"
  shows "tm_deadlineMs (restore_timer later (carry_timer now t)) =
           max later (tm_deadlineMs t + (later - now)) \<and>
         tm_deadlineMs t \<le> tm_deadlineMs (restore_timer later (carry_timer now t)) \<and>
         tm_type (restore_timer later (carry_timer now t)) = tm_type t \<and>
         tm_reason (restore_timer later (carry_timer now t)) = tm_reason t \<and>
         tm_originalDurationMs (restore_timer later (carry_timer now t)) = tm_originalDurationMs t \<and>
         tm_waitPlan (restore_timer later (carry_timer now t)) = tm_waitPlan t \<and>
         tm_agentIds (restore_timer later (carry_timer now t)) = tm_agentIds t \<and>
         (tm_shouldRehydrate (restore_timer later (carry_timer now t)) = Some True) =
           (tm_shouldRehydrate t = Some True)"
  using assms by (simp add: restore_timer_def carry_timer_def max_def)

definition sample_timer :: active_timer where
  "sample_timer = \<lparr> tm_deadlineMs = 9000, tm_originalDurationMs = 8000, tm_reason = ''build'',
     tm_type = TmWait, tm_shouldRehydrate = Some True, tm_waitPlan = None, tm_content = None,
     tm_question = None, tm_choices = None, tm_allowFreeform = None, tm_agentIds = None \<rparr>"

theorem timer_survives_continue_as_new_witness:
  "tm_deadlineMs (restore_timer 2500 (carry_timer 2000 sample_timer)) = 9500"
  using timer_survives_continue_as_new [of 2000 2500 sample_timer] by (simp add: sample_timer_def)

text \<open>
  Without a base system message the recurring-task block is appended twice: the first
  execution puts it into the configuration, the next one takes that configuration as its base
  message and appends the block again. The source keeps \<open>baseSystemMessage\<close> in order to avoid
  exactly this; it works only when the session was created with a system message.
\<close>

theorem task_context_is_appended_twice:
  "let w = set_task_context (c # tc) (initial_state (blank_input sid) m h);
       s = initial_state (continueInput no_overrides w) m' h'
   in c_systemMessage (v_config w) = Some (recurring_message None (c # tc)) \<and>
      c_systemMessage (v_config s) =
        Some (recurring_message (Some (recurring_message None (c # tc))) (c # tc)) \<and>
      c_systemMessage (v_config s) \<noteq> c_systemMessage (v_config w)"
  by (simp add: Let_def set_task_context_def continueInput_def no_overrides_def start_config_def
      baseSystemMessage_def blank_config_def recurring_message_def system_text_def)

text \<open>
  With a base system message the block is appended exactly once, in every later execution:
  the configuration an execution starts with is the one its predecessor ended with.
\<close>

theorem task_context_is_appended_once:
  "let w = set_task_context (c # tc) (w0\<lparr>inp := (inp w0)\<lparr>in_baseSystemMessage := Some base\<rparr>\<rparr>);
       s = initial_state (continueInput no_overrides w) m h
   in c_systemMessage (v_config w) = Some (recurring_message (Some base) (c # tc)) \<and>
      c_systemMessage (v_config s) = c_systemMessage (v_config w)"
  by (simp add: Let_def set_task_context_def continueInput_def no_overrides_def start_config_def
      baseSystemMessage_def)

end
