(* ===== verification/SubAgents.thy ===== *)
theory SubAgents
  imports ContinueAsNew
begin

text \<open>
  Tracking of spawned sub-agents in \<open>orchestration.ts\<close>: child updates and their batching,
  refreshing from the catalog, completion summaries, and the session helpers that dehydrate,
  checkpoint and summarise.
\<close>

definition isSubAgentTerminalStatus :: "agent_status \<Rightarrow> bool" where
  "isSubAgentTerminalStatus s = (s = AgCompleted \<or> s = AgFailed \<or> s = AgCancelled)"

fun agent_status_name :: "agent_status \<Rightarrow> string" where
  "agent_status_name AgRunning = ''running''"
| "agent_status_name AgWaiting = ''waiting''"
| "agent_status_name AgCompleted = ''completed''"
| "agent_status_name AgFailed = ''failed''"
| "agent_status_name AgCancelled = ''cancelled''"

text \<open>The status a catalog row reports, when it is one the parent adopts.\<close>

definition observed_status :: "string \<Rightarrow> agent_status \<Rightarrow> agent_status" where
  "observed_status reported current =
     (if reported = ''failed'' then AgFailed
      else if reported = ''completed'' then AgCompleted
      else if reported = ''cancelled'' then AgCancelled
      else if reported = ''waiting'' then AgWaiting
      else current)"

definition by_session :: "string \<Rightarrow> sub_agent \<Rightarrow> bool" where
  "by_session s a = (sa_sessionId a = s)"

definition by_orch :: "string \<Rightarrow> sub_agent \<Rightarrow> bool" where
  "by_orch o' a = (sa_orchId a = o')"

definition findTrackedAgentByOrchId :: "sub_agent list \<Rightarrow> string \<Rightarrow> sub_agent option" where
  "findTrackedAgentByOrchId agents orchId = find (by_orch orchId) agents"

text \<open>Assigning to a property of the entry \<open>find\<close> returned changes that entry in place.\<close>

fun update_first :: "('a \<Rightarrow> bool) \<Rightarrow> ('a \<Rightarrow> 'a) \<Rightarrow> 'a list \<Rightarrow> 'a list" where
  "update_first p f [] = []"
| "update_first p f (x # xs) = (if p x then f x # xs else x # update_first p f xs)"

definition update_agent :: "(sub_agent \<Rightarrow> bool) \<Rightarrow> (sub_agent \<Rightarrow> sub_agent) \<Rightarrow> unit orchp" where
  "update_agent p f = modify (\<lambda>w. w\<lparr>v_subAgents := update_first p f (v_subAgents w)\<rparr>)"

definition areTrackedAgentsTerminal :: "sub_agent list \<Rightarrow> string list \<Rightarrow> bool" where
  "areTrackedAgentsTerminal agents ids =
     list_all (\<lambda>i. case findTrackedAgentByOrchId agents i of
                     None \<Rightarrow> False | Some a \<Rightarrow> isSubAgentTerminalStatus (sa_status a)) ids"

definition getStillRunningAgentIds :: "sub_agent list \<Rightarrow> string list \<Rightarrow> string list" where
  "getStillRunningAgentIds agents ids =
     filter (\<lambda>i. case findTrackedAgentByOrchId agents i of
                   None \<Rightarrow> False | Some a \<Rightarrow> \<not> isSubAgentTerminalStatus (sa_status a)) ids"

subsection \<open>Child updates\<close>

definition sessionStatus :: "string \<Rightarrow> child_status orchp" where
  "sessionStatus sid =
     bind (manager (MGetSessionStatus sid))
       (\<lambda>r. case r of RAgentStatus c \<Rightarrow> ret c | _ \<Rightarrow> stop BadHistory)"

definition reported_update :: "child_update \<Rightarrow> sub_agent \<Rightarrow> sub_agent" where
  "reported_update u a =
     (let a1 = (if up_content u = [] then a else a\<lparr>sa_result := Some (take 2000 (up_content u))\<rparr>)
      in if up_updateType u = ''completed'' then a1\<lparr>sa_status := AgCompleted\<rparr>
         else if up_updateType u = ''cancelled'' \<or> up_updateType u = ''deleted''
         then a1\<lparr>sa_status := AgCancelled\<rparr>
         else if up_updateType u = ''failed'' then a1\<lparr>sa_status := AgFailed\<rparr>
         else a1)"

definition polled_update :: "child_status \<Rightarrow> sub_agent \<Rightarrow> sub_agent" where
  "polled_update c a =
     (let a1 = a\<lparr>sa_status := observed_status (ct_status c) (sa_status a)\<rparr>
      in if truthy (ct_result c) \<and> ct_result c \<noteq> Some ''done''
         then a1\<lparr>sa_result := Some (take 2000 (or_str (ct_result c) []))\<rparr> else a1)"

definition applyChildUpdate :: "child_update \<Rightarrow> unit orchp" where
  "applyChildUpdate u =
     inspect (\<lambda>w.
       case find (by_session (up_sessionId u)) (v_subAgents w) of
         None \<Rightarrow> ret ()
       | Some a \<Rightarrow> doing [
           update_agent (by_session (up_sessionId u)) (reported_update u),
           try_catch
             (bind (sessionStatus (sa_sessionId a)) (\<lambda>c.
                update_agent (by_session (up_sessionId u)) (polled_update c)))
             (\<lambda>e. ret ())])"

definition digest_entry_of :: "child_update \<Rightarrow> int \<Rightarrow> digest_entry" where
  "digest_entry_of u observedAt =
     \<lparr> de_sessionId = up_sessionId u, de_updateType = up_updateType u,
       de_content = (if up_content u = [] then None else Some (take 2000 (up_content u))),
       de_observedAtMs = observedAt \<rparr>"

definition put_entry :: "digest_entry \<Rightarrow> digest_entry list \<Rightarrow> digest_entry list" where
  "put_entry e es =
     (if list_ex (\<lambda>x. de_sessionId x = de_sessionId e) es
      then update_first (\<lambda>x. de_sessionId x = de_sessionId e) (\<lambda>_. e) es
      else es @ [e])"

definition bufferChildUpdate :: "child_update \<Rightarrow> int \<Rightarrow> unit orchp" where
  "bufferChildUpdate u observedAt =
     modify (\<lambda>w.
       let d = default_to (v_pendingChildDigest w)
                 \<lparr> cd_startedAtMs = observedAt, cd_ready = False, cd_updates = [] \<rparr>
       in w\<lparr>v_pendingChildDigest :=
            Some (d\<lparr>cd_updates := put_entry (digest_entry_of u observedAt) (cd_updates d)\<rparr>)\<rparr>)"

definition clearPendingChildDigest :: "unit orchp" where
  "clearPendingChildDigest = modify (\<lambda>w. w\<lparr>v_pendingChildDigest := None\<rparr>)"

definition dq :: string where
  "dq = [char_of (34::nat)]"

definition digest_line :: "sub_agent list \<Rightarrow> digest_entry \<Rightarrow> string" where
  "digest_line agents u =
     (let agent = find (by_session (de_sessionId u)) agents;
          label = (case agent of None \<Rightarrow> de_sessionId u | Some a \<Rightarrow> sa_orchId a);
          task = (case agent of None \<Rightarrow> []
                  | Some a \<Rightarrow> if sa_task a = [] then []
                              else ''Task: '' @ dq @ take 120 (sa_task a) @ dq @ [nl]);
          status = (case agent of None \<Rightarrow> de_updateType u | Some a \<Rightarrow> agent_status_name (sa_status a));
          resultText = trim (or_str (de_content u)
                         (case agent of None \<Rightarrow> [] | Some a \<Rightarrow> default_to (sa_result a) []));
          result = (if resultText = [] then ''(no summary)'' else take 240 resultText)
      in ''  - Agent '' @ label @ [nl] @ ''    '' @ task @
         ''    Update: '' @ de_updateType u @ [nl] @
         ''    Status: '' @ status @ [nl] @ ''    Result: '' @ result)"

definition buildPendingChildDigestSystemPrompt :: "orch \<Rightarrow> string option" where
  "buildPendingChildDigestSystemPrompt w =
     (case v_pendingChildDigest w of
        None \<Rightarrow> None
      | Some d \<Rightarrow>
          if cd_updates d = [] then None
          else Some (''Buffered child updates arrived during the last 30 seconds:'' @ [nl] @
                 join [nl] (map (digest_line (v_subAgents w)) (cd_updates d)) @ [nl] @
                 ''Review the updates and continue your task.''))"

definition flushPendingChildDigestIntoPrompt :: "string option \<Rightarrow> string option orchp" where
  "flushPendingChildDigestIntoPrompt rawPrompt =
     bind (read_state buildPendingChildDigestSystemPrompt) (\<lambda>p.
       case p of
         None \<Rightarrow> ret rawPrompt
       | Some d \<Rightarrow> andThen clearPendingChildDigest (ret (appendSystemContext rawPrompt (Some d))))"

subsection \<open>Refreshing and summarising\<close>

definition normalized_status :: "string \<Rightarrow> agent_status" where
  "normalized_status raw = observed_status raw AgRunning"

definition refreshed_entry :: "sub_agent list \<Rightarrow> child_session \<Rightarrow> sub_agent" where
  "refreshed_entry agents child =
     (let existing = find (\<lambda>a. by_session (ch_sessionId child) a \<or> by_orch (ch_orchId child) a) agents;
          rawStatus = default_to (or_else (ch_status child)
                        (map_option (\<lambda>a. agent_status_name (sa_status a)) existing)) ''running''
      in \<lparr> sa_orchId = ch_orchId child,
           sa_sessionId = ch_sessionId child,
           sa_task = default_to (or_else (map_option sa_task existing) (ch_title child))
                       ''(spawned sub-agent)'',
           sa_status = normalized_status rawStatus,
           sa_result = or_else (ch_result child) (case existing of None \<Rightarrow> None | Some a \<Rightarrow> sa_result a),
           sa_agentId = or_else (ch_agentId child)
                          (case existing of None \<Rightarrow> None | Some a \<Rightarrow> sa_agentId a) \<rparr>)"

definition refreshTrackedSubAgents :: "unit orchp" where
  "refreshTrackedSubAgents =
     try_catch
       (bind (manager MListChildren) (\<lambda>r. case r of
          RChildren cs \<Rightarrow>
            modify (\<lambda>w. w\<lparr>v_subAgents :=
              map (refreshed_entry (v_subAgents w)) (filter (\<lambda>c. \<not> ch_isSystem c) cs)\<rparr>)
        | _ \<Rightarrow> stop BadHistory))
       (\<lambda>e. ret ())"

definition agent_summary :: "sub_agent \<Rightarrow> string" where
  "agent_summary a =
     ''  - Agent '' @ sa_orchId a @ [nl] @
     ''    Task: '' @ dq @ take 120 (sa_task a) @ dq @ [nl] @
     ''    Status: '' @ agent_status_name (sa_status a) @ [nl] @
     ''    Result: '' @ default_to (sa_result a) ''(no result)''"

definition buildWaitForAgentsFollowup :: "sub_agent list \<Rightarrow> string list \<Rightarrow> string" where
  "buildWaitForAgentsFollowup agents targetIds =
     (case map agent_summary (List.map_filter (findTrackedAgentByOrchId agents) targetIds) of
        [] \<Rightarrow> ''[SYSTEM: No tracked sub-agents produced a completion summary.]''
      | [s] \<Rightarrow> ''[SYSTEM: Sub-agent completed. If the user asked you to relay the child's final output, '' @
               ''return the single sub-agent Result text verbatim.'' @ [nl] @ s @ '']''
      | ss \<Rightarrow> ''[SYSTEM: Sub-agents completed:'' @ [nl] @ join [nl] ss @ '']'')"

subsection \<open>Dehydration, checkpoints, titles\<close>

definition rebind_session :: "unit orchp" where
  "rebind_session = bind newGuid (\<lambda>g. modify (\<lambda>w. w\<lparr>v_affinityKey := g, v_session := g\<rparr>))"

definition obj_fields :: "json \<Rightarrow> (string \<times> json) list" where
  "obj_fields j = (case j of JObj fs \<Rightarrow> fs | _ \<Rightarrow> [])"

definition dehydrateForNextTurn :: "string \<Rightarrow> bool \<Rightarrow> (string \<times> json) list \<Rightarrow> unit orchp" where
  "dehydrateForNextTurn reason resetAffinity eventData =
     bind (session (SDehydrate reason eventData)) (\<lambda>r.
       let lossy = (case r of RLossy j \<Rightarrow> j | _ \<Rightarrow> None) in
       case lossy of
         Some j \<Rightarrow>
           if json_is_object j
           then doing [
             recordSessionEvent ''session.lossy_handoff'' (obj_fields j),
             modify (\<lambda>w. w\<lparr>v_needsHydration := False, v_preserveAffinity := False\<rparr>),
             cond resetAffinity rebind_session]
           else doing [
             modify (\<lambda>w. w\<lparr>v_needsHydration := True, v_preserveAffinity := \<not> resetAffinity\<rparr>),
             cond resetAffinity rebind_session]
       | None \<Rightarrow> doing [
           modify (\<lambda>w. w\<lparr>v_needsHydration := True, v_preserveAffinity := \<not> resetAffinity\<rparr>),
           cond resetAffinity rebind_session])"

definition maybeCheckpoint :: "unit orchp" where
  "maybeCheckpoint =
     inspect (\<lambda>w. cond (blobEnabled (inp w) \<and> 0 \<le> checkpointInterval (inp w))
       (try_catch (await_unit (session SCheckpoint)) (\<lambda>e. ret ())))"

definition FIRST_SUMMARIZE_DELAY :: int where "FIRST_SUMMARIZE_DELAY = 60000"

definition REPEAT_SUMMARIZE_DELAY :: int where "REPEAT_SUMMARIZE_DELAY = 1800000"

definition maybeSummarize :: "unit orchp" where
  "maybeSummarize =
     inspect (\<lambda>w. if isSystem (inp w) then ret ()
       else bind utcNow (\<lambda>now. inspect (\<lambda>w.
         if v_nextSummarizeAt w = 0
         then modify (\<lambda>w. w\<lparr>v_nextSummarizeAt := now + FIRST_SUMMARIZE_DELAY\<rparr>)
         else if now < v_nextSummarizeAt w then ret ()
         else doing [
           try_catch (await_unit (manager MSummarize)) (\<lambda>e. ret ()),
           modify (\<lambda>w. w\<lparr>v_nextSummarizeAt := now + REPEAT_SUMMARIZE_DELAY\<rparr>)])))"

end
