(* ===== verification/Shutdown.thy ===== *)
theory Shutdown
  imports SubAgents
begin

text \<open>
  Graceful shutdown in \<open>orchestration.ts\<close>: the three modes, the cascade to running children, the
  bounded wait for them, and the terminal transitions of a session.
\<close>

definition SHUTDOWN_TIMEOUT_MS :: int where "SHUTDOWN_TIMEOUT_MS = 60000"

definition SHUTDOWN_POLL_INTERVAL_MS :: int where "SHUTDOWN_POLL_INTERVAL_MS = 5000"

fun mode_name :: "shutdown_mode \<Rightarrow> string" where
  "mode_name ModeDone = ''done''"
| "mode_name ModeCancel = ''cancel''"
| "mode_name ModeDelete = ''delete''"

fun defaultShutdownReason :: "shutdown_mode \<Rightarrow> string" where
  "defaultShutdownReason ModeDone = ''Completed by user''"
| "defaultShutdownReason ModeCancel = ''Cancelled by user''"
| "defaultShutdownReason ModeDelete = ''Deleted by user''"

definition buildShutdownWaitReason :: "pending_shutdown \<Rightarrow> string" where
  "buildShutdownWaitReason s =
     ''Waiting for '' @ show_nat (length (ps_targetAgentIds s)) @
     (case ps_mode s of
        ModeDone \<Rightarrow> '' child session(s) to complete before closing.''
      | ModeCancel \<Rightarrow> '' child session(s) to cancel before closing.''
      | ModeDelete \<Rightarrow> '' child session(s) to cancel before deletion.'')"

text \<open>The best-effort message to the parent: a failed send is ignored.\<close>

definition notifyParent :: "string \<Rightarrow> string \<Rightarrow> unit orchp" where
  "notifyParent updateType body =
     inspect (\<lambda>w. case parentSessionId (inp w) of
       None \<Rightarrow> ret ()
     | Some p \<Rightarrow>
         if p = [] then ret ()
         else try_catch
           (await_unit (manager (MSendToSession p
              (childUpdateText (in_sessionId (inp w)) updateType (v_iteration w) body))))
           (\<lambda>e. ret ()))"

definition notifyParentOfTerminalState :: "string \<Rightarrow> string \<Rightarrow> unit orchp" where
  "notifyParentOfTerminalState updateType reason = notifyParent updateType reason"

definition updateCmsState :: "string \<Rightarrow> string option \<Rightarrow> unit orchp" where
  "updateCmsState state err = await_unit (manager (MUpdateCmsState state err))"

definition destroySession :: "unit orchp" where
  "destroySession = try_catch (await_unit (session SDestroy)) (\<lambda>e. ret ())"

definition clear_shutdown_state :: "unit orchp" where
  "clear_shutdown_state =
     modify (\<lambda>w. w\<lparr>v_pendingShutdown := None, v_waitingForAgentIds := None,
                   v_pendingChildDigest := None, v_activeTimer := None\<rparr>)"

definition set_result :: "string \<Rightarrow> unit orchp" where
  "set_result r = modify (\<lambda>w. w\<lparr>v_orchestrationResult := Some r\<rparr>)"

definition respond_command :: "string option \<Rightarrow> string \<Rightarrow> command_result option \<Rightarrow> string option \<Rightarrow> unit orchp" where
  "respond_command commandId cmd result err =
     (case keep_truthy commandId of
        None \<Rightarrow> ret ()
      | Some i \<Rightarrow> writeCommandResponse
          \<lparr> cr_id = i, cr_cmd = cmd, cr_result = result, cr_error = err \<rparr>)"

definition ok_message :: "string \<Rightarrow> command_result option" where
  "ok_message m = Some (ResMessage m)"

definition completeShutdownSession :: "string \<Rightarrow> string option \<Rightarrow> unit orchp" where
  "completeShutdownSession reason commandId =
     doing [
       clear_shutdown_state,
       updateCmsState ''completed'' None,
       publishStatus Completed id,
       notifyParentOfTerminalState ''completed'' reason,
       destroySession,
       respond_command commandId ''done'' (ok_message ''Session completed'') None,
       set_result ''done'']"

definition deleteTree :: "string \<Rightarrow> unit orchp" where
  "deleteTree deleteReason =
     inspect (\<lambda>w.
       bind (try_catch
               (bind (manager MGetDescendants)
                  (\<lambda>r. case r of RIds ids \<Rightarrow> ret ids | _ \<Rightarrow> stop BadHistory))
               (\<lambda>e. ret [])) (\<lambda>descendants.
       doing [
         for_each descendants (\<lambda>d.
           try_catch (await_unit (manager (MDeleteSession d
               (''Ancestor '' @ in_sessionId (inp w) @ '' deleted: '' @ deleteReason))))
             (\<lambda>e. ret ())),
         try_catch (await_unit (manager (MDeleteSession (in_sessionId (inp w)) deleteReason)))
           (\<lambda>e. ret ())]))"

definition cancelShutdownSession :: "string \<Rightarrow> string option \<Rightarrow> bool \<Rightarrow> unit orchp" where
  "cancelShutdownSession reason commandId deleteAfterCancel =
     doing [
       clear_shutdown_state,
       cond (\<not> deleteAfterCancel) (doing [
         updateCmsState ''cancelled'' None,
         publishStatus Cancelled id]),
       notifyParentOfTerminalState ''cancelled'' reason,
       destroySession,
       respond_command commandId (if deleteAfterCancel then ''delete'' else ''cancel'')
         (ok_message (if deleteAfterCancel then ''Session deleted'' else ''Session cancelled'')) None,
       (if deleteAfterCancel
        then doing [
          deleteTree (if reason = [] then ''Deleted by user'' else reason),
          set_result ''deleted'']
        else set_result ''cancelled'')]"

definition failPendingShutdown :: "string \<Rightarrow> unit orchp" where
  "failPendingShutdown errorMessage =
     bind (read_state v_pendingShutdown) (\<lambda>shutdown.
     doing [
       clear_shutdown_state,
       destroySession,
       (case shutdown of
          None \<Rightarrow> ret ()
        | Some s \<Rightarrow> respond_command (ps_commandId s) (mode_name (ps_mode s)) None (Some errorMessage)),
       publishStatus Failed (\<lambda>g. g\<lparr>sg_error := Some errorMessage\<rparr>),
       updateCmsState ''failed'' (Some errorMessage),
       set_result ''failed''])"

definition finalizePendingShutdown :: "unit orchp" where
  "finalizePendingShutdown =
     inspect (\<lambda>w. case v_pendingShutdown w of
       None \<Rightarrow> ret ()
     | Some s \<Rightarrow>
         if ps_mode s = ModeDone then completeShutdownSession (ps_reason s) (ps_commandId s)
         else cancelShutdownSession (ps_reason s) (ps_commandId s) (ps_mode s = ModeDelete))"

definition maybeResolveAgentWaitCompletion :: "bool orchp" where
  "maybeResolveAgentWaitCompletion =
     inspect (\<lambda>w. case v_waitingForAgentIds w of
       None \<Rightarrow> ret False
     | Some ids \<Rightarrow>
         if \<not> areTrackedAgentsTerminal (v_subAgents w) ids then ret False
         else if v_pendingShutdown w \<noteq> None
         then andThen finalizePendingShutdown (ret True)
         else andThen (doing [
           queueFollowup (buildWaitForAgentsFollowup (v_subAgents w) ids),
           modify (\<lambda>w. w\<lparr>v_waitingForAgentIds := None, v_pendingChildDigest := None,
                         v_activeTimer := None\<rparr>)]) (ret True))"

definition poll_timer :: "int \<Rightarrow> int \<Rightarrow> string \<Rightarrow> string list \<Rightarrow> active_timer" where
  "poll_timer now ms reason ids =
     \<lparr> tm_deadlineMs = now + ms, tm_originalDurationMs = ms, tm_reason = reason,
       tm_type = TmAgentPoll, tm_shouldRehydrate = None, tm_waitPlan = None, tm_content = None,
       tm_question = None, tm_choices = None, tm_allowFreeform = None, tm_agentIds = Some ids \<rparr>"

text \<open>\<open>String(args?.k || d)\<close>.\<close>

fun js_truthy :: "json \<Rightarrow> bool" where
  "js_truthy JNull = False"
| "js_truthy (JBool b) = b"
| "js_truthy (JNum i) = (i \<noteq> 0)"
| "js_truthy (JStr s) = (s \<noteq> [])"
| "js_truthy _ = True"

fun js_string :: "json \<Rightarrow> string" where
  "js_string JNull = ''null''"
| "js_string (JBool b) = (if b then ''true'' else ''false'')"
| "js_string (JNum i) = show_int i"
| "js_string (JStr s) = s"
| "js_string (JArr xs) = join '','' (map (\<lambda>x. if x = JNull then [] else js_string x) xs)"
| "js_string (JObj fs) = ''[object Object]''"

definition arg_text :: "(string \<times> json) list \<Rightarrow> string \<Rightarrow> string \<Rightarrow> string" where
  "arg_text args k d =
     (case map_of args k of Some j \<Rightarrow> if js_truthy j then js_string j else d | None \<Rightarrow> d)"

definition cascadeToChildren :: "command_message \<Rightarrow> shutdown_mode \<Rightarrow> string \<Rightarrow> sub_agent list \<Rightarrow> unit orchp" where
  "cascadeToChildren cmdMsg mode shutdownReason targets =
     for_each targets (\<lambda>child. inspect (\<lambda>w.
       try_catch (await_unit (manager (MSendCommand (sa_sessionId child)
          \<lparr> cm_cmd = (if mode = ModeDone then ''done'' else ''cancel''),
            cm_id = cm_cmd cmdMsg @ ''-cascade-'' @ show_nat (v_iteration w) @ ''-'' @
                    take 8 (sa_sessionId child),
            cm_args = [(''reason'', JStr (if mode = ModeDone then ''Parent session completing''
                                         else shutdownReason))] \<rparr>)))
         (\<lambda>e. ret ())))"

definition new_shutdown :: "shutdown_mode \<Rightarrow> string \<Rightarrow> int \<Rightarrow> sub_agent list \<Rightarrow> string \<Rightarrow> pending_shutdown" where
  "new_shutdown mode reason startedAt targets commandId =
     \<lparr> ps_mode = mode, ps_reason = reason, ps_startedAtMs = startedAt,
       ps_deadlineAtMs = startedAt + SHUTDOWN_TIMEOUT_MS,
       ps_targetAgentIds = map sa_orchId targets, ps_commandId = Some commandId \<rparr>"

definition armShutdown :: "pending_shutdown \<Rightarrow> int \<Rightarrow> unit orchp" where
  "armShutdown s startedAt =
     doing [
       modify (\<lambda>w. w\<lparr>v_pendingShutdown := Some s,
                     v_waitingForAgentIds := Some (ps_targetAgentIds s),
                     v_pendingChildDigest := None,
                     v_activeTimer := Some (poll_timer startedAt SHUTDOWN_POLL_INTERVAL_MS
                       (buildShutdownWaitReason s) (ps_targetAgentIds s))\<rparr>),
       publishStatus Waiting
         (waiting_extra (ceil_sec SHUTDOWN_TIMEOUT_MS) (buildShutdownWaitReason s) startedAt)]"

definition reportShutdownInProgress :: "pending_shutdown \<Rightarrow> command_message \<Rightarrow> unit orchp" where
  "reportShutdownInProgress s cmdMsg =
     bind utcNow (\<lambda>now. doing [
       writeCommandResponse \<lparr> cr_id = cm_id cmdMsg, cr_cmd = cm_cmd cmdMsg,
         cr_result = ok_message (''Shutdown already in progress ('' @ mode_name (ps_mode s) @ '').''),
         cr_error = None \<rparr>,
       publishStatus Waiting
         (waiting_extra (max 0 (ceil_sec (ps_deadlineAtMs s - now)))
            (buildShutdownWaitReason s) (ps_startedAtMs s))])"

definition beginGracefulShutdown :: "shutdown_mode \<Rightarrow> command_message \<Rightarrow> unit orchp" where
  "beginGracefulShutdown mode cmdMsg =
     inspect (\<lambda>w. case v_pendingShutdown w of
       Some s \<Rightarrow> reportShutdownInProgress s cmdMsg
     | None \<Rightarrow>
         andThen refreshTrackedSubAgents (inspect (\<lambda>w.
           let shutdownReason = arg_text (cm_args cmdMsg) ''reason'' (defaultShutdownReason mode);
               targets = filter (\<lambda>a. \<not> isSubAgentTerminalStatus (sa_status a)) (v_subAgents w)
           in if targets = []
              then (if mode = ModeDone
                    then completeShutdownSession shutdownReason (Some (cm_id cmdMsg))
                    else cancelShutdownSession shutdownReason (Some (cm_id cmdMsg)) (mode = ModeDelete))
              else andThen (cascadeToChildren cmdMsg mode shutdownReason targets)
                     (bind utcNow (\<lambda>startedAt.
                        armShutdown (new_shutdown mode shutdownReason startedAt targets (cm_id cmdMsg))
                          startedAt)))))"

subsection \<open>Properties\<close>

text \<open>
  Waiting for an agent that is not tracked never completes: \<open>areTrackedAgentsTerminal\<close> demands
  that every awaited id is tracked, so the wait set up by \<open>wait_for_agents\<close> for a mistyped or
  deleted agent is not resolved by any state of the other agents.
\<close>

theorem untracked_agent_blocks_wait:
  assumes "v_waitingForAgentIds w = Some ids" and "x \<in> set ids"
    and "findTrackedAgentByOrchId (v_subAgents w) x = None"
  shows "maybeResolveAgentWaitCompletion w = (Ret False, w)"
proof -
  have "\<not> areTrackedAgentsTerminal (v_subAgents w) ids"
    using assms(2,3) by (auto simp: areTrackedAgentsTerminal_def list_all_iff intro: bexI [of _ x])
  then show ?thesis using assms(1) by (simp add: maybeResolveAgentWaitCompletion_def run_simps)
qed

theorem untracked_agent_blocks_wait_witness:
  "let w = (initial_state (blank_input ''s'') Map.empty [])\<lparr>v_waitingForAgentIds := Some [''typo'']\<rparr>
   in maybeResolveAgentWaitCompletion w = (Ret False, w)"
  unfolding Let_def
  by (rule untracked_agent_blocks_wait [of _ "[''typo'']" "''typo''"])
    (simp_all add: findTrackedAgentByOrchId_def)

text \<open>
  Once every awaited agent is tracked and finished, the wait resolves at once: the summaries of
  exactly these agents become the next prompt and the wait, its timer and the digest are cleared.
\<close>

theorem finished_agents_resolve_wait:
  assumes "v_waitingForAgentIds w = Some ids" and "v_pendingShutdown w = None"
    and "\<forall>x \<in> set ids. \<exists>a. findTrackedAgentByOrchId (v_subAgents w) x = Some a \<and>
           isSubAgentTerminalStatus (sa_status a)"
  shows "maybeResolveAgentWaitCompletion w =
     (Ret True, w\<lparr>v_pendingPrompt := mergePrompt (v_pendingPrompt w)
          (Some (strip_system_wrapper (buildWaitForAgentsFollowup (v_subAgents w) ids))),
        v_waitingForAgentIds := None, v_pendingChildDigest := None, v_activeTimer := None\<rparr>)"
proof -
  have "areTrackedAgentsTerminal (v_subAgents w) ids"
    using assms(3) by (auto simp: areTrackedAgentsTerminal_def list_all_iff)
  then show ?thesis using assms(1,2)
    by (simp add: maybeResolveAgentWaitCompletion_def run_simps queueFollowup_def)
qed

definition done_agent :: sub_agent where
  "done_agent = \<lparr> sa_orchId = ''session-c'', sa_sessionId = ''c'', sa_task = ''t'',
     sa_status = AgCompleted, sa_result = Some ''42'', sa_agentId = None \<rparr>"

theorem finished_agents_resolve_wait_witness:
  "\<exists>w. v_pendingPrompt w = None \<and> fst (maybeResolveAgentWaitCompletion w) = Ret True \<and>
     v_waitingForAgentIds (snd (maybeResolveAgentWaitCompletion w)) = None"
proof -
  let ?w = "(initial_state (blank_input ''s'') Map.empty [])
    \<lparr>v_waitingForAgentIds := Some [''session-c''], v_subAgents := [done_agent]\<rparr>"
  have "maybeResolveAgentWaitCompletion ?w =
     (Ret True, ?w\<lparr>v_pendingPrompt := mergePrompt (v_pendingPrompt ?w)
          (Some (strip_system_wrapper (buildWaitForAgentsFollowup (v_subAgents ?w) [''session-c'']))),
        v_waitingForAgentIds := None, v_pendingChildDigest := None, v_activeTimer := None\<rparr>)"
    by (rule finished_agents_resolve_wait)
      (simp_all add: findTrackedAgentByOrchId_def by_orch_def done_agent_def
        isSubAgentTerminalStatus_def)
  then show ?thesis by (intro exI [of _ ?w]) simp
qed

definition same_shutdown :: "orch \<Rightarrow> orch \<Rightarrow> bool" where
  "same_shutdown w w' \<longleftrightarrow>
     v_pendingShutdown w' = v_pendingShutdown w \<and> v_activeTimer w' = v_activeTimer w \<and>
     v_waitingForAgentIds w' = v_waitingForAgentIds w \<and> v_subAgents w' = v_subAgents w \<and>
     v_orchestrationResult w' = v_orchestrationResult w"

interpretation calmShutdown: step_contract same_shutdown "\<lambda>h w. True"
  by unfold_locales (auto simp: same_shutdown_def)

lemma same_shutdown_perform: "keeps same_shutdown (\<lambda>h w. True) (perform e)"
  unfolding keeps_def steps_def perform_def same_shutdown_def by (auto split: list.splits)

lemma same_shutdown_setValue: "keeps same_shutdown (\<lambda>h w. True) (setValue k x)"
  unfolding setValue_def by (intro calmShutdown.keeps_modify) (simp add: same_shutdown_def)

lemma same_shutdown_emit: "keeps same_shutdown (\<lambda>h w. True) (emit e)"
  unfolding emit_def by (intro calmShutdown.keeps_modify) (simp add: same_shutdown_def)

lemma same_shutdown_reply:
  "(\<And>x. keeps same_shutdown (\<lambda>h w. True) (f x)) \<Longrightarrow>
     keeps same_shutdown (\<lambda>h w. True) (bind (perform e) f)"
  by (intro calmShutdown.keeps_bind same_shutdown_perform)

lemma same_shutdown_report:
  "keeps same_shutdown (\<lambda>h w. True) (reportShutdownInProgress s c)"
  unfolding reportShutdownInProgress_def writeCommandResponse_def bumpCounter_def readCounter_def
    utcNow_def publishStatus_def recordSessionEvent_def await_unit_def manager_def activity_def
  by (intro calmShutdown.keeps_intros same_shutdown_reply same_shutdown_setValue
      same_shutdown_emit calmShutdown.keeps_modify)
    (auto simp: same_shutdown_def intro!: calmShutdown.keeps_intros calmShutdown.keeps_stop
      calmShutdown.keeps_modify same_shutdown_reply same_shutdown_setValue same_shutdown_emit
      split: resp.split)

text \<open>
  A shutdown command that arrives while a shutdown is pending changes nothing of it, whatever
  the runtime answers: the pending shutdown, its timer, the awaited children and the result stay,
  and only the new command is answered.
\<close>

theorem shutdown_in_progress_is_stable:
  "same_shutdown (w\<lparr>v_pendingShutdown := Some s\<rparr>)
     (snd (beginGracefulShutdown mode c (w\<lparr>v_pendingShutdown := Some s\<rparr>)))"
  using keepsD [OF same_shutdown_report, of "w\<lparr>v_pendingShutdown := Some s\<rparr>" s c]
  by (simp add: beginGracefulShutdown_def inspect_def)

text \<open>
  Arming a shutdown fixes the targets, the deadline one minute ahead and the first poll after
  five seconds, drops the digest, and reports the remaining seconds.
\<close>

theorem shutdown_is_armed:
  "case armShutdown (new_shutdown mode reason t targets c) t w of
     (Ret u, w') \<Rightarrow>
       v_waitingForAgentIds w' = Some (map sa_orchId targets) \<and>
       map_option ps_deadlineAtMs (v_pendingShutdown w') = Some (t + 60000) \<and>
       map_option ps_mode (v_pendingShutdown w') = Some mode \<and>
       map_option tm_deadlineMs (v_activeTimer w') = Some (t + 5000) \<and>
       map_option tm_type (v_activeTimer w') = Some TmAgentPoll \<and>
       v_pendingChildDigest w' = None \<and>
       (\<exists>g. trace w' = trace w @ [EStatus g] \<and> sg_status g = Waiting \<and>
            sg_waitSeconds g = Some 60 \<and> sg_waitStartedAt g = Some t)
   | _ \<Rightarrow> False"
  by (simp add: armShutdown_def new_shutdown_def run_simps publishStatus_def emit_def poll_timer_def
      waiting_extra_def base_signal_def SHUTDOWN_TIMEOUT_MS_def SHUTDOWN_POLL_INTERVAL_MS_def
      ceil_sec_def)

definition delete_ops :: "string \<Rightarrow> string \<Rightarrow> string list \<Rightarrow> effect list" where
  "delete_ops self reason ids =
     map (\<lambda>d. EManager (MDeleteSession d (''Ancestor '' @ self @ '' deleted: '' @ reason))) ids @
     [EManager (MDeleteSession self reason)]"

lemma delete_one:
  assumes "r = RUnit \<or> (\<exists>e. r = RErr e)"
  shows "try_catch (await_unit (manager op)) (\<lambda>e. ret ()) (w\<lparr>history := r # rs, trace := t\<rparr>) =
     (Ret (), w\<lparr>history := rs, trace := t @ [EManager op]\<rparr>)"
  using assms by (auto simp: run_simps runtime_defs)

lemma delete_each:
  assumes "length rs = length ids" and "\<forall>r \<in> set rs. r = RUnit \<or> (\<exists>e. r = RErr e)"
  shows "for_each ids (\<lambda>d. try_catch (await_unit (manager (MDeleteSession d (f d)))) (\<lambda>e. ret ()))
       (w\<lparr>history := rs @ rest, trace := t\<rparr>) =
     (Ret (), w\<lparr>history := rest, trace := t @ map (\<lambda>d. EManager (MDeleteSession d (f d))) ids\<rparr>)"
  using assms
proof (induction ids arbitrary: rs t)
  case Nil
  then show ?case by (simp add: run_simps)
next
  case (Cons d ids)
  then obtain r rs' where r: "rs = r # rs'" by (cases rs) auto
  then have "r = RUnit \<or> (\<exists>e. r = RErr e)" using Cons.prems by simp
  then show ?case
    using Cons r delete_one [of r "MDeleteSession d (f d)"]
    by (simp add: andThen_def bind_def)
qed

text \<open>
  Deleting a session deletes its descendants first and itself last, each exactly once, and an
  error deleting one of them never keeps the others from being deleted.
\<close>

theorem delete_removes_descendants_then_self:
  assumes "length rs = length ids" and "\<forall>r \<in> set (r0 # rs). r = RUnit \<or> (\<exists>e. r = RErr e)"
  shows "deleteTree reason (w\<lparr>history := RIds ids # rs @ r0 # rest\<rparr>) =
     (Ret (), w\<lparr>history := rest, trace := trace w @ EManager MGetDescendants #
        delete_ops (in_sessionId (inp w)) reason ids\<rparr>)"
proof -
  define f :: "string \<Rightarrow> string" where "f = (\<lambda>d. ''Ancestor '' @ in_sessionId (inp w) @ '' deleted: '' @ reason)"
  let ?w = "w\<lparr>history := rs @ r0 # rest, trace := trace w @ [EManager MGetDescendants]\<rparr>"
  let ?get = "try_catch (bind (manager MGetDescendants)
      (\<lambda>r. case r of RIds ids \<Rightarrow> ret ids | _ \<Rightarrow> stop BadHistory)) (\<lambda>e. ret [])"
  let ?each = "\<lambda>ids. for_each ids (\<lambda>d. try_catch (await_unit (manager (MDeleteSession d (f d)))) (\<lambda>e. ret ()))"
  let ?self = "try_catch (await_unit (manager (MDeleteSession (in_sessionId (inp w)) reason))) (\<lambda>e. ret ())"
  have same: "inp (w\<lparr>history := RIds ids # rs @ r0 # rest\<rparr>) = inp w" by simp
  have run: "deleteTree reason (w\<lparr>history := RIds ids # rs @ r0 # rest\<rparr>) =
      bind ?get (\<lambda>ids. doing [?each ids, ?self]) (w\<lparr>history := RIds ids # rs @ r0 # rest\<rparr>)"
    by (simp only: deleteTree_def inspect_def f_def same)
  have ops: "delete_ops (in_sessionId (inp w)) reason ids =
      map (\<lambda>d. EManager (MDeleteSession d (f d))) ids @ [EManager (MDeleteSession (in_sessionId (inp w)) reason)]"
    by (simp only: delete_ops_def f_def)
  have each: "?each ids ?w = (Ret (), w\<lparr>history := r0 # rest,
      trace := (trace w @ [EManager MGetDescendants]) @ map (\<lambda>d. EManager (MDeleteSession d (f d))) ids\<rparr>)"
    using assms by (intro delete_each) auto
  have "r0 = RUnit \<or> (\<exists>e. r0 = RErr e)" using assms(2) by simp
  note one = delete_one [OF this]
  have get: "?get (w\<lparr>history := RIds ids # rs @ r0 # rest\<rparr>) = (Ret ids, ?w)"
    by (simp add: run_simps runtime_defs)
  show ?thesis unfolding run ops
    by (simp add: bind_def get andThen_def each one ret_def)
qed

theorem delete_removes_descendants_then_self_witness:
  "trace (snd (deleteTree ''bye'' (initial_state (blank_input ''s'') Map.empty
      [RIds [''a'', ''b''], RErr ''gone'', RUnit, RUnit]))) =
     [EManager MGetDescendants,
      EManager (MDeleteSession ''a'' ''Ancestor s deleted: bye''),
      EManager (MDeleteSession ''b'' ''Ancestor s deleted: bye''),
      EManager (MDeleteSession ''s'' ''bye'')]"
proof -
  have e: "(initial_state (blank_input ''s'') Map.empty [])
      \<lparr>history := RIds [''a'', ''b''] # [RErr ''gone'', RUnit] @ RUnit # []\<rparr> =
    initial_state (blank_input ''s'') Map.empty [RIds [''a'', ''b''], RErr ''gone'', RUnit, RUnit]"
    by (simp add: initial_state_def)
  show ?thesis
    using delete_removes_descendants_then_self [where rs = "[RErr ''gone'', RUnit]"
      and ids = "[''a'', ''b'']" and ?r0.0 = RUnit and reason = "''bye''"
      and w = "initial_state (blank_input ''s'') Map.empty []" and rest = "[]"]
    unfolding e by (simp add: delete_ops_def)
qed

end
