(* ===== verification/SpawnAgent.thy ===== *)
theory SpawnAgent
  imports Shutdown
begin

text \<open>
  The \<open>spawn_agent\<close> action of \<open>handleTurnResult\<close> in \<open>orchestration.ts\<close>: the limits on nesting
  and on running children, the binding of a named agent definition, the model and
  duplicate guards, the child's configuration and the bookkeeping after the spawn.
\<close>

definition MAX_SUB_AGENTS :: nat where "MAX_SUB_AGENTS = 20"

definition MAX_NESTING_LEVEL :: nat where "MAX_NESTING_LEVEL = 2"

definition running_agents :: "sub_agent list \<Rightarrow> sub_agent list" where
  "running_agents agents = filter (\<lambda>a. sa_status a = AgRunning) agents"

subsection \<open>Binding an agent definition\<close>

record spawn_binding =
  sb_task :: string
  sb_systemMessage :: "system_message option"
  sb_toolNames :: "string list option"
  sb_isSystem :: bool
  sb_title :: "string option"
  sb_agentId :: "string option"
  sb_splash :: "string option"
  sb_boundAgentName :: "string option"
  sb_layer :: "prompt_layer option"

definition explicit_title :: "spawn_args \<Rightarrow> string option" where
  "explicit_title r = keep_truthy (map_option trim (sp_title r))"

definition explicit_effort :: "spawn_args \<Rightarrow> string option" where
  "explicit_effort r = keep_truthy (map_option trim (sp_reasoningEffort r))"

definition unbound :: "spawn_args \<Rightarrow> spawn_binding" where
  "unbound r = \<lparr> sb_task = sp_task r, sb_systemMessage = sp_systemMessage r,
     sb_toolNames = sp_toolNames r, sb_isSystem = False, sb_title = explicit_title r,
     sb_agentId = None, sb_splash = None, sb_boundAgentName = None, sb_layer = None \<rparr>"

definition default_agent_task :: "agent_definition \<Rightarrow> string" where
  "default_agent_task d =
     or_str (ad_initialPrompt d) (''You are the '' @ ad_name d @ '' agent. Begin your work.'')"

definition agent_layer :: "agent_definition \<Rightarrow> prompt_layer" where
  "agent_layer d =
     default_to (ad_promptLayerKind d)
       (if ad_system d = Some True
        then (if or_str (ad_namespace d) ''pilotswarm'' = ''pilotswarm''
              then PilotswarmSystemAgent else AppSystemAgent)
        else AppAgent)"

definition applyAgentDef ::
    "spawn_args \<Rightarrow> agent_definition \<Rightarrow> bool \<Rightarrow> spawn_binding \<Rightarrow> spawn_binding" where
  "applyAgentDef r d useDefinitionDefaults b =
     b\<lparr>sb_task := (if useDefinitionDefaults then default_agent_task d
                   else if sp_task r = [] then default_agent_task d else sp_task r),
       sb_systemMessage := (if useDefinitionDefaults then None else sp_systemMessage r),
       sb_toolNames := (if useDefinitionDefaults then ad_tools d
                        else or_else (sp_toolNames r) (ad_tools d)),
       sb_isSystem := default_to (ad_system d) False,
       sb_title := (if explicit_title r = None then ad_title d else sb_title b),
       sb_agentId := or_else (ad_id d) (sp_agentName r),
       sb_splash := ad_splash d,
       sb_boundAgentName := Some (ad_name d),
       sb_layer := Some (agent_layer d)\<rparr>"

text \<open>
  The title of a system agent is read off its task text: \<open>You are the **Name** -\<close>, else
  \<open>You are the **Some Agent**\<close>. The group is lazy and contains no asterisk or newline; of the
  dashes the source accepts, only the hyphen is a representable character.
\<close>

definition ci_starts :: "string \<Rightarrow> string \<Rightarrow> bool" where
  "ci_starts s p = (map to_lower (take (length p) s) = map to_lower p)"

fun lazy_group :: "(string \<Rightarrow> bool) \<Rightarrow> string \<Rightarrow> string \<Rightarrow> (string \<times> string) option" where
  "lazy_group ok acc [] = None"
| "lazy_group ok acc (c # s) =
     (if c = CHR ''*'' \<or> c = nl then None
      else if ok s then Some (acc @ [c], s)
      else lazy_group ok (acc @ [c]) s)"

definition drop_stars :: "nat \<Rightarrow> string \<Rightarrow> string option" where
  "drop_stars k s = (if take k s = replicate k (CHR ''*'') then Some (drop k s) else None)"

definition dash_follows :: "string \<Rightarrow> bool" where
  "dash_follows s =
     list_ex (\<lambda>k. case drop_stars k s of
                    None \<Rightarrow> False
                  | Some r \<Rightarrow> starts_with (dropWhile is_ws r) ''-'') [2, 1, 0]"

fun first_some :: "('a \<Rightarrow> 'b option) \<Rightarrow> 'a list \<Rightarrow> 'b option" where
  "first_some f [] = None"
| "first_some f (x # xs) = (case f x of None \<Rightarrow> first_some f xs | Some y \<Rightarrow> Some y)"

definition you_are_the :: string where
  "you_are_the = ''You are the ''"

definition title_at :: "(string \<Rightarrow> string option) \<Rightarrow> string \<Rightarrow> string option" where
  "title_at grp s =
     (if ci_starts s you_are_the
      then first_some (\<lambda>k. case drop_stars k (drop (length you_are_the) s) of
                             None \<Rightarrow> None | Some r \<Rightarrow> grp r) [2, 1, 0]
      else None)"

fun title_search :: "(string \<Rightarrow> string option) \<Rightarrow> string \<Rightarrow> string option" where
  "title_search grp [] = None"
| "title_search grp (c # s) =
     (case title_at grp (c # s) of Some t \<Rightarrow> Some t | None \<Rightarrow> title_search grp s)"

definition dash_group :: "string \<Rightarrow> string option" where
  "dash_group s = map_option fst (lazy_group dash_follows [] s)"

definition agent_group :: "string \<Rightarrow> string option" where
  "agent_group s =
     map_option (\<lambda>(g, r). g @ take 5 r) (lazy_group (\<lambda>r. ci_starts r ''Agent'') [] s)"

definition systemAgentTitle :: "string \<Rightarrow> string option" where
  "systemAgentTitle text =
     map_option trim
       (case title_search dash_group text of
          Some t \<Rightarrow> Some t | None \<Rightarrow> title_search agent_group text)"

definition spawn_title :: "spawn_binding \<Rightarrow> string option" where
  "spawn_title b =
     (if \<not> truthy (sb_title b) \<and> sb_isSystem b
      then or_else (systemAgentTitle (sb_task b)) (sb_title b)
      else sb_title b)"

subsection \<open>The child's configuration\<close>

definition system_timing :: string where
  "system_timing =
     ''- For recurring or periodic work, use the `cron` tool instead of ending every cycle with `wait`. '' @
     ''Call `cron(seconds=<N>, reason='' @ dq @ ''...'' @ dq @ '')` to start or update the durable recurring schedule, '' @
     ''then finish turns normally so the orchestration wakes you automatically on each cron cycle. '' @
     ''Use `wait` only for one-shot delays inside a turn. '' @
     ''Call `cron(action='' @ dq @ ''cancel'' @ dq @ '')` only when you intentionally want to stop the recurring loop.'' @ [nl]"

definition agent_timing :: string where
  "agent_timing =
     ''- For ANY waiting, sleeping, delaying, or scheduling, you MUST use the `wait`, `wait_on_worker`, or `cron` tools. '' @
     ''Use `wait` or `wait_on_worker` for one-shot delays. Use `cron` for recurring or periodic monitoring. '' @
     ''Do NOT burn tokens polling inside one LLM turn; after a brief immediate re-check at most, yield with a durable timer. '' @
     ''NEVER use setTimeout, sleep, setInterval, or any other timing mechanism. '' @
     ''Durable waits survive process restarts.'' @ [nl]"

definition fanout_text :: "nat \<Rightarrow> string" where
  "fanout_text childLevel =
     (if childLevel < MAX_NESTING_LEVEL
      then ''- If your parent task explicitly asks you to spawn sub-agents, delegate, fan out, or parallelize work, you SHOULD do so within runtime limits instead of collapsing the task into a direct answer. '' @
           ''If delegation was not explicitly requested, use your judgment and avoid unnecessary fan-out. '' @
           ''You have '' @ show_nat (MAX_NESTING_LEVEL - childLevel) @ '' level(s) of nesting remaining. After spawning, call wait_for_agents to block until they finish.'' @ [nl]
      else ''- You CANNOT spawn sub-agents - you are at the maximum nesting depth. Handle everything directly.'' @ [nl])"

definition preamble_rules :: string where
  "preamble_rules =
     ''Instructions:'' @ [nl] @
     ''- Focus exclusively on your assigned task.'' @ [nl] @
     ''- Your final response will be automatically forwarded to the parent agent.'' @ [nl] @
     ''- Be thorough but concise - the parent will synthesize results from multiple agents.'' @ [nl] @
     ''- Do NOT ask the user for input - you are autonomous.'' @ [nl] @
     ''- You are autonomous and goal-driven. If the task implies ongoing monitoring or follow-through until done, keep yourself alive with durable timers until the goal is complete or you can no longer make progress.'' @ [nl] @
     ''- If it is ambiguous whether the task should become a long-running recurring workflow, report that ambiguity back to the parent instead of guessing or asking the user directly.'' @ [nl] @
     ''- When your task is complete, provide a clear summary of your findings/results.'' @ [nl] @
     ''- Prefer using `store_fact` for larger structured context handoffs across your session lineage. Put the durable details in facts, then pass fact keys or `read_facts` pointers in messages/prompts instead of pasting large context blobs.'' @ [nl] @
     ''- If you write any files with write_artifact, you MUST also call export_artifact and include the artifact:// link in your response.'' @ [nl] @
     ''- If you override a sub-agent model, you MUST first call list_available_models in this session and use only an exact provider:model value returned there. '' @
     ''NEVER invent, guess, shorten, or reuse a stale model name.'' @ [nl] @
     ''- Worker-managed system agents are not valid spawn targets. If you expect one and it is missing, report that the workers likely need to be restarted.'' @ [nl]"

definition subAgentPreamble :: "string \<Rightarrow> nat \<Rightarrow> spawn_binding \<Rightarrow> string" where
  "subAgentPreamble sessionId childLevel b =
     ''[SUB-AGENT CONTEXT]'' @ [nl] @
     ''You are a sub-agent spawned by a parent session (ID: session-'' @ sessionId @ '').'' @ [nl] @
     ''Your nesting level: '' @ show_nat childLevel @ '' (max: '' @ show_nat MAX_NESTING_LEVEL @ '').'' @ [nl] @
     ''Your task: '' @ dq @ take 500 (sb_task b) @ dq @ [nl, nl] @
     preamble_rules @ (if sb_isSystem b then system_timing else agent_timing) @ fanout_text childLevel"

definition keep_message :: "system_message option \<Rightarrow> bool" where
  "keep_message m = (case m of None \<Rightarrow> False | Some (SysText s) \<Rightarrow> s \<noteq> [] | Some (SysObj _ _) \<Rightarrow> True)"

definition childReasoningEffort :: "session_config \<Rightarrow> spawn_args \<Rightarrow> string option" where
  "childReasoningEffort cfg r =
     (let inheritsParentModel = (\<not> truthy (sp_model r) \<or> sp_model r = c_model cfg)
      in or_else (explicit_effort r) (if inheritsParentModel then c_reasoningEffort cfg else None))"

definition childConfig :: "session_config \<Rightarrow> spawn_args \<Rightarrow> spawn_binding \<Rightarrow> session_config" where
  "childConfig cfg r b =
     cfg\<lparr>c_boundAgentName := keep_truthy (sb_boundAgentName b),
         c_promptLayering := sb_layer b,
         c_reasoningEffort := keep_truthy (childReasoningEffort cfg r),
         c_model := (if truthy (sp_model r) then sp_model r else c_model cfg),
         c_systemMessage :=
           (if keep_message (sb_systemMessage b) then sb_systemMessage b else c_systemMessage cfg),
         c_toolNames := or_else (sb_toolNames b) (c_toolNames cfg)\<rparr>"

definition childConfigWithPreamble ::
    "orch \<Rightarrow> spawn_args \<Rightarrow> spawn_binding \<Rightarrow> nat \<Rightarrow> session_config" where
  "childConfigWithPreamble w r b childLevel =
     (let cfg = childConfig (v_config w) r b;
          parentSystemMsg = system_text (c_systemMessage cfg)
      in cfg\<lparr>c_systemMessage := Some (SysText
           (subAgentPreamble (in_sessionId (inp w)) childLevel b @
            (if parentSystemMsg = [] then [] else [nl, nl] @ parentSystemMsg)))\<rparr>)"

subsection \<open>The action\<close>

definition spawnedFollowup :: "string \<Rightarrow> spawn_args \<Rightarrow> spawn_binding \<Rightarrow> string" where
  "spawnedFollowup childOrchId r b =
     ''[SYSTEM: Sub-agent spawned successfully.'' @ [nl] @
     ''  Agent ID: '' @ childOrchId @ [nl] @ ''  '' @
     (if truthy (sp_agentName r) then ''Agent: '' @ or_str (sp_agentName r) [] @ [nl] @ ''  '' else []) @
     ''Task: '' @ dq @ take 200 (sb_task b) @ dq @ [nl] @
     ''  The agent is now running autonomously. Continue your work in this SAME turn and keep following the user's remaining steps. '' @
     ''Do NOT stop just because the child started. If you need to pause, call wait or wait_for_agents explicitly. '' @
     ''You can also use check_agents to poll status, or message_agent to send instructions.]''"

definition launchChild :: "spawn_args \<Rightarrow> spawn_binding \<Rightarrow> unit orchp" where
  "launchChild r b =
     inspect (\<lambda>w.
       let childLevel = nestingLevel (inp w) + 1;
           cfg = childConfigWithPreamble w r b childLevel
       in bind (try_catch
                  (bind (manager (MSpawnChild cfg (sb_task b) childLevel (sb_isSystem b)
                           (spawn_title b) (sb_agentId b) (sb_splash b) (explicit_title r \<noteq> None)))
                     (\<lambda>x. case x of RStr i \<Rightarrow> ret (Inr i) | _ \<Rightarrow> stop BadHistory))
                  (\<lambda>e. ret (Inl e)))
            (\<lambda>x. case x of
               Inl e \<Rightarrow> queueFollowup (''[SYSTEM: spawn_agent failed: '' @ e @ '']'')
             | Inr childSessionId \<Rightarrow> doing [
                 recordSessionEvent ''session.agent_spawned''
                   ([(''childSessionId'', JStr childSessionId)] @
                    opt_field ''agentId'' JStr (keep_truthy (sb_agentId b)) @
                    [(''task'', JStr (take 500 (sb_task b)))]),
                 modify (\<lambda>w. w\<lparr>v_subAgents := v_subAgents w @
                   [\<lparr> sa_orchId = ''session-'' @ childSessionId, sa_sessionId = childSessionId,
                      sa_task = take 500 (sb_task b), sa_status = AgRunning, sa_result = None,
                      sa_agentId = keep_truthy (sb_agentId b) \<rparr>]\<rparr>),
                 queueFollowup (spawnedFollowup (''session-'' @ childSessionId) r b)]))"

definition guardAndLaunch :: "spawn_args \<Rightarrow> spawn_binding \<Rightarrow> unit orchp" where
  "guardAndLaunch r b =
     inspect (\<lambda>w.
       if truthy (sp_model r) \<and> \<not> str_includes (or_str (sp_model r) []) '':''
       then queueFollowup
         (''[SYSTEM: spawn_agent failed - model '' @ dq @ or_str (sp_model r) [] @ dq @ '' is not allowed. '' @
          ''When overriding a sub-agent model, first call list_available_models and then use the exact provider:model value from that list. '' @
          ''If you are unsure, omit model so the sub-agent inherits your current model.]'')
       else
         (case (if truthy (sb_agentId b)
                then find (\<lambda>a. sa_agentId a = sb_agentId b \<and> sa_status a = AgRunning) (v_subAgents w)
                else None) of
            Some child \<Rightarrow> queueFollowup
              (''[SYSTEM: Agent '' @ dq @ or_str (sp_agentName r) (or_str (sb_agentId b) []) @ dq @
               '' is already running as sub-agent '' @ take 16 (sa_orchId child) @ ''. '' @
               ''Use check_agents to see its status, or message_agent to communicate with it.]'')
          | None \<Rightarrow> launchChild r b))"

definition resolveAgentConfig :: "string \<Rightarrow> agent_definition option orchp" where
  "resolveAgentConfig name =
     bind (manager (MResolveAgent name)) (\<lambda>r. case r of RAgentDef d \<Rightarrow> ret d | _ \<Rightarrow> stop BadHistory)"

definition worker_managed :: "agent_definition \<Rightarrow> bool" where
  "worker_managed d = (ad_system d = Some True \<and> ad_creatable d = Some False)"

definition spawnAgent :: "spawn_args \<Rightarrow> unit orchp" where
  "spawnAgent r =
     inspect (\<lambda>w.
       let level = nestingLevel (inp w); activeCount = length (running_agents (v_subAgents w)) in
       if MAX_NESTING_LEVEL < level + 1
       then queueFollowup
         (''[SYSTEM: spawn_agent failed - you are already at nesting level '' @ show_nat level @
          '' (max '' @ show_nat MAX_NESTING_LEVEL @ ''). '' @
          ''Sub-agents at this depth cannot spawn further sub-agents. Handle the task directly instead.]'')
       else if MAX_SUB_AGENTS \<le> activeCount
       then queueFollowup
         (''[SYSTEM: spawn_agent failed - you already have '' @ show_nat activeCount @
          '' running sub-agents (max '' @ show_nat MAX_SUB_AGENTS @ ''). '' @
          ''Wait for some to complete before spawning more.]'')
       else if truthy (sp_agentName r)
       then (let name = or_str (sp_agentName r) [] in
         bind (resolveAgentConfig name) (\<lambda>d. case d of
           None \<Rightarrow> queueFollowup
             (''[SYSTEM: spawn_agent failed - agent '' @ dq @ name @ dq @
              '' not found. Use list_agents to see available agents.]'')
         | Some def \<Rightarrow>
             if worker_managed def
             then queueFollowup
               (''[SYSTEM: spawn_agent failed - agent '' @ dq @ name @ dq @
                '' is a worker-managed system agent and cannot be spawned from a session. '' @
                ''If it is missing, the workers likely need to be restarted.]'')
             else guardAndLaunch r (applyAgentDef r def False (unbound r))))
       else guardAndLaunch r (unbound r))"

subsection \<open>Properties\<close>



text \<open>
  A spawn that passes the guards asks for exactly one child, one level deeper, with the
  child's configuration, and tracks it as running under its \<open>session-\<close> orchestration id.
\<close>

theorem launched_child_is_tracked:
  "case launchChild r b (w\<lparr>history := RStr cid # RUnit # rs\<rparr>) of
     (Ret u, w') \<Rightarrow>
       v_subAgents w' = v_subAgents w @
         [\<lparr> sa_orchId = ''session-'' @ cid, sa_sessionId = cid, sa_task = take 500 (sb_task b),
            sa_status = AgRunning, sa_result = None, sa_agentId = keep_truthy (sb_agentId b) \<rparr>] \<and>
       (\<exists>data. trace w' = trace w @
         [EManager (MSpawnChild (childConfigWithPreamble w r b (nestingLevel (inp w) + 1)) (sb_task b)
            (nestingLevel (inp w) + 1) (sb_isSystem b) (spawn_title b) (sb_agentId b) (sb_splash b)
            (explicit_title r \<noteq> None)),
          EManager (MRecordEvent ''session.agent_spawned'' data)]) \<and>
       history w' = rs \<and> v_activeTimer w' = v_activeTimer w
   | _ \<Rightarrow> False"
proof -
  have c: "childConfigWithPreamble (w\<lparr>history := h\<rparr>) r b n = childConfigWithPreamble w r b n" for h n
    by (simp add: childConfigWithPreamble_def)
  show ?thesis
    by (simp add: launchChild_def Let_def c run_simps runtime_defs queueFollowup_def)
qed

text \<open>
  A failed spawn leaves the list of agents alone: the error becomes a note to the model.
\<close>

theorem failed_spawn_tracks_nothing:
  "case launchChild r b (w\<lparr>history := RErr e # rs\<rparr>) of
     (Ret u, w') \<Rightarrow> v_subAgents w' = v_subAgents w \<and> history w' = rs \<and>
       v_pendingPrompt w' = mergePrompt (v_pendingPrompt w)
         (Some (strip_system_wrapper (''[SYSTEM: spawn_agent failed: '' @ e @ '']'')))
   | _ \<Rightarrow> False"
  by (simp add: launchChild_def Let_def run_simps runtime_defs queueFollowup_def)

text \<open>
  The reasoning effort follows the model: a child that overrides the model does not inherit
  the parent's effort, a child that keeps the parent's model inherits it unless it sets its own.
\<close>

theorem effort_follows_model:
  "c_reasoningEffort (childConfig cfg r b) =
     (if explicit_effort r \<noteq> None then explicit_effort r
      else if c_model (childConfig cfg r b) = c_model cfg then keep_truthy (c_reasoningEffort cfg)
      else None)"
  by (auto simp: childConfig_def childReasoningEffort_def explicit_effort_def Let_def keep_truthy_def
      truthy_def or_else_def split: option.splits)

text \<open>
  A named agent is not started twice while it runs: with a running child of the same agent id
  the request only tells the model so.
\<close>

theorem running_agent_is_not_respawned:
  assumes "truthy (sb_agentId b)" and "a \<in> set (v_subAgents w)"
    and "sa_agentId a = sb_agentId b" and "sa_status a = AgRunning"
  shows "\<exists>note. guardAndLaunch r b w = (Ret (), w\<lparr>v_pendingPrompt := mergePrompt (v_pendingPrompt w) (Some note)\<rparr>)"
proof -
  have "find (\<lambda>a. sa_agentId a = sb_agentId b \<and> sa_status a = AgRunning) (v_subAgents w) \<noteq> None"
    using assms(2,3,4) by (auto simp: find_None_iff)
  then show ?thesis using assms(1)
    by (auto simp: guardAndLaunch_def inspect_def queueFollowup_def modify_def)
qed

end
