(* ===== verification/TurnFailure.thy ===== *)
theory TurnFailure
  imports Shutdown
begin

text \<open>
  Failed turns in \<open>orchestration.ts\<close>: a lost session state is fatal, a closed transport is
  retried three times and then handed to a new worker, any other error is retried with an
  exponential delay. The same policy serves an activity that threw and a turn that returned an
  error; they differ in what they carry to the retry and in the status text.
\<close>

definition COPILOT_CONNECTION_CLOSED_MAX_RETRIES :: nat where
  "COPILOT_CONNECTION_CLOSED_MAX_RETRIES = 3"

definition COPILOT_CONNECTION_CLOSED_RETRY_DELAY_SECONDS :: nat where
  "COPILOT_CONNECTION_CLOSED_RETRY_DELAY_SECONDS = 15"

definition MAX_RETRIES :: nat where "MAX_RETRIES = 3"

text \<open>The regular expression \<open>\bConnection is closed\b\<close>, ignoring case.\<close>

definition closed_phrase :: string where
  "closed_phrase = ''connection is closed''"

fun word_search :: "bool \<Rightarrow> string \<Rightarrow> bool" where
  "word_search prevWord [] = False"
| "word_search prevWord (c # s) =
     ((\<not> prevWord \<and>
       map to_lower (take (length closed_phrase) (c # s)) = closed_phrase \<and>
       (case drop (length closed_phrase) (c # s) of [] \<Rightarrow> True | d # _ \<Rightarrow> \<not> is_word_char d)) \<or>
      word_search (is_word_char c) s)"

definition isCopilotConnectionClosedError :: "string \<Rightarrow> bool" where
  "isCopilotConnectionClosedError message = word_search False message"

definition buildConnectionClosedRetryDetail :: "nat \<Rightarrow> string" where
  "buildConnectionClosedRetryDetail retryAttempt =
     ''Live Copilot connection lost; retry '' @ show_nat retryAttempt @ ''/'' @
     show_nat COPILOT_CONNECTION_CLOSED_MAX_RETRIES @ '' in '' @
     show_nat COPILOT_CONNECTION_CLOSED_RETRY_DELAY_SECONDS @ ''s.''"

definition buildLossyHandoffSummary :: "string \<Rightarrow> string" where
  "buildLossyHandoffSummary errorMessage =
     ''Live Copilot connection stayed closed after '' @ show_nat COPILOT_CONNECTION_CLOSED_MAX_RETRIES @
     '' retries; dehydrating for handoff to a new worker. Last error: '' @ errorMessage"

definition buildLossyHandoffRehydrationMessage :: "string \<Rightarrow> string" where
  "buildLossyHandoffRehydrationMessage errorMessage =
     ''The previous worker lost the live Copilot connection and handed this session off after '' @
     show_nat COPILOT_CONNECTION_CLOSED_MAX_RETRIES @ '' retries. The LLM conversation history is preserved. '' @
     ''Review the latest durable context and continue carefully. Last transport error: '' @ errorMessage"

definition retry_delay :: "nat \<Rightarrow> nat" where
  "retry_delay attempt = 15 * 2 ^ (attempt - 1)"

subsection \<open>Fatal loss of the session state\<close>

definition failFatally :: "string \<Rightarrow> unit orchp" where
  "failFatally fatalError =
     doing [
       publishStatus Failed (\<lambda>g. g\<lparr>sg_error := Some fatalError, sg_fatal := True\<rparr>),
       updateCmsState ''failed'' (Some fatalError),
       throw fatalError]"

definition missingState :: "string \<Rightarrow> string option" where
  "missingState message =
     (case index_of message SESSION_STATE_MISSING_PREFIX of
        None \<Rightarrow> None
      | Some i \<Rightarrow> Some (trim (drop (i + length SESSION_STATE_MISSING_PREFIX) message)))"

subsection \<open>Retrying\<close>

definition jnat :: "nat \<Rightarrow> json" where
  "jnat n = JNum (int n)"

definition retry_event :: "string \<Rightarrow> string \<Rightarrow> string \<Rightarrow> nat \<Rightarrow> nat \<Rightarrow> nat \<Rightarrow> (string \<times> json) list" where
  "retry_event detail err phase attempt maxRetries delaySec =
     [(''detail'', JStr detail), (''error'', JStr err), (''phase'', JStr phase),
      (''retryAttempt'', jnat attempt), (''maxRetries'', jnat maxRetries),
      (''retryDelaySeconds'', jnat delaySec)]"

definition handoff_event :: "string \<Rightarrow> string \<Rightarrow> string \<Rightarrow> string \<Rightarrow> (string \<times> json) list" where
  "handoff_event textKey text err phase =
     [(textKey, JStr text), (''error'', JStr err), (''phase'', JStr phase),
      (''retries'', jnat COPILOT_CONNECTION_CLOSED_MAX_RETRIES),
      (''retryDelaySeconds'', jnat COPILOT_CONNECTION_CLOSED_RETRY_DELAY_SECONDS),
      (''nextStep'', JStr ''dehydrate_and_resume_on_new_worker'')]"

text \<open>\<open>retryCount, needsHydration: blobEnabled ? true : needsHydration\<close>\<close>

definition retryAsNew :: "can_overrides \<Rightarrow> unit orchp" where
  "retryAsNew carried =
     inspect (\<lambda>w. continueWith
       (carried\<lparr>ov_retryCount := Some (v_retryCount w),
                ov_needsHydration :=
                  Some (if blobEnabled (inp w) then True else v_needsHydration w)\<rparr>))"

definition set_retryCount :: "nat \<Rightarrow> unit orchp" where
  "set_retryCount n = modify (\<lambda>w. w\<lparr>v_retryCount := n\<rparr>)"

definition retryClosedConnection :: "string \<Rightarrow> string \<Rightarrow> can_overrides \<Rightarrow> unit orchp" where
  "retryClosedConnection phase message carried =
     inspect (\<lambda>w.
       let n = v_retryCount w; retryDetail = buildConnectionClosedRetryDetail n in doing [
         publishStatus Errored (\<lambda>g. g\<lparr>sg_error := Some (message @ '' ('' @ retryDetail @ '')''),
                                     sg_recoverableTransportLoss := True\<rparr>),
         cond (blobEnabled (inp w)) (dehydrateForNextTurn ''error'' True
           (retry_event retryDetail message phase n COPILOT_CONNECTION_CLOSED_MAX_RETRIES
              COPILOT_CONNECTION_CLOSED_RETRY_DELAY_SECONDS)),
         scheduleTimer (int COPILOT_CONNECTION_CLOSED_RETRY_DELAY_SECONDS * 1000),
         retryAsNew carried])"

definition handOff :: "string \<Rightarrow> string \<Rightarrow> can_overrides \<Rightarrow> unit orchp" where
  "handOff phase message carried =
     inspect (\<lambda>w.
       let handoffMessage = buildLossyHandoffSummary message in doing [
         publishStatus Errored (\<lambda>g. g\<lparr>sg_error := Some handoffMessage, sg_retriesExhausted := True,
                                     sg_lossyHandoff := Some True\<rparr>),
         recordSessionEvent ''session.lossy_handoff''
           (handoff_event ''message'' handoffMessage message phase),
         (if blobEnabled (inp w)
          then doing [
            dehydrateForNextTurn ''lossy_handoff'' True
              (handoff_event ''detail'' handoffMessage message phase),
            continueWith (carried\<lparr>ov_retryCount := Some 0, ov_needsHydration := Some True,
              ov_rehydrationMessage := Some (buildLossyHandoffRehydrationMessage message)\<rparr>)]
          else doing [
            publishStatus Errored (\<lambda>g. g\<lparr>
              sg_error := Some (handoffMessage @
                '' Durable handoff is unavailable because blob persistence is disabled.''),
              sg_retriesExhausted := True, sg_lossyHandoff := Some False\<rparr>),
            set_retryCount 0])])"

definition retryAfterDelay ::
    "string \<Rightarrow> string \<Rightarrow> (nat \<Rightarrow> nat) \<Rightarrow> can_overrides \<Rightarrow> unit orchp" where
  "retryAfterDelay phase message shownDelay carried =
     inspect (\<lambda>w.
       let n = v_retryCount w; delaySec = retry_delay n in doing [
         publishStatus Errored (\<lambda>g. g\<lparr>sg_error := Some (message @ '' (retry '' @ show_nat n @ ''/'' @
           show_nat MAX_RETRIES @ '' in '' @ show_nat (shownDelay n) @ ''s)'')\<rparr>),
         cond (blobEnabled (inp w)) (dehydrateForNextTurn ''error'' True
           (retry_event message message phase n MAX_RETRIES delaySec)),
         scheduleTimer (int delaySec * 1000),
         retryAsNew carried])"

definition recoverFromFailure ::
    "string \<Rightarrow> string \<Rightarrow> (nat \<Rightarrow> nat) \<Rightarrow> can_overrides \<Rightarrow> unit orchp" where
  "recoverFromFailure phase message shownDelay carried =
     andThen (modify (\<lambda>w. w\<lparr>v_retryCount := v_retryCount w + 1\<rparr>))
       (inspect (\<lambda>w.
         if isCopilotConnectionClosedError message
         then (if v_retryCount w \<le> COPILOT_CONNECTION_CLOSED_MAX_RETRIES
               then retryClosedConnection phase message carried
               else handOff phase message carried)
         else if MAX_RETRIES \<le> v_retryCount w
         then doing [
           publishStatus Errored (\<lambda>g. g\<lparr>sg_error := Some (''Failed after '' @ show_nat MAX_RETRIES @
             '' attempts: '' @ message), sg_retriesExhausted := True\<rparr>),
           set_retryCount 0]
         else retryAfterDelay phase message shownDelay carried))"

text \<open>A turn that returned an error: the source prompt is carried to the retry.\<close>

definition handleTurnError :: "string \<Rightarrow> string \<Rightarrow> unit orchp" where
  "handleTurnError message sourcePrompt =
     (case missingState message of
        Some fatalError \<Rightarrow> failFatally fatalError
      | None \<Rightarrow> recoverFromFailure ''turn.result.error'' message retry_delay
          (no_overrides\<lparr>ov_prompt := Some sourcePrompt\<rparr>))"

text \<open>
  A \<open>runTurn\<close> activity that threw. The carried overrides are the prompt unless the turn was
  system-only, the required tool and the turn's system prompt. The status text always says 15 s.
\<close>

definition handleTurnThrow :: "string \<Rightarrow> can_overrides \<Rightarrow> unit orchp" where
  "handleTurnThrow errorMsg carried =
     (case missingState errorMsg of
        Some fatalError \<Rightarrow> failFatally fatalError
      | None \<Rightarrow> recoverFromFailure ''runTurn.throw'' errorMsg (\<lambda>n. 15) carried)"

subsection \<open>Properties\<close>

lemmas failure_defs = recoverFromFailure_def retryAfterDelay_def retryClosedConnection_def handOff_def
  retryAsNew_def set_retryCount_def publishStatus_def continueWith_def versionedContinueAsNew_def
  ensureWarmResumeCheckpoint_def

text \<open>
  An ordinary error is retried at most twice. While fewer than two retries have been made, the
  session sleeps 15 s, then 30 s, and continues as new with the retry counted and the prompt
  carried; the third failure publishes that the retries are exhausted, arms nothing and resets the
  counter.
\<close>

theorem ordinary_errors_are_retried_twice:
  assumes "\<not> isCopilotConnectionClosedError msg" and "\<not> blobEnabled (inp w)"
    and "v_activeTimer w = None" and "\<not> v_needsHydration w"
  shows "case recoverFromFailure ''turn.result.error'' msg retry_delay
            (no_overrides\<lparr>ov_prompt := Some src\<rparr>) (w\<lparr>history := RTimerFired # rs\<rparr>) of
     (Stop x, w') \<Rightarrow>
       v_retryCount w < 2 \<and>
       (\<exists>g j. trace w' = trace w @
          [EStatus g, EScheduleTimer (int (15 * 2 ^ v_retryCount w) * 1000),
           EContinueAsNew j DURABLE_SESSION_LATEST_VERSION] \<and>
          sg_status g = Errored \<and> \<not> sg_retriesExhausted g \<and> x = ContinuedAsNew j \<and>
          in_retryCount j = Some (v_retryCount w + 1) \<and> in_prompt j = keep_truthy (Some src))
   | (Ret u, w') \<Rightarrow>
       2 \<le> v_retryCount w \<and> v_retryCount w' = 0 \<and> history w' = RTimerFired # rs \<and>
       (\<exists>g. trace w' = trace w @ [EStatus g] \<and> sg_status g = Errored \<and> sg_retriesExhausted g)
   | (Throw e, w') \<Rightarrow> False"
  using assms
  by (cases "v_retryCount w < 2")
    (auto simp: failure_defs run_simps runtime_defs MAX_RETRIES_def retry_delay_def Let_def
      base_signal_def continueInput_def no_overrides_def keep_truthy_def)

theorem ordinary_errors_are_retried_twice_witness:
  "case recoverFromFailure ''turn.result.error'' ''boom'' retry_delay
            (no_overrides\<lparr>ov_prompt := Some ''go''\<rparr>)
            ((initial_state (blank_input ''s'') Map.empty [])\<lparr>history := [RTimerFired]\<rparr>) of
     (Stop x, w') \<Rightarrow>
       v_retryCount (initial_state (blank_input ''s'') Map.empty []) < 2 \<and>
       (\<exists>g j. trace w' = trace (initial_state (blank_input ''s'') Map.empty []) @
          [EStatus g, EScheduleTimer (int (15 * 2 ^ v_retryCount (initial_state (blank_input ''s'') Map.empty [])) * 1000),
           EContinueAsNew j DURABLE_SESSION_LATEST_VERSION] \<and>
          sg_status g = Errored \<and> \<not> sg_retriesExhausted g \<and> x = ContinuedAsNew j \<and>
          in_retryCount j = Some (v_retryCount (initial_state (blank_input ''s'') Map.empty []) + 1) \<and>
          in_prompt j = keep_truthy (Some ''go''))
   | (Ret u, w') \<Rightarrow>
       2 \<le> v_retryCount (initial_state (blank_input ''s'') Map.empty []) \<and> v_retryCount w' = 0 \<and>
       history w' = [RTimerFired] \<and>
       (\<exists>g. trace w' = trace (initial_state (blank_input ''s'') Map.empty []) @ [EStatus g] \<and>
         sg_status g = Errored \<and> sg_retriesExhausted g)
   | (Throw e, w') \<Rightarrow> False"
  by (rule ordinary_errors_are_retried_twice)
    (simp_all add: isCopilotConnectionClosedError_def closed_phrase_def blobEnabled_def)

text \<open>
  A closed transport is retried three times after 15 s each; the next failure hands the
  session off: with blob persistence it dehydrates, unbinds the worker and continues as new with
  hydration required, the counter reset and a message that explains the handoff.
\<close>

theorem closed_transport_is_handed_off:
  assumes "isCopilotConnectionClosedError msg" and "blobEnabled (inp w)"
    and "v_activeTimer w = None" and "3 \<le> v_retryCount w"
  shows "case recoverFromFailure phase msg d carried
            (w\<lparr>history := RUnit # RLossy None # RStr g # rs\<rparr>) of
     (Stop x, w') \<Rightarrow>
       (\<exists>j. x = ContinuedAsNew j \<and> in_needsHydration j = Some True \<and> in_retryCount j = Some 0 \<and>
          in_affinityKey j = Some g \<and>
          in_rehydrationMessage j = Some (buildLossyHandoffRehydrationMessage msg)) \<and>
       v_session w' = g \<and> v_needsHydration w' \<and> history w' = rs
   | _ \<Rightarrow> False"
  using assms
  by (auto simp: failure_defs run_simps runtime_defs COPILOT_CONNECTION_CLOSED_MAX_RETRIES_def
      dehydrateForNextTurn_def rebind_session_def Let_def continueInput_def keep_truthy_def
      buildLossyHandoffRehydrationMessage_def)

theorem closed_transport_is_handed_off_witness:
  "case recoverFromFailure ''runTurn.throw'' ''Connection is closed.'' (\<lambda>n. 15) no_overrides
      (initial_state ((blank_input ''s'')\<lparr>in_blobEnabled := Some True, in_retryCount := Some 3\<rparr>)
         Map.empty [RUnit, RLossy None, RStr ''w2'']) of
     (Stop x, w') \<Rightarrow>
       (\<exists>j. x = ContinuedAsNew j \<and> in_needsHydration j = Some True \<and> in_affinityKey j = Some ''w2'')
   | _ \<Rightarrow> False"
proof -
  let ?i = "(blank_input ''s'')\<lparr>in_blobEnabled := Some True, in_retryCount := Some 3\<rparr>"
  have e: "(initial_state ?i Map.empty [])\<lparr>history := [RUnit, RLossy None, RStr ''w2'']\<rparr> =
      initial_state ?i Map.empty [RUnit, RLossy None, RStr ''w2'']"
    by (simp add: initial_state_def)
  have "isCopilotConnectionClosedError ''Connection is closed.''" by code_simp
  then show ?thesis
    using closed_transport_is_handed_off [where w = "initial_state ?i Map.empty []"
      and msg = "''Connection is closed.''" and phase = "''runTurn.throw''" and d = "\<lambda>n. 15"
      and carried = no_overrides and g = "''w2''" and rs = "[]"] unfolding e
    by (auto simp: blobEnabled_def split: prod.splits outcome.splits)
qed

lemma shown_numbers: "show_nat 2 = ''2''" "show_nat (Suc (Suc 0)) = ''2''" "show_nat 3 = ''3''"
    "show_nat 15 = ''15''"
  by code_simp+

text \<open>
  The status a thrown turn publishes does not state the delay it then waits: it always says
  15 s, while the second retry of an ordinary error sleeps 30 s.
\<close>

theorem thrown_turn_reports_wrong_delay:
  assumes "\<not> isCopilotConnectionClosedError msg" and "missingState msg = None"
    and "\<not> blobEnabled (inp w)" and "v_retryCount w = 1"
  shows "case handleTurnThrow msg carried (w\<lparr>history := []\<rparr>) of
     (Stop Suspended, w') \<Rightarrow>
       (\<exists>g. trace w' = trace w @ [EStatus g, EScheduleTimer 30000] \<and>
          sg_error g = Some (msg @ '' (retry 2/3 in 15s)''))
   | _ \<Rightarrow> False"
  using assms
  by (auto simp: handleTurnThrow_def failure_defs run_simps runtime_defs MAX_RETRIES_def
      retry_delay_def Let_def base_signal_def shown_numbers numeral_2_eq_2)

theorem thrown_turn_reports_wrong_delay_witness:
  "case handleTurnThrow ''boom'' no_overrides
      (initial_state ((blank_input ''s'')\<lparr>in_retryCount := Some 1\<rparr>) Map.empty []) of
     (Stop Suspended, w') \<Rightarrow>
       (\<exists>g. trace w' = [EStatus g, EScheduleTimer 30000] \<and>
          sg_error g = Some (''boom'' @ '' (retry 2/3 in 15s)''))
   | _ \<Rightarrow> False"
proof -
  let ?i = "(blank_input ''s'')\<lparr>in_retryCount := Some 1\<rparr>"
  have e: "(initial_state ?i Map.empty [])\<lparr>history := []\<rparr> = initial_state ?i Map.empty []"
    by (simp add: initial_state_def)
  have "\<not> isCopilotConnectionClosedError ''boom''" "missingState ''boom'' = None" by code_simp+
  then show ?thesis
    using thrown_turn_reports_wrong_delay [where w = "initial_state ?i Map.empty []"
      and msg = "''boom''" and carried = no_overrides] unfolding e
    by (simp add: blobEnabled_def split: prod.splits outcome.splits halt.splits)
qed

text \<open>
  A lost session state is fatal at once: no retry, no timer; the session is published and
  recorded as failed with the reason after the marker, and the orchestration ends with that error.
\<close>

theorem missing_state_is_fatal:
  assumes "missingState msg = Some reason"
  shows "case handleTurnThrow msg carried (w\<lparr>history := RUnit # rs\<rparr>) of
     (Throw e, w') \<Rightarrow> e = reason \<and> v_retryCount w' = v_retryCount w \<and>
       (\<exists>g. trace w' = trace w @ [EStatus g, EManager (MUpdateCmsState ''failed'' (Some reason))] \<and>
          sg_status g = Failed \<and> sg_fatal g)
   | _ \<Rightarrow> False"
  using assms
  by (simp add: handleTurnThrow_def failFatally_def updateCmsState_def run_simps runtime_defs
      publishStatus_def base_signal_def)

theorem missing_state_is_fatal_witness:
  "case handleTurnThrow ''Error: SESSION_STATE_MISSING: no archive'' no_overrides
      (initial_state (blank_input ''s'') Map.empty [RUnit]) of
     (Throw e, w') \<Rightarrow> e = ''no archive''
   | _ \<Rightarrow> False"
proof -
  have e: "(initial_state (blank_input ''s'') Map.empty [])\<lparr>history := [RUnit]\<rparr> =
      initial_state (blank_input ''s'') Map.empty [RUnit]"
    by (simp add: initial_state_def)
  have "missingState ''Error: SESSION_STATE_MISSING: no archive'' = Some ''no archive''" by code_simp
  from missing_state_is_fatal [OF this, where carried = no_overrides and rs = "[]"
      and w = "initial_state (blank_input ''s'') Map.empty []"]
  show ?thesis unfolding e by (simp split: prod.splits outcome.splits)
qed

end
