(* ===== verification/TurnResult.thy ===== *)
theory TurnResult
  imports SpawnAgent TurnFailure
begin

text \<open>
  \<open>handleTurnResult\<close> of \<open>orchestration.ts\<close>: what the orchestration does with the result of an LLM
  turn or with a queued tool action, one definition per case. Durable waits become the active
  timer of the event loop.
\<close>

definition plain_timer :: "timer_type \<Rightarrow> int \<Rightarrow> int \<Rightarrow> string \<Rightarrow> active_timer" where
  "plain_timer ty now ms reason =
     \<lparr> tm_deadlineMs = now + ms, tm_originalDurationMs = ms, tm_reason = reason, tm_type = ty,
       tm_shouldRehydrate = None, tm_waitPlan = None, tm_content = None, tm_question = None,
       tm_choices = None, tm_allowFreeform = None, tm_agentIds = None \<rparr>"

definition set_timer :: "active_timer \<Rightarrow> unit orchp" where
  "set_timer t = modify (\<lambda>w. w\<lparr>v_activeTimer := Some t\<rparr>)"

definition plan_for :: "orch \<Rightarrow> int \<Rightarrow> bool option \<Rightarrow> wait_plan" where
  "plan_for w seconds preserve = planWaitHandling
     \<lparr> wp_blobEnabled = blobEnabled (inp w), wp_seconds = seconds,
       wp_dehydrateThreshold = dehydrateThreshold (inp w), wp_preserveWorkerAffinity = preserve \<rparr>"

subsection \<open>Adjusting the result\<close>

definition question_tag :: string where
  "question_tag = ''QUESTION FOR PARENT:''"

definition hasParent :: "orch \<Rightarrow> bool" where
  "hasParent w = truthy (parentSessionId (inp w))"

definition coerceParentQuestion :: "orch \<Rightarrow> turn_action \<Rightarrow> turn_action" where
  "coerceParentQuestion w a =
     (case a of
        TCompleted content \<Rightarrow>
          if hasParent w \<and> ci_starts (trim content) question_tag
          then TWait 60 ''waiting for parent answer'' None (Some (trim content))
          else a
      | _ \<Rightarrow> a)"

definition empty_reply :: "turn_action \<Rightarrow> bool" where
  "empty_reply a =
     (case a of
        TCompleted c \<Rightarrow> trim c = []
      | TWait _ _ _ c \<Rightarrow> trim (default_to c []) = []
      | _ \<Rightarrow> False)"

definition interrupt_reply :: string where
  "interrupt_reply = ''I'm here. Resuming the timer.''"

definition with_content :: "string \<Rightarrow> turn_action \<Rightarrow> turn_action" where
  "with_content c a =
     (case a of
        TCompleted _ \<Rightarrow> TCompleted c
      | TWait s r p _ \<Rightarrow> TWait s r p (Some c)
      | _ \<Rightarrow> a)"

definition interruptedByUser :: "orch \<Rightarrow> bool" where
  "interruptedByUser w =
     (case v_interruptedWaitTimer w of None \<Rightarrow> False | Some t \<Rightarrow> iw_interruptKind t = Some ByUser)"

definition ensureVisibleReply :: "turn_action \<Rightarrow> turn_action orchp" where
  "ensureVisibleReply a =
     inspect (\<lambda>w.
       if interruptedByUser w \<and> empty_reply a
       then andThen (recordSessionEvent ''assistant.message''
              [(''content'', JStr interrupt_reply), (''synthetic'', JBool True),
               (''reason'', JStr ''wait_interrupt_empty_reply'')])
              (ret (with_content interrupt_reply a))
       else ret a)"

subsection \<open>Completed turns\<close>

definition payload :: "response_type \<Rightarrow> string option \<Rightarrow> string option \<Rightarrow> response_payload" where
  "payload t content model =
     \<lparr> rp_type = t, rp_content = content, rp_question = None, rp_waitReason = None,
       rp_waitSeconds = None, rp_waitStartedAt = None, rp_model = model \<rparr>"

definition forgottenTimerPrompt :: "sub_agent list \<Rightarrow> string" where
  "forgottenTimerPrompt running =
     ''[SYSTEM: You ended your turn without calling wait(), but you have '' @ show_nat (length running) @
     '' sub-agent(s) still running: '' @
     join '', '' (map (\<lambda>a. if sa_task a = [] then sa_orchId a else take 40 (sa_task a)) running) @ ''. '' @
     ''Without a wait() call, your monitoring/polling loop is DEAD - the orchestration will NOT wake you up automatically. '' @
     ''You MUST call wait() now to schedule your next check-in. Call wait() with an appropriate interval to continue your loop.]''"

definition resumeInterruptedWait :: "interrupted_wait \<Rightarrow> unit orchp" where
  "resumeInterruptedWait saved =
     doing [
       modify (\<lambda>w. w\<lparr>v_interruptedWaitTimer := None\<rparr>),
       cond (iw_shouldRehydrate saved) (dehydrateForNextTurn ''timer''
         (case iw_waitPlan saved of None \<Rightarrow> True | Some p \<Rightarrow> resetAffinityOnDehydrate p) []),
       bind utcNow (\<lambda>resumeNow. doing [
         publishStatus Waiting (waiting_extra (iw_remainingSec saved) (iw_reason saved) resumeNow),
         cond (\<not> iw_shouldRehydrate saved) maybeCheckpoint,
         set_timer ((plain_timer TmWait resumeNow (iw_remainingSec saved * 1000) (iw_reason saved))
           \<lparr>tm_shouldRehydrate := Some (iw_shouldRehydrate saved),
            tm_waitPlan := iw_waitPlan saved\<rparr>)])]"

definition resumeInterruptedCron :: "interrupted_cron \<Rightarrow> unit orchp" where
  "resumeInterruptedCron saved =
     andThen (modify (\<lambda>w. w\<lparr>v_interruptedCronTimer := None\<rparr>))
       (inspect (\<lambda>w.
         let remainingMs = max 0 (ic_remainingMs saved);
             remainingSec = max 1 (round_sec remainingMs);
             plan = plan_for w remainingSec None
         in doing [
           cond (shouldDehydrate plan) (dehydrateForNextTurn ''cron'' (resetAffinityOnDehydrate plan) []),
           bind utcNow (\<lambda>resumeNow. doing [
             publishStatus Waiting (waiting_extra remainingSec (ic_reason saved) resumeNow),
             cond (\<not> shouldDehydrate plan) maybeCheckpoint,
             set_timer ((plain_timer TmCron resumeNow remainingMs (ic_reason saved))
               \<lparr>tm_shouldRehydrate := Some (shouldDehydrate plan)\<rparr>)])]))"

definition armCron :: "cron_schedule \<Rightarrow> unit orchp" where
  "armCron c =
     inspect (\<lambda>w.
       let plan = plan_for w (cs_intervalSeconds c) None in doing [
         cond (shouldDehydrate plan) (dehydrateForNextTurn ''cron'' (resetAffinityOnDehydrate plan) []),
         recordSessionEvent ''session.cron_started''
           [(''intervalSeconds'', JNum (cs_intervalSeconds c)), (''reason'', JStr (cs_reason c))],
         bind utcNow (\<lambda>startedAt. doing [
           publishStatus Waiting (waiting_extra (cs_intervalSeconds c) (cs_reason c) startedAt),
           cond (\<not> shouldDehydrate plan) maybeCheckpoint,
           set_timer ((plain_timer TmCron startedAt (cs_intervalSeconds c * 1000) (cs_reason c))
             \<lparr>tm_shouldRehydrate := Some (shouldDehydrate plan)\<rparr>)])])"

definition armIdle :: "unit orchp" where
  "armIdle =
     inspect (\<lambda>w.
       if \<not> blobEnabled (inp w) \<or> idleTimeout (inp w) < 0 then maybeCheckpoint
       else doing [
         publishStatus Idle id,
         maybeCheckpoint,
         bind utcNow (\<lambda>idleNow.
           set_timer (plain_timer TmIdle idleNow (idleTimeout (inp w) * 1000) ''idle timeout''))])"

definition scheduleCronOrIdle :: "unit orchp" where
  "scheduleCronOrIdle =
     inspect (\<lambda>w.
       case v_interruptedCronTimer w of
         Some saved \<Rightarrow>
           if 0 < ic_remainingMs saved then resumeInterruptedCron saved
           else (case v_cronSchedule w of Some c \<Rightarrow> armCron c | None \<Rightarrow> armIdle)
       | None \<Rightarrow> (case v_cronSchedule w of Some c \<Rightarrow> armCron c | None \<Rightarrow> armIdle))"

text \<open>What a completed turn leaves running, in the source's order of priority.\<close>

definition scheduleAfterCompletion :: "unit orchp" where
  "scheduleAfterCompletion =
     inspect (\<lambda>w.
       let running = running_agents (v_subAgents w) in
       if running \<noteq> [] \<and> in_forgottenTimerNudged (inp w) \<noteq> Some True \<and> v_cronSchedule w = None
       then versionedContinueAsNew (continueInputWithPrompt (Some (forgottenTimerPrompt running))
              (no_overrides\<lparr>ov_forgottenTimerNudged := Some True\<rparr>) w)
       else
         (case v_interruptedWaitTimer w of
            Some saved \<Rightarrow> if 0 < iw_remainingSec saved then resumeInterruptedWait saved else scheduleCronOrIdle
          | None \<Rightarrow> scheduleCronOrIdle))"

definition handleCompleted :: "string \<Rightarrow> string option \<Rightarrow> unit orchp" where
  "handleCompleted content model =
     andThen (writeLatestResponse (payload RespCompleted (Some content) model))
       (inspect (\<lambda>w.
         if hasParent w
         then andThen (notifyParent ''completed'' (take 2000 content))
                (if v_cronSchedule w = None
                 then (if isSystem (inp w) then maybeCheckpoint
                       else doing [destroySession, publishStatus Completed id, set_result ''done''])
                 else scheduleAfterCompletion)
         else scheduleAfterCompletion))"

subsection \<open>Waiting and asking\<close>

definition handleWait ::
    "int \<Rightarrow> string \<Rightarrow> bool option \<Rightarrow> string option \<Rightarrow> string option \<Rightarrow> string \<Rightarrow> unit orchp" where
  "handleWait seconds reason preserve content model sourcePrompt =
     doing [
       modify (\<lambda>w. w\<lparr>v_interruptedWaitTimer := None\<rparr>),
       ensureTaskContext (Some sourcePrompt),
       notifyParent ''wait''
         (if truthy content then take 2000 (or_str content [])
          else ''[wait: '' @ reason @ '' ('' @ show_int seconds @ ''s)]''),
       inspect (\<lambda>w.
         let plan = plan_for w seconds preserve in doing [
           cond (shouldDehydrate plan) (dehydrateForNextTurn ''timer'' (resetAffinityOnDehydrate plan) []),
           bind utcNow (\<lambda>waitStartedAt. doing [
             cond (truthy content) (writeLatestResponse ((payload RespWait content model)
               \<lparr>rp_waitReason := Some reason, rp_waitSeconds := Some seconds,
                rp_waitStartedAt := Some waitStartedAt\<rparr>)),
             publishStatus Waiting (\<lambda>g. (waiting_extra seconds reason waitStartedAt g)
               \<lparr>sg_preserveWorkerAffinity := Some (preserveAffinityOnHydrate plan)\<rparr>),
             cond (\<not> shouldDehydrate plan) maybeCheckpoint,
             recordSessionEvent ''session.wait_started''
               [(''seconds'', JNum seconds), (''reason'', JStr reason),
                (''preserveAffinity'', JBool (preserveAffinityOnHydrate plan))],
             set_timer ((plain_timer TmWait waitStartedAt (seconds * 1000) reason)
               \<lparr>tm_shouldRehydrate := Some (shouldDehydrate plan), tm_waitPlan := Some plan,
                tm_content := content\<rparr>)])])]"

definition handleInputRequired :: "input_question \<Rightarrow> string option \<Rightarrow> unit orchp" where
  "handleInputRequired q model =
     doing [
       writeLatestResponse ((payload RespInputRequired None model)\<lparr>rp_question := Some q\<rparr>),
       modify (\<lambda>w. w\<lparr>v_pendingInputQuestion := Some q\<rparr>),
       publishStatus InputRequired id,
       inspect (\<lambda>w.
         if \<not> blobEnabled (inp w) \<or> inputGracePeriod (inp w) < 0 then maybeCheckpoint
         else if inputGracePeriod (inp w) = 0 then dehydrateForNextTurn ''input_required'' True []
         else bind utcNow (\<lambda>graceNow.
           set_timer ((plain_timer TmInputGrace graceNow (inputGracePeriod (inp w) * 1000)
                        ''input grace period'')
             \<lparr>tm_question := Some (iq_question q), tm_choices := iq_choices q,
              tm_allowFreeform := iq_allowFreeform q\<rparr>)))]"

subsection \<open>Talking to sub-agents\<close>

definition known_agents :: "sub_agent list \<Rightarrow> string" where
  "known_agents agents = or_str (Some (join '', '' (map sa_orchId agents))) ''none''"

definition not_found :: "string \<Rightarrow> string \<Rightarrow> sub_agent list \<Rightarrow> string" where
  "not_found tool target agents =
     ''[SYSTEM: '' @ tool @ '' failed - agent '' @ dq @ target @ dq @ '' not found. Known agents: '' @
     known_agents agents @ '']''"

text \<open>Look the agent up, run the request, and report its failure as a followup.\<close>

definition with_agent :: "string \<Rightarrow> string \<Rightarrow> (sub_agent \<Rightarrow> unit orchp) \<Rightarrow> unit orchp" where
  "with_agent tool target f =
     inspect (\<lambda>w. case findTrackedAgentByOrchId (v_subAgents w) target of
       None \<Rightarrow> queueFollowup (not_found tool target (v_subAgents w))
     | Some a \<Rightarrow> f a)"

definition request_agent :: "string \<Rightarrow> manager_op \<Rightarrow> unit orchp \<Rightarrow> unit orchp" where
  "request_agent tool op success =
     bind (try_catch (andThen (await_unit (manager op)) (ret None)) (\<lambda>e. ret (Some e)))
       (\<lambda>r. case r of
          Some e \<Rightarrow> queueFollowup (''[SYSTEM: '' @ tool @ '' failed: '' @ e @ '']'')
        | None \<Rightarrow> success)"

definition messageAgent :: "string \<Rightarrow> string \<Rightarrow> unit orchp" where
  "messageAgent target message =
     with_agent ''message_agent'' target (\<lambda>a.
       request_agent ''message_agent'' (MSendToSession (sa_sessionId a) message)
         (queueFollowup (''[SYSTEM: Message sent to sub-agent '' @ target @ '': '' @ dq @
            take 200 message @ dq @ ''. Continue your work in this SAME turn. '' @
            ''If you are waiting on the child, call wait_for_agents explicitly rather than stopping here.]'')))"

definition child_command :: "string \<Rightarrow> string \<Rightarrow> string \<Rightarrow> command_message" where
  "child_command cmd cmdId reason =
     \<lparr> cm_cmd = cmd, cm_id = cmdId, cm_args = [(''reason'', JStr reason)] \<rparr>"

definition completeAgent :: "string \<Rightarrow> unit orchp" where
  "completeAgent target =
     with_agent ''complete_agent'' target (\<lambda>a. inspect (\<lambda>w.
       request_agent ''complete_agent''
         (MSendCommand (sa_sessionId a)
            (child_command ''done'' (''done-'' @ show_nat (v_iteration w)) ''Completed by parent''))
         (queueFollowup (''[SYSTEM: Graceful completion requested for sub-agent '' @ target @
            ''. Use check_agents or wait_for_agents to observe final completion.]''))))"

definition reason_suffix :: "string option \<Rightarrow> string" where
  "reason_suffix reason = (if truthy reason then '' Reason: '' @ or_str reason [] else [])"

definition cancelAgent :: "string \<Rightarrow> string option \<Rightarrow> unit orchp" where
  "cancelAgent target reason =
     with_agent ''cancel_agent'' target (\<lambda>a. inspect (\<lambda>w.
       request_agent ''cancel_agent''
         (MSendCommand (sa_sessionId a)
            (child_command ''cancel''
               (''cancel-'' @ show_nat (v_iteration w) @ ''-'' @ take 8 (sa_sessionId a))
               (default_to reason ''Cancelled by parent'')))
         (queueFollowup (''[SYSTEM: Graceful cancellation requested for sub-agent '' @ target @
            ''. Use check_agents or wait_for_agents to observe final termination.'' @
            reason_suffix reason @ '']''))))"

definition deleteAgent :: "string \<Rightarrow> string option \<Rightarrow> unit orchp" where
  "deleteAgent target reason =
     with_agent ''delete_agent'' target (\<lambda>a. inspect (\<lambda>w.
       let deleteReason = default_to reason ''Deleted by parent'' in
       if isSubAgentTerminalStatus (sa_status a)
       then request_agent ''delete_agent'' (MDeleteSession (sa_sessionId a) deleteReason)
              (doing [
                modify (\<lambda>w. w\<lparr>v_subAgents := filter (\<lambda>b. \<not> by_orch target b) (v_subAgents w)\<rparr>),
                queueFollowup (''[SYSTEM: Sub-agent '' @ target @ '' has been deleted.'' @
                  reason_suffix reason @ '']'')])
       else request_agent ''delete_agent''
              (MSendCommand (sa_sessionId a)
                 (child_command ''delete''
                    (''delete-'' @ show_nat (v_iteration w) @ ''-'' @ take 8 (sa_sessionId a))
                    deleteReason))
              (queueFollowup (''[SYSTEM: Graceful deletion requested for sub-agent '' @ target @
                 ''. It will cancel its descendants first and then delete itself.'' @
                 reason_suffix reason @ '']''))))"

definition checked_agent :: "child_status \<Rightarrow> sub_agent \<Rightarrow> sub_agent" where
  "checked_agent c a =
     (if ct_status c = ''completed'' \<or> ct_status c = ''failed'' \<or> ct_status c = ''idle''
      then (let a1 = a\<lparr>sa_status := (if ct_status c = ''failed'' then AgFailed else AgCompleted)\<rparr>
            in if truthy (ct_result c) then a1\<lparr>sa_result := Some (take 1000 (or_str (ct_result c) []))\<rparr>
               else a1)
      else a)"

definition status_line :: "sub_agent \<Rightarrow> child_status \<Rightarrow> string" where
  "status_line a c =
     ''  - Agent '' @ sa_orchId a @ [nl] @
     ''    Task: '' @ dq @ take 120 (sa_task a) @ dq @ [nl] @
     ''    Status: '' @ ct_status c @ [nl] @
     ''    Iterations: '' @ show_int (default_to (ct_iterations c) 0) @ [nl] @
     ''    Output: '' @ default_to (ct_result c) ''(no output yet)''"

definition status_error_line :: "sub_agent \<Rightarrow> string \<Rightarrow> string" where
  "status_error_line a e =
     ''  - Agent '' @ sa_orchId a @ [nl] @
     ''    Task: '' @ dq @ take 120 (sa_task a) @ dq @ [nl] @
     ''    Status: unknown (error: '' @ e @ '')''"

fun collect_status :: "nat \<Rightarrow> sub_agent list \<Rightarrow> string list orchp" where
  "collect_status i [] = ret []"
| "collect_status i (a # rest) =
     bind (try_catch
             (bind (sessionStatus (sa_sessionId a)) (\<lambda>c.
                andThen (modify (\<lambda>w. w\<lparr>v_subAgents := (v_subAgents w)[i := checked_agent c a]\<rparr>))
                  (ret (status_line a c))))
             (\<lambda>e. ret (status_error_line a e)))
       (\<lambda>line. bind (collect_status (Suc i) rest) (\<lambda>ls. ret (line # ls)))"

definition checkAgents :: "unit orchp" where
  "checkAgents =
     inspect (\<lambda>w.
       if v_subAgents w = []
       then queueFollowup ''[SYSTEM: No sub-agents have been spawned yet.]''
       else bind (collect_status 0 (v_subAgents w)) (\<lambda>ls.
         queueFollowup (''[SYSTEM: Sub-agent status report ('' @ show_nat (length (v_subAgents w)) @
           '' agents):'' @ [nl] @ join [nl] ls @ '']'')))"

definition session_line :: "string \<Rightarrow> listed_session \<Rightarrow> string" where
  "session_line self s =
     ''  - '' @ ls_sessionId s @ (if ls_sessionId s = self then '' (this session)'' else []) @ [nl] @
     ''    Title: '' @ default_to (ls_title s) ''(untitled)'' @ [nl] @
     ''    Status: '' @ ls_status s @ '', Iterations: '' @ show_int (default_to (ls_iterations s) 0) @ [nl] @
     ''    Parent: '' @ default_to (ls_parentSessionId s) ''none''"

definition listSessions :: "unit orchp" where
  "listSessions =
     bind (manager MListSessions) (\<lambda>r. case r of
       RSessions ss \<Rightarrow> inspect (\<lambda>w.
         queueFollowup (''[SYSTEM: Active sessions ('' @ show_nat (length ss) @ ''):'' @ [nl] @
           join [nl] (map (session_line (in_sessionId (inp w))) ss) @ '']''))
     | _ \<Rightarrow> stop BadHistory)"

definition wait_targets :: "sub_agent list \<Rightarrow> string list \<Rightarrow> string list" where
  "wait_targets agents requested =
     (if requested \<noteq> [] then requested
      else if running_agents agents \<noteq> [] then map sa_orchId (running_agents agents)
      else map sa_orchId agents)"

definition AGENT_POLL_MS :: int where "AGENT_POLL_MS = 30000"

definition waiting_reason :: "string list \<Rightarrow> string" where
  "waiting_reason ids = ''waiting for '' @ show_nat (length ids) @ '' agent(s)''"

definition waitForAgents :: "string list \<Rightarrow> unit orchp" where
  "waitForAgents requested =
     inspect (\<lambda>w.
       let targetIds = wait_targets (v_subAgents w) requested in
       if targetIds = []
       then queueFollowup ''[SYSTEM: No running sub-agents to wait for. All agents have already completed.]''
       else if getStillRunningAgentIds (v_subAgents w) targetIds = []
       then queueFollowup (buildWaitForAgentsFollowup (v_subAgents w) targetIds)
       else doing [
         publishStatus Running id,
         modify (\<lambda>w. w\<lparr>v_waitingForAgentIds := Some targetIds\<rparr>),
         bind utcNow (\<lambda>now.
           set_timer (poll_timer now AGENT_POLL_MS (waiting_reason targetIds) targetIds))])"

subsection \<open>The dispatcher\<close>

definition dispatchResult :: "turn_action \<Rightarrow> string option \<Rightarrow> string \<Rightarrow> unit orchp" where
  "dispatchResult a model sourcePrompt =
     (case a of
        TCompleted content \<Rightarrow> handleCompleted content model
      | TCron c \<Rightarrow> applyCronAction c (Some sourcePrompt)
      | TWait seconds reason preserve content \<Rightarrow>
          handleWait seconds reason preserve content model sourcePrompt
      | TInputRequired q \<Rightarrow> handleInputRequired q model
      | TCancelled \<Rightarrow> ret ()
      | TSpawnAgent r \<Rightarrow> spawnAgent r
      | TMessageAgent target message \<Rightarrow> messageAgent target message
      | TCheckAgents \<Rightarrow> checkAgents
      | TListSessions \<Rightarrow> listSessions
      | TWaitForAgents ids \<Rightarrow> waitForAgents ids
      | TCompleteAgent target \<Rightarrow> completeAgent target
      | TCancelAgent target reason \<Rightarrow> cancelAgent target reason
      | TDeleteAgent target reason \<Rightarrow> deleteAgent target reason
      | TError message \<Rightarrow> handleTurnError message sourcePrompt)"

definition handleTurnResult :: "turn_action \<Rightarrow> string option \<Rightarrow> string \<Rightarrow> unit orchp" where
  "handleTurnResult result model sourcePrompt =
     inspect (\<lambda>w.
       bind (ensureVisibleReply (coerceParentQuestion w result)) (\<lambda>a.
       dispatchResult a model sourcePrompt))"

subsection \<open>Properties\<close>

text \<open>
  A user who interrupts a wait always gets a visible reply: an empty completed or waiting
  result is replaced by the fixed acknowledgement, every other result passes unchanged.
\<close>

theorem interrupting_user_gets_reply:
  "case ensureVisibleReply a (w\<lparr>history := RUnit # rs\<rparr>) of
     (Ret b, w') \<Rightarrow>
       (if interruptedByUser w \<and> empty_reply a
        then b = with_content interrupt_reply a \<and> \<not> empty_reply b \<and> history w' = rs
        else b = a \<and> w' = w\<lparr>history := RUnit # rs\<rparr>)
   | _ \<Rightarrow> False"
proof -
  have "\<not> empty_reply (with_content interrupt_reply a)" if "empty_reply a"
    using that by (cases a) (simp_all add: empty_reply_def with_content_def interrupt_reply_def trim_def
        trim_start_def trim_end_def is_ws_def)
  moreover have "interruptedByUser (w\<lparr>history := h\<rparr>) = interruptedByUser w" for h
    by (simp add: interruptedByUser_def)
  ultimately show ?thesis
    by (simp add: ensureVisibleReply_def run_simps runtime_defs)
qed

text \<open>
  When a child session completes its work, its parent learns it: the response is stored, the
  update sent to the parent's queue reads back there as this session's completion with the first
  2000 characters of the answer, the live session is destroyed and the orchestration ends.
\<close>

theorem child_completion_reaches_parent:
  assumes "parentSessionId (inp w) = Some p" and "p \<noteq> []" and "v_cronSchedule w = None"
    and "\<not> isSystem (inp w)"
    and "in_sessionId (inp w) \<noteq> []" and "\<forall>c \<in> set (in_sessionId (inp w)). \<not> is_ws c"
  shows "case handleCompleted content model (w\<lparr>history := RInt t # RUnit # RUnit # rs\<rparr>) of
     (Ret u, w') \<Rightarrow>
       (\<exists>upd g. trace w' = trace w @ [EUtcNow, EManager (MSendToSession p upd),
            ESession (v_session w) SDestroy, EStatus g] \<and> sg_status g = Completed \<and>
          parseChildUpdate (Some upd) = Some \<lparr> up_sessionId = in_sessionId (inp w),
            up_updateType = ''completed'', up_content = trim (take 2000 content) \<rparr>) \<and>
       v_orchestrationResult w' = Some ''done'' \<and> history w' = rs \<and>
       counter_of (kv w') RESPONSE_VERSION_KEY = counter_of (kv w) RESPONSE_VERSION_KEY + 1
   | _ \<Rightarrow> False"
proof -
  define upd where "upd = childUpdateText (in_sessionId (inp w)) ''completed'' (v_iteration w) (take 2000 content)"
  have "parseChildUpdate (Some upd) = Some \<lparr> up_sessionId = in_sessionId (inp w),
            up_updateType = ''completed'', up_content = trim (take 2000 content) \<rparr>"
    unfolding upd_def by (rule parse_childUpdateText) (use assms(5,6) in \<open>simp_all add: is_ws_def\<close>)
  moreover have "handleCompleted content model (w\<lparr>history := RInt t # RUnit # RUnit # rs\<rparr>) = (Ret (), w')
    \<Longrightarrow> \<exists>g. trace w' = trace w @ [EUtcNow, EManager (MSendToSession p upd),
            ESession (v_session w) SDestroy, EStatus g] \<and> sg_status g = Completed" for w'
    using assms by (auto simp: handleCompleted_def hasParent_def publishing_defs run_simps runtime_defs
        notifyParent_def destroySession_def set_result_def base_signal_def payload_def upd_def)
  moreover have "\<exists>w'. handleCompleted content model (w\<lparr>history := RInt t # RUnit # RUnit # rs\<rparr>) = (Ret (), w') \<and>
       v_orchestrationResult w' = Some ''done'' \<and> history w' = rs \<and>
       counter_of (kv w') RESPONSE_VERSION_KEY = counter_of (kv w) RESPONSE_VERSION_KEY + 1"
    using assms by (auto simp: handleCompleted_def hasParent_def publishing_defs run_simps runtime_defs
        notifyParent_def destroySession_def set_result_def base_signal_def payload_def)
  ultimately show ?thesis by (auto split: prod.split outcome.split)
qed

theorem child_completion_reaches_parent_witness:
  "case handleCompleted '' done '' None
      (initial_state ((blank_input ''c'')\<lparr>in_parentSessionId := Some ''p''\<rparr>) Map.empty [RInt 7, RUnit, RUnit]) of
     (Ret u, w') \<Rightarrow> v_orchestrationResult w' = Some ''done'' | _ \<Rightarrow> False"
proof -
  let ?w = "initial_state ((blank_input ''c'')\<lparr>in_parentSessionId := Some ''p''\<rparr>) Map.empty []"
  have w: "?w\<lparr>history := h\<rparr> = initial_state ((blank_input ''c'')\<lparr>in_parentSessionId := Some ''p''\<rparr>) Map.empty h" for h
    by (simp add: initial_state_def)
  show ?thesis
    using child_completion_reaches_parent [where w = ?w and p = "''p''" and content = "'' done ''"
      and model = None and t = 7 and rs = "[]"] unfolding w
    by (auto simp: parentSessionId_def isSystem_def is_ws_def split: prod.splits outcome.splits)
qed

text \<open>
  A durable wait that need not leave the worker arms exactly one timer: it ends the given
  number of seconds after it started, and the session stays on its worker.
\<close>

theorem wait_arms_timer:
  assumes "\<not> hasParent w" and "\<not> blobEnabled (inp w) \<or> seconds \<le> dehydrateThreshold (inp w)"
    and "checkpointInterval (inp w) < 0"
  shows "case handleWait seconds reason preserve None model src (w\<lparr>history := RInt now # RUnit # rs\<rparr>) of
     (Ret u, w') \<Rightarrow>
       (\<exists>t. v_activeTimer w' = Some t \<and> tm_type t = TmWait \<and> tm_deadlineMs t = now + seconds * 1000 \<and>
          tm_originalDurationMs t = seconds * 1000 \<and> tm_reason t = reason \<and>
          tm_shouldRehydrate t = Some False) \<and>
       v_interruptedWaitTimer w' = None \<and> v_session w' = v_session w \<and>
       v_needsHydration w' = v_needsHydration w \<and> history w' = rs
   | _ \<Rightarrow> False"
proof -
  have stay: "(blobEnabled (inp w) \<and> dehydrateThreshold (inp w) < seconds) = False"
    using assms(2) by auto
  show ?thesis using assms(1,3)
    by (simp add: handleWait_def ensureTaskContext_def notifyParent_def hasParent_def plan_for_def
        truthy_def maybeCheckpoint_def run_simps runtime_defs publishing_defs Let_def plain_timer_def
        set_timer_def set_task_context_def stay cong: run_congs split: option.splits)
qed

theorem wait_arms_timer_witness:
  "case handleWait 300 ''deploy'' None None None ''ship it''
      (initial_state (blank_input ''s'') Map.empty [RInt 1000, RUnit]) of
     (Ret u, w') \<Rightarrow> map_option tm_deadlineMs (v_activeTimer w') = Some 301000 | _ \<Rightarrow> False"
proof -
  let ?w = "initial_state (blank_input ''s'') Map.empty []"
  have w: "?w\<lparr>history := h\<rparr> = initial_state (blank_input ''s'') Map.empty h" for h
    by (simp add: initial_state_def)
  show ?thesis
    using wait_arms_timer [where w = ?w and seconds = 300 and reason = "''deploy''" and preserve = None
      and model = None and src = "''ship it''" and now = 1000 and rs = "[]"] unfolding w
    by (auto simp: hasParent_def parentSessionId_def blobEnabled_def checkpointInterval_def
        split: prod.splits outcome.splits)
qed

end
