(* ===== verification/Commands.thy ===== *)
theory Commands
  imports Shutdown
begin

text \<open>
  The control commands a client or a parent sends to a session (\<open>handleCommand\<close> in
  \<open>orchestration.ts\<close>): change the model, list models, report the session's state, and the three
  shutdown commands.
\<close>

definition err_text :: "string \<Rightarrow> string" where
  "err_text e = (if e = [] then ''Error'' else e)"

definition respond :: "command_message \<Rightarrow> command_result option \<Rightarrow> string option \<Rightarrow> unit orchp" where
  "respond cmdMsg result err =
     writeCommandResponse
       \<lparr> cr_id = cm_id cmdMsg, cr_cmd = cm_cmd cmdMsg, cr_result = result, cr_error = err \<rparr>"

definition session_info_of :: "orch \<Rightarrow> session_info" where
  "session_info_of w =
     \<lparr> nf_model = or_str (c_model (v_config w)) ''(default)'',
       nf_iteration = v_iteration w,
       nf_sessionId = in_sessionId (inp w),
       nf_affinityKey = v_affinityKey w,
       nf_affinityKeyShort = take 8 (v_affinityKey w),
       nf_preserveAffinityOnHydrate = v_preserveAffinity w,
       nf_needsHydration = v_needsHydration w,
       nf_blobEnabled = blobEnabled (inp w),
       nf_contextUsage = v_contextUsage w \<rparr>"

definition setModelCommand :: "command_message \<Rightarrow> unit orchp" where
  "setModelCommand cmdMsg =
     inspect (\<lambda>w.
       let newModel = arg_text (cm_args cmdMsg) ''model'' [];
           oldModel = or_str (c_model (v_config w)) ''(default)''
       in doing [
         modify (\<lambda>w. w\<lparr>v_config := (v_config w)\<lparr>c_model := Some newModel\<rparr>\<rparr>),
         respond cmdMsg (Some (ResModelSet oldModel newModel)) None,
         publishStatus Idle id,
         continueWith no_overrides])"

definition listModelsCommand :: "command_message \<Rightarrow> unit orchp" where
  "listModelsCommand cmdMsg =
     andThen (publishStatus Idle (\<lambda>g. g\<lparr>sg_cmdProcessing := Some (cm_id cmdMsg)\<rparr>))
       (bind (try_catch
                (bind (manager MListModels)
                   (\<lambda>r. case r of RModels j \<Rightarrow> ret (Inr j) | _ \<Rightarrow> stop BadHistory))
                (\<lambda>e. ret (Inl e)))
          (\<lambda>models. case models of
             Inl e \<Rightarrow> doing [respond cmdMsg None (Some (err_text e)), publishStatus Idle id]
           | Inr j \<Rightarrow> inspect (\<lambda>w. doing [
               respond cmdMsg (Some (ResModels j (c_model (v_config w)))) None,
               publishStatus Idle id])))"

definition handleCommand :: "command_message \<Rightarrow> unit orchp" where
  "handleCommand cmdMsg =
     andThen
       (recordSessionEvent ''session.command_received''
          [(''cmd'', JStr (cm_cmd cmdMsg)), (''id'', JStr (cm_id cmdMsg))])
       (if cm_cmd cmdMsg = ''set_model'' then setModelCommand cmdMsg
        else if cm_cmd cmdMsg = ''list_models'' then listModelsCommand cmdMsg
        else if cm_cmd cmdMsg = ''get_info'' then
          inspect (\<lambda>w. doing [
            respond cmdMsg (Some (ResInfo (session_info_of w))) None,
            publishStatus Idle id])
        else if cm_cmd cmdMsg = ''done'' then beginGracefulShutdown ModeDone cmdMsg
        else if cm_cmd cmdMsg = ''cancel'' then beginGracefulShutdown ModeCancel cmdMsg
        else if cm_cmd cmdMsg = ''delete'' then beginGracefulShutdown ModeDelete cmdMsg
        else doing [
          respond cmdMsg None (Some (''Unknown command: '' @ cm_cmd cmdMsg)),
          publishStatus Idle id])"

end
