(* ===== verification/PromptTurn.thy ===== *)
theory PromptTurn
  imports TurnResult Commands
begin

text \<open>
  Running a turn and processing the items of the work buffer (\<open>processPrompt\<close>, \<open>processTimer\<close>,
  \<open>processAnswer\<close>, \<open>processPendingChildDigest\<close> of \<open>orchestration.ts\<close>).
\<close>

subsection \<open>Hydration with bounded retries\<close>

definition blob_missing :: "string \<Rightarrow> bool" where
  "blob_missing m =
     (str_includes m ''blob does not exist'' \<or> str_includes m ''BlobNotFound'' \<or>
      str_includes m ''Session archive not found'' \<or> str_includes m ''404'')"

definition hydrated :: "unit orchp" where
  "hydrated = modify (\<lambda>w. w\<lparr>v_needsHydration := False, v_preserveAffinity := False\<rparr>)"

definition hydrateOnce :: "unit orchp" where
  "hydrateOnce =
     doing [
       inspect (\<lambda>w. cond (\<not> v_preserveAffinity w)
         (bind newGuid (\<lambda>g. modify (\<lambda>w. w\<lparr>v_affinityKey := g\<rparr>)))),
       modify (\<lambda>w. w\<lparr>v_session := v_affinityKey w\<rparr>),
       await_unit (session SHydrate),
       hydrated]"

definition hydrate_delay :: "nat \<Rightarrow> nat" where
  "hydrate_delay attempts = 10 * 2 ^ (attempts - 1)"

text \<open>
  The \<open>while (true)\<close> of the source: \<open>left\<close> counts down the attempts that remain, \<open>attempts\<close> is
  \<open>hydrateAttempts\<close>; the loop ends after \<open>MAX_RETRIES\<close> failures.
\<close>

fun hydrateLoop :: "nat \<Rightarrow> nat \<Rightarrow> unit orchp" where
  "hydrateLoop 0 attempts = ret ()"
| "hydrateLoop (Suc left) attempts =
     try_catch hydrateOnce (\<lambda>e.
       let hMsg = err_text e; n = attempts + 1 in
       if blob_missing hMsg then hydrated
       else if MAX_RETRIES \<le> n
       then publishStatus Errored (\<lambda>g. g\<lparr>
         sg_error := Some (''Hydrate failed after '' @ show_nat MAX_RETRIES @ '' attempts: '' @ hMsg),
         sg_retriesExhausted := True\<rparr>)
       else doing [
         publishStatus Errored (\<lambda>g. g\<lparr>
           sg_error := Some (''Hydrate failed: '' @ hMsg @ '' (retry '' @ show_nat n @ ''/'' @
             show_nat MAX_RETRIES @ '' in '' @ show_nat (hydrate_delay n) @ ''s)'')\<rparr>),
         scheduleTimer (int (hydrate_delay n) * 1000),
         hydrateLoop left n])"

definition hydrateWithRetry :: "unit orchp" where
  "hydrateWithRetry = hydrateLoop MAX_RETRIES 0"

subsection \<open>processPrompt\<close>

definition probeHydration :: "unit orchp" where
  "probeHydration =
     inspect (\<lambda>w. cond (blobEnabled (inp w) \<and> \<not> v_needsHydration w)
       (try_catch
          (bind (session SNeedsHydration) (\<lambda>r. case r of
             RBool b \<Rightarrow> modify (\<lambda>w. w\<lparr>v_needsHydration := b\<rparr>) | _ \<Rightarrow> stop BadHistory))
          (\<lambda>e. ret ())))"

record prepared_turn =
  pt_prompt :: string
  pt_bootstrap :: bool
  pt_systemOnly :: bool
  pt_systemPrompt :: "string option"

definition prepareTurn :: "string \<Rightarrow> bool \<Rightarrow> prepared_turn orchp" where
  "prepareTurn promptText isBootstrap =
     bind (inspect (\<lambda>w.
             if v_needsHydration w \<and> blobEnabled (inp w) \<and> promptText \<noteq> []
             then wrapWithResumeContext promptText None else ret promptText)) (\<lambda>prompt.
     inspect (\<lambda>w.
       case extractPromptSystemContext (Some prompt) of
         (p, s) \<Rightarrow>
           let turnSystem = mergePrompt (v_pendingSystemPrompt w) s;
               text = default_to p [];
               systemOnly = (text = [] \<and> truthy turnSystem)
           in andThen
                (modify (\<lambda>w. w\<lparr>v_pendingSystemPrompt := None,
                   v_config := (v_config w)\<lparr>c_turnSystemPrompt := turnSystem\<rparr>\<rparr>))
                (ret \<lparr> pt_prompt = (if systemOnly then INTERNAL_SYSTEM_TURN_PROMPT else text),
                       pt_bootstrap = (systemOnly \<or> isBootstrap),
                       pt_systemOnly = systemOnly, pt_systemPrompt = turnSystem \<rparr>)))"

definition loadKnowledge :: "unit orchp" where
  "loadKnowledge =
     inspect (\<lambda>w. cond (c_agentIdentity (v_config w) \<noteq> Some ''facts-manager'')
       (try_catch (bind (manager MLoadKnowledge) (\<lambda>r. ret ())) (\<lambda>e. ret ())))"

definition clear_turn_system :: "unit orchp" where
  "clear_turn_system =
     modify (\<lambda>w. w\<lparr>v_config := (v_config w)\<lparr>c_turnSystemPrompt := None\<rparr>\<rparr>)"

definition retry_carry :: "prepared_turn \<Rightarrow> string option \<Rightarrow> can_overrides" where
  "retry_carry pt requiredTool =
     no_overrides\<lparr>ov_prompt := (if pt_systemOnly pt then None else Some (pt_prompt pt)),
                  ov_requiredTool := keep_truthy requiredTool,
                  ov_systemPrompt := keep_truthy (pt_systemPrompt pt)\<rparr>"

definition runTurn :: "prepared_turn \<Rightarrow> string option \<Rightarrow> turn_result orchp" where
  "runTurn pt requiredTool =
     inspect (\<lambda>w.
       bind (session (SRunTurn (v_config w) (pt_prompt pt) (pt_bootstrap pt) (v_iteration w)
               (keep_truthy (parentSessionId (inp w))) (nestingLevel (inp w))
               (keep_truthy requiredTool) (v_retryCount w)))
         (\<lambda>r. case r of RTurn t \<Rightarrow> ret t | _ \<Rightarrow> stop BadHistory))"

definition afterTurn :: "prepared_turn \<Rightarrow> turn_result \<Rightarrow> unit orchp" where
  "afterTurn pt result =
     doing [
       clear_turn_system,
       set_retryCount 0,
       bind utcNow (\<lambda>observedAt. modify (\<lambda>w. w\<lparr>v_contextUsage :=
         updateContextUsageFromEvents (v_contextUsage w) (tr_events result) observedAt\<rparr>)),
       modify (\<lambda>w. w\<lparr>v_iteration := v_iteration w + 1\<rparr>),
       maybeSummarize,
       refreshTrackedSubAgents,
       modify (\<lambda>w. w\<lparr>v_pendingToolActions := v_pendingToolActions w @ tr_queued result\<rparr>),
       drainLeadingQueuedCronActions (Some (pt_prompt pt)),
       handleTurnResult (tr_action result) (tr_model result) (pt_prompt pt)]"

definition executeTurn :: "prepared_turn \<Rightarrow> string option \<Rightarrow> unit orchp" where
  "executeTurn pt requiredTool =
     doing [
       loadKnowledge,
       inspect (\<lambda>w. publishStatus Running (\<lambda>g. g\<lparr>sg_iteration := v_iteration w + 1\<rparr>)),
       bind (try_catch (bind (runTurn pt requiredTool) (\<lambda>t. ret (Inr t))) (\<lambda>e. ret (Inl e)))
         (\<lambda>r. case r of
            Inl e \<Rightarrow> andThen clear_turn_system (handleTurnThrow (err_text e) (retry_carry pt requiredTool))
          | Inr t \<Rightarrow> afterTurn pt t)]"

definition processPrompt :: "string \<Rightarrow> bool \<Rightarrow> string option \<Rightarrow> unit orchp" where
  "processPrompt promptText isBootstrap requiredTool =
     andThen probeHydration
       (bind (prepareTurn promptText isBootstrap) (\<lambda>pt. inspect (\<lambda>w.
          if v_needsHydration w \<and> blobEnabled (inp w)
          then andThen hydrateWithRetry
                 (inspect (\<lambda>w. if v_needsHydration w then ret () else executeTurn pt requiredTool))
          else executeTurn pt requiredTool)))"

subsection \<open>Properties\<close>

fun is_hydration :: "effect \<Rightarrow> bool" where
  "is_hydration (ESession key SHydrate) = True"
| "is_hydration _ = False"

fun hydrations :: "effect list \<Rightarrow> nat" where
  "hydrations [] = 0"
| "hydrations (e # es) = (if is_hydration e then 1 else 0) + hydrations es"

lemma hydrations_append [simp]: "hydrations (es @ fs) = hydrations es + hydrations fs"
  by (induction es) auto

text \<open>\<open>costs n m\<close>: running \<open>m\<close> asks for at most \<open>n\<close> hydrations.\<close>

definition costs :: "nat \<Rightarrow> 'a orchp \<Rightarrow> bool" where
  "costs n m = (\<forall>w. hydrations (trace (snd (m w))) \<le> hydrations (trace w) + n)"

lemma costsD: "costs n m \<Longrightarrow> m w = (r, w') \<Longrightarrow> hydrations (trace w') \<le> hydrations (trace w) + n"
  unfolding costs_def by (metis snd_conv)

lemma costs_bind: "costs a m \<Longrightarrow> (\<And>x. costs b (f x)) \<Longrightarrow> costs (a + b) (bind m f)"
  unfolding costs_def bind_def
proof
  fix w
  assume m: "\<forall>w. hydrations (trace (snd (m w))) \<le> hydrations (trace w) + a"
    and f: "\<And>x. \<forall>w. hydrations (trace (snd (f x w))) \<le> hydrations (trace w) + b"
  obtain r w1 where r: "m w = (r, w1)" by force
  with m have 1: "hydrations (trace w1) \<le> hydrations (trace w) + a" by (metis snd_conv)
  show "hydrations (trace (snd (case m w of (Ret x, s') \<Rightarrow> f x s'
          | (Throw e, s') \<Rightarrow> (Throw e, s') | (Stop h, s') \<Rightarrow> (Stop h, s'))))
        \<le> hydrations (trace w) + (a + b)"
    using 1 f [rule_format, of _ w1] by (cases r; simp add: r) (metis add.assoc add_le_mono1 order_trans)
qed

lemma costs_andThen: "costs a m \<Longrightarrow> costs b n \<Longrightarrow> costs (a + b) (andThen m n)"
  unfolding andThen_def by (rule costs_bind)

lemma costs_catch: "costs a m \<Longrightarrow> (\<And>e. costs b (h e)) \<Longrightarrow> costs (a + b) (try_catch m h)"
  unfolding costs_def try_catch_def
proof
  fix w
  assume m: "\<forall>w. hydrations (trace (snd (m w))) \<le> hydrations (trace w) + a"
    and h: "\<And>e. \<forall>w. hydrations (trace (snd (h e w))) \<le> hydrations (trace w) + b"
  obtain r w1 where r: "m w = (r, w1)" by force
  with m have 1: "hydrations (trace w1) \<le> hydrations (trace w) + a" by (metis snd_conv)
  show "hydrations (trace (snd (case m w of (Ret x, s') \<Rightarrow> (Ret x, s') | (Throw e, s') \<Rightarrow> h e s'
          | (Stop k, s') \<Rightarrow> (Stop k, s')))) \<le> hydrations (trace w) + (a + b)"
    using 1 h [rule_format, of _ w1] by (cases r; simp add: r) (metis add.assoc add_le_mono1 order_trans)
qed

lemma costs_hydrateOnce: "costs 1 hydrateOnce"
  unfolding costs_def
  by (simp add: hydrateOnce_def hydrated_def run_simps runtime_defs split: list.split resp.split)

lemma costs_free:
  "costs 0 hydrated" "costs 0 (publishStatus st f)" "costs 0 (scheduleTimer ms)" "costs 0 (ret x)"
  by (simp_all add: costs_def hydrated_def publishStatus_def scheduleTimer_def run_simps runtime_defs
      split: list.split resp.split)

lemma costs_if: "costs n a \<Longrightarrow> costs n b \<Longrightarrow> costs n (if c then a else b)"
  by simp

lemma costs_hydrateLoop: "costs left (hydrateLoop left n)"
proof (induction left arbitrary: n)
  case 0
  then show ?case by (simp add: costs_free)
next
  case (Suc left)
  have retry: "costs left (doing [publishStatus st f, scheduleTimer ms, hydrateLoop left k])" for st f ms k
    using costs_andThen [OF costs_free(2) costs_andThen [OF costs_free(3)
        costs_andThen [OF Suc.IH costs_free(4)]]]
    by simp
  have weak: "costs 0 m \<Longrightarrow> costs left m" for m :: "unit orchp"
    unfolding costs_def by (metis add_0_right le_add1 order_trans)
  have "costs (1 + left) (hydrateLoop (Suc left) n)"
    unfolding hydrateLoop.simps Let_def
    by (intro costs_catch costs_hydrateOnce costs_if; (rule retry | rule weak, rule costs_free))
  then show ?case by simp
qed

text \<open>
  Hydration is bounded: one prompt asks for at most three hydrations, whatever they answer;
  there is no endless retry.
\<close>

theorem hydration_is_bounded:
  "hydrations (trace (snd (hydrateWithRetry w))) \<le> hydrations (trace w) + 3"
  using costs_hydrateLoop [of MAX_RETRIES 0]
  by (simp add: hydrateWithRetry_def costs_def MAX_RETRIES_def)

text \<open>
  A turn whose prompt consists of system guidance only runs on the internal wake-up text as a
  bootstrap turn: the guidance reaches the turn's system prompt and no user text is invented.
\<close>

theorem system_only_turn:
  assumes "extractPromptSystemContext (Some p) = (None, s)"
    and "truthy (mergePrompt (v_pendingSystemPrompt w) s)" and "\<not> v_needsHydration w"
  shows "case prepareTurn p b w of
     (Ret pt, w') \<Rightarrow> pt_prompt pt = INTERNAL_SYSTEM_TURN_PROMPT \<and> pt_bootstrap pt \<and> pt_systemOnly pt \<and>
       c_turnSystemPrompt (v_config w') = mergePrompt (v_pendingSystemPrompt w) s \<and>
       v_pendingSystemPrompt w' = None
   | _ \<Rightarrow> False"
  using assms by (simp add: prepareTurn_def run_simps Let_def)

theorem system_only_turn_witness:
  "case prepareTurn ''[SYSTEM: wake up]'' False (initial_state (blank_input ''s'') Map.empty []) of
     (Ret pt, w') \<Rightarrow> pt_prompt pt = INTERNAL_SYSTEM_TURN_PROMPT \<and> pt_bootstrap pt \<and> pt_systemOnly pt \<and>
       c_turnSystemPrompt (v_config w') = Some ''wake up'' \<and> v_pendingSystemPrompt w' = None
   | _ \<Rightarrow> False"
proof -
  have e: "extractPromptSystemContext (Some ''[SYSTEM: wake up]'') = (None, Some ''wake up'')"
    by code_simp
  show ?thesis
    using system_only_turn [OF e, of "initial_state (blank_input ''s'') Map.empty []" False]
    by (simp split: prod.splits outcome.splits)
qed

end
