(* ===== verification/EventLoop.thy ===== *)
theory EventLoop
  imports PromptTurn
begin

text \<open>
  The flat event loop of \<open>orchestration.ts\<close>: \<open>drain\<close> moves queue messages and timer fires into
  the work buffer, \<open>decide\<close> takes one item of work, and the main loop alternates them until the
  session ends or continues as new. Every loop of the source is bounded, so all are total here:
  50 messages per drain and 10 iterations per execution.
\<close>

definition MAX_DRAIN_PER_TURN :: nat where "MAX_DRAIN_PER_TURN = 50"
definition MAX_ITERATIONS_PER_EXECUTION :: nat where "MAX_ITERATIONS_PER_EXECUTION = 10"
definition MAX_HISTORY_SIZE_BYTES :: int where "MAX_HISTORY_SIZE_BYTES = 800 * 1024"
definition HISTORY_SIZE_CHECK_INTERVAL :: nat where "HISTORY_SIZE_CHECK_INTERVAL = 3"
definition NON_BLOCKING_TIMER_MS :: int where "NON_BLOCKING_TIMER_MS = 10"
definition CHILD_UPDATE_BATCH_MS :: int where "CHILD_UPDATE_BATCH_MS = 30000"

subsection \<open>Timers that interrupt and are interrupted\<close>

definition timer_remaining :: "int \<Rightarrow> active_timer \<Rightarrow> int" where
  "timer_remaining now t = max 0 (tm_deadlineMs t - now)"

definition interrupted_wait_of :: "interrupt_kind \<Rightarrow> int \<Rightarrow> active_timer \<Rightarrow> interrupted_wait" where
  "interrupted_wait_of kind now t =
     \<lparr> iw_remainingSec = round_sec (timer_remaining now t), iw_reason = tm_reason t,
       iw_shouldRehydrate = (tm_shouldRehydrate t = Some True), iw_waitPlan = tm_waitPlan t,
       iw_interruptKind = Some kind \<rparr>"

definition interrupted_cron_of :: "int \<Rightarrow> active_timer \<Rightarrow> interrupted_cron" where
  "interrupted_cron_of now t =
     \<lparr> ic_remainingMs = timer_remaining now t, ic_reason = tm_reason t,
       ic_originalDurationMs = Some (tm_originalDurationMs t),
       ic_shouldRehydrate = (if tm_shouldRehydrate t = Some True then Some True else None) \<rparr>"

definition elapsed_sec :: "int \<Rightarrow> active_timer \<Rightarrow> int" where
  "elapsed_sec now t = round_sec (tm_originalDurationMs t - timer_remaining now t)"

definition total_sec :: "active_timer \<Rightarrow> int" where
  "total_sec t = round_sec (tm_originalDurationMs t)"

definition clear_timer :: "unit orchp" where
  "clear_timer = modify (\<lambda>w. w\<lparr>v_activeTimer := None\<rparr>)"

definition progress_text :: "int \<Rightarrow> active_timer \<Rightarrow> string" where
  "progress_text now t =
     show_int (elapsed_sec now t) @ ''s elapsed, '' @
     show_int (round_sec (timer_remaining now t)) @ ''s remain. ''"

definition processPendingChildDigest :: "unit orchp" where
  "processPendingChildDigest =
     inspect (\<lambda>w. case buildPendingChildDigestSystemPrompt w of
       None \<Rightarrow> clearPendingChildDigest
     | Some digestPrompt \<Rightarrow>
         (case v_activeTimer w of
            Some t \<Rightarrow>
              if tm_type t = TmWait then
                bind utcNow (\<lambda>now. doing [
                  modify (\<lambda>w. w\<lparr>v_interruptedWaitTimer := Some (interrupted_wait_of ByChild now t),
                                v_activeTimer := None\<rparr>),
                  clearPendingChildDigest,
                  processPrompt
                    (''[SYSTEM: Buffered child updates interrupted your '' @ show_int (total_sec t) @
                     ''s timer (reason: '' @ dq @ tm_reason t @ dq @ ''). '' @ progress_text now t @
                     ''Review the updates and continue your task now. The remaining wait will be resumed automatically after this turn completes.'' @
                     [nl, nl] @ digestPrompt @ '']'') True None])
              else if tm_type t = TmCron then
                bind utcNow (\<lambda>now. doing [
                  modify (\<lambda>w. w\<lparr>v_interruptedCronTimer := Some (interrupted_cron_of now t),
                                v_activeTimer := None\<rparr>),
                  clearPendingChildDigest,
                  processPrompt
                    (''[SYSTEM: This is an internal orchestration wake-up caused by child session updates; the user did not send a new message. '' @
                     ''Buffered child updates arrived while your recurring schedule was waiting for the next wake-up'' @
                     (case v_cronSchedule w of None \<Rightarrow> []
                      | Some c \<Rightarrow> '' ('' @ dq @ cs_reason c @ dq @ '')'') @ ''. '' @
                     ''Review the updates and continue your task now. The recurring cron schedule remains active and will be re-armed automatically after this turn completes.'' @
                     [nl, nl] @ digestPrompt @ '']'') True None])
              else doing [
                cond (tm_type t = TmIdle) clear_timer,
                cond (tm_type t = TmAgentPoll)
                  (modify (\<lambda>w. w\<lparr>v_waitingForAgentIds := None, v_activeTimer := None\<rparr>)),
                clearPendingChildDigest,
                processPrompt (system_wrap digestPrompt) True None]
          | None \<Rightarrow> doing [
              clearPendingChildDigest,
              processPrompt (system_wrap digestPrompt) True None]))"

subsection \<open>Fired timers and answers\<close>

definition waitResumePrompt :: "orch \<Rightarrow> active_timer \<Rightarrow> string" where
  "waitResumePrompt w t =
     (let timerPrompt = ''The '' @ show_int (total_sec t) @
            '' second wait is now complete. Continue with your task.'';
          resumeSystem = join '' '' (
            (if tm_reason t = [] then [] else [''Wait reason: '' @ dq @ tm_reason t @ dq @ ''.'']) @
            (if truthy (v_taskContext w)
             then [''Original user request: '' @ dq @ or_str (v_taskContext w) [] @ dq @ ''.''] else []) @
            [''Resume the interrupted task now.'',
             ''Do not treat this as a new unrelated user request.'',
             ''Do not call wait() again for the delay that already finished.''])
      in default_to (appendSystemContext (Some timerPrompt) (Some resumeSystem)) timerPrompt)"

definition pollAgent :: "string \<Rightarrow> unit orchp" where
  "pollAgent targetId =
     inspect (\<lambda>w. case findTrackedAgentByOrchId (v_subAgents w) targetId of
       None \<Rightarrow> ret ()
     | Some a \<Rightarrow>
         if isSubAgentTerminalStatus (sa_status a) then ret ()
         else try_catch
           (bind (sessionStatus (sa_sessionId a)) (\<lambda>c.
              update_agent (by_orch targetId) (\<lambda>a.
                let a1 = a\<lparr>sa_status := observed_status (ct_status c) (sa_status a)\<rparr>
                in if truthy (ct_result c)
                   then a1\<lparr>sa_result := Some (take 2000 (or_str (ct_result c) []))\<rparr> else a1)))
           (\<lambda>e. ret ()))"

definition shutdownTimeoutMessage :: "pending_shutdown \<Rightarrow> string list \<Rightarrow> string" where
  "shutdownTimeoutMessage s nowRunning =
     ''Graceful '' @ mode_name (ps_mode s) @ '' timed out after '' @
     show_int (round_sec SHUTDOWN_TIMEOUT_MS) @ ''s waiting for '' @ show_nat (length nowRunning) @
     '' child session(s): '' @ or_str (Some (join '', '' nowRunning)) ''unknown''"

definition pollShutdown :: "pending_shutdown \<Rightarrow> string list \<Rightarrow> unit orchp" where
  "pollShutdown s waiting =
     bind utcNow (\<lambda>now.
       if ps_deadlineAtMs s \<le> now
       then inspect (\<lambda>w. failPendingShutdown
              (shutdownTimeoutMessage s (getStillRunningAgentIds (v_subAgents w) waiting)))
       else (let remainingMs = max 0 (ps_deadlineAtMs s - now);
                 nextPollMs = min SHUTDOWN_POLL_INTERVAL_MS remainingMs
             in doing [
               set_timer (poll_timer now nextPollMs (buildShutdownWaitReason s) waiting),
               publishStatus Waiting
                 (waiting_extra (ceil_sec remainingMs) (buildShutdownWaitReason s) (ps_startedAtMs s))]))"

definition processAgentPoll :: "unit orchp" where
  "processAgentPoll =
     inspect (\<lambda>w. case v_waitingForAgentIds w of
       None \<Rightarrow> ret ()
     | Some waiting \<Rightarrow> doing [
         for_each (getStillRunningAgentIds (v_subAgents w) waiting) pollAgent,
         bind maybeResolveAgentWaitCompletion (\<lambda>resolved.
           if resolved then ret ()
           else inspect (\<lambda>w. case v_pendingShutdown w of
             Some s \<Rightarrow> pollShutdown s waiting
           | None \<Rightarrow> bind utcNow (\<lambda>now. set_timer (poll_timer now AGENT_POLL_MS
               (waiting_reason (getStillRunningAgentIds (v_subAgents w) waiting)) waiting))))])"

definition processCron :: "active_timer \<Rightarrow> unit orchp" where
  "processCron t =
     andThen (recordSessionEvent ''session.cron_fired'' [])
       (inspect (\<lambda>w. case v_cronSchedule w of
          None \<Rightarrow> throw ''Cannot read properties of undefined (reading 'reason')''
        | Some c \<Rightarrow>
            (let wake = ''Scheduled cron wake-up for: '' @ dq @ cs_reason c @ dq @ ''.'' in
             if tm_shouldRehydrate t = Some True
             then bind (wrapWithResumeContext ''Resume your recurring task.'' (Some wake))
                    (\<lambda>p. processPrompt p True None)
             else processPrompt (''[SYSTEM: '' @ wake @ '' Resume your recurring task.]'') True None)))"

definition processTimer :: "active_timer \<Rightarrow> unit orchp" where
  "processTimer t =
     (case tm_type t of
        TmWait \<Rightarrow> andThen
          (recordSessionEvent ''session.wait_completed'' [(''seconds'', JNum (total_sec t))])
          (inspect (\<lambda>w. processPrompt (waitResumePrompt w t) False None))
      | TmCron \<Rightarrow> processCron t
      | TmIdle \<Rightarrow> dehydrateForNextTurn ''idle'' True []
      | TmAgentPoll \<Rightarrow> processAgentPoll
      | TmInputGrace \<Rightarrow> dehydrateForNextTurn ''input_required'' True [])"

definition processAnswer :: "string \<Rightarrow> unit orchp" where
  "processAnswer answer =
     inspect (\<lambda>w.
       let question = (case v_pendingInputQuestion w of None \<Rightarrow> ''a question'' | Some q \<Rightarrow> iq_question q)
       in andThen (modify (\<lambda>w. w\<lparr>v_pendingInputQuestion := None\<rparr>))
            (processPrompt (''The user was asked: '' @ dq @ question @ dq @ [nl] @
               ''The user responded: '' @ dq @ answer @ dq) False None))"

subsection \<open>Draining the queue\<close>

datatype timer_candidate = CandActive int active_timer | CandDigest int

definition nextTimerCandidate :: "orch \<Rightarrow> int \<Rightarrow> timer_candidate option" where
  "nextTimerCandidate w now =
     (let active = map_option (\<lambda>t. (timer_remaining now t, t)) (v_activeTimer w);
          digest = (case v_pendingChildDigest w of
             None \<Rightarrow> None
           | Some d \<Rightarrow>
               if \<not> cd_ready d \<and> cd_updates d \<noteq> []
               then Some (max 0 (cd_startedAtMs d + CHILD_UPDATE_BATCH_MS - now)) else None)
      in case (active, digest) of
           (None, None) \<Rightarrow> None
         | (Some (r, t), None) \<Rightarrow> Some (CandActive r t)
         | (None, Some r) \<Rightarrow> Some (CandDigest r)
         | (Some (ra, t), Some rd) \<Rightarrow>
             if rd < ra then Some (CandDigest rd) else Some (CandActive ra t))"

definition needsBlockingDequeue :: "orch \<Rightarrow> bool" where
  "needsBlockingDequeue w =
     (v_legacyPendingMessage w = None \<and> v_activeTimer w = None \<and> v_pendingToolActions w = [] \<and>
      \<not> truthy (v_pendingPrompt w) \<and> \<not> hasFifoItems (kv w))"

definition flushStash :: "fifo_item list \<Rightarrow> unit orchp" where
  "flushStash stash =
     (if stash = [] then ret () else modify (\<lambda>w. w\<lparr>kv := appendToFifo (kv w) stash\<rparr>))"

text \<open>A user prompt interrupts the active timer; the prompt is told what it interrupted.\<close>

definition interruptWait :: "active_timer \<Rightarrow> string \<Rightarrow> string orchp" where
  "interruptWait t userPrompt =
     bind utcNow (\<lambda>now. andThen
       (modify (\<lambda>w. w\<lparr>v_interruptedWaitTimer := Some (interrupted_wait_of ByUser now t)\<rparr>))
       (let note = show_int (total_sec t) @ ''s timer (reason: '' @ dq @ tm_reason t @ dq @ '')'' in
        bind (if tm_shouldRehydrate t = Some True
              then wrapWithResumeContext userPrompt
                (Some (''Your '' @ note @ '' was interrupted by the above message. '' @ progress_text now t @
                  ''Reply to the message. The timer will be automatically resumed after your reply.''))
              else ret (userPrompt @ [nl, nl] @
                ''[SYSTEM: The above is a message that interrupted your '' @ note @ ''. '' @ progress_text now t @
                ''Reply to the message. The timer will be automatically resumed after your reply.]''))
          (\<lambda>p. andThen clear_timer (ret p))))"

definition cronResumeNote :: "cron_schedule option \<Rightarrow> active_timer \<Rightarrow> int \<Rightarrow> string" where
  "cronResumeNote c t remainingMs =
     ''This is an internal recurring schedule, not a new user prompt. '' @
     ''There is an active recurring schedule every '' @
     (case c of None \<Rightarrow> ''?'' | Some s \<Rightarrow> show_int (cs_intervalSeconds s)) @ '' seconds for '' @ dq @
     (case c of None \<Rightarrow> tm_reason t | Some s \<Rightarrow> cs_reason s) @ dq @ ''. '' @
     ''The next cron wake-up will keep the original schedule and resume after the remaining '' @
     show_int (round_sec remainingMs) @ '' seconds unless you explicitly reset cron. '' @
     ''Do NOT call wait() just to keep the recurring loop alive. '' @
     ''Call cron(action='' @ dq @ ''cancel'' @ dq @ '') only if you need to stop it.''"

definition interruptCron :: "active_timer \<Rightarrow> string \<Rightarrow> string orchp" where
  "interruptCron t userPrompt =
     bind utcNow (\<lambda>now. inspect (\<lambda>w. andThen
       (modify (\<lambda>w. w\<lparr>v_interruptedCronTimer := Some (interrupted_cron_of now t)\<rparr>))
       (let note = cronResumeNote (v_cronSchedule w) t (timer_remaining now t) in
        bind (if tm_shouldRehydrate t = Some True
              then wrapWithResumeContext userPrompt (Some note)
              else ret (userPrompt @ [nl, nl] @ system_wrap note))
          (\<lambda>p. andThen clear_timer (ret p)))))"

definition interruptForPrompt :: "string \<Rightarrow> string orchp" where
  "interruptForPrompt userPrompt =
     inspect (\<lambda>w. case v_activeTimer w of
       None \<Rightarrow> ret userPrompt
     | Some t \<Rightarrow>
         (case tm_type t of
            TmWait \<Rightarrow> interruptWait t userPrompt
          | TmCron \<Rightarrow> interruptCron t userPrompt
          | TmIdle \<Rightarrow> andThen clear_timer (ret userPrompt)
          | TmAgentPoll \<Rightarrow> andThen
              (modify (\<lambda>w. w\<lparr>v_waitingForAgentIds := None, v_activeTimer := None\<rparr>)) (ret userPrompt)
          | TmInputGrace \<Rightarrow> ret userPrompt))"

definition takeUserPrompt :: "message \<Rightarrow> string \<Rightarrow> fifo_item orchp" where
  "takeUserPrompt msg prompt =
     bind (interruptForPrompt prompt) (\<lambda>userPrompt.
     bind (flushPendingChildDigestIntoPrompt (Some userPrompt)) (\<lambda>p.
       ret (FPrompt (or_str p []) (m_bootstrap msg = Some True) (keep_truthy (m_requiredTool msg)))))"

datatype drain_next = DGo "fifo_item list" "string list" | DReturn

definition child_key :: "child_update \<Rightarrow> string" where
  "child_key u = up_sessionId u @ ''|'' @ up_updateType u @ ''|'' @ up_content u"

definition handleChildUpdate :: "child_update \<Rightarrow> unit orchp" where
  "handleChildUpdate u =
     doing [
       applyChildUpdate u,
       inspect (\<lambda>w. cond (v_pendingShutdown w = None) (bind utcNow (bufferChildUpdate u))),
       inspect (\<lambda>w. cond (v_waitingForAgentIds w \<noteq> None)
         (bind maybeResolveAgentWaitCompletion (\<lambda>b. ret ())))]"

definition command_of :: "message \<Rightarrow> command_message" where
  "command_of m = \<lparr> cm_cmd = m_cmd m, cm_id = m_id m, cm_args = m_args m \<rparr>"

definition routeMessage :: "message \<Rightarrow> fifo_item list \<Rightarrow> string list \<Rightarrow> drain_next orchp" where
  "routeMessage msg stash seen =
     (if m_type msg = Some ''cmd''
      then andThen (doing [flushStash stash, handleCommand (command_of msg)])
             (inspect (\<lambda>w. ret (if v_orchestrationResult w \<noteq> None then DReturn else DGo [] seen)))
      else
        (case parseChildUpdate (m_prompt msg) of
           Some u \<Rightarrow>
             if child_key u \<in> set seen then ret (DGo stash seen)
             else andThen (handleChildUpdate u) (ret (DGo stash (child_key u # seen)))
         | None \<Rightarrow>
             (case m_answer msg of
                Some a \<Rightarrow> ret (DGo (stash @ [FAnswer a (m_wasFreeform msg)]) seen)
              | None \<Rightarrow>
                  if truthy (m_prompt msg)
                  then bind (takeUserPrompt msg (or_str (m_prompt msg) []))
                         (\<lambda>item. ret (DGo (stash @ [item]) seen))
                  else ret (DGo stash seen))))"

text \<open>What one turn of the drain loop fetches: a message, a fired timer, nothing, or the end.\<close>

datatype fetched = FetchMessage message | FetchTimer active_timer int | FetchNothing | FetchEnd

definition fireCandidate :: "timer_candidate \<Rightarrow> int \<Rightarrow> fetched orchp" where
  "fireCandidate cand firedAt =
     (case cand of
        CandActive r t \<Rightarrow> andThen clear_timer (ret (FetchTimer t firedAt))
      | CandDigest r \<Rightarrow>
          inspect (\<lambda>w. case v_pendingChildDigest w of
            None \<Rightarrow> ret FetchNothing
          | Some d \<Rightarrow>
              if cd_updates d = [] then ret FetchNothing
              else andThen (modify (\<lambda>w. w\<lparr>v_pendingChildDigest := Some (d\<lparr>cd_ready := True\<rparr>)\<rparr>))
                     (ret FetchEnd)))"

definition cand_remaining :: "timer_candidate \<Rightarrow> int" where
  "cand_remaining cand = (case cand of CandActive r t \<Rightarrow> r | CandDigest r \<Rightarrow> r)"

definition raceTimer :: "fetched orchp" where
  "raceTimer =
     bind utcNow (\<lambda>now. inspect (\<lambda>w. case nextTimerCandidate w now of
       None \<Rightarrow> ret FetchNothing
     | Some cand \<Rightarrow>
         if cand_remaining cand = 0 then fireCandidate cand now
         else bind (raceDequeue (cand_remaining cand)) (\<lambda>r. case r of
             Some m \<Rightarrow> ret (FetchMessage m)
           | None \<Rightarrow>
               (case cand of
                  CandActive _ _ \<Rightarrow> bind utcNow (fireCandidate cand)
                | CandDigest _ \<Rightarrow> fireCandidate cand now))))"

definition fetchNext :: "nat \<Rightarrow> fetched orchp" where
  "fetchNext i =
     inspect (\<lambda>w. case v_legacyPendingMessage w of
       Some m \<Rightarrow> andThen (modify (\<lambda>w. w\<lparr>v_legacyPendingMessage := None\<rparr>)) (ret (FetchMessage m))
     | None \<Rightarrow>
         if v_activeTimer w \<noteq> None \<or>
            (case v_pendingChildDigest w of None \<Rightarrow> False | Some d \<Rightarrow> \<not> cd_ready d)
         then raceTimer
         else if needsBlockingDequeue w
         then (if 0 < i then ret FetchEnd
               else andThen
                 (publishStatus (if v_pendingInputQuestion w \<noteq> None then InputRequired else Idle) id)
                 (bind dequeueMessage (\<lambda>m. ret (FetchMessage m))))
         else bind (raceDequeue NON_BLOCKING_TIMER_MS) (\<lambda>r. case r of
                None \<Rightarrow> ret FetchEnd | Some m \<Rightarrow> ret (FetchMessage m)))"

fun drainLoop :: "nat \<Rightarrow> nat \<Rightarrow> fifo_item list \<Rightarrow> string list \<Rightarrow> unit orchp" where
  "drainLoop 0 i stash seen = flushStash stash"
| "drainLoop (Suc left) i stash seen =
     bind (fetchNext i) (\<lambda>f. case f of
       FetchEnd \<Rightarrow> flushStash stash
     | FetchNothing \<Rightarrow> drainLoop left (Suc i) stash seen
     | FetchTimer t firedAt \<Rightarrow> drainLoop left (Suc i) (stash @ [FTimer t firedAt]) seen
     | FetchMessage m \<Rightarrow>
         bind (routeMessage m stash seen) (\<lambda>n. case n of
           DReturn \<Rightarrow> ret ()
         | DGo stash' seen' \<Rightarrow> drainLoop left (Suc i) stash' seen'))"

definition drain :: "unit orchp" where
  "drain = drainLoop MAX_DRAIN_PER_TURN 0 [] []"

subsection \<open>Deciding\<close>

definition popItem :: "fifo_item option orchp" where
  "popItem = inspect (\<lambda>w. case popFifoItem (kv w) of
     (x, m) \<Rightarrow> andThen (modify (\<lambda>w. w\<lparr>kv := m\<rparr>)) (ret x))"

definition processItem :: "fifo_item \<Rightarrow> unit orchp" where
  "processItem item =
     (case item of
        FPrompt p b tool \<Rightarrow> processPrompt p b tool
      | FAnswer a f \<Rightarrow> processAnswer a
      | FTimer t firedAt \<Rightarrow> processTimer t
      | FAgentsDone s \<Rightarrow> queueFollowup s
      | FUnknown k \<Rightarrow> ret ())"

definition decideFromBuffer :: "bool orchp" where
  "decideFromBuffer =
     bind popItem (\<lambda>x. case x of
       Some item \<Rightarrow> andThen (processItem item) (ret True)
     | None \<Rightarrow> inspect (\<lambda>w.
         case v_pendingChildDigest w of
           None \<Rightarrow> ret False
         | Some d \<Rightarrow>
             if cd_ready d \<and> cd_updates d \<noteq> [] \<and> v_waitingForAgentIds w = None
             then andThen processPendingChildDigest (ret True) else ret False))"

definition decide :: "bool orchp" where
  "decide =
     andThen (drainLeadingQueuedCronActions None)
       (inspect (\<lambda>w. case v_pendingToolActions w of
          a # rest \<Rightarrow> andThen (doing [
              modify (\<lambda>w. w\<lparr>v_pendingToolActions := rest\<rparr>),
              handleTurnResult a None []]) (ret True)
        | [] \<Rightarrow>
            if truthy (v_pendingPrompt w) \<and> v_waitingForAgentIds w = None
            then andThen (doing [
                modify (\<lambda>w. w\<lparr>v_pendingPrompt := None, v_bootstrapPrompt := False,
                              v_pendingRequiredTool := None\<rparr>),
                processPrompt (or_str (v_pendingPrompt w) []) (v_bootstrapPrompt w)
                  (v_pendingRequiredTool w)]) (ret True)
            else decideFromBuffer))"

lemma drainLoop_numeral: "drainLoop (numeral k) i stash seen =
     bind (fetchNext i) (\<lambda>f. case f of
       FetchEnd \<Rightarrow> flushStash stash
     | FetchNothing \<Rightarrow> drainLoop (pred_numeral k) (Suc i) stash seen
     | FetchTimer t firedAt \<Rightarrow> drainLoop (pred_numeral k) (Suc i) (stash @ [FTimer t firedAt]) seen
     | FetchMessage m \<Rightarrow>
         bind (routeMessage m stash seen) (\<lambda>n. case n of
           DReturn \<Rightarrow> ret ()
         | DGo stash' seen' \<Rightarrow> drainLoop (pred_numeral k) (Suc i) stash' seen'))"
  unfolding numeral_eq_Suc by simp

subsection \<open>Properties\<close>

text \<open>
  The drain loop waits for the earliest of its timers: the candidate is due no later than the
  active timer and no later than the batch of child updates, and there is a candidate whenever
  one of the two is armed.
\<close>

theorem earliest_timer_is_chosen:
  "case nextTimerCandidate w now of
     None \<Rightarrow> v_activeTimer w = None
   | Some c \<Rightarrow> 0 \<le> cand_remaining c \<and>
       (case v_activeTimer w of None \<Rightarrow> True | Some t \<Rightarrow> cand_remaining c \<le> max 0 (tm_deadlineMs t - now)) \<and>
       (case v_pendingChildDigest w of
          None \<Rightarrow> True
        | Some d \<Rightarrow> cd_ready d \<or> cd_updates d = [] \<or>
            cand_remaining c \<le> max 0 (cd_startedAtMs d + 30000 - now))"
  by (auto simp: nextTimerCandidate_def timer_remaining_def cand_remaining_def CHILD_UPDATE_BATCH_MS_def
      Let_def split: option.splits if_splits)

lemma round_sec_bounds: "0 \<le> ms \<Longrightarrow> \<bar>round_sec ms * 1000 - ms\<bar> \<le> 500"
  using mult_div_mod_eq [of 1000 "ms + 500"] pos_mod_bound [of 1000 "ms + 500"]
    pos_mod_sign [of 1000 "ms + 500"]
  unfolding round_sec_def by linarith

text \<open>
  An interrupted wait is resumed for the time that was left: after the interruption at \<open>now\<close>
  and the turn that answered it, the wait re-armed at \<open>later\<close> ends as far after \<open>later\<close> as the
  old deadline lay after \<open>now\<close>, up to half a second of rounding, with the same reason and plan.
\<close>

theorem interrupted_wait_is_resumed:
  assumes "tm_shouldRehydrate t \<noteq> Some True" and "now \<le> tm_deadlineMs t" and "checkpointInterval (inp w) < 0"
  shows "case resumeInterruptedWait (interrupted_wait_of kind now t) (w\<lparr>history := RInt later # rs\<rparr>) of
     (Ret u, w') \<Rightarrow>
       (\<exists>t'. v_activeTimer w' = Some t' \<and> tm_type t' = TmWait \<and> tm_reason t' = tm_reason t \<and>
          tm_waitPlan t' = tm_waitPlan t \<and>
          \<bar>(tm_deadlineMs t' - later) - (tm_deadlineMs t - now)\<bar> \<le> 500) \<and>
       v_interruptedWaitTimer w' = None \<and> history w' = rs
   | _ \<Rightarrow> False"
  using assms round_sec_bounds [of "tm_deadlineMs t - now"]
  by (simp add: resumeInterruptedWait_def interrupted_wait_of_def timer_remaining_def run_simps
      runtime_defs publishStatus_def maybeCheckpoint_def set_timer_def plain_timer_def max_def)

theorem interrupted_wait_is_resumed_witness:
  "case resumeInterruptedWait (interrupted_wait_of ByUser 1000 (plain_timer TmWait 0 60000 ''build''))
          (initial_state (blank_input ''s'') Map.empty [RInt 5000]) of
     (Ret u, w') \<Rightarrow> v_interruptedWaitTimer w' = None \<and>
       (\<exists>t'. v_activeTimer w' = Some t' \<and> \<bar>(tm_deadlineMs t' - 5000) - 59000\<bar> \<le> 500)
   | _ \<Rightarrow> False"
proof -
  let ?w = "initial_state (blank_input ''s'') Map.empty []"
  have w: "?w\<lparr>history := h\<rparr> = initial_state (blank_input ''s'') Map.empty h" for h
    by (simp add: initial_state_def)
  show ?thesis
    using interrupted_wait_is_resumed [where w = ?w and kind = ByUser and now = 1000 and later = 5000
      and t = "plain_timer TmWait 0 60000 ''build''" and rs = "[]"] unfolding w
    by (auto simp: plain_timer_def checkpointInterval_def split: prod.splits outcome.splits)
qed

definition no_block :: "orch \<Rightarrow> orch \<Rightarrow> bool" where
  "no_block w w' \<longleftrightarrow> (\<exists>new. trace w' = trace w @ new \<and> EDequeue \<notin> set new)"

interpretation noBlock: step_contract no_block "\<lambda>h w. True"
proof
  show "no_block s s" for s :: orch unfolding no_block_def by (rule exI [of _ "[]"]) simp
  show "no_block s t \<Longrightarrow> no_block t u \<Longrightarrow> no_block s u" for s t u :: orch
    unfolding no_block_def by (elim exE conjE, rule_tac x = "new @ newa" in exI) simp
qed

lemma no_block_perform: "e \<noteq> EDequeue \<Longrightarrow> keeps no_block (\<lambda>h w. True) (perform e)"
  unfolding keeps_def steps_def perform_def no_block_def
  by (auto split: list.splits)

lemma no_block_modify: "(\<And>w. trace (f w) = trace w) \<Longrightarrow> keeps no_block (\<lambda>h w. True) (modify f)"
  by (intro noBlock.keeps_modify) (simp add: no_block_def)

lemma no_block_stop: "keeps no_block (\<lambda>h w. True) (stop k)"
  by (intro noBlock.keeps_stop TrueI)

lemma no_block_utcNow: "keeps no_block (\<lambda>h w. True) utcNow"
  unfolding utcNow_def
  by (intro noBlock.keeps_bind no_block_perform)
    (auto intro: noBlock.keeps_ret no_block_stop split: resp.split)

lemma no_block_race: "keeps no_block (\<lambda>h w. True) (raceDequeue ms)"
  unfolding raceDequeue_def
  by (intro noBlock.keeps_bind no_block_perform)
    (auto intro: noBlock.keeps_ret no_block_stop split: resp.split)

lemma no_block_fire: "keeps no_block (\<lambda>h w. True) (fireCandidate c t)"
  unfolding fireCandidate_def clear_timer_def
  by (cases c; simp; intro noBlock.keeps_intros no_block_modify) simp_all

lemma no_block_raceTimer: "keeps no_block (\<lambda>h w. True) raceTimer"
  unfolding raceTimer_def
  by (intro noBlock.keeps_intros no_block_utcNow no_block_race no_block_fire)
    (auto intro: noBlock.keeps_intros no_block_utcNow no_block_fire split: timer_candidate.split)

lemma no_block_poll: "keeps no_block (\<lambda>h w. True) (bind (raceDequeue NON_BLOCKING_TIMER_MS)
    (\<lambda>r. case r of None \<Rightarrow> ret FetchEnd | Some m \<Rightarrow> ret (FetchMessage m)))"
  by (intro noBlock.keeps_intros no_block_race)

text \<open>
  The loop blocks on the queue only when there is nothing else to do: no timer, no batch of
  updates being collected, no queued action, prompt or buffered item, and only before the first
  message of a drain.
\<close>

theorem blocks_only_when_idle:
  assumes "trace (snd (fetchNext i w)) = trace w @ new" and "EDequeue \<in> set new"
  shows "i = 0 \<and> needsBlockingDequeue w \<and> v_activeTimer w = None \<and>
         v_pendingToolActions w = [] \<and> \<not> truthy (v_pendingPrompt w) \<and> fifo_items (kv w) = []"
proof (rule ccontr)
  assume n: "\<not> ?thesis"
  have "no_block w (snd (fetchNext i w))"
    if "\<not> (i = 0 \<and> needsBlockingDequeue w)"
    using that keepsD [OF no_block_raceTimer, of w]
      keepsD [OF no_block_poll, of w] noBlock.contract_refl [of w]
    by (auto simp: fetchNext_def inspect_def andThen_def bind_def modify_def ret_def no_block_def
        split: option.splits)
  then show False using n assms
    by (auto simp: no_block_def needsBlockingDequeue_def hasFifoItems_iff)
qed

theorem blocks_only_when_idle_witness:
  "needsBlockingDequeue (initial_state (blank_input ''s'') Map.empty []) \<and>
   fifo_items Map.empty = []"
proof -
  let ?w = "initial_state (blank_input ''s'') Map.empty []"
  have "\<exists>g. trace (snd (fetchNext 0 ?w)) = trace ?w @ [EStatus g, EDequeue]"
    by (simp add: fetchNext_def needsBlockingDequeue_def hasFifoItems_empty readFifoBucket_def
        run_simps runtime_defs publishStatus_def)
  then obtain g where "trace (snd (fetchNext 0 ?w)) = trace ?w @ [EStatus g, EDequeue]" ..
  from blocks_only_when_idle [OF this] show ?thesis by simp
qed

text \<open>
  A user prompt during a pending shutdown disables it: the prompt clears the poll timer and
  the awaited children but not the shutdown, after which polling does nothing and a further
  shutdown command only reports that one is in progress. The session stays open until the model
  itself happens to wait for agents again.
\<close>

theorem prompt_disables_shutdown:
  "case interruptForPrompt p (w\<lparr>v_pendingShutdown := Some s, v_waitingForAgentIds := Some ids,
          v_activeTimer := Some (poll_timer now ms reason ids)\<rparr>) of
     (Ret q, w') \<Rightarrow>
       v_pendingShutdown w' = Some s \<and> v_activeTimer w' = None \<and> v_waitingForAgentIds w' = None \<and>
       processAgentPoll w' = (Ret (), w') \<and> maybeResolveAgentWaitCompletion w' = (Ret False, w') \<and>
       beginGracefulShutdown mode c w' = reportShutdownInProgress s c w'
   | _ \<Rightarrow> False"
  by (simp add: interruptForPrompt_def run_simps poll_timer_def processAgentPoll_def
      maybeResolveAgentWaitCompletion_def beginGracefulShutdown_def)

text \<open>
  How a shutdown times out when nothing else fails: a poll at or after the deadline fails the session,
  answers the command with the timeout, and ends the orchestration.
\<close>

theorem shutdown_times_out:
  assumes "ps_deadlineAtMs s \<le> now" and "ps_commandId s = Some c" and "c \<noteq> []"
  shows "case pollShutdown s ids (w\<lparr>v_pendingShutdown := Some s,
            history := RInt now # RUnit # RInt t # RUnit # RUnit # rs\<rparr>) of
     (Ret u, w') \<Rightarrow>
       v_orchestrationResult w' = Some ''failed'' \<and> v_pendingShutdown w' = None \<and>
       v_activeTimer w' = None \<and> v_waitingForAgentIds w' = None \<and> history w' = rs \<and>
       (\<exists>v. kv w' (commandResponseKey c) = Some (KvCommand v) \<and> cr_error (scr_response v) \<noteq> None)
   | _ \<Rightarrow> False"
  using assms
  by (auto simp: pollShutdown_def failPendingShutdown_def clear_shutdown_state_def destroySession_def
      respond_command_def keep_truthy_def updateCmsState_def set_result_def publishing_defs
      run_simps runtime_defs)

theorem shutdown_times_out_witness:
  "case pollShutdown (new_shutdown ModeDone ''bye'' 1000 [] ''cmd-1'') [''session-a'']
      ((initial_state (blank_input ''s'') Map.empty [RInt 61000, RUnit, RInt 61001, RUnit, RUnit])
        \<lparr>v_pendingShutdown := Some (new_shutdown ModeDone ''bye'' 1000 [] ''cmd-1'')\<rparr>) of
     (Ret u, w') \<Rightarrow> v_orchestrationResult w' = Some ''failed'' | _ \<Rightarrow> False"
proof -
  let ?s = "new_shutdown ModeDone ''bye'' 1000 [] ''cmd-1''"
  let ?w = "initial_state (blank_input ''s'') Map.empty []"
  have w: "?w\<lparr>v_pendingShutdown := Some ?s, history := h\<rparr> =
      (initial_state (blank_input ''s'') Map.empty h)\<lparr>v_pendingShutdown := Some ?s\<rparr>" for h
    by (simp add: initial_state_def)
  show ?thesis
    using shutdown_times_out [where s = ?s and now = 61000 and c = "''cmd-1''" and w = ?w
      and ids = "[''session-a'']" and t = 61001 and rs = "[]"]
    unfolding w by (auto simp: new_shutdown_def SHUTDOWN_TIMEOUT_MS_def split: prod.splits outcome.splits)
qed

text \<open>
  The steps of a shutdown other than the clearing of its variables: they leave the shutdown, the agents
  waited for and the timer alone and only use up responses.
\<close>

definition same_wait :: "orch \<Rightarrow> orch \<Rightarrow> bool" where
  "same_wait w w' \<longleftrightarrow> v_pendingShutdown w' = v_pendingShutdown w \<and>
     v_waitingForAgentIds w' = v_waitingForAgentIds w \<and> v_activeTimer w' = v_activeTimer w \<and>
     (\<exists>used. history w = used @ history w')"

interpretation sameWait: step_contract same_wait "\<lambda>h w. True"
proof
  show "same_wait s s" for s by (simp add: same_wait_def)
  show "same_wait s t \<Longrightarrow> same_wait t u \<Longrightarrow> same_wait s u" for s t u
    by (auto simp: same_wait_def)
qed

abbreviation waits :: "'a orchp \<Rightarrow> bool" where
  "waits m \<equiv> keeps same_wait (\<lambda>h w. True) m"

lemma waits_perform: "waits (perform e)"
  by (auto simp: keeps_def steps_def perform_def same_wait_def split: list.splits)

lemma waits_modify: "(\<And>w. same_wait w (f w)) \<Longrightarrow> waits (modify f)"
  by (rule sameWait.keeps_modify)

lemma waits_stop: "waits (stop h)"
  by (rule sameWait.keeps_stop) simp

lemmas waits_rules = sameWait.keeps_intros waits_perform waits_stop

lemma waits_utcNow: "waits utcNow"
  unfolding utcNow_def by (intro waits_rules; auto intro: waits_rules split: resp.split)

lemma waits_await:
  "waits (manager mop)" "waits (session sop)" "waits m \<Longrightarrow> waits (await_unit m)"
  unfolding manager_def session_def activity_def await_unit_def
  by (intro waits_rules; auto intro: waits_rules split: resp.split)+

lemma waits_publish:
  "waits (publishStatus st f)" "waits (writeCommandResponse r)" "waits (setValue k x)"
  unfolding publishStatus_def emit_def writeCommandResponse_def bumpCounter_def readCounter_def setValue_def
    recordSessionEvent_def
  by (intro waits_rules waits_modify waits_utcNow waits_await; simp add: same_wait_def)+

lemma waits_steps:
  "waits destroySession" "waits (updateCmsState st err)" "waits (notifyParentOfTerminalState t b)"
  "waits (respond_command c cmd r err)" "waits (deleteTree reason)" "waits (set_result res)" "waits (pollAgent a)"
  unfolding destroySession_def updateCmsState_def notifyParentOfTerminalState_def notifyParent_def
    respond_command_def deleteTree_def set_result_def pollAgent_def sessionStatus_def update_agent_def
  by (intro waits_rules waits_modify waits_publish waits_await;
      auto intro!: waits_rules waits_modify waits_await simp: same_wait_def split: resp.split)+

text \<open>An ended shutdown: nothing of it is left and the orchestration has a result.\<close>

definition shutdown_over :: "orch \<Rightarrow> bool" where
  "shutdown_over w \<longleftrightarrow> v_pendingShutdown w = None \<and> v_waitingForAgentIds w = None \<and>
     v_activeTimer w = None \<and> v_orchestrationResult w \<noteq> None"

lemma bind_RetE:
  assumes "bind m f w = (Ret x, w')"
  obtains y v where "m w = (Ret y, v)" "f y v = (Ret x, w')"
  using assms by (auto simp: bind_def split: prod.splits outcome.splits)

lemma andThen_RetE:
  assumes "andThen m n w = (Ret x, w')"
  obtains y v where "m w = (Ret y, v)" "n v = (Ret x, w')"
  using assms unfolding andThen_def by (rule bind_RetE)

text \<open>Programs that leave a result behind when they return.\<close>

definition gives_result :: "unit orchp \<Rightarrow> bool" where
  "gives_result m \<longleftrightarrow> (\<forall>w w'. m w = (Ret (), w') \<longrightarrow> v_orchestrationResult w' \<noteq> None)"

lemma gives_set [intro!]: "gives_result (set_result r)"
  by (simp add: gives_result_def set_result_def run_simps)

lemma gives_doing [intro!]: "gives_result m \<Longrightarrow> gives_result (doing [m])"
  unfolding gives_result_def doing.simps by (auto simp: ret_def elim!: andThen_RetE)

lemma gives_Cons: "gives_result (doing (m' # ms)) \<Longrightarrow> gives_result (doing (m # m' # ms))"
  unfolding gives_result_def doing.simps(2) [of m "m' # ms"] by (blast elim: andThen_RetE)

lemma cleared:
  assumes "waits (doing ms)" "gives_result (doing ms)" "doing (clear_shutdown_state # ms) w = (Ret (), w')"
  shows "shutdown_over w'"
proof -
  obtain v where v: "clear_shutdown_state w = (Ret (), v)" "doing ms v = (Ret (), w')"
    using assms(3) by (auto elim!: andThen_RetE)
  then have "v_pendingShutdown v = None \<and> v_waitingForAgentIds v = None \<and> v_activeTimer v = None"
    by (auto simp: clear_shutdown_state_def modify_def)
  with keeps_result [OF assms(1) v(2)] assms(2) v(2) show ?thesis
    by (auto simp: shutdown_over_def same_wait_def gives_result_def)
qed

lemma finalized:
  assumes "v_pendingShutdown w \<noteq> None" "finalizePendingShutdown w = (Ret (), w')"
  shows "shutdown_over w'"
  using assms
  by (auto simp: finalizePendingShutdown_def inspect_def completeShutdownSession_def cancelShutdownSession_def
      split: if_splits simp del: doing.simps elim!: cleared [rotated 2]
      intro!: gives_Cons waits_rules waits_steps waits_publish)

lemma failed_shutdown:
  assumes "failPendingShutdown msg w = (Ret (), w')"
  shows "shutdown_over w'"
  using assms
  by (auto simp: failPendingShutdown_def bind_def read_state_def simp del: doing.simps split: option.splits
      elim!: cleared [rotated 2] intro!: gives_Cons waits_rules waits_steps waits_publish)

text \<open>
  The polls that can still follow one at \<open>now\<close>: they come at least five seconds apart, or at the
  deadline.
\<close>

definition polls_left :: "pending_shutdown \<Rightarrow> int \<Rightarrow> nat" where
  "polls_left s now = nat ((ps_deadlineAtMs s - now + SHUTDOWN_POLL_INTERVAL_MS - 1) div SHUTDOWN_POLL_INTERVAL_MS)"

definition rearmed :: "pending_shutdown \<Rightarrow> string list \<Rightarrow> int \<Rightarrow> orch \<Rightarrow> bool" where
  "rearmed s ids now w \<longleftrightarrow>
     now < ps_deadlineAtMs s \<and> v_pendingShutdown w = Some s \<and> v_waitingForAgentIds w = Some ids \<and>
     (case v_activeTimer w of None \<Rightarrow> False
      | Some t \<Rightarrow> tm_type t = TmAgentPoll \<and>
          tm_deadlineMs t = min (now + SHUTDOWN_POLL_INTERVAL_MS) (ps_deadlineAtMs s) \<and>
          (\<forall>later. tm_deadlineMs t \<le> later \<longrightarrow> polls_left s later < polls_left s now))"

lemma polls_left_less:
  assumes "now < ps_deadlineAtMs s" "min (now + SHUTDOWN_POLL_INTERVAL_MS) (ps_deadlineAtMs s) \<le> later"
  shows "polls_left s later < polls_left s now"
proof -
  let ?r = "ps_deadlineAtMs s - now" and ?x = "ps_deadlineAtMs s - later"
  have r: "0 < ?r" "?x \<le> max 0 (?r - 5000)" using assms by (auto simp: SHUTDOWN_POLL_INTERVAL_MS_def)
  have x: "(?x + 4999) div 5000 \<le> (max 0 (?r - 5000) + 4999) div 5000" using r(2) by (intro zdiv_mono1) auto
  have pos: "1 \<le> (?r + 4999) div 5000" using zdiv_mono1 [of 5000 "?r + 4999" 5000] r(1) by simp
  have "(max 0 (?r - 5000) + 4999) div 5000 < (?r + 4999) div 5000"
  proof (cases "5000 \<le> ?r")
    case True
    have "(?r - 5000 + 4999 + 5000) div 5000 = (?r - 5000 + 4999) div 5000 + 1" by (rule div_add_self2) simp
    then show ?thesis using True by (simp add: max_def algebra_simps)
  qed (use pos in \<open>simp add: max_def\<close>)
  with x pos show ?thesis unfolding polls_left_def SHUTDOWN_POLL_INTERVAL_MS_def
    by (simp add: add.commute [of 4999])
qed

lemma utcNow_Ret: "utcNow w = (Ret t, v) \<Longrightarrow> history w = RInt t # history v \<and> same_wait w v"
  by (cases "history w") (auto simp: utcNow_def perform_def orch_defs same_wait_def split: resp.splits)

lemma pollShutdown_Ret:
  assumes "pollShutdown s ids w = (Ret (), w')" "v_pendingShutdown w = Some s" "v_waitingForAgentIds w = Some ids"
  shows "shutdown_over w' \<or> (\<exists>now. history w = RInt now # history w' \<and> rearmed s ids now w')"
proof -
  obtain now v where v: "utcNow w = (Ret now, v)"
    "(if ps_deadlineAtMs s \<le> now
      then inspect (\<lambda>w. failPendingShutdown (shutdownTimeoutMessage s (getStillRunningAgentIds (v_subAgents w) ids)))
      else (let remainingMs = max 0 (ps_deadlineAtMs s - now); nextPollMs = min SHUTDOWN_POLL_INTERVAL_MS remainingMs
            in doing [set_timer (poll_timer now nextPollMs (buildShutdownWaitReason s) ids),
              publishStatus Waiting (waiting_extra (ceil_sec remainingMs) (buildShutdownWaitReason s) (ps_startedAtMs s))])) v
     = (Ret (), w')"
    using assms(1) unfolding pollShutdown_def by (elim bind_RetE) auto
  show ?thesis
  proof (cases "ps_deadlineAtMs s \<le> now")
    case True
    then show ?thesis using v(2) by (simp add: inspect_def failed_shutdown)
  next
    case False
    then show ?thesis using v(2) utcNow_Ret [OF v(1)] assms(2,3) polls_left_less [of now s]
      by (auto simp: Let_def run_simps set_timer_def publishStatus_def emit_def rearmed_def same_wait_def
          poll_timer_def min_add_distrib_right intro!: disjI2)
  qed
qed

text \<open>
  C37: A poll brings a pending shutdown to its end or one step closer to it, whatever the runtime
  answers: when the poll of a session that waits for its children returns, either the shutdown is over
  - nothing of it is left and the orchestration has its result - or the clock, the last answer used, was
  still before the deadline and the poll timer is armed again, due in five seconds or at the deadline,
  whichever comes first; polls made when their timers are due are therefore at most twelve in number
  after a shutdown begins. A poll that does not return has thrown, which ends the execution, or
  is still without a fitting answer. This bounds a shutdown that is polled; a user prompt takes its timer away, see
  \<open>prompt_disables_shutdown\<close>.
\<close>

theorem shutdown_poll_makes_progress:
  assumes "v_pendingShutdown w = Some s" "v_waitingForAgentIds w = Some ids"
  shows "(case processAgentPoll w of
       (Ret u, w') \<Rightarrow> shutdown_over w' \<or>
         (\<exists>now used. history w = used @ RInt now # history w' \<and> rearmed s ids now w')
     | (Throw e, w') \<Rightarrow> True
     | (Stop h, w') \<Rightarrow> True) \<and>
   polls_left (new_shutdown mode reason start agents c) start = 12"
proof
  show "polls_left (new_shutdown mode reason start agents c) start = 12"
    by (simp add: polls_left_def new_shutdown_def SHUTDOWN_TIMEOUT_MS_def SHUTDOWN_POLL_INTERVAL_MS_def)
  have "shutdown_over w' \<or> (\<exists>now used. history w = used @ RInt now # history w' \<and> rearmed s ids now w')"
    if run: "processAgentPoll w = (Ret (), w')" for w'
  proof -
    obtain v u b where v: "for_each (getStillRunningAgentIds (v_subAgents w) ids) pollAgent w = (Ret (), v)"
      "maybeResolveAgentWaitCompletion v = (Ret b, u)"
      "(if b then ret () else inspect (\<lambda>w. case v_pendingShutdown w of
          Some s \<Rightarrow> pollShutdown s ids
        | None \<Rightarrow> bind utcNow (\<lambda>now. set_timer (poll_timer now AGENT_POLL_MS
            (waiting_reason (getStillRunningAgentIds (v_subAgents w) ids)) ids)))) u = (Ret (), w')"
      using run assms(2) unfolding processAgentPoll_def inspect_def [of _ w]
      by (auto simp: ret_def [of "()"] elim!: andThen_RetE bind_RetE)
    have "waits (for_each xs pollAgent)" for xs by (intro sameWait.keeps_for_each waits_steps)
    from keepsD [OF this, of w] v(1) have w: "same_wait w v" by (metis snd_conv)
    have sv: "v_pendingShutdown v = Some s" "v_waitingForAgentIds v = Some ids"
      and h: "\<exists>used. history w = used @ history v"
      using assms w by (simp_all add: same_wait_def)
    show ?thesis
    proof (cases b)
      case True
      then have "finalizePendingShutdown v = (Ret (), u)"
        using v(2) sv by (auto simp: maybeResolveAgentWaitCompletion_def inspect_def ret_def
            elim!: andThen_RetE split: if_splits)
      then show ?thesis using finalized [of v u] sv v(3) True by (simp add: ret_def)
    next
      case False
      then have "u = v"
        using v(2) sv by (auto simp: maybeResolveAgentWaitCompletion_def inspect_def ret_def
            elim!: andThen_RetE split: if_splits)
      then have "pollShutdown s ids v = (Ret (), w')" using v(3) False sv by (simp add: inspect_def)
      from pollShutdown_Ret [OF this sv] h show ?thesis by auto
    qed
  qed
  then show "case processAgentPoll w of
       (Ret u, w') \<Rightarrow> shutdown_over w' \<or>
         (\<exists>now used. history w = used @ RInt now # history w' \<and> rearmed s ids now w')
     | (Throw e, w') \<Rightarrow> True
     | (Stop h, w') \<Rightarrow> True"
    by (auto split: prod.split outcome.split)
qed

definition closing_session :: orch where
  "closing_session = (initial_state (blank_input ''s'') Map.empty [RInt 3000])
     \<lparr>v_pendingShutdown := Some (new_shutdown ModeDone ''bye'' 1000 [] ''c''),
      v_waitingForAgentIds := Some [''session-a'']\<rparr>"

theorem shutdown_poll_makes_progress_witness:
  "case processAgentPoll closing_session of
     (Ret u, w') \<Rightarrow> rearmed (new_shutdown ModeDone ''bye'' 1000 [] ''c'') [''session-a''] 3000 w'
   | _ \<Rightarrow> False"
proof -
  have "\<exists>w'. processAgentPoll closing_session = (Ret (), w') \<and> history w' = [] \<and> v_pendingShutdown w' \<noteq> None"
    by (simp add: processAgentPoll_def closing_session_def maybeResolveAgentWaitCompletion_def pollShutdown_def
        areTrackedAgentsTerminal_def getStillRunningAgentIds_def findTrackedAgentByOrchId_def
        publishStatus_def set_timer_def run_simps runtime_defs new_shutdown_def SHUTDOWN_TIMEOUT_MS_def Let_def)
  then obtain w' where w: "processAgentPoll closing_session = (Ret (), w')" "history w' = []"
    "v_pendingShutdown w' \<noteq> None" by blast
  show ?thesis
    using shutdown_poll_makes_progress [of closing_session "new_shutdown ModeDone ''bye'' 1000 [] ''c''" "[''session-a'']"] w
    by (auto simp: closing_session_def shutdown_over_def append_eq_Cons_conv Cons_eq_append_conv)
qed

text \<open>
  A cron timer that was moved to the work buffer fires after the schedule was cancelled by an
  earlier item: the handler reads the reason of the missing schedule and the orchestration throws.
\<close>

theorem cancelled_cron_throws:
  "processItem (FTimer (t\<lparr>tm_type := TmCron\<rparr>) fired)
      (w\<lparr>v_cronSchedule := None, history := RUnit # rs\<rparr>) =
    (Throw ''Cannot read properties of undefined (reading 'reason')'',
     w\<lparr>v_cronSchedule := None, history := rs,
       trace := trace w @ [EManager (MRecordEvent ''session.cron_fired'' [])]\<rparr>)"
  by (simp add: processItem_def processTimer_def processCron_def run_simps runtime_defs)

end
