(* ===== verification/MainLoop.thy ===== *)
theory MainLoop
  imports EventLoop
begin

text \<open>
  The whole generator \<open>durableSessionOrchestration_1_0_44\<close>: rebuilding the variables, the session
  creation policy, binding a top-level named agent, and the flat main loop.
\<close>

subsection \<open>Session creation policy\<close>

definition POLICY_GENERIC :: string where
  "POLICY_GENERIC =
     ''[POLICY] Session rejected: generic sessions are not allowed by session creation policy.''"

definition policy_agent_message :: "string \<Rightarrow> string" where
  "policy_agent_message agentId =
     ''[POLICY] Session rejected: agent '' @ dq @ agentId @ dq @ '' is not in the allowed agent list.''"

text \<open>The verdict: the result string of a rejected session.\<close>

definition policyVerdict ::
    "creation_policy option \<Rightarrow> string list \<Rightarrow> string option \<Rightarrow> string option" where
  "policyVerdict policy allowedNames agentId =
     (case policy of
        None \<Rightarrow> None
      | Some p \<Rightarrow>
          if \<not> pol_allowlist p then None
          else if \<not> truthy agentId \<and> pol_allowGeneric p \<noteq> Some True then Some POLICY_GENERIC
          else if truthy agentId \<and> allowedNames \<noteq> [] \<and> or_str agentId [] \<notin> set allowedNames
          then Some (policy_agent_message (or_str agentId []))
          else None)"

definition enforcePolicy :: "string option orchp" where
  "enforcePolicy =
     inspect (\<lambda>w.
       if v_iteration w = 0 \<and> \<not> truthy (parentSessionId (inp w)) \<and> \<not> isSystem (inp w)
       then bind (manager MGetPolicy) (\<lambda>r. case r of
              RPolicy policy names \<Rightarrow>
                (case policyVerdict policy names (in_agentId (inp w)) of
                   None \<Rightarrow> ret None
                 | Some msg \<Rightarrow> andThen (doing [
                     publishStatus Failed (\<lambda>g. g\<lparr>sg_policyRejected := True\<rparr>),
                     updateCmsState ''rejected'' None]) (ret (Some msg)))
            | _ \<Rightarrow> stop BadHistory)
       else ret None)"

subsection \<open>Top-level named agents\<close>

text \<open>\<open>Array.from(new Set(xs))\<close>: duplicates removed, first occurrences kept in order.\<close>

definition unique :: "'a list \<Rightarrow> 'a list" where
  "unique xs = rev (remdups (rev xs))"

definition workerManagedMessage :: "string \<Rightarrow> string" where
  "workerManagedMessage agentId =
     ''Agent '' @ dq @ agentId @ dq @ '' is a worker-managed system agent and cannot be started manually. '' @
     ''If it is missing, the workers likely need to be restarted.''"

definition bindNamedAgent :: "string option orchp" where
  "bindNamedAgent =
     inspect (\<lambda>w.
       if v_iteration w = 0 \<and> \<not> truthy (parentSessionId (inp w)) \<and> truthy (in_agentId (inp w)) \<and>
          \<not> isSystem (inp w)
       then (let agentId = or_str (in_agentId (inp w)) [] in
         bind (resolveAgentConfig agentId) (\<lambda>d. case d of
           None \<Rightarrow> ret None
         | Some def \<Rightarrow>
             if worker_managed def
             then andThen (doing [
                 publishStatus Failed (\<lambda>g. g\<lparr>sg_workerManagedAgent := True\<rparr>),
                 updateCmsState ''failed'' (Some (workerManagedMessage agentId))])
                 (ret (Some (''[SYSTEM: '' @ workerManagedMessage agentId @ '']'')))
             else andThen (modify (\<lambda>w.
                 let merged = unique (default_to (ad_tools def) [] @ default_to (c_toolNames (v_config w)) [])
                 in (if merged = [] then w
                     else w\<lparr>v_config := (v_config w)\<lparr>c_toolNames := Some merged\<rparr>\<rparr>)
                       \<lparr>v_session := v_affinityKey w\<rparr>))
                 (ret None)))
       else ret None)"

definition setAgentIdentity :: "unit orchp" where
  "setAgentIdentity =
     modify (\<lambda>w. if truthy (in_agentId (inp w))
                 then w\<lparr>v_config := (v_config w)\<lparr>c_agentIdentity := in_agentId (inp w)\<rparr>\<rparr> else w)"

subsection \<open>The main loop\<close>

definition historyTooLarge :: "bool orchp" where
  "historyTooLarge =
     try_catch
       (bind (manager MGetStats) (\<lambda>r. case r of
          RHistorySize n \<Rightarrow> ret (MAX_HISTORY_SIZE_BYTES \<le> default_to n 0)
        | _ \<Rightarrow> stop BadHistory))
       (\<lambda>e. ret False)"

definition loopBody :: "string orchp \<Rightarrow> string orchp" where
  "loopBody next =
     andThen drain (inspect (\<lambda>w. case v_orchestrationResult w of
       Some r \<Rightarrow> ret r
     | None \<Rightarrow> bind decide (\<lambda>didWork. inspect (\<lambda>w. case v_orchestrationResult w of
         Some r \<Rightarrow> ret r
       | None \<Rightarrow>
           if didWork \<or> v_activeTimer w \<noteq> None \<or> v_pendingInputQuestion w \<noteq> None then next
           else continueWith no_overrides))))"

text \<open>\<open>left\<close> counts down from the iteration cap; \<open>loopIteration\<close> is what has been used.\<close>

fun mainLoop :: "nat \<Rightarrow> string orchp" where
  "mainLoop 0 = continueWith no_overrides"
| "mainLoop (Suc left) =
     (if (MAX_ITERATIONS_PER_EXECUTION - left) mod HISTORY_SIZE_CHECK_INTERVAL = 0
      then bind historyTooLarge (\<lambda>large.
             if large then continueWith no_overrides else loopBody (mainLoop left))
      else loopBody (mainLoop left))"

definition orchestrate :: "string orchp" where
  "orchestrate =
     andThen (doing [reconstructTimer, adoptLegacyMessage])
       (bind enforcePolicy (\<lambda>rejected. case rejected of
          Some msg \<Rightarrow> ret msg
        | None \<Rightarrow> bind bindNamedAgent (\<lambda>denied. case denied of
            Some msg \<Rightarrow> ret msg
          | None \<Rightarrow> andThen setAgentIdentity (mainLoop MAX_ITERATIONS_PER_EXECUTION))))"

definition durableSession ::
    "orch_input \<Rightarrow> kv_map \<Rightarrow> resp list \<Rightarrow> (halt, string) outcome \<times> orch" where
  "durableSession i m h = orchestrate (initial_state i m h)"

lemma mainLoop_10: "mainLoop 10 = loopBody (mainLoop 9)"
proof -
  have e: "(10::nat) = Suc 9" by simp
  show ?thesis unfolding e mainLoop.simps by (simp add: MAX_ITERATIONS_PER_EXECUTION_def HISTORY_SIZE_CHECK_INTERVAL_def)
qed

subsection \<open>Properties\<close>

lemma start_defs:
  "reconstructTimer w = (case in_activeTimerState (inp w) of None \<Rightarrow> (Ret (), w)
     | Some s \<Rightarrow> bind utcNow (\<lambda>initNow.
         modify (\<lambda>w. w\<lparr>v_activeTimer := Some (restore_timer initNow s)\<rparr>)) w)"
  by (simp add: reconstructTimer_def inspect_def ret_def split: option.split)

text \<open>
  A session that the creation policy forbids never runs a turn: the very first execution asks
  for the policy, publishes the rejection, records it and returns; nothing is dequeued, hydrated
  or started.
\<close>

theorem rejected_session_never_runs:
  assumes "policyVerdict policy names (in_agentId i) = Some msg"
    and "default_to (in_iteration i) 0 = 0" and "\<not> truthy (parentSessionId i)" and "\<not> isSystem i"
    and "in_activeTimerState i = None" and "in_pendingMessage i = None"
  shows "case durableSession i m (RPolicy policy names # RUnit # rs) of
     (Ret r, w) \<Rightarrow> r = msg \<and> history w = rs \<and> kv w = m \<and>
       (\<exists>g. trace w = [EManager MGetPolicy, EStatus g, EManager (MUpdateCmsState ''rejected'' None)] \<and>
          sg_status g = Failed \<and> sg_policyRejected g)
   | _ \<Rightarrow> False"
  using assms
  by (simp add: durableSession_def orchestrate_def adoptLegacyMessage_def start_defs enforcePolicy_def
      updateCmsState_def publishStatus_def base_signal_def run_simps runtime_defs cong: run_congs)

definition strict_policy :: creation_policy where
  "strict_policy = \<lparr> pol_allowlist = True, pol_allowGeneric = None \<rparr>"

theorem rejected_session_never_runs_witness:
  "case durableSession (blank_input ''s'') Map.empty [RPolicy (Some strict_policy) [''dba''], RUnit] of
     (Ret r, w) \<Rightarrow> r = POLICY_GENERIC | _ \<Rightarrow> False"
  using rejected_session_never_runs [where i = "blank_input ''s''" and policy = "Some strict_policy"
      and names = "[''dba'']" and msg = POLICY_GENERIC and m = Map.empty and rs = "[]"]
  by (simp add: policyVerdict_def strict_policy_def parentSessionId_def isSystem_def
      split: prod.splits outcome.splits)

text \<open>
  The policy lets a session through exactly when there is no policy, or it is not an
  allow-list, or the session names an agent the list allows (an empty list allows all), or it
  names none and generic sessions are allowed.
\<close>

theorem policy_admits:
  "(policyVerdict policy names agentId = None) =
     (policy = None \<or>
      (\<exists>p. policy = Some p \<and>
        (\<not> pol_allowlist p \<or>
         (if truthy agentId then names = [] \<or> or_str agentId [] \<in> set names
          else pol_allowGeneric p = Some True))))"
  by (auto simp: policyVerdict_def split: option.splits)

text \<open>
  A worker-managed system agent cannot be started as a session: the agent is resolved, the
  session is published and recorded as failed, and the orchestration returns the explanation.
\<close>

theorem worker_managed_agent_is_refused:
  assumes "worker_managed d" and "in_agentId i = Some a" and "a \<noteq> []"
    and "default_to (in_iteration i) 0 = 0" and "\<not> truthy (parentSessionId i)" and "\<not> isSystem i"
    and "in_activeTimerState i = None" and "in_pendingMessage i = None"
  shows "case durableSession i m (RPolicy None [] # RAgentDef (Some d) # RUnit # rs) of
     (Ret r, w) \<Rightarrow> r = ''[SYSTEM: '' @ workerManagedMessage a @ '']'' \<and> history w = rs \<and>
       (\<exists>g. trace w = [EManager MGetPolicy, EManager (MResolveAgent a), EStatus g,
           EManager (MUpdateCmsState ''failed'' (Some (workerManagedMessage a)))] \<and>
          sg_status g = Failed \<and> sg_workerManagedAgent g)
   | _ \<Rightarrow> False"
  using assms
  by (simp add: durableSession_def orchestrate_def adoptLegacyMessage_def start_defs enforcePolicy_def
      policyVerdict_def bindNamedAgent_def resolveAgentConfig_def Let_def
      updateCmsState_def publishStatus_def base_signal_def run_simps runtime_defs cong: run_congs)

theorem worker_managed_agent_is_refused_witness:
  "case durableSession ((blank_input ''s'')\<lparr>in_agentId := Some ''sweeper''\<rparr>) Map.empty
      [RPolicy None [], RAgentDef (Some \<lparr> ad_name = ''sweeper'', ad_id = None, ad_title = None,
         ad_initialPrompt = None, ad_tools = None, ad_system = Some True, ad_creatable = Some False,
         ad_splash = None, ad_namespace = None, ad_promptLayerKind = None \<rparr>), RUnit] of
     (Ret r, w) \<Rightarrow> r = ''[SYSTEM: '' @ workerManagedMessage ''sweeper'' @ '']'' | _ \<Rightarrow> False"
  using worker_managed_agent_is_refused [where i = "(blank_input ''s'')\<lparr>in_agentId := Some ''sweeper''\<rparr>"
      and a = "''sweeper''" and m = Map.empty and rs = "[]"
      and d = "\<lparr> ad_name = ''sweeper'', ad_id = None, ad_title = None, ad_initialPrompt = None,
         ad_tools = None, ad_system = Some True, ad_creatable = Some False, ad_splash = None,
         ad_namespace = None, ad_promptLayerKind = None \<rparr>"]
  by (simp add: worker_managed_def parentSessionId_def isSystem_def split: prod.splits outcome.splits)

end
