(* ===== verification/Contracts.thy ===== *)
theory Contracts
  imports MainLoop
begin

text \<open>
  The contract of the runtime's primitives, and the proof that every handler of the generator
  keeps it. The locale lists what a relation between states must allow: local assignments,
  effects the program may ask for in its situation, writes of the store. Its lemmas walk once
  through all handlers up to \<open>orchestrate\<close>; each interpretation below then yields a theorem about
  whole executions.
\<close>

named_theorems keeps_rules

subsection \<open>What a step may do\<close>

definition digest_updates :: "orch \<Rightarrow> digest_entry list" where
  "digest_updates w = (case v_pendingChildDigest w of None \<Rightarrow> [] | Some d \<Rightarrow> cd_updates d)"

text \<open>An assignment to local variables that leaves the tracked ones alone.\<close>

definition calm :: "orch \<Rightarrow> orch \<Rightarrow> bool" where
  "calm w w' \<longleftrightarrow>
     inp w' = inp w \<and> kv w' = kv w \<and> history w' = history w \<and> trace w' = trace w \<and>
     v_iteration w' = v_iteration w \<and> v_contextUsage w' = v_contextUsage w \<and>
     (v_session w' = v_affinityKey w' \<or>
      v_session w' = v_session w \<and> v_affinityKey w' = v_affinityKey w) \<and>
     (digest_updates w' = [] \<or> digest_updates w' = digest_updates w)"

text \<open>What continue-as-new must hand over unchanged.\<close>

definition same_identity :: "orch_input \<Rightarrow> orch_input \<Rightarrow> bool" where
  "same_identity i j \<longleftrightarrow>
     in_sessionId j = in_sessionId i \<and> parentSessionId j = parentSessionId i \<and>
     nestingLevel j = nestingLevel i \<and> isSystem j = isSystem i \<and> blobEnabled j = blobEnabled i \<and>
     dehydrateThreshold j = dehydrateThreshold i \<and> idleTimeout j = idleTimeout i \<and>
     inputGracePeriod j = inputGracePeriod i \<and> checkpointInterval j = checkpointInterval i"

fun safe_session :: "orch_input \<Rightarrow> session_op \<Rightarrow> bool" where
  "safe_session i SCheckpoint = blobEnabled i"
| "safe_session i SHydrate = blobEnabled i"
| "safe_session i SNeedsHydration = blobEnabled i"
| "safe_session i (SRunTurn cfg p b n parent level tool retry) =
     (parent = keep_truthy (parentSessionId i) \<and> level = nestingLevel i)"
| "safe_session i _ = True"

fun safe_manager :: "orch_input \<Rightarrow> manager_op \<Rightarrow> bool" where
  "safe_manager i (MSpawnChild cfg task level sys title agent splash locked) =
     (level = nestingLevel i + 1 \<and> level \<le> MAX_NESTING_LEVEL)"
| "safe_manager i _ = True"

text \<open>The effects a session with input \<open>i\<close> may ask for.\<close>

fun safe_effect :: "orch_input \<Rightarrow> effect \<Rightarrow> bool" where
  "safe_effect i (ESession key op) = safe_session i op"
| "safe_effect i (EManager op) = safe_manager i op"
| "safe_effect i (EScheduleTimer ms) = (0 < ms)"
| "safe_effect i (ERaceDequeue ms) = (0 < ms)"
| "safe_effect i (EContinueAsNew j v) =
     (v = DURABLE_SESSION_LATEST_VERSION \<and>
      in_sourceOrchestrationVersion j = Some DURABLE_SESSION_LATEST_VERSION \<and> same_identity i j)"
| "safe_effect i _ = True"

text \<open>Plain writes of the store go to the buckets of the work buffer only.\<close>

definition kv_step :: "kv_map \<Rightarrow> kv_map \<Rightarrow> bool" where
  "kv_step m m' \<longleftrightarrow> (\<forall>k. (\<forall>i. k \<noteq> fifoBucketKey i) \<longrightarrow> m' k = m k)"

text \<open>
  Everything else is published: a counter goes up by one, the time is asked for, and a value that
  carries the new count is stored under its own key.
\<close>

definition publish ::
  "string \<Rightarrow> string \<Rightarrow> (nat \<Rightarrow> int \<Rightarrow> orch \<Rightarrow> kv_value) \<Rightarrow> (nat \<Rightarrow> orch \<Rightarrow> orch) \<Rightarrow> unit orchp" where
  "publish k slot f g =
     bind (bumpCounter k) (\<lambda>version. bind utcNow (\<lambda>emittedAt.
       doing [inspect (\<lambda>w. setValue slot (f version emittedAt w)), modify (g version)]))"

definition publishing :: "string \<Rightarrow> string \<Rightarrow> (nat \<Rightarrow> int \<Rightarrow> orch \<Rightarrow> kv_value) \<Rightarrow> bool" where
  "publishing k slot f \<longleftrightarrow>
     k = RESPONSE_VERSION_KEY \<and> slot = RESPONSE_LATEST_KEY \<and>
       (\<forall>v t w. \<exists>r. f v t w = KvResponse r \<and> sr_version r = v) \<or>
     k = COMMAND_VERSION_KEY \<and>
       (\<exists>c. slot = commandResponseKey c \<and>
          (\<forall>v t w. \<exists>r. f v t w = KvCommand r \<and> scr_version r = v \<and> cr_id (scr_response r) = c))"

lemma publish_run:
  "publish k slot f g w =
     (let v = counter_of (kv w) k + 1;
          w1 = w\<lparr>kv := (kv w)(k \<mapsto> KvCounter v), trace := trace w @ [EUtcNow]\<rparr>
      in case history w of
           [] \<Rightarrow> (Stop Suspended, w1)
         | r # rs \<Rightarrow>
             let w2 = w1\<lparr>history := rs\<rparr> in
             (case r of
                RInt t \<Rightarrow> (Ret (), g v (w2\<lparr>kv := (kv w2)(slot \<mapsto> f v t w2)\<rparr>))
              | _ \<Rightarrow> (Stop BadHistory, w2)))"
  by (simp add: publish_def bumpCounter_def readCounter_def setValue_def utcNow_def perform_def orch_defs
      Let_def split: list.split resp.split)

lemma keeps_publishI:
  assumes "\<And>w. R w (snd (publish k slot f g w))" "\<And>w x. fst (publish k slot f g w) = Stop x \<Longrightarrow> Q x (snd (publish k slot f g w))"
  shows "keeps R Q (publish k slot f g)"
  unfolding keeps_def steps_def using assms by (auto split: prod.split outcome.split) (metis fst_conv snd_conv)+

lemma publish_then:
  "andThen (publish k slot f g) m =
     bind (bumpCounter k) (\<lambda>v. bind utcNow (\<lambda>t.
       doing [inspect (\<lambda>w. setValue slot (f v t w)), modify (g v), m])) " for m :: "unit orchp"
  by (rule ext) (auto simp: publish_def orch_defs setValue_def split: prod.split outcome.split)

lemma response_publishes: "writeLatestResponse p =
  publish RESPONSE_VERSION_KEY RESPONSE_LATEST_KEY
    (\<lambda>version emittedAt w. KvResponse
       \<lparr> sr_version = version, sr_iteration = v_iteration w, sr_type = rp_type p,
         sr_content = rp_content p, sr_question = rp_question p,
         sr_waitReason = rp_waitReason p, sr_waitSeconds = rp_waitSeconds p,
         sr_waitStartedAt = rp_waitStartedAt p, sr_emittedAt = emittedAt, sr_model = rp_model p \<rparr>)
    (\<lambda>version w. w\<lparr>v_lastResponseVersion := version\<rparr>)"
  by (simp add: writeLatestResponse_def publish_def)

lemma command_publishes: "writeCommandResponse r =
  andThen (publish COMMAND_VERSION_KEY (commandResponseKey (cr_id r))
      (\<lambda>version emittedAt w. KvCommand \<lparr> scr_response = r, scr_version = version, scr_emittedAt = emittedAt \<rparr>)
      (\<lambda>version w. w\<lparr>v_lastCommandVersion := version, v_lastCommandId := Some (cr_id r)\<rparr>))
    (recordSessionEvent ''session.command_completed''
       [(''cmd'', JStr (cr_cmd r)), (''id'', JStr (cr_id r))])"
proof -
  have "inspect (\<lambda>w. m) = m" for m :: "unit orchp" by (rule ext) (simp add: inspect_def)
  then show ?thesis unfolding publish_then writeCommandResponse_def by simp
qed

text \<open>
  What an execution that continues as new has done: its last effect hands the final values of
  its variables to the next execution, which runs the latest version.
\<close>

definition hands_over :: "orch \<Rightarrow> orch_input \<Rightarrow> bool" where
  "hands_over w j \<longleftrightarrow>
     same_identity (inp w) j \<and> in_config j = v_config w \<and>
     in_iteration j = Some (v_iteration w) \<and> in_affinityKey j = Some (v_affinityKey w) \<and>
     in_preserveAffinityOnHydrate j = Some (v_preserveAffinity w) \<and>
     in_taskContext j = v_taskContext w \<and> in_cronSchedule j = v_cronSchedule w \<and>
     in_contextUsage j = v_contextUsage w \<and> in_subAgents j = Some (v_subAgents w) \<and>
     default_to (in_pendingToolActions j) [] = v_pendingToolActions w \<and>
     in_nextSummarizeAt j = Some (v_nextSummarizeAt w) \<and>
     in_waitingForAgentIds j = v_waitingForAgentIds w \<and>
     in_pendingInputQuestion j = v_pendingInputQuestion w \<and>
     in_interruptedWaitTimer j = v_interruptedWaitTimer w \<and>
     in_interruptedCronTimer j = v_interruptedCronTimer w \<and>
     in_pendingChildDigest j = v_pendingChildDigest w \<and>
     in_pendingShutdown j = v_pendingShutdown w \<and>
     in_baseSystemMessage j = baseSystemMessage (inp w) \<and>
     (case v_activeTimer w of
        None \<Rightarrow> in_activeTimerState j = None
      | Some t \<Rightarrow> \<exists>now. in_activeTimerState j = Some (carry_timer now t))"

definition continues :: "orch \<Rightarrow> orch_input \<Rightarrow> bool" where
  "continues w j \<longleftrightarrow>
     hands_over w j \<and> in_sourceOrchestrationVersion j = Some DURABLE_SESSION_LATEST_VERSION \<and>
     (\<exists>before. trace w = before @ [EContinueAsNew j DURABLE_SESSION_LATEST_VERSION])"

text \<open>The effects whose response the generator waits for.\<close>

fun awaited :: "effect \<Rightarrow> bool" where
  "awaited (EStatus g) = False"
| "awaited (EContinueAsNew j v) = False"
| "awaited _ = True"

lemma bind_ret_result: "bind m (\<lambda>x. ret (f x)) w = (Ret y, w') \<Longrightarrow> \<exists>x. y = f x"
  by (auto simp: bind_def ret_def split: prod.splits outcome.splits)

text \<open>The steps between choosing the next input and handing it over touch no variable.\<close>

definition quiet :: "orch \<Rightarrow> orch \<Rightarrow> bool" where
  "quiet w w' \<longleftrightarrow> (\<exists>t h. w' = w\<lparr>trace := t, history := h\<rparr>)"

lemma hands_over_quiet: "quiet w w' \<Longrightarrow> hands_over w j \<Longrightarrow> hands_over w' j"
  by (auto simp: quiet_def hands_over_def)

lemma hands_over_continueInput:
  "v_activeTimer w = None \<Longrightarrow> hands_over w (continueInput ov w)"
  "v_activeTimer w = Some t \<Longrightarrow> hands_over w ((continueInput ov w)\<lparr>in_activeTimerState := Some (carry_timer now t)\<rparr>)"
  by (auto simp: hands_over_def same_identity_def continueInput_def Let_def blobEnabled_def
      dehydrateThreshold_def idleTimeout_def inputGracePeriod_def checkpointInterval_def
      nestingLevel_def isSystem_def parentSessionId_def)

lemma hands_over_version:
  "hands_over w j \<Longrightarrow> hands_over w (j\<lparr>in_sourceOrchestrationVersion := y\<rparr>)"
  by (cases "v_activeTimer w") (simp_all add: hands_over_def same_identity_def blobEnabled_def dehydrateThreshold_def
      idleTimeout_def inputGracePeriod_def checkpointInterval_def nestingLevel_def isSystem_def
      parentSessionId_def)

interpretation quiet: step_contract quiet "\<lambda>h w. True"
proof
  show "quiet s s" for s :: orch
    unfolding quiet_def by (rule exI [of _ "trace s"], rule exI [of _ "history s"]) simp
  show "quiet s t \<Longrightarrow> quiet t u \<Longrightarrow> quiet s u" for s t u :: orch
    unfolding quiet_def by (auto; force)
qed

lemma quiet_perform: "keeps quiet (\<lambda>h w. True) (perform e)"
  unfolding keeps_def steps_def perform_def quiet_def
  by (auto split: list.splits intro!: exI; rule orch.equality; simp)

lemma quiet_utcNow: "keeps quiet (\<lambda>h w. True) utcNow"
  unfolding utcNow_def
  by (intro quiet.keeps_bind quiet_perform) (auto intro: quiet.keeps_intros quiet.keeps_stop split: resp.split)

lemma quiet_pick: "keeps quiet (\<lambda>h w. True) (inspect (\<lambda>w. case v_activeTimer w of None \<Rightarrow> ret i
    | Some t \<Rightarrow> bind utcNow (\<lambda>now. ret (i\<lparr>in_activeTimerState := Some (carry_timer now t)\<rparr>))))"
  by (intro quiet.keeps_intros quiet_utcNow)

lemma quiet_session: "keeps quiet (\<lambda>h w. True) (await_unit (session op))"
  unfolding await_unit_def session_def activity_def
  by (intro quiet.keeps_intros quiet_perform; simp split: resp.split; intro conjI allI impI quiet.keeps_intros quiet.keeps_stop TrueI)

lemma quiet_save:
  "keeps quiet (\<lambda>h w. True) (cond b ensureWarmResumeCheckpoint)"
  unfolding ensureWarmResumeCheckpoint_def by (intro quiet.keeps_intros quiet_session)

locale orch_contract = step_contract R Q
  for R :: "orch \<Rightarrow> orch \<Rightarrow> bool" and Q :: "halt \<Rightarrow> orch \<Rightarrow> bool" +
  assumes contract_inp: "R w w' \<Longrightarrow> inp w' = inp w"
    and contract_local: "calm w w' \<Longrightarrow> R w w'"
    and contract_emit: "safe_effect (inp w) e \<Longrightarrow> \<not> awaited e \<Longrightarrow> R w (w\<lparr>trace := trace w @ [e]\<rparr>)"
    and contract_ask: "safe_effect (inp w) e \<Longrightarrow> awaited e \<Longrightarrow> R w (snd (perform e w))"
    and contract_kv: "kv_step (kv w) m \<Longrightarrow> R w (w\<lparr>kv := m\<rparr>)"
    and contract_usage: "R w (w\<lparr>v_contextUsage :=
          updateContextUsageFromEvents (v_contextUsage w) evs now\<rparr>)"
    and contract_turn: "R w (w\<lparr>v_iteration := v_iteration w + 1\<rparr>)"
    and contract_suspend: "history w = [] \<Longrightarrow> awaited e \<Longrightarrow> Q Suspended (snd (perform e w))"
    and contract_bad: "Q BadHistory w"
    and contract_continue: "continues w j \<Longrightarrow> Q (ContinuedAsNew j) w"
    and contract_publish: "publishing k slot f \<Longrightarrow> (\<And>v w. calm w (g v w)) \<Longrightarrow> keeps R Q (publish k slot f g)"
    and contract_buffer: "keeps R Q (bufferChildUpdate u now)"
begin

lemma steps_inp: "steps R Q w m \<Longrightarrow> m w = (r, w') \<Longrightarrow> inp w' = inp w"
  using contract_inp [of w w'] stepsD [of R Q w m] by simp

lemma keeps_inp: "keeps R Q m \<Longrightarrow> m w = (r, w') \<Longrightarrow> inp w' = inp w"
  by (rule steps_inp [OF keeps_steps])

declare keeps_intros [keeps_rules] contract_buffer [keeps_rules]

lemma keeps_local [keeps_rules]: "(\<And>w. calm w (f w)) \<Longrightarrow> keeps R Q (modify f)"
  by (intro keeps_modify contract_local)

lemma keeps_case_resp [keeps_rules]:
  "keeps R Q a1 \<Longrightarrow> (\<And>x. keeps R Q (a2 x)) \<Longrightarrow> (\<And>x. keeps R Q (a3 x)) \<Longrightarrow> (\<And>x. keeps R Q (a4 x)) \<Longrightarrow>
   (\<And>x. keeps R Q (a5 x)) \<Longrightarrow> (\<And>x. keeps R Q (a6 x)) \<Longrightarrow> keeps R Q a7 \<Longrightarrow> (\<And>x. keeps R Q (a8 x)) \<Longrightarrow>
   (\<And>x. keeps R Q (a9 x)) \<Longrightarrow> (\<And>x. keeps R Q (b1 x)) \<Longrightarrow> (\<And>x. keeps R Q (b2 x)) \<Longrightarrow>
   (\<And>x. keeps R Q (b3 x)) \<Longrightarrow> (\<And>x. keeps R Q (b4 x)) \<Longrightarrow> (\<And>x. keeps R Q (b5 x)) \<Longrightarrow>
   (\<And>x y. keeps R Q (b6 x y)) \<Longrightarrow> (\<And>x. keeps R Q (b7 x)) \<Longrightarrow> (\<And>x. keeps R Q (b8 x)) \<Longrightarrow>
   keeps R Q (case_resp a1 a2 a3 a4 a5 a6 a7 a8 a9 b1 b2 b3 b4 b5 b6 b7 b8 r)"
  by (cases r) simp_all

lemma keeps_case_sum [keeps_rules]:
  "(\<And>x. keeps R Q (f x)) \<Longrightarrow> (\<And>x. keeps R Q (g x)) \<Longrightarrow> keeps R Q (case_sum f g y)"
  by (cases y) simp_all

lemma keeps_case_prod [keeps_rules]: "(\<And>x y. keeps R Q (f x y)) \<Longrightarrow> keeps R Q (case_prod f p)"
  by (cases p) simp

lemma keeps_case_timer [keeps_rules]:
  "keeps R Q a \<Longrightarrow> keeps R Q b \<Longrightarrow> keeps R Q c \<Longrightarrow> keeps R Q d \<Longrightarrow> keeps R Q e \<Longrightarrow>
     keeps R Q (case_timer_type a b c d e t)"
  by (cases t) simp_all

lemma keeps_case_cron [keeps_rules]:
  "(\<And>x y. keeps R Q (f x y)) \<Longrightarrow> keeps R Q m \<Longrightarrow> keeps R Q (case_cron_action f m c)"
  by (cases c) simp_all

subsection \<open>Primitives\<close>

lemma steps_emit: "safe_effect (inp w) e \<Longrightarrow> \<not> awaited e \<Longrightarrow> steps R Q w (emit e)"
  unfolding emit_def by (intro steps_modify contract_emit)

lemma steps_perform: "safe_effect (inp w) e \<Longrightarrow> awaited e \<Longrightarrow> steps R Q w (perform e)"
  using contract_ask [of w e] contract_suspend [of w e]
  by (auto simp: steps_def perform_def split: list.splits)

lemma keeps_bad [keeps_rules]: "keeps R Q (stop BadHistory)"
  by (intro keeps_stop contract_bad)

lemma keeps_perform: "(\<And>i. safe_effect i e) \<Longrightarrow> awaited e \<Longrightarrow> keeps R Q (perform e)"
  by (intro keepsI steps_perform)

lemma keeps_emit: "(\<And>i. safe_effect i e) \<Longrightarrow> \<not> awaited e \<Longrightarrow> keeps R Q (emit e)"
  by (intro keepsI steps_emit)

lemma keeps_utcNow [keeps_rules]: "keeps R Q utcNow"
  unfolding utcNow_def by (intro keeps_rules keeps_perform; simp)

lemma keeps_newGuid [keeps_rules]: "keeps R Q newGuid"
  unfolding newGuid_def by (intro keeps_rules keeps_perform; simp)

lemma keeps_scheduleTimer: "0 < ms \<Longrightarrow> keeps R Q (scheduleTimer ms)"
  unfolding scheduleTimer_def by (intro keeps_rules keeps_perform; simp)

lemma keeps_dequeue [keeps_rules]: "keeps R Q dequeueMessage"
  unfolding dequeueMessage_def by (intro keeps_rules keeps_perform; simp)

lemma keeps_raceDequeue: "0 < ms \<Longrightarrow> keeps R Q (raceDequeue ms)"
  unfolding raceDequeue_def by (intro keeps_rules keeps_perform; simp)

lemma steps_activity: "safe_effect (inp w) e \<Longrightarrow> awaited e \<Longrightarrow> steps R Q w (activity e)"
  unfolding activity_def
  by (intro steps_bind steps_perform keeps_steps keeps_rules)

lemma keeps_manager: "(\<And>i. safe_manager i op) \<Longrightarrow> keeps R Q (manager op)"
  unfolding manager_def by (intro keepsI steps_activity; simp)

lemma steps_manager: "safe_manager (inp w) op \<Longrightarrow> steps R Q w (manager op)"
  unfolding manager_def by (intro steps_activity; simp)

lemma steps_session: "safe_session (inp w) op \<Longrightarrow> steps R Q w (session op)"
  unfolding session_def by (intro steps_inspect steps_activity; simp)

lemma keeps_session: "(\<And>i. safe_session i op) \<Longrightarrow> keeps R Q (session op)"
  by (intro keepsI steps_session)

lemma steps_await: "steps R Q w m \<Longrightarrow> steps R Q w (await_unit m)"
  unfolding await_unit_def by (erule steps_bind) (intro keeps_steps keeps_rules)

lemma keeps_await [keeps_rules]: "keeps R Q m \<Longrightarrow> keeps R Q (await_unit m)"
  unfolding await_unit_def by (intro keeps_rules)

lemma keeps_recordSessionEvent [keeps_rules]: "keeps R Q (recordSessionEvent t d)"
  unfolding recordSessionEvent_def by (intro keeps_rules keeps_manager) simp

subsection \<open>Publishing and the work buffer\<close>

lemmas calm_defs = calm_def digest_updates_def

lemma keeps_publishStatus [keeps_rules]: "keeps R Q (publishStatus st f)"
  unfolding publishStatus_def by (intro keeps_rules keeps_emit; simp)

lemma keeps_writeLatestResponse [keeps_rules]: "keeps R Q (writeLatestResponse p)"
  unfolding response_publishes
  by (rule contract_publish) (simp_all add: publishing_def calm_defs)

lemma keeps_writeCommandResponse [keeps_rules]: "keeps R Q (writeCommandResponse r)"
  unfolding command_publishes
  by (intro keeps_rules contract_publish) (simp_all add: publishing_def calm_defs)

lemma keeps_wrapWithResumeContext [keeps_rules]: "keeps R Q (wrapWithResumeContext p x)"
  unfolding wrapWithResumeContext_def
  by (intro keeps_rules; simp add: calm_defs)

lemma append_frame_key: "(\<And>i. k \<noteq> fifoBucketKey i) \<Longrightarrow> appendToFifo m xs k = m k"
  by (simp add: appendToFifo_def append_loop_frame)

lemma pop_frame_key: "(\<And>i. k \<noteq> fifoBucketKey i) \<Longrightarrow> snd (popFifoItem m) k = m k"
  by (simp add: popFifoItem_def pop_from_frame)

lemma kv_step_append: "kv_step m (appendToFifo m xs)"
  unfolding kv_step_def by (simp add: append_frame_key)

lemma kv_step_pop: "kv_step m (snd (popFifoItem m))"
  unfolding kv_step_def by (simp add: pop_frame_key)

lemma keeps_flushStash [keeps_rules]: "keeps R Q (flushStash xs)"
  unfolding flushStash_def
  by (auto intro!: keeps_ret keeps_modify contract_kv kv_step_append)

lemma keeps_popItem [keeps_rules]: "keeps R Q popItem"
proof (rule keepsI)
  fix w :: orch
  show "steps R Q w popItem"
    using contract_kv [OF kv_step_pop [of "kv w"]]
    by (cases "popFifoItem (kv w)") (simp add: steps_def popItem_def orch_defs)
qed

subsection \<open>Continue-as-new\<close>

lemma keeps_set_task [keeps_rules]: "keeps R Q (ensureTaskContext src)"
  unfolding ensureTaskContext_def set_task_context_def
  by (intro keeps_rules) (simp add: calm_defs)

lemma keeps_applyCronAction [keeps_rules]: "keeps R Q (applyCronAction a src)"
  unfolding applyCronAction_def by (intro keeps_rules; simp add: calm_defs)

lemma keeps_drain_cron_queue [keeps_rules]: "keeps R Q (drain_cron_queue as src)"
  by (induction as src rule: drain_cron_queue.induct)
    (simp_all only: drain_cron_queue.simps; intro keeps_rules; simp add: calm_defs)+

lemma keeps_drainLeadingQueuedCronActions [keeps_rules]: "keeps R Q (drainLeadingQueuedCronActions src)"
  unfolding drainLeadingQueuedCronActions_def
  by (intro keeps_rules; simp add: calm_defs)

lemma keeps_queueFollowup [keeps_rules]: "keeps R Q (queueFollowup p)"
  unfolding queueFollowup_def
  by (intro keeps_rules; simp add: calm_defs)

lemma keeps_checkpoint:
  "keeps R Q (inspect (\<lambda>w. cond (blobEnabled (inp w) \<and> b w)
     (try_catch (await_unit (session SCheckpoint)) (\<lambda>e. ret ()))))"
  by (intro keepsI steps_inspect steps_cond steps_catch steps_await steps_session
      keeps_steps [OF keeps_ret]) simp

lemma keeps_ensureWarmResumeCheckpoint [keeps_rules]: "keeps R Q ensureWarmResumeCheckpoint"
  using keeps_checkpoint [of "\<lambda>_. True"] by (simp add: ensureWarmResumeCheckpoint_def)

lemma keeps_maybeCheckpoint [keeps_rules]: "keeps R Q maybeCheckpoint"
  unfolding maybeCheckpoint_def by (rule keeps_checkpoint)

lemma steps_continueAsNew:
  assumes "hands_over w i"
  shows "steps R Q w (continueAsNew (i\<lparr>in_sourceOrchestrationVersion :=
    Some DURABLE_SESSION_LATEST_VERSION\<rparr>))"
proof -
  let ?j = "i\<lparr>in_sourceOrchestrationVersion := Some DURABLE_SESSION_LATEST_VERSION\<rparr>"
  let ?e = "EContinueAsNew ?j DURABLE_SESSION_LATEST_VERSION"
  have j: "hands_over w ?j" using assms by (rule hands_over_version)
  then have "R w (w\<lparr>trace := trace w @ [?e]\<rparr>)"
    by (intro contract_emit) (simp_all add: hands_over_def)
  moreover have "hands_over (w\<lparr>trace := trace w @ [?e]\<rparr>) ?j"
    using j by (simp add: hands_over_def)
  then have "continues (w\<lparr>trace := trace w @ [?e]\<rparr>) ?j"
    by (simp add: continues_def)
  then have "Q (ContinuedAsNew ?j) (w\<lparr>trace := trace w @ [?e]\<rparr>)"
    by (rule contract_continue)
  ultimately show ?thesis
    by (simp add: steps_def continueAsNew_def orch_defs emit_def)
qed

lemma steps_versionedContinueAsNew:
  assumes i: "i = continueInput ov w"
  shows "steps R Q w (versionedContinueAsNew i)"
  unfolding versionedContinueAsNew_def
proof (rule steps_bind)
  let ?pick = "inspect (\<lambda>w. case v_activeTimer w of None \<Rightarrow> ret i
    | Some t \<Rightarrow> bind utcNow (\<lambda>now. ret (i\<lparr>in_activeTimerState := Some (carry_timer now t)\<rparr>)))"
  have k: "keeps R Q ?pick" by (intro keeps_rules)
  then show "steps R Q w ?pick" by (rule keeps_steps)
  fix j w1
  assume j: "?pick w = (Ret j, w1)"
  have "quiet w w1" by (rule keeps_result [OF quiet_pick j])
  moreover have "hands_over w j"
  proof (cases "v_activeTimer w")
    case None
    then have "j = i" using j by (simp add: inspect_def ret_def)
    then show ?thesis using hands_over_continueInput(1) [OF None] by (simp add: i)
  next
    case (Some t)
    have "bind utcNow (\<lambda>now. ret (i\<lparr>in_activeTimerState := Some (carry_timer now t)\<rparr>)) w = (Ret j, w1)"
      using j unfolding inspect_def Some option.case .
    then obtain now where "j = i\<lparr>in_activeTimerState := Some (carry_timer now t)\<rparr>"
      by (rule exE [OF bind_ret_result])
    then show ?thesis using hands_over_continueInput(2) [OF Some] by (simp add: i)
  qed
  ultimately have j1: "hands_over w1 j" by (rule hands_over_quiet)
  let ?save = "cond (in_needsHydration j \<noteq> Some True) ensureWarmResumeCheckpoint"
  have s: "keeps R Q ?save" by (intro keeps_rules)
  show "steps R Q w1 (andThen ?save (continueAsNew
          (j\<lparr>in_sourceOrchestrationVersion := Some DURABLE_SESSION_LATEST_VERSION\<rparr>)))"
  proof (rule steps_andThen)
    show "steps R Q w1 ?save" using s by (rule keeps_steps)
    fix x w2
    assume "?save w1 = (Ret x, w2)"
    then have "quiet w1 w2" by (rule keeps_result [OF quiet_save])
    then show "steps R Q w2 (continueAsNew
          (j\<lparr>in_sourceOrchestrationVersion := Some DURABLE_SESSION_LATEST_VERSION\<rparr>))"
      by (rule steps_continueAsNew [OF hands_over_quiet [OF _ j1]])
  qed
qed

lemma steps_continueWithPrompt: "steps R Q w (versionedContinueAsNew (continueInputWithPrompt p ov w))"
  unfolding continueInputWithPrompt_def Let_def
  by (auto intro: steps_versionedContinueAsNew [OF refl] split: prod.split)

lemma keeps_continueWith [keeps_rules]: "keeps R Q (continueWith ov)"
  unfolding continueWith_def
  by (intro keepsI steps_inspect steps_versionedContinueAsNew [OF refl])

subsection \<open>Sub-agents\<close>

lemma keeps_update_agent [keeps_rules]: "keeps R Q (update_agent p f)"
  unfolding update_agent_def
  by (intro keeps_rules keeps_manager; simp add: calm_defs)

lemma keeps_sessionStatus [keeps_rules]: "keeps R Q (sessionStatus sid)"
  unfolding sessionStatus_def
  by (intro keeps_rules keeps_manager; simp add: calm_defs)

lemma keeps_applyChildUpdate [keeps_rules]: "keeps R Q (applyChildUpdate u)"
  unfolding applyChildUpdate_def
  by (intro keeps_rules; simp add: calm_defs)

lemma keeps_clearPendingChildDigest [keeps_rules]: "keeps R Q clearPendingChildDigest"
  unfolding clearPendingChildDigest_def
  by (intro keeps_rules; simp add: calm_defs)

lemma keeps_flushPendingChildDigestIntoPrompt [keeps_rules]: "keeps R Q (flushPendingChildDigestIntoPrompt p)"
  unfolding flushPendingChildDigestIntoPrompt_def
  by (intro keeps_rules; simp add: calm_defs)

lemma keeps_refreshTrackedSubAgents [keeps_rules]: "keeps R Q refreshTrackedSubAgents"
  unfolding refreshTrackedSubAgents_def
  by (intro keeps_rules keeps_manager; simp add: calm_defs)

lemma keeps_rebind_session [keeps_rules]: "keeps R Q rebind_session"
  unfolding rebind_session_def
  by (intro keeps_rules; simp add: calm_defs)

lemma keeps_dehydrateForNextTurn [keeps_rules]: "keeps R Q (dehydrateForNextTurn reason reset ev)"
  unfolding dehydrateForNextTurn_def
  by (intro keeps_rules keeps_manager keeps_session; simp add: calm_defs)

lemma keeps_maybeSummarize [keeps_rules]: "keeps R Q maybeSummarize"
  unfolding maybeSummarize_def
  by (intro keeps_rules keeps_manager; simp add: calm_defs)

subsection \<open>Shutdown and commands\<close>

lemma keeps_notifyParent [keeps_rules]: "keeps R Q (notifyParent t b)"
  unfolding notifyParent_def
  by (intro keeps_rules keeps_manager; simp add: calm_defs)

lemma keeps_notifyParentOfTerminalState [keeps_rules]: "keeps R Q (notifyParentOfTerminalState t b)"
  unfolding notifyParentOfTerminalState_def
  by (intro keeps_rules; simp add: calm_defs)

lemma keeps_updateCmsState [keeps_rules]: "keeps R Q (updateCmsState st e)"
  unfolding updateCmsState_def
  by (intro keeps_rules keeps_manager; simp add: calm_defs)

lemma keeps_destroySession [keeps_rules]: "keeps R Q destroySession"
  unfolding destroySession_def
  by (intro keeps_rules keeps_manager keeps_session; simp add: calm_defs)

lemma keeps_clear_shutdown_state [keeps_rules]: "keeps R Q clear_shutdown_state"
  unfolding clear_shutdown_state_def
  by (intro keeps_rules; simp add: calm_defs)

lemma keeps_set_result [keeps_rules]: "keeps R Q (set_result r)"
  unfolding set_result_def
  by (intro keeps_rules; simp add: calm_defs)

lemma keeps_respond_command [keeps_rules]: "keeps R Q (respond_command c cmd r e)"
  unfolding respond_command_def
  by (intro keeps_rules; simp add: calm_defs)

lemma keeps_completeShutdownSession [keeps_rules]: "keeps R Q (completeShutdownSession r c)"
  unfolding completeShutdownSession_def
  by (intro keeps_rules; simp add: calm_defs)

lemma keeps_deleteTree [keeps_rules]: "keeps R Q (deleteTree r)"
  unfolding deleteTree_def
  by (intro keeps_rules keeps_manager; simp add: calm_defs)

lemma keeps_cancelShutdownSession [keeps_rules]: "keeps R Q (cancelShutdownSession r c d)"
  unfolding cancelShutdownSession_def
  by (intro keeps_rules; simp add: calm_defs)

lemma keeps_failPendingShutdown [keeps_rules]: "keeps R Q (failPendingShutdown e)"
  unfolding failPendingShutdown_def
  by (intro keeps_rules; simp add: calm_defs)

lemma keeps_finalizePendingShutdown [keeps_rules]: "keeps R Q finalizePendingShutdown"
  unfolding finalizePendingShutdown_def
  by (intro keeps_rules; simp add: calm_defs)

lemma keeps_maybeResolveAgentWaitCompletion [keeps_rules]: "keeps R Q maybeResolveAgentWaitCompletion"
  unfolding maybeResolveAgentWaitCompletion_def
  by (intro keeps_rules; simp add: calm_defs)

lemma keeps_cascadeToChildren [keeps_rules]: "keeps R Q (cascadeToChildren c m r ts)"
  unfolding cascadeToChildren_def
  by (intro keeps_rules keeps_manager; simp add: calm_defs)

lemma keeps_armShutdown [keeps_rules]: "keeps R Q (armShutdown s t)"
  unfolding armShutdown_def
  by (intro keeps_rules; simp add: calm_defs)

lemma keeps_reportShutdownInProgress [keeps_rules]: "keeps R Q (reportShutdownInProgress s c)"
  unfolding reportShutdownInProgress_def
  by (intro keeps_rules; simp add: calm_defs)

lemma keeps_beginGracefulShutdown [keeps_rules]: "keeps R Q (beginGracefulShutdown m c)"
  unfolding beginGracefulShutdown_def
  by (intro keeps_rules; simp add: calm_defs)

lemma keeps_respond [keeps_rules]: "keeps R Q (respond c r e)"
  unfolding respond_def
  by (intro keeps_rules; simp add: calm_defs)

lemma keeps_setModelCommand [keeps_rules]: "keeps R Q (setModelCommand c)"
  unfolding setModelCommand_def
  by (intro keeps_rules; simp add: calm_defs)

lemma keeps_listModelsCommand [keeps_rules]: "keeps R Q (listModelsCommand c)"
  unfolding listModelsCommand_def
  by (intro keeps_rules keeps_manager; simp add: calm_defs)

lemma keeps_handleCommand [keeps_rules]: "keeps R Q (handleCommand c)"
  unfolding handleCommand_def
  by (intro keeps_rules; simp add: calm_defs)

subsection \<open>Spawning\<close>

lemma steps_launchChild:
  assumes "nestingLevel (inp w) + 1 \<le> MAX_NESTING_LEVEL"
  shows "steps R Q w (launchChild r b)"
  unfolding launchChild_def Let_def using assms
  by (intro steps_inspect steps_bind steps_catch steps_manager; (intro keeps_steps keeps_rules)?;
      simp add: calm_defs)

lemma steps_guardAndLaunch:
  assumes "nestingLevel (inp w) + 1 \<le> MAX_NESTING_LEVEL"
  shows "steps R Q w (guardAndLaunch r b)"
proof -
  have q: "steps R Q w (queueFollowup t)" for t by (intro keeps_steps keeps_rules)
  show ?thesis unfolding guardAndLaunch_def
    by (intro steps_inspect) (simp add: q steps_launchChild [OF assms] split: option.split)
qed

lemma keeps_resolveAgentConfig [keeps_rules]: "keeps R Q (resolveAgentConfig n)"
  unfolding resolveAgentConfig_def
  by (intro keeps_rules keeps_manager; simp add: calm_defs)

lemma keeps_spawnAgent [keeps_rules]: "keeps R Q (spawnAgent r)"
proof (rule keepsI)
  fix w :: orch
  have q: "steps R Q v (queueFollowup t)" for v t by (intro keeps_steps keeps_rules)
  let ?bind = "\<lambda>d. case d of None \<Rightarrow> ret () | Some def \<Rightarrow> ret ()"
  have resolve: "steps R Q w (bind (resolveAgentConfig n) f)"
    if "nestingLevel (inp w) + 1 \<le> MAX_NESTING_LEVEL"
      and "\<And>d v. nestingLevel (inp v) + 1 \<le> MAX_NESTING_LEVEL \<Longrightarrow> steps R Q v (f d)" for n f
  proof (rule steps_bind)
    show "steps R Q w (resolveAgentConfig n)" by (intro keeps_steps keeps_rules)
    fix d v
    assume "resolveAgentConfig n w = (Ret d, v)"
    then have "inp v = inp w" by (rule keeps_inp [OF keeps_resolveAgentConfig])
    then show "steps R Q v (f d)" using that by simp
  qed
  show "steps R Q w (spawnAgent r)"
    unfolding spawnAgent_def Let_def
    by (intro steps_inspect steps_if q resolve)
      (auto intro!: q steps_guardAndLaunch split: option.splits)
qed

subsection \<open>Failed turns\<close>

lemma keeps_failFatally [keeps_rules]: "keeps R Q (failFatally e)"
  unfolding failFatally_def
  by (intro keeps_rules keeps_manager; simp add: calm_defs)

lemma keeps_retryAsNew [keeps_rules]: "keeps R Q (retryAsNew c)"
  unfolding retryAsNew_def
  by (intro keeps_rules; simp add: calm_defs)

lemma keeps_set_retryCount [keeps_rules]: "keeps R Q (set_retryCount n)"
  unfolding set_retryCount_def
  by (intro keeps_rules; simp add: calm_defs)

lemma keeps_retryClosedConnection [keeps_rules]: "keeps R Q (retryClosedConnection p m c)"
  unfolding retryClosedConnection_def
  by (intro keeps_rules keeps_manager keeps_scheduleTimer; simp add: calm_defs COPILOT_CONNECTION_CLOSED_RETRY_DELAY_SECONDS_def)

lemma keeps_handOff [keeps_rules]: "keeps R Q (handOff p m c)"
  unfolding handOff_def
  by (intro keeps_rules; simp add: calm_defs)

lemma keeps_retryAfterDelay [keeps_rules]: "keeps R Q (retryAfterDelay p m d c)"
  unfolding retryAfterDelay_def Let_def
  by (intro keeps_rules keeps_scheduleTimer; simp add: calm_defs retry_delay_def)

lemma keeps_recoverFromFailure [keeps_rules]: "keeps R Q (recoverFromFailure p m d c)"
  unfolding recoverFromFailure_def
  by (intro keeps_rules; simp add: calm_defs)

lemma keeps_handleTurnError [keeps_rules]: "keeps R Q (handleTurnError m p)"
  unfolding handleTurnError_def
  by (intro keeps_rules; simp add: calm_defs)

lemma keeps_handleTurnThrow [keeps_rules]: "keeps R Q (handleTurnThrow m c)"
  unfolding handleTurnThrow_def
  by (intro keeps_rules; simp add: calm_defs)

subsection \<open>Turn results\<close>

lemma keeps_set_timer [keeps_rules]: "keeps R Q (set_timer t)"
  unfolding set_timer_def
  by (intro keeps_rules; simp add: calm_defs)

lemma keeps_ensureVisibleReply [keeps_rules]: "keeps R Q (ensureVisibleReply a)"
  unfolding ensureVisibleReply_def
  by (intro keeps_rules; simp add: calm_defs)

lemma keeps_resumeInterruptedWait [keeps_rules]: "keeps R Q (resumeInterruptedWait s)"
  unfolding resumeInterruptedWait_def
  by (intro keeps_rules; simp add: calm_defs)

lemma keeps_resumeInterruptedCron [keeps_rules]: "keeps R Q (resumeInterruptedCron s)"
  unfolding resumeInterruptedCron_def
  by (intro keeps_rules; simp add: calm_defs)

lemma keeps_armCron [keeps_rules]: "keeps R Q (armCron c)"
  unfolding armCron_def
  by (intro keeps_rules; simp add: calm_defs)

lemma keeps_armIdle [keeps_rules]: "keeps R Q armIdle"
  unfolding armIdle_def
  by (intro keeps_rules; simp add: calm_defs)

lemma keeps_scheduleCronOrIdle [keeps_rules]: "keeps R Q scheduleCronOrIdle"
  unfolding scheduleCronOrIdle_def
  by (intro keeps_rules; simp add: calm_defs)

lemma keeps_scheduleAfterCompletion [keeps_rules]: "keeps R Q scheduleAfterCompletion"
proof (rule keepsI)
  fix w :: orch
  have r: "steps R Q w (resumeInterruptedWait s)" "steps R Q w scheduleCronOrIdle" for s
    by (intro keeps_steps keeps_rules)+
  show "steps R Q w scheduleAfterCompletion"
    unfolding scheduleAfterCompletion_def Let_def
    by (intro steps_inspect)
      (auto intro!: steps_continueWithPrompt r
        split: option.split)
qed

lemma keeps_handleCompleted [keeps_rules]: "keeps R Q (handleCompleted c m)"
  unfolding handleCompleted_def
  by (intro keeps_rules; simp add: calm_defs)

lemma keeps_handleWait [keeps_rules]: "keeps R Q (handleWait a b c d e f)"
  unfolding handleWait_def
  by (intro keeps_rules; simp add: calm_defs)

lemma keeps_handleInputRequired [keeps_rules]: "keeps R Q (handleInputRequired q m)"
  unfolding handleInputRequired_def
  by (intro keeps_rules; simp add: calm_defs)

lemma keeps_with_agent [keeps_rules]: "(\<And>a. keeps R Q (f a)) \<Longrightarrow> keeps R Q (with_agent tool target f)"
  unfolding with_agent_def by (intro keeps_rules)

lemma keeps_request_agent:
  "(\<And>i. safe_manager i op) \<Longrightarrow> keeps R Q m \<Longrightarrow> keeps R Q (request_agent tool op m)"
  unfolding request_agent_def by (intro keeps_rules keeps_manager)

lemma keeps_messageAgent [keeps_rules]: "keeps R Q (messageAgent t m)"
  unfolding messageAgent_def
  by (intro keeps_rules keeps_request_agent; simp add: calm_defs)

lemma keeps_completeAgent [keeps_rules]: "keeps R Q (completeAgent t)"
  unfolding completeAgent_def
  by (intro keeps_rules keeps_request_agent; simp add: calm_defs)

lemma keeps_cancelAgent [keeps_rules]: "keeps R Q (cancelAgent t r)"
  unfolding cancelAgent_def
  by (intro keeps_rules keeps_request_agent; simp add: calm_defs)

lemma keeps_deleteAgent [keeps_rules]: "keeps R Q (deleteAgent t r)"
  unfolding deleteAgent_def
  by (intro keeps_rules keeps_request_agent; simp add: calm_defs)

lemma keeps_collect_status [keeps_rules]: "keeps R Q (collect_status i as)"
  by (induction i as rule: collect_status.induct)
    (simp_all only: collect_status.simps; intro keeps_rules; simp add: calm_defs)+

lemma keeps_checkAgents [keeps_rules]: "keeps R Q checkAgents"
  unfolding checkAgents_def
  by (intro keeps_rules; simp add: calm_defs)

lemma keeps_listSessions [keeps_rules]: "keeps R Q listSessions"
  unfolding listSessions_def
  by (intro keeps_rules keeps_manager; simp add: calm_defs)

lemma keeps_waitForAgents [keeps_rules]: "keeps R Q (waitForAgents ids)"
  unfolding waitForAgents_def
  by (intro keeps_rules; simp add: calm_defs)

lemma keeps_dispatchResult [keeps_rules]: "keeps R Q (dispatchResult a m p)"
  unfolding dispatchResult_def by (cases a; simp; intro keeps_rules)

lemma keeps_handleTurnResult [keeps_rules]: "keeps R Q (handleTurnResult a m p)"
  unfolding handleTurnResult_def
  by (intro keeps_rules; simp add: calm_defs)

subsection \<open>Turns\<close>

lemma keeps_hydrated [keeps_rules]: "keeps R Q hydrated"
  unfolding hydrated_def
  by (intro keeps_rules; simp add: calm_defs)

lemma keeps_adopt: "keeps R Q (andThen
    (inspect (\<lambda>w. cond (\<not> v_preserveAffinity w)
       (bind newGuid (\<lambda>g. modify (\<lambda>w. w\<lparr>v_affinityKey := g\<rparr>)))))
    (modify (\<lambda>w. w\<lparr>v_session := v_affinityKey w\<rparr>)))"
proof (rule keepsI)
  fix w :: orch
  show "steps R Q w (andThen
    (inspect (\<lambda>w. cond (\<not> v_preserveAffinity w)
       (bind newGuid (\<lambda>g. modify (\<lambda>w. w\<lparr>v_affinityKey := g\<rparr>)))))
    (modify (\<lambda>w. w\<lparr>v_session := v_affinityKey w\<rparr>)))"
  proof (cases "v_preserveAffinity w")
    case True
    then show ?thesis
      by (simp add: steps_def orch_defs) (intro contract_local; simp add: calm_defs)
  next
    case False
    obtain o1 w1 where g: "newGuid w = (o1, w1)" by force
    have r: "R w w1" using keepsD [OF keeps_newGuid, of w] g by simp
    have halt: "Q h w1" if "o1 = Stop h" for h using keeps_halt [OF keeps_newGuid] g that by blast
    have c: "calm w1 (w1\<lparr>v_affinityKey := k, v_session := k\<rparr>)" for k
      by (simp add: calm_defs)
    show ?thesis
      using False g r halt contract_trans [OF r contract_local [OF c]]
      by (cases o1) (simp_all add: steps_def orch_defs)
  qed
qed

lemma andThen_assoc: "andThen (andThen a b) c = andThen a (andThen b c)"
  by (simp add: andThen_def bind_assoc)

lemma steps_hydrateOnce: "blobEnabled (inp w) \<Longrightarrow> steps R Q w hydrateOnce"
proof -
  let ?adopt = "andThen
    (inspect (\<lambda>w. cond (\<not> v_preserveAffinity w)
       (bind newGuid (\<lambda>g. modify (\<lambda>w. w\<lparr>v_affinityKey := g\<rparr>)))))
    (modify (\<lambda>w. w\<lparr>v_session := v_affinityKey w\<rparr>))"
  assume b: "blobEnabled (inp w)"
  have e: "hydrateOnce = andThen ?adopt (doing [await_unit (session SHydrate), hydrated])"
    by (simp add: hydrateOnce_def andThen_assoc)
  show ?thesis unfolding e
  proof (rule steps_andThen [OF keeps_steps [OF keeps_adopt]])
    fix x v
    assume "?adopt w = (Ret x, v)"
    then have i: "inp v = inp w" by (rule keeps_inp [OF keeps_adopt])
    show "steps R Q v (doing [await_unit (session SHydrate), hydrated])"
      unfolding doing.simps
      by (rule steps_andThen [OF steps_await [OF steps_session]])
        (simp_all add: i b, intro keeps_steps keeps_rules)
  qed
qed

lemma steps_hydrateLoop: "blobEnabled (inp w) \<Longrightarrow> steps R Q w (hydrateLoop left n)"
proof (induction left arbitrary: n w)
  case 0
  then show ?case by (simp add: steps_ret)
next
  case (Suc left)
  let ?status = "\<lambda>e. publishStatus Errored (\<lambda>g. g\<lparr>
         sg_error := Some (''Hydrate failed: '' @ err_text e @ '' (retry '' @ show_nat (n + 1) @ ''/'' @
           show_nat MAX_RETRIES @ '' in '' @ show_nat (hydrate_delay (n + 1)) @ ''s)'')\<rparr>)"
  have tm: "keeps R Q (scheduleTimer (int (hydrate_delay (n + 1)) * 1000))"
    by (intro keeps_scheduleTimer) (simp add: hydrate_delay_def)
  have again: "steps R Q v (doing [?status e, scheduleTimer (int (hydrate_delay (n + 1)) * 1000),
      hydrateLoop left (n + 1)])" if v: "inp v = inp w" for v e
  proof -
    have k: "keeps R Q (?status e)" by (intro keeps_rules)
    show ?thesis unfolding doing.simps
    proof (rule steps_andThen [OF keeps_steps [OF k]])
      fix x v1
      assume "?status e v = (Ret x, v1)"
      then have v1: "inp v1 = inp v" by (rule keeps_inp [OF k])
      show "steps R Q v1 (andThen (scheduleTimer (int (hydrate_delay (n + 1)) * 1000))
              (andThen (hydrateLoop left (n + 1)) (ret ())))"
      proof (rule steps_andThen [OF keeps_steps [OF tm]])
        fix y v2
        assume "scheduleTimer (int (hydrate_delay (n + 1)) * 1000) v1 = (Ret y, v2)"
        then have "inp v2 = inp v1" by (rule keeps_inp [OF tm])
        then have "steps R Q v2 (hydrateLoop left (n + 1))"
          using Suc.IH [of v2 "n + 1"] Suc.prems v v1 by simp
        then show "steps R Q v2 (andThen (hydrateLoop left (n + 1)) (ret ()))"
          by (rule steps_andThen) (rule steps_ret)
      qed
    qed
  qed
  have h: "keeps R Q hydrated" "keeps R Q (publishStatus st f)" for st f by (intro keeps_rules)+
  show ?case
    unfolding hydrateLoop.simps Let_def
  proof (rule steps_catch [OF steps_hydrateOnce [OF Suc.prems]])
    fix e v
    assume "hydrateOnce w = (Throw e, v)"
    then have "inp v = inp w" by (rule steps_inp [OF steps_hydrateOnce [OF Suc.prems]])
    then show "steps R Q v (if blob_missing (err_text e) then hydrated
       else if MAX_RETRIES \<le> n + 1
       then publishStatus Errored (\<lambda>g. g\<lparr>
         sg_error := Some (''Hydrate failed after '' @ show_nat MAX_RETRIES @ '' attempts: '' @ err_text e),
         sg_retriesExhausted := True\<rparr>)
       else doing [?status e, scheduleTimer (int (hydrate_delay (n + 1)) * 1000),
         hydrateLoop left (n + 1)])"
      by (intro steps_if keeps_steps [OF h(1)] keeps_steps [OF h(2)] again)
  qed
qed

lemma keeps_probeHydration [keeps_rules]: "keeps R Q probeHydration"
proof -
  have note_result: "keeps R Q (case r of
      RBool b \<Rightarrow> modify (\<lambda>w. w\<lparr>v_needsHydration := b\<rparr>) | _ \<Rightarrow> stop BadHistory)" for r
    by (intro keeps_rules) (simp add: calm_defs)
  show ?thesis unfolding probeHydration_def
    by (intro keepsI steps_inspect steps_cond steps_catch)
      (rule steps_bind [OF steps_session keeps_steps [OF note_result]], simp, rule steps_ret)
qed

lemma keeps_prepareTurn [keeps_rules]: "keeps R Q (prepareTurn p b)"
  unfolding prepareTurn_def
  by (intro keeps_rules; simp add: calm_defs)

lemma keeps_loadKnowledge [keeps_rules]: "keeps R Q loadKnowledge"
  unfolding loadKnowledge_def
  by (intro keeps_rules keeps_manager; simp add: calm_defs)

lemma keeps_clear_turn_system [keeps_rules]: "keeps R Q clear_turn_system"
  unfolding clear_turn_system_def
  by (intro keeps_rules; simp add: calm_defs)

lemma keeps_runTurn [keeps_rules]: "keeps R Q (runTurn pt tool)"
  unfolding runTurn_def
  by (intro keepsI steps_inspect steps_bind steps_session; (intro keeps_steps keeps_rules)?; simp)

lemma keeps_usage: "keeps R Q (modify (\<lambda>w. w\<lparr>v_contextUsage :=
    updateContextUsageFromEvents (v_contextUsage w) evs now\<rparr>))"
  by (intro keeps_modify contract_usage)

lemma keeps_turn: "keeps R Q (modify (\<lambda>w. w\<lparr>v_iteration := v_iteration w + 1\<rparr>))"
  by (intro keeps_modify contract_turn)

lemma keeps_afterTurn [keeps_rules]: "keeps R Q (afterTurn pt result)"
  unfolding afterTurn_def by (intro keeps_usage keeps_turn keeps_rules; simp add: calm_defs)

lemma keeps_executeTurn [keeps_rules]: "keeps R Q (executeTurn pt tool)"
  unfolding executeTurn_def
  by (intro keeps_rules; simp add: calm_defs)

lemma keeps_processPrompt [keeps_rules]: "keeps R Q (processPrompt p b tool)"
proof -
  have e: "keeps R Q (inspect (\<lambda>w. if v_needsHydration w then ret () else executeTurn pt tool))"
      "keeps R Q (executeTurn pt tool)" for pt
    by (intro keeps_rules)+
  have run: "keeps R Q (inspect (\<lambda>w. if v_needsHydration w \<and> blobEnabled (inp w)
      then andThen hydrateWithRetry
             (inspect (\<lambda>w. if v_needsHydration w then ret () else executeTurn pt tool))
      else executeTurn pt tool))" for pt
    unfolding hydrateWithRetry_def
    by (intro keepsI steps_inspect steps_if steps_andThen steps_hydrateLoop
        keeps_steps [OF e(1)] keeps_steps [OF e(2)]) simp
  show ?thesis unfolding processPrompt_def
    by (rule keeps_andThen [OF keeps_probeHydration keeps_bind [OF keeps_prepareTurn run]])
qed

subsection \<open>The event loop\<close>

lemma keeps_clear_timer [keeps_rules]: "keeps R Q clear_timer"
  unfolding clear_timer_def
  by (intro keeps_rules; simp add: calm_defs)

lemma keeps_processPendingChildDigest [keeps_rules]: "keeps R Q processPendingChildDigest"
  unfolding processPendingChildDigest_def
  by (intro keeps_rules; simp add: calm_defs)

lemma keeps_pollAgent [keeps_rules]: "keeps R Q (pollAgent t)"
  unfolding pollAgent_def
  by (intro keeps_rules; simp add: calm_defs)

lemma keeps_pollShutdown [keeps_rules]: "keeps R Q (pollShutdown s ids)"
  unfolding pollShutdown_def
  by (intro keeps_rules; simp add: calm_defs)

lemma keeps_processAgentPoll [keeps_rules]: "keeps R Q processAgentPoll"
  unfolding processAgentPoll_def
  by (intro keeps_rules; simp add: calm_defs)

lemma keeps_processCron [keeps_rules]: "keeps R Q (processCron t)"
  unfolding processCron_def
  by (intro keeps_rules; simp add: calm_defs)

lemma keeps_processTimer [keeps_rules]: "keeps R Q (processTimer t)"
  unfolding processTimer_def
  by (intro keeps_rules; simp add: calm_defs)

lemma keeps_processAnswer [keeps_rules]: "keeps R Q (processAnswer a)"
  unfolding processAnswer_def
  by (intro keeps_rules; simp add: calm_defs)

lemma keeps_interruptWait [keeps_rules]: "keeps R Q (interruptWait t p)"
  unfolding interruptWait_def
  by (intro keeps_rules; simp add: calm_defs)

lemma keeps_interruptCron [keeps_rules]: "keeps R Q (interruptCron t p)"
  unfolding interruptCron_def
  by (intro keeps_rules; simp add: calm_defs)

lemma keeps_interruptForPrompt [keeps_rules]: "keeps R Q (interruptForPrompt p)"
  unfolding interruptForPrompt_def
  by (intro keeps_rules; simp add: calm_defs)

lemma keeps_takeUserPrompt [keeps_rules]: "keeps R Q (takeUserPrompt m p)"
  unfolding takeUserPrompt_def
  by (intro keeps_rules; simp add: calm_defs)

lemma keeps_handleChildUpdate [keeps_rules]: "keeps R Q (handleChildUpdate u)"
  unfolding handleChildUpdate_def
  by (intro keeps_rules; simp add: calm_defs)

lemma keeps_routeMessage [keeps_rules]: "keeps R Q (routeMessage m st seen)"
  unfolding routeMessage_def
  by (intro keeps_rules; simp add: calm_defs)

lemma cand_remaining_nonneg: "nextTimerCandidate w now = Some c \<Longrightarrow> 0 \<le> cand_remaining c"
  by (auto simp: nextTimerCandidate_def timer_remaining_def cand_remaining_def Let_def
      split: option.splits if_splits)

lemma keeps_fireCandidate [keeps_rules]: "keeps R Q (fireCandidate c t)"
proof (cases c)
  case (CandActive r tm)
  then show ?thesis unfolding fireCandidate_def by simp (intro keeps_rules)
next
  case (CandDigest r)
  have "steps R Q w (fireCandidate c t)" for w
    unfolding fireCandidate_def CandDigest timer_candidate.case
    by (intro steps_inspect)
      (auto intro!: steps_andThen steps_ret steps_modify contract_local
        simp: calm_defs split: option.split)
  then show ?thesis by (rule keepsI)
qed

lemma keeps_raceTimer [keeps_rules]: "keeps R Q raceTimer"
proof -
  have "steps R Q w (inspect (\<lambda>w. case nextTimerCandidate w now of
       None \<Rightarrow> ret FetchNothing
     | Some cand \<Rightarrow>
         if cand_remaining cand = 0 then fireCandidate cand now
         else bind (raceDequeue (cand_remaining cand)) (\<lambda>r. case r of
             Some m \<Rightarrow> ret (FetchMessage m)
           | None \<Rightarrow>
               (case cand of
                  CandActive _ _ \<Rightarrow> bind utcNow (fireCandidate cand)
                | CandDigest _ \<Rightarrow> fireCandidate cand now))))" for w now
  proof (rule steps_inspect, cases "nextTimerCandidate w now")
    case None
    then show "steps R Q w (case nextTimerCandidate w now of
       None \<Rightarrow> ret FetchNothing
     | Some cand \<Rightarrow>
         if cand_remaining cand = 0 then fireCandidate cand now
         else bind (raceDequeue (cand_remaining cand)) (\<lambda>r. case r of
             Some m \<Rightarrow> ret (FetchMessage m)
           | None \<Rightarrow>
               (case cand of
                  CandActive _ _ \<Rightarrow> bind utcNow (fireCandidate cand)
                | CandDigest _ \<Rightarrow> fireCandidate cand now)))" by (simp add: steps_ret)
  next
    case (Some cand)
    have race: "keeps R Q (raceDequeue (cand_remaining cand))" if "cand_remaining cand \<noteq> 0"
      using cand_remaining_nonneg [OF Some] that by (intro keeps_raceDequeue) simp
    have "keeps R Q (case cand of
                  CandActive _ _ \<Rightarrow> bind utcNow (fireCandidate cand)
                | CandDigest _ \<Rightarrow> fireCandidate cand now)"
      by (cases cand) (simp_all, (intro keeps_rules)+)
    then show "steps R Q w (case nextTimerCandidate w now of
       None \<Rightarrow> ret FetchNothing
     | Some cand \<Rightarrow>
         if cand_remaining cand = 0 then fireCandidate cand now
         else bind (raceDequeue (cand_remaining cand)) (\<lambda>r. case r of
             Some m \<Rightarrow> ret (FetchMessage m)
           | None \<Rightarrow>
               (case cand of
                  CandActive _ _ \<Rightarrow> bind utcNow (fireCandidate cand)
                | CandDigest _ \<Rightarrow> fireCandidate cand now)))"
      unfolding Some option.case
      by (cases "cand_remaining cand = 0")
        (simp_all, (intro keeps_steps race keeps_rules; assumption?)+)
  qed
  then show ?thesis unfolding raceTimer_def by (intro keeps_bind keeps_utcNow keepsI)
qed

lemma keeps_fetchNext [keeps_rules]: "keeps R Q (fetchNext i)"
proof -
  have "keeps R Q (raceDequeue NON_BLOCKING_TIMER_MS)"
    by (intro keeps_raceDequeue) (simp add: NON_BLOCKING_TIMER_MS_def)
  then show ?thesis unfolding fetchNext_def by (intro keeps_rules; simp add: calm_defs)
qed

lemma keeps_drainLoop [keeps_rules]: "keeps R Q (drainLoop left i stash seen)"
proof (induction left arbitrary: i stash seen)
  case 0
  then show ?case by (simp add: keeps_flushStash)
next
  case (Suc left)
  have "keeps R Q (case n of DGo stash' seen' \<Rightarrow> drainLoop left (Suc i) stash' seen' | DReturn \<Rightarrow> ret ())"
    for n by (cases n) (simp_all add: Suc.IH keeps_ret)
  then have "keeps R Q (case f of
       FetchMessage m \<Rightarrow> bind (routeMessage m stash seen) (\<lambda>n. case n of
           DReturn \<Rightarrow> ret ()
         | DGo stash' seen' \<Rightarrow> drainLoop left (Suc i) stash' seen')
     | FetchTimer t firedAt \<Rightarrow> drainLoop left (Suc i) (stash @ [FTimer t firedAt]) seen
     | FetchNothing \<Rightarrow> drainLoop left (Suc i) stash seen
     | FetchEnd \<Rightarrow> flushStash stash)" for f
    by (cases f) (simp_all add: Suc.IH keeps_flushStash keeps_bind keeps_routeMessage)
  then show ?case by (simp add: keeps_bind keeps_fetchNext)
qed

lemma keeps_drain [keeps_rules]: "keeps R Q drain"
  unfolding drain_def
  by (intro keeps_rules; simp add: calm_defs)

lemma keeps_processItem [keeps_rules]: "keeps R Q (processItem x)"
  unfolding processItem_def by (cases x; simp; intro keeps_rules)

lemma keeps_decideFromBuffer [keeps_rules]: "keeps R Q decideFromBuffer"
  unfolding decideFromBuffer_def
  by (intro keeps_rules; simp add: calm_defs)

lemma keeps_decide [keeps_rules]: "keeps R Q decide"
  unfolding decide_def
  by (intro keeps_rules; simp add: calm_defs)

subsection \<open>The generator\<close>

lemma keeps_reconstructTimer [keeps_rules]: "keeps R Q reconstructTimer"
  unfolding reconstructTimer_def
  by (intro keeps_rules; simp add: calm_defs)

lemma keeps_adoptLegacyMessage [keeps_rules]: "keeps R Q adoptLegacyMessage"
  unfolding adoptLegacyMessage_def
  by (intro keeps_local) (auto simp: calm_defs split: option.split)

lemma keeps_enforcePolicy [keeps_rules]: "keeps R Q enforcePolicy"
  unfolding enforcePolicy_def
  by (intro keeps_rules keeps_manager; simp add: calm_defs)

lemma keeps_bindNamedAgent [keeps_rules]: "keeps R Q bindNamedAgent"
  unfolding bindNamedAgent_def
  by (intro keeps_rules; simp add: calm_defs Let_def)

lemma keeps_setAgentIdentity [keeps_rules]: "keeps R Q setAgentIdentity"
  unfolding setAgentIdentity_def
  by (intro keeps_rules; simp add: calm_defs)

lemma keeps_historyTooLarge [keeps_rules]: "keeps R Q historyTooLarge"
  unfolding historyTooLarge_def
  by (intro keeps_rules keeps_manager; simp add: calm_defs)

lemma keeps_loopBody [keeps_rules]: "keeps R Q next \<Longrightarrow> keeps R Q (loopBody next)"
  unfolding loopBody_def by (intro keeps_rules)

lemma keeps_mainLoop [keeps_rules]: "keeps R Q (mainLoop left)"
proof (induction left)
  case 0
  then show ?case by (simp add: keeps_continueWith)
next
  case (Suc left)
  then show ?case unfolding mainLoop.simps by (intro keeps_rules)
qed

lemma keeps_orchestrate [keeps_rules]: "keeps R Q orchestrate"
  unfolding orchestrate_def
  by (intro keeps_rules; simp add: calm_defs)

text \<open>The contract holds between the start of an execution and wherever it stops.\<close>

lemma durable: "R (initial_state i m h) (snd (durableSession i m h))"
  unfolding durableSession_def by (rule keepsD [OF keeps_orchestrate])

lemma durable_halt: "durableSession i m h = (Stop x, w) \<Longrightarrow> Q x w"
  unfolding durableSession_def by (rule keeps_halt [OF keeps_orchestrate])

end

end
