(* ===== verification/Guarantees.thy ===== *)
theory Guarantees
  imports Contracts
begin

text \<open>
  What the contract gives for whole executions and for chains of executions linked by
  continue-as-new: interpretations of the locale for each relation of interest.
\<close>

lemma session_initial [simp]:
  "v_session (initial_state i m h) = v_affinityKey (initial_state i m h)"
  by simp

lemma perform_effect:
  "inp (snd (perform e w)) = inp w" "kv (snd (perform e w)) = kv w"
  "trace (snd (perform e w)) = trace w @ [e]" "v_iteration (snd (perform e w)) = v_iteration w"
  "v_contextUsage (snd (perform e w)) = v_contextUsage w"
  "digest_updates (snd (perform e w)) = digest_updates w"
  "v_session (snd (perform e w)) = v_session w"
  "v_affinityKey (snd (perform e w)) = v_affinityKey w"
  by (simp_all add: perform_def digest_updates_def split: list.split)

lemma buffer_effect:
  "bufferChildUpdate u t w = (Ret (), w') \<Longrightarrow>
     inp w' = inp w \<and> kv w' = kv w \<and> trace w' = trace w \<and> history w' = history w \<and>
     v_iteration w' = v_iteration w \<and> v_contextUsage w' = v_contextUsage w \<and>
     v_session w' = v_session w \<and> v_affinityKey w' = v_affinityKey w \<and>
     digest_updates w' = put_entry (digest_entry_of u t) (digest_updates w)"
  by (cases "v_pendingChildDigest w")
    (auto simp: bufferChildUpdate_def modify_def Let_def digest_updates_def default_to_def)

lemma buffer_returns: "\<exists>w'. bufferChildUpdate u t w = (Ret (), w')"
  by (simp add: bufferChildUpdate_def modify_def)

lemma keeps_buffer:
  "(\<And>w w'. bufferChildUpdate u t w = (Ret (), w') \<Longrightarrow> R w w') \<Longrightarrow>
     keeps R Q (bufferChildUpdate u t)"
proof (rule keepsI)
  fix s
  assume r: "\<And>w w'. bufferChildUpdate u t w = (Ret (), w') \<Longrightarrow> R w w'"
  obtain s' where "bufferChildUpdate u t s = (Ret (), s')" using buffer_returns by blast
  with r show "steps R Q s (bufferChildUpdate u t)" by (simp add: steps_def)
qed

subsection \<open>Where an execution can halt\<close>

definition halts_well :: "halt \<Rightarrow> orch \<Rightarrow> bool" where
  "halts_well x w = (case x of
     Suspended \<Rightarrow> history w = [] \<and> (\<exists>before e. awaited e \<and> trace w = before @ [e])
   | BadHistory \<Rightarrow> True
   | ContinuedAsNew j \<Rightarrow> continues w j)"

text \<open>The trace grows by safe effects; each consumed response answers one awaited effect.\<close>

definition awaited_count :: "effect list \<Rightarrow> nat" where
  "awaited_count es = length (filter awaited es)"

definition replays :: "orch \<Rightarrow> orch \<Rightarrow> bool" where
  "replays w w' \<longleftrightarrow> inp w' = inp w \<and>
     (\<exists>new used. trace w' = trace w @ new \<and> history w = used @ history w' \<and>
        list_all (safe_effect (inp w)) new \<and> length used \<le> awaited_count new \<and>
        (history w' \<noteq> [] \<longrightarrow> length used = awaited_count new))"

lemma replaysI:
  "inp w' = inp w \<Longrightarrow> trace w' = trace w @ new \<Longrightarrow> history w = used @ history w' \<Longrightarrow>
   list_all (safe_effect (inp w)) new \<Longrightarrow> length used \<le> awaited_count new \<Longrightarrow>
   (history w' \<noteq> [] \<Longrightarrow> length used = awaited_count new) \<Longrightarrow> replays w w'"
  unfolding replays_def by blast

lemma replays_trans: "replays s t \<Longrightarrow> replays t u \<Longrightarrow> replays s u"
proof -
  assume "replays s t" "replays t u"
  then obtain n1 u1 n2 u2 where a:
      "inp t = inp s" "trace t = trace s @ n1" "history s = u1 @ history t"
      "list_all (safe_effect (inp s)) n1" "length u1 \<le> awaited_count n1"
      "history t \<noteq> [] \<longrightarrow> length u1 = awaited_count n1"
    and b: "inp u = inp t" "trace u = trace t @ n2" "history t = u2 @ history u"
      "list_all (safe_effect (inp t)) n2" "length u2 \<le> awaited_count n2"
      "history u \<noteq> [] \<longrightarrow> length u2 = awaited_count n2"
    unfolding replays_def by blast
  show "replays s u"
    by (rule replaysI [of _ _ "n1 @ n2" "u1 @ u2"]) (use a b in \<open>auto simp: awaited_count_def\<close>)
qed

lemma replays_same:
  "inp w' = inp w \<Longrightarrow> trace w' = trace w \<Longrightarrow> history w' = history w \<Longrightarrow> replays w w'"
  by (rule replaysI [of _ _ "[]" "[]"]) (auto simp: awaited_count_def)

lemma replays_ask: "safe_effect (inp w) e \<Longrightarrow> awaited e \<Longrightarrow> replays w (snd (perform e w))"
proof (cases "history w")
  case Nil
  then show "safe_effect (inp w) e \<Longrightarrow> awaited e \<Longrightarrow> replays w (snd (perform e w))"
    by (intro replaysI [of _ _ "[e]" "[]"]) (auto simp: perform_def awaited_count_def)
next
  case (Cons r rs)
  then show "safe_effect (inp w) e \<Longrightarrow> awaited e \<Longrightarrow> replays w (snd (perform e w))"
    by (intro replaysI [of _ _ "[e]" "[r]"]) (auto simp: perform_def awaited_count_def)
qed

interpretation run: orch_contract replays halts_well
proof
  show "replays s s" for s by (rule replays_same) simp_all
  show "replays s t \<Longrightarrow> replays t u \<Longrightarrow> replays s u" for s t u by (rule replays_trans)
  show "replays w w' \<Longrightarrow> inp w' = inp w" for w w' by (simp add: replays_def)
  show "calm w w' \<Longrightarrow> replays w w'" for w w' by (rule replays_same) (simp_all add: calm_def)
  show "safe_effect (inp w) e \<Longrightarrow> \<not> awaited e \<Longrightarrow> replays w (w\<lparr>trace := trace w @ [e]\<rparr>)" for w e
    by (rule replaysI [of _ _ "[e]" "[]"]) (auto simp: awaited_count_def)
  show "safe_effect (inp w) e \<Longrightarrow> awaited e \<Longrightarrow> replays w (snd (perform e w))" for w e
    by (rule replays_ask)
  show "replays w (w\<lparr>kv := m\<rparr>)" for w m by (rule replays_same) simp_all
  show "replays w (w\<lparr>v_contextUsage := updateContextUsageFromEvents (v_contextUsage w) evs now\<rparr>)"
    for w evs now by (rule replays_same) simp_all
  show "replays w (w\<lparr>v_iteration := v_iteration w + 1\<rparr>)" for w by (rule replays_same) simp_all
  show "history w = [] \<Longrightarrow> awaited e \<Longrightarrow> halts_well Suspended (snd (perform e w))" for w e
    by (auto simp: halts_well_def perform_def)
  show "halts_well BadHistory w" for w by (simp add: halts_well_def)
  show "continues w j \<Longrightarrow> halts_well (ContinuedAsNew j) w" for w j by (simp add: halts_well_def)
  show "keeps replays halts_well (publish k slot f g)" if "\<And>v w. calm w (g v w)" for k slot f g
  proof (rule keeps_publishI)
    show "replays w (snd (publish k slot f g w))" for w
    proof (cases "history w")
      case Nil
      then show ?thesis
        by (intro replaysI [of _ _ "[EUtcNow]" "[]"]) (auto simp: publish_run awaited_count_def Let_def)
    next
      case (Cons r rs)
      then show ?thesis using that
        by (intro replaysI [of _ _ "[EUtcNow]" "[r]"])
           (auto simp: publish_run awaited_count_def Let_def calm_def split: resp.split)
    qed
    show "fst (publish k slot f g w) = Stop x \<Longrightarrow> halts_well x (snd (publish k slot f g w))" for w x
      by (auto simp: publish_run Let_def halts_well_def split: list.splits resp.splits)
  qed
  show "keeps replays halts_well (bufferChildUpdate u now)" for u now
    by (rule keeps_buffer, rule replays_same) (auto dest: buffer_effect)
qed

subsection \<open>What the store and the tracked variables keep\<close>

text \<open>One relation per concern; a response, an effect or a local assignment keeps them all.\<close>

text \<open>
  What has become of the store: the counters have not gone back, and a slot whose content has changed
  holds a publication that carries a version above the old counter and not above the new one.
\<close>

definition response_version :: "kv_value \<Rightarrow> nat option" where
  "response_version x = (case x of KvResponse r \<Rightarrow> Some (sr_version r) | _ \<Rightarrow> None)"

definition answer_version :: "string \<Rightarrow> kv_value \<Rightarrow> nat option" where
  "answer_version c x = (case x of
     KvCommand r \<Rightarrow> if cr_id (scr_response r) = c then Some (scr_version r) else None | _ \<Rightarrow> None)"

definition kept_or_new ::
  "nat \<Rightarrow> nat \<Rightarrow> (kv_value \<Rightarrow> nat option) \<Rightarrow> kv_value option \<Rightarrow> kv_value option \<Rightarrow> bool" where
  "kept_or_new low high ver x y \<longleftrightarrow> y = x \<or> (\<exists>z v. y = Some z \<and> ver z = Some v \<and> low < v \<and> v \<le> high)"

definition published_since :: "kv_map \<Rightarrow> kv_map \<Rightarrow> bool" where
  "published_since m n \<longleftrightarrow>
     (let r0 = counter_of m RESPONSE_VERSION_KEY; r1 = counter_of n RESPONSE_VERSION_KEY;
          c0 = counter_of m COMMAND_VERSION_KEY; c1 = counter_of n COMMAND_VERSION_KEY in
      r0 \<le> r1 \<and> c0 \<le> c1 \<and>
      kept_or_new r0 r1 response_version (m RESPONSE_LATEST_KEY) (n RESPONSE_LATEST_KEY) \<and>
      (\<forall>c. kept_or_new c0 c1 (answer_version c) (m (commandResponseKey c)) (n (commandResponseKey c))))"

lemma kept_or_new_same [simp]: "kept_or_new a b ver x x"
  by (simp add: kept_or_new_def)

lemma kept_or_new_trans:
  "kept_or_new a b ver x y \<Longrightarrow> kept_or_new b c ver y z \<Longrightarrow> a \<le> b \<Longrightarrow> b \<le> c \<Longrightarrow> kept_or_new a c ver x z"
  by (fastforce simp: kept_or_new_def)

lemma published_refl: "published_since m m"
  by (simp add: published_since_def Let_def)

lemma published_trans: "published_since l m \<Longrightarrow> published_since m n \<Longrightarrow> published_since l n"
  unfolding published_since_def Let_def
  by (elim conjE, intro conjI allI) (erule (1) order.trans | (erule (1) kept_or_new_trans; assumption) |
      (erule allE, erule allE, erule (1) kept_or_new_trans; assumption))+

lemma response_keys_not_fifo [simp]:
  "RESPONSE_LATEST_KEY \<noteq> fifoBucketKey i" "commandResponseKey c \<noteq> fifoBucketKey i"
  by (simp_all add: RESPONSE_LATEST_KEY_def commandResponseKey_def fifoBucketKey_def)

lemma published_step: "kv_step m n \<Longrightarrow> published_since m n"
proof -
  assume "kv_step m n"
  then have "n RESPONSE_VERSION_KEY = m RESPONSE_VERSION_KEY" "n COMMAND_VERSION_KEY = m COMMAND_VERSION_KEY"
    "n RESPONSE_LATEST_KEY = m RESPONSE_LATEST_KEY" "\<And>c. n (commandResponseKey c) = m (commandResponseKey c)"
    by (simp_all add: kv_step_def)
  then show ?thesis by (simp add: published_since_def counter_of_def)
qed

lemma published_bump:
  "publishing k slot f \<Longrightarrow> published_since m (m(k \<mapsto> KvCounter (counter_of m k + 1)))"
  by (auto simp: publishing_def published_since_def Let_def)

lemma published_stored:
  assumes "publishing k slot f"
  shows "published_since m (m(k \<mapsto> KvCounter (counter_of m k + 1), slot \<mapsto> f (counter_of m k + 1) t w))"
proof -
  from assms consider
      r where "k = RESPONSE_VERSION_KEY" "slot = RESPONSE_LATEST_KEY" "f (counter_of m k + 1) t w = KvResponse r"
        "sr_version r = counter_of m k + 1"
    | c r where "k = COMMAND_VERSION_KEY" "slot = commandResponseKey c" "f (counter_of m k + 1) t w = KvCommand r"
        "scr_version r = counter_of m k + 1" "cr_id (scr_response r) = c"
    unfolding publishing_def by metis
  then show ?thesis
    by cases (auto simp: published_since_def Let_def kept_or_new_def response_version_def answer_version_def
        key_neqs key_neqs(6) [symmetric])
qed

definition session_bound :: "orch \<Rightarrow> bool" where
  "session_bound w \<longleftrightarrow> v_session w = v_affinityKey w"

definition digest_ok :: "digest_entry list \<Rightarrow> bool" where
  "digest_ok us \<longleftrightarrow> distinct (map de_sessionId us)"

definition usage_valid :: "context_usage option \<Rightarrow> bool" where
  "usage_valid u \<longleftrightarrow> (case u of None \<Rightarrow> True | Some c \<Rightarrow> usage_ok c)"

definition keeps_state :: "orch \<Rightarrow> orch \<Rightarrow> bool" where
  "keeps_state w w' \<longleftrightarrow>
     inp w' = inp w \<and> published_since (kv w) (kv w') \<and> v_iteration w \<le> v_iteration w' \<and>
     (session_bound w \<longrightarrow> session_bound w') \<and>
     (digest_ok (digest_updates w) \<longrightarrow> digest_ok (digest_updates w')) \<and>
     (usage_valid (v_contextUsage w) \<longrightarrow> usage_valid (v_contextUsage w'))"

lemma put_entry_ok: "digest_ok us \<Longrightarrow> digest_ok (put_entry e us)"
proof -
  have ids: "map de_sessionId (update_first (\<lambda>x. de_sessionId x = de_sessionId e) (\<lambda>_. e) us) =
      map de_sessionId us" for us
    by (induction us) auto
  show "digest_ok us \<Longrightarrow> digest_ok (put_entry e us)"
    by (auto simp: digest_ok_def put_entry_def ids list_ex_iff)
qed

lemma usage_valid_update:
  "usage_valid u \<Longrightarrow> usage_valid (updateContextUsageFromEvents u evs now)"
proof (cases "updateContextUsageFromEvents u evs now")
  case (Some c)
  assume "usage_valid u"
  then have "\<forall>p. u = Some p \<longrightarrow> usage_ok p" by (simp add: usage_valid_def split: option.splits)
  then have "usage_ok c" using Some by (rule update_usage_ok)
  with Some show ?thesis by (simp add: usage_valid_def)
qed (simp add: usage_valid_def)

lemma keeps_stateI:
  "inp w' = inp w \<Longrightarrow> kv w' = kv w \<Longrightarrow> v_iteration w \<le> v_iteration w' \<Longrightarrow>
   (session_bound w \<Longrightarrow> session_bound w') \<Longrightarrow>
   (digest_ok (digest_updates w) \<Longrightarrow> digest_ok (digest_updates w')) \<Longrightarrow>
   (usage_valid (v_contextUsage w) \<Longrightarrow> usage_valid (v_contextUsage w')) \<Longrightarrow> keeps_state w w'"
  by (simp add: keeps_state_def published_refl)

interpretation state: orch_contract keeps_state "\<lambda>x w. True"
proof
  show "keeps_state s s" for s by (rule keeps_stateI) simp_all
  show "keeps_state s t \<Longrightarrow> keeps_state t u \<Longrightarrow> keeps_state s u" for s t u
    by (auto simp: keeps_state_def intro: published_trans)
  show "keeps_state w w' \<Longrightarrow> inp w' = inp w" for w w' by (simp add: keeps_state_def)
  show "calm w w' \<Longrightarrow> keeps_state w w'" for w w'
    by (rule keeps_stateI) (auto simp: calm_def session_bound_def digest_ok_def)
  show "keeps_state w (w\<lparr>trace := trace w @ [e]\<rparr>)" for w e
    by (rule keeps_stateI) (simp_all add: session_bound_def digest_updates_def)
  show "keeps_state w (snd (perform e w))" for w e
    by (rule keeps_stateI) (simp_all add: perform_effect session_bound_def)
  show "kv_step (kv w) m \<Longrightarrow> keeps_state w (w\<lparr>kv := m\<rparr>)" for w m
    by (auto simp: keeps_state_def published_step session_bound_def digest_updates_def)
  show "keeps_state w (w\<lparr>v_contextUsage := updateContextUsageFromEvents (v_contextUsage w) evs now\<rparr>)"
    for w evs now
    by (rule keeps_stateI) (simp_all add: session_bound_def digest_updates_def usage_valid_update)
  show "keeps_state w (w\<lparr>v_iteration := v_iteration w + 1\<rparr>)" for w
    by (rule keeps_stateI) (simp_all add: session_bound_def digest_updates_def)
  show "True" ..
  show "True" ..
  show "True" ..
  show "keeps keeps_state (\<lambda>x w. True) (publish k slot f g)"
    if "publishing k slot f" "\<And>v w. calm w (g v w)" for k slot f g
  proof (rule keeps_publishI)
    show "keeps_state w (snd (publish k slot f g w))" for w
    proof (cases "\<exists>t rs. history w = RInt t # rs")
      case True
      then obtain t rs where h: "history w = RInt t # rs" by blast
      let ?m = "(kv w)(k \<mapsto> KvCounter (counter_of (kv w) k + 1))"
      let ?w = "w\<lparr>kv := ?m, trace := trace w @ [EUtcNow], history := rs\<rparr>"
      let ?n = "?m(slot \<mapsto> f (counter_of (kv w) k + 1) t ?w)"
      have c: "calm (?w\<lparr>kv := ?n\<rparr>) (g (counter_of (kv w) k + 1) (?w\<lparr>kv := ?n\<rparr>))" by (rule that(2))
      have p: "published_since (kv w) ?n" by (rule published_stored [OF that(1)])
      show ?thesis using c p
        by (auto simp: publish_run h keeps_state_def calm_def session_bound_def digest_ok_def digest_updates_def)
    next
      case False
      then have "snd (publish k slot f g w) =
          w\<lparr>kv := (kv w)(k \<mapsto> KvCounter (counter_of (kv w) k + 1)), trace := trace w @ [EUtcNow],
            history := tl (history w)\<rparr>"
        by (auto simp: publish_run Let_def split: list.split resp.split)
      then show ?thesis using published_bump [OF that(1), of "kv w"]
        by (simp add: keeps_state_def session_bound_def digest_updates_def)
    qed
  qed simp
  show "keeps keeps_state (\<lambda>x w. True) (bufferChildUpdate u now)" for u now
    by (rule keeps_buffer, rule keeps_stateI)
      (auto dest!: buffer_effect simp: session_bound_def put_entry_ok)
qed

subsection \<open>The life of a session\<close>

text \<open>
  A session is a chain of executions: each one that continues as new starts the next on the
  input it handed over and the store it left.
\<close>

definition next_execution :: "orch_input \<times> kv_map \<Rightarrow> orch_input \<times> kv_map \<Rightarrow> bool" where
  "next_execution p q \<longleftrightarrow>
     (\<exists>h w. durableSession (fst p) (snd p) h = (Stop (ContinuedAsNew (fst q)), w) \<and> snd q = kv w)"

inductive lifetime :: "orch_input \<times> kv_map \<Rightarrow> orch_input \<times> kv_map \<Rightarrow> bool" for p where
  life_start: "lifetime p p"
| life_next: "lifetime p q \<Longrightarrow> next_execution q r \<Longrightarrow> lifetime p r"

inductive_cases lifetimeE: "lifetime p q"

lemma next_executionE:
  assumes "next_execution (i, m) (j, n)"
  obtains h w where "durableSession i m h = (Stop (ContinuedAsNew j), w)" "n = kv w"
    "continues w j" "keeps_state (initial_state i m h) w" "inp w = i"
proof -
  from assms obtain h w where d: "durableSession i m h = (Stop (ContinuedAsNew j), w)" "n = kv w"
    unfolding next_execution_def by auto
  moreover have "continues w j" using run.durable_halt [OF d(1)] by (simp add: halts_well_def)
  moreover have k: "keeps_state (initial_state i m h) w" using state.durable [of i m h] d(1) by simp
  moreover have "inp w = i" using k by (simp add: keeps_state_def)
  ultimately show thesis by (rule that)
qed

lemma same_identity_trans: "same_identity i j \<Longrightarrow> same_identity j k \<Longrightarrow> same_identity i k"
  by (simp add: same_identity_def)

definition life_keeps :: "orch_input \<times> kv_map \<Rightarrow> orch_input \<times> kv_map \<Rightarrow> bool" where
  "life_keeps p q \<longleftrightarrow>
     same_identity (fst p) (fst q) \<and>
     published_since (snd p) (snd q) \<and>
     default_to (in_iteration (fst p)) 0 \<le> default_to (in_iteration (fst q)) 0 \<and>
     (usage_valid (in_contextUsage (fst p)) \<longrightarrow> usage_valid (in_contextUsage (fst q)))"

lemma life_keeps_trans: "life_keeps p q \<Longrightarrow> life_keeps q r \<Longrightarrow> life_keeps p r"
  unfolding life_keeps_def
  using published_trans [of "snd p" "snd q" "snd r"] same_identity_trans [of "fst p" "fst q" "fst r"]
  by simp

lemma life_keeps_next:
  assumes "next_execution (i, m) (j, n)"
  shows "life_keeps (i, m) (j, n)"
proof -
  obtain h w where d: "n = kv w" "continues w j" "keeps_state (initial_state i m h) w" "inp w = i"
    using assms by (rule next_executionE)
  have "usage_valid (in_contextUsage i) \<longrightarrow> usage_valid (in_contextUsage j)"
    using d(2,3) by (simp add: keeps_state_def continues_def hands_over_def cloneContextUsage_def)
  with d show ?thesis
    by (simp add: life_keeps_def keeps_state_def continues_def hands_over_def default_to_def)
qed

lemma lifetime_keeps: "lifetime p q \<Longrightarrow> life_keeps p q"
proof (induction rule: lifetime.induct)
  case life_start
  show ?case by (simp add: life_keeps_def same_identity_def published_refl)
next
  case (life_next q r)
  then have "life_keeps q r" using life_keeps_next [of "fst q" "snd q" "fst r" "snd r"] by simp
  with life_next.IH show ?case by (rule life_keeps_trans)
qed

subsection \<open>Examples of runs\<close>

definition system_input :: "string \<Rightarrow> orch_input" where
  "system_input sid = (blank_input sid)\<lparr>in_isSystem := Some True\<rparr>"

lemma system_fields [simp]:
  "in_isSystem (system_input s) = Some True" "in_sessionId (system_input s) = s"
  "in_config (system_input s) = blank_config" "in_iteration (system_input s) = None"
  "in_contextUsage (system_input s) = None" "in_pendingChildDigest (system_input s) = None"
  "in_activeTimerState (system_input s) = None" "in_pendingMessage (system_input s) = None"
  "in_agentId (system_input s) = None" "in_taskContext (system_input s) = None"
  "in_prompt (system_input s) = None" "in_pendingToolActions (system_input s) = None"
  "in_pendingInputQuestion (system_input s) = None" "in_needsHydration (system_input s) = None"
  "in_blobEnabled (system_input s) = None"
  "isSystem (system_input s)" "parentSessionId (system_input s) = None"
  "blobEnabled (system_input s) = False"
  by (simp_all add: system_input_def isSystem_def parentSessionId_def blobEnabled_def default_to_def)

lemma orchestrate_system:
  "durableSession (system_input s) m h = mainLoop 10 (initial_state (system_input s) m h)"
  by (simp add: durableSession_def orchestrate_def run_simps reconstructTimer_def
      adoptLegacyMessage_def enforcePolicy_def bindNamedAgent_def setAgentIdentity_def truthy_def
      MAX_ITERATIONS_PER_EXECUTION_def del: doing.simps cong: run_congs)

text \<open>The state in which a fresh session routes its first message.\<close>

definition woken :: "string \<Rightarrow> message \<Rightarrow> resp list \<Rightarrow> orch" where
  "woken s x rs = (let w = initial_state (system_input s) Map.empty (RMessage x # rs) in
     w\<lparr>trace := [EStatus (base_signal w Idle), EDequeue], history := rs\<rparr>)"

lemma first_message:
  assumes "routeMessage x [] [] (woken s x rs) = (Stop y, w)"
  shows "durableSession (system_input s) Map.empty (RMessage x # rs) = (Stop y, w)"
  unfolding orchestrate_system using assms
  by (simp add: mainLoop_10 loopBody_def drain_def MAX_DRAIN_PER_TURN_def drainLoop_numeral
      run_simps fetchNext_def publishStatus_def runtime_defs needsBlockingDequeue_def woken_def Let_def
      hasFifoItems_empty readFifoBucket_def truthy_def default_to_def
      del: doing.simps cong: run_congs)

lemma woken_fields [simp]:
  "history (woken s x rs) = rs" "inp (woken s x rs) = system_input s" "kv (woken s x rs) = Map.empty"
  "v_activeTimer (woken s x rs) = None" "v_config (woken s x rs) = blank_config"
  "v_needsHydration (woken s x rs) = False"
  by (simp_all add: woken_def Let_def default_to_def start_config_def truthy_def)

definition set_model_reply :: "resp list" where
  "set_model_reply = [RMessage (command_to ''set_model'' ''c1'' [(''model'', JStr ''m'')]), RUnit, RInt 5, RUnit]"

text \<open>The store holds the answer to a command under version 1.\<close>

definition answered_once :: "string \<Rightarrow> kv_map \<Rightarrow> bool" where
  "answered_once c m = (counter_of m COMMAND_VERSION_KEY = 1 \<and>
     (case m (commandResponseKey c) of
        Some (KvCommand r) \<Rightarrow> scr_version r = 1 \<and> cr_id (scr_response r) = c | _ \<Rightarrow> False))"

lemma set_model_run:
  "\<exists>j w. durableSession (system_input ''s'') Map.empty set_model_reply = (Stop (ContinuedAsNew j), w) \<and>
     c_model (in_config j) = Some ''m'' \<and>
     answered_once ''c1'' (kv w)"
proof -
  let ?c = "command_to ''set_model'' ''c1'' [(''model'', JStr ''m'')]"
  let ?w = "woken ''s'' ?c [RUnit, RInt 5, RUnit]"
  have "\<exists>j w. routeMessage ?c [] [] ?w = (Stop (ContinuedAsNew j), w) \<and>
     c_model (in_config j) = Some ''m'' \<and> answered_once ''c1'' (kv w)"
    by (simp add: routeMessage_def flushStash_def handleCommand_def setModelCommand_def respond_def
      writeCommandResponse_def bumpCounter_def readCounter_def setValue_def command_of_def
      command_to_def arg_text_def counter_of_def key_neqs answered_once_def
      continueWith_def versionedContinueAsNew_def ensureWarmResumeCheckpoint_def
      run_simps publishStatus_def runtime_defs default_to_def continueInput_def Let_def
      del: doing.simps cong: run_congs)
  then show ?thesis unfolding set_model_reply_def using first_message by blast
qed

lemma sample_life:
  "\<exists>j m. lifetime (system_input ''s'', Map.empty) (j, m) \<and> c_model (in_config j) = Some ''m'' \<and>
     answered_once ''c1'' m"
  using set_model_run life_next [OF life_start] unfolding next_execution_def by fastforce

subsection \<open>Properties of one execution\<close>

text \<open>
  C1: Whatever the runtime answers, an execution asks only for effects its session may ask for:
  a spawned child is one level deeper than its parent and at most at level 2, hydration and
  checkpoints are requested only with blob persistence, timers are positive, turns run with the
  session's own parent and level, and continue-as-new goes to the latest version with the
  session's identity unchanged.
\<close>

theorem effects_are_safe: "list_all (safe_effect i) (trace (snd (durableSession i m h)))"
  using run.durable [of i m h] by (auto simp: replays_def)

text \<open>
  Where an execution stops for good: it is suspended only at an awaited effect with the whole
  history consumed, and when it continues as new, its last effect hands the current values of its
  variables to the next execution.
\<close>

theorem halting_points:
  "case durableSession i m h of (Stop x, w) \<Rightarrow> halts_well x w | (Ret r, w) \<Rightarrow> True | (Throw e, w) \<Rightarrow> True"
  using run.durable_halt [of i m h] by (auto split: prod.split outcome.split)

text \<open>
  What an execution begins with, compared with what its predecessor ended with.
\<close>

definition carries_over :: "orch \<Rightarrow> orch \<Rightarrow> bool" where
  "carries_over w s \<longleftrightarrow>
     v_iteration s = v_iteration w \<and> v_affinityKey s = v_affinityKey w \<and>
     v_preserveAffinity s = v_preserveAffinity w \<and> v_taskContext s = v_taskContext w \<and>
     v_cronSchedule s = v_cronSchedule w \<and> v_contextUsage s = v_contextUsage w \<and>
     v_subAgents s = v_subAgents w \<and> v_pendingToolActions s = v_pendingToolActions w \<and>
     v_nextSummarizeAt s = v_nextSummarizeAt w \<and> v_waitingForAgentIds s = v_waitingForAgentIds w \<and>
     v_pendingInputQuestion s = v_pendingInputQuestion w \<and>
     v_interruptedWaitTimer s = v_interruptedWaitTimer w \<and>
     v_interruptedCronTimer s = v_interruptedCronTimer w \<and>
     v_pendingChildDigest s = v_pendingChildDigest w \<and> v_pendingShutdown s = v_pendingShutdown w"

text \<open>The configuration; where there is a recurring task, its block is put into the system message.\<close>

definition config_carried :: "orch \<Rightarrow> orch \<Rightarrow> bool" where
  "config_carried w s \<longleftrightarrow>
     v_config s = (if truthy (v_taskContext w)
       then (v_config w)\<lparr>c_systemMessage :=
          Some (recurring_message (baseSystemMessage (inp s)) (or_str (v_taskContext w) []))\<rparr>
       else v_config w)"

text \<open>The limits and the identity, as the execution derives them from its input.\<close>

definition limits_carried :: "orch_input \<Rightarrow> orch_input \<Rightarrow> bool" where
  "limits_carried i j \<longleftrightarrow> same_identity i j \<and> in_baseSystemMessage j = baseSystemMessage i"

text \<open>The armed timer, with the time that was left when it was handed over.\<close>

definition timer_carried :: "orch \<Rightarrow> orch_input \<Rightarrow> bool" where
  "timer_carried w j \<longleftrightarrow> (case (v_activeTimer w, in_activeTimerState j) of
       (None, None) \<Rightarrow> True
     | (Some t, Some s) \<Rightarrow> (\<exists>now. s = carry_timer now t)
     | _ \<Rightarrow> False)"



text \<open>
  C4: The session proxy is always the one of the current affinity key: turns, checkpoints and
  hydrations go to the worker the orchestration believes it is bound to.
\<close>

theorem session_follows_affinity:
  "v_session (snd (durableSession i m h)) = v_affinityKey (snd (durableSession i m h))"
  using state.durable [of i m h] by (simp add: keeps_state_def session_bound_def)

text \<open>
  C5: The batch of child updates holds at most one entry per child session, in every execution
  that starts with such a batch.
\<close>

theorem digest_one_entry_per_child:
  assumes "distinct (map de_sessionId (digest_updates (initial_state i m h)))"
  shows "distinct (map de_sessionId (digest_updates (snd (durableSession i m h))))"
proof -
  have "digest_ok (digest_updates (snd (durableSession i m h)))"
    using assms state.durable [of i m h] by (simp add: keeps_state_def digest_ok_def)
  then show ?thesis by (simp add: digest_ok_def)
qed

definition sample_digest :: child_digest where
  "sample_digest = \<lparr> cd_startedAtMs = 0, cd_ready = False, cd_updates =
     [\<lparr> de_sessionId = ''a'', de_updateType = ''completed'', de_content = None, de_observedAtMs = 0 \<rparr>,
      \<lparr> de_sessionId = ''b'', de_updateType = ''wait'', de_content = None, de_observedAtMs = 1 \<rparr>] \<rparr>"

theorem digest_one_entry_per_child_witness:
  "distinct (map de_sessionId (digest_updates (snd (durableSession
      ((blank_input ''s'')\<lparr>in_pendingChildDigest := Some sample_digest\<rparr>) Map.empty [RInt 40000]))))"
  by (rule digest_one_entry_per_child)
     (simp add: sample_digest_def digest_updates_def initial_state_def)

subsection \<open>Properties of a session's life\<close>

text \<open>
  C2: Publications carry new versions. Over any number of executions, and into a further one cut off
  anywhere, the response counter and the command counter never go back; and wherever the latest
  response, or the answer to a command, differs from the one stored at the start, it carries a version
  above the counter of the start and not above the present one - the answer to a command under that
  command's own id. So a client that has read everything up to the counter and asks for a higher
  version is given whatever is published next.
\<close>

theorem publications_carry_new_versions:
  assumes "lifetime (i, m) (j, n)"
  shows "published_since m (kv (snd (durableSession j n h)))"
  using lifetime_keeps [OF assms] state.durable [of j n h]
  by (auto simp: life_keeps_def keeps_state_def intro: published_trans)

theorem publications_carry_new_versions_witness:
  "\<exists>j n. lifetime (system_input ''s'', Map.empty) (j, n) \<and> answered_once ''c1'' n \<and>
     published_since Map.empty (kv (snd (durableSession j n [])))"
  using sample_life publications_carry_new_versions by blast

text \<open>
  C3: The identity of a session is the same in all its executions: its id, parent, nesting level,
  system flag and the policy values it was started with; its turn counter never goes back.
\<close>

theorem identity_is_permanent:
  assumes "lifetime (i, m) (j, n)"
  shows "same_identity i j \<and> default_to (in_iteration i) 0 \<le> default_to (in_iteration j) 0"
  using lifetime_keeps [OF assms] by (simp add: life_keeps_def)

theorem identity_is_permanent_witness:
  "\<exists>j :: orch_input. c_model (in_config j) = Some ''m'' \<and> same_identity (system_input ''s'') j \<and>
     default_to (in_iteration (system_input ''s'')) 0 \<le> default_to (in_iteration j) 0"
proof -
  obtain j n where l: "lifetime (system_input ''s'', Map.empty) (j, n)" "c_model (in_config j) = Some ''m''"
    "answered_once ''c1'' n"
    using sample_life by blast
  show ?thesis using identity_is_permanent [OF l(1)] l(2,3)
    by blast
qed

text \<open>
  C6: The context-usage snapshot that a session hands from execution to execution always states
  the utilization its own token counts give.
\<close>

theorem usage_stays_consistent:
  assumes "lifetime (i, m) (j, n)" and "in_contextUsage i = None"
  shows "case in_contextUsage j of None \<Rightarrow> True
         | Some u \<Rightarrow> cu_utilization u = utilization_of (cu_currentTokens u) (cu_tokenLimit u)"
  using lifetime_keeps [OF assms(1)] assms(2)
  by (simp add: life_keeps_def usage_valid_def usage_ok_def split: option.splits)

theorem usage_stays_consistent_witness:
  "\<exists>j :: orch_input. c_model (in_config j) = Some ''m'' \<and>
     (case in_contextUsage j of None \<Rightarrow> True
      | Some u \<Rightarrow> cu_utilization u = utilization_of (cu_currentTokens u) (cu_tokenLimit u))"
proof -
  obtain j n where l: "lifetime (system_input ''s'', Map.empty) (j, n)" "c_model (in_config j) = Some ''m''"
    "answered_once ''c1'' n"
    using sample_life by blast
  show ?thesis using usage_stays_consistent [OF l(1) system_fields(5)] l(2,3)
    by blast
qed

end
