(* ===== verification/SessionStatus.thy ===== *)
theory SessionStatus
  imports JsPrelude
begin

text \<open>
  Model of \<open>packages/sdk/src/session-status.ts\<close> and of the way the management client
  (\<open>management-client.ts\<close>) and the client (\<open>client.ts\<close>) reconcile a session's catalog row with
  the runtime each time they read it. The catalog update itself is taken as successful; a row is
  reduced to the columns the reconciliation reads or writes.
\<close>

subsection \<open>Deriving a status\<close>

record terminal_session =
  ti_parentSessionId :: "string option"
  ti_isSystem :: bool
  ti_rowState :: "string option"
  ti_status :: "string option"
  ti_orchestrationStatus :: "string option"
  ti_cronActive :: bool
  ti_cronInterval :: "int option"
  ti_turnResultType :: "string option"
  ti_latestResponseType :: "string option"

definition isCompletedTerminalSession :: "terminal_session \<Rightarrow> bool" where
  "isCompletedTerminalSession t =
     (if \<not> truthy (ti_parentSessionId t) \<or> ti_isSystem t then False
      else if ti_cronActive t then False
      else if (case ti_cronInterval t of Some n \<Rightarrow> 0 < n | None \<Rightarrow> False) then False
      else if ti_status t = Some ''completed'' \<or> ti_rowState t = Some ''completed'' then True
      else if ti_orchestrationStatus t \<noteq> Some ''Completed'' then False
      else ti_turnResultType t = Some ''completed'' \<or>
           ti_latestResponseType t = Some ''completed'')"

definition deriveSessionStatus :: "terminal_session \<Rightarrow> string" where
  "deriveSessionStatus t =
     (if ti_orchestrationStatus t = Some ''Failed'' then ''failed''
      else if isCompletedTerminalSession t then ''completed''
      else if ti_orchestrationStatus t = Some ''Running'' \<and> \<not> truthy (ti_status t) \<and>
              ti_rowState t \<in> {Some ''error'', Some ''failed'', Some ''completed''}
        then ''running''
      else or_str (ti_status t) (or_str (ti_rowState t) ''pending''))"

definition shouldSyncCompletedStatus :: "terminal_session \<Rightarrow> bool" where
  "shouldSyncCompletedStatus t \<longleftrightarrow>
     isCompletedTerminalSession t \<and> ti_rowState t \<noteq> Some ''completed''"

definition shouldSyncFailedStatus :: "terminal_session \<Rightarrow> bool" where
  "shouldSyncFailedStatus t \<longleftrightarrow>
     ti_orchestrationStatus t = Some ''Failed'' \<and> ti_rowState t \<noteq> Some ''failed''"

subsection \<open>Reading a session: the row and what the runtime reports\<close>

record catalog_row =
  row_state :: string
  row_parentSessionId :: "string option"
  row_isSystem :: bool
  row_lastError :: "string option"
  row_waitReason :: "string option"

record runtime_view =
  rv_status :: "string option"
  rv_cronActive :: bool
  rv_cronInterval :: "int option"
  rv_turnResultType :: "string option"
  rv_error :: "string option"
  rv_orchestrationStatus :: "string option"
  rv_latestResponseType :: "string option"

text \<open>The row may be missing: the client asks the runtime whether or not the catalog has one.\<close>

definition terminal_input :: "runtime_view \<Rightarrow> catalog_row option \<Rightarrow> terminal_session" where
  "terminal_input v row =
     \<lparr> ti_parentSessionId = (case row of None \<Rightarrow> None | Some r \<Rightarrow> row_parentSessionId r),
       ti_isSystem = (case row of None \<Rightarrow> False | Some r \<Rightarrow> row_isSystem r),
       ti_rowState = map_option row_state row, ti_status = rv_status v,
       ti_orchestrationStatus = rv_orchestrationStatus v, ti_cronActive = rv_cronActive v,
       ti_cronInterval = rv_cronInterval v, ti_turnResultType = rv_turnResultType v,
       ti_latestResponseType = rv_latestResponseType v \<rparr>"

definition deriveStatusFromCmsAndRuntime :: "runtime_view \<Rightarrow> catalog_row option \<Rightarrow> string" where
  "deriveStatusFromCmsAndRuntime v r = deriveSessionStatus (terminal_input v r)"

definition isTerminalOrchestrationStatus :: "string option \<Rightarrow> bool" where
  "isTerminalOrchestrationStatus s \<longleftrightarrow>
     s \<in> {Some ''Completed'', Some ''Failed'', Some ''Terminated''}"

text \<open>The management client drops the cron of an orchestration that has ended; the client does not.\<close>

definition normalized_view :: "runtime_view \<Rightarrow> runtime_view" where
  "normalized_view v =
     (if isTerminalOrchestrationStatus (rv_orchestrationStatus v)
      then v\<lparr>rv_cronActive := False, rv_cronInterval := None\<rparr> else v)"

definition nonblank :: "string option \<Rightarrow> string option" where
  "nonblank s = keep_truthy (map_option trim s)"

definition failure_message :: "runtime_view \<Rightarrow> catalog_row \<Rightarrow> string option" where
  "failure_message v r = or_else (nonblank (rv_error v)) (nonblank (row_lastError r))"

definition recovered_state :: "runtime_view \<Rightarrow> string" where
  "recovered_state v =
     (case rv_status v of
        Some s \<Rightarrow> if s \<noteq> ''error'' \<and> s \<noteq> ''failed'' then s else ''running''
      | None \<Rightarrow> ''running'')"

definition completed_row :: "catalog_row \<Rightarrow> catalog_row" where
  "completed_row r = r\<lparr>row_state := ''completed'', row_lastError := None, row_waitReason := None\<rparr>"

definition failed_row :: "runtime_view \<Rightarrow> catalog_row \<Rightarrow> catalog_row" where
  "failed_row v r = r\<lparr>row_state := ''failed'', row_waitReason := None,
     row_lastError := or_else (failure_message v r) (row_lastError r)\<rparr>"

definition recovered_row :: "runtime_view \<Rightarrow> catalog_row \<Rightarrow> catalog_row" where
  "recovered_row v r = r\<lparr>row_state := recovered_state v, row_lastError := None,
     row_waitReason := (if recovered_state v \<in> {''waiting'', ''input_required''}
                        then row_waitReason r else None)\<rparr>"

definition needs_recovery :: "runtime_view \<Rightarrow> catalog_row \<Rightarrow> bool" where
  "needs_recovery v r \<longleftrightarrow>
     rv_orchestrationStatus v = Some ''Running'' \<and> row_state r \<in> {''error'', ''failed''}"

definition sync_row :: "runtime_view \<Rightarrow> catalog_row \<Rightarrow> catalog_row" where
  "sync_row v r =
     (if shouldSyncCompletedStatus (terminal_input v (Some r)) then completed_row r
      else if shouldSyncFailedStatus (terminal_input v (Some r)) then failed_row v r
      else if needs_recovery v r then recovered_row v r
      else r)"

definition managementRead :: "runtime_view \<Rightarrow> catalog_row \<Rightarrow> catalog_row" where
  "managementRead v r = sync_row (normalized_view v) r"

definition clientRead :: "runtime_view \<Rightarrow> catalog_row \<Rightarrow> catalog_row" where
  "clientRead v r = sync_row v r"

lemma terminal_input_simps [simp]:
  "ti_parentSessionId (terminal_input v (Some r)) = row_parentSessionId r"
  "ti_isSystem (terminal_input v (Some r)) = row_isSystem r"
  "ti_rowState (terminal_input v (Some r)) = Some (row_state r)"
  "ti_status (terminal_input v (Some r)) = rv_status v"
  "ti_orchestrationStatus (terminal_input v (Some r)) = rv_orchestrationStatus v"
  "ti_cronActive (terminal_input v (Some r)) = rv_cronActive v"
  "ti_cronInterval (terminal_input v (Some r)) = rv_cronInterval v"
  "ti_turnResultType (terminal_input v (Some r)) = rv_turnResultType v"
  "ti_latestResponseType (terminal_input v (Some r)) = rv_latestResponseType v"
  by (simp_all add: terminal_input_def)

text \<open>Only a child session without a recurring schedule completes for good.\<close>

definition may_complete :: "runtime_view \<Rightarrow> catalog_row \<Rightarrow> bool" where
  "may_complete v r \<longleftrightarrow>
     truthy (row_parentSessionId r) \<and> \<not> row_isSystem r \<and> \<not> rv_cronActive v \<and>
     \<not> (case rv_cronInterval v of Some n \<Rightarrow> 0 < n | None \<Rightarrow> False)"

definition reported_complete :: "runtime_view \<Rightarrow> bool" where
  "reported_complete v \<longleftrightarrow>
     rv_status v = Some ''completed'' \<or>
     rv_orchestrationStatus v = Some ''Completed'' \<and>
       (rv_turnResultType v = Some ''completed'' \<or> rv_latestResponseType v = Some ''completed'')"

lemma completed_iff:
  "isCompletedTerminalSession (terminal_input v (Some r)) \<longleftrightarrow>
     may_complete v r \<and> (row_state r = ''completed'' \<or> reported_complete v)"
  unfolding isCompletedTerminalSession_def may_complete_def reported_complete_def
  by simp

lemma sync_completed_iff:
  "shouldSyncCompletedStatus (terminal_input v (Some r)) \<longleftrightarrow>
     may_complete v r \<and> reported_complete v \<and> row_state r \<noteq> ''completed''"
  unfolding shouldSyncCompletedStatus_def completed_iff by auto

lemma sync_failed_iff:
  "shouldSyncFailedStatus (terminal_input v (Some r)) \<longleftrightarrow>
     rv_orchestrationStatus v = Some ''Failed'' \<and> row_state r \<noteq> ''failed''"
  unfolding shouldSyncFailedStatus_def by simp

text \<open>A child that published \<open>completed\<close> although its orchestration failed.\<close>

definition contradictory :: "runtime_view \<Rightarrow> catalog_row \<Rightarrow> bool" where
  "contradictory v r \<longleftrightarrow>
     rv_orchestrationStatus v = Some ''Failed'' \<and>
     isCompletedTerminalSession (terminal_input v (Some r))"

lemma recovered_state_ok: "recovered_state v \<noteq> ''error'' \<and> recovered_state v \<noteq> ''failed''"
  by (auto simp: recovered_state_def split: option.splits)

lemmas sync_iffs = completed_iff sync_completed_iff sync_failed_iff

lemma row_simps [simp]:
  "row_state (completed_row r) = ''completed''" "row_state (failed_row v r) = ''failed''"
  "row_state (recovered_row v r) = recovered_state v"
  "may_complete v (completed_row r) = may_complete v r"
  "may_complete v (failed_row v' r) = may_complete v r"
  "may_complete v (recovered_row v' r) = may_complete v r"
  by (simp_all add: completed_row_def failed_row_def recovered_row_def may_complete_def)

lemma sync_row_cases:
  obtains (completed) "shouldSyncCompletedStatus (terminal_input v (Some r))"
      "sync_row v r = completed_row r"
    | (failed) "\<not> shouldSyncCompletedStatus (terminal_input v (Some r))"
      "shouldSyncFailedStatus (terminal_input v (Some r))" "sync_row v r = failed_row v r"
    | (recovered) "\<not> shouldSyncCompletedStatus (terminal_input v (Some r))"
      "\<not> shouldSyncFailedStatus (terminal_input v (Some r))" "needs_recovery v r"
      "sync_row v r = recovered_row v r"
    | (same) "sync_row v r = r"
  by (metis sync_row_def)

lemma sync_row_same:
  "\<not> shouldSyncCompletedStatus (terminal_input v (Some r)) \<Longrightarrow>
   \<not> shouldSyncFailedStatus (terminal_input v (Some r)) \<Longrightarrow> \<not> needs_recovery v r \<Longrightarrow>
   sync_row v r = r"
  by (simp add: sync_row_def)

lemma sync_settles:
  assumes "\<not> contradictory v r"
  shows "sync_row v (sync_row v r) = sync_row v r"
proof (cases rule: sync_row_cases [of v r])
  case completed
  have "sync_row v (completed_row r) = completed_row r"
    using completed(1) assms
    by (intro sync_row_same) (auto simp: sync_iffs contradictory_def needs_recovery_def)
  then show ?thesis by (simp add: completed)
next
  case failed
  have "sync_row v (failed_row v r) = failed_row v r"
    using failed(1,2) assms
    by (intro sync_row_same) (auto simp: sync_iffs contradictory_def needs_recovery_def)
  then show ?thesis by (simp add: failed)
next
  case recovered
  have "reported_complete v \<Longrightarrow> rv_orchestrationStatus v = Some ''Running'' \<Longrightarrow>
        recovered_state v = ''completed''"
    by (auto simp: reported_complete_def recovered_state_def)
  then have "sync_row v (recovered_row v r) = recovered_row v r"
    using recovered(1,3) recovered_state_ok [of v]
    by (intro sync_row_same) (auto simp: sync_iffs needs_recovery_def)
  then show ?thesis by (simp add: recovered)
qed simp

text \<open>What is displayed does not depend on whether the row was already reconciled.\<close>

lemma display_simp:
  "deriveStatusFromCmsAndRuntime v (Some r) =
     (if rv_orchestrationStatus v = Some ''Failed'' then ''failed''
      else if may_complete v r \<and> (row_state r = ''completed'' \<or> reported_complete v) then ''completed''
      else if rv_orchestrationStatus v = Some ''Running'' \<and> \<not> truthy (rv_status v) \<and>
              row_state r \<in> {''error'', ''failed'', ''completed''} then ''running''
      else or_str (rv_status v) (or_str (Some (row_state r)) ''pending''))"
  unfolding deriveStatusFromCmsAndRuntime_def deriveSessionStatus_def completed_iff
  by (simp only: terminal_input_simps option.inject insert_iff empty_iff)

lemma sync_keeps_display:
  assumes "rv_status v \<noteq> Some []"
  shows "deriveStatusFromCmsAndRuntime v (Some (sync_row v r)) =
         deriveStatusFromCmsAndRuntime v (Some r)"
proof (cases rule: sync_row_cases [of v r])
  case completed
  then show ?thesis by (simp add: display_simp sync_iffs)
next
  case failed
  then show ?thesis by (simp add: display_simp sync_iffs)
next
  case recovered
  show ?thesis
  proof (cases "rv_status v")
    case None
    then show ?thesis
      using recovered by (auto simp: display_simp sync_iffs needs_recovery_def recovered_state_def)
  next
    case (Some s)
    then show ?thesis
      using recovered assms
      by (auto simp: display_simp sync_iffs needs_recovery_def recovered_state_def
            reported_complete_def)
  qed
qed simp

lemma contradictory_iff:
  "contradictory v r \<longleftrightarrow> rv_orchestrationStatus v = Some ''Failed'' \<and> may_complete v r \<and>
     (row_state r = ''completed'' \<or> rv_status v = Some ''completed'')"
  unfolding contradictory_def completed_iff by (auto simp: reported_complete_def)

text \<open>
  Reading a session reconciles its row once and for all: while the runtime reports the same, a
  second read by the management client changes nothing more, unless the session is a completed
  child whose orchestration failed. The status displayed is the same before and after.
\<close>

theorem reads_settle:
  assumes "\<not> contradictory (normalized_view v) r" "rv_status v \<noteq> Some []"
  shows "managementRead v (managementRead v r) = managementRead v r \<and>
    deriveStatusFromCmsAndRuntime (normalized_view v) (Some (managementRead v r)) =
      deriveStatusFromCmsAndRuntime (normalized_view v) (Some r)"
  unfolding managementRead_def
  using sync_settles [OF assms(1)] sync_keeps_display [of "normalized_view v" r] assms(2)
  by (simp add: normalized_view_def)

definition sample_view :: "string \<Rightarrow> string \<Rightarrow> runtime_view" where
  "sample_view st orch_st = \<lparr> rv_status = Some st, rv_cronActive = False, rv_cronInterval = None,
     rv_turnResultType = None, rv_error = None, rv_orchestrationStatus = Some orch_st,
     rv_latestResponseType = None \<rparr>"

definition sample_child :: "string \<Rightarrow> catalog_row" where
  "sample_child st = \<lparr> row_state = st, row_parentSessionId = Some ''p'', row_isSystem = False,
     row_lastError = None, row_waitReason = None \<rparr>"

theorem reads_settle_witness:
  "managementRead (sample_view ''waiting'' ''Running'')
     (managementRead (sample_view ''waiting'' ''Running'') (sample_child ''error'')) =
   managementRead (sample_view ''waiting'' ''Running'') (sample_child ''error'')"
  by (rule reads_settle [THEN conjunct1])
     (simp_all add: contradictory_def normalized_view_def isTerminalOrchestrationStatus_def
        sample_view_def)

text \<open>
  A child session that published \<open>completed\<close> and whose orchestration then failed never
  settles: every read by either client flips its catalog row between \<open>completed\<close> and \<open>failed\<close>,
  while the displayed status is \<open>failed\<close> throughout.
\<close>

theorem contradictory_row_flips:
  assumes "rv_orchestrationStatus v = Some ''Failed''" "rv_status v = Some ''completed''"
    "\<not> rv_cronActive v" "rv_cronInterval v = None"
    "row_parentSessionId r = Some p" "p \<noteq> []" "\<not> row_isSystem r"
  shows "row_state (clientRead v r) =
      (if row_state r = ''completed'' then ''failed'' else ''completed'') \<and>
    row_state (managementRead v r) = row_state (clientRead v r) \<and>
    deriveStatusFromCmsAndRuntime v (Some r) = ''failed''"
proof -
  have "normalized_view v = v" using assms by (simp add: normalized_view_def)
  then show ?thesis
    using assms
    by (simp add: clientRead_def managementRead_def sync_row_def sync_iffs may_complete_def
          reported_complete_def display_simp)
qed

theorem contradictory_row_flips_witness:
  "row_state (clientRead (sample_view ''completed'' ''Failed'') (sample_child ''completed'')) =
     ''failed''"
  using contradictory_row_flips [of "sample_view ''completed'' ''Failed''"
      "sample_child ''completed''" "''p''"]
  by (simp add: sample_view_def sample_child_def)

end
