(* ===== verification/RegExp.thy ===== *)
theory RegExp
  imports JsPrelude
begin

text \<open>
  The part of JavaScript's regular expressions that the source uses: characters and character
  classes, concatenation, alternatives, bounded repetition, runs of a class and word boundaries,
  all matched without regard to case. Only \<open>test\<close> is needed, so a match is the list of the
  positions where it can end.
\<close>

datatype rx =
    Eps
  | Sym "char \<Rightarrow> bool"
  | Boundary
  | Cat rx rx
  | Alt rx rx
  | Upto nat rx
  | Run "char \<Rightarrow> bool"

definition word_at :: "string \<Rightarrow> nat \<Rightarrow> bool" where
  "word_at s i \<longleftrightarrow> i < length s \<and> is_word_char (s ! i)"

definition boundary_at :: "string \<Rightarrow> nat \<Rightarrow> bool" where
  "boundary_at s i \<longleftrightarrow> (0 < i \<and> word_at s (i - 1)) \<noteq> word_at s i"

fun upto_ends :: "(nat \<Rightarrow> nat list) \<Rightarrow> nat \<Rightarrow> nat \<Rightarrow> nat list" where
  "upto_ends f 0 i = [i]"
| "upto_ends f (Suc n) i = i # concat (map (upto_ends f n) (f i))"

primrec rx_ends :: "string \<Rightarrow> rx \<Rightarrow> nat \<Rightarrow> nat list" where
  "rx_ends s Eps = (\<lambda>i. [i])"
| "rx_ends s (Sym p) = (\<lambda>i. if i < length s \<and> p (s ! i) then [Suc i] else [])"
| "rx_ends s Boundary = (\<lambda>i. if boundary_at s i then [i] else [])"
| "rx_ends s (Cat a b) = (\<lambda>i. concat (map (rx_ends s b) (rx_ends s a i)))"
| "rx_ends s (Alt a b) = (\<lambda>i. rx_ends s a i @ rx_ends s b i)"
| "rx_ends s (Upto n a) = upto_ends (rx_ends s a) n"
| "rx_ends s (Run p) = (\<lambda>i. map (\<lambda>k. i + k) [0..<Suc (length (takeWhile p (drop i s)))])"

definition rx_test :: "rx \<Rightarrow> string \<Rightarrow> bool" where
  "rx_test r s = list_ex (\<lambda>i. rx_ends s r i \<noteq> []) [0..<Suc (length s)]"

subsection \<open>Building expressions\<close>

definition any_char :: rx where
  "any_char = Sym (\<lambda>_. True)"

definition same_letter :: "char \<Rightarrow> char \<Rightarrow> bool" where
  "same_letter c d \<longleftrightarrow> to_lower c = to_lower d"

primrec rx_lit :: "string \<Rightarrow> rx" where
  "rx_lit [] = Eps"
| "rx_lit (c # s) = Cat (Sym (same_letter c)) (rx_lit s)"

fun rx_seq :: "rx list \<Rightarrow> rx" where
  "rx_seq [] = Eps"
| "rx_seq [r] = r"
| "rx_seq (r # s # rs) = Cat r (rx_seq (s # rs))"

fun rx_alt :: "rx list \<Rightarrow> rx" where
  "rx_alt [] = Sym (\<lambda>_. False)"
| "rx_alt [r] = r"
| "rx_alt (r # s # rs) = Alt r (rx_alt (s # rs))"

definition rx_opt :: "rx \<Rightarrow> rx" where
  "rx_opt r = Upto 1 r"

definition rx_gap :: "nat \<Rightarrow> rx" where
  "rx_gap n = Upto n any_char"

definition rx_space :: rx where
  "rx_space = Cat (Sym is_ws) (Run is_ws)"

text \<open>\<open>\b(\<dots>|\<dots>)\b\<close>\<close>

definition rx_word :: "rx list \<Rightarrow> rx" where
  "rx_word rs = Cat Boundary (Cat (rx_alt rs) Boundary)"

definition rx_words :: "string list \<Rightarrow> rx" where
  "rx_words ws = rx_word (map rx_lit ws)"

subsection \<open>Matching ignores case\<close>

text \<open>An expression all of whose classes ignore case.\<close>

primrec caseless :: "rx \<Rightarrow> bool" where
  "caseless Eps = True"
| "caseless (Sym p) = (\<forall>c. p (to_lower c) = p c)"
| "caseless Boundary = True"
| "caseless (Cat a b) = (caseless a \<and> caseless b)"
| "caseless (Alt a b) = (caseless a \<and> caseless b)"
| "caseless (Upto n a) = caseless a"
| "caseless (Run p) = (\<forall>c. p (to_lower c) = p c)"

lemma of_char_lt [simp]: "(of_char c :: nat) < 256"
  by (metis of_char_mod_256 mod_less_divisor zero_less_numeral)

lemma of_to_lower:
  "(of_char (to_lower c) :: nat) =
     (let n = of_char c in if 65 \<le> n \<and> n \<le> 90 then n + 32 else n)"
  by (simp add: to_lower_def Let_def of_char_of)

lemma to_lower_idem [simp]: "to_lower (to_lower c) = to_lower c"
  by (simp add: to_lower_def Let_def of_char_of)

lemma word_char_lower [simp]: "is_word_char (to_lower c) = is_word_char c"
  by (auto simp: is_word_char_def of_to_lower Let_def)

lemma to_lower_char: "(of_char c :: nat) \<notin> {65..90} \<Longrightarrow> to_lower c = c"
  by (auto simp: to_lower_def Let_def)

lemma is_ws_lower [simp]: "is_ws (to_lower c) = is_ws c"
proof (cases "(of_char c :: nat) \<in> {65..90}")
  case True
  have ws: "is_ws d \<Longrightarrow> (of_char d :: nat) \<in> {9, 10, 11, 12, 13, 32, 160}" for d
    by (auto simp: is_ws_def)
  have "\<not> is_ws c" using ws [of c] True by auto
  moreover have "(of_char (to_lower c) :: nat) = of_char c + 32"
    using True by (simp add: of_to_lower Let_def)
  then have "\<not> is_ws (to_lower c)" using ws [of "to_lower c"] True by auto
  ultimately show ?thesis by simp
qed (simp add: to_lower_char)

lemma boundary_lower [simp]: "boundary_at (map to_lower s) i = boundary_at s i"
  by (cases "i = 0") (auto simp: boundary_at_def word_at_def)

lemma rx_ends_lower: "caseless r \<Longrightarrow> rx_ends (map to_lower s) r = rx_ends s r"
proof (induction r)
  case (Run p)
  then have "p \<circ> to_lower = p" by (simp add: fun_eq_iff)
  then show ?case by (simp add: drop_map takeWhile_map)
next
  case (Sym p)
  then have "p (to_lower c) = p c" for c by simp
  then have "(i < length s \<and> p (map to_lower s ! i)) = (i < length s \<and> p (s ! i))" for i
    by (cases "i < length s") (simp_all only: nth_map simp_thms)
  then show ?case by (simp only: rx_ends.simps length_map)
qed simp_all

lemma rx_test_lower: "caseless r \<Longrightarrow> rx_test r (map to_lower s) = rx_test r s"
  by (simp add: rx_test_def rx_ends_lower)

lemma same_letter_lower [simp]: "same_letter c (to_lower d) = same_letter c d"
  by (simp add: same_letter_def)

lemma caseless_lit [simp]: "caseless (rx_lit w)"
  by (induction w) simp_all

lemma caseless_alt [simp]: "caseless (rx_alt rs) \<longleftrightarrow> list_all caseless rs"
  by (induction rs rule: rx_alt.induct) auto

lemma caseless_seq [simp]: "caseless (rx_seq rs) \<longleftrightarrow> list_all caseless rs"
  by (induction rs rule: rx_seq.induct) auto

lemma caseless_built [simp]:
  "caseless (rx_opt r) = caseless r" "caseless (rx_gap n)" "caseless rx_space"
  "caseless (rx_word rs) = list_all caseless rs" "caseless (rx_words ws)"
  by (simp_all add: rx_opt_def rx_gap_def any_char_def rx_space_def rx_word_def rx_words_def
       list_all_iff)

subsection \<open>Computing on characters\<close>

text \<open>Bitwise equations by which concrete texts are matched quickly.\<close>

lemma to_lower_code [code]:
  "to_lower (Char b0 b1 b2 b3 b4 b5 b6 b7) =
     Char b0 b1 b2 b3 b4
       (b5 \<or> (b6 \<and> \<not> b7 \<and> (b0 \<or> b1 \<or> b2 \<or> b3 \<or> b4) \<and> \<not> (b4 \<and> b3 \<and> (b2 \<or> b1 \<and> b0)))) b6 b7"
  by (cases b0; cases b1; cases b2; cases b3; cases b4; cases b5; cases b6; cases b7;
      simp add: to_lower_def char_of_def bit_0)

lemma is_word_char_code [code]:
  "is_word_char (Char b0 b1 b2 b3 b4 b5 b6 b7) =
     (\<not> b7 \<and>
      (if b6 then ((b0 \<or> b1 \<or> b2 \<or> b3 \<or> b4) \<and> \<not> (b4 \<and> b3 \<and> (b2 \<or> b1 \<and> b0))) \<or>
                  (\<not> b5 \<and> b4 \<and> b3 \<and> b2 \<and> b1 \<and> b0)
       else b5 \<and> b4 \<and> (\<not> b3 \<or> \<not> b2 \<and> \<not> b1)))"
  by (cases b0; cases b1; cases b2; cases b3; cases b4; cases b5; cases b6; cases b7;
      simp add: is_word_char_def)

end
