(* ===== verification/TurnTools.thy ===== *)
theory TurnTools
  imports TurnGuard Shutdown
begin

text \<open>
  Model of the control tools of a turn and of the way a turn ends
  (\<open>packages/sdk/src/managed-session.ts\<close>, \<open>runTurn\<close>). A tool call changes the turn's state: it
  puts an action for the orchestration into it, or, when the worker supplies a control bridge, has
  the bridge carry the request out at once. The bridge's effects are recorded as the list of the
  requests it received. The seconds of an in-process wait pass unobserved.
  A call has the arguments that the schema of the tool requires, and its seconds are a whole number: a
  call that omits them, or gives a fraction, is outside the model.
\<close>

subsection \<open>Turn state and tool calls\<close>

record spawn_request =
  sr_agent_name :: "string option"
  sr_task :: "string option"
  sr_modelRef :: "string option"
  sr_reasoning_effort :: "string option"
  sr_system_message :: "string option"
  sr_tool_names :: "string list option"
  sr_title :: "string option"

datatype tool_call =
    CallWait int "string option" "bool option"
  | CallWaitOnWorker int "string option"
  | CallCron "int option" "string option" bool
  | CallAskUser string "string list option" "bool option"
  | CallListModels
  | CallSpawn spawn_request
  | CallMessage string string
  | CallCheckAgents
  | CallWaitForAgents "string list option"
  | CallListSessions
  | CallComplete string
  | CallCancel string "string option"
  | CallDelete string "string option"

record turn_state =
  tn_pendingActions :: "turn_action list"
  tn_queuedActions :: "turn_action list"
  tn_waitThreshold :: int
  tn_bridged :: "tool_call list"

text \<open>
  The bridge answers a request with a text; it resolves the agents to wait for, or throws when one
  of them is not a child.
\<close>

record control_bridge =
  br_reply :: "tool_call \<Rightarrow> string"
  br_resolve :: "string list option \<Rightarrow> string list option"

definition acknowledgeTurnBoundary :: "string \<Rightarrow> string" where
  "acknowledgeTurnBoundary act =
     ''[SYSTEM: '' @ act @ '' acknowledged. The runtime will suspend at the end of this turn. '' @
     ''Finish any remaining tool results for the current step, then stop.]''"

definition normalizeReasoningEffort :: "string option \<Rightarrow> string option" where
  "normalizeReasoningEffort v =
     (let e = map to_lower (trim (or_str v []))
      in if e \<in> set [''low'', ''medium'', ''high'', ''xhigh'', ''max'', ''ultra''] then Some e else None)"

definition push_pending :: "turn_action \<Rightarrow> turn_state \<Rightarrow> turn_state" where
  "push_pending a s = s\<lparr>tn_pendingActions := tn_pendingActions s @ [a]\<rparr>"

definition push_queued :: "turn_action \<Rightarrow> turn_state \<Rightarrow> turn_state" where
  "push_queued a s = s\<lparr>tn_queuedActions := tn_queuedActions s @ [a]\<rparr>"

subsection \<open>The tools\<close>

text \<open>A handler returns its reply, or nothing when it threw, and the new state.\<close>

definition waitTool :: "int \<Rightarrow> string option \<Rightarrow> bool option \<Rightarrow> turn_state \<Rightarrow> string option \<times> turn_state" where
  "waitTool seconds reason preserve s =
     (if seconds \<le> tn_waitThreshold s
      then (Some (''Waited for '' @ show_int seconds @ '' seconds. The wait is complete, you may continue.''), s)
      else (Some (acknowledgeTurnBoundary ''wait''),
            push_pending (TWait seconds (default_to reason ''unspecified'')
              (Some (default_to preserve False)) None) s))"

definition waitOnWorkerTool :: "int \<Rightarrow> string option \<Rightarrow> turn_state \<Rightarrow> string option \<times> turn_state" where
  "waitOnWorkerTool seconds reason s =
     (if seconds \<le> tn_waitThreshold s
      then (Some (''Waited for '' @ show_int seconds @
              '' seconds on the current worker. The wait is complete, you may continue.''), s)
      else (Some (acknowledgeTurnBoundary ''wait_on_worker''),
            push_pending (TWait seconds (default_to reason ''unspecified'') (Some True) None) s))"

definition cronTool :: "int option \<Rightarrow> string option \<Rightarrow> bool \<Rightarrow> turn_state \<Rightarrow> string option \<times> turn_state" where
  "cronTool seconds rawReason cancel s =
     (if cancel
      then (Some (stringify (JObj [(''status'', JStr ''cancelled'')])), push_queued (TCron CronCancel) s)
      else
        (case seconds of
           None \<Rightarrow> (Some ''Error: cron requires seconds or action='cancel'.'', s)
         | Some n \<Rightarrow>
             if n < 15 then (Some ''Error: cron interval must be at least 15 seconds.'', s)
             else
               let reason = trim (default_to rawReason [])
               in if reason = []
                  then (Some ''Error: cron reason is required when setting a schedule.'', s)
                  else (Some (stringify (JObj [(''status'', JStr ''scheduled''), (''interval'', JNum n),
                                               (''reason'', JStr reason)])),
                        push_queued (TCron (CronSet n reason)) s)))"

definition askUserTool ::
  "string \<Rightarrow> string list option \<Rightarrow> bool option \<Rightarrow> turn_state \<Rightarrow> string option \<times> turn_state" where
  "askUserTool question choices freeform s =
     (Some (acknowledgeTurnBoundary ''ask_user''),
      push_pending (TInputRequired \<lparr> iq_question = question, iq_choices = choices,
        iq_allowFreeform = Some (default_to freeform True) \<rparr>) s)"

text \<open>A control tool goes to the bridge when there is one, else its action is left for the orchestration.\<close>

definition bridged ::
  "control_bridge option \<Rightarrow> tool_call \<Rightarrow> string \<Rightarrow> turn_action \<Rightarrow> turn_state \<Rightarrow>
   string option \<times> turn_state" where
  "bridged bridge call name act s =
     (case bridge of
        Some b \<Rightarrow> (Some (br_reply b call), s\<lparr>tn_bridged := tn_bridged s @ [call]\<rparr>)
      | None \<Rightarrow> (Some (acknowledgeTurnBoundary name), push_pending act s))"

definition requested_effort :: "spawn_request \<Rightarrow> string option" where
  "requested_effort r =
     (if truthy (sr_reasoning_effort r) then normalizeReasoningEffort (sr_reasoning_effort r) else None)"

definition spawn_action :: "spawn_request \<Rightarrow> turn_action" where
  "spawn_action r = TSpawnAgent
     \<lparr> sp_task = or_str (sr_task r) [], sp_model = sr_modelRef r,
       sp_reasoningEffort = requested_effort r,
       sp_systemMessage = map_option SysText (sr_system_message r), sp_toolNames = sr_tool_names r,
       sp_agentName = sr_agent_name r, sp_title = keep_truthy (map_option trim (sr_title r)) \<rparr>"

definition spawn_error :: "spawn_request \<Rightarrow> string option" where
  "spawn_error r =
     (if \<not> truthy (sr_agent_name r) \<and> \<not> truthy (sr_task r)
        then Some ''Error: either agent_name or task is required.''
      else if truthy (sr_reasoning_effort r) \<and> requested_effort r = None
        then Some ''Error: reasoning_effort must be one of low, medium, high, xhigh, max, ultra.''
      else None)"

text \<open>The request that the bridge receives carries the normalized effort.\<close>

definition bridged_spawn :: "spawn_request \<Rightarrow> spawn_request" where
  "bridged_spawn r =
     (case requested_effort r of None \<Rightarrow> r | Some e \<Rightarrow> r\<lparr>sr_reasoning_effort := Some e\<rparr>)"

definition spawnAgentTool ::
  "control_bridge option \<Rightarrow> spawn_request \<Rightarrow> turn_state \<Rightarrow> string option \<times> turn_state" where
  "spawnAgentTool bridge r s =
     (case spawn_error r of
        Some e \<Rightarrow> (Some e, s)
      | None \<Rightarrow> bridged bridge (CallSpawn (bridged_spawn r)) ''spawn_agent'' (spawn_action r) s)"

definition waitForAgentsTool ::
  "control_bridge option \<Rightarrow> string list option \<Rightarrow> turn_state \<Rightarrow> string option \<times> turn_state" where
  "waitForAgentsTool bridge ids s =
     (case bridge of
        None \<Rightarrow> (Some (acknowledgeTurnBoundary ''wait_for_agents''),
                 push_pending (TWaitForAgents (default_to ids [])) s)
      | Some b \<Rightarrow>
          (case br_resolve b ids of
             None \<Rightarrow> (None, s)
           | Some resolved \<Rightarrow>
               (Some (''[SYSTEM: wait_for_agents acknowledged for '' @ show_nat (length resolved) @
                      '' agent(s). Continue any remaining work in this SAME turn. Once your current turn '' @
                      ''naturally ends, the runtime will suspend until those agents complete.]''),
                push_pending (TWaitForAgents resolved) s)))"

definition callTool ::
  "control_bridge option \<Rightarrow> string option \<Rightarrow> tool_call \<Rightarrow> turn_state \<Rightarrow> string option \<times> turn_state" where
  "callTool bridge modelSummary call s =
     (case call of
        CallWait n r p \<Rightarrow> waitTool n r p s
      | CallWaitOnWorker n r \<Rightarrow> waitOnWorkerTool n r s
      | CallCron n r c \<Rightarrow> cronTool n r c s
      | CallAskUser q cs f \<Rightarrow> askUserTool q cs f s
      | CallListModels \<Rightarrow> (Some (or_str modelSummary ''No model providers configured.''), s)
      | CallSpawn r \<Rightarrow> spawnAgentTool bridge r s
      | CallMessage a m \<Rightarrow> bridged bridge call ''message_agent'' (TMessageAgent a m) s
      | CallCheckAgents \<Rightarrow> bridged bridge call ''check_agents'' TCheckAgents s
      | CallWaitForAgents ids \<Rightarrow> waitForAgentsTool bridge ids s
      | CallListSessions \<Rightarrow> bridged bridge call ''list_sessions'' TListSessions s
      | CallComplete a \<Rightarrow> bridged bridge call ''complete_agent'' (TCompleteAgent a) s
      | CallCancel a r \<Rightarrow> bridged bridge call ''cancel_agent'' (TCancelAgent a r) s
      | CallDelete a r \<Rightarrow> bridged bridge call ''delete_agent'' (TDeleteAgent a r) s)"

definition start_turn :: "int option \<Rightarrow> turn_state" where
  "start_turn threshold = \<lparr> tn_pendingActions = [], tn_queuedActions = [],
     tn_waitThreshold = default_to threshold 30, tn_bridged = [] \<rparr>"

text \<open>The tool calls of a turn, one after the other.\<close>

definition run_calls :: "control_bridge option \<Rightarrow> string option \<Rightarrow> tool_call list \<Rightarrow> turn_state \<Rightarrow> turn_state" where
  "run_calls bridge summary calls s = fold (\<lambda>c t. snd (callTool bridge summary c t)) calls s"

subsection \<open>How a turn ends\<close>

definition with_final :: "string option \<Rightarrow> turn_action \<Rightarrow> turn_action" where
  "with_final content a = (case a of TWait n r p c \<Rightarrow> TWait n r p content | _ \<Rightarrow> a)"

definition plain_result :: "turn_action \<Rightarrow> captured_event list \<Rightarrow> turn_action list \<Rightarrow> turn_result" where
  "plain_result a evs qs = \<lparr> tr_action = a, tr_model = None, tr_events = evs, tr_queued = qs \<rparr>"

definition session_error :: "captured_event list \<Rightarrow> captured_event option" where
  "session_error evs = find (\<lambda>e. ev_type e = ''session.error'') evs"

text \<open>\<open>errData.message ?? errData.stack ?? \<dots>\<close>: null counts as absent.\<close>

definition present :: "json option \<Rightarrow> json option" where
  "present j = (if j = Some JNull then None else j)"

definition error_text :: "json \<Rightarrow> string" where
  "error_text d =
     (case or_else (present (json_get d ''message'')) (present (json_get d ''stack'')) of
        None \<Rightarrow> ''Unknown session error''
      | Some j \<Rightarrow> js_string j)"

definition endTurn ::
  "bool \<Rightarrow> string option \<Rightarrow> string option \<Rightarrow> captured_event list \<Rightarrow> captured_event option \<Rightarrow>
   turn_state \<Rightarrow> turn_result" where
  "endTurn codex thrown finalContent collected deferred s =
     (case thrown of
        Some m \<Rightarrow>
          if str_includes m ''timed out'' then
            plain_result (TError ((if codex then ''Codex'' else ''Copilot'') @
              '' runtime was taking too long to process and was aborted.'')) [] []
          else if tn_pendingActions s = [] then plain_result (TError m) [] []
          else plain_result (with_final finalContent (hd (tn_pendingActions s))) collected
                 (tn_queuedActions s @ tl (tn_pendingActions s))
      | None \<Rightarrow>
          (case tn_pendingActions s of
             a # rest \<Rightarrow>
               plain_result (with_final finalContent a) collected (tn_queuedActions s @ rest)
           | [] \<Rightarrow>
               let evs = collected @
                     (case deferred of
                        Some e \<Rightarrow> if truthy finalContent then [] else [e]
                      | None \<Rightarrow> [])
               in (case session_error evs of
                     Some e \<Rightarrow>
                       if truthy finalContent
                       then plain_result (TCompleted (default_to finalContent ''(no response)''))
                              evs (tn_queuedActions s)
                       else plain_result (TError (''Execution failed: '' @ error_text (ev_data e))) evs []
                   | None \<Rightarrow>
                       plain_result (TCompleted (default_to finalContent ''(no response)''))
                         evs (tn_queuedActions s))))"

subsection \<open>What a turn hands to the orchestration\<close>

text \<open>The actions of a result: the one the turn ends with and those queued behind it.\<close>

definition handed_over :: "turn_result \<Rightarrow> turn_action list" where
  "handed_over r = tr_action r # tr_queued r"

definition left_actions :: "turn_state \<Rightarrow> turn_action list" where
  "left_actions s = tn_pendingActions s @ tn_queuedActions s"

lemma left_push [simp]:
  "set (left_actions (push_pending a s)) = insert a (set (left_actions s))"
  "set (left_actions (push_queued a s)) = insert a (set (left_actions s))"
  "tn_waitThreshold (push_pending a s) = tn_waitThreshold s"
  "tn_waitThreshold (push_queued a s) = tn_waitThreshold s"
  "tn_bridged (push_pending a s) = tn_bridged s"
  "tn_bridged (push_queued a s) = tn_bridged s"
  by (auto simp: left_actions_def push_pending_def push_queued_def)

lemma left_bridged [simp]: "left_actions (s\<lparr>tn_bridged := b\<rparr>) = left_actions s"
  by (simp add: left_actions_def)

lemma left_start [simp]: "left_actions (start_turn th) = []"
  by (simp add: left_actions_def start_turn_def)

text \<open>Whatever holds of every action a turn may leave and of replies and errors holds of its result.\<close>

lemma handed_over_all:
  assumes "\<And>a. a \<in> set (left_actions s) \<Longrightarrow> P (with_final final a) \<and> P a"
    and "\<And>c. P (TCompleted c)" "\<And>m. P (TError m)"
  shows "list_all P (handed_over (endTurn codex thrown final evs deferred s))"
proof -
  have "tn_pendingActions s = a # rest \<Longrightarrow>
      list_all P (handed_over (plain_result (with_final final a) e (tn_queuedActions s @ rest)))"
    for a rest e
    using assms(1) by (auto simp: handed_over_def plain_result_def left_actions_def list_all_iff)
  moreover have "list_all P (handed_over (plain_result (TCompleted c) e (tn_queuedActions s)))" for c e
    using assms by (auto simp: handed_over_def plain_result_def left_actions_def list_all_iff)
  moreover have "list_all P (handed_over (plain_result (TError m) e []))" for m e
    using assms by (simp add: handed_over_def plain_result_def)
  ultimately show ?thesis
    by (auto simp: endTurn_def Let_def neq_Nil_conv split: option.splits list.splits)
qed

text \<open>A well-formed action for a turn with the given wait threshold.\<close>

fun action_ok :: "int \<Rightarrow> turn_action \<Rightarrow> bool" where
  "action_ok th (TWait n r p c) = (th < n)"
| "action_ok th (TCron (CronSet n r)) = (15 \<le> n \<and> r \<noteq> [] \<and> trim r = r)"
| "action_ok th (TSpawnAgent a) = (sp_task a \<noteq> [] \<or> truthy (sp_agentName a))"
| "action_ok th _ = True"

lemma truthy_or_str: "truthy t \<Longrightarrow> or_str t d \<noteq> []"
  by (auto simp: or_str_def truthy_def split: option.splits)

lemma tool_keeps_ok:
  "\<forall>a \<in> set (left_actions s). action_ok (tn_waitThreshold s) a \<Longrightarrow>
   tn_waitThreshold (snd (callTool bridge summary call s)) = tn_waitThreshold s \<and>
   (\<forall>a \<in> set (left_actions (snd (callTool bridge summary call s))). action_ok (tn_waitThreshold s) a)"
  by (cases call)
     (auto simp: callTool_def waitTool_def waitOnWorkerTool_def cronTool_def askUserTool_def
       bridged_def spawnAgentTool_def spawn_error_def spawn_action_def waitForAgentsTool_def Let_def
       dest: truthy_or_str split: option.splits if_splits)

lemma calls_keep_ok:
  "\<forall>a \<in> set (left_actions s). action_ok (tn_waitThreshold s) a \<Longrightarrow>
   \<forall>a \<in> set (left_actions (run_calls bridge summary calls s)). action_ok (tn_waitThreshold s) a"
proof (induction calls arbitrary: s)
  case (Cons c calls)
  show ?case
    using Cons.IH [of "snd (callTool bridge summary c s)"] tool_keeps_ok [OF Cons.prems, of bridge summary c]
    by (simp add: run_calls_def)
qed (simp add: run_calls_def)

text \<open>
  C39: Every action a turn hands to the orchestration is well formed, whatever tools the model
  calls and in whatever order: durable waits are longer than the threshold below which a wait is
  slept in process, a schedule has an interval of at least 15 seconds and a trimmed reason, and a
  spawn request names an agent or a task.
\<close>

theorem turn_actions_are_well_formed:
  "list_all (action_ok (default_to th 30))
     (handed_over (endTurn codex thrown final evs deferred
        (run_calls bridge summary calls (start_turn th))))"
proof (rule handed_over_all)
  let ?s = "run_calls bridge summary calls (start_turn th)"
  have "tn_waitThreshold (start_turn th) = default_to th 30" by (simp add: start_turn_def)
  then have ok: "\<forall>a \<in> set (left_actions ?s). action_ok (default_to th 30) a"
    using calls_keep_ok [of "start_turn th"] by simp
  fix a assume "a \<in> set (left_actions ?s)"
  with ok have "action_ok (default_to th 30) a" by blast
  then show "action_ok (default_to th 30) (with_final final a) \<and> action_ok (default_to th 30) a"
    by (cases a) (simp_all add: with_final_def)
qed simp_all

subsection \<open>The control bridge and the guard\<close>

definition carried_out :: "tool_call \<Rightarrow> tool_call list" where
  "carried_out call =
     (case call of
        CallSpawn r \<Rightarrow> if spawn_error r = None then [CallSpawn (bridged_spawn r)] else []
      | CallMessage a m \<Rightarrow> [call]
      | CallCheckAgents \<Rightarrow> [call]
      | CallListSessions \<Rightarrow> [call]
      | CallComplete a \<Rightarrow> [call]
      | CallCancel a r \<Rightarrow> [call]
      | CallDelete a r \<Rightarrow> [call]
      | _ \<Rightarrow> [])"

lemma tool_with_bridge:
  "\<forall>a \<in> set (left_actions s). \<not> isHighRiskTurnResult a \<Longrightarrow>
   (\<forall>a \<in> set (left_actions (snd (callTool (Some b) summary call s))). \<not> isHighRiskTurnResult a) \<and>
   tn_bridged (snd (callTool (Some b) summary call s)) = tn_bridged s @ carried_out call"
  by (cases call)
     (auto simp: callTool_def waitTool_def waitOnWorkerTool_def cronTool_def askUserTool_def
       bridged_def spawnAgentTool_def waitForAgentsTool_def Let_def carried_out_def
       isHighRiskTurnResult_def split: option.splits if_splits)

lemma calls_with_bridge:
  "\<forall>a \<in> set (left_actions s). \<not> isHighRiskTurnResult a \<Longrightarrow>
   (\<forall>a \<in> set (left_actions (run_calls (Some b) summary calls s)). \<not> isHighRiskTurnResult a) \<and>
   tn_bridged (run_calls (Some b) summary calls s) = tn_bridged s @ concat (map carried_out calls)"
proof (induction calls arbitrary: s)
  case (Cons c calls)
  show ?case
    using Cons.IH [of "snd (callTool (Some b) summary c s)"] tool_with_bridge [OF Cons.prems, of b summary c]
    by (simp add: run_calls_def)
qed (simp add: run_calls_def)

text \<open>
  With the control bridge, which \<open>runTurn\<close> of the session proxy always supplies, the check for
  high-risk actions after a guarded turn never applies: the bridge has already carried out every
  spawn, message, completion, cancellation and deletion that the model asked for, and the result
  carries none of them. All the check can still do is replace a reply that claims authority.
\<close>

theorem guard_is_too_late_with_bridge:
  "let s = run_calls (Some b) summary calls (start_turn th);
       r = endTurn codex thrown final evs deferred s
   in tn_bridged s = concat (map carried_out calls) \<and>
      list_all (\<lambda>a. \<not> isHighRiskTurnResult a) (handed_over r) \<and>
      enforceTurn d r \<in> {r, refusal_result d (claim_event d)}"
proof -
  let ?s = "run_calls (Some b) summary calls (start_turn th)"
  let ?r = "endTurn codex thrown final evs deferred ?s"
  have "tn_bridged (start_turn th) = []" by (simp add: start_turn_def)
  then have s: "\<forall>a \<in> set (left_actions ?s). \<not> isHighRiskTurnResult a"
      "tn_bridged ?s = concat (map carried_out calls)"
    using calls_with_bridge [of "start_turn th" b summary calls] by simp_all
  have r: "list_all (\<lambda>a. \<not> isHighRiskTurnResult a) (handed_over ?r)"
  proof (rule handed_over_all)
    fix a assume "a \<in> set (left_actions ?s)"
    with s(1) show "\<not> isHighRiskTurnResult (with_final final a) \<and> \<not> isHighRiskTurnResult a"
      by (cases a) (auto simp: with_final_def isHighRiskTurnResult_def)
  qed (simp_all add: isHighRiskTurnResult_def)
  then have "\<not> isHighRiskTurnResult (tr_action ?r)" by (simp add: handed_over_def)
  with s(2) r show ?thesis by (simp add: Let_def enforceTurn_def)
qed

end
