(* ===== verification/FactStore.thy ===== *)
theory FactStore
  imports Json
begin

text \<open>
  Model of the facts store: \<open>packages/sdk/src/facts-store.ts\<close> and the stored procedures it calls,
  which are the SQL of \<open>packages/sdk/src/facts-migrations.ts\<close>. The table is the list of its rows;
  the clock is an argument. A call that throws returns nothing. The rows of a statement without a
  total order come in the order of the table. A pattern that ends in a lone backslash, which
  PostgreSQL rejects when it reaches it, matches nothing.

  The last part states what the store promises to the tools above it: it is a map from owner and
  key to contents, where the owner is a session or, for shared facts, nobody.
\<close>

subsection \<open>Rows, inputs and queries\<close>

record fact_row =
  fr_scopeKey :: string
  fr_key :: string
  fr_value :: json
  fr_agentId :: "string option"
  fr_sessionId :: "string option"
  fr_shared :: bool
  fr_transient :: bool
  fr_tags :: "string list"
  fr_createdAt :: int
  fr_updatedAt :: int

type_synonym facts = "fact_row list"

record fact_input =
  fi_key :: string
  fi_value :: json
  fi_tags :: "string list option"
  fi_shared :: "bool option"
  fi_agentId :: "string option"
  fi_sessionId :: "string option"

record facts_query =
  fq_keyPattern :: "string option"
  fq_tags :: "string list option"
  fq_sessionId :: "string option"
  fq_agentId :: "string option"
  fq_limit :: "nat option"
  fq_scope :: "string option"

record delete_input =
  fd_key :: string
  fd_shared :: "bool option"
  fd_sessionId :: "string option"

record facts_access =
  fa_readerSessionId :: "string option"
  fa_grantedSessionIds :: "string list"
  fa_unrestricted :: bool

subsection \<open>The stored procedures\<close>

definition facts_store_fact ::
  "string \<Rightarrow> string \<Rightarrow> json \<Rightarrow> string option \<Rightarrow> string option \<Rightarrow> bool \<Rightarrow> bool \<Rightarrow> string list \<Rightarrow> int \<Rightarrow>
   facts \<Rightarrow> facts" where
  "facts_store_fact scopeKey key value agentId sessionId shared transient tags now t =
     (if list_ex (\<lambda>r. fr_scopeKey r = scopeKey) t
      then map (\<lambda>r. if fr_scopeKey r = scopeKey
             then r\<lparr>fr_value := value, fr_agentId := agentId, fr_sessionId := sessionId,
                    fr_shared := shared, fr_transient := transient, fr_tags := tags,
                    fr_updatedAt := now\<rparr>
             else r) t
      else t @ [\<lparr> fr_scopeKey = scopeKey, fr_key = key, fr_value = value, fr_agentId = agentId,
                  fr_sessionId = sessionId, fr_shared = shared, fr_transient = transient,
                  fr_tags = tags, fr_createdAt = now, fr_updatedAt = now \<rparr>])"

text \<open>\<open>text LIKE pattern\<close>: \<open>%\<close> any text, \<open>_\<close> any character, a backslash takes the next one literally.\<close>

fun like :: "string \<Rightarrow> string \<Rightarrow> bool" where
  "like [] s = (s = [])"
| "like (p # ps) s =
     (if p = CHR ''%'' then
        like ps s \<or> (case s of [] \<Rightarrow> False | c # rest \<Rightarrow> like (p # ps) rest)
      else if p = CHR 0x5C then
        (case ps of [] \<Rightarrow> False
         | q # qs \<Rightarrow> (case s of [] \<Rightarrow> False | c # rest \<Rightarrow> c = q \<and> like qs rest))
      else (case s of [] \<Rightarrow> False | c # rest \<Rightarrow> (p = CHR ''_'' \<or> p = c) \<and> like ps rest))"

definition fact_visible :: "string \<Rightarrow> string option \<Rightarrow> string list \<Rightarrow> bool \<Rightarrow> fact_row \<Rightarrow> bool" where
  "fact_visible scope reader granted unrestricted r =
     (if unrestricted then True
      else if scope = ''shared'' then fr_shared r
      else if scope = ''session'' then
        (case reader of None \<Rightarrow> False | Some s \<Rightarrow> \<not> fr_shared r \<and> fr_sessionId r = Some s)
      else
        (case reader of
           None \<Rightarrow> fr_shared r
         | Some s \<Rightarrow> fr_shared r \<or> (\<not> fr_shared r \<and> fr_sessionId r = Some s) \<or>
             (\<not> fr_shared r \<and> fr_sessionId r \<in> set (map Some granted))))"

definition fact_matches ::
  "string option \<Rightarrow> string list \<Rightarrow> string option \<Rightarrow> string option \<Rightarrow> fact_row \<Rightarrow> bool" where
  "fact_matches pattern tags sessionId agentId r =
     ((case pattern of None \<Rightarrow> True | Some p \<Rightarrow> like p (fr_key r)) \<and>
      set tags \<subseteq> set (fr_tags r) \<and>
      (case sessionId of None \<Rightarrow> True | Some s \<Rightarrow> fr_sessionId r = Some s) \<and>
      (case agentId of None \<Rightarrow> True | Some a \<Rightarrow> fr_agentId r = Some a))"

definition facts_read_facts ::
  "string \<Rightarrow> string option \<Rightarrow> string list \<Rightarrow> string option \<Rightarrow> string list \<Rightarrow> string option \<Rightarrow>
   string option \<Rightarrow> nat \<Rightarrow> bool \<Rightarrow> facts \<Rightarrow> facts" where
  "facts_read_facts scope reader granted pattern tags sessionId agentId maxRows unrestricted t =
     take maxRows (sort_key (\<lambda>r. - fr_updatedAt r)
       (filter (\<lambda>r. fact_visible scope reader granted unrestricted r \<and>
                    fact_matches pattern tags sessionId agentId r) t))"

definition facts_delete_fact :: "string \<Rightarrow> facts \<Rightarrow> nat \<times> facts" where
  "facts_delete_fact scopeKey t =
     (length (filter (\<lambda>r. fr_scopeKey r = scopeKey) t), filter (\<lambda>r. fr_scopeKey r \<noteq> scopeKey) t)"

definition facts_delete_session_facts :: "string \<Rightarrow> facts \<Rightarrow> nat \<times> facts" where
  "facts_delete_session_facts sid t =
     (length (filter (\<lambda>r. fr_sessionId r = Some sid \<and> \<not> fr_shared r) t),
      filter (\<lambda>r. \<not> (fr_sessionId r = Some sid \<and> \<not> fr_shared r)) t)"

subsection \<open>The store\<close>

definition computeScopeKey :: "string \<Rightarrow> bool \<Rightarrow> string option \<Rightarrow> string option" where
  "computeScopeKey key shared sessionId =
     (if shared then Some (''shared:'' @ key)
      else if \<not> truthy sessionId then None
      else Some (''session:'' @ or_str sessionId [] @ '':'' @ key))"

definition star_to_percent :: "string \<Rightarrow> string" where
  "star_to_percent s = map (\<lambda>c. if c = CHR ''*'' then CHR ''%'' else c) s"

definition normalizeLikePattern :: "string option \<Rightarrow> string option" where
  "normalizeLikePattern pattern =
     (if \<not> truthy pattern then None
      else if str_includes (or_str pattern []) ''%'' then pattern
      else if str_includes (or_str pattern []) ''*'' then map_option star_to_percent pattern
      else pattern)"

text \<open>A call answers with the key and whether the fact is shared.\<close>

definition storeFact :: "fact_input \<Rightarrow> int \<Rightarrow> facts \<Rightarrow> ((string \<times> bool) \<times> facts) option" where
  "storeFact i now t =
     (let shared = (fi_shared i = Some True) in
      (case computeScopeKey (fi_key i) shared (fi_sessionId i) of
         None \<Rightarrow> None
       | Some scopeKey \<Rightarrow>
           Some ((fi_key i, shared),
             facts_store_fact scopeKey (fi_key i) (fi_value i) (fi_agentId i) (fi_sessionId i)
               shared (\<not> shared) (default_to (fi_tags i) []) now t)))"

definition readFacts :: "facts_query \<Rightarrow> facts_access \<Rightarrow> facts \<Rightarrow> facts" where
  "readFacts q access t =
     facts_read_facts (default_to (fq_scope q) ''accessible'') (fa_readerSessionId access)
       (fa_grantedSessionIds access) (normalizeLikePattern (fq_keyPattern q))
       (default_to (fq_tags q) []) (fq_sessionId q) (fq_agentId q)
       (default_to (fq_limit q) 50) (fa_unrestricted access) t"

definition deleteFact :: "delete_input \<Rightarrow> facts \<Rightarrow> ((string \<times> bool \<times> bool) \<times> facts) option" where
  "deleteFact i t =
     (let shared = (fd_shared i = Some True) in
      (case computeScopeKey (fd_key i) shared (fd_sessionId i) of
         None \<Rightarrow> None
       | Some scopeKey \<Rightarrow>
           (case facts_delete_fact scopeKey t of
              (n, t') \<Rightarrow> Some ((fd_key i, shared, 0 < n), t'))))"

definition deleteSessionFactsForSession :: "string \<Rightarrow> facts \<Rightarrow> nat \<times> facts" where
  "deleteSessionFactsForSession sid t = facts_delete_session_facts sid t"

subsection \<open>What the store promises\<close>

text \<open>
  The owner of a fact: a session, or nobody for a shared fact. Session ids hold no colon, so that
  the key of a row determines owner and key.
\<close>

definition owner_ok :: "string option \<Rightarrow> bool" where
  "owner_ok own = (case own of None \<Rightarrow> True | Some s \<Rightarrow> s \<noteq> [] \<and> CHR '':'' \<notin> set s)"

definition owner_of :: "bool option \<Rightarrow> string option \<Rightarrow> string option" where
  "owner_of shared sessionId = (if shared = Some True then None else sessionId)"

definition scope_key :: "string option \<Rightarrow> string \<Rightarrow> string" where
  "scope_key own key =
     (case own of None \<Rightarrow> ''shared:'' @ key | Some s \<Rightarrow> ''session:'' @ s @ '':'' @ key)"

type_synonym fact_content = "json \<times> string list \<times> string option"

definition row_owner :: "fact_row \<Rightarrow> string option" where
  "row_owner r = (if fr_shared r then None else fr_sessionId r)"

definition row_content :: "fact_row \<Rightarrow> fact_content" where
  "row_content r = (fr_value r, fr_tags r, fr_agentId r)"

definition row_ok :: "fact_row \<Rightarrow> bool" where
  "row_ok r \<longleftrightarrow> owner_ok (row_owner r) \<and> (fr_shared r \<or> fr_sessionId r \<noteq> None) \<and>
     fr_scopeKey r = scope_key (row_owner r) (fr_key r) \<and> fr_transient r = (\<not> fr_shared r)"

definition facts_ok :: "facts \<Rightarrow> bool" where
  "facts_ok t \<longleftrightarrow> distinct (map fr_scopeKey t) \<and> list_all row_ok t"

definition fact_view :: "facts \<Rightarrow> string option \<times> string \<Rightarrow> fact_content option" where
  "fact_view t = (\<lambda>(own, key).
     if owner_ok own
     then map_option row_content (find (\<lambda>r. fr_scopeKey r = scope_key own key) t) else None)"

lemma split_at_first:
  "d \<notin> set s \<Longrightarrow> d \<notin> set u \<Longrightarrow> s @ d # k = u @ d # l \<longleftrightarrow> s = u \<and> k = l"
proof (induction s arbitrary: u)
  case Nil
  then show ?case by (cases u) auto
next
  case (Cons c s)
  then show ?case by (cases u) auto
qed

lemma scope_key_inject:
  assumes "owner_ok a" "owner_ok b"
  shows "scope_key a k = scope_key b l \<longleftrightarrow> a = b \<and> k = l"
proof (cases a)
  case None
  then show ?thesis by (cases b) (simp_all add: scope_key_def)
next
  case (Some s)
  show ?thesis
  proof (cases b)
    case None
    with Some show ?thesis by (simp add: scope_key_def)
  next
    case (Some u)
    with assms \<open>a = Some s\<close> show ?thesis
      by (simp add: scope_key_def owner_ok_def split_at_first)
  qed
qed

lemma computeScopeKey_eq:
  assumes "computeScopeKey key (shared = Some True) sessionId = Some scopeKey"
  shows "scopeKey = scope_key (owner_of shared sessionId) key \<and>
    (owner_of shared sessionId = None \<longleftrightarrow> shared = Some True)"
  using assms
  by (cases sessionId)
     (auto simp: computeScopeKey_def scope_key_def owner_of_def split: if_splits)

lemma find_map_same:
  assumes "\<And>x. x \<in> set xs \<Longrightarrow> P (f x) = P x"
  shows "find P (map f xs) = map_option f (find P xs)"
  using assms by (induction xs) auto

lemma find_filter_neq:
  "find (\<lambda>r. f r = a) (filter (\<lambda>r. f r \<noteq> b) xs) = (if a = b then None else find (\<lambda>r. f r = a) xs)"
  by (induction xs) auto

lemma find_key_None: "find (\<lambda>r. f r = k) xs = None \<longleftrightarrow> \<not> list_ex (\<lambda>r. f r = k) xs"
  by (induction xs) auto

lemma find_scope_key: "find (\<lambda>r. fr_scopeKey r = k) t = Some r \<Longrightarrow> fr_scopeKey r = k"
  by (auto simp: find_Some_iff)

text \<open>Storing changes what one scope key yields and nothing else.\<close>

lemma find_stored:
  "map_option row_content (find (\<lambda>r. fr_scopeKey r = k)
     (facts_store_fact scopeKey key v a sid sh tr tags now t)) =
   (if k = scopeKey then Some (v, tags, a)
    else map_option row_content (find (\<lambda>r. fr_scopeKey r = k) t))"
proof (cases "list_ex (\<lambda>r. fr_scopeKey r = scopeKey) t")
  case True
  let ?f = "\<lambda>r. if fr_scopeKey r = scopeKey
    then r\<lparr>fr_value := v, fr_agentId := a, fr_sessionId := sid, fr_shared := sh,
           fr_transient := tr, fr_tags := tags, fr_updatedAt := now\<rparr> else r"
  have "find (\<lambda>r. fr_scopeKey r = k) (map ?f t) = map_option ?f (find (\<lambda>r. fr_scopeKey r = k) t)"
    by (rule find_map_same) simp
  moreover have "find (\<lambda>r. fr_scopeKey r = scopeKey) t \<noteq> None"
    using True by (simp add: find_key_None)
  ultimately show ?thesis
    using True
    by (cases "find (\<lambda>r. fr_scopeKey r = k) t")
       (auto simp: facts_store_fact_def row_content_def dest: find_scope_key)
next
  case False
  then have "find (\<lambda>r. fr_scopeKey r = scopeKey) t = None" by (simp add: find_key_None)
  with False show ?thesis
    by (auto simp: facts_store_fact_def find_append row_content_def split: option.split)
qed

lemma view_stored:
  assumes "storeFact i now t = Some (res, t')" "owner_ok (owner_of (fi_shared i) (fi_sessionId i))"
  shows "fact_view t' = (fact_view t)((owner_of (fi_shared i) (fi_sessionId i), fi_key i) \<mapsto>
    (fi_value i, default_to (fi_tags i) [], fi_agentId i))"
proof -
  let ?o = "owner_of (fi_shared i) (fi_sessionId i)"
  obtain sk where sk: "computeScopeKey (fi_key i) (fi_shared i = Some True) (fi_sessionId i) = Some sk"
    and t': "t' = facts_store_fact sk (fi_key i) (fi_value i) (fi_agentId i) (fi_sessionId i)
      (fi_shared i = Some True) (fi_shared i \<noteq> Some True) (default_to (fi_tags i) []) now t"
    using assms(1) by (auto simp: storeFact_def Let_def split: option.splits)
  have "sk = scope_key ?o (fi_key i)" using computeScopeKey_eq [OF sk] by simp
  then show ?thesis
    using assms(2)
    by (auto simp: fun_eq_iff fact_view_def t' find_stored scope_key_inject)
qed

lemma view_deleted:
  assumes "deleteFact i t = Some (res, t')" "owner_ok (owner_of (fd_shared i) (fd_sessionId i))"
  shows "fact_view t' = (fact_view t)((owner_of (fd_shared i) (fd_sessionId i), fd_key i) := None)"
proof -
  let ?o = "owner_of (fd_shared i) (fd_sessionId i)"
  obtain sk where sk: "computeScopeKey (fd_key i) (fd_shared i = Some True) (fd_sessionId i) = Some sk"
    and t': "t' = filter (\<lambda>r. fr_scopeKey r \<noteq> sk) t"
    using assms(1) by (auto simp: deleteFact_def facts_delete_fact_def Let_def split: option.splits)
  have "sk = scope_key ?o (fd_key i)" using computeScopeKey_eq [OF sk] by simp
  then show ?thesis
    using assms(2)
    by (auto simp: fun_eq_iff fact_view_def t' find_filter_neq scope_key_inject)
qed

lemma row_of_view:
  assumes "facts_ok t" "r \<in> set t"
  shows "find (\<lambda>x. fr_scopeKey x = fr_scopeKey r) t = Some r"
  using assms
proof (induction t)
  case (Cons x t)
  then show ?case by (cases "x = r") (auto simp: facts_ok_def)
qed simp

lemma view_of_row:
  assumes "facts_ok t" "r \<in> set t"
  shows "fact_view t (row_owner r, fr_key r) = Some (row_content r)"
proof -
  have "row_ok r" using assms by (simp add: facts_ok_def list_all_iff)
  then show ?thesis using row_of_view [OF assms] by (simp add: fact_view_def row_ok_def)
qed

lemma row_for_view:
  assumes "facts_ok t" "fact_view t (own, key) = Some c"
  shows "\<exists>r \<in> set t. row_owner r = own \<and> fr_key r = key \<and> row_content r = c"
proof -
  from assms(2) obtain r where own: "owner_ok own" and c: "row_content r = c"
    and f: "find (\<lambda>x. fr_scopeKey x = scope_key own key) t = Some r"
    by (auto simp: fact_view_def split: if_splits)
  then have r: "r \<in> set t" "fr_scopeKey r = scope_key own key"
    by (auto simp: find_Some_iff)
  then have "row_ok r" using assms(1) by (simp add: facts_ok_def list_all_iff)
  with r(2) own have "row_owner r = own \<and> fr_key r = key"
    by (metis row_ok_def scope_key_inject)
  with r(1) c show ?thesis by blast
qed

lemma facts_ok_stored:
  assumes ok: "facts_ok t" and o: "owner_ok own" "sh \<longleftrightarrow> own = None" "\<not> sh \<Longrightarrow> sid = own"
  shows "facts_ok (facts_store_fact (scope_key own key) key v a sid sh (\<not> sh) tags now t)"
proof (cases "list_ex (\<lambda>r. fr_scopeKey r = scope_key own key) t")
  case True
  let ?f = "\<lambda>r. if fr_scopeKey r = scope_key own key
    then r\<lparr>fr_value := v, fr_agentId := a, fr_sessionId := sid, fr_shared := sh,
           fr_transient := \<not> sh, fr_tags := tags, fr_updatedAt := now\<rparr> else r"
  have "map fr_scopeKey (map ?f t) = map fr_scopeKey t" by simp
  moreover have "row_ok (?f r)" if "row_ok r" for r
    using that o by (auto simp: row_ok_def row_owner_def scope_key_inject)
  then have "list_all row_ok (map ?f t)" using ok unfolding facts_ok_def list_all_iff by fastforce
  ultimately have "facts_ok (map ?f t)" using ok unfolding facts_ok_def by metis
  with True show ?thesis by (simp only: facts_store_fact_def if_True)
next
  case False
  then show ?thesis
    using ok o
    by (auto simp: facts_store_fact_def facts_ok_def row_ok_def row_owner_def list_ex_iff)
qed

lemma facts_ok_filter: "facts_ok t \<Longrightarrow> facts_ok (filter P t)"
  by (auto simp: facts_ok_def list_all_iff distinct_map intro: inj_on_subset)

lemma storeFact_ok:
  assumes "facts_ok t" "storeFact i now t = Some (res, t')"
    "owner_ok (owner_of (fi_shared i) (fi_sessionId i))"
  shows "facts_ok t'"
proof -
  obtain sk where sk: "computeScopeKey (fi_key i) (fi_shared i = Some True) (fi_sessionId i) = Some sk"
    and t': "t' = facts_store_fact sk (fi_key i) (fi_value i) (fi_agentId i) (fi_sessionId i)
      (fi_shared i = Some True) (fi_shared i \<noteq> Some True) (default_to (fi_tags i) []) now t"
    using assms(2) by (auto simp: storeFact_def Let_def split: option.splits)
  let ?o = "owner_of (fi_shared i) (fi_sessionId i)"
  have o: "sk = scope_key ?o (fi_key i)" "fi_shared i = Some True \<longleftrightarrow> ?o = None"
    using computeScopeKey_eq [OF sk] by auto
  have "fi_shared i \<noteq> Some True \<Longrightarrow> fi_sessionId i = ?o" by (simp add: owner_of_def)
  with facts_ok_stored [OF assms(1,3) o(2)] show ?thesis unfolding t' o(1) by blast
qed

lemma deleteFact_ok:
  "facts_ok t \<Longrightarrow> deleteFact i t = Some (res, t') \<Longrightarrow> facts_ok t'"
  by (auto simp: deleteFact_def facts_delete_fact_def Let_def facts_ok_filter split: option.splits)

lemma view_cleared:
  assumes "facts_ok t"
  shows "fact_view (snd (deleteSessionFactsForSession sid t)) =
    (\<lambda>(own, key). if own = Some sid then None else fact_view t (own, key))"
proof -
  let ?P = "\<lambda>r. \<not> (fr_sessionId r = Some sid \<and> \<not> fr_shared r)"
  have own: "?P r \<longleftrightarrow> row_owner r \<noteq> Some sid" for r by (auto simp: row_owner_def)
  have gone: "snd (deleteSessionFactsForSession sid t) = filter (\<lambda>r. row_owner r \<noteq> Some sid) t"
    by (simp only: deleteSessionFactsForSession_def facts_delete_session_facts_def own snd_conv)
  have same: "find Q (filter R t) = find Q t" if "\<And>r. r \<in> set t \<Longrightarrow> Q r \<Longrightarrow> R r"
    for Q R and t :: facts
    using that by (induction t) auto
  have of_key: "row_owner r = o'" if "r \<in> set t" "owner_ok o'" "fr_scopeKey r = scope_key o' k" for r o' k
    using that assms unfolding facts_ok_def list_all_iff by (metis row_ok_def scope_key_inject)
  show ?thesis
  proof (rule ext, clarify)
    fix own key
    show "fact_view (snd (deleteSessionFactsForSession sid t)) (own, key) =
        (if own = Some sid then None else fact_view t (own, key))"
    proof (cases "owner_ok own")
      case True
      have "find (\<lambda>r. fr_scopeKey r = scope_key own key) (filter (\<lambda>r. row_owner r \<noteq> Some sid) t) =
          (if own = Some sid then None else find (\<lambda>r. fr_scopeKey r = scope_key own key) t)"
      proof (cases "own = Some sid")
        case True
        with \<open>owner_ok own\<close> of_key show ?thesis by (force simp: find_None_iff)
      next
        case False
        with \<open>owner_ok own\<close> of_key show ?thesis by (simp add: same)
      qed
      with True show ?thesis by (simp add: fact_view_def gone)
    qed (simp add: fact_view_def)
  qed
qed

subsection \<open>The contract\<close>

text \<open>
  What a client does to a store, and the effect of an operation on the map it stands for. A private
  fact needs a session: without one the call throws and changes nothing.
\<close>

datatype fact_op = Put fact_input int | Del delete_input | Clear string

type_synonym fact_map = "string option \<times> string \<Rightarrow> fact_content option"

definition no_owner :: "bool option \<Rightarrow> string option \<Rightarrow> bool" where
  "no_owner shared sessionId \<longleftrightarrow> shared \<noteq> Some True \<and> \<not> truthy sessionId"

fun op_ok :: "fact_op \<Rightarrow> bool" where
  "op_ok (Put i now) = owner_ok (owner_of (fi_shared i) (fi_sessionId i))"
| "op_ok (Del i) = owner_ok (owner_of (fd_shared i) (fd_sessionId i))"
| "op_ok (Clear sid) = True"

fun map_op :: "fact_op \<Rightarrow> fact_map \<Rightarrow> fact_map" where
  "map_op (Put i now) m =
     (if no_owner (fi_shared i) (fi_sessionId i) then m
      else m((owner_of (fi_shared i) (fi_sessionId i), fi_key i) \<mapsto>
             (fi_value i, default_to (fi_tags i) [], fi_agentId i)))"
| "map_op (Del i) m =
     (if no_owner (fd_shared i) (fd_sessionId i) then m
      else m((owner_of (fd_shared i) (fd_sessionId i), fd_key i) := None))"
| "map_op (Clear sid) m = (\<lambda>(own, key). if own = Some sid then None else m (own, key))"

definition kept :: "('r \<times> 't) option \<Rightarrow> 't \<Rightarrow> 't" where
  "kept x t = (case x of None \<Rightarrow> t | Some (r, t') \<Rightarrow> t')"

lemma kept_simps [simp]: "kept None t = t" "kept (Some x) t = snd x"
  by (simp_all add: kept_def split: prod.split)

fun run_op where
  "run_op put del clear (Put i now) t = kept (put i now t) t"
| "run_op put del clear (Del i) t = kept (del i t) t"
| "run_op put del clear (Clear sid) t = snd (clear sid t)"

definition run_facts where
  "run_facts put del clear ops t = fold (run_op put del clear) ops t"

locale fact_table =
  fixes ok :: "'t \<Rightarrow> bool" and view :: "'t \<Rightarrow> fact_map"
    and put :: "fact_input \<Rightarrow> int \<Rightarrow> 't \<Rightarrow> ('r \<times> 't) option"
    and del :: "delete_input \<Rightarrow> 't \<Rightarrow> ('d \<times> 't) option"
    and clear :: "string \<Rightarrow> 't \<Rightarrow> nat \<times> 't"
  assumes put_throws: "put i now t = None \<longleftrightarrow> no_owner (fi_shared i) (fi_sessionId i)"
    and del_throws: "del j t = None \<longleftrightarrow> no_owner (fd_shared j) (fd_sessionId j)"
    and put_law: "ok t \<Longrightarrow> op_ok (Put i now) \<Longrightarrow> put i now t = Some (r, t') \<Longrightarrow>
      ok t' \<and> view t' = map_op (Put i now) (view t)"
    and del_law: "ok t \<Longrightarrow> op_ok (Del j) \<Longrightarrow> del j t = Some (d, t') \<Longrightarrow>
      ok t' \<and> view t' = map_op (Del j) (view t)"
    and clear_law: "ok t \<Longrightarrow> ok (snd (clear sid t)) \<and> view (snd (clear sid t)) = map_op (Clear sid) (view t)"
begin

lemma op_refines:
  assumes "ok t" "op_ok p"
  shows "ok (run_op put del clear p t) \<and> view (run_op put del clear p t) = map_op p (view t)"
proof (cases p)
  case (Put i now)
  then show ?thesis
    using assms put_throws [of i now t] put_law [of t i now] by (cases "put i now t") auto
next
  case (Del j)
  then show ?thesis
    using assms del_throws [of j t] del_law [of t j] by (cases "del j t") auto
next
  case (Clear sid)
  then show ?thesis using assms clear_law [of t sid] by simp
qed

lemma run_refines:
  "ok t \<Longrightarrow> list_all op_ok ops \<Longrightarrow>
   ok (run_facts put del clear ops t) \<and> view (run_facts put del clear ops t) = fold map_op ops (view t)"
  by (induction ops arbitrary: t) (simp_all add: run_facts_def op_refines)

end

lemma computeScopeKey_None:
  "computeScopeKey key (shared = Some True) sid = None \<longleftrightarrow> no_owner shared sid"
  by (auto simp: computeScopeKey_def no_owner_def)

lemma storeFact_None: "storeFact i now t = None \<longleftrightarrow> no_owner (fi_shared i) (fi_sessionId i)"
  using computeScopeKey_None [of "fi_key i" "fi_shared i" "fi_sessionId i"]
  by (auto simp: storeFact_def Let_def split: option.split)

lemma deleteFact_None: "deleteFact i t = None \<longleftrightarrow> no_owner (fd_shared i) (fd_sessionId i)"
  using computeScopeKey_None [of "fd_key i" "fd_shared i" "fd_sessionId i"]
  by (auto simp: deleteFact_def facts_delete_fact_def Let_def split: option.split)

interpretation pg: fact_table facts_ok fact_view storeFact deleteFact deleteSessionFactsForSession
proof (unfold_locales, goal_cases)
  case (3 t i now r t')
  then have "\<not> no_owner (fi_shared i) (fi_sessionId i)" using storeFact_None [of i now t] by simp
  with 3 show ?case by (simp add: storeFact_ok view_stored)
next
  case (4 t j d t')
  then have "\<not> no_owner (fd_shared j) (fd_sessionId j)" using deleteFact_None [of j t] by simp
  with 4 show ?case by (simp add: deleteFact_ok view_deleted)
next
  case (5 t sid)
  then show ?case
    by (simp add: view_cleared)
       (simp add: deleteSessionFactsForSession_def facts_delete_session_facts_def facts_ok_filter)
qed (simp_all add: storeFact_None deleteFact_None)

text \<open>
  C10: As long as no session id contains a colon, the facts table is a map from owner and key to
  contents: whatever sequence of stores, deletions and session cleanups by such sessions is run, a table
  that is well formed - one row per owner and key, filed under the key that names both - stays so, and a
  lookup yields what the same sequence does to a plain map. In particular such a session never changes or
  removes another one's private fact, and cleaning up a session keeps every shared fact. For ids with a
  colon this fails: see \<open>colon_ids_share_a_key\<close>.
\<close>

theorem facts_table_is_a_map:
  assumes "facts_ok t" "list_all op_ok ops"
  shows "facts_ok (run_facts storeFact deleteFact deleteSessionFactsForSession ops t) \<and>
    fact_view (run_facts storeFact deleteFact deleteSessionFactsForSession ops t) =
      fold map_op ops (fact_view t)"
  using assms by (rule pg.run_refines)

definition sample_put :: "string \<Rightarrow> bool option \<Rightarrow> string option \<Rightarrow> json \<Rightarrow> fact_input" where
  "sample_put key shared sid v = \<lparr> fi_key = key, fi_value = v, fi_tags = None, fi_shared = shared,
     fi_agentId = None, fi_sessionId = sid \<rparr>"

theorem facts_table_is_a_map_witness:
  "fact_view (run_facts storeFact deleteFact deleteSessionFactsForSession
     [Put (sample_put ''k'' None (Some ''a'') (JNum 1)) 1, Put (sample_put ''k'' (Some True) (Some ''a'') (JNum 2)) 2,
      Clear ''a''] []) (None, ''k'') = Some (JNum 2, [], None)"
  by (subst facts_table_is_a_map [THEN conjunct2])
     (simp_all add: facts_ok_def sample_put_def owner_of_def owner_ok_def no_owner_def)

text \<open>
  C11: Session ids that contain a colon share keys: the key under which the session \<open>a\<close> files its private
  fact \<open>b:k\<close> is the one under which the session \<open>a:b\<close> files its private fact \<open>k\<close>, so that the second store
  replaces the first fact - value and owner - in every table.
\<close>

theorem colon_ids_share_a_key:
  "\<exists>r1 t1 r2 t2 r.
     storeFact (sample_put (b @ '':'' @ k) None (Some (c # a)) v) now t = Some (r1, t1) \<and>
     storeFact (sample_put k None (Some (c # a @ '':'' @ b)) u) later t1 = Some (r2, t2) \<and>
     find (\<lambda>r. fr_scopeKey r = scope_key (Some (c # a)) (b @ '':'' @ k)) t2 = Some r \<and>
     fr_sessionId r = Some (c # a @ '':'' @ b) \<and> fr_value r = u"
proof -
  let ?k = "''session:'' @ c # a @ '':'' @ b @ '':'' @ k"
  obtain t1 where t1: "t1 = facts_store_fact ?k (b @ '':'' @ k) v None (Some (c # a)) False True [] now t" by simp
  obtain t2 where t2: "t2 = facts_store_fact ?k k u None (Some (c # a @ '':'' @ b)) False True [] later t1" by simp
  have s: "storeFact (sample_put (b @ '':'' @ k) None (Some (c # a)) v) now t = Some ((b @ '':'' @ k, False), t1)"
    "storeFact (sample_put k None (Some (c # a @ '':'' @ b)) u) later t1 = Some ((k, False), t2)"
    by (simp_all add: storeFact_def sample_put_def computeScopeKey_def truthy_def t1 t2)
  have "map_option row_content (find (\<lambda>r. fr_scopeKey r = ?k) t2) = Some (u, [], None)"
    unfolding t2 by (simp only: find_stored) simp
  then obtain r where f: "find (\<lambda>r. fr_scopeKey r = ?k) t2 = Some r" "fr_value r = u"
    by (auto simp: row_content_def)
  have "r \<in> set t2" "fr_scopeKey r = ?k" using f(1) by (auto simp: find_Some_iff)
  then have "fr_sessionId r = Some (c # a @ '':'' @ b)"
    unfolding t2 by (auto simp: facts_store_fact_def list_ex_iff split: if_splits)
  with s f show ?thesis by (auto simp: scope_key_def)
qed

subsection \<open>Reading\<close>

lemma readFacts_row:
  assumes "r \<in> set (readFacts q access t)"
  shows "r \<in> set t" "fact_visible (default_to (fq_scope q) ''accessible'') (fa_readerSessionId access)
    (fa_grantedSessionIds access) (fa_unrestricted access) r"
  using assms by (auto simp: readFacts_def facts_read_facts_def dest: in_set_takeD)

text \<open>Everything visible that matches is read when the limit allows.\<close>

lemma readFacts_all:
  assumes "length t \<le> default_to (fq_limit q) 50"
  shows "set (readFacts q access t) =
    {r \<in> set t. fact_visible (default_to (fq_scope q) ''accessible'') (fa_readerSessionId access)
        (fa_grantedSessionIds access) (fa_unrestricted access) r \<and>
      fact_matches (normalizeLikePattern (fq_keyPattern q)) (default_to (fq_tags q) [])
        (fq_sessionId q) (fq_agentId q) r}"
proof -
  have "length (filter P t) \<le> default_to (fq_limit q) 50" for P
    using assms by (rule le_trans [OF length_filter_le])
  then show ?thesis by (auto simp: readFacts_def facts_read_facts_def)
qed

text \<open>A pattern without special characters matches its own text; followed by \<open>%\<close>, what starts with it.\<close>

definition literal :: "string \<Rightarrow> bool" where
  "literal p \<longleftrightarrow> set p \<inter> {CHR ''%'', CHR ''_'', CHR 0x5C} = {}"

lemma like_literal: "literal p \<Longrightarrow> like p s = (p = s)"
proof (induction p arbitrary: s)
  case Nil
  then show ?case by auto
next
  case (Cons c p)
  then show ?case by (cases s) (auto simp: literal_def)
qed

lemma like_percent: "like ''%'' s"
  by (induction s) auto

lemma like_prefix: "literal p \<Longrightarrow> like (p @ ''%'') s = starts_with s p"
proof (induction p arbitrary: s)
  case Nil
  then show ?case using like_percent [of s] by (simp add: starts_with_def)
next
  case (Cons c p)
  then show ?case by (cases s) (auto simp: literal_def starts_with_def)
qed

end
