(* ===== verification/FactTools.thy ===== *)
theory FactTools
  imports FactStore
begin

text \<open>
  Model of \<open>packages/sdk/src/facts-tools.ts\<close>: the tools by which agents store, read and delete facts,
  the namespaces reserved for the facts manager, and what a reader may see. The agent's identity,
  the session of the call and the functions that list a session's relatives are arguments. The
  theorems are about sequences of calls by many sessions, run on the table of the facts store.
\<close>

subsection \<open>Reserved namespaces\<close>

definition FACTS_MANAGER_AGENT_ID :: string where
  "FACTS_MANAGER_AGENT_ID = ''facts-manager''"

definition TUNER_AGENT_ID :: string where
  "TUNER_AGENT_ID = ''agent-tuner''"

definition RESERVED_WRITE_PREFIXES :: "string list" where
  "RESERVED_WRITE_PREFIXES = [''skills/'', ''asks/'', ''config/facts-manager/'']"

definition RESERVED_READ_PREFIXES :: "string list" where
  "RESERVED_READ_PREFIXES = [''intake/'']"

definition RESERVED_DELETE_PREFIXES :: "string list" where
  "RESERVED_DELETE_PREFIXES = [''intake/'', ''skills/'', ''asks/'', ''config/facts-manager/'']"

definition checkNamespaceWrite :: "string \<Rightarrow> string option \<Rightarrow> string option" where
  "checkNamespaceWrite key agentIdentity =
     (case find (\<lambda>p. starts_with key p \<and> agentIdentity \<noteq> Some FACTS_MANAGER_AGENT_ID)
             RESERVED_WRITE_PREFIXES of
        None \<Rightarrow> None
      | Some p \<Rightarrow> Some (''Error: the '' @ [CHR 0x27] @ p @ [CHR 0x27] @
          '' key namespace is reserved for the Facts Manager. Write observations to '' @
          [CHR 0x27] @ ''intake/<topic>/<your-session-id>'' @ [CHR 0x27] @ '' instead.''))"

text \<open>The second test of the source, \<open>prefix.replace("/", "/%")\<close>, replaces the first slash.\<close>

fun first_slash_percent :: "string \<Rightarrow> string" where
  "first_slash_percent [] = []"
| "first_slash_percent (c # s) = (if c = CHR ''/'' then ''/%'' @ s else c # first_slash_percent s)"

definition checkNamespaceRead :: "string option \<Rightarrow> string option \<Rightarrow> string option" where
  "checkNamespaceRead keyPattern agentIdentity =
     (if \<not> truthy keyPattern then None
      else
        (let normalized = star_to_percent (or_str keyPattern []) in
         (case find (\<lambda>p. (starts_with normalized p \<or> starts_with normalized (first_slash_percent p)) \<and>
                       agentIdentity \<noteq> Some FACTS_MANAGER_AGENT_ID) RESERVED_READ_PREFIXES of
            None \<Rightarrow> None
          | Some p \<Rightarrow> Some (''Error: the '' @ [CHR 0x27] @ p @ [CHR 0x27] @
              '' key namespace is not readable by task agents. Read curated skills from '' @
              [CHR 0x27] @ ''skills/'' @ [CHR 0x27] @ '' or open asks from '' @
              [CHR 0x27] @ ''asks/'' @ [CHR 0x27] @ '' instead.''))))"

definition checkNamespaceDelete :: "string \<Rightarrow> string option \<Rightarrow> string option" where
  "checkNamespaceDelete key agentIdentity =
     (case find (\<lambda>p. starts_with key p \<and> agentIdentity \<noteq> Some FACTS_MANAGER_AGENT_ID)
             RESERVED_DELETE_PREFIXES of
        None \<Rightarrow> None
      | Some p \<Rightarrow> Some (''Error: the '' @ [CHR 0x27] @ p @ [CHR 0x27] @
          '' key namespace is reserved. Only the Facts Manager can delete from it.''))"

subsection \<open>The tools\<close>

record store_args =
  ta_key :: string
  ta_value :: json
  ta_tags :: "string list option"
  ta_shared :: "bool option"

record read_args =
  ra_key_pattern :: "string option"
  ra_tags :: "string list option"
  ra_session_id :: "string option"
  ra_agent_id :: "string option"
  ra_limit :: "nat option"
  ra_scope :: "string option"

record delete_args =
  da_key :: string
  da_shared :: "bool option"

text \<open>
  The options of \<open>createFactTools\<close>, and of a call the session and agent it is made for. The two
  functions that list relatives are optional; so is the recorder of events.
\<close>

record fact_options =
  fo_getDescendantSessionIds :: "(string \<Rightarrow> string list) option"
  fo_getLineageSessionIds :: "(string \<Rightarrow> string list) option"
  fo_agentIdentity :: "string option"
  fo_recordEvent :: bool

record fact_ctx =
  fc_sessionId :: "string option"
  fc_agentId :: "string option"

datatype fact_reply =
    FactError string
  | FactThrown
  | FactStored string bool string
  | FactRows facts
  | FactDeleted string bool bool

definition storeTool ::
  "fact_options \<Rightarrow> store_args \<Rightarrow> fact_ctx \<Rightarrow> int \<Rightarrow> facts \<Rightarrow> fact_reply \<times> facts" where
  "storeTool opts args ctx now t =
     (case checkNamespaceWrite (ta_key args) (fo_agentIdentity opts) of
        Some e \<Rightarrow> (FactError e, t)
      | None \<Rightarrow>
          (case storeFact \<lparr> fi_key = ta_key args, fi_value = ta_value args, fi_tags = ta_tags args,
                   fi_shared = ta_shared args, fi_agentId = fc_agentId ctx,
                   fi_sessionId = fc_sessionId ctx \<rparr> now t of
             None \<Rightarrow> (FactThrown, t)
           | Some ((key, shared), t') \<Rightarrow>
               (FactStored key shared (if shared then ''shared'' else ''session''), t')))"

definition normalize_target :: "string option \<Rightarrow> string option" where
  "normalize_target sid =
     map_option (\<lambda>s. if starts_with s ''session-'' then drop (length ''session-'') s else s) sid"

text \<open>The relatives of the calling session, without itself and without repetition.\<close>

definition lineageSessionIds :: "fact_options \<Rightarrow> string \<Rightarrow> string list" where
  "lineageSessionIds opts sid =
     (let raw = (case fo_getLineageSessionIds opts of
                   Some f \<Rightarrow> f sid
                 | None \<Rightarrow> (case fo_getDescendantSessionIds opts of Some g \<Rightarrow> g sid | None \<Rightarrow> []))
      in rev (remdups (rev (filter (\<lambda>x. x \<noteq> [] \<and> x \<noteq> sid) raw))))"

definition isTuner :: "fact_options \<Rightarrow> bool" where
  "isTuner opts \<longleftrightarrow> fo_agentIdentity opts = Some TUNER_AGENT_ID"

definition grantedSessionIds :: "fact_options \<Rightarrow> read_args \<Rightarrow> fact_ctx \<Rightarrow> string list" where
  "grantedSessionIds opts args ctx =
     (if isTuner opts \<or> \<not> truthy (fc_sessionId ctx) then []
      else
        (let sid = or_str (fc_sessionId ctx) [];
             lineage = lineageSessionIds opts sid;
             target = normalize_target (ra_session_id args)
         in if truthy target \<and> target \<noteq> Some sid
            then (if or_str target [] \<in> set lineage then [or_str target []] else [])
            else if ra_scope args = Some ''accessible'' \<or> ra_scope args = Some ''descendants'' \<or>
                    \<not> truthy (ra_scope args)
            then lineage else []))"

definition effectiveScope :: "fact_options \<Rightarrow> read_args \<Rightarrow> fact_ctx \<Rightarrow> string option" where
  "effectiveScope opts args ctx =
     (if ra_scope args = Some ''descendants'' \<or> grantedSessionIds opts args ctx \<noteq> []
      then Some ''accessible'' else ra_scope args)"

definition skill_event :: "fact_options \<Rightarrow> read_args \<Rightarrow> fact_ctx \<Rightarrow> nat \<Rightarrow> (string \<times> string \<times> json) list" where
  "skill_event opts args ctx matchCount =
     (if fo_recordEvent opts \<and> truthy (fc_sessionId ctx) \<and>
         starts_with (star_to_percent (default_to (ra_key_pattern args) [])) ''skills/''
      then [(or_str (fc_sessionId ctx) [], ''learned_skill.read'',
             JObj [(''name'', JStr (default_to (ra_key_pattern args) [])),
                   (''scope'', JStr (default_to (or_else (effectiveScope opts args ctx) (ra_scope args))
                      ''accessible'')),
                   (''matchCount'', JNum (int matchCount)),
                   (''limit'', JNum (int (default_to (ra_limit args) 50))),
                   (''callerSessionId'', JStr (or_str (fc_sessionId ctx) [])),
                   (''callerAgentId'', (case fo_agentIdentity opts of None \<Rightarrow> JNull | Some a \<Rightarrow> JStr a))])]
      else [])"

definition readTool ::
  "fact_options \<Rightarrow> read_args \<Rightarrow> fact_ctx \<Rightarrow> facts \<Rightarrow> fact_reply \<times> (string \<times> string \<times> json) list" where
  "readTool opts args ctx t =
     (case checkNamespaceRead (ra_key_pattern args) (fo_agentIdentity opts) of
        Some e \<Rightarrow> (FactError e, [])
      | None \<Rightarrow>
          (let rows = readFacts
                 \<lparr> fq_keyPattern = ra_key_pattern args, fq_tags = ra_tags args,
                   fq_sessionId = normalize_target (ra_session_id args),
                   fq_agentId = ra_agent_id args, fq_limit = ra_limit args,
                   fq_scope = effectiveScope opts args ctx \<rparr>
                 \<lparr> fa_readerSessionId = fc_sessionId ctx,
                   fa_grantedSessionIds = grantedSessionIds opts args ctx,
                   fa_unrestricted = isTuner opts \<rparr> t
           in (FactRows rows, skill_event opts args ctx (length rows))))"

definition deleteTool :: "fact_options \<Rightarrow> delete_args \<Rightarrow> fact_ctx \<Rightarrow> facts \<Rightarrow> fact_reply \<times> facts" where
  "deleteTool opts args ctx t =
     (case checkNamespaceDelete (da_key args) (fo_agentIdentity opts) of
        Some e \<Rightarrow> (FactError e, t)
      | None \<Rightarrow>
          (case deleteFact \<lparr> fd_key = da_key args, fd_shared = da_shared args,
                             fd_sessionId = fc_sessionId ctx \<rparr> t of
             None \<Rightarrow> (FactThrown, t)
           | Some ((key, shared, deleted), t') \<Rightarrow> (FactDeleted key shared deleted, t')))"

subsection \<open>Sequences of calls\<close>

datatype fact_call = StoreCall store_args int | ReadCall read_args | DeleteCall delete_args

type_synonym called = "fact_options \<times> fact_ctx \<times> fact_call"

definition call_facts :: "called \<Rightarrow> facts \<Rightarrow> facts" where
  "call_facts c t =
     (case c of (opts, ctx, StoreCall args now) \<Rightarrow> snd (storeTool opts args ctx now t)
      | (opts, ctx, ReadCall args) \<Rightarrow> t
      | (opts, ctx, DeleteCall args) \<Rightarrow> snd (deleteTool opts args ctx t))"

definition run_fact_calls :: "called list \<Rightarrow> facts \<Rightarrow> facts" where
  "run_fact_calls cs t = fold call_facts cs t"

text \<open>What a call asks of the store.\<close>

definition call_ops :: "called \<Rightarrow> fact_op list" where
  "call_ops c =
     (case c of
        (opts, ctx, StoreCall args now) \<Rightarrow>
          (if checkNamespaceWrite (ta_key args) (fo_agentIdentity opts) = None
           then [Put \<lparr> fi_key = ta_key args, fi_value = ta_value args, fi_tags = ta_tags args,
                   fi_shared = ta_shared args, fi_agentId = fc_agentId ctx,
                   fi_sessionId = fc_sessionId ctx \<rparr> now] else [])
      | (opts, ctx, ReadCall args) \<Rightarrow> []
      | (opts, ctx, DeleteCall args) \<Rightarrow>
          (if checkNamespaceDelete (da_key args) (fo_agentIdentity opts) = None
           then [Del \<lparr> fd_key = da_key args, fd_shared = da_shared args,
                             fd_sessionId = fc_sessionId ctx \<rparr>] else []))"

lemma call_facts_ops:
  "call_facts c t = run_facts storeFact deleteFact deleteSessionFactsForSession (call_ops c) t"
  by (cases c rule: prod_cases3; cases "snd (snd c)")
     (auto simp: call_facts_def call_ops_def run_facts_def storeTool_def deleteTool_def
       split: option.split)

lemma run_fact_calls_ops:
  "run_fact_calls cs t =
     run_facts storeFact deleteFact deleteSessionFactsForSession (concat (map call_ops cs)) t"
  by (induction cs arbitrary: t) (simp_all add: run_fact_calls_def call_facts_ops run_facts_def)

definition caller_ok :: "called \<Rightarrow> bool" where
  "caller_ok c = owner_ok (fc_sessionId (fst (snd c)))"

lemma call_ops_ok: "caller_ok c \<Longrightarrow> list_all op_ok (call_ops c)"
  by (cases c rule: prod_cases3; cases "snd (snd c)")
     (auto simp: caller_ok_def call_ops_def owner_of_def owner_ok_def)

lemma run_fact_calls_view:
  assumes "facts_ok t" "list_all caller_ok cs"
  shows "facts_ok (run_fact_calls cs t) \<and>
    fact_view (run_fact_calls cs t) = fold map_op (concat (map call_ops cs)) (fact_view t)"
proof -
  have "list_all op_ok (concat (map call_ops cs))"
    using assms(2) call_ops_ok by (induction cs) auto
  then show ?thesis unfolding run_fact_calls_ops using assms(1) by (intro pg.run_refines)
qed

subsection \<open>Reserved namespaces are protected\<close>

definition in_namespace :: "string list \<Rightarrow> string \<Rightarrow> bool" where
  "in_namespace prefixes key \<longleftrightarrow> list_ex (starts_with key) prefixes"

lemma find_guarded: "find (\<lambda>p. P p \<and> a) ps = None \<longleftrightarrow> \<not> a \<or> \<not> list_ex P ps"
  by (induction ps) auto

lemma checkNamespaceWrite_None:
  "checkNamespaceWrite key i = None \<longleftrightarrow>
     i = Some FACTS_MANAGER_AGENT_ID \<or> \<not> in_namespace RESERVED_WRITE_PREFIXES key"
  using find_guarded [of "starts_with key" "i \<noteq> Some FACTS_MANAGER_AGENT_ID" RESERVED_WRITE_PREFIXES]
  by (auto simp: checkNamespaceWrite_def in_namespace_def split: option.split)

lemma checkNamespaceDelete_None:
  "checkNamespaceDelete key i = None \<longleftrightarrow>
     i = Some FACTS_MANAGER_AGENT_ID \<or> \<not> in_namespace RESERVED_DELETE_PREFIXES key"
  using find_guarded [of "starts_with key" "i \<noteq> Some FACTS_MANAGER_AGENT_ID" RESERVED_DELETE_PREFIXES]
  by (auto simp: checkNamespaceDelete_def in_namespace_def split: option.split)

definition task_agent :: "called \<Rightarrow> bool" where
  "task_agent c \<longleftrightarrow> fo_agentIdentity (fst c) \<noteq> Some FACTS_MANAGER_AGENT_ID"

fun writes_key :: "string \<Rightarrow> fact_op \<Rightarrow> bool" where
  "writes_key k (Put i now) = (fi_key i = k)"
| "writes_key k (Del i) = False"
| "writes_key k (Clear sid) = False"

fun removes_key :: "string \<Rightarrow> fact_op \<Rightarrow> bool" where
  "removes_key k (Put i now) = False"
| "removes_key k (Del i) = (fd_key i = k)"
| "removes_key k (Clear sid) = True"

lemma map_op_untouched:
  "list_all (\<lambda>p. \<not> writes_key k p \<and> \<not> removes_key k p) ops \<Longrightarrow> fold map_op ops m (own, k) = m (own, k)"
proof (induction ops arbitrary: m)
  case (Cons p ops)
  then show ?case by (cases p) auto
qed simp

lemma map_op_present:
  "list_all (\<lambda>p. \<not> removes_key k p) ops \<Longrightarrow> m (own, k) \<noteq> None \<Longrightarrow> fold map_op ops m (own, k) \<noteq> None"
proof (induction ops arbitrary: m)
  case (Cons p ops)
  have "map_op p m (own, k) \<noteq> None" using Cons.prems by (cases p) auto
  then show ?case using Cons by simp
qed simp

lemma task_agent_writes:
  assumes "task_agent c" "in_namespace RESERVED_WRITE_PREFIXES k"
  shows "list_all (\<lambda>p. \<not> writes_key k p) (call_ops c)"
  using assms
  by (cases c rule: prod_cases3; cases "snd (snd c)")
     (auto simp: call_ops_def task_agent_def checkNamespaceWrite_None)

lemma task_agent_removes:
  assumes "task_agent c" "in_namespace RESERVED_DELETE_PREFIXES k"
  shows "list_all (\<lambda>p. \<not> removes_key k p) (call_ops c)"
  using assms
  by (cases c rule: prod_cases3; cases "snd (snd c)")
     (auto simp: call_ops_def task_agent_def checkNamespaceDelete_None)

lemma reserved_for_deletion:
  "in_namespace RESERVED_WRITE_PREFIXES k \<Longrightarrow> in_namespace RESERVED_DELETE_PREFIXES k"
  by (auto simp: in_namespace_def RESERVED_WRITE_PREFIXES_def RESERVED_DELETE_PREFIXES_def)

text \<open>
  C12: The reserved namespaces are protected: whatever task agents call, in any order and in any sessions
  whose ids contain no colon, the facts under \<open>skills/\<close>, \<open>asks/\<close> and \<open>config/facts-manager/\<close> stay exactly as
  they are, for every owner, and no fact under \<open>intake/\<close> disappears.
\<close>

theorem reserved_namespaces_are_protected:
  assumes "facts_ok t" "list_all caller_ok cs" "list_all task_agent cs"
  shows "(in_namespace RESERVED_WRITE_PREFIXES k \<longrightarrow>
           fact_view (run_fact_calls cs t) (own, k) = fact_view t (own, k)) \<and>
    (in_namespace RESERVED_DELETE_PREFIXES k \<longrightarrow> fact_view t (own, k) \<noteq> None \<longrightarrow>
       fact_view (run_fact_calls cs t) (own, k) \<noteq> None)"
proof -
  let ?ops = "concat (map call_ops cs)"
  have v: "fact_view (run_fact_calls cs t) = fold map_op ?ops (fact_view t)"
    using assms(1,2) by (rule run_fact_calls_view [THEN conjunct2])
  have all: "list_all P ?ops" if "\<And>c. task_agent c \<Longrightarrow> list_all P (call_ops c)" for P
    using assms(3) that by (induction cs) auto
  have "list_all (\<lambda>p. \<not> removes_key k p) ?ops" if "in_namespace RESERVED_DELETE_PREFIXES k"
    using all task_agent_removes that by blast
  moreover have "list_all (\<lambda>p. \<not> writes_key k p \<and> \<not> removes_key k p) ?ops"
    if "in_namespace RESERVED_WRITE_PREFIXES k"
  proof (rule all)
    fix c assume "task_agent c"
    then show "list_all (\<lambda>p. \<not> writes_key k p \<and> \<not> removes_key k p) (call_ops c)"
      using task_agent_writes task_agent_removes reserved_for_deletion that
      unfolding list_all_iff by metis
  qed
  ultimately show ?thesis by (simp add: v map_op_untouched map_op_present)
qed

subsection \<open>What a reader sees\<close>

lemma granted_in_lineage:
  "s \<in> set (grantedSessionIds opts args ctx) \<Longrightarrow>
   truthy (fc_sessionId ctx) \<and> s \<in> set (lineageSessionIds opts (or_str (fc_sessionId ctx) []))"
  by (auto simp: grantedSessionIds_def Let_def split: if_splits)

text \<open>
  C13: A private fact is read by its own session and that session's relatives only: every row that
  \<open>read_facts\<close> returns to an agent other than the tuner is shared, or belongs to the calling session,
  or to one of the sessions that the lineage function lists for it. No choice of scope, pattern,
  target session or filter gets around this.
\<close>

theorem reads_stay_in_the_family:
  assumes "\<not> isTuner opts" "readTool opts args ctx t = (FactRows rows, evs)" "r \<in> set rows"
  shows "r \<in> set t \<and> (fr_shared r \<or>
    (\<exists>s. fr_sessionId r = Some s \<and>
      (fc_sessionId ctx = Some s \<or>
       truthy (fc_sessionId ctx) \<and> s \<in> set (lineageSessionIds opts (or_str (fc_sessionId ctx) [])))))"
proof -
  let ?q = "\<lparr> fq_keyPattern = ra_key_pattern args, fq_tags = ra_tags args,
    fq_sessionId = normalize_target (ra_session_id args), fq_agentId = ra_agent_id args,
    fq_limit = ra_limit args, fq_scope = effectiveScope opts args ctx \<rparr>"
  let ?a = "\<lparr> fa_readerSessionId = fc_sessionId ctx, fa_grantedSessionIds = grantedSessionIds opts args ctx,
    fa_unrestricted = isTuner opts \<rparr>"
  have "rows = readFacts ?q ?a t" using assms(2) by (auto simp: readTool_def Let_def split: option.splits)
  with assms(3) have r: "r \<in> set (readFacts ?q ?a t)" by simp
  have "fact_visible (default_to (effectiveScope opts args ctx) ''accessible'') (fc_sessionId ctx)
      (grantedSessionIds opts args ctx) (isTuner opts) r"
    using readFacts_row(2) [OF r] by simp
  with assms(1) have "fr_shared r \<or> (\<exists>s. fr_sessionId r = Some s \<and>
      (fc_sessionId ctx = Some s \<or> s \<in> set (grantedSessionIds opts args ctx)))"
    by (auto simp: fact_visible_def split: if_splits option.splits)
  with granted_in_lineage readFacts_row(1) [OF r] show ?thesis by blast
qed

definition task_options :: "string option \<Rightarrow> fact_options" where
  "task_options identity = \<lparr> fo_getDescendantSessionIds = None, fo_getLineageSessionIds = Some (\<lambda>s. [''child'']),
     fo_agentIdentity = identity, fo_recordEvent = False \<rparr>"

definition caller :: "string \<Rightarrow> fact_ctx" where
  "caller sid = \<lparr> fc_sessionId = Some sid, fc_agentId = None \<rparr>"

definition all_of_scope :: "string option \<Rightarrow> string option \<Rightarrow> read_args" where
  "all_of_scope pattern scope = \<lparr> ra_key_pattern = pattern, ra_tags = None, ra_session_id = None,
     ra_agent_id = None, ra_limit = None, ra_scope = scope \<rparr>"

definition shared_row :: "string \<Rightarrow> json \<Rightarrow> fact_row" where
  "shared_row key v = \<lparr> fr_scopeKey = ''shared:'' @ key, fr_key = key, fr_value = v, fr_agentId = None,
     fr_sessionId = None, fr_shared = True, fr_transient = False, fr_tags = [], fr_createdAt = 0,
     fr_updatedAt = 0 \<rparr>"

lemma shared_row_ok: "facts_ok [shared_row key v]"
  by (simp add: facts_ok_def row_ok_def row_owner_def shared_row_def owner_ok_def scope_key_def)

lemmas example_defs = task_options_def caller_def all_of_scope_def caller_ok_def owner_ok_def
  task_agent_def FACTS_MANAGER_AGENT_ID_def TUNER_AGENT_ID_def isTuner_def

theorem reserved_namespaces_are_protected_witness:
  "fact_view (run_fact_calls
     [(task_options None, caller ''a'',
       StoreCall \<lparr> ta_key = ''skills/x'', ta_value = JNull, ta_tags = None, ta_shared = Some True \<rparr> 1),
      (task_options None, caller ''b'', DeleteCall \<lparr> da_key = ''skills/x'', da_shared = Some True \<rparr>)]
     [shared_row ''skills/x'' (JNum 1)]) (None, ''skills/x'') =
   fact_view [shared_row ''skills/x'' (JNum 1)] (None, ''skills/x'')"
  by (rule reserved_namespaces_are_protected [OF shared_row_ok, THEN conjunct1, THEN mp])
     (simp_all add: example_defs in_namespace_def RESERVED_WRITE_PREFIXES_def starts_with_def)

theorem reads_stay_in_the_family_witness:
  "shared_row ''k'' JNull \<in> set [shared_row ''k'' JNull] \<and>
   readTool (task_options None) (all_of_scope None (Some ''shared'')) (caller ''a'') [shared_row ''k'' JNull] =
     (FactRows [shared_row ''k'' JNull], [])"
proof -
  have r: "readTool (task_options None) (all_of_scope None (Some ''shared'')) (caller ''a'')
      [shared_row ''k'' JNull] = (FactRows [shared_row ''k'' JNull], [])"
    by (simp add: readTool_def checkNamespaceRead_def readFacts_def facts_read_facts_def
        effectiveScope_def grantedSessionIds_def normalize_target_def normalizeLikePattern_def
        fact_visible_def fact_matches_def skill_event_def shared_row_def example_defs Let_def)
  then show ?thesis
    using reads_stay_in_the_family [OF _ r, of "shared_row ''k'' JNull"] by (simp add: example_defs)
qed

text \<open>Reading one's own fact back.\<close>

lemma filter_key:
  assumes "distinct (map f t)"
  shows "filter (\<lambda>r. f r = a) t = (case find (\<lambda>r. f r = a) t of None \<Rightarrow> [] | Some r \<Rightarrow> [r])"
  using assms
proof (induction t)
  case (Cons x t)
  have "find (\<lambda>r. f r = f x) t = None" using Cons.prems by (fastforce simp: find_None_iff intro: rev_image_eqI)
  with Cons show ?case by auto
qed simp

text \<open>A key that is its own pattern.\<close>

definition plain_key :: "string \<Rightarrow> bool" where
  "plain_key key \<longleftrightarrow> key \<noteq> [] \<and> literal key \<and> CHR ''*'' \<notin> set key"

lemma plain_pattern: "plain_key key \<Longrightarrow> normalizeLikePattern (Some key) = Some key"
  by (simp add: plain_key_def literal_def normalizeLikePattern_def str_includes_char)

lemma own_rows:
  assumes ok: "facts_ok t" and s: "owner_ok (Some s)" and key: "plain_key key"
  shows "filter (\<lambda>r. fact_visible ''session'' (Some s) g False r \<and>
      fact_matches (Some key) [] None None r) t = filter (\<lambda>r. fr_scopeKey r = scope_key (Some s) key) t"
proof (rule filter_cong [OF refl])
  fix r assume "r \<in> set t"
  then have r: "row_ok r" using ok by (simp add: facts_ok_def list_all_iff)
  have "fact_visible ''session'' (Some s) g False r \<longleftrightarrow> row_owner r = Some s"
    by (auto simp: fact_visible_def row_owner_def)
  moreover have "fact_matches (Some key) [] None None r \<longleftrightarrow> fr_key r = key"
    using key by (auto simp: fact_matches_def plain_key_def like_literal)
  moreover have "fr_scopeKey r = scope_key (Some s) key \<longleftrightarrow> row_owner r = Some s \<and> fr_key r = key"
    using r s by (metis row_ok_def scope_key_inject)
  ultimately show "(fact_visible ''session'' (Some s) g False r \<and> fact_matches (Some key) [] None None r) =
      (fr_scopeKey r = scope_key (Some s) key)" by simp
qed

lemma own_fact_is_read:
  assumes ok: "facts_ok t" and s: "owner_ok (Some s)" and key: "plain_key key"
    and rd: "\<not> in_namespace RESERVED_READ_PREFIXES key" "\<not> isTuner opts"
    and ctx: "fc_sessionId ctx = Some s"
  shows "\<exists>rows evs. readTool opts (all_of_scope (Some key) (Some ''session'')) ctx t = (FactRows rows, evs) \<and>
    map row_content rows = (case fact_view t (Some s, key) of None \<Rightarrow> [] | Some c \<Rightarrow> [c])"
proof -
  have star: "star_to_percent key = key"
    using key by (auto simp: plain_key_def star_to_percent_def intro!: map_idI)
  have "\<not> starts_with key ''intake/%''"
    using key by (auto simp: plain_key_def literal_def dest!: starts_withE)
  then have check: "checkNamespaceRead (Some key) (fo_agentIdentity opts) = None"
    using rd(1) by (simp add: checkNamespaceRead_def Let_def star in_namespace_def RESERVED_READ_PREFIXES_def)
  have granted: "grantedSessionIds opts (all_of_scope (Some key) (Some ''session'')) ctx = []"
    by (simp add: grantedSessionIds_def all_of_scope_def normalize_target_def Let_def)
  let ?rows = "case find (\<lambda>r. fr_scopeKey r = scope_key (Some s) key) t of None \<Rightarrow> [] | Some r \<Rightarrow> [r]"
  have "readFacts \<lparr> fq_keyPattern = Some key, fq_tags = None, fq_sessionId = None, fq_agentId = None,
      fq_limit = None, fq_scope = Some ''session'' \<rparr>
      \<lparr> fa_readerSessionId = Some s, fa_grantedSessionIds = [], fa_unrestricted = False \<rparr> t = ?rows"
    using ok filter_key [of fr_scopeKey t "scope_key (Some s) key"]
    by (simp add: readFacts_def facts_read_facts_def plain_pattern [OF key] own_rows [OF ok s key]
        facts_ok_def split: option.split)
  moreover have "map row_content ?rows = (case fact_view t (Some s, key) of None \<Rightarrow> [] | Some c \<Rightarrow> [c])"
    using s by (simp add: fact_view_def split: option.split)
  ultimately show ?thesis
    using check granted rd(2) ctx
    by (simp add: readTool_def Let_def effectiveScope_def all_of_scope_def normalize_target_def)
qed

text \<open>
  A session reads back what it stored: after \<open>store_fact\<close> without \<open>shared\<close>, and any calls by
  others that do not name the same key, \<open>read_facts\<close> with the key as pattern and scope \<open>session\<close>
  returns exactly one fact, with the value, the tags and the agent it was stored with.
\<close>

theorem stored_fact_is_read_back:
  assumes ok: "facts_ok t" and s: "owner_ok (Some s)" "fc_sessionId ctx = Some s"
    and key: "plain_key (ta_key args)" "\<not> in_namespace RESERVED_READ_PREFIXES (ta_key args)"
      "\<not> in_namespace RESERVED_WRITE_PREFIXES (ta_key args)"
    and unshared: "ta_shared args \<noteq> Some True" and opts: "\<not> isTuner opts"
    and others: "list_all caller_ok cs"
      "list_all (\<lambda>p. \<not> writes_key (ta_key args) p \<and> \<not> removes_key (ta_key args) p) (concat (map call_ops cs))"
  shows "\<exists>rows evs. readTool opts (all_of_scope (Some (ta_key args)) (Some ''session'')) ctx
      (run_fact_calls ((opts, ctx, StoreCall args now) # cs) t) = (FactRows rows, evs) \<and>
    map row_content rows = [(ta_value args, default_to (ta_tags args) [], fc_agentId ctx)]"
proof -
  let ?c = "(opts, ctx, StoreCall args now)"
  let ?t = "run_fact_calls (?c # cs) t"
  have "list_all caller_ok (?c # cs)" using s others(1) by (simp add: caller_ok_def)
  from run_fact_calls_view [OF ok this]
  have t: "facts_ok ?t" "fact_view ?t = fold map_op (concat (map call_ops (?c # cs))) (fact_view t)"
    by blast+
  have "call_ops ?c = [Put \<lparr> fi_key = ta_key args, fi_value = ta_value args, fi_tags = ta_tags args,
      fi_shared = ta_shared args, fi_agentId = fc_agentId ctx, fi_sessionId = fc_sessionId ctx \<rparr> now]"
    using key(3) by (simp add: call_ops_def checkNamespaceWrite_None)
  then have "fact_view ?t (Some s, ta_key args) =
      Some (ta_value args, default_to (ta_tags args) [], fc_agentId ctx)"
    using s unshared unfolding t(2)
    by (simp add: map_op_untouched [OF others(2)] no_owner_def owner_of_def owner_ok_def)
  with own_fact_is_read [OF t(1) s(1) key(1,2) opts s(2)] show ?thesis by simp
qed

theorem stored_fact_is_read_back_witness:
  "\<exists>rows evs. readTool (task_options None) (all_of_scope (Some ''k'') (Some ''session'')) (caller ''a'')
     (run_fact_calls [(task_options None, caller ''a'',
        StoreCall \<lparr> ta_key = ''k'', ta_value = JNum 1, ta_tags = None, ta_shared = None \<rparr> 1),
        (task_options None, caller ''b'', DeleteCall \<lparr> da_key = ''l'', da_shared = None \<rparr>)] []) =
     (FactRows rows, evs) \<and> map row_content rows = [(JNum 1, [], None)]"
  using stored_fact_is_read_back [of "[]" "''a''" "caller ''a''"
      "\<lparr> ta_key = ''k'', ta_value = JNum 1, ta_tags = None, ta_shared = None \<rparr>" "task_options None"
      "[(task_options None, caller ''b'', DeleteCall \<lparr> da_key = ''l'', da_shared = None \<rparr>)]" "1"]
  by (simp add: facts_ok_def example_defs plain_key_def literal_def in_namespace_def starts_with_def
      RESERVED_READ_PREFIXES_def RESERVED_WRITE_PREFIXES_def RESERVED_DELETE_PREFIXES_def
      call_ops_def checkNamespaceDelete_None)

subsection \<open>Gaps\<close>

text \<open>
  The reading ban on \<open>intake/\<close> does not hold: only patterns that begin with the prefix are
  refused, so a task agent that gives no pattern, or \<open>%intake/%\<close>, is answered with every shared fact
  whose key the pattern matches, those under \<open>intake/\<close> among them.
\<close>

theorem intake_is_readable:
  assumes "\<not> isTuner opts" "r \<in> set t" "fr_shared r" "length t \<le> 50"
    and "pattern = None \<or> pattern = Some ''%intake/%'' \<and> starts_with (fr_key r) ''intake/''"
  shows "\<exists>rows evs. readTool opts (all_of_scope pattern (Some ''shared'')) ctx t = (FactRows rows, evs) \<and>
    r \<in> set rows"
proof -
  let ?q = "\<lparr> fq_keyPattern = pattern, fq_tags = None, fq_sessionId = None, fq_agentId = None,
    fq_limit = None, fq_scope = Some ''shared'' \<rparr>"
  let ?a = "\<lparr> fa_readerSessionId = fc_sessionId ctx, fa_grantedSessionIds = [], fa_unrestricted = False \<rparr>"
  have granted: "grantedSessionIds opts (all_of_scope pattern (Some ''shared'')) ctx = []"
    by (simp add: grantedSessionIds_def all_of_scope_def normalize_target_def Let_def)
  have lit: "literal ''intake/''" by (simp add: literal_def)
  have "like ''%intake/%'' (fr_key r)" if "starts_with (fr_key r) ''intake/''"
    using that like_prefix [OF lit, of "fr_key r"] by simp
  then have "r \<in> set (readFacts ?q ?a t)"
    using assms(2-5) readFacts_all [of t ?q ?a]
    by (auto simp: fact_visible_def fact_matches_def normalizeLikePattern_def str_includes_char)
  moreover have "checkNamespaceRead pattern (fo_agentIdentity opts) = None"
    using assms(5)
    by (auto simp: checkNamespaceRead_def RESERVED_READ_PREFIXES_def star_to_percent_def starts_with_def)
  ultimately show ?thesis
    using granted assms(1)
    by (simp add: readTool_def Let_def effectiveScope_def all_of_scope_def normalize_target_def)
qed

theorem intake_is_readable_witness:
  "\<exists>rows evs. readTool (task_options None) (all_of_scope None (Some ''shared'')) (caller ''a'')
     [shared_row ''intake/x'' (JNum 1)] = (FactRows rows, evs) \<and> shared_row ''intake/x'' (JNum 1) \<in> set rows"
  by (rule intake_is_readable) (simp_all add: example_defs shared_row_def)

text \<open>
  The tuner is not read-only: the gates refuse it the reserved namespaces like any task agent, and
  every other fact it may store, replace and delete, for its own session or for everybody.
\<close>

theorem tuner_may_write:
  assumes "fo_agentIdentity opts = Some TUNER_AGENT_ID"
    and "\<not> in_namespace RESERVED_DELETE_PREFIXES (ta_key args)"
    and "ta_shared args = Some True" "facts_ok t"
  shows "fact_view (snd (storeTool opts args ctx now t)) (None, ta_key args) =
      Some (ta_value args, default_to (ta_tags args) [], fc_agentId ctx) \<and>
    fact_view (snd (deleteTool opts \<lparr> da_key = ta_key args, da_shared = Some True \<rparr> ctx t))
      (None, ta_key args) = None"
proof -
  have w: "checkNamespaceWrite (ta_key args) (fo_agentIdentity opts) = None"
    "checkNamespaceDelete (ta_key args) (fo_agentIdentity opts) = None"
    using assms(2) reserved_for_deletion
    by (auto simp: checkNamespaceWrite_None checkNamespaceDelete_None)
  have "call_facts (opts, ctx, StoreCall args now) t = snd (storeTool opts args ctx now t)"
    "call_facts (opts, ctx, DeleteCall \<lparr> da_key = ta_key args, da_shared = Some True \<rparr>) t =
      snd (deleteTool opts \<lparr> da_key = ta_key args, da_shared = Some True \<rparr> ctx t)"
    by (simp_all add: call_facts_def)
  then show ?thesis
    using pg.run_refines [OF assms(4), of "call_ops (opts, ctx, StoreCall args now)"]
      pg.run_refines [OF assms(4), of "call_ops (opts, ctx, DeleteCall \<lparr> da_key = ta_key args, da_shared = Some True \<rparr>)"]
      assms(3) w
    by (simp add: call_facts_ops call_ops_def owner_of_def owner_ok_def no_owner_def)
qed

theorem tuner_may_write_witness:
  "fact_view (snd (storeTool (task_options (Some TUNER_AGENT_ID))
     \<lparr> ta_key = ''k'', ta_value = JNum 1, ta_tags = None, ta_shared = Some True \<rparr> (caller ''t'') 1 []))
     (None, ''k'') = Some (JNum 1, [], None)"
  by (subst tuner_may_write [THEN conjunct1, of _ "\<lparr> ta_key = ''k'', ta_value = JNum 1, ta_tags = None,
        ta_shared = Some True \<rparr>", simplified])
     (simp_all add: example_defs in_namespace_def RESERVED_DELETE_PREFIXES_def starts_with_def facts_ok_def)

end
