(* ===== verification/PromptLayering.thy ===== *)
theory PromptLayering
  imports DataModel
begin

text \<open>
  Model of \<open>packages/sdk/src/prompt-layering.ts\<close> - how the framework's, the application's, the
  agent's and the session's instructions are composed into a system prompt - and of its use in
  \<open>packages/sdk/src/session-manager.ts\<close> and \<open>session-proxy.ts\<close>. A section of a structured message
  replaces or appends a text, or computes it from the current one.
\<close>

subsection \<open>Composing sections\<close>

definition FRAMEWORK_HEADER :: string where
  "FRAMEWORK_HEADER = join [nl]
     [''# PilotSwarm Framework Instructions'',
      ''These instructions are authoritative and highest priority.'',
      ''If any later section conflicts with this section, follow this section.'']"

definition APP_HEADER :: string where
  "APP_HEADER = join [nl]
     [''# Application Default Instructions'',
      ''The following section contains additional application-level instructions.'',
      ''Follow them unless they conflict with the PilotSwarm Framework Instructions above.'']"

definition ACTIVE_AGENT_HEADER :: string where
  "ACTIVE_AGENT_HEADER = join [nl]
     [''# Active Agent Instructions'',
      ''The following section defines the role-specific behavior for this session.'',
      ''Follow it unless it conflicts with any section above.'']"

definition RUNTIME_HEADER :: string where
  "RUNTIME_HEADER = join [nl]
     [''# Runtime Context'',
      ''This section contains session-specific operational context.'',
      ''Use it unless it conflicts with any section above.'']"

definition normalizeSection :: "string option \<Rightarrow> string option" where
  "normalizeSection content = keep_truthy (Some (trim (default_to content [])))"

definition mergePromptSections :: "string option list \<Rightarrow> string option" where
  "mergePromptSections parts =
     (let normalized = List.map_filter normalizeSection parts
      in if normalized = [] then None else Some (join [nl, nl] normalized))"

definition extractPromptContent :: "system_message option \<Rightarrow> string option" where
  "extractPromptContent message =
     (case message of
        None \<Rightarrow> None
      | Some (SysText s) \<Rightarrow> if s = [] then None else normalizeSection (Some s)
      | Some (SysObj m c) \<Rightarrow> normalizeSection (Some c))"

record layer_options =
  lo_frameworkBase :: "string option"
  lo_appDefault :: "string option"
  lo_activeAgentPrompt :: "string option"
  lo_runtimeContext :: "string option"
  lo_includeAppDefault :: "bool option"

datatype section_override =
    ReplaceWith string
  | AppendText string
  | Computed "string \<Rightarrow> string"

type_synonym prompt_sections = "(string \<times> section_override) list"

definition app_default :: "layer_options \<Rightarrow> string option" where
  "app_default opts =
     (if lo_includeAppDefault opts = Some False then None else normalizeSection (lo_appDefault opts))"

definition buildPromptLayerSections :: "layer_options \<Rightarrow> prompt_sections" where
  "buildPromptLayerSections opts =
     (let frameworkBase = normalizeSection (lo_frameworkBase opts);
          appDefault = app_default opts;
          lastInstructions = mergePromptSections
            [normalizeSection (lo_activeAgentPrompt opts), normalizeSection (lo_runtimeContext opts)]
      in (case frameworkBase of None \<Rightarrow> [] | Some s \<Rightarrow> [(''custom_instructions'', ReplaceWith s)]) @
         (case appDefault of None \<Rightarrow> [] | Some s \<Rightarrow> [(''guidelines'', AppendText s)]) @
         (case lastInstructions of None \<Rightarrow> [] | Some s \<Rightarrow> [(''last_instructions'', ReplaceWith s)]))"

text \<open>\<open>{ ...a, ...b }\<close>: the keys of the first object keep their place.\<close>

definition obj_spread :: "(string \<times> 'a) list \<Rightarrow> (string \<times> 'a) list \<Rightarrow> (string \<times> 'a) list" where
  "obj_spread a b =
     map (\<lambda>(k, v). (k, default_to (map_of b k) v)) a @ filter (\<lambda>(k, v). map_of a k = None) b"

text \<open>The sections and the content of a structured message, each absent when empty.\<close>

definition composeStructuredSystemMessage ::
  "layer_options \<Rightarrow> prompt_sections \<Rightarrow> string option \<Rightarrow> (prompt_sections option \<times> string option) option" where
  "composeStructuredSystemMessage opts additionalSections additional =
     (let sections = obj_spread (buildPromptLayerSections opts) additionalSections;
          additionalContent = normalizeSection additional
      in if sections = [] \<and> additionalContent = None then None
         else Some (if sections = [] then None else Some sections, additionalContent))"

definition layer :: "string \<Rightarrow> string \<Rightarrow> string \<Rightarrow> string" where
  "layer header tag content =
     header @ [nl, nl] @ ''<'' @ tag @ ''>'' @ [nl] @ content @ [nl] @ ''</'' @ tag @ ''>''"

definition composeSystemPrompt :: "layer_options \<Rightarrow> string option" where
  "composeSystemPrompt opts =
     (let sections = List.map_filter id
            [map_option (\<lambda>s. FRAMEWORK_HEADER @ [nl, nl] @ s) (normalizeSection (lo_frameworkBase opts)),
             map_option (layer APP_HEADER ''APPLICATION_DEFAULT'') (app_default opts),
             map_option (layer ACTIVE_AGENT_HEADER ''ACTIVE_AGENT'')
               (normalizeSection (lo_activeAgentPrompt opts)),
             map_option (layer RUNTIME_HEADER ''RUNTIME_CONTEXT'')
               (normalizeSection (lo_runtimeContext opts))]
      in if sections = [] then None else Some (join [nl, nl] sections))"

subsection \<open>The prompts of a session\<close>

text \<open>
  The worker's defaults the two builders read, the configuration, and the two blocks of curated
  knowledge that the section computes when the session starts.
\<close>

record worker_defaults =
  wd_frameworkBasePrompt :: "string option"
  wd_systemMessage :: "string option"
  wd_appDefaultPrompt :: "string option"
  wd_agentPromptLookup :: "string \<Rightarrow> string option"
  wd_factStore :: bool

definition boundAgentPrompt :: "worker_defaults \<Rightarrow> session_config \<Rightarrow> string option" where
  "boundAgentPrompt wd c =
     (if truthy (c_boundAgentName c) then wd_agentPromptLookup wd (or_str (c_boundAgentName c) []) else None)"

definition layerKind :: "session_config \<Rightarrow> prompt_layer option" where
  "layerKind c =
     or_else (c_promptLayering c) (if truthy (c_boundAgentName c) then Some AppAgent else None)"

definition frameworkBase :: "worker_defaults \<Rightarrow> string option" where
  "frameworkBase wd = or_else (wd_frameworkBasePrompt wd) (wd_systemMessage wd)"

definition appDefaultFor :: "worker_defaults \<Rightarrow> session_config \<Rightarrow> string option" where
  "appDefaultFor wd c =
     (if layerKind c = Some PilotswarmSystemAgent then None else wd_appDefaultPrompt wd)"

definition buildKnowledgeToolInstructionsSection ::
  "worker_defaults \<Rightarrow> session_config \<Rightarrow> string option \<Rightarrow> string option \<Rightarrow> section_override option" where
  "buildKnowledgeToolInstructionsSection wd c askBlock skillBlock =
     (if \<not> wd_factStore wd \<or> c_agentIdentity c = Some ''facts-manager'' then None
      else Some (Computed (\<lambda>cur. default_to (mergePromptSections [Some cur, askBlock, skillBlock]) cur)))"

definition buildLastInstructionsSection :: "worker_defaults \<Rightarrow> session_config \<Rightarrow> section_override" where
  "buildLastInstructionsSection wd latest =
     Computed (\<lambda>cur.
       let overlay = mergePromptSections
             [boundAgentPrompt wd latest, extractPromptContent (c_systemMessage latest),
              c_turnSystemPrompt latest]
       in default_to (mergePromptSections [Some cur, overlay]) cur)"

definition buildSystemMessage ::
  "worker_defaults \<Rightarrow> session_config \<Rightarrow> string option \<Rightarrow> string option \<Rightarrow>
   (prompt_sections option \<times> string option) option" where
  "buildSystemMessage wd c askBlock skillBlock =
     composeStructuredSystemMessage
       \<lparr> lo_frameworkBase = frameworkBase wd, lo_appDefault = appDefaultFor wd c,
         lo_activeAgentPrompt = None, lo_runtimeContext = None, lo_includeAppDefault = None \<rparr>
       ((case buildKnowledgeToolInstructionsSection wd c askBlock skillBlock of
           None \<Rightarrow> [] | Some s \<Rightarrow> [(''tool_instructions'', s)]) @
        [(''last_instructions'', buildLastInstructionsSection wd c)]) None"

definition buildFlatSystemPrompt :: "worker_defaults \<Rightarrow> session_config \<Rightarrow> string option" where
  "buildFlatSystemPrompt wd c =
     composeSystemPrompt
       \<lparr> lo_frameworkBase = frameworkBase wd, lo_appDefault = appDefaultFor wd c,
         lo_activeAgentPrompt = boundAgentPrompt wd c,
         lo_runtimeContext = mergePromptSections
           [extractPromptContent (c_systemMessage c), c_turnSystemPrompt c],
         lo_includeAppDefault = None \<rparr>"

text \<open>The configuration of a turn: the host is named, and the identity is filled in.\<close>

definition buildRunTurnConfig :: "session_config \<Rightarrow> string \<Rightarrow> string option \<Rightarrow> session_config" where
  "buildRunTurnConfig c hostname fallbackAgentIdentity =
     (let r = c\<lparr>c_turnSystemPrompt := mergePromptSections
            [c_turnSystemPrompt c, Some (''Running on host '' @ [CHR 0x22] @ hostname @ [CHR 0x22] @ ''.'')]\<rparr>
      in if \<not> truthy (c_agentIdentity r) \<and> truthy fallbackAgentIdentity
         then r\<lparr>c_agentIdentity := fallbackAgentIdentity\<rparr> else r)"

subsection \<open>Merging\<close>

lemma hd_join: "xs \<noteq> [] \<Longrightarrow> hd xs \<noteq> [] \<Longrightarrow> join d xs \<noteq> [] \<and> hd (join d xs) = hd (hd xs)"
  by (cases "(d, xs)" rule: join.cases) auto

lemma last_join: "xs \<noteq> [] \<Longrightarrow> last xs \<noteq> [] \<Longrightarrow> join d xs \<noteq> [] \<and> last (join d xs) = last (last xs)"
  by (induction d xs rule: join.induct) auto

text \<open>A normal section: trimmed and not empty.\<close>

definition is_section :: "string \<Rightarrow> bool" where
  "is_section s \<longleftrightarrow> s \<noteq> [] \<and> trimmed s"

lemma normalizeSection_Some: "normalizeSection c = Some s \<Longrightarrow> is_section s"
  using trimmed_trim by (auto simp: normalizeSection_def is_section_def split: if_splits)

lemma normalizeSection_id: "is_section s \<Longrightarrow> normalizeSection (Some s) = Some s"
  by (simp add: normalizeSection_def is_section_def trim_trimmed)

lemma normalizeSection_None [simp]: "normalizeSection None = None"
  by (simp add: normalizeSection_def trim_trimmed trimmed_def)

definition sections_of :: "string option list \<Rightarrow> string list" where
  "sections_of parts = List.map_filter normalizeSection parts"

lemma sections_of_simps [simp]:
  "sections_of [] = []"
  "sections_of (p # ps) = (case normalizeSection p of None \<Rightarrow> sections_of ps | Some s \<Rightarrow> s # sections_of ps)"
  by (simp_all add: sections_of_def split: option.split)

lemma sections_of_append [simp]: "sections_of (ps @ qs) = sections_of ps @ sections_of qs"
  by (induction ps) (simp_all split: option.split)

lemma sections_are_sections: "s \<in> set (sections_of ps) \<Longrightarrow> is_section s"
  by (induction ps) (auto simp: normalizeSection_Some split: option.splits)

lemma merge_sections:
  "mergePromptSections ps = (if sections_of ps = [] then None else Some (join [nl, nl] (sections_of ps)))"
  by (simp add: mergePromptSections_def sections_of_def Let_def)

lemma join_section:
  assumes "xs \<noteq> []" "\<And>s. s \<in> set xs \<Longrightarrow> is_section s"
  shows "is_section (join d xs)"
proof -
  have "is_section (hd xs)" "is_section (last xs)" using assms by simp_all
  then show ?thesis
    using hd_join [OF assms(1), of d] last_join [OF assms(1), of d]
    by (auto simp: is_section_def trimmed_def)
qed

lemma merge_section: "mergePromptSections ps = Some s \<Longrightarrow> is_section s"
  using join_section [of "sections_of ps" "[nl, nl]"] sections_are_sections [of _ ps]
  by (auto simp: merge_sections split: if_splits)

lemma sections_of_merge:
  "sections_of [mergePromptSections ps] =
     (if sections_of ps = [] then [] else [join [nl, nl] (sections_of ps)])"
  using merge_section [of ps] by (auto simp: merge_sections normalizeSection_id)

lemma join_joins:
  assumes "\<And>xs. xs \<in> set xss \<Longrightarrow> xs \<noteq> []"
  shows "join d (map (join d) xss) = join d (concat xss)"
  using assms
proof (induction xss)
  case (Cons xs xss)
  show ?case
  proof (cases xss)
    case (Cons ys yss)
    then have "concat xss \<noteq> []" using Cons.prems [of ys] by simp
    then show ?thesis
      using Cons Cons.IH Cons.prems join_append [of xs "concat xss" d]
        join_append [of "[join d xs]" "map (join d) xss" d]
      by (simp del: join.simps) (simp add: \<open>xss = ys # yss\<close>)
  qed simp
qed simp

text \<open>
  Merging sections in stages loses and reorders nothing: merging groups of parts first and then
  the results is the same as merging all parts at once, with blank parts ignored wherever they stand.
\<close>

theorem merging_in_stages:
  "mergePromptSections (map mergePromptSections groups) = mergePromptSections (concat groups)"
proof -
  let ?xss = "filter (\<lambda>xs. xs \<noteq> []) (map sections_of groups)"
  have "sections_of (map mergePromptSections gs) =
      map (join [nl, nl]) (filter (\<lambda>xs. xs \<noteq> []) (map sections_of gs))" for gs
  proof (induction gs)
    case (Cons g gs)
    have "sections_of (map mergePromptSections (g # gs)) =
        sections_of [mergePromptSections g] @ sections_of (map mergePromptSections gs)"
      by (simp split: option.split)
    then show ?case using Cons by (simp only: sections_of_merge) simp
  qed simp
  moreover have "sections_of (concat gs) = concat (filter (\<lambda>xs. xs \<noteq> []) (map sections_of gs))" for gs
    by (induction gs) simp_all
  moreover have "join [nl, nl] (map (join [nl, nl]) ?xss) = join [nl, nl] (concat ?xss)"
    by (rule join_joins) simp
  ultimately show ?thesis by (auto simp: merge_sections concat_eq_Nil_conv filter_empty_conv)
qed

subsection \<open>The order of authority\<close>

text \<open>
  The framework's instructions come first and whole: in the flat prompt of every session they
  open the text under the header that makes them authoritative, and in the structured message they
  replace the custom instructions; no agent, configuration or knowledge block displaces them.
\<close>

theorem framework_comes_first:
  assumes "normalizeSection (frameworkBase wd) = Some f"
  shows "(\<exists>rest. buildFlatSystemPrompt wd c = Some (FRAMEWORK_HEADER @ [nl, nl] @ f @ rest)) \<and>
    (\<exists>sections. buildSystemMessage wd c askBlock skillBlock =
        Some (Some ((''custom_instructions'', ReplaceWith f) # sections), None) \<and>
      ''custom_instructions'' \<notin> set (map fst sections))"
proof -
  have j: "\<exists>rest. join d (x # xs) = x @ rest" for d x and xs :: "string list" by (cases xs) auto
  have "\<exists>rest. buildFlatSystemPrompt wd c = Some (FRAMEWORK_HEADER @ [nl, nl] @ f @ rest)"
    using j [of "[nl, nl]" "FRAMEWORK_HEADER @ [nl, nl] @ f"] assms
    by (auto simp: buildFlatSystemPrompt_def composeSystemPrompt_def Let_def)
  moreover have "\<exists>sections. buildSystemMessage wd c askBlock skillBlock =
        Some (Some ((''custom_instructions'', ReplaceWith f) # sections), None) \<and>
      ''custom_instructions'' \<notin> set (map fst sections)"
    using assms
    by (auto simp: buildSystemMessage_def composeStructuredSystemMessage_def Let_def obj_spread_def
        buildPromptLayerSections_def merge_sections split: option.split)
  ultimately show ?thesis by blast
qed

definition sample_defaults :: worker_defaults where
  "sample_defaults = \<lparr> wd_frameworkBasePrompt = Some ''Obey.'', wd_systemMessage = None,
     wd_appDefaultPrompt = Some ''Be nice.'', wd_agentPromptLookup = (\<lambda>a. Some ''Sweep.''), wd_factStore = True \<rparr>"

theorem framework_comes_first_witness:
  "\<exists>rest. buildFlatSystemPrompt sample_defaults (blank_config\<lparr>c_boundAgentName := Some ''sweeper''\<rparr>) =
     Some (FRAMEWORK_HEADER @ [nl, nl] @ ''Obey.'' @ rest)"
  by (rule framework_comes_first [THEN conjunct1])
     (simp add: sample_defaults_def frameworkBase_def normalizeSection_def trim_trimmed trimmed_def is_ws_def)

end
