(* ===== verification/TurnRecovery.thy ===== *)
theory TurnRecovery
  imports TurnGuard PromptLayering OrchMonad
begin

text \<open>
  Model of the \<open>runTurn\<close> activity of \<open>packages/sdk/src/session-proxy.ts\<close> around the live session:
  obtaining the session, replaying after lost state, the guardrails, the turn with its two
  recoveries, the write-back to the catalog and the accounting at the end. The session manager and
  the live session answer from a list of replies; what the activity does to them and to the catalog
  is its trace. Catalog calls whose errors the source swallows succeed. Token counts and times are
  not modelled; cancellation is an argument, since it is polled.
\<close>

subsection \<open>Replies, effects and the variables of the activity\<close>

datatype turn_reply =
    SessionReady
  | SessionFailed string
  | TurnDone turn_result "captured_event list"
  | TurnThrew string

record cms_update =
  up_state :: string
  up_lastError :: "string option option"
  up_waitReason :: "string option option"

datatype turn_effect =
    GetOrCreate session_config "nat option"
  | RunPrompt string
  | InvalidateWarmSession
  | ResetSessionState
  | RecordEvents "captured_event list"
  | UpdateSession cms_update
  | LossyHandoffCount
  | TurnSummary "string option" nat nat
  | TurnMetric "string option" "string option" nat nat

record turn_world =
  tw_replies :: "turn_reply list"
  tw_trace :: "turn_effect list"
  tw_eventBuffer :: "captured_event list"
  tw_toolCalls :: nat
  tw_toolErrors :: nat
  tw_summaryFlushed :: bool

record turn_env =
  te_catalog :: bool
  te_insertTurnMetric :: bool
  te_workerNodeId :: "string option"
  te_hostname :: string
  te_rowAgentId :: "string option"
  te_guard :: "guard_config option"
  te_detector :: "(string \<times> string) option"
  te_cancelled :: bool

record turn_input =
  tu_sessionId :: string
  tu_prompt :: string
  tu_config :: session_config
  tu_bootstrap :: bool
  tu_turnIndex :: "nat option"
  tu_parentSessionId :: "string option"
  tu_retryCount :: "nat option"

type_synonym 'a turnp = "(turn_world, unit, 'a) prog"

definition tell :: "turn_effect \<Rightarrow> unit turnp" where
  [orch_defs]: "tell e = modify (\<lambda>w. w\<lparr>tw_trace := tw_trace w @ [e]\<rparr>)"

definition next_reply :: "turn_reply turnp" where
  "next_reply w = (case tw_replies w of [] \<Rightarrow> (Stop (), w) | r # rs \<Rightarrow> (Ret r, w\<lparr>tw_replies := rs\<rparr>))"

text \<open>\<open>try { m } finally { f }\<close>\<close>

definition finally_do :: "'a turnp \<Rightarrow> unit turnp \<Rightarrow> 'a turnp" where
  "finally_do m f w =
     (case m w of
        (Ret x, w') \<Rightarrow> andThen f (ret x) w'
      | (Throw e, w') \<Rightarrow> andThen f (throw e) w'
      | (Stop h, w') \<Rightarrow> (Stop h, w'))"

subsection \<open>Texts\<close>

definition SESSION_RECOVERY_NOTICE :: string where
  "SESSION_RECOVERY_NOTICE =
     ''[SYSTEM: The runtime recovered this session after the live Copilot session was lost on a worker. '' @
     ''Some very recent in-memory state may have been lost. Re-read the visible conversation and continue carefully from the latest durable state.]''"

definition LOSSY_SESSION_REPLAY_NOTICE :: string where
  "LOSSY_SESSION_REPLAY_NOTICE =
     ''[SYSTEM: The runtime is replaying this turn after a worker restart lost the live Copilot session state before it could be durably dehydrated. '' @
     ''Some recent in-memory work may be missing, and the previous turn may have partially executed. '' @
     ''Re-read the visible conversation and durable facts, avoid blindly repeating destructive actions, and if the correct next step is unclear, stop and ask the user how to proceed.]''"

definition CORRUPTED_TRANSCRIPT_REPLAY_NOTICE :: string where
  "CORRUPTED_TRANSCRIPT_REPLAY_NOTICE =
     ''[SYSTEM: The runtime recreated this session after the live Copilot transcript became inconsistent. '' @
     ''Some recent in-memory work may be missing, and the previous turn may have partially executed. '' @
     ''Re-read the visible conversation and continue carefully from the latest durable state.]''"

definition isLiveSessionLostErrorMessage :: "string \<Rightarrow> bool" where
  "isLiveSessionLostErrorMessage message = rx_test (rx_words [''Session not found'']) message"

definition isToolCallTranscriptCorruptionErrorMessage :: "string \<Rightarrow> bool" where
  "isToolCallTranscriptCorruptionErrorMessage message = str_includes message
     (''assistant message with '' @ [CHR 0x27] @ ''tool_calls'' @ [CHR 0x27] @
      '' must be followed by tool messages responding to each '' @ [CHR 0x27] @ ''tool_call_id'' @ [CHR 0x27])"

definition isMissingSessionStateErrorMessage :: "string \<Rightarrow> bool" where
  "isMissingSessionStateErrorMessage message = str_includes message SESSION_STATE_MISSING_PREFIX"

definition stripMissingSessionStatePrefix :: "string \<Rightarrow> string" where
  "stripMissingSessionStatePrefix message =
     (case index_of message SESSION_STATE_MISSING_PREFIX of
        None \<Rightarrow> trim message
      | Some i \<Rightarrow> trim (drop (i + length SESSION_STATE_MISSING_PREFIX) message))"

definition buildUnrecoverableSessionLossMessage :: "string \<Rightarrow> string \<Rightarrow> string" where
  "buildUnrecoverableSessionLossMessage sessionId detail =
     SESSION_STATE_MISSING_PREFIX @ '' unrecoverable live Copilot session loss for '' @ sessionId @ ''. '' @
     ''The runtime attempted to resume or rehydrate the session, but recovery failed. '' @
     ''Some very recent in-memory state may have been lost. '' @ detail"

definition buildLossyReplayMessage :: "string \<Rightarrow> string \<Rightarrow> string" where
  "buildLossyReplayMessage sessionId detail =
     ''The runtime detected missing Copilot session state for '' @ sessionId @ '' while resuming a later turn. '' @
     ''It will recreate a fresh Copilot session and replay the pending turn from durable orchestration context. '' @
     trim (''Some very recent work may be missing or partially executed. '' @ detail)"

fun crlf_to_lf :: "string \<Rightarrow> string" where
  "crlf_to_lf [] = []"
| "crlf_to_lf [c] = [c]"
| "crlf_to_lf (c # d # s) =
     (if c = CHR 0x0D \<and> d = CHR 0x0A then CHR 0x0A # crlf_to_lf s else c # crlf_to_lf (d # s))"

definition normalizePromptText :: "string \<Rightarrow> string" where
  "normalizePromptText s = trim (crlf_to_lf s)"

definition rx_anchored :: "rx \<Rightarrow> string \<Rightarrow> bool" where
  "rx_anchored r s \<longleftrightarrow> rx_ends s r 0 \<noteq> []"

definition is_line_char :: "char \<Rightarrow> bool" where
  "is_line_char c \<longleftrightarrow> c \<noteq> CHR 0x0A \<and> c \<noteq> CHR 0x0D"

definition is_digit :: "char \<Rightarrow> bool" where
  "is_digit c = (let n = (of_char c :: nat) in 48 \<le> n \<and> n \<le> 57)"

definition INTERNAL_PROMPTS :: "rx list" where
  "INTERNAL_PROMPTS =
     [rx_lit ''[SYSTEM:'', Cat (rx_lit ''[CHILD_UPDATE'') Boundary,
      rx_lit ''Sub-agent spawned successfully.'', rx_lit ''Message sent to sub-agent '',
      rx_lit ''No sub-agents have been spawned yet.'', rx_lit ''Sub-agent status report ('',
      rx_lit ''Active sessions ('', rx_lit ''Sub-agents completed:'',
      rx_seq [rx_lit ''Sub-agent '', Run is_line_char, rx_lit '' has been '',
        rx_alt (map rx_lit [''completed gracefully'', ''cancelled'', ''deleted'']), rx_lit ''.''],
      rx_seq [rx_lit ''Graceful '', rx_alt (map rx_lit [''completion'', ''cancellation'', ''deletion'']),
        rx_lit '' requested for sub-agent ''],
      rx_seq [rx_alt (map rx_lit [''spawn_agent'', ''message_agent'', ''check_agents'', ''wait_for_agents'',
        ''complete_agent'', ''cancel_agent'', ''delete_agent'']), rx_lit '' failed'']]"

definition isInternalSystemPrompt :: "string \<Rightarrow> bool" where
  "isInternalSystemPrompt text =
     (let normalized = normalizePromptText text
      in normalized \<noteq> [] \<and> list_ex (\<lambda>r. rx_anchored r normalized) INTERNAL_PROMPTS)"

definition isTimerPrompt :: "string \<Rightarrow> bool" where
  "isTimerPrompt prompt = rx_anchored
     (rx_seq [rx_lit ''The '', Sym is_digit, Run is_digit, rx_lit '' second wait is now complete.'']) prompt"

definition rehydrationPrefix :: string where
  "rehydrationPrefix = ''The session was dehydrated and has been rehydrated on a new worker''"

text \<open>The worker's id holds no dollar sign, which \<open>replace\<close> would interpret.\<close>

definition decorateRehydrationSystemPrompt :: "string option \<Rightarrow> string option \<Rightarrow> string option" where
  "decorateRehydrationSystemPrompt text workerNodeId =
     (if \<not> truthy text \<or> \<not> truthy workerNodeId then text
      else
        let t = or_str text []; w = or_str workerNodeId [] in
        if \<not> starts_with t (rehydrationPrefix @ ''.'') then text
        else Some (rehydrationPrefix @ '' ('' @ w @ '').'' @ drop (length rehydrationPrefix + 1) t))"

subsection \<open>Events and accounting\<close>

definition bufferCmsEvent :: "turn_env \<Rightarrow> captured_event \<Rightarrow> unit turnp" where
  "bufferCmsEvent env e =
     cond (te_catalog env) (modify (\<lambda>w. w\<lparr>tw_eventBuffer := tw_eventBuffer w @ [e]\<rparr>))"

definition scrubBufferedEvents :: "string \<Rightarrow> unit turnp" where
  "scrubBufferedEvents t = modify (\<lambda>w. w\<lparr>tw_eventBuffer := filter (\<lambda>e. ev_type e \<noteq> t) (tw_eventBuffer w)\<rparr>)"

definition flushBufferedEvents :: "turn_env \<Rightarrow> unit turnp" where
  "flushBufferedEvents env =
     inspect (\<lambda>w. cond (te_catalog env \<and> tw_eventBuffer w \<noteq> [])
       (andThen (modify (\<lambda>w. w\<lparr>tw_eventBuffer := []\<rparr>)) (tell (RecordEvents (tw_eventBuffer w)))))"

definition flushTurnSummaryMetrics :: "turn_env \<Rightarrow> string option \<Rightarrow> string option \<Rightarrow> unit turnp" where
  "flushTurnSummaryMetrics env finalResultType errorMessage =
     inspect (\<lambda>w. cond (\<not> tw_summaryFlushed w \<and> te_catalog env)
       (doing [
         modify (\<lambda>w. w\<lparr>tw_summaryFlushed := True\<rparr>),
         tell (TurnSummary finalResultType (tw_toolCalls w) (tw_toolErrors w)),
         cond (te_insertTurnMetric env)
           (tell (TurnMetric finalResultType errorMessage (tw_toolCalls w) (tw_toolErrors w)))]))"

definition error_of :: "turn_action \<Rightarrow> string option" where
  "error_of a = (case a of TError m \<Rightarrow> Some m | _ \<Rightarrow> None)"

definition finalizeTurn :: "turn_env \<Rightarrow> turn_result \<Rightarrow> turn_result turnp" where
  "finalizeTurn env r =
     andThen (flushTurnSummaryMetrics env (Some (turn_type (tr_action r))) (error_of (tr_action r)))
       (andThen (flushBufferedEvents env) (ret r))"

definition plain_turn :: "turn_action \<Rightarrow> turn_result" where
  "plain_turn a = \<lparr> tr_action = a, tr_model = None, tr_events = [], tr_queued = [] \<rparr>"

definition updateSession :: "turn_env \<Rightarrow> cms_update \<Rightarrow> unit turnp" where
  "updateSession env u = cond (te_catalog env) (tell (UpdateSession u))"

definition recordEvent :: "turn_env \<Rightarrow> string \<Rightarrow> json \<Rightarrow> unit turnp" where
  "recordEvent env t d = cond (te_catalog env) (tell (RecordEvents [\<lparr> ev_type = t, ev_data = d \<rparr>]))"

definition content_json :: "string \<Rightarrow> json" where
  "content_json s = JObj [(''content'', JStr s)]"

definition recordLossyHandoffEvent :: "turn_env \<Rightarrow> json \<Rightarrow> unit turnp" where
  "recordLossyHandoffEvent env d =
     andThen (recordEvent env ''session.lossy_handoff'' d) (cond (te_catalog env) (tell LossyHandoffCount))"

definition failForMissingState :: "turn_env \<Rightarrow> string \<Rightarrow> turn_result turnp" where
  "failForMissingState env message =
     andThen (doing [
       flushTurnSummaryMetrics env (Some ''error'') (Some message),
       flushBufferedEvents env,
       updateSession env \<lparr> up_state = ''failed'', up_lastError = Some (Some message), up_waitReason = None \<rparr>])
     (ret (plain_turn (TError message)))"

text \<open>What the live session reports while a turn runs.\<close>

definition EPHEMERAL_TYPES :: "string list" where
  "EPHEMERAL_TYPES = [''assistant.message_delta'', ''assistant.reasoning_delta'', ''user.message'']"

definition string_field :: "json \<Rightarrow> string \<Rightarrow> string option" where
  "string_field d k = (case json_get d k of Some (JStr s) \<Rightarrow> Some s | _ \<Rightarrow> None)"

definition onEvent :: "turn_env \<Rightarrow> captured_event \<Rightarrow> unit turnp" where
  "onEvent env e =
     cond (te_catalog env \<and> ev_type e \<notin> set EPHEMERAL_TYPES)
       (doing [
         cond (ev_type e = ''session.wait_started'')
           (updateSession env \<lparr> up_state = ''waiting'', up_lastError = None,
              up_waitReason = Some (string_field (ev_data e) ''reason'') \<rparr>),
         cond (ev_type e = ''session.input_required_started'')
           (updateSession env \<lparr> up_state = ''input_required'', up_lastError = None,
              up_waitReason = Some (string_field (ev_data e) ''question'') \<rparr>),
         cond (ev_type e = ''assistant.function_call'')
           (modify (\<lambda>w. w\<lparr>tw_toolCalls := tw_toolCalls w + 1\<rparr>)),
         cond (ev_type e = ''tool_result'' \<and> json_get (ev_data e) ''isError'' = Some (JBool True))
           (modify (\<lambda>w. w\<lparr>tw_toolErrors := tw_toolErrors w + 1\<rparr>)),
         bufferCmsEvent env e])"

subsection \<open>Obtaining the session\<close>

definition getOrCreate :: "session_config \<Rightarrow> nat option \<Rightarrow> unit turnp" where
  "getOrCreate c turnIndex =
     andThen (tell (GetOrCreate c turnIndex)) (bind next_reply (\<lambda>r.
       (case r of SessionReady \<Rightarrow> ret () | SessionFailed m \<Rightarrow> throw m | _ \<Rightarrow> stop ())))"

definition runTurnWithPrompt :: "turn_env \<Rightarrow> string \<Rightarrow> turn_result turnp" where
  "runTurnWithPrompt env prompt =
     andThen (tell (RunPrompt prompt)) (bind next_reply (\<lambda>r.
       (case r of
          TurnDone res evs \<Rightarrow> andThen (for_each evs (onEvent env)) (ret res)
        | TurnThrew m \<Rightarrow> throw m
        | _ \<Rightarrow> stop ())))"

definition run_config :: "turn_env \<Rightarrow> turn_input \<Rightarrow> session_config" where
  "run_config env i =
     buildRunTurnConfig (tu_config i) (te_hostname env)
       (if \<not> truthy (c_agentIdentity (tu_config i)) \<and> te_catalog env then te_rowAgentId env else None)"

definition iteration_field :: "turn_input \<Rightarrow> (string \<times> json) list" where
  "iteration_field i = opt_field ''iteration'' (\<lambda>n. JNum (int n)) (tu_turnIndex i)"

definition lossy_json :: "turn_input \<Rightarrow> string \<Rightarrow> string \<Rightarrow> string \<Rightarrow> string \<Rightarrow> json" where
  "lossy_json i cause message detail err = JObj
     ([(''cause'', JStr cause), (''message'', JStr message), (''detail'', JStr detail),
       (''error'', JStr err), (''recoveryMode'', JStr ''fresh_session_replay''),
       (''nextStep'', JStr ''replay_pending_turn_with_recreated_copilot_session'')] @ iteration_field i)"

definition fatal_loss :: "turn_input \<Rightarrow> string \<Rightarrow> string" where
  "fatal_loss i recoveryMessage =
     buildUnrecoverableSessionLossMessage (tu_sessionId i)
       (if isMissingSessionStateErrorMessage recoveryMessage
        then stripMissingSessionStatePrefix recoveryMessage else recoveryMessage)"

text \<open>The result of an activity that is over, or the prompt to go on with.\<close>

definition acquireSession :: "turn_env \<Rightarrow> turn_input \<Rightarrow> (turn_result + string) turnp" where
  "acquireSession env i =
     try_catch (andThen (getOrCreate (run_config env i) (tu_turnIndex i)) (ret (Inr (tu_prompt i)))) (\<lambda>message.
       if isMissingSessionStateErrorMessage message \<or> isLiveSessionLostErrorMessage message then
         (let detail = (if isMissingSessionStateErrorMessage message
                        then stripMissingSessionStatePrefix message else message)
          in andThen (doing [
               recordLossyHandoffEvent env (lossy_json i ''missing_resumable_state_before_run_turn''
                 (buildLossyReplayMessage (tu_sessionId i) detail) detail message),
               recordEvent env ''system.message'' (content_json
                 (''The runtime is replaying this turn after a worker restart lost the live Copilot session state before durable dehydrate completed. '' @
                  ''Some recent work may be missing or partially executed.''))])
             (try_catch
               (andThen (getOrCreate (run_config env i) (Some 0))
                 (ret (Inr (or_str (mergePromptSections [Some LOSSY_SESSION_REPLAY_NOTICE, Some (tu_prompt i)])
                        (tu_prompt i)))))
               (\<lambda>recoveryMessage. bind (failForMissingState env (fatal_loss i recoveryMessage)) (\<lambda>r. ret (Inl r)))))
       else throw message)"

subsection \<open>The turn and its recoveries\<close>

definition withNotice :: "string \<Rightarrow> string \<Rightarrow> string" where
  "withNotice notice guarded = or_str (mergePromptSections [Some notice, Some guarded]) guarded"

definition lost_result :: "turn_result \<Rightarrow> string option" where
  "lost_result r = (case tr_action r of TError m \<Rightarrow> if isLiveSessionLostErrorMessage m then Some m else None | _ \<Rightarrow> None)"

definition corrupted_result :: "turn_result \<Rightarrow> string option" where
  "corrupted_result r =
     (case tr_action r of
        TError m \<Rightarrow> if isToolCallTranscriptCorruptionErrorMessage m then Some m else None | _ \<Rightarrow> None)"

definition recoverLostSession ::
  "turn_env \<Rightarrow> turn_input \<Rightarrow> string \<Rightarrow> turn_result \<Rightarrow> (turn_result + turn_result) turnp" where
  "recoverLostSession env i guarded result =
     (case lost_result result of
        None \<Rightarrow> ret (Inr result)
      | Some _ \<Rightarrow>
          andThen (doing [
            tell InvalidateWarmSession,
            recordEvent env ''system.message'' (content_json
              (''The runtime recovered this session after the worker lost the live Copilot session. '' @
               ''Some very recent in-memory state may have been lost.''))])
          (bind (try_catch (andThen (getOrCreate (run_config env i) (tu_turnIndex i)) (ret None))
                  (\<lambda>e. bind (failForMissingState env (fatal_loss i e)) (\<lambda>r. ret (Some r)))) (\<lambda>failed.
            (case failed of
               Some r \<Rightarrow> ret (Inl r)
             | None \<Rightarrow>
                 bind (runTurnWithPrompt env (withNotice SESSION_RECOVERY_NOTICE guarded)) (\<lambda>result2.
                   (case lost_result result2 of
                      Some m \<Rightarrow>
                        bind (failForMissingState env (buildUnrecoverableSessionLossMessage (tu_sessionId i) m))
                          (\<lambda>r. ret (Inl r))
                    | None \<Rightarrow> ret (Inr result2)))))))"

definition recoverCorruptedTranscript ::
  "turn_env \<Rightarrow> turn_input \<Rightarrow> string \<Rightarrow> turn_result \<Rightarrow> (turn_result + turn_result) turnp" where
  "recoverCorruptedTranscript env i guarded result =
     (case corrupted_result result of
        None \<Rightarrow> ret (Inr result)
      | Some transcriptError \<Rightarrow>
          andThen (doing [
            tell ResetSessionState,
            recordLossyHandoffEvent env (lossy_json i ''corrupted_tool_call_transcript_during_run_turn''
              ''The runtime detected an inconsistent live Copilot transcript and recreated a fresh session to replay the pending turn.''
              transcriptError transcriptError),
            recordEvent env ''system.message'' (content_json
              (''The runtime recreated this session after the live Copilot transcript became inconsistent. '' @
               ''Some recent in-memory work may be missing or partially executed.''))])
          (bind (try_catch (andThen (getOrCreate (run_config env i) (Some 0)) (ret None))
                  (\<lambda>e. bind (finalizeTurn env (plain_turn (TError
                      (''Live Copilot transcript became inconsistent for '' @ tu_sessionId i @
                       '', and fresh-session recovery failed. '' @ e)))) (\<lambda>r. ret (Some r)))) (\<lambda>failed.
            (case failed of
               Some r \<Rightarrow> ret (Inl r)
             | None \<Rightarrow>
                 bind (runTurnWithPrompt env (withNotice CORRUPTED_TRANSCRIPT_REPLAY_NOTICE guarded))
                   (\<lambda>r. ret (Inr r))))))"

text \<open>A child that asks its parent waits a minute for the answer.\<close>

definition questionForParent :: "turn_input \<Rightarrow> turn_result \<Rightarrow> turn_result" where
  "questionForParent i r =
     (case tr_action r of
        TCompleted c \<Rightarrow>
          if truthy (tu_parentSessionId i) \<and> rx_anchored (rx_lit ''QUESTION FOR PARENT:'') (trim c)
          then r\<lparr>tr_action := TWait 60 ''waiting for parent answer'' None (Some (trim c))\<rparr> else r
      | _ \<Rightarrow> r)"

definition live_status :: "turn_action \<Rightarrow> string" where
  "live_status a = (case a of
     TCompleted _ \<Rightarrow> ''idle'' | TWait _ _ _ _ \<Rightarrow> ''waiting'' | TCron _ \<Rightarrow> ''running''
   | TInputRequired _ \<Rightarrow> ''input_required'' | TError _ \<Rightarrow> ''error'' | TCancelled \<Rightarrow> ''idle''
   | TSpawnAgent _ \<Rightarrow> ''running'' | TMessageAgent _ _ \<Rightarrow> ''running'' | TCheckAgents \<Rightarrow> ''running''
   | TWaitForAgents _ \<Rightarrow> ''waiting'' | TListSessions \<Rightarrow> ''running'' | TCompleteAgent _ \<Rightarrow> ''running''
   | TCancelAgent _ _ \<Rightarrow> ''running'' | TDeleteAgent _ _ \<Rightarrow> ''running'')"

definition writeback :: "turn_action \<Rightarrow> cms_update" where
  "writeback a =
     \<lparr> up_state = live_status a,
       up_lastError = Some (error_of a),
       up_waitReason = Some (case a of
         TWait _ reason _ _ \<Rightarrow> Some reason | TInputRequired q \<Rightarrow> Some (iq_question q) | _ \<Rightarrow> None) \<rparr>"

definition refusal_events :: "turn_env \<Rightarrow> guard_decision \<Rightarrow> captured_event \<Rightarrow> unit turnp" where
  "refusal_events env d ev =
     doing [
       scrubBufferedEvents ''assistant.message'',
       bufferCmsEvent env ev,
       bufferCmsEvent env \<lparr> ev_type = ''assistant.message'',
         ev_data = content_json (buildPromptGuardrailRefusal d) \<rparr>]"

definition finishTurn :: "turn_env \<Rightarrow> turn_input \<Rightarrow> guard_decision option \<Rightarrow> turn_result \<Rightarrow> turn_result turnp" where
  "finishTurn env i decision result0 =
     (let result = questionForParent i result0 in
      andThen (recordEvent env ''session.turn_completed''
        (JObj [(''iteration'', JNum (int (default_to (tu_turnIndex i) 0)))]))
      (if te_cancelled env then finalizeTurn env (plain_turn TCancelled)
       else
         andThen (updateSession env (writeback (tr_action result)))
         (case decision of
            None \<Rightarrow> finalizeTurn env result
          | Some d \<Rightarrow>
              if gd_action d = AllowGuarded \<and>
                 (case tr_action result of
                    TCompleted c \<Rightarrow> containsUnsafeAuthorityClaim (Some (JStr c)) | _ \<Rightarrow> False)
              then andThen (refusal_events env d (claim_event d))
                     (finalizeTurn env (refusal_result d (claim_event d)))
              else if gd_action d = AllowGuarded \<and> isHighRiskTurnResult (tr_action result)
              then andThen (refusal_events env d (action_event d (tr_action result)))
                     (finalizeTurn env (refusal_result d (action_event d (tr_action result))))
              else finalizeTurn env result)))"

definition startOfTurn :: "turn_env \<Rightarrow> turn_input \<Rightarrow> unit turnp" where
  "startOfTurn env i =
     (let isRetryAttempt = (0 < default_to (tu_retryCount i) 0) in
      doing [
        cond (truthy (c_turnSystemPrompt (tu_config i)) \<and> \<not> isRetryAttempt)
          (recordEvent env ''system.message'' (content_json
            (or_str (decorateRehydrationSystemPrompt (c_turnSystemPrompt (tu_config i)) (te_workerNodeId env)) []))),
        cond (\<not> isTimerPrompt (tu_prompt i) \<and> \<not> tu_bootstrap i \<and> \<not> isRetryAttempt)
          (recordEvent env (if isInternalSystemPrompt (tu_prompt i) then ''system.message'' else ''user.message'')
            (content_json (tu_prompt i))),
        updateSession env \<lparr> up_state = ''running'', up_lastError = None, up_waitReason = None \<rparr>,
        recordEvent env ''session.turn_started''
          (JObj [(''iteration'', JNum (int (default_to (tu_turnIndex i) 0)))])])"

definition runGuarded :: "turn_env \<Rightarrow> turn_input \<Rightarrow> string \<Rightarrow> turn_result turnp" where
  "runGuarded env i effectivePrompt =
     (let decision = screenPrompt (te_guard env) (te_detector env) (tu_prompt i) (tu_bootstrap i) in
      andThen (case decision of
        None \<Rightarrow> ret ()
      | Some d \<Rightarrow> cond (\<not> tu_bootstrap i) (bufferCmsEvent env (decision_event d)))
      (case map_option gd_action decision of
         Some Block \<Rightarrow>
           andThen (bufferCmsEvent env \<lparr> ev_type = ''assistant.message'',
               ev_data = content_json (buildPromptGuardrailRefusal (the decision)) \<rparr>)
             (finalizeTurn env (refusal_result (the decision) (decision_event (the decision))))
       | _ \<Rightarrow>
           (let guarded = (case decision of
                  None \<Rightarrow> tu_prompt i
                | Some d \<Rightarrow> buildGuardedTurnPrompt
                    (detectPromptSource (tu_prompt i) (tu_bootstrap i)) (tu_prompt i) d);
                finalPrompt = (if effectivePrompt = tu_prompt i then guarded
                  else withNotice LOSSY_SESSION_REPLAY_NOTICE guarded)
            in bind (runTurnWithPrompt env finalPrompt) (\<lambda>result.
               bind (recoverLostSession env i guarded result) (\<lambda>x. (case x of
                 Inl r \<Rightarrow> ret r
               | Inr result2 \<Rightarrow>
                   bind (recoverCorruptedTranscript env i guarded result2) (\<lambda>y. (case y of
                     Inl r \<Rightarrow> ret r
                   | Inr result3 \<Rightarrow> finishTurn env i decision result3))))))))"

definition runTurnActivity :: "turn_env \<Rightarrow> turn_input \<Rightarrow> turn_result turnp" where
  "runTurnActivity env i =
     bind (acquireSession env i) (\<lambda>x. (case x of
       Inl r \<Rightarrow> ret r
     | Inr effectivePrompt \<Rightarrow>
         finally_do
           (andThen (startOfTurn env i) (runGuarded env i effectivePrompt))
           (andThen (flushTurnSummaryMetrics env (Some ''error'') None) (flushBufferedEvents env))))"

definition fresh_turn :: "turn_reply list \<Rightarrow> turn_world" where
  "fresh_turn rs = \<lparr> tw_replies = rs, tw_trace = [], tw_eventBuffer = [], tw_toolCalls = 0,
     tw_toolErrors = 0, tw_summaryFlushed = False \<rparr>"

subsection \<open>What reaches the model\<close>

definition is_run :: "turn_effect \<Rightarrow> bool" where
  "is_run e = (case e of RunPrompt _ \<Rightarrow> True | _ \<Rightarrow> False)"

definition is_get :: "turn_effect \<Rightarrow> bool" where
  "is_get e = (case e of GetOrCreate _ _ \<Rightarrow> True | _ \<Rightarrow> False)"

lemma is_run_simps [simp]:
  "is_run (RunPrompt p)" "\<not> is_run (GetOrCreate c n)" "\<not> is_run InvalidateWarmSession"
  "\<not> is_run ResetSessionState" "\<not> is_run (RecordEvents es)" "\<not> is_run (UpdateSession u)"
  "\<not> is_run LossyHandoffCount" "\<not> is_run (TurnSummary t a b)" "\<not> is_run (TurnMetric t m a b)"
  by (simp_all add: is_run_def)

lemma is_get_simps [simp]:
  "is_get (GetOrCreate c n)" "\<not> is_get (RunPrompt p)" "\<not> is_get InvalidateWarmSession"
  "\<not> is_get ResetSessionState" "\<not> is_get (RecordEvents es)" "\<not> is_get (UpdateSession u)"
  "\<not> is_get LossyHandoffCount" "\<not> is_get (TurnSummary t a b)" "\<not> is_get (TurnMetric t m a b)"
  by (simp_all add: is_get_def)

text \<open>Programs that neither run a prompt nor obtain a session.\<close>

definition hush :: "turn_world \<Rightarrow> turn_world \<Rightarrow> bool" where
  "hush w w' \<longleftrightarrow> (\<exists>new. tw_trace w' = tw_trace w @ new \<and> list_all (\<lambda>e. \<not> is_run e \<and> \<not> is_get e) new)"

interpretation hush: step_contract hush "\<lambda>h w. True"
proof unfold_locales
  fix s t u assume "hush s t" "hush t u"
  then obtain a b where "tw_trace t = tw_trace s @ a" "list_all (\<lambda>e. \<not> is_run e \<and> \<not> is_get e) a"
    "tw_trace u = tw_trace t @ b" "list_all (\<lambda>e. \<not> is_run e \<and> \<not> is_get e) b"
    unfolding hush_def by blast
  then show "hush s u" unfolding hush_def by (intro exI [of _ "a @ b"]) simp
qed (simp add: hush_def)

lemma hush_tell: "\<not> is_run e \<Longrightarrow> \<not> is_get e \<Longrightarrow> keeps hush (\<lambda>h w. True) (tell e)"
  unfolding tell_def by (rule hush.keeps_modify) (simp add: hush_def)

lemma hush_local: "(\<And>w. tw_trace (f w) = tw_trace w) \<Longrightarrow> keeps hush (\<lambda>h w. True) (modify f)"
  by (rule hush.keeps_modify) (simp add: hush_def)

lemmas account_defs = bufferCmsEvent_def scrubBufferedEvents_def flushBufferedEvents_def
  flushTurnSummaryMetrics_def finalizeTurn_def updateSession_def recordEvent_def
  recordLossyHandoffEvent_def failForMissingState_def onEvent_def refusal_events_def

lemma hush_account:
  "keeps hush (\<lambda>h w. True) (bufferCmsEvent env e)"
  "keeps hush (\<lambda>h w. True) (scrubBufferedEvents ty)"
  "keeps hush (\<lambda>h w. True) (flushBufferedEvents env)"
  "keeps hush (\<lambda>h w. True) (flushTurnSummaryMetrics env t m)"
  "keeps hush (\<lambda>h w. True) (finalizeTurn env r)"
  "keeps hush (\<lambda>h w. True) (updateSession env u)"
  "keeps hush (\<lambda>h w. True) (recordEvent env ty j)"
  "keeps hush (\<lambda>h w. True) (recordLossyHandoffEvent env j)"
  "keeps hush (\<lambda>h w. True) (failForMissingState env msg)"
  "keeps hush (\<lambda>h w. True) (onEvent env e)"
  "keeps hush (\<lambda>h w. True) (refusal_events env d e)"
  unfolding account_defs by (intro hush.keeps_intros hush_tell hush_local; simp)+

lemmas hush_intros = hush.keeps_intros hush_account hush_tell

lemma hush_startOfTurn: "keeps hush (\<lambda>h w. True) (startOfTurn env i)"
  unfolding startOfTurn_def by (intro hush_intros)

lemma hush_finishTurn: "keeps hush (\<lambda>h w. True) (finishTurn env i d r)"
  unfolding finishTurn_def by (intro hush_intros)

text \<open>
  \<open>limited P a b m\<close>: the prompts that \<open>m\<close> runs satisfy \<open>P\<close>, it runs at most \<open>a\<close> of them and
  obtains a session at most \<open>b\<close> times.
\<close>

definition grows :: "(string \<Rightarrow> bool) \<Rightarrow> nat \<Rightarrow> nat \<Rightarrow> turn_world \<Rightarrow> turn_world \<Rightarrow> bool" where
  "grows P a b w w' \<longleftrightarrow> (\<exists>new. tw_trace w' = tw_trace w @ new \<and>
     (\<forall>p. RunPrompt p \<in> set new \<longrightarrow> P p) \<and>
     length (filter is_run new) \<le> a \<and> length (filter is_get new) \<le> b)"

definition limited :: "(string \<Rightarrow> bool) \<Rightarrow> nat \<Rightarrow> nat \<Rightarrow> 'a turnp \<Rightarrow> bool" where
  "limited P a b m \<longleftrightarrow> (\<forall>w. grows P a b w (snd (m w)))"

lemma grows_trans: "grows P a b s t \<Longrightarrow> grows P c d t u \<Longrightarrow> grows P (a + c) (b + d) s u"
  unfolding grows_def
proof (elim exE conjE)
  fix m n
  assume "tw_trace t = tw_trace s @ m" "tw_trace u = tw_trace t @ n"
    "\<forall>p. RunPrompt p \<in> set m \<longrightarrow> P p" "\<forall>p. RunPrompt p \<in> set n \<longrightarrow> P p"
    "length (filter is_run m) \<le> a" "length (filter is_get m) \<le> b"
    "length (filter is_run n) \<le> c" "length (filter is_get n) \<le> d"
  then show "\<exists>new. tw_trace u = tw_trace s @ new \<and> (\<forall>p. RunPrompt p \<in> set new \<longrightarrow> P p) \<and>
      length (filter is_run new) \<le> a + c \<and> length (filter is_get new) \<le> b + d"
    by (intro exI [of _ "m @ n"]) auto
qed

lemma grows_mono: "grows P a b s t \<Longrightarrow> a \<le> c \<Longrightarrow> b \<le> d \<Longrightarrow> grows P c d s t"
  unfolding grows_def by (meson order_trans)

lemma limitedD: "limited P a b m \<Longrightarrow> m w = (r, w') \<Longrightarrow> grows P a b w w'"
  unfolding limited_def by (metis snd_conv)

lemma limited_mono: "limited P a b m \<Longrightarrow> a \<le> c \<Longrightarrow> b \<le> d \<Longrightarrow> limited P c d m"
  unfolding limited_def by (blast intro: grows_mono)

lemma limited_hush:
  assumes "keeps hush (\<lambda>h w. True) m"
  shows "limited P 0 0 m"
  unfolding limited_def
proof
  fix w
  obtain new where n: "tw_trace (snd (m w)) = tw_trace w @ new"
    "list_all (\<lambda>e. \<not> is_run e \<and> \<not> is_get e) new"
    using keepsD [OF assms, of w] unfolding hush_def by blast
  then have "filter is_run new = []" "filter is_get new = []" "\<forall>p. RunPrompt p \<notin> set new"
    by (auto simp: list_all_iff filter_empty_conv dest: bspec)
  with n(1) show "grows P 0 0 w (snd (m w))" unfolding grows_def by auto
qed

lemma limited_bind:
  assumes "limited P a b m" "\<And>x. limited P c d (f x)"
  shows "limited P (a + c) (b + d) (bind m f)"
  unfolding limited_def
proof
  fix w
  obtain r w1 where m: "m w = (r, w1)" by (cases "m w")
  have 1: "grows P a b w w1" by (rule limitedD [OF assms(1) m])
  show "grows P (a + c) (b + d) w (snd (bind m f w))"
  proof (cases r)
    case (Ret x)
    have "grows P c d w1 (snd (f x w1))" using assms(2) unfolding limited_def by blast
    with grows_trans [OF 1] Ret m show ?thesis by (simp add: bind_def)
  qed (use grows_mono [OF 1] m in \<open>simp_all add: bind_def\<close>)
qed

lemma limited_andThen: "limited P a b m \<Longrightarrow> limited P c d n \<Longrightarrow> limited P (a + c) (b + d) (andThen m n)"
  unfolding andThen_def by (rule limited_bind)

lemma limited_catch:
  assumes "limited P a b m" "\<And>x. limited P c d (h x)"
  shows "limited P (a + c) (b + d) (try_catch m h)"
  unfolding limited_def
proof
  fix w
  obtain r w1 where m: "m w = (r, w1)" by (cases "m w")
  have 1: "grows P a b w w1" by (rule limitedD [OF assms(1) m])
  show "grows P (a + c) (b + d) w (snd (try_catch m h w))"
  proof (cases r)
    case (Throw x)
    have "grows P c d w1 (snd (h x w1))" using assms(2) unfolding limited_def by blast
    with grows_trans [OF 1] Throw m show ?thesis by (simp add: try_catch_def)
  qed (use grows_mono [OF 1] m in \<open>simp_all add: try_catch_def\<close>)
qed

lemma limited_finally:
  assumes "limited P a b m" "keeps hush (\<lambda>h w. True) f"
  shows "limited P a b (finally_do m f)"
  unfolding limited_def
proof
  fix w
  obtain r w1 where m: "m w = (r, w1)" by (cases "m w")
  have k: "limited P 0 0 (andThen f (k :: 'a turnp))" if "keeps hush (\<lambda>h w. True) k" for k
    using assms(2) that by (intro limited_hush hush.keeps_andThen)
  have "grows P 0 0 w1 (snd (finally_do m f w))"
  proof (cases r)
    case (Ret x)
    with m k [OF hush.keeps_ret, of x] show ?thesis by (simp add: finally_do_def limited_def)
  next
    case (Throw e)
    with m k [OF hush.keeps_throw, of e] show ?thesis by (simp add: finally_do_def limited_def)
  next
    case (Stop h)
    with m show ?thesis by (simp add: finally_do_def grows_def)
  qed
  with grows_trans [OF limitedD [OF assms(1) m]] show "grows P a b w (snd (finally_do m f w))" by fastforce
qed

lemma limited_if: "limited P a b m \<Longrightarrow> limited P a b n \<Longrightarrow> limited P a b (if c then m else n)"
  by simp

lemma limited_next: "limited P 0 0 next_reply"
  by (simp add: limited_def grows_def next_reply_def split: list.split)

lemma limited_getOrCreate: "limited P 0 1 (getOrCreate c n)"
proof -
  have "limited P 0 1 (tell (GetOrCreate c n))"
    by (simp add: limited_def grows_def tell_def modify_def)
  moreover have "limited P 0 0 (case r of SessionReady \<Rightarrow> ret () | SessionFailed m \<Rightarrow> throw m | _ \<Rightarrow> stop ())" for r
    by (cases r) (auto simp: limited_def grows_def run_simps)
  ultimately have "limited P (0 + (0 + 0)) (1 + (0 + 0)) (getOrCreate c n)"
    unfolding getOrCreate_def by (intro limited_andThen limited_bind limited_next)
  then show ?thesis by simp
qed

lemma limited_run:
  assumes "P p"
  shows "limited P 1 0 (runTurnWithPrompt env p)"
proof -
  have "limited P 1 0 (tell (RunPrompt p))"
    using assms by (simp add: limited_def grows_def tell_def modify_def)
  moreover have "limited P 0 0 (case r of
      TurnDone res evs \<Rightarrow> andThen (for_each evs (onEvent env)) (ret res)
    | TurnThrew m \<Rightarrow> throw m | _ \<Rightarrow> stop ())" for r
    by (cases r) (auto intro!: limited_hush hush_intros hush.keeps_stop)
  ultimately have "limited P (1 + (0 + 0)) (0 + (0 + 0)) (runTurnWithPrompt env p)"
    unfolding runTurnWithPrompt_def by (intro limited_andThen limited_bind limited_next)
  then show ?thesis by simp
qed

text \<open>The prompt a turn may run, if any, and its variants.\<close>

definition guarded_prompt :: "turn_env \<Rightarrow> turn_input \<Rightarrow> string option" where
  "guarded_prompt env i =
     (case screenPrompt (te_guard env) (te_detector env) (tu_prompt i) (tu_bootstrap i) of
        None \<Rightarrow> Some (tu_prompt i)
      | Some d \<Rightarrow>
          if gd_action d = Block then None
          else Some (buildGuardedTurnPrompt (detectPromptSource (tu_prompt i) (tu_bootstrap i)) (tu_prompt i) d))"

definition may_reach_model :: "turn_env \<Rightarrow> turn_input \<Rightarrow> string \<Rightarrow> bool" where
  "may_reach_model env i p \<longleftrightarrow> (\<exists>g. guarded_prompt env i = Some g \<and>
     p \<in> {g, withNotice LOSSY_SESSION_REPLAY_NOTICE g, withNotice SESSION_RECOVERY_NOTICE g,
          withNotice CORRUPTED_TRANSCRIPT_REPLAY_NOTICE g})"

lemma limited_acquire: "limited P 0 2 (acquireSession env i)"
proof -
  have c: "limited P (0 + 0) (1 + 0) (andThen (getOrCreate c n) (ret x))" for c n and x :: "turn_result + string"
    by (intro limited_andThen limited_getOrCreate limited_hush hush_intros)
  have h: "limited P (0 + ((0 + 0) + 0)) (0 + ((1 + 0) + 0))
      (andThen (doing ms) (try_catch (andThen (getOrCreate c n) (ret x))
        (\<lambda>e. bind (failForMissingState env (f e)) (\<lambda>r. ret (Inl r)))))"
    if "keeps hush (\<lambda>h w. True) (doing ms)" for ms c n f and x :: "turn_result + string"
    using that by (intro limited_andThen limited_catch c limited_hush hush_intros) simp_all
  have "limited P ((0 + 0) + (0 + ((0 + 0) + 0))) ((1 + 0) + (0 + ((1 + 0) + 0))) (acquireSession env i)"
    unfolding acquireSession_def Let_def
    by (intro limited_catch c limited_if h hush_intros) (auto intro: limited_mono [OF limited_hush] hush_intros)
  then show ?thesis by (rule limited_mono) simp_all
qed

lemma limited_retry:
  assumes "keeps hush (\<lambda>h w. True) (doing ms)" "\<And>e. keeps hush (\<lambda>h w. True) (g e)"
    and "limited P 1 0 k"
  shows "limited P 1 1 (andThen (doing ms)
    (bind (try_catch (andThen (getOrCreate c n) (ret None)) g) (\<lambda>failed. (case failed of
       Some r \<Rightarrow> ret (Inl r) | None \<Rightarrow> k))))"
proof -
  have t: "limited P (0 + 0 + 0) (1 + 0 + 0) (try_catch (andThen (getOrCreate c n) (ret None)) g)"
    using assms(2) by (intro limited_catch limited_andThen limited_getOrCreate limited_hush hush.keeps_ret)
  have r: "limited P 1 0 (case failed of Some r \<Rightarrow> ret (Inl r) | None \<Rightarrow> k)" for failed
    using assms(3) by (cases failed) (auto intro: limited_mono [OF limited_hush] hush.keeps_ret)
  have "limited P (0 + ((0 + 0 + 0) + 1)) (0 + ((1 + 0 + 0) + 0)) (andThen (doing ms)
    (bind (try_catch (andThen (getOrCreate c n) (ret None)) g) (\<lambda>failed. (case failed of
       Some r \<Rightarrow> ret (Inl r) | None \<Rightarrow> k))))"
    by (intro limited_andThen limited_bind t r limited_hush assms(1))
  then show ?thesis by simp
qed

lemma limited_ret: "limited P a b (ret x)"
  by (rule limited_mono [OF limited_hush [OF hush.keeps_ret]]) simp_all

lemma limited_lost:
  assumes "P (withNotice SESSION_RECOVERY_NOTICE g)"
  shows "limited P 1 1 (recoverLostSession env i g r)"
proof (cases "lost_result r")
  case None
  then show ?thesis by (simp add: recoverLostSession_def limited_ret)
next
  case (Some m)
  have "limited P (1 + 0) (0 + 0) (bind (runTurnWithPrompt env (withNotice SESSION_RECOVERY_NOTICE g)) (\<lambda>result2.
      (case lost_result result2 of
         Some m \<Rightarrow> bind (failForMissingState env (buildUnrecoverableSessionLossMessage (tu_sessionId i) m))
                     (\<lambda>r. ret (Inl r))
       | None \<Rightarrow> ret (Inr result2))))"
    using assms by (intro limited_bind limited_run limited_hush hush_intros)
  then show ?thesis
    unfolding recoverLostSession_def Some option.case
    by (intro limited_retry) (intro hush_intros; simp; fail | simp only: add_0_right add_0_left)+
qed

lemma limited_corrupted:
  assumes "P (withNotice CORRUPTED_TRANSCRIPT_REPLAY_NOTICE g)"
  shows "limited P 1 1 (recoverCorruptedTranscript env i g r)"
proof (cases "corrupted_result r")
  case None
  then show ?thesis by (simp add: recoverCorruptedTranscript_def limited_ret)
next
  case (Some m)
  have "limited P (1 + 0) (0 + 0) (bind (runTurnWithPrompt env (withNotice CORRUPTED_TRANSCRIPT_REPLAY_NOTICE g))
      (\<lambda>r. ret (Inr r :: turn_result + turn_result)))"
    using assms by (intro limited_bind limited_run limited_hush hush_intros)
  then show ?thesis
    unfolding recoverCorruptedTranscript_def Some option.case
    by (intro limited_retry) (intro hush_intros; simp; fail | simp only: add_0_right add_0_left)+
qed

lemma limited_guarded: "limited (may_reach_model env i) 3 2 (runGuarded env i eff)"
proof (cases "guarded_prompt env i")
  case None
  then obtain d where d: "screenPrompt (te_guard env) (te_detector env) (tu_prompt i) (tu_bootstrap i) = Some d"
    "gd_action d = Block"
    by (auto simp: guarded_prompt_def split: option.splits if_splits)
  then have "keeps hush (\<lambda>h w. True) (runGuarded env i eff)"
    unfolding runGuarded_def by (simp add: Let_def) (intro hush_intros)
  then show ?thesis by (rule limited_mono [OF limited_hush]) simp_all
next
  case (Some g)
  let ?P = "may_reach_model env i"
  let ?d = "screenPrompt (te_guard env) (te_detector env) (tu_prompt i) (tu_bootstrap i)"
  have P: "?P g" "?P (withNotice LOSSY_SESSION_REPLAY_NOTICE g)" "?P (withNotice SESSION_RECOVERY_NOTICE g)"
    "?P (withNotice CORRUPTED_TRANSCRIPT_REPLAY_NOTICE g)"
    using Some by (simp_all add: may_reach_model_def)
  have c: "limited ?P (1 + 0) (1 + 0) (bind (recoverCorruptedTranscript env i g r2) (\<lambda>y. (case y of
      Inl r \<Rightarrow> ret r | Inr r3 \<Rightarrow> finishTurn env i ?d r3)))" for r2
    by (intro limited_bind limited_corrupted P limited_hush; simp split: sum.split add: hush.keeps_ret hush_finishTurn)
  have l: "limited ?P (1 + 1) (1 + 1) (bind (recoverLostSession env i g r) (\<lambda>x. (case x of
      Inl r \<Rightarrow> ret r
    | Inr r2 \<Rightarrow> bind (recoverCorruptedTranscript env i g r2) (\<lambda>y. (case y of
        Inl r \<Rightarrow> ret r | Inr r3 \<Rightarrow> finishTurn env i ?d r3)))))" for r
    using c by (intro limited_bind limited_lost P)
      (auto split: sum.split intro: limited_mono [OF limited_hush [OF hush.keeps_ret]])
  have e: "keeps hush (\<lambda>h w. True) (case ?d of None \<Rightarrow> ret ()
      | Some d \<Rightarrow> cond (\<not> tu_bootstrap i) (bufferCmsEvent env (decision_event d)))"
    by (intro hush_intros)
  have f: "?P (if eff = tu_prompt i then g else withNotice LOSSY_SESSION_REPLAY_NOTICE g)" using P by simp
  have "limited ?P (0 + (1 + (1 + 1))) (0 + (0 + (1 + 1)))
      (andThen (case ?d of None \<Rightarrow> ret ()
          | Some d \<Rightarrow> cond (\<not> tu_bootstrap i) (bufferCmsEvent env (decision_event d)))
        (bind (runTurnWithPrompt env (if eff = tu_prompt i then g else withNotice LOSSY_SESSION_REPLAY_NOTICE g)) (\<lambda>r.
          bind (recoverLostSession env i g r) (\<lambda>x. (case x of
            Inl r \<Rightarrow> ret r
          | Inr r2 \<Rightarrow> bind (recoverCorruptedTranscript env i g r2) (\<lambda>y. (case y of
              Inl r \<Rightarrow> ret r | Inr r3 \<Rightarrow> finishTurn env i ?d r3)))))))"
    by (intro limited_andThen limited_bind [OF limited_run] limited_hush e f l)
  moreover have "runGuarded env i eff = (andThen (case ?d of None \<Rightarrow> ret ()
          | Some d \<Rightarrow> cond (\<not> tu_bootstrap i) (bufferCmsEvent env (decision_event d)))
        (bind (runTurnWithPrompt env (if eff = tu_prompt i then g else withNotice LOSSY_SESSION_REPLAY_NOTICE g)) (\<lambda>r.
          bind (recoverLostSession env i g r) (\<lambda>x. (case x of
            Inl r \<Rightarrow> ret r
          | Inr r2 \<Rightarrow> bind (recoverCorruptedTranscript env i g r2) (\<lambda>y. (case y of
              Inl r \<Rightarrow> ret r | Inr r3 \<Rightarrow> finishTurn env i ?d r3)))))))"
    using Some
    by (auto simp: runGuarded_def guarded_prompt_def Let_def split: option.splits if_splits guard_action.splits)
  ultimately show ?thesis by (simp add: numeral_eq_Suc)
qed

lemma limited_activity: "limited (may_reach_model env i) 3 4 (runTurnActivity env i)"
proof -
  have f: "keeps hush (\<lambda>h w. True)
      (andThen (flushTurnSummaryMetrics env (Some ''error'') None) (flushBufferedEvents env))"
    by (intro hush_intros)
  have g: "limited (may_reach_model env i) (0 + 3) (0 + 2) (andThen (startOfTurn env i) (runGuarded env i eff))" for eff
    by (intro limited_andThen limited_hush hush_startOfTurn limited_guarded)
  have g: "limited (may_reach_model env i) 3 2 (andThen (startOfTurn env i) (runGuarded env i eff))" for eff
    by (rule limited_mono [OF g]) simp_all
  have "limited (may_reach_model env i) (0 + 3) (2 + 2) (runTurnActivity env i)"
    unfolding runTurnActivity_def using limited_finally [OF g f]
    by (intro limited_bind limited_acquire) (simp only: add_0_left limited_ret split: sum.split; blast)
  then show ?thesis by simp
qed


subsection \<open>Accounting\<close>

text \<open>The result types under which turns were counted.\<close>

definition counted :: "turn_effect list \<Rightarrow> string option list" where
  "counted es = List.map_filter (\<lambda>e. case e of TurnSummary t a b \<Rightarrow> Some t | _ \<Rightarrow> None) es"

lemma counted_simps [simp]:
  "counted [] = []" "counted (a @ b) = counted a @ counted b"
  "counted (e # es) = (case e of TurnSummary t x y \<Rightarrow> [t] | _ \<Rightarrow> []) @ counted es"
  by (simp_all add: counted_def List.map_filter_def split: turn_effect.split)

definition uncounted :: "turn_world \<Rightarrow> turn_world \<Rightarrow> bool" where
  "uncounted w w' \<longleftrightarrow> counted (tw_trace w') = counted (tw_trace w) \<and> tw_summaryFlushed w' = tw_summaryFlushed w"

interpretation uncounted: step_contract uncounted "\<lambda>h w. True"
  by unfold_locales (simp_all add: uncounted_def)

lemma uncounted_tell:
  "(\<And>t a b. e \<noteq> TurnSummary t a b) \<Longrightarrow> keeps uncounted (\<lambda>h w. True) (tell e)"
  unfolding tell_def by (rule uncounted.keeps_modify) (simp add: uncounted_def split: turn_effect.split)

lemma uncounted_local:
  "(\<And>w. tw_trace (f w) = tw_trace w) \<Longrightarrow> (\<And>w. tw_summaryFlushed (f w) = tw_summaryFlushed w) \<Longrightarrow>
   keeps uncounted (\<lambda>h w. True) (modify f)"
  by (rule uncounted.keeps_modify) (simp add: uncounted_def)

lemma uncounted_events:
  "keeps uncounted (\<lambda>h w. True) (bufferCmsEvent env e)"
  "keeps uncounted (\<lambda>h w. True) (scrubBufferedEvents ty)"
  "keeps uncounted (\<lambda>h w. True) (flushBufferedEvents env)"
  "keeps uncounted (\<lambda>h w. True) (updateSession env u)"
  "keeps uncounted (\<lambda>h w. True) (recordEvent env ty j)"
  "keeps uncounted (\<lambda>h w. True) (recordLossyHandoffEvent env j)"
  "keeps uncounted (\<lambda>h w. True) (onEvent env e)"
  "keeps uncounted (\<lambda>h w. True) (refusal_events env d e)"
  unfolding account_defs by (intro uncounted.keeps_intros uncounted_tell uncounted_local; simp)+

lemma uncounted_next: "keeps uncounted (\<lambda>h w. True) next_reply"
  by (rule keepsI) (simp add: steps_def next_reply_def uncounted_def split: list.split)

lemma uncounted_get: "keeps uncounted (\<lambda>h w. True) (getOrCreate c n)"
proof -
  have "keeps uncounted (\<lambda>h w. True)
      (case r of SessionReady \<Rightarrow> ret () | SessionFailed m \<Rightarrow> throw m | _ \<Rightarrow> stop ())" for r
    by (cases r) (simp_all add: uncounted.keeps_ret uncounted.keeps_throw uncounted.keeps_stop)
  then show ?thesis
    unfolding getOrCreate_def by (intro uncounted.keeps_intros uncounted_tell uncounted_next) simp_all
qed

lemma uncounted_run: "keeps uncounted (\<lambda>h w. True) (runTurnWithPrompt env p)"
proof -
  have "keeps uncounted (\<lambda>h w. True) (case r of
      TurnDone res evs \<Rightarrow> andThen (for_each evs (onEvent env)) (ret res)
    | TurnThrew m \<Rightarrow> throw m | _ \<Rightarrow> stop ())" for r
    by (cases r)
       (simp_all add: uncounted.keeps_throw uncounted.keeps_stop uncounted.keeps_andThen uncounted.keeps_ret
         uncounted.keeps_for_each uncounted_events)
  then show ?thesis
    unfolding runTurnWithPrompt_def by (intro uncounted.keeps_intros uncounted_tell uncounted_next) simp_all
qed

lemmas uncounted_intros = uncounted.keeps_intros uncounted_events uncounted_get uncounted_run uncounted_tell

text \<open>
  \<open>counts fin m\<close>: started with the summary not yet flushed, \<open>m\<close> flushes it exactly once, under
  the type of its result, when it returns a final result, and not at all otherwise; \<open>fin\<close> tells which
  results are final.
\<close>

definition tally :: "('a \<Rightarrow> turn_result option) \<Rightarrow> turn_world \<Rightarrow> (unit, 'a) outcome \<times> turn_world \<Rightarrow> bool" where
  "tally fin w res =
     (case res of
        (Ret x, w') \<Rightarrow>
          (case fin x of
             None \<Rightarrow> \<not> tw_summaryFlushed w' \<and> counted (tw_trace w') = counted (tw_trace w)
           | Some r \<Rightarrow> tw_summaryFlushed w' \<and>
               counted (tw_trace w') = counted (tw_trace w) @ [Some (turn_type (tr_action r))])
      | (Throw e, w') \<Rightarrow> \<not> tw_summaryFlushed w' \<and> counted (tw_trace w') = counted (tw_trace w)
      | (Stop h, w') \<Rightarrow> True)"

definition counts :: "('a \<Rightarrow> turn_result option) \<Rightarrow> 'a turnp \<Rightarrow> bool" where
  "counts fin m \<longleftrightarrow> (\<forall>w. \<not> tw_summaryFlushed w \<longrightarrow> tally fin w (m w))"

lemma countsD: "counts fin m \<Longrightarrow> \<not> tw_summaryFlushed w \<Longrightarrow> m w = r \<Longrightarrow> tally fin w r"
  by (auto simp: counts_def)

lemma tally_trans:
  "tally (\<lambda>_. None) w (Ret (), w1) \<Longrightarrow> tally fin w1 r \<Longrightarrow> tally fin w r"
  by (auto simp: tally_def split: outcome.splits option.splits)

lemma counts_quiet:
  assumes "keeps uncounted (\<lambda>h w. True) m"
  shows "counts (\<lambda>_. None) m"
  unfolding counts_def
proof (intro allI impI)
  fix w :: turn_world assume "\<not> tw_summaryFlushed w"
  then show "tally (\<lambda>_. None) w (m w)"
    using keepsD [OF assms, of w] by (auto simp: tally_def uncounted_def split: prod.split outcome.split)
qed

lemma counts_bind:
  assumes m: "counts fin m"
    and f: "\<And>x. fin x = None \<Longrightarrow> counts fin' (f x)"
    and over: "\<And>x r. fin x = Some r \<Longrightarrow> \<exists>y. f x = ret y \<and> fin' y = Some r"
  shows "counts fin' (bind m f)"
  unfolding counts_def
proof (intro allI impI)
  fix w :: turn_world assume w: "\<not> tw_summaryFlushed w"
  obtain o1 w1 where mw: "m w = (o1, w1)" by (cases "m w")
  have t: "tally fin w (o1, w1)" by (rule countsD [OF m w mw])
  show "tally fin' w (bind m f w)"
  proof (cases o1)
    case (Ret x)
    show ?thesis
    proof (cases "fin x")
      case None
      then have "tally (\<lambda>_. None) w (Ret (), w1)" "\<not> tw_summaryFlushed w1"
        using t Ret by (auto simp: tally_def)
      then show ?thesis
        using Ret mw countsD [OF f [OF None] _ refl, of w1] tally_trans [of w w1 fin' "f x w1"]
        by (simp add: bind_def)
    next
      case (Some r)
      then show ?thesis using t Ret mw over [OF Some] by (auto simp: bind_def ret_def tally_def)
    qed
  qed (use t mw in \<open>auto simp: bind_def tally_def\<close>)
qed

lemma counts_andThen: "keeps uncounted (\<lambda>h w. True) m \<Longrightarrow> counts fin n \<Longrightarrow> counts fin (andThen m n)"
  unfolding andThen_def by (rule counts_bind [OF counts_quiet]) simp_all

lemma counts_catch:
  assumes m: "counts fin m" and h: "\<And>e. counts fin (h e)"
  shows "counts fin (try_catch m h)"
  unfolding counts_def
proof (intro allI impI)
  fix w :: turn_world assume w: "\<not> tw_summaryFlushed w"
  obtain o1 w1 where mw: "m w = (o1, w1)" by (cases "m w")
  have t: "tally fin w (o1, w1)" by (rule countsD [OF m w mw])
  show "tally fin w (try_catch m h w)"
  proof (cases o1)
    case (Throw e)
    then have "tally (\<lambda>_. None) w (Ret (), w1)" "\<not> tw_summaryFlushed w1"
      using t by (auto simp: tally_def)
    then show ?thesis
      using Throw mw countsD [OF h [of e] _ refl, of w1] tally_trans [of w w1 fin "h e w1"]
      by (simp add: try_catch_def)
  qed (use t mw in \<open>auto simp: try_catch_def\<close>)
qed

lemma counts_if: "counts fin m \<Longrightarrow> counts fin n \<Longrightarrow> counts fin (if b then m else n)"
  by simp

lemma counts_ret_None: "fin x = None \<Longrightarrow> counts fin (ret x)"
  by (simp add: counts_def ret_def tally_def)

lemma counts_throw: "counts fin (throw e)"
  by (simp add: counts_def throw_def tally_def)

text \<open>The flush itself, and what only records events after it.\<close>

lemma flush_summary:
  assumes "te_catalog env" "\<not> tw_summaryFlushed w"
  shows "\<exists>w'. flushTurnSummaryMetrics env t m w = (Ret (), w') \<and> tw_summaryFlushed w' \<and>
    counted (tw_trace w') = counted (tw_trace w) @ [t]"
  using assms by (auto simp: flushTurnSummaryMetrics_def tell_def run_simps)

lemma flush_again: "tw_summaryFlushed w \<Longrightarrow> flushTurnSummaryMetrics env t m w = (Ret (), w)"
  by (auto simp: flushTurnSummaryMetrics_def tell_def run_simps)

lemma events_return:
  "\<exists>w'. flushBufferedEvents env w = (Ret (), w') \<and> uncounted w w'"
  "\<exists>w'. updateSession env u w = (Ret (), w') \<and> uncounted w w'"
  by (auto simp: flushBufferedEvents_def updateSession_def tell_def run_simps uncounted_def)

lemma counts_finalize: "te_catalog env \<Longrightarrow> counts Some (finalizeTurn env r)"
  unfolding counts_def
proof (intro allI impI)
  fix w :: turn_world assume w: "te_catalog env" "\<not> tw_summaryFlushed w"
  obtain w1 where 1: "flushTurnSummaryMetrics env (Some (turn_type (tr_action r))) (error_of (tr_action r)) w =
      (Ret (), w1)" "tw_summaryFlushed w1"
      "counted (tw_trace w1) = counted (tw_trace w) @ [Some (turn_type (tr_action r))]"
    using flush_summary [OF w] by blast
  obtain w2 where 2: "flushBufferedEvents env w1 = (Ret (), w2)" "uncounted w1 w2"
    using events_return(1) by blast
  have "finalizeTurn env r w = (Ret r, w2)"
    using 1(1) 2(1) by (simp add: finalizeTurn_def andThen_def bind_def ret_def)
  with 1 2 show "tally Some w (finalizeTurn env r w)" by (simp add: uncounted_def tally_def)
qed

lemma counts_fail: "te_catalog env \<Longrightarrow> counts Some (failForMissingState env m)"
  unfolding counts_def
proof (intro allI impI)
  fix w :: turn_world assume w: "te_catalog env" "\<not> tw_summaryFlushed w"
  let ?u = "\<lparr> up_state = ''failed'', up_lastError = Some (Some m), up_waitReason = None \<rparr>"
  obtain w1 where 1: "flushTurnSummaryMetrics env (Some ''error'') (Some m) w = (Ret (), w1)"
      "tw_summaryFlushed w1" "counted (tw_trace w1) = counted (tw_trace w) @ [Some ''error'']"
    using flush_summary [OF w] by blast
  obtain w2 where 2: "flushBufferedEvents env w1 = (Ret (), w2)" "uncounted w1 w2"
    using events_return(1) by blast
  obtain w3 where 3: "updateSession env ?u w2 = (Ret (), w3)" "uncounted w2 w3"
    using events_return(2) by blast
  have "failForMissingState env m w = (Ret (plain_turn (TError m)), w3)"
    using 1(1) 2(1) 3(1) by (simp add: failForMissingState_def andThen_def bind_def ret_def)
  with 1 2 3 show "tally Some w (failForMissingState env m w)"
    by (simp add: uncounted_def plain_turn_def tally_def)
qed

lemma counts_finish: "te_catalog env \<Longrightarrow> counts Some (finishTurn env i d r)"
  unfolding finishTurn_def Let_def
  by (cases d) (auto intro!: counts_andThen counts_if counts_finalize uncounted_intros)

text \<open>An early end is final, the other results are not.\<close>

definition early :: "turn_result + 'b \<Rightarrow> turn_result option" where
  "early x = (case x of Inl r \<Rightarrow> Some r | Inr _ \<Rightarrow> None)"

lemma early_simps [simp]: "early (Inl r) = Some r" "early (Inr y) = None"
  by (simp_all add: early_def)

lemma counts_early:
  "counts Some m \<Longrightarrow> counts early (bind m (\<lambda>r. ret (Inl r)))"
  by (erule counts_bind) (auto intro: exI [of _ "Inl _"])

lemma counts_some:
  "counts Some m \<Longrightarrow> counts (\<lambda>x. x) (bind m (\<lambda>r. ret (Some r)))"
  by (erule counts_bind) simp_all

lemma counts_after_early:
  assumes "counts early m" "\<And>y. counts Some (f y)"
  shows "counts Some (bind m (\<lambda>x. case x of Inl r \<Rightarrow> ret r | Inr y \<Rightarrow> f y))"
  by (rule counts_bind [OF assms(1)]) (use assms(2) in \<open>auto simp: early_def split: sum.splits\<close>)

lemma counts_retry:
  assumes "keeps uncounted (\<lambda>h w. True) (doing ms)" "\<And>e. counts Some (g e)" "counts early k"
  shows "counts early (andThen (doing ms)
    (bind (try_catch (andThen (getOrCreate c n) (ret None)) (\<lambda>e. bind (g e) (\<lambda>r. ret (Some r))))
      (\<lambda>failed. (case failed of Some r \<Rightarrow> ret (Inl r) | None \<Rightarrow> k))))"
proof -
  have "counts (\<lambda>x. x) (andThen (getOrCreate c n) (ret None))"
    by (intro counts_andThen counts_ret_None uncounted_get refl)
  then have "counts (\<lambda>x. x) (try_catch (andThen (getOrCreate c n) (ret None))
      (\<lambda>e. bind (g e) (\<lambda>r. ret (Some r))))"
    using assms(2) by (intro counts_catch counts_some)
  then have "counts early (bind (try_catch (andThen (getOrCreate c n) (ret None))
      (\<lambda>e. bind (g e) (\<lambda>r. ret (Some r)))) (\<lambda>failed. (case failed of Some r \<Rightarrow> ret (Inl r) | None \<Rightarrow> k)))"
    by (rule counts_bind) (use assms(3) in auto)
  then show ?thesis by (rule counts_andThen [OF assms(1)])
qed

lemma counts_lost: "te_catalog env \<Longrightarrow> counts early (recoverLostSession env i g r)"
proof (cases "lost_result r")
  case None
  then show ?thesis by (simp add: recoverLostSession_def counts_ret_None)
next
  case (Some m)
  assume c: "te_catalog env"
  have "counts early (bind (runTurnWithPrompt env p) (\<lambda>result2. (case lost_result result2 of
      Some m \<Rightarrow> bind (failForMissingState env (f m)) (\<lambda>r. ret (Inl r)) | None \<Rightarrow> ret (Inr result2))))" for p f
    by (rule counts_bind [OF counts_quiet [OF uncounted_run]])
       (auto intro: counts_early counts_fail c counts_ret_None split: option.split)
  then show ?thesis
    unfolding recoverLostSession_def Some option.case
    by (intro counts_retry counts_fail c) (intro uncounted_intros; simp)
qed

lemma counts_corrupted: "te_catalog env \<Longrightarrow> counts early (recoverCorruptedTranscript env i g r)"
proof (cases "corrupted_result r")
  case None
  then show ?thesis by (simp add: recoverCorruptedTranscript_def counts_ret_None)
next
  case (Some m)
  assume c: "te_catalog env"
  have "counts early (bind (runTurnWithPrompt env p) (\<lambda>r. ret (Inr r)))" for p
    by (rule counts_bind [OF counts_quiet [OF uncounted_run]]) (auto intro: counts_ret_None)
  then show ?thesis
    unfolding recoverCorruptedTranscript_def Some option.case
    by (intro counts_retry counts_finalize c) (intro uncounted_intros; simp)
qed

lemma counts_acquire: "te_catalog env \<Longrightarrow> counts early (acquireSession env i)"
  unfolding acquireSession_def Let_def
  by (intro counts_catch counts_andThen counts_if counts_early counts_fail counts_throw counts_ret_None
      uncounted_intros) simp_all

lemma counts_guarded: "te_catalog env \<Longrightarrow> counts Some (runGuarded env i eff)"
proof -
  assume c: "te_catalog env"
  have run: "counts Some (bind (runTurnWithPrompt env p) (\<lambda>result.
      bind (recoverLostSession env i g result) (\<lambda>x. (case x of Inl r \<Rightarrow> ret r
      | Inr result2 \<Rightarrow> bind (recoverCorruptedTranscript env i g result2) (\<lambda>y. (case y of Inl r \<Rightarrow> ret r
        | Inr result3 \<Rightarrow> finishTurn env i d result3))))))" for p g d
    by (rule counts_bind [OF counts_quiet [OF uncounted_run]])
       (auto intro: counts_after_early counts_lost counts_corrupted counts_finish c)
  let ?d = "screenPrompt (te_guard env) (te_detector env) (tu_prompt i) (tu_bootstrap i)"
  have e: "keeps uncounted (\<lambda>h w. True) (case ?d of None \<Rightarrow> ret ()
      | Some d \<Rightarrow> cond (\<not> tu_bootstrap i) (bufferCmsEvent env (decision_event d)))"
    by (intro uncounted_intros)
  show ?thesis
    unfolding runGuarded_def Let_def
    by (intro counts_andThen e)
       (auto intro!: counts_andThen counts_finalize c uncounted_events run split: option.split guard_action.split)
qed

text \<open>
  C40: Every turn is counted once, under what it returned: with a catalog, an activity that returns
  has written exactly one turn summary, and its type is that of the result - on the ordinary path,
  on refusals, cancellations and both recoveries alike.
\<close>

theorem every_turn_is_counted_once:
  assumes "te_catalog env" "runTurnActivity env i (fresh_turn replies) = (Ret r, w)"
  shows "counted (tw_trace w) = [Some (turn_type (tr_action r))]"
proof -
  let ?f = "andThen (flushTurnSummaryMetrics env (Some ''error'') None) (flushBufferedEvents env)"
  let ?m = "\<lambda>eff. andThen (startOfTurn env i) (runGuarded env i eff)"
  have m: "counts Some (?m eff)" for eff
    unfolding startOfTurn_def Let_def using assms(1)
    by (intro counts_andThen counts_guarded uncounted_intros)
  obtain o1 w1 where aq: "acquireSession env i (fresh_turn replies) = (o1, w1)"
    by (cases "acquireSession env i (fresh_turn replies)")
  have t: "tally early (fresh_turn replies) (o1, w1)"
    by (rule countsD [OF counts_acquire [OF assms(1)] _ aq]) (simp add: fresh_turn_def)
  show ?thesis
  proof (cases o1)
    case (Ret x)
    show ?thesis
    proof (cases x)
      case (Inl r')
      with Ret aq t assms(2) show ?thesis
        by (simp add: runTurnActivity_def bind_def ret_def tally_def fresh_turn_def)
    next
      case (Inr eff)
      with Ret aq assms(2) have f: "finally_do (?m eff) ?f w1 = (Ret r, w)"
        by (simp add: runTurnActivity_def bind_def)
      obtain o2 w2 where m2: "?m eff w1 = (o2, w2)" by (cases "?m eff w1")
      obtain w3 where w3: "flushBufferedEvents env w2 = (Ret (), w3)" "uncounted w2 w3"
        using events_return(1) by blast
      have w1: "\<not> tw_summaryFlushed w1" "counted (tw_trace w1) = []"
        using t Ret Inr by (simp_all add: tally_def fresh_turn_def)
      then have t2: "tally Some w1 (o2, w2)" using countsD [OF m _ m2] by blast
      show ?thesis
      proof (cases o2)
        case (Ret r')
        with f m2 t2 w3 w1 show ?thesis
          by (simp add: finally_do_def andThen_def bind_def ret_def tally_def flush_again uncounted_def)
      next
        case (Throw e)
        have "andThen ?f (throw e) w2 \<noteq> (Ret r, w)"
          by (simp add: andThen_def bind_def throw_def split: prod.split outcome.split)
        with Throw f m2 show ?thesis by (simp add: finally_do_def)
      next
        case (Stop h)
        with f m2 show ?thesis by (simp add: finally_do_def)
      qed
    qed
  qed (use aq assms(2) in \<open>simp_all add: runTurnActivity_def bind_def\<close>)
qed

definition sample_env :: turn_env where
  "sample_env = \<lparr> te_catalog = True, te_insertTurnMetric = True, te_workerNodeId = Some ''w'', te_hostname = ''h'',
     te_rowAgentId = None, te_guard = Some \<lparr> gc_enabled = Some False, gc_mode = None, gc_detectorModel = None \<rparr>,
     te_detector = None, te_cancelled = False \<rparr>"

definition sample_turn :: turn_input where
  "sample_turn = \<lparr> tu_sessionId = ''s'', tu_prompt = ''hi'', tu_config = blank_config, tu_bootstrap = True,
     tu_turnIndex = Some 1, tu_parentSessionId = None, tu_retryCount = None \<rparr>"

lemma sample_run:
  "\<exists>w. runTurnActivity sample_env sample_turn
     (fresh_turn [SessionReady, TurnDone (plain_turn (TCompleted ''hello'')) []]) =
     (Ret (plain_turn (TCompleted ''hello'')), w)"
  by (simp add: runTurnActivity_def acquireSession_def getOrCreate_def tell_def next_reply_def fresh_turn_def
      startOfTurn_def runGuarded_def runTurnWithPrompt_def recoverLostSession_def lost_result_def
      recoverCorruptedTranscript_def corrupted_result_def finishTurn_def questionForParent_def
      finally_do_def account_defs screenPrompt_def sample_env_def sample_turn_def blank_config_def
      plain_turn_def Let_def run_simps cong: run_congs)

theorem every_turn_is_counted_once_witness:
  "counted (tw_trace (snd (runTurnActivity sample_env sample_turn
     (fresh_turn [SessionReady, TurnDone (plain_turn (TCompleted ''hello'')) []])))) = [Some ''completed'']"
proof -
  obtain w where w: "runTurnActivity sample_env sample_turn
      (fresh_turn [SessionReady, TurnDone (plain_turn (TCompleted ''hello'')) []]) =
      (Ret (plain_turn (TCompleted ''hello'')), w)"
    using sample_run by blast
  show ?thesis
    using every_turn_is_counted_once [OF _ w] w by (simp add: sample_env_def plain_turn_def)
qed

subsection \<open>What a guarded turn may return\<close>

definition returns :: "('a \<Rightarrow> bool) \<Rightarrow> 'a turnp \<Rightarrow> bool" where
  "returns P m \<longleftrightarrow> (\<forall>w x w'. m w = (Ret x, w') \<longrightarrow> P x)"

lemma returns_bind: "(\<And>x. returns Q (f x)) \<Longrightarrow> returns Q (bind m f)"
  by (auto simp: returns_def bind_def split: prod.splits outcome.splits)

lemma returns_seq: "returns P m \<Longrightarrow> (\<And>x. P x \<Longrightarrow> returns Q (f x)) \<Longrightarrow> returns Q (bind m f)"
  unfolding returns_def bind_def by (fastforce split: prod.splits outcome.splits)

lemma returns_andThen: "returns Q n \<Longrightarrow> returns Q (andThen m n)"
  unfolding andThen_def by (rule returns_bind)

lemma returns_catch: "returns Q m \<Longrightarrow> (\<And>e. returns Q (h e)) \<Longrightarrow> returns Q (try_catch m h)"
  by (auto simp: returns_def try_catch_def split: prod.splits outcome.splits)

lemma returns_ret [simp]: "returns P (ret x) = P x"
  by (simp add: returns_def ret_def)

lemma returns_throw [simp]: "returns P (throw e)"
  by (simp add: returns_def throw_def)

lemma returns_if: "returns P m \<Longrightarrow> returns P n \<Longrightarrow> returns P (if b then m else n)"
  by simp

lemma returns_finally:
  assumes "returns P m"
  shows "returns P (finally_do m f)"
  unfolding returns_def
proof (intro allI impI)
  fix w x w' assume f: "finally_do m f w = (Ret x, w')"
  show "P x"
  proof (cases "m w")
    case (Pair o1 w1)
    with f assms show ?thesis
      by (cases o1)
         (auto simp: finally_do_def andThen_def bind_def ret_def throw_def returns_def
           split: prod.splits outcome.splits)
  qed
qed

definition harmless :: "guard_decision \<Rightarrow> turn_result \<Rightarrow> bool" where
  "harmless d r \<longleftrightarrow> \<not> isHighRiskTurnResult (tr_action r) \<and>
     (case tr_action r of
        TCompleted c \<Rightarrow> c = buildPromptGuardrailRefusal d \<or> \<not> containsUnsafeAuthorityClaim (Some (JStr c))
      | _ \<Rightarrow> True)"

lemma harmless_plain [simp]: "harmless d (plain_turn (TError m))" "harmless d (plain_turn TCancelled)"
  by (simp_all add: harmless_def plain_turn_def isHighRiskTurnResult_def)

lemma harmless_refusal [simp]: "harmless d (refusal_result d e)"
  by (simp add: harmless_def refusal_result_def isHighRiskTurnResult_def Let_def)

lemma returns_finalize [simp]: "P r \<Longrightarrow> returns P (finalizeTurn env r)"
  unfolding finalizeTurn_def by (intro returns_andThen) simp

lemma returns_fail: "(\<And>m. P (plain_turn (TError m))) \<Longrightarrow> returns P (failForMissingState env msg)"
  unfolding failForMissingState_def by (intro returns_andThen) simp

lemma checked_harmless:
  "\<not> (case tr_action r of TCompleted c \<Rightarrow> containsUnsafeAuthorityClaim (Some (JStr c)) | _ \<Rightarrow> False) \<Longrightarrow>
   \<not> isHighRiskTurnResult (tr_action r) \<Longrightarrow> harmless d r"
  by (cases "tr_action r") (simp_all add: harmless_def)

lemma finish_harmless:
  assumes "gd_action d = AllowGuarded"
  shows "returns (harmless d) (finishTurn env i (Some d) r)"
proof -
  have checked: "returns (harmless d)
      (if gd_action d = AllowGuarded \<and>
          (case tr_action x of TCompleted c \<Rightarrow> containsUnsafeAuthorityClaim (Some (JStr c)) | _ \<Rightarrow> False)
       then andThen (refusal_events env d (claim_event d)) (finalizeTurn env (refusal_result d (claim_event d)))
       else if gd_action d = AllowGuarded \<and> isHighRiskTurnResult (tr_action x)
       then andThen (refusal_events env d (action_event d (tr_action x)))
              (finalizeTurn env (refusal_result d (action_event d (tr_action x))))
       else finalizeTurn env x)" for x
    using assms checked_harmless [of x d] by (auto intro!: returns_andThen)
  show ?thesis
    unfolding finishTurn_def Let_def option.case
    by (rule returns_andThen, rule returns_if) (simp, rule returns_andThen, rule checked)
qed

definition early_harmless :: "guard_decision \<Rightarrow> turn_result + 'b \<Rightarrow> bool" where
  "early_harmless d x = (case x of Inl r \<Rightarrow> harmless d r | Inr _ \<Rightarrow> True)"

lemma early_harmless_simps [simp]: "early_harmless d (Inl r) = harmless d r" "early_harmless d (Inr y)"
  by (simp_all add: early_harmless_def)

definition maybe_harmless :: "guard_decision \<Rightarrow> turn_result option \<Rightarrow> bool" where
  "maybe_harmless d x = (case x of Some r \<Rightarrow> harmless d r | None \<Rightarrow> True)"

lemma maybe_harmless_simps [simp]: "maybe_harmless d (Some r) = harmless d r" "maybe_harmless d None"
  by (simp_all add: maybe_harmless_def)

lemma fail_harmless: "returns (harmless d) (failForMissingState env m)"
  by (rule returns_fail) simp

lemma early_bind: "returns (harmless d) m \<Longrightarrow> returns (early_harmless d) (bind m (\<lambda>r. ret (Inl r)))"
  by (erule returns_seq) simp

lemma retry_harmless:
  assumes "\<And>e. returns (harmless d) (g e)" "returns (early_harmless d) k"
  shows "returns (early_harmless d) (andThen (doing ms)
    (bind (try_catch (andThen (getOrCreate c n) (ret None)) (\<lambda>e. bind (g e) (\<lambda>r. ret (Some r))))
      (\<lambda>failed. (case failed of Some r \<Rightarrow> ret (Inl r) | None \<Rightarrow> k))))"
proof -
  have "returns (maybe_harmless d) (bind (g e) (\<lambda>r. ret (Some r)))" for e
    using assms(1) by (rule returns_seq) simp
  then have "returns (maybe_harmless d)
      (try_catch (andThen (getOrCreate c n) (ret None)) (\<lambda>e. bind (g e) (\<lambda>r. ret (Some r))))"
    by (intro returns_catch returns_andThen) simp_all
  then show ?thesis
    using assms(2) by (intro returns_andThen) (erule returns_seq, auto split: option.split)
qed

lemma lost_harmless: "returns (early_harmless d) (recoverLostSession env i g r)"
proof -
  have "returns (early_harmless d) (bind (runTurnWithPrompt env p) (\<lambda>result2. (case lost_result result2 of
      Some m \<Rightarrow> bind (failForMissingState env (f m)) (\<lambda>r. ret (Inl r)) | None \<Rightarrow> ret (Inr result2))))" for p f
    by (rule returns_bind) (auto split: option.split intro: early_bind fail_harmless)
  then show ?thesis
    unfolding recoverLostSession_def
    by (cases "lost_result r") (simp_all only: option.case returns_ret early_harmless_simps retry_harmless fail_harmless)
qed

lemma corrupted_harmless: "returns (early_harmless d) (recoverCorruptedTranscript env i g r)"
proof -
  have "returns (early_harmless d) (bind (runTurnWithPrompt env p) (\<lambda>r. ret (Inr r)))" for p
    by (rule returns_bind) simp
  then show ?thesis
    unfolding recoverCorruptedTranscript_def
    by (cases "corrupted_result r")
       (simp_all only: option.case returns_ret early_harmless_simps retry_harmless returns_finalize harmless_plain)
qed

lemma after_early:
  "returns (early_harmless d) m \<Longrightarrow> (\<And>y. returns (harmless d) (f y)) \<Longrightarrow>
   returns (harmless d) (bind m (\<lambda>x. case x of Inl r \<Rightarrow> ret r | Inr y \<Rightarrow> f y))"
  by (erule returns_seq) (auto split: sum.split)

text \<open>
  C9: The action that a guarded turn ends with is checked on every path: whatever the live session does,
  loses or corrupts, when the prompt was let through under guard, the action of the result that the
  activity returns is no spawn, message, completion, cancellation, deletion or listing of sessions, and a
  completed reply makes no claim of an accepted authority, unless it is the refusal itself. Other actions
  - waits, schedules, questions, checks of agents - pass, and the actions queued behind the first one are
  not looked at (\<open>queued_actions_escape_guard\<close>).
\<close>

theorem guarded_results_are_harmless:
  assumes "screenPrompt (te_guard env) (te_detector env) (tu_prompt i) (tu_bootstrap i) = Some d"
    and "gd_action d = AllowGuarded"
    and "runTurnActivity env i (fresh_turn replies) = (Ret r, w)"
  shows "harmless d r"
proof -
  have "returns (harmless d) (runGuarded env i eff)" for eff
    unfolding runGuarded_def Let_def assms(1) option.map assms(2) option.case guard_action.case
    by (intro returns_andThen returns_bind after_early lost_harmless corrupted_harmless finish_harmless
        assms(2))
  moreover have "returns (early_harmless d) (acquireSession env i)"
    unfolding acquireSession_def Let_def
    by (intro returns_catch returns_andThen returns_if early_bind fail_harmless) simp_all
  ultimately have "returns (harmless d) (runTurnActivity env i)"
    unfolding runTurnActivity_def by (intro after_early returns_finally returns_andThen)
  with assms(3) show ?thesis unfolding returns_def by blast
qed

theorem guarded_results_are_harmless_witness:
  "\<exists>r w. runTurnActivity (sample_env\<lparr>te_guard := None, te_catalog := False\<rparr>)
     (sample_turn\<lparr>tu_prompt := ''bypass system prompt'', tu_bootstrap := False\<rparr>)
     (fresh_turn [SessionReady, TurnDone (plain_turn (TDeleteAgent ''a'' None)) []]) = (Ret r, w) \<and>
     harmless guarded_example r"
proof -
  let ?env = "sample_env\<lparr>te_guard := None, te_catalog := False\<rparr>"
  let ?i = "sample_turn\<lparr>tu_prompt := ''bypass system prompt'', tu_bootstrap := False\<rparr>"
  let ?rs = "fresh_turn [SessionReady, TurnDone (plain_turn (TDeleteAgent ''a'' None)) []]"
  have s: "screenPrompt (te_guard ?env) (te_detector ?env) (tu_prompt ?i) (tu_bootstrap ?i) = Some guarded_example"
    by (simp add: sample_env_def sample_turn_def guarded_example(1))
  have "\<exists>r w. runTurnActivity ?env ?i ?rs = (Ret r, w)"
    by (simp add: runTurnActivity_def acquireSession_def getOrCreate_def tell_def next_reply_def fresh_turn_def
        startOfTurn_def runGuarded_def runTurnWithPrompt_def recoverLostSession_def lost_result_def
        recoverCorruptedTranscript_def corrupted_result_def finishTurn_def questionForParent_def
        finally_do_def account_defs sample_env_def sample_turn_def blank_config_def guarded_example
        plain_turn_def Let_def run_simps isHighRiskTurnResult_def cong: run_congs)
  then obtain r w where r: "runTurnActivity ?env ?i ?rs = (Ret r, w)" by blast
  then show ?thesis using guarded_results_are_harmless [OF s guarded_example(2) r] by blast
qed

end
