(* ===== verification/SdkClient.thy ===== *)
theory SdkClient
  imports MainLoop SessionStatus
begin

text \<open>
  Model of the session operations of \<open>PilotSwarmClient\<close> (\<open>packages/sdk/src/client.ts\<close>): creating,
  resuming, listing and deleting sessions, and sending a prompt, which starts the orchestration when
  it is not active. The client's maps are its state; the catalog, the facts store and the runtime
  answer from a list of replies, and what is asked of them is recorded. Polling for a result and the
  delivery of events are not modelled. The client is given one call at a time.
\<close>

subsection \<open>What the client asks\<close>

text \<open>
  Requests to the catalog, the runtime, the session manager and the summary model; those past
  \<open>CancelInstance\<close> are made by the activities of the session proxy (SessionActivities) only.
\<close>

record session_row =
  rw_sessionId :: string
  rw_state :: string
  rw_title :: "string option"
  rw_parentSessionId :: "string option"
  rw_isSystem :: bool
  rw_agentId :: "string option"
  rw_iteration :: nat
  rw_lastError :: "string option"
  rw_orchestrationId :: "string option"
  rw_model :: "string option"
  rw_titleLocked :: bool

text \<open>The columns an update names; a column set to null is \<open>Some None\<close>.\<close>

record row_update =
  ru_state :: "string option"
  ru_orchestrationId :: "string option"
  ru_lastError :: "string option option"
  ru_waitReason :: "string option option"
  ru_title :: "string option"
  ru_agentId :: "string option"
  ru_splash :: "string option"
  ru_isSystem :: bool

definition no_update :: row_update where
  "no_update = \<lparr> ru_state = None, ru_orchestrationId = None, ru_lastError = None,
     ru_waitReason = None, ru_title = None, ru_agentId = None, ru_splash = None, ru_isSystem = False \<rparr>"

text \<open>
  What the runtime reports of an instance: the reconciliation's view, the fields of the custom
  status read besides, the latest response and the output of an ended instance.
\<close>

record runtime_report =
  rr_view :: runtime_view
  rr_statusVersion :: nat
  rr_iteration :: "nat option"
  rr_waitReason :: "string option"
  rr_turnContent :: "string option"
  rr_latestContent :: "string option"
  rr_output :: "string option"
  rr_responseVersion :: "nat option"
  rr_error :: "string option"

datatype fleet_call =
    ConnectClient
  | CloseClient
  | CatalogGet string
  | CatalogList
  | CatalogCreate string "string option" "string option" bool
  | CatalogUpdate string row_update
  | CatalogDelete string
  | DeleteFacts string
  | InstanceInfo string
  | InstanceStatus string
  | StartOrchestration string orch_input string
  | EnqueueEvent string string message
  | EnqueueUpdate string "(string \<times> json) list"
  | CancelInstance string string
  | RecordEvents string "captured_event list"
  | UpsertMetrics string "(string \<times> json) list"
  | GetDescendants string
  | GetEvents string nat
  | SummaryStart
  | SummaryModel string
  | ManagerDehydrate string string
  | ManagerHydrate string
  | ManagerNeedsHydration string
  | ManagerDestroy string
  | ManagerCheckpoint string
  | SnapshotSize string

datatype fleet_reply =
    FOk
  | FErr string
  | FRow "session_row option"
  | FRows "session_row list"
  | FReport runtime_report
  | FKnown "string option"
  | FStr string
  | FBool bool
  | FStrs "string list"
  | FSize "nat option"
  | FEvents "(string \<times> string option) list"
  | FStoreErr string "nat option" "string option"

record client_options =
  co_waitThreshold :: int
  co_dehydrateThreshold :: "int option"
  co_dehydrateOnIdle :: "int option"
  co_dehydrateOnInputRequired :: "int option"
  co_checkpointInterval :: "int option"
  co_rehydrationMessage :: "string option"
  co_policy :: "creation_policy option"
  co_allowedAgentNames :: "string list"

record fleet =
  fl_replies :: "fleet_reply list"
  fl_calls :: "fleet_call list"
  fl_guids :: "string list"
  fl_started :: bool
  fl_configs :: "string \<rightharpoonup> session_config"
  fl_parents :: "string \<rightharpoonup> string"
  fl_levels :: "string \<rightharpoonup> nat"
  fl_system :: "string list"
  fl_agentIds :: "string \<rightharpoonup> string"
  fl_active :: "string \<rightharpoonup> string"
  fl_seenVersion :: "string \<rightharpoonup> nat"
  fl_seenIteration :: "string \<rightharpoonup> nat"
  fl_seenResponse :: "string \<rightharpoonup> nat"
  fl_events :: "captured_event list"

type_synonym 'a fleetp = "(fleet, unit, 'a) prog"

definition ask :: "fleet_call \<Rightarrow> fleet_reply fleetp" where
  "ask c w =
     (case fl_replies w of
        [] \<Rightarrow> (Stop (), w\<lparr>fl_calls := fl_calls w @ [c]\<rparr>)
      | r # rs \<Rightarrow>
          (case r of FErr e \<Rightarrow> Throw e | _ \<Rightarrow> Ret r, w\<lparr>fl_calls := fl_calls w @ [c], fl_replies := rs\<rparr>))"

definition ask_unit :: "fleet_call \<Rightarrow> unit fleetp" where
  "ask_unit c = bind (ask c) (\<lambda>r. case r of FOk \<Rightarrow> ret () | _ \<Rightarrow> stop ())"

definition randomUUID :: "string fleetp" where
  "randomUUID w = (case fl_guids w of [] \<Rightarrow> (Stop (), w) | g # gs \<Rightarrow> (Ret g, w\<lparr>fl_guids := gs\<rparr>))"

text \<open>\<open>await x.catch(() => {})\<close>\<close>

definition attempt :: "unit fleetp \<Rightarrow> unit fleetp" where
  "attempt m = try_catch m (\<lambda>_. ret ())"

primrec collect :: "'a list \<Rightarrow> ('a \<Rightarrow> 'b fleetp) \<Rightarrow> 'b list fleetp" where
  "collect [] f = ret []"
| "collect (x # xs) f = bind (f x) (\<lambda>y. bind (collect xs f) (\<lambda>ys. ret (y # ys)))"

definition catalogGet :: "string \<Rightarrow> session_row option fleetp" where
  "catalogGet sid = bind (ask (CatalogGet sid)) (\<lambda>r. case r of FRow x \<Rightarrow> ret x | _ \<Rightarrow> stop ())"

definition instanceStatus :: "string \<Rightarrow> runtime_report fleetp" where
  "instanceStatus o1 = bind (ask (InstanceStatus o1)) (\<lambda>r. case r of FReport x \<Rightarrow> ret x | _ \<Rightarrow> stop ())"

definition orch_id :: "string \<Rightarrow> string" where
  "orch_id sid = ''session-'' @ sid"

subsection \<open>Creating sessions\<close>

record create_request =
  rq_sessionId :: "string option"
  rq_parentSessionId :: "string option"
  rq_nestingLevel :: "nat option"
  rq_agentId :: "string option"
  rq_config :: session_config

text \<open>The session's configuration keeps the fields of the request that the client knows.\<close>

definition client_config :: "client_options \<Rightarrow> session_config \<Rightarrow> session_config" where
  "client_config opts c =
     \<lparr> c_model = c_model c, c_systemMessage = c_systemMessage c, c_turnSystemPrompt = None,
       c_workingDirectory = c_workingDirectory c,
       c_waitThreshold = Some (default_to (c_waitThreshold c) (co_waitThreshold opts)),
       c_boundAgentName = c_boundAgentName c, c_promptLayering = c_promptLayering c,
       c_toolNames = c_toolNames c, c_reasoningEffort = c_reasoningEffort c, c_agentIdentity = None \<rparr>"

definition clientPolicyError :: "client_options \<Rightarrow> bool \<Rightarrow> string option \<Rightarrow> string option" where
  "clientPolicyError opts isSubAgent agentId =
     (if agentId = Some ''default'' \<and> \<not> isSubAgent
      then Some (''Session creation rejected: '' @ dq @ ''default'' @ dq @ '' is a prompt overlay, not a selectable agent.'')
      else
        (case co_policy opts of
           None \<Rightarrow> None
         | Some p \<Rightarrow>
             if \<not> pol_allowlist p \<or> isSubAgent then None
             else if \<not> truthy agentId \<and> pol_allowGeneric p \<noteq> Some True then
               Some (''Session creation policy violation: generic sessions are not allowed. '' @
                     ''Use createSessionForAgent() to specify an agent.'')
             else if truthy agentId \<and> or_str agentId [] \<notin> set (co_allowedAgentNames opts) then
               Some (''Session creation policy violation: agent '' @ dq @ or_str agentId [] @ dq @
                     '' is not in the allowed agent list.'')
             else None))"

definition createSession :: "client_options \<Rightarrow> create_request \<Rightarrow> string fleetp" where
  "createSession opts rq =
     (case clientPolicyError opts (truthy (rq_parentSessionId rq)) (rq_agentId rq) of
        Some e \<Rightarrow> throw e
      | None \<Rightarrow>
          bind (case rq_sessionId rq of Some s \<Rightarrow> ret s | None \<Rightarrow> randomUUID) (\<lambda>sid.
          andThen (doing [
            modify (\<lambda>w. w\<lparr>fl_configs := (fl_configs w)(sid \<mapsto> client_config opts (rq_config rq))\<rparr>),
            ask_unit (CatalogCreate sid (c_model (rq_config rq)) (rq_parentSessionId rq) False),
            cond (truthy (rq_parentSessionId rq))
              (modify (\<lambda>w. w\<lparr>fl_parents := (fl_parents w)(sid \<mapsto> or_str (rq_parentSessionId rq) [])\<rparr>)),
            cond (rq_nestingLevel rq \<noteq> None)
              (modify (\<lambda>w. w\<lparr>fl_levels := (fl_levels w)(sid \<mapsto> default_to (rq_nestingLevel rq) 0)\<rparr>)),
            cond (truthy (rq_agentId rq))
              (modify (\<lambda>w. w\<lparr>fl_agentIds := (fl_agentIds w)(sid \<mapsto> or_str (rq_agentId rq) [])\<rparr>))])
          (ret sid)))"

subsection \<open>The status of a session\<close>

record session_detail =
  dt_sessionId :: string
  dt_status :: string
  dt_title :: "string option"
  dt_agentId :: "string option"
  dt_iterations :: nat
  dt_waitReason :: "string option"
  dt_cronActive :: bool
  dt_cronInterval :: "int option"
  dt_result :: "string option"
  dt_error :: "string option"
  dt_parentSessionId :: "string option"
  dt_isSystem :: bool

definition row_of :: "session_row \<Rightarrow> catalog_row" where
  "row_of r = \<lparr> row_state = rw_state r, row_parentSessionId = rw_parentSessionId r,
     row_isSystem = rw_isSystem r, row_lastError = rw_lastError r, row_waitReason = None \<rparr>"

text \<open>What is reported of an instance the runtime does not answer for.\<close>

definition no_report :: runtime_report where
  "no_report = \<lparr> rr_view = \<lparr> rv_status = None, rv_cronActive = False, rv_cronInterval = None,
       rv_turnResultType = None, rv_error = None, rv_orchestrationStatus = None,
       rv_latestResponseType = None \<rparr>,
     rr_statusVersion = 0, rr_iteration = None, rr_waitReason = None, rr_turnContent = None,
     rr_latestContent = None, rr_output = None, rr_responseVersion = None, rr_error = None \<rparr>"

definition reconcile_update :: "runtime_view \<Rightarrow> catalog_row \<Rightarrow> row_update option" where
  "reconcile_update v r =
     (if shouldSyncCompletedStatus (terminal_input v (Some r)) then
        Some (no_update\<lparr>ru_state := Some ''completed'', ru_lastError := Some None, ru_waitReason := Some None\<rparr>)
      else if shouldSyncFailedStatus (terminal_input v (Some r)) then
        Some (no_update\<lparr>ru_state := Some ''failed'', ru_waitReason := Some None,
          ru_lastError := (case failure_message v r of None \<Rightarrow> None | Some m \<Rightarrow> Some (Some m))\<rparr>)
      else if needs_recovery v r then
        Some (no_update\<lparr>ru_state := Some (recovered_state v), ru_lastError := Some None,
          ru_waitReason := (if recovered_state v \<in> {''waiting'', ''input_required''} then None
                            else Some None)\<rparr>)
      else None)"

text \<open>The value returned has no parent and no system flag: the source leaves both out.\<close>

definition detail_of :: "string \<Rightarrow> session_row option \<Rightarrow> runtime_report \<Rightarrow> session_detail" where
  "detail_of sid row rep =
     (let v = rr_view rep; status = deriveStatusFromCmsAndRuntime v (map_option row_of row) in
      \<lparr> dt_sessionId = sid, dt_status = status,
        dt_title = (case row of None \<Rightarrow> None | Some r \<Rightarrow> rw_title r),
        dt_agentId = (case row of None \<Rightarrow> None | Some r \<Rightarrow> rw_agentId r),
        dt_iterations = default_to (rr_iteration rep) (case row of None \<Rightarrow> 0 | Some r \<Rightarrow> rw_iteration r),
        dt_waitReason = rr_waitReason rep,
        dt_cronActive = rv_cronActive v, dt_cronInterval = rv_cronInterval v,
        dt_result = (if rv_turnResultType v = Some ''completed'' then rr_turnContent rep
          else if rv_latestResponseType v = Some ''completed'' then rr_latestContent rep
          else if rv_orchestrationStatus v = Some ''Completed'' then rr_output rep else None),
        dt_error = (if status = ''error'' \<or> status = ''failed''
          then (if rv_orchestrationStatus v = Some ''Failed'' then rr_error rep
                else (case row of None \<Rightarrow> None | Some r \<Rightarrow> rw_lastError r))
          else None),
        dt_parentSessionId = None, dt_isSystem = False \<rparr>)"

definition getSessionInfo :: "string \<Rightarrow> session_detail fleetp" where
  "getSessionInfo sid =
     bind (catalogGet sid) (\<lambda>row.
     bind (try_catch (instanceStatus (orch_id sid)) (\<lambda>_. ret no_report)) (\<lambda>rep.
       andThen (case row of
           None \<Rightarrow> ret ()
         | Some r \<Rightarrow>
             (case reconcile_update (rr_view rep) (row_of r) of
                None \<Rightarrow> ret ()
              | Some u \<Rightarrow> attempt (ask_unit (CatalogUpdate sid u))))
         (ret (detail_of sid row rep))))"

subsection \<open>Sending a prompt\<close>

definition serializable_config :: "client_options \<Rightarrow> session_config option \<Rightarrow> session_config" where
  "serializable_config opts full =
     (let c = client_config opts (default_to full blank_config);
          names = unique (default_to (c_toolNames c) [])
      in c\<lparr>c_toolNames := (if names \<noteq> [] then Some names else None)\<rparr>)"

definition start_input :: "client_options \<Rightarrow> fleet \<Rightarrow> string \<Rightarrow> orch_input" where
  "start_input opts w sid =
     (blank_input sid)
       \<lparr>in_config := serializable_config opts (fl_configs w sid),
        in_sourceOrchestrationVersion := Some DURABLE_SESSION_LATEST_VERSION,
        in_iteration := Some 0, in_blobEnabled := Some True,
        in_dehydrateThreshold := Some (default_to (co_dehydrateThreshold opts) 29),
        in_idleTimeout := Some (if truthy (fl_parents w sid) then -1
          else default_to (co_dehydrateOnIdle opts) 60),
        in_inputGracePeriod := Some (if truthy (fl_parents w sid) then -1
          else default_to (co_dehydrateOnInputRequired opts) 30),
        in_checkpointInterval := Some (default_to (co_checkpointInterval opts) (- 1)),
        in_rehydrationMessage := co_rehydrationMessage opts,
        in_parentSessionId := keep_truthy (fl_parents w sid),
        in_nestingLevel := fl_levels w sid,
        in_isSystem := (if sid \<in> set (fl_system w) then Some True else None),
        in_agentId := fl_agentIds w sid\<rparr>"

definition terminal_message :: "string \<Rightarrow> string" where
  "terminal_message sid = ''Session '' @ take 8 sid @
     '' is a terminal orchestration and cannot accept new messages.''"

definition prompt_message :: "string \<Rightarrow> bool \<Rightarrow> string option \<Rightarrow> message" where
  "prompt_message prompt bootstrap requiredTool =
     \<lparr> m_type = None, m_cmd = [], m_id = [], m_args = [], m_prompt = Some prompt,
       m_bootstrap = (if bootstrap then Some True else None),
       m_requiredTool = keep_truthy requiredTool, m_answer = None, m_wasFreeform = None \<rparr>"

definition refuse_terminal :: "string \<Rightarrow> unit fleetp" where
  "refuse_terminal sid =
     bind (catalogGet sid) (\<lambda>row. case row of
       None \<Rightarrow> ret ()
     | Some r \<Rightarrow>
         if (rw_state r = ''completed'' \<or> rw_state r = ''cancelled'') \<and> truthy (rw_parentSessionId r) \<and>
            \<not> rw_isSystem r
         then throw (terminal_message sid)
         else if rw_state r = ''failed'' \<or> rw_state r = ''error'' \<or> rw_state r = ''cancelled''
         then bind (try_catch (bind (getSessionInfo sid) (\<lambda>i. ret (Some i))) (\<lambda>_. ret None)) (\<lambda>info.
           (case info of
              None \<Rightarrow> ret ()
            | Some i \<Rightarrow> if dt_status i = ''failed'' \<or> dt_status i = ''cancelled''
                then throw (terminal_message sid) else ret ()))
         else ret ())"

definition ensureOrchestrationAndSend ::
  "client_options \<Rightarrow> string \<Rightarrow> string \<Rightarrow> bool \<Rightarrow> string option \<Rightarrow> string fleetp" where
  "ensureOrchestrationAndSend opts sid prompt bootstrap requiredTool =
     inspect (\<lambda>w.
       if \<not> fl_started w then throw ''Not started.''
       else
         andThen (doing [
           refuse_terminal sid,
           inspect (\<lambda>w. cond (fl_active w sid = None)
             (andThen (ask_unit (StartOrchestration (orch_id sid) (start_input opts w sid)
                  DURABLE_SESSION_LATEST_VERSION))
               (modify (\<lambda>w. w\<lparr>fl_active := (fl_active w)(sid \<mapsto> orch_id sid)\<rparr>)))),
           ask_unit (CatalogUpdate sid (no_update\<lparr>ru_orchestrationId := Some (orch_id sid),
             ru_state := Some ''running'', ru_lastError := Some None, ru_waitReason := Some None\<rparr>)),
           ask_unit (EnqueueEvent (orch_id sid) ''messages'' (prompt_message prompt bootstrap requiredTool))])
         (ret (orch_id sid)))"

definition send :: "client_options \<Rightarrow> string \<Rightarrow> string \<Rightarrow> bool \<Rightarrow> unit fleetp" where
  "send opts sid prompt bootstrap =
     bind (ensureOrchestrationAndSend opts sid prompt bootstrap None) (\<lambda>_. ret ())"

subsection \<open>Named agents, system sessions, resuming\<close>

definition capitalized :: "string \<Rightarrow> string" where
  "capitalized s = (case s of [] \<Rightarrow> [] | c # r \<Rightarrow>
     (let n = (of_char c :: nat) in if 97 \<le> n \<and> n \<le> 122 then char_of (n - 32) else c) # r)"

definition createSessionForAgent ::
  "client_options \<Rightarrow> string \<Rightarrow> session_config \<Rightarrow> string option \<Rightarrow> string option \<Rightarrow> string option \<Rightarrow>
   string fleetp" where
  "createSessionForAgent opts agentName c title splash initialPrompt =
     (if agentName \<notin> set (co_allowedAgentNames opts)
      then throw (''Cannot create session for agent '' @ dq @ agentName @ dq @
             '': not found in loaded agents or is a system agent.'')
      else
        bind (createSession opts
          \<lparr> rq_sessionId = None, rq_parentSessionId = None, rq_nestingLevel = None,
            rq_agentId = Some agentName,
            rq_config = blank_config\<lparr>c_model := c_model c, c_reasoningEffort := c_reasoningEffort c,
              c_toolNames := c_toolNames c, c_boundAgentName := Some agentName,
              c_promptLayering := Some AppAgent\<rparr> \<rparr>) (\<lambda>sid.
        andThen (doing [
          ask_unit (CatalogUpdate sid (no_update\<lparr>ru_agentId := Some agentName,
            ru_title := Some (or_str title (capitalized agentName) @ '': '' @ take 8 sid),
            ru_splash := keep_truthy splash\<rparr>)),
          cond (truthy initialPrompt) (send opts sid (or_str initialPrompt []) True)])
        (ret sid)))"

definition listRows :: "session_row list fleetp" where
  "listRows = bind (ask CatalogList) (\<lambda>r. case r of FRows xs \<Rightarrow> ret xs | _ \<Rightarrow> stop ())"

text \<open>
  An instance the runtime knows is active, whatever the row says; what was published before is
  marked as seen. A failing runtime leaves the row's word.
\<close>

definition note_seen :: "string \<Rightarrow> runtime_report \<Rightarrow> unit fleetp" where
  "note_seen o1 rep = doing [
     cond (rr_statusVersion rep \<noteq> 0)
       (modify (\<lambda>w. w\<lparr>fl_seenVersion := (fl_seenVersion w)(o1 \<mapsto> rr_statusVersion rep)\<rparr>)),
     cond (rr_iteration rep \<noteq> None)
       (modify (\<lambda>w. w\<lparr>fl_seenIteration := (fl_seenIteration w)(o1 \<mapsto> default_to (rr_iteration rep) 0)\<rparr>)),
     cond (rr_responseVersion rep \<noteq> None)
       (modify (\<lambda>w. w\<lparr>fl_seenResponse := (fl_seenResponse w)(o1 \<mapsto> default_to (rr_responseVersion rep) 0)\<rparr>))]"

definition resumeSession :: "client_options \<Rightarrow> string \<Rightarrow> session_config option \<Rightarrow> string fleetp" where
  "resumeSession opts sid config =
     andThen (modify (\<lambda>w. case config of None \<Rightarrow> w
         | Some c \<Rightarrow> w\<lparr>fl_configs := (fl_configs w)(sid \<mapsto> c)\<rparr>))
     (bind (try_catch (catalogGet sid) (\<lambda>_. ret None)) (\<lambda>row.
      bind (try_catch
          (bind (ask (InstanceInfo (orch_id sid))) (\<lambda>info.
           bind (instanceStatus (orch_id sid)) (\<lambda>rep.
             (case info of
                FKnown st \<Rightarrow> andThen (note_seen (orch_id sid) rep)
                  (ret (truthy st \<and> st \<noteq> Some ''Unknown''))
              | _ \<Rightarrow> stop ()))))
          (\<lambda>_. ret (case row of None \<Rightarrow> False
             | Some r \<Rightarrow> rw_orchestrationId r = Some (orch_id sid) \<and> rw_state r \<noteq> ''pending''))) (\<lambda>active.
      andThen (modify (\<lambda>w. w\<lparr>fl_active := (fl_active w)(sid := (if active then Some (orch_id sid) else None))\<rparr>))
        (ret sid))))"

definition createSystemSession ::
  "client_options \<Rightarrow> session_config \<Rightarrow> string option \<Rightarrow> string fleetp" where
  "createSystemSession opts config title =
     (let c = blank_config\<lparr>c_model := c_model config, c_systemMessage := c_systemMessage config,
                c_toolNames := c_toolNames config\<rparr> in
      bind listRows (\<lambda>rows. case find rw_isSystem rows of
        Some r \<Rightarrow>
          andThen (modify (\<lambda>w. w\<lparr>fl_system := rw_sessionId r # fl_system w\<rparr>))
            (resumeSession opts (rw_sessionId r) (Some c))
      | None \<Rightarrow>
          bind randomUUID (\<lambda>sid.
          andThen (doing [
            modify (\<lambda>w. w\<lparr>fl_system := sid # fl_system w, fl_configs := (fl_configs w)(sid \<mapsto> c)\<rparr>),
            ask_unit (CatalogCreate sid (c_model config) None True),
            cond (truthy title) (ask_unit (CatalogUpdate sid (no_update\<lparr>ru_title := title\<rparr>)))])
          (ret sid))))"

definition deleteSession :: "string \<Rightarrow> unit fleetp" where
  "deleteSession sid =
     bind (catalogGet sid) (\<lambda>row.
       if (case row of None \<Rightarrow> False | Some r \<Rightarrow> rw_isSystem r) then throw ''Cannot delete system session''
       else doing [
         modify (\<lambda>w. w\<lparr>fl_configs := (fl_configs w)(sid := None), fl_parents := (fl_parents w)(sid := None),
                       fl_levels := (fl_levels w)(sid := None)\<rparr>),
         ask_unit (CatalogDelete sid),
         attempt (bind (ask (DeleteFacts sid)) (\<lambda>_. ret ())),
         attempt (ask_unit (CancelInstance (orch_id sid) ''Session deleted'')),
         modify (\<lambda>w. w\<lparr>fl_active := (fl_active w)(sid := None)\<rparr>)])"

subsection \<open>The life of a client\<close>

text \<open>Connecting is one request here; it may fail. A client is started once. Errors while
  closing are swallowed.\<close>

definition start :: "unit fleetp" where
  "start = inspect (\<lambda>w. if fl_started w then ret ()
     else andThen (ask_unit ConnectClient) (modify (\<lambda>w. w\<lparr>fl_started := True\<rparr>)))"

definition close_client :: "unit fleetp" where
  "close_client = doing [attempt (ask_unit CloseClient), modify (\<lambda>w. w\<lparr>fl_started := False\<rparr>)]"

text \<open>A new client knows nothing.\<close>

definition new_client :: "fleet \<Rightarrow> fleet" where
  "new_client w = w\<lparr>fl_started := False, fl_configs := Map.empty, fl_parents := Map.empty,
     fl_levels := Map.empty, fl_system := [], fl_agentIds := Map.empty, fl_active := Map.empty,
     fl_seenVersion := Map.empty, fl_seenIteration := Map.empty, fl_seenResponse := Map.empty\<rparr>"

end
