(* ===== verification/AgentLookup.thy ===== *)
theory AgentLookup
  imports SpawnAgent
begin

text \<open>
  How an agent is found by the name a model or a user gives: \<open>resolveAgentConfigInline\<close> of the
  \<open>runTurn\<close> activity and the \<open>resolveAgentConfig\<close> activity (\<open>packages/sdk/src/session-proxy.ts\<close>). The
  agents loaded by the worker are two lists, those a user may create and the worker's own.
\<close>

definition is_alnum_lower :: "char \<Rightarrow> bool" where
  "is_alnum_lower c = (let n = (of_char c :: nat) in (97 \<le> n \<and> n \<le> 122) \<or> (48 \<le> n \<and> n \<le> 57))"

definition normalizeAgentLookup :: "string option \<Rightarrow> string" where
  "normalizeAgentLookup v = filter is_alnum_lower (map to_lower (or_str v []))"

definition loaded_agents :: "agent_definition list \<Rightarrow> agent_definition list \<Rightarrow> agent_definition list" where
  "loaded_agents userAgents systemAgents =
     map (\<lambda>a. a\<lparr>ad_system := Some False, ad_creatable := Some True\<rparr>) userAgents @
     map (\<lambda>a. a\<lparr>ad_creatable := Some False\<rparr>) systemAgents"

text \<open>\<open>namespace:name\<close>; the name may contain further colons.\<close>

definition split_agent_name :: "string \<Rightarrow> string option \<times> string" where
  "split_agent_name agentName =
     (if str_includes agentName '':''
      then (case split_on (CHR '':'') agentName of
              [] \<Rightarrow> (None, agentName)
            | p # ps \<Rightarrow> (Some p, join '':'' ps))
      else (None, agentName))"

definition strip_agent_suffix :: "string \<Rightarrow> string" where
  "strip_agent_suffix s = (if ends_with s ''agent'' then take (length s - 5) s else s)"

definition agent_matches :: "string option \<Rightarrow> string \<Rightarrow> agent_definition \<Rightarrow> bool" where
  "agent_matches lookupNamespace lookup a =
     (let lookupBase = strip_agent_suffix lookup;
          candidates = filter (\<lambda>c. c \<noteq> [])
            (map normalizeAgentLookup [Some (ad_name a), ad_id a, ad_title a])
      in \<not> (truthy lookupNamespace \<and>
            normalizeAgentLookup (ad_namespace a) \<noteq> normalizeAgentLookup lookupNamespace) \<and>
         (lookup \<in> set candidates \<or> lookupBase \<noteq> [] \<and> lookupBase \<in> set candidates))"

definition resolveAgentConfigInline ::
  "agent_definition list \<Rightarrow> agent_definition list \<Rightarrow> string \<Rightarrow> agent_definition option" where
  "resolveAgentConfigInline userAgents systemAgents agentName =
     (case split_agent_name agentName of
        (lookupNamespace, rawName) \<Rightarrow>
          find (agent_matches lookupNamespace (normalizeAgentLookup (Some rawName)))
            (loaded_agents userAgents systemAgents))"

definition resolveAgentConfigActivity ::
  "agent_definition list \<Rightarrow> agent_definition list \<Rightarrow> string \<Rightarrow> agent_definition option" where
  "resolveAgentConfigActivity userAgents systemAgents agentName =
     (case split_agent_name agentName of
        (lookupNamespace, rawName) \<Rightarrow>
          map_option (\<lambda>a. a\<lparr>ad_creatable := Some (default_to (ad_creatable a) (ad_system a \<noteq> Some True))\<rparr>)
            (find (agent_matches lookupNamespace (normalizeAgentLookup (Some rawName)))
              (loaded_agents userAgents systemAgents)))"

subsection \<open>Properties\<close>

lemma find_in: "find P xs = Some x \<Longrightarrow> x \<in> set xs \<and> P x"
  by (auto simp: find_Some_iff)

lemma loaded_creatable:
  "a \<in> set (loaded_agents us ss) \<Longrightarrow>
     ad_creatable a = Some True \<and> ad_system a = Some False \<or> ad_creatable a = Some False"
  by (auto simp: loaded_agents_def)

lemma creatable_known: "ad_creatable a = Some c \<Longrightarrow> a\<lparr>ad_creatable := Some c\<rparr> = a"
  by (cases a) simp

lemma resolve_routes_agree:
  "resolveAgentConfigActivity us ss n = resolveAgentConfigInline us ss n"
proof -
  obtain ns raw where s: "split_agent_name n = (ns, raw)" by (cases "split_agent_name n")
  let ?f = "find (agent_matches ns (normalizeAgentLookup (Some raw))) (loaded_agents us ss)"
  show ?thesis
  proof (cases ?f)
    case (Some a)
    from loaded_creatable [OF find_in [OF Some, THEN conjunct1]] obtain c where "ad_creatable a = Some c"
      by blast
    then show ?thesis
      using Some by (simp add: resolveAgentConfigActivity_def resolveAgentConfigInline_def s
          creatable_known)
  qed (simp add: resolveAgentConfigActivity_def resolveAgentConfigInline_def s)
qed

text \<open>
  No spawned child is a system session: whichever agents the workers have loaded and whatever
  name the model gives, both ways of resolving the name find the same definition, and it is either
  refused as worker-managed or bound without the system flag. The part of the spawning code that
  handles system children is never reached from \<open>spawn_agent\<close>.
\<close>

theorem spawned_children_are_not_system:
  assumes "resolveAgentConfigInline userAgents systemAgents name = Some d"
  shows "resolveAgentConfigActivity userAgents systemAgents name = Some d \<and>
    (worker_managed d \<or> \<not> sb_isSystem (applyAgentDef r d defaults (unbound r)))"
proof -
  have "d \<in> set (loaded_agents userAgents systemAgents)"
    using assms by (auto simp: resolveAgentConfigInline_def split: prod.splits dest: find_in)
  from loaded_creatable [OF this] show ?thesis
    using assms unfolding resolve_routes_agree
    by (cases "ad_system d") (auto simp: worker_managed_def applyAgentDef_def)
qed

lemma normalize_prefix:
  "normalizeAgentLookup (Some (s @ t)) = normalizeAgentLookup (Some s) @ normalizeAgentLookup (Some t)"
  by (cases "s = []"; cases "t = []") (simp_all add: normalizeAgentLookup_def)

text \<open>
  An agent is found by any spelling of its name: letter case, blanks and punctuation do not matter,
  and the word agent may be added at the end.
\<close>

theorem agent_is_found_by_its_name:
  assumes "a \<in> set userAgents" "normalizeAgentLookup (Some name) = normalizeAgentLookup (Some (ad_name a)) \<or>
      normalizeAgentLookup (Some name) = normalizeAgentLookup (Some (ad_name a)) @ ''agent''"
    and "CHR '':'' \<notin> set name" "normalizeAgentLookup (Some (ad_name a)) \<noteq> []"
  shows "resolveAgentConfigInline userAgents systemAgents name \<noteq> None"
proof -
  let ?a = "a\<lparr>ad_system := Some False, ad_creatable := Some True\<rparr>"
  have s: "split_agent_name name = (None, name)"
    using assms(3) by (simp add: split_agent_name_def str_includes_char)
  have "agent_matches None (normalizeAgentLookup (Some name)) ?a"
    using assms(2,4) by (auto simp: agent_matches_def Let_def strip_agent_suffix_def)
  moreover have "?a \<in> set (loaded_agents userAgents systemAgents)"
    using assms(1) by (auto simp: loaded_agents_def)
  ultimately show ?thesis
    unfolding resolveAgentConfigInline_def s by (auto simp: find_None_iff)
qed

definition sample_agent :: "string \<Rightarrow> agent_definition" where
  "sample_agent n = \<lparr> ad_name = n, ad_id = None, ad_title = Some ''The Sweeper'', ad_initialPrompt = None,
     ad_tools = None, ad_system = Some True, ad_creatable = None, ad_splash = None,
     ad_namespace = Some ''ops'', ad_promptLayerKind = None \<rparr>"

lemma sample_lookup:
  "resolveAgentConfigInline [sample_agent ''scout''] [sample_agent ''sweeper''] ''ops:Sweeper Agent'' =
     Some ((sample_agent ''sweeper'')\<lparr>ad_creatable := Some False\<rparr>)"
  by code_simp

theorem spawned_children_are_not_system_witness:
  "resolveAgentConfigActivity [sample_agent ''scout''] [sample_agent ''sweeper''] ''ops:Sweeper Agent'' =
     Some ((sample_agent ''sweeper'')\<lparr>ad_creatable := Some False\<rparr>)"
  using spawned_children_are_not_system [OF sample_lookup] by blast

end
