(* ===== verification/ModelRegistry.thy ===== *)
theory ModelRegistry
  imports Json
begin

text \<open>
  Model of \<open>packages/sdk/src/model-providers.ts\<close>, the registry of models and providers, and of the
  parts of \<open>session-manager.ts\<close> that resolve a session's model and reasoning effort with it. The
  process environment is an argument. The file search of the loader is not modelled.
\<close>

subsection \<open>Configuration\<close>

datatype provider_type = Github | Azure | OpenAI | Anthropic | Codex

record model_entry =
  me_name :: string
  me_description :: "string option"
  me_cost :: "string option"
  me_supportedReasoningEfforts :: "string list option"
  me_defaultReasoningEffort :: "string option"

datatype model_item = BareName string | Entry model_entry

record provider_config =
  pc_id :: string
  pc_type :: provider_type
  pc_githubToken :: "string option"
  pc_baseUrl :: "string option"
  pc_apiKey :: "string option"
  pc_apiVersion :: "string option"
  pc_codexHome :: "string option"
  pc_codexBinaryPath :: "string option"
  pc_models :: "model_item list"

record model_providers_file =
  pf_providers :: "provider_config list"
  pf_defaultModel :: "string option"

record model_descriptor =
  md_qualifiedName :: string
  md_modelName :: string
  md_providerId :: string
  md_providerType :: provider_type
  md_description :: "string option"
  md_cost :: "string option"
  md_supportedReasoningEfforts :: "string list option"
  md_defaultReasoningEffort :: "string option"

record sdk_provider =
  sd_type :: provider_type
  sd_baseUrl :: string
  sd_apiKey :: "string option"
  sd_azureApiVersion :: "string option"

record resolved_provider =
  rp_providerId :: string
  rp_type :: provider_type
  rp_modelName :: string
  rp_githubToken :: "string option"
  rp_sdkProvider :: "sdk_provider option"
  rp_codexRuntime :: "(string \<times> string option) option"

type_synonym process_env = "string \<Rightarrow> string option"

subsection \<open>Helpers\<close>

definition REASONING_EFFORTS :: "string list" where
  "REASONING_EFFORTS = [''low'', ''medium'', ''high'', ''xhigh'', ''max'', ''ultra'']"

definition effort_text :: "string \<Rightarrow> string" where
  "effort_text raw = map to_lower (trim raw)"

definition normalizeReasoningEfforts :: "string list option \<Rightarrow> string list" where
  "normalizeReasoningEfforts values =
     (case values of
        None \<Rightarrow> []
      | Some vs \<Rightarrow> fold (\<lambda>raw out.
          let value = effort_text raw in
          if value \<notin> set REASONING_EFFORTS then out
          else if value \<in> set out then out
          else out @ [value]) vs [])"

definition normalizeDefaultReasoningEffort :: "string option \<Rightarrow> string list \<Rightarrow> string option" where
  "normalizeDefaultReasoningEffort value supported =
     (if supported = [] then None
      else
        (let normalized = effort_text (or_str value []) in
         if normalized \<noteq> [] \<and> normalized \<in> set supported then Some normalized
         else Some (hd supported)))"

definition resolveEnvValue :: "process_env \<Rightarrow> string option \<Rightarrow> string option" where
  "resolveEnvValue env value =
     (if \<not> truthy value then None
      else if starts_with (or_str value []) ''env:''
        then keep_truthy (env (drop 4 (or_str value [])))
      else value)"

subsection \<open>Building the registry\<close>

record registry =
  rg_providers :: "provider_config list"
  rg_descriptors :: "string \<rightharpoonup> model_descriptor"
  rg_qualifiedToProvider :: "string \<rightharpoonup> provider_config"
  rg_bareToQualified :: "string \<rightharpoonup> string"
  rg_defaultModel :: "string option"
  rg_allDescriptors :: "model_descriptor list"

definition entry_of :: "model_item \<Rightarrow> model_entry" where
  "entry_of m =
     (case m of
        BareName n \<Rightarrow> \<lparr> me_name = n, me_description = None, me_cost = None,
          me_supportedReasoningEfforts = None, me_defaultReasoningEffort = None \<rparr>
      | Entry e \<Rightarrow> e)"

definition credentialed :: "process_env \<Rightarrow> provider_config \<Rightarrow> bool" where
  "credentialed env p =
     (if pc_type p = Github \<or> pc_type p = Codex then True
      else truthy (resolveEnvValue env (pc_apiKey p)))"

definition describe :: "provider_config \<Rightarrow> model_entry \<Rightarrow> model_descriptor" where
  "describe p e =
     (let supported = normalizeReasoningEfforts (me_supportedReasoningEfforts e);
          default_effort = normalizeDefaultReasoningEffort (me_defaultReasoningEffort e) supported
      in \<lparr> md_qualifiedName = pc_id p @ '':'' @ me_name e, md_modelName = me_name e,
           md_providerId = pc_id p, md_providerType = pc_type p,
           md_description = me_description e, md_cost = me_cost e,
           md_supportedReasoningEfforts = (if supported \<noteq> [] then Some supported else None),
           md_defaultReasoningEffort = keep_truthy default_effort \<rparr>)"

definition register :: "provider_config \<Rightarrow> model_item \<Rightarrow> registry \<Rightarrow> registry" where
  "register p m g =
     (let e = entry_of m; d = describe p e; qualified = md_qualifiedName d in
      g\<lparr>rg_descriptors := (rg_descriptors g)(qualified \<mapsto> d),
        rg_qualifiedToProvider := (rg_qualifiedToProvider g)(qualified \<mapsto> p),
        rg_allDescriptors := rg_allDescriptors g @ [d],
        rg_bareToQualified := (if rg_bareToQualified g (me_name e) = None
          then (rg_bareToQualified g)(me_name e \<mapsto> qualified) else rg_bareToQualified g)\<rparr>)"

definition empty_registry :: "process_env \<Rightarrow> model_providers_file \<Rightarrow> registry" where
  "empty_registry env f =
     \<lparr> rg_providers = filter (credentialed env) (pf_providers f),
       rg_descriptors = Map.empty, rg_qualifiedToProvider = Map.empty,
       rg_bareToQualified = Map.empty, rg_defaultModel = pf_defaultModel f,
       rg_allDescriptors = [] \<rparr>"

definition filled_registry :: "process_env \<Rightarrow> model_providers_file \<Rightarrow> registry" where
  "filled_registry env f =
     (let g = empty_registry env f in
      fold (\<lambda>p. fold (register p) (pc_models p)) (rg_providers g) g)"

definition modelRegistry :: "process_env \<Rightarrow> model_providers_file \<Rightarrow> string + registry" where
  "modelRegistry env f =
     (let g = filled_registry env f in
      if truthy (pf_defaultModel f) \<and> rg_descriptors g (or_str (pf_defaultModel f) []) = None
      then Inl (''Invalid defaultModel '' @ quote (or_str (pf_defaultModel f) []) @
             '' in model provider config.'' @
             (if rg_allDescriptors g \<noteq> []
              then '' Available models: '' @ join '', '' (map md_qualifiedName (rg_allDescriptors g))
              else '' No credentialed models are available after provider filtering.''))
      else Inr g)"

subsection \<open>Looking models up\<close>

definition normalize_model :: "registry \<Rightarrow> string option \<Rightarrow> string option" where
  "normalize_model g ref =
     (if \<not> truthy ref then rg_defaultModel g
      else
        (let r = or_str ref [] in
         if str_includes r '':'' \<and> rg_descriptors g r \<noteq> None then Some r
         else keep_truthy (rg_bareToQualified g r)))"

definition getDescriptor :: "registry \<Rightarrow> string option \<Rightarrow> model_descriptor option" where
  "getDescriptor g ref =
     (let q = normalize_model g ref in if truthy q then rg_descriptors g (or_str q []) else None)"

definition strip_slashes :: "string \<Rightarrow> string" where
  "strip_slashes s = rev (dropWhile (\<lambda>c. c = CHR ''/'') (rev s))"

definition resolve_provider ::
  "process_env \<Rightarrow> provider_config \<Rightarrow> model_descriptor \<Rightarrow> resolved_provider option" where
  "resolve_provider env p d =
     (let base = \<lparr> rp_providerId = pc_id p, rp_type = pc_type p, rp_modelName = md_modelName d,
                   rp_githubToken = None, rp_sdkProvider = None, rp_codexRuntime = None \<rparr> in
      if pc_type p = Github
      then Some (base\<lparr>rp_githubToken := resolveEnvValue env (pc_githubToken p)\<rparr>)
      else if pc_type p = Codex
      then Some (base\<lparr>rp_codexRuntime :=
        Some (or_str (resolveEnvValue env (pc_codexHome p)) [],
              keep_truthy (resolveEnvValue env (pc_codexBinaryPath p)))\<rparr>)
      else if \<not> truthy (pc_baseUrl p) then None
      else
        (let baseUrl = or_str (pc_baseUrl p) [];
             resolvedUrl = (if pc_type p = Azure \<and> \<not> str_includes baseUrl ''/deployments/''
               then strip_slashes baseUrl @ ''/deployments/'' @ md_modelName d else baseUrl)
         in Some (base\<lparr>rp_sdkProvider := Some
              \<lparr> sd_type = pc_type p, sd_baseUrl = resolvedUrl,
                sd_apiKey = resolveEnvValue env (pc_apiKey p),
                sd_azureApiVersion = (if pc_type p = Azure
                  then Some (or_str (pc_apiVersion p) ''2024-10-21'') else None) \<rparr>\<rparr>)))"

definition resolve_model :: "process_env \<Rightarrow> registry \<Rightarrow> string option \<Rightarrow> resolved_provider option" where
  "resolve_model env g ref =
     (let q = normalize_model g ref in
      if \<not> truthy q then None
      else
        (case (rg_qualifiedToProvider g (or_str q []), rg_descriptors g (or_str q [])) of
           (Some p, Some d) \<Rightarrow> resolve_provider env p d
         | _ \<Rightarrow> None))"

definition hasModel :: "registry \<Rightarrow> string \<Rightarrow> bool" where
  "hasModel g ref \<longleftrightarrow> normalize_model g (Some ref) \<noteq> None"

definition provider_type_name :: "provider_type \<Rightarrow> string" where
  "provider_type_name t = (case t of
     Github \<Rightarrow> ''github'' | Azure \<Rightarrow> ''azure'' | OpenAI \<Rightarrow> ''openai''
   | Anthropic \<Rightarrow> ''anthropic'' | Codex \<Rightarrow> ''codex'')"

definition getModelsByProvider :: "registry \<Rightarrow> (string \<times> provider_type \<times> model_descriptor list) list" where
  "getModelsByProvider g =
     map (\<lambda>p. (pc_id p, pc_type p, filter (\<lambda>d. md_providerId d = pc_id p) (rg_allDescriptors g)))
       (rg_providers g)"

definition model_line :: "model_descriptor \<Rightarrow> string" where
  "model_line m =
     (let efforts = default_to (md_supportedReasoningEfforts m) [] in
      ''- '' @ md_qualifiedName m @
      (if truthy (md_cost m) then '' [cost: '' @ or_str (md_cost m) [] @ '']'' else []) @
      (if efforts \<noteq> [] then '' [reasoning: '' @ join '', '' efforts @
         (if truthy (md_defaultReasoningEffort m)
          then ''; default: '' @ or_str (md_defaultReasoningEffort m) [] else []) @ '']'' else []) @
      (if truthy (md_description m) then '' - '' @ or_str (md_description m) [] else []))"

definition getModelSummaryForLLM :: "registry \<Rightarrow> string" where
  "getModelSummaryForLLM g = join [nl]
     ([''Available models (use the qualified name to select):''] @
      concat (map (\<lambda>(i, t, ms). ([nl] @ ''## '' @ i @ '' ('' @ provider_type_name t @ '')'') # map model_line ms)
        (getModelsByProvider g)) @
      [[nl] @ ''Default: '' @ or_str (rg_defaultModel g) ''none''])"

subsection \<open>The registry of the environment variables\<close>

definition env_type :: "string \<Rightarrow> provider_type" where
  "env_type s = (if s = ''azure'' then Azure else if s = ''anthropic'' then Anthropic else OpenAI)"

text \<open>The provider type is one of the three the source casts to.\<close>

definition buildFromEnv :: "process_env \<Rightarrow> (string + registry) option" where
  "buildFromEnv env =
     (let type_name = or_str (env ''LLM_PROVIDER_TYPE'') ''openai'';
          modelNames =
            (if truthy (env ''LLM_MODELS'')
             then filter (\<lambda>m. m \<noteq> []) (map trim (split_on (CHR '','') (or_str (env ''LLM_MODELS'') [])))
             else if truthy (env ''COPILOT_MODEL'') then [or_str (env ''COPILOT_MODEL'') []] else []);
          endpoint =
            (if truthy (env ''LLM_ENDPOINT'') \<and> modelNames \<noteq> []
             then [\<lparr> pc_id = ''env-'' @ type_name, pc_type = env_type type_name, pc_githubToken = None,
                     pc_baseUrl = env ''LLM_ENDPOINT'',
                     pc_apiKey = (if truthy (env ''LLM_API_KEY'') then Some ''env:LLM_API_KEY'' else None),
                     pc_apiVersion = (if type_name = ''azure''
                       then Some (or_str (env ''LLM_API_VERSION'') ''2024-10-21'') else None),
                     pc_codexHome = None, pc_codexBinaryPath = None,
                     pc_models = map BareName modelNames \<rparr>]
             else []);
          github =
            (if truthy (env ''GITHUB_TOKEN'')
             then [\<lparr> pc_id = ''github-copilot'', pc_type = Github, pc_githubToken = Some ''env:GITHUB_TOKEN'',
                     pc_baseUrl = None, pc_apiKey = None, pc_apiVersion = None, pc_codexHome = None,
                     pc_codexBinaryPath = None,
                     pc_models = map BareName [''claude-opus-4.6'', ''claude-sonnet-4.6'', ''gpt-4o''] \<rparr>]
             else [])
      in if endpoint @ github = [] then None
         else Some (modelRegistry env \<lparr> pf_providers = endpoint @ github, pf_defaultModel = None \<rparr>))"

subsection \<open>The session manager's use of the registry\<close>

definition UNKNOWN_MODEL :: "string \<Rightarrow> string" where
  "UNKNOWN_MODEL ref = ''Unknown model '' @ [CHR 0x22] @ ref @ [CHR 0x22] @
     ''. Call list_available_models and choose an exact configured provider:model value.''"

definition normalizeModelRef ::
  "registry option \<Rightarrow> string option \<Rightarrow> bool \<Rightarrow> string + string option" where
  "normalizeModelRef reg model requireQualified =
     (case reg of
        None \<Rightarrow> Inr model
      | Some g \<Rightarrow>
          (let ref = (if truthy model then model else rg_defaultModel g) in
           if \<not> truthy ref then
             Inl ''No default model is configured. Set defaultModel in model_providers.json or specify an explicit provider:model when creating the session.''
           else
             (let normalized = normalize_model g ref in
              if \<not> truthy normalized then Inl (UNKNOWN_MODEL (or_str ref []))
              else if requireQualified \<and> ref \<noteq> normalized then
                Inl (''Model '' @ [CHR 0x22] @ or_str ref [] @ [CHR 0x22] @
                  '' is not allowed. Use the exact provider:model value returned by list_available_models, for example '' @
                  [CHR 0x22] @ or_str normalized [] @ [CHR 0x22] @ ''.'')
              else Inr normalized)))"

definition resolveDefaultProvider :: "process_env \<Rightarrow> registry option \<Rightarrow> (string \<times> sdk_provider) option" where
  "resolveDefaultProvider env reg =
     (case reg of
        None \<Rightarrow> None
      | Some g \<Rightarrow>
          if \<not> truthy (rg_defaultModel g) then None
          else (case resolve_model env g (rg_defaultModel g) of
            None \<Rightarrow> None
          | Some r \<Rightarrow> map_option (\<lambda>s. (rp_modelName r, s)) (rp_sdkProvider r)))"

definition normalizeReasoningEffortValue :: "string option \<Rightarrow> string option" where
  "normalizeReasoningEffortValue value = keep_truthy (Some (effort_text (default_to value [])))"

definition resolveEffectiveReasoningEffort ::
  "registry option \<Rightarrow> string \<Rightarrow> string option \<Rightarrow> string option" where
  "resolveEffectiveReasoningEffort reg model configured =
     (let normalized = normalizeReasoningEffortValue configured;
          descriptor = (if model \<noteq> [] then (case reg of None \<Rightarrow> None | Some g \<Rightarrow> getDescriptor g (Some model))
                        else None);
          supported = (case descriptor of None \<Rightarrow> [] | Some d \<Rightarrow> default_to (md_supportedReasoningEfforts d) [])
      in if supported = [] then
           (if truthy normalized \<and> or_str normalized [] \<notin> set REASONING_EFFORTS then None else normalized)
         else if truthy normalized \<and> or_str normalized [] \<in> set supported then normalized
         else
           (case descriptor of
              None \<Rightarrow> None
            | Some d \<Rightarrow>
                if truthy (md_defaultReasoningEffort d) \<and> or_str (md_defaultReasoningEffort d) [] \<in> set supported
                then md_defaultReasoningEffort d else Some (hd supported)))"

subsection \<open>Reasoning efforts\<close>

lemma effort_text_idem: "v \<in> set REASONING_EFFORTS \<Longrightarrow> effort_text v = v \<and> v \<noteq> []"
  unfolding REASONING_EFFORTS_def by (elim set_ConsD [THEN disjE] | clarsimp)+ (code_simp | simp)+

lemma efforts_step:
  assumes "set out \<subseteq> set REASONING_EFFORTS" "distinct out"
  shows "set (fold (\<lambda>raw out. let value = effort_text raw in
           if value \<notin> set REASONING_EFFORTS then out else if value \<in> set out then out
           else out @ [value]) vs out) = set out \<union> (set (map effort_text vs) \<inter> set REASONING_EFFORTS) \<and>
    distinct (fold (\<lambda>raw out. let value = effort_text raw in
           if value \<notin> set REASONING_EFFORTS then out else if value \<in> set out then out
           else out @ [value]) vs out)"
  using assms by (induction vs arbitrary: out) (auto simp: Let_def)

lemma normalizeReasoningEfforts_set:
  "set (normalizeReasoningEfforts values) =
     set (map effort_text (default_to values [])) \<inter> set REASONING_EFFORTS \<and>
   distinct (normalizeReasoningEfforts values)"
  using efforts_step [of "[]"] by (auto simp: normalizeReasoningEfforts_def split: option.split)

lemma normalizeDefault_supported:
  "supported \<noteq> [] \<Longrightarrow>
     \<exists>e \<in> set supported. normalizeDefaultReasoningEffort value supported = Some e"
  by (auto simp: normalizeDefaultReasoningEffort_def Let_def)

subsection \<open>The registry is its list of descriptors\<close>

text \<open>What the models of the credentialed providers say, in the order of the file.\<close>

definition listed_models :: "process_env \<Rightarrow> model_providers_file \<Rightarrow> model_descriptor list" where
  "listed_models env f =
     concat (map (\<lambda>p. map (\<lambda>m. describe p (entry_of m)) (pc_models p))
       (filter (credentialed env) (pf_providers f)))"

definition last_named :: "model_descriptor list \<Rightarrow> string \<Rightarrow> model_descriptor option" where
  "last_named ds q = find (\<lambda>d. md_qualifiedName d = q) (rev ds)"

definition first_bare :: "model_descriptor list \<Rightarrow> string \<Rightarrow> model_descriptor option" where
  "first_bare ds n = find (\<lambda>d. md_modelName d = n) ds"

definition model_named :: "model_descriptor list \<Rightarrow> string option \<Rightarrow> string option \<Rightarrow> string option" where
  "model_named ds dflt ref =
     (if \<not> truthy ref then dflt
      else if \<exists>d \<in> set ds. md_qualifiedName d = or_str ref [] then ref
      else map_option md_qualifiedName (first_bare ds (or_str ref [])))"

definition registry_ok :: "process_env \<Rightarrow> registry \<Rightarrow> bool" where
  "registry_ok env g \<longleftrightarrow>
     rg_descriptors g = last_named (rg_allDescriptors g) \<and>
     rg_bareToQualified g = (\<lambda>n. map_option md_qualifiedName (first_bare (rg_allDescriptors g) n)) \<and>
     (\<forall>q d. rg_descriptors g q = Some d \<longrightarrow> md_qualifiedName d = q \<and>
        (\<exists>p e. rg_qualifiedToProvider g q = Some p \<and> credentialed env p \<and> d = describe p e))"

lemma describe_simps [simp]:
  "md_qualifiedName (describe p e) = pc_id p @ '':'' @ me_name e"
  "md_modelName (describe p e) = me_name e" "md_providerId (describe p e) = pc_id p"
  "md_providerType (describe p e) = pc_type p"
  by (simp_all add: describe_def Let_def)

lemma last_named_snoc:
  "last_named (ds @ [d]) = (last_named ds)(md_qualifiedName d \<mapsto> d)"
  by (simp add: last_named_def fun_eq_iff)

lemma first_bare_snoc:
  "first_bare (ds @ [d]) n =
     (case first_bare ds n of None \<Rightarrow> if md_modelName d = n then Some d else None | Some x \<Rightarrow> Some x)"
  by (simp add: first_bare_def find_append split: option.split)

lemma register_simps:
  "rg_descriptors (register p m g) =
     (rg_descriptors g)(pc_id p @ '':'' @ me_name (entry_of m) \<mapsto> describe p (entry_of m))"
  "rg_qualifiedToProvider (register p m g) =
     (rg_qualifiedToProvider g)(pc_id p @ '':'' @ me_name (entry_of m) \<mapsto> p)"
  "rg_allDescriptors (register p m g) = rg_allDescriptors g @ [describe p (entry_of m)]"
  "rg_bareToQualified (register p m g) =
     (if rg_bareToQualified g (me_name (entry_of m)) = None
      then (rg_bareToQualified g)(me_name (entry_of m) \<mapsto> pc_id p @ '':'' @ me_name (entry_of m))
      else rg_bareToQualified g)"
  "rg_defaultModel (register p m g) = rg_defaultModel g"
  by (simp_all add: register_def Let_def)

lemma register_bare:
  assumes "rg_bareToQualified g = (\<lambda>n. map_option md_qualifiedName (first_bare (rg_allDescriptors g) n))"
  shows "rg_bareToQualified (register p m g) n =
    map_option md_qualifiedName (first_bare (rg_allDescriptors (register p m g)) n)"
  unfolding register_simps first_bare_snoc assms by (simp split: option.split)

lemma register_ok:
  assumes "registry_ok env g" "credentialed env p"
  shows "registry_ok env (register p m g)"
proof -
  have "rg_descriptors (register p m g) = last_named (rg_allDescriptors (register p m g))"
    using assms(1) unfolding registry_ok_def register_simps last_named_snoc by simp
  moreover have "rg_bareToQualified (register p m g) =
      (\<lambda>n. map_option md_qualifiedName (first_bare (rg_allDescriptors (register p m g)) n))"
    using assms(1) register_bare unfolding registry_ok_def by blast
  moreover have "\<forall>q d. rg_descriptors (register p m g) q = Some d \<longrightarrow> md_qualifiedName d = q \<and>
      (\<exists>p' e. rg_qualifiedToProvider (register p m g) q = Some p' \<and> credentialed env p' \<and> d = describe p' e)"
    using assms unfolding registry_ok_def register_simps by auto
  ultimately show ?thesis unfolding registry_ok_def by blast
qed

lemma register_all:
  "rg_allDescriptors (fold (register p) ms g) =
     rg_allDescriptors g @ map (\<lambda>m. describe p (entry_of m)) ms \<and>
   rg_defaultModel (fold (register p) ms g) = rg_defaultModel g"
  by (induction ms arbitrary: g) (simp_all add: register_def Let_def)

lemma registers_ok:
  "registry_ok env g \<Longrightarrow> credentialed env p \<Longrightarrow> registry_ok env (fold (register p) ms g)"
  by (induction ms arbitrary: g) (simp_all add: register_ok)

lemma providers_registered:
  assumes "registry_ok env g" "list_all (credentialed env) ps"
  shows "registry_ok env (fold (\<lambda>p. fold (register p) (pc_models p)) ps g) \<and>
    rg_allDescriptors (fold (\<lambda>p. fold (register p) (pc_models p)) ps g) =
      rg_allDescriptors g @ concat (map (\<lambda>p. map (\<lambda>m. describe p (entry_of m)) (pc_models p)) ps) \<and>
    rg_defaultModel (fold (\<lambda>p. fold (register p) (pc_models p)) ps g) = rg_defaultModel g"
  using assms by (induction ps arbitrary: g) (simp_all add: registers_ok register_all)

lemma filled_registry_ok:
  "registry_ok env (filled_registry env f) \<and>
   rg_allDescriptors (filled_registry env f) = listed_models env f \<and>
   rg_defaultModel (filled_registry env f) = pf_defaultModel f"
proof -
  have "registry_ok env (empty_registry env f)"
    by (simp add: registry_ok_def empty_registry_def last_named_def first_bare_def fun_eq_iff)
  moreover have "list_all (credentialed env) (rg_providers (empty_registry env f))"
    by (simp add: empty_registry_def list_all_iff)
  ultimately show ?thesis
    using providers_registered [of env "empty_registry env f" "rg_providers (empty_registry env f)"]
    by (simp add: filled_registry_def Let_def) (simp add: empty_registry_def listed_models_def)
qed

lemma last_named_iff:
  "(\<exists>d \<in> set ds. md_qualifiedName d = q) \<longleftrightarrow> last_named ds q \<noteq> None"
  by (auto simp: last_named_def find_None_iff)

lemma modelRegistry_ok:
  assumes "modelRegistry env f = Inr g"
  shows "registry_ok env g" "rg_allDescriptors g = listed_models env f"
    "rg_defaultModel g = pf_defaultModel f"
    "truthy (rg_defaultModel g) \<Longrightarrow> \<exists>d \<in> set (rg_allDescriptors g). md_qualifiedName d = or_str (rg_defaultModel g) []"
proof -
  have g: "g = filled_registry env f"
    and d: "truthy (pf_defaultModel f) \<Longrightarrow> rg_descriptors g (or_str (pf_defaultModel f) []) \<noteq> None"
    using assms by (auto simp: modelRegistry_def Let_def split: if_splits)
  show ok: "registry_ok env g" "rg_allDescriptors g = listed_models env f"
    and df: "rg_defaultModel g = pf_defaultModel f"
    using filled_registry_ok unfolding g by auto
  show "truthy (rg_defaultModel g) \<Longrightarrow> \<exists>d \<in> set (rg_allDescriptors g). md_qualifiedName d = or_str (rg_defaultModel g) []"
    using d df ok(1) unfolding registry_ok_def last_named_iff by auto
qed

subsection \<open>Properties\<close>

lemma described:
  assumes "registry_ok env g" "d \<in> set (rg_allDescriptors g)"
  shows "\<exists>d'. rg_descriptors g (md_qualifiedName d) = Some d' \<and> md_qualifiedName d' = md_qualifiedName d"
  using assms last_named_iff [of "rg_allDescriptors g" "md_qualifiedName d"]
  unfolding registry_ok_def by (metis (no_types, lifting) option.exhaust)

lemma qualified_colon:
  assumes "registry_ok env g" "rg_descriptors g q = Some d"
  shows "str_includes q '':'' \<and> q \<noteq> []"
proof -
  obtain p e where "d = describe p e" "md_qualifiedName d = q"
    using assms unfolding registry_ok_def by blast
  then have "q = pc_id p @ '':'' @ me_name e" by simp
  then show ?thesis by (simp add: str_includes_char)
qed

lemma first_bare_mem: "first_bare ds n = Some d \<Longrightarrow> d \<in> set ds \<and> md_modelName d = n"
  by (auto simp: first_bare_def find_Some_iff)

lemma normalize_model_eq:
  assumes "registry_ok env g"
  shows "normalize_model g ref = model_named (rg_allDescriptors g) (rg_defaultModel g) ref"
proof (cases "truthy ref")
  case True
  then obtain r where r: "ref = Some r" "r \<noteq> []" by (cases ref) auto
  have known: "(\<exists>d \<in> set (rg_allDescriptors g). md_qualifiedName d = r) \<longleftrightarrow>
      str_includes r '':'' \<and> rg_descriptors g r \<noteq> None"
    using assms qualified_colon [OF assms] last_named_iff [of "rg_allDescriptors g" r]
    unfolding registry_ok_def by auto
  have bare: "keep_truthy (rg_bareToQualified g r) =
      map_option md_qualifiedName (first_bare (rg_allDescriptors g) r)"
  proof (cases "first_bare (rg_allDescriptors g) r")
    case None
    then show ?thesis using assms unfolding registry_ok_def by simp
  next
    case (Some d)
    then obtain d' where "rg_descriptors g (md_qualifiedName d) = Some d'"
      using described [OF assms] first_bare_mem by blast
    then have "md_qualifiedName d \<noteq> []" using qualified_colon [OF assms] by blast
    then show ?thesis using Some assms unfolding registry_ok_def by simp
  qed
  show ?thesis
    using known bare r by (auto simp: normalize_model_def model_named_def Let_def)
qed (simp add: normalize_model_def model_named_def)

lemma normalized_is_listed:
  assumes "registry_ok env g" "normalize_model g ref = Some q" "truthy ref"
  shows "\<exists>d \<in> set (rg_allDescriptors g). md_qualifiedName d = q"
  using assms(2,3) unfolding normalize_model_eq [OF assms(1)] model_named_def
  by (cases ref) (auto dest: first_bare_mem split: if_splits)

text \<open>
  A model reference is looked up as the configuration file lists the models: no reference means
  the default model, a qualified name of a credentialed provider's model means itself, and a bare
  name the first listed model of that name; nothing else is known. Looking up a name that came out
  of a lookup changes nothing.
\<close>

theorem model_lookup_follows_the_list:
  assumes "modelRegistry env f = Inr g"
  shows "normalize_model g ref = model_named (listed_models env f) (pf_defaultModel f) ref \<and>
    (\<forall>q. normalize_model g ref = Some q \<longrightarrow> normalize_model g (Some q) = Some q)"
proof -
  note ok = modelRegistry_ok [OF assms]
  have "normalize_model g (Some q) = Some q" if q: "normalize_model g ref = Some q" for q
  proof (cases "q = []")
    case True
    then have "rg_defaultModel g = Some q"
      using q normalized_is_listed [OF ok(1) q] described [OF ok(1)] qualified_colon [OF ok(1)]
      by (cases "truthy ref") (auto simp: normalize_model_def)
    then show ?thesis using True by (simp add: normalize_model_def)
  next
    case False
    have "\<exists>d \<in> set (rg_allDescriptors g). md_qualifiedName d = q"
    proof (cases "truthy ref")
      case True
      then show ?thesis using normalized_is_listed [OF ok(1) q] by blast
    next
      case False
      then have "rg_defaultModel g = Some q" using q by (simp add: normalize_model_def)
      then show ?thesis using ok(4) \<open>q \<noteq> []\<close> by simp
    qed
    then show ?thesis
      using False unfolding normalize_model_eq [OF ok(1)] model_named_def by simp
  qed
  then show ?thesis using normalize_model_eq [OF ok(1)] unfolding ok(2,3) by simp
qed

text \<open>
  A resolved model belongs to its descriptor and has its credentials: the provider that
  \<open>resolve\<close> returns has the id, the type and the model name of the descriptor the same reference
  looks up, and where the provider needs an API key the key is present and not empty.
\<close>

theorem resolved_model_has_credentials:
  assumes "modelRegistry env f = Inr g" "resolve_model env g ref = Some r"
  shows "(\<exists>d. getDescriptor g ref = Some d \<and> rp_providerId r = md_providerId d \<and>
      rp_type r = md_providerType d \<and> rp_modelName r = md_modelName d) \<and>
    (rp_type r = Github \<or> rp_type r = Codex \<or>
     (\<exists>s. rp_sdkProvider r = Some s \<and> truthy (sd_apiKey s)))"
proof -
  note ok = modelRegistry_ok(1) [OF assms(1)]
  obtain q where q: "normalize_model g ref = Some q" "q \<noteq> []"
    using assms(2) by (cases "normalize_model g ref") (auto simp: resolve_model_def Let_def split: if_splits)
  then obtain p d where pd: "rg_qualifiedToProvider g q = Some p" "rg_descriptors g q = Some d"
      "resolve_provider env p d = Some r"
    using assms(2) by (auto simp: resolve_model_def Let_def split: option.splits)
  then obtain e where "credentialed env p" "d = describe p e"
    using ok unfolding registry_ok_def by force
  then show ?thesis using q pd
    by (auto simp: getDescriptor_def Let_def resolve_provider_def credentialed_def split: if_splits)
qed

lemma described_efforts:
  assumes "registry_ok env g" "getDescriptor g ref = Some d"
  shows "case md_supportedReasoningEfforts d of
     None \<Rightarrow> True
   | Some efforts \<Rightarrow> efforts \<noteq> [] \<and> set efforts \<subseteq> set REASONING_EFFORTS \<and>
       (\<exists>e \<in> set efforts. md_defaultReasoningEffort d = Some e)"
proof -
  obtain p e where d: "d = describe p e"
    using assms unfolding registry_ok_def getDescriptor_def Let_def by (metis option.simps(3))
  let ?s = "normalizeReasoningEfforts (me_supportedReasoningEfforts e)"
  show ?thesis
  proof (cases "?s = []")
    case True
    then show ?thesis unfolding d describe_def by (simp add: Let_def)
  next
    case False
    then obtain x where x: "x \<in> set ?s"
        "normalizeDefaultReasoningEffort (me_defaultReasoningEffort e) ?s = Some x"
      using normalizeDefault_supported by blast
    then have "x \<noteq> []"
      using normalizeReasoningEfforts_set effort_text_idem by blast
    then show ?thesis
      using False x normalizeReasoningEfforts_set unfolding d describe_def by (auto simp: Let_def)
  qed
qed

text \<open>
  The effort a session runs with suits its model: it is always one of the six efforts there are,
  and for a model that declares efforts one of those - the configured one when the model supports
  it. The default of such a model is one of its efforts too: a configured default outside the list
  is not ignored, as its documentation says, but replaced.
\<close>

theorem effort_suits_the_model:
  assumes "modelRegistry env f = Inr g" "resolveEffectiveReasoningEffort (Some g) model configured = Some e"
  shows "e \<in> set REASONING_EFFORTS \<and>
    (\<forall>d efforts. getDescriptor g (Some model) = Some d \<longrightarrow> model \<noteq> [] \<longrightarrow>
       md_supportedReasoningEfforts d = Some efforts \<longrightarrow>
         e \<in> set efforts \<and> md_defaultReasoningEffort d \<in> Some ` set efforts \<and>
         (effort_text (default_to configured []) \<in> set efforts \<longrightarrow>
            e = effort_text (default_to configured [])))"
proof -
  note ok = described_efforts [OF modelRegistry_ok(1) [OF assms(1)], of "Some model"]
  let ?n = "effort_text (default_to configured [])"
  show ?thesis
  proof (cases "model \<noteq> [] \<and> (\<exists>d efforts. getDescriptor g (Some model) = Some d \<and>
      md_supportedReasoningEfforts d = Some efforts)")
    case True
    then obtain d efforts where d: "model \<noteq> []" "getDescriptor g (Some model) = Some d"
        "md_supportedReasoningEfforts d = Some efforts" by blast
    with ok obtain x where x: "efforts \<noteq> []" "set efforts \<subseteq> set REASONING_EFFORTS" "x \<in> set efforts"
        "md_defaultReasoningEffort d = Some x" by auto
    then have "x \<noteq> []" and "[] \<notin> set efforts" using effort_text_idem by blast+
    then have "e \<in> set efforts \<and> (?n \<in> set efforts \<longrightarrow> e = ?n)"
      using assms(2) d x
      by (auto simp: resolveEffectiveReasoningEffort_def normalizeReasoningEffortValue_def Let_def
          split: if_splits)
    then show ?thesis using d x by auto
  next
    case False
    then have "normalizeReasoningEffortValue configured = Some e \<and> e \<in> set REASONING_EFFORTS"
      using assms(2) ok
      by (auto simp: resolveEffectiveReasoningEffort_def normalizeReasoningEffortValue_def Let_def
          split: if_splits option.splits)
    then show ?thesis using False by blast
  qed
qed

definition sample_file :: model_providers_file where
  "sample_file =
     \<lparr> pf_providers =
         [\<lparr> pc_id = ''a'', pc_type = OpenAI, pc_githubToken = None, pc_baseUrl = Some ''u'',
            pc_apiKey = Some ''env:K'', pc_apiVersion = None, pc_codexHome = None,
            pc_codexBinaryPath = None,
            pc_models = [BareName ''m'', Entry \<lparr> me_name = ''n'', me_description = None, me_cost = None,
              me_supportedReasoningEfforts = Some [''High'', ''low''], me_defaultReasoningEffort = Some ''max'' \<rparr>] \<rparr>],
       pf_defaultModel = Some ''a:m'' \<rparr>"

definition sample_process_env :: process_env where
  "sample_process_env = [''K'' \<mapsto> ''secret'']"

lemma sample_known:
  "rg_descriptors (filled_registry sample_process_env sample_file) ''a:m'' \<noteq> None"
  by code_simp

lemma sample_registry:
  "modelRegistry sample_process_env sample_file = Inr (filled_registry sample_process_env sample_file)"
  using sample_known by (auto simp: modelRegistry_def Let_def sample_file_def)

theorem model_lookup_follows_the_list_witness:
  "normalize_model (filled_registry sample_process_env sample_file) (Some ''n'') = Some ''a:n'' \<and>
   normalize_model (filled_registry sample_process_env sample_file) (Some ''a:n'') = Some ''a:n''"
  using model_lookup_follows_the_list [OF sample_registry, of "Some ''n''"]
  by (auto simp: model_named_def first_bare_def listed_models_def sample_file_def entry_of_def
      credentialed_def resolveEnvValue_def sample_process_env_def starts_with_def)

theorem resolved_model_has_credentials_witness:
  "\<exists>r s. resolve_model sample_process_env (filled_registry sample_process_env sample_file) None = Some r \<and>
     rp_providerId r = ''a'' \<and> rp_sdkProvider r = Some s \<and> truthy (sd_apiKey s)"
proof -
  let ?g = "filled_registry sample_process_env sample_file"
  have "(case resolve_model sample_process_env ?g None of
      None \<Rightarrow> False | Some r \<Rightarrow> rp_providerId r = ''a'' \<and> rp_type r = OpenAI)" by code_simp
  then obtain r where "resolve_model sample_process_env ?g None = Some r"
      "rp_providerId r = ''a''" "rp_type r = OpenAI"
    by (auto split: option.splits)
  then show ?thesis using resolved_model_has_credentials [OF sample_registry] by fastforce
qed

theorem effort_suits_the_model_witness:
  "\<exists>d. getDescriptor (filled_registry sample_process_env sample_file) (Some ''n'') = Some d \<and>
     md_supportedReasoningEfforts d = Some [''high'', ''low''] \<and>
     md_defaultReasoningEffort d \<in> {Some ''high'', Some ''low''}"
proof -
  let ?g = "filled_registry sample_process_env sample_file"
  have "(case getDescriptor ?g (Some ''n'') of None \<Rightarrow> False
      | Some d \<Rightarrow> md_supportedReasoningEfforts d = Some [''high'', ''low''])" by code_simp
  then obtain d where d: "getDescriptor ?g (Some ''n'') = Some d"
      "md_supportedReasoningEfforts d = Some [''high'', ''low'']" by (auto split: option.splits)
  have "resolveEffectiveReasoningEffort (Some ?g) ''n'' (Some ''LOW'') = Some ''low''" by code_simp
  from effort_suits_the_model [OF sample_registry this] d show ?thesis by auto
qed

end
