(* ===== verification/ControlBridge.thy ===== *)
theory ControlBridge
  imports SdkClient AgentLookup ModelRegistry
begin

text \<open>
  Model of the control bridge of the \<open>runTurn\<close> activity (\<open>packages/sdk/src/session-proxy.ts\<close>): the
  operations on sub-agents that a turn carries out at once, through a client of its own, instead of
  handing them to the orchestration. The code that binds an agent definition and computes the child's
  configuration is word for word that of the orchestration, so its model is used; the preamble and the
  notes to the model are the bridge's. Tool calls are taken one at a time; the requests of a
  \<open>Promise.all\<close> are made in order.
\<close>

record bridge_env =
  be_sessionId :: string
  be_nestingLevel :: nat
  be_config :: session_config
  be_storeUrl :: bool
  be_catalog :: bool
  be_userAgents :: "agent_definition list"
  be_systemAgents :: "agent_definition list"
  be_registry :: "registry option"
  be_opts :: client_options

record managed_child = child_session +
  mc_iterations :: nat
  mc_parentSessionId :: "string option"
  mc_error :: "string option"

definition getInlineClient :: "bridge_env \<Rightarrow> unit fleetp" where
  "getInlineClient env =
     inspect (\<lambda>w. if fl_started w then ret ()
       else if \<not> be_storeUrl env then throw ''No storeUrl - cannot create PilotSwarmClient''
       else start)"

definition managed_child_of :: "session_row \<Rightarrow> session_detail \<Rightarrow> managed_child" where
  "managed_child_of r i =
     \<lparr> ch_orchId = orch_id (rw_sessionId r), ch_sessionId = rw_sessionId r,
       ch_title = or_else (dt_title i) (rw_title r), ch_status = Some (dt_status i),
       ch_isSystem = rw_isSystem r \<or> dt_isSystem i,
       ch_agentId = or_else (rw_agentId r) (dt_agentId i), ch_result = dt_result i,
       mc_iterations = dt_iterations i, mc_parentSessionId = rw_parentSessionId r,
       mc_error = dt_error i \<rparr>"

definition loadDirectChildSessions :: "bridge_env \<Rightarrow> managed_child list fleetp" where
  "loadDirectChildSessions env =
     andThen (getInlineClient env) (bind listRows (\<lambda>rows.
       collect (filter (\<lambda>r. rw_parentSessionId r = Some (be_sessionId env)) rows)
         (\<lambda>r. bind (getSessionInfo (rw_sessionId r)) (\<lambda>i. ret (managed_child_of r i)))))"

definition resolveManagedChild :: "bridge_env \<Rightarrow> string \<Rightarrow> managed_child fleetp" where
  "resolveManagedChild env agentId =
     (let target = (if starts_with agentId ''session-'' then agentId else orch_id agentId) in
      bind (loadDirectChildSessions env) (\<lambda>children.
        (case find (\<lambda>c. ch_orchId c = target) children of
           None \<Rightarrow> throw (''agent '' @ dq @ target @ dq @ '' not found. Known agents: '' @
             or_str (Some (join '', '' (map ch_orchId (filter (\<lambda>c. \<not> ch_isSystem c) children)))) ''none'')
         | Some c \<Rightarrow>
             if ch_isSystem c
             then throw (''agent '' @ dq @ target @ dq @
               '' is a worker-managed system agent and is not a controllable spawned sub-agent'')
             else ret c)))"

subsection \<open>Spawning\<close>

definition inline_timing :: string where
  "inline_timing =
     ''- For ANY waiting, sleeping, delaying, or scheduling, you MUST use the `wait`, `wait_on_worker`, or `cron` tools. '' @
     ''Use `wait` or `wait_on_worker` for one-shot delays. Use `cron` for recurring or periodic monitoring. '' @
     ''Do NOT burn tokens polling inside one LLM turn; after a brief immediate re-check at most, yield with a durable timer. '' @
     ''NEVER use setTimeout, sleep, setInterval, or any other timing mechanism.'' @ [nl]"

definition inlinePreamble :: "bridge_env \<Rightarrow> nat \<Rightarrow> spawn_binding \<Rightarrow> string" where
  "inlinePreamble env childLevel b =
     ''[SUB-AGENT CONTEXT]'' @ [nl] @
     ''You are a sub-agent spawned by a parent session (ID: session-'' @ be_sessionId env @ '').'' @ [nl] @
     ''Your nesting level: '' @ show_nat childLevel @ '' (max: '' @ show_nat MAX_NESTING_LEVEL @ '').'' @ [nl] @
     ''Your task: '' @ dq @ take 500 (sb_task b) @ dq @ [nl, nl] @
     preamble_rules @ inline_timing @ fanout_text childLevel"

definition inlineChildConfig :: "bridge_env \<Rightarrow> spawn_args \<Rightarrow> spawn_binding \<Rightarrow> nat \<Rightarrow> session_config" where
  "inlineChildConfig env r b childLevel =
     (let cfg = childConfig (be_config env) r b;
          parentSystemMsg = system_text (c_systemMessage cfg)
      in cfg\<lparr>c_systemMessage := Some (SysText (inlinePreamble env childLevel b @
           (if parentSystemMsg = [] then [] else [nl, nl] @ parentSystemMsg)))\<rparr>)"

definition child_request :: "bridge_env \<Rightarrow> spawn_binding \<Rightarrow> nat \<Rightarrow> session_config \<Rightarrow> create_request" where
  "child_request env b childLevel cfg =
     \<lparr> rq_sessionId = None, rq_parentSessionId = Some (be_sessionId env),
       rq_nestingLevel = Some childLevel, rq_agentId = sb_agentId b,
       rq_config = blank_config\<lparr>c_model := c_model cfg, c_reasoningEffort := c_reasoningEffort cfg,
         c_systemMessage := c_systemMessage cfg, c_boundAgentName := c_boundAgentName cfg,
         c_promptLayering := c_promptLayering cfg, c_toolNames := c_toolNames cfg,
         c_waitThreshold := c_waitThreshold cfg\<rparr> \<rparr>"

definition child_meta :: "spawn_binding \<Rightarrow> bool \<Rightarrow> string \<Rightarrow> row_update option" where
  "child_meta b explicit sid =
     (let u = no_update
        \<lparr>ru_title := (if truthy (sb_title b)
           then Some (if explicit \<or> sb_isSystem b then or_str (sb_title b) []
                      else or_str (sb_title b) [] @ '': '' @ take 8 sid) else None),
         ru_agentId := keep_truthy (sb_agentId b), ru_splash := keep_truthy (sb_splash b)\<rparr>
      in if u = no_update then None else Some u)"

definition inlineSpawned :: "string \<Rightarrow> spawn_args \<Rightarrow> spawn_binding \<Rightarrow> string" where
  "inlineSpawned childOrchId r b =
     ''[SYSTEM: Sub-agent spawned successfully.'' @ [nl] @
     ''  Agent ID: '' @ childOrchId @ [nl] @ ''  '' @
     (if truthy (sp_agentName r) then ''Agent: '' @ or_str (sp_agentName r) [] @ [nl] @ ''  '' else []) @
     ''Task: '' @ dq @ take 200 (sb_task b) @ dq @ [nl] @
     ''  The agent is now running autonomously. Continue your work in this SAME turn and keep following the user's remaining steps. '' @
     ''Do NOT stop just because the child started. If your plan says to pause, call wait or wait_for_agents explicitly. '' @
     ''You can also use check_agents to poll status, or message_agent to send instructions.]''"

definition bufferEvent :: "bridge_env \<Rightarrow> string \<Rightarrow> json \<Rightarrow> unit fleetp" where
  "bufferEvent env t d =
     cond (be_catalog env) (modify (\<lambda>w. w\<lparr>fl_events := fl_events w @ [\<lparr> ev_type = t, ev_data = d \<rparr>]\<rparr>))"

definition inlineLaunch :: "bridge_env \<Rightarrow> spawn_args \<Rightarrow> spawn_binding \<Rightarrow> string fleetp" where
  "inlineLaunch env r b =
     (let childLevel = be_nestingLevel env + 1; cfg = inlineChildConfig env r b childLevel in
      andThen (getInlineClient env)
        (case normalizeModelRef (be_registry env) (c_model cfg) False of
           Inl e \<Rightarrow> throw e
         | Inr normalizedModel \<Rightarrow>
             (let cfg' = (if truthy normalizedModel then cfg\<lparr>c_model := normalizedModel\<rparr> else cfg) in
              bind (createSession (be_opts env) (child_request env b childLevel cfg')) (\<lambda>sid.
              andThen (doing [
                cond (be_catalog env) (case child_meta b (explicit_title r \<noteq> None) sid of
                  None \<Rightarrow> ret () | Some u \<Rightarrow> ask_unit (CatalogUpdate sid u)),
                send (be_opts env) sid (sb_task b) True,
                bufferEvent env ''session.agent_spawned'' (JObj ([(''childSessionId'', JStr sid)] @
                  opt_field ''agentId'' JStr (keep_truthy (sb_agentId b)) @
                  [(''task'', JStr (take 500 (sb_task b)))]))])
              (ret (inlineSpawned (orch_id sid) r b))))))"

definition is_running :: "managed_child \<Rightarrow> bool" where
  "is_running c \<longleftrightarrow> ch_status c = Some ''running''"

definition inlineGuard ::
  "bridge_env \<Rightarrow> spawn_args \<Rightarrow> managed_child list \<Rightarrow> spawn_binding \<Rightarrow> string fleetp" where
  "inlineGuard env r existing b =
     (if truthy (sp_model r) \<and> \<not> str_includes (or_str (sp_model r) []) '':''
      then ret
        (''[SYSTEM: spawn_agent failed - model '' @ dq @ or_str (sp_model r) [] @ dq @ '' is not allowed. '' @
         ''When overriding a sub-agent model, first call list_available_models and then use the exact provider:model value from that list. '' @
         ''If you are unsure, omit model so the sub-agent inherits your current model.]'')
      else
        (case (if truthy (sb_agentId b)
               then find (\<lambda>c. ch_agentId c = sb_agentId b \<and> is_running c) existing else None) of
           Some child \<Rightarrow> ret
             (''[SYSTEM: Agent '' @ dq @ or_str (sp_agentName r) (or_str (sb_agentId b) []) @ dq @
              '' is already running as sub-agent '' @ take 16 (ch_orchId child) @ ''. '' @
              ''Use check_agents to see its status, or message_agent to communicate with it.]'')
         | None \<Rightarrow> inlineLaunch env r b))"

definition inlineSpawn :: "bridge_env \<Rightarrow> spawn_args \<Rightarrow> string fleetp" where
  "inlineSpawn env r =
     try_catch
       (let level = be_nestingLevel env in
        if MAX_NESTING_LEVEL < level + 1
        then ret
          (''[SYSTEM: spawn_agent failed - you are already at nesting level '' @ show_nat level @
           '' (max '' @ show_nat MAX_NESTING_LEVEL @ ''). '' @
           ''Sub-agents at this depth cannot spawn further sub-agents. Handle the task directly instead.]'')
        else
          bind (loadDirectChildSessions env) (\<lambda>children.
            let existing = filter (\<lambda>c. \<not> ch_isSystem c) children;
                activeCount = length (filter is_running existing) in
            if MAX_SUB_AGENTS \<le> activeCount
            then ret
              (''[SYSTEM: spawn_agent failed - you already have '' @ show_nat activeCount @
               '' running sub-agents (max '' @ show_nat MAX_SUB_AGENTS @ ''). '' @
               ''Wait for some to complete before spawning more.]'')
            else if truthy (sp_agentName r)
            then (let name = or_str (sp_agentName r) [] in
              (case resolveAgentConfigInline (be_userAgents env) (be_systemAgents env) name of
                 None \<Rightarrow> ret
                   (''[SYSTEM: spawn_agent failed - agent '' @ dq @ name @ dq @
                    '' not found. Use list_agents to see available agents.]'')
               | Some def \<Rightarrow>
                   if worker_managed def
                   then ret
                     (''[SYSTEM: spawn_agent failed - agent '' @ dq @ name @ dq @
                      '' is a worker-managed system agent and cannot be spawned from a session. '' @
                      ''If it is missing, the workers likely need to be restarted.]'')
                   else inlineGuard env r existing (applyAgentDef r def False (unbound r))))
            else inlineGuard env r existing (unbound r)))
       (\<lambda>e. ret (''[SYSTEM: spawn_agent failed: '' @ e @ '']''))"

subsection \<open>The other operations\<close>

definition failing :: "string \<Rightarrow> string fleetp \<Rightarrow> string fleetp" where
  "failing tool m = try_catch m (\<lambda>e. ret (''[SYSTEM: '' @ tool @ '' failed: '' @ e @ '']''))"

definition inlineMessage :: "bridge_env \<Rightarrow> string \<Rightarrow> string \<Rightarrow> string fleetp" where
  "inlineMessage env agentId text =
     failing ''message_agent''
       (bind (resolveManagedChild env agentId) (\<lambda>c.
        andThen (doing [
          getInlineClient env,
          ask_unit (EnqueueEvent (ch_orchId c) ''messages'' (prompt_message text False None))])
        (ret (''[SYSTEM: Message sent to sub-agent '' @ ch_orchId c @ '': '' @ dq @ take 200 text @ dq @
           ''. Continue your work in this SAME turn. If you are waiting on the child, call wait_for_agents explicitly rather than stopping here.]''))))"

definition child_line :: "managed_child \<Rightarrow> string" where
  "child_line c =
     ''  - Agent '' @ ch_orchId c @ [nl] @
     ''    Title: '' @ default_to (ch_title c) ''(untitled)'' @ [nl] @
     ''    Status: '' @ default_to (ch_status c) ''undefined'' @ [nl] @
     ''    Iterations: '' @ show_nat (mc_iterations c) @ [nl] @
     ''    Output: '' @ default_to (or_else (ch_result c) (mc_error c)) ''(no output yet)''"

definition inlineCheck :: "bridge_env \<Rightarrow> string fleetp" where
  "inlineCheck env =
     failing ''check_agents''
       (bind (loadDirectChildSessions env) (\<lambda>all_children.
        let children = filter (\<lambda>c. \<not> ch_isSystem c) all_children in
        if children = [] then ret ''[SYSTEM: No sub-agents have been spawned yet.]''
        else ret (''[SYSTEM: Sub-agent status report ('' @ show_nat (length children) @ '' agents):'' @ [nl] @
               join [nl] (map child_line children) @ '']'')))"

definition resolveWaitForAgents :: "bridge_env \<Rightarrow> string list option \<Rightarrow> string list fleetp" where
  "resolveWaitForAgents env agentIds =
     bind (loadDirectChildSessions env) (\<lambda>all_children.
       let children = filter (\<lambda>c. \<not> ch_isSystem c) all_children in
       if default_to agentIds [] \<noteq> []
       then collect (default_to agentIds []) (\<lambda>i. bind (resolveManagedChild env i) (\<lambda>c. ret (ch_orchId c)))
       else (let running = map ch_orchId (filter is_running children) in
             ret (if running \<noteq> [] then running else map ch_orchId children)))"

definition fleet_line :: "bridge_env \<Rightarrow> session_row \<Rightarrow> string" where
  "fleet_line env r =
     ''  - '' @ rw_sessionId r @ (if rw_sessionId r = be_sessionId env then '' (this session)'' else []) @ [nl] @
     ''    Title: '' @ default_to (rw_title r) ''(untitled)'' @ [nl] @
     ''    Status: '' @ rw_state r @ '', Iterations: '' @ show_nat (rw_iteration r) @ [nl] @
     ''    Parent: '' @ default_to (rw_parentSessionId r) ''none''"

definition inlineListSessions :: "bridge_env \<Rightarrow> string fleetp" where
  "inlineListSessions env =
     failing ''list_sessions''
       (andThen (getInlineClient env) (bind listRows (\<lambda>rows.
          ret (''[SYSTEM: Active sessions ('' @ show_nat (length rows) @ ''):'' @ [nl] @
               join [nl] (map (fleet_line env) rows) @ '']''))))"

definition inlineCommand :: "bridge_env \<Rightarrow> nat \<Rightarrow> string \<Rightarrow> string \<Rightarrow> managed_child \<Rightarrow> unit fleetp" where
  "inlineCommand env now cmd reason c =
     ask_unit (EnqueueEvent (ch_orchId c) ''messages''
       (command_to cmd (cmd @ ''-inline-'' @ show_nat now) [(''reason'', JStr reason)]))"

definition reason_note :: "string option \<Rightarrow> string" where
  "reason_note reason = (if truthy reason then '' Reason: '' @ or_str reason [] else [])"

definition inlineComplete :: "bridge_env \<Rightarrow> nat \<Rightarrow> string \<Rightarrow> string fleetp" where
  "inlineComplete env now agentId =
     failing ''complete_agent''
       (bind (resolveManagedChild env agentId) (\<lambda>c.
        andThen (doing [getInlineClient env, inlineCommand env now ''done'' ''Completed by parent'' c])
        (ret (''[SYSTEM: Graceful completion requested for sub-agent '' @ ch_orchId c @
           ''. Use check_agents or wait_for_agents to observe final completion.]''))))"

definition inlineCancel :: "bridge_env \<Rightarrow> nat \<Rightarrow> string \<Rightarrow> string option \<Rightarrow> string fleetp" where
  "inlineCancel env now agentId reason =
     failing ''cancel_agent''
       (bind (resolveManagedChild env agentId) (\<lambda>c.
        andThen (doing [getInlineClient env,
          inlineCommand env now ''cancel'' (default_to reason ''Cancelled by parent'') c])
        (ret (''[SYSTEM: Graceful cancellation requested for sub-agent '' @ ch_orchId c @
           ''. Use check_agents or wait_for_agents to observe final termination.'' @ reason_note reason @ '']''))))"

definition inlineDelete :: "bridge_env \<Rightarrow> nat \<Rightarrow> string \<Rightarrow> string option \<Rightarrow> string fleetp" where
  "inlineDelete env now agentId reason =
     failing ''delete_agent''
       (bind (resolveManagedChild env agentId) (\<lambda>c.
        andThen (getInlineClient env)
        (if ch_status c \<in> {Some ''completed'', Some ''failed'', Some ''cancelled''}
         then andThen (deleteSession (ch_sessionId c))
           (ret (''[SYSTEM: Sub-agent '' @ ch_orchId c @ '' has been deleted.'' @ reason_note reason @ '']''))
         else andThen (inlineCommand env now ''delete'' (default_to reason ''Deleted by parent'') c)
           (ret (''[SYSTEM: Graceful deletion requested for sub-agent '' @ ch_orchId c @
              ''. It will cancel its descendants first and then delete itself.'' @ reason_note reason @ '']'')))))"

end
