(* ===== verification/SessionActivities.thy ===== *)
theory SessionActivities
  imports ControlBridge
begin

text \<open>
  Model of the activities that the session proxy registers beside \<open>runTurn\<close>
  (\<open>packages/sdk/src/session-proxy.ts\<close>): the orchestration's only way to the session manager, the
  catalog and other sessions. Activities that reach other sessions make a client of their own and stop
  it whatever happens. Tracing is left out; the hash behind the id of a system child, the session
  manager and the summary model are parameters or answer from the list of replies.
\<close>

record activity_env =
  ae_storeUrl :: bool
  ae_catalog :: bool
  ae_provider :: bool
  ae_summaryProvider :: bool
  ae_registry :: "registry option"
  ae_childUUID :: "string \<Rightarrow> string \<Rightarrow> string"
  ae_policy :: "creation_policy option"
  ae_allowedAgentNames :: "string list"

text \<open>\<open>{...base, ...upd}\<close>: a property of both keeps its place and takes the later value.\<close>

definition spread :: "(string \<times> json) list \<Rightarrow> (string \<times> json) list \<Rightarrow> (string \<times> json) list" where
  "spread base upd =
     map (\<lambda>(k, x). (k, default_to (map_of upd k) x)) base @
     filter (\<lambda>(k, x). k \<notin> set (map fst base)) upd"

definition recordEvents :: "string \<Rightarrow> string \<Rightarrow> (string \<times> json) list \<Rightarrow> unit fleetp" where
  "recordEvents sid t d = ask_unit (RecordEvents sid [\<lparr> ev_type = t, ev_data = JObj d \<rparr>])"

subsection \<open>Persistence of the live session\<close>

definition isMissingDehydrateSnapshotErrorMessage :: "string \<Rightarrow> bool" where
  "isMissingDehydrateSnapshotErrorMessage m =
     str_includes (map to_lower m) ''session state directory not ready during dehydrate''"

definition recordLossyHandoff :: "activity_env \<Rightarrow> string \<Rightarrow> (string \<times> json) list \<Rightarrow> unit fleetp" where
  "recordLossyHandoff env sid d = cond (ae_catalog env) (doing [
     attempt (recordEvents sid ''session.lossy_handoff'' d),
     attempt (ask_unit (UpsertMetrics sid [(''lossyHandoffCountIncrement'', JNum 1)]))])"

text \<open>A failing size probe counts as no size.\<close>

definition tryReadSnapshotSizeBytes :: "string \<Rightarrow> (string \<times> json) list fleetp" where
  "tryReadSnapshotSizeBytes sid =
     try_catch (bind (ask (SnapshotSize sid)) (\<lambda>r. case r of
         FSize n \<Rightarrow> ret (opt_field ''snapshotSizeBytes'' (\<lambda>k. JNum (int k)) n) | _ \<Rightarrow> stop ()))
       (\<lambda>_. ret [])"

definition store_error_fields :: "nat option \<Rightarrow> string option \<Rightarrow> (string \<times> json) list" where
  "store_error_fields n e =
     opt_field ''sessionStoreAttemptCount'' (\<lambda>k. JNum (int k)) (if n = Some 0 then None else n) @
     opt_field ''sessionStoreError'' JStr e"

definition lossy_handoff_fields ::
  "string \<Rightarrow> string \<Rightarrow> (string \<times> json) list \<Rightarrow> string \<Rightarrow> nat option \<Rightarrow> string option \<Rightarrow> (string \<times> json) list" where
  "lossy_handoff_fields sid reason ed message n e = spread ed
     ([(''reason'', JStr reason), (''cause'', JStr ''missing_local_session_state_during_dehydrate''),
       (''message'', JStr (''Worker lost local Copilot session state before dehydrate completed for '' @ sid @
          ''. The next turn will recreate a fresh Copilot session and continue with possible data loss.'')),
       (''detail'', JStr (''Local session files were unavailable during dehydrate, so the latest live Copilot state '' @
          ''could not be durably archived.'')),
       (''error'', JStr message), (''recoveryMode'', JStr ''fresh_session_replay''),
       (''nextStep'', JStr ''recreate_copilot_session_on_next_turn'')] @ store_error_fields n e)"

text \<open>An error of the session manager with the two properties it may carry.\<close>

definition managerDehydrate :: "string \<Rightarrow> string \<Rightarrow> (string \<times> nat option \<times> string option) option fleetp" where
  "managerDehydrate sid reason =
     try_catch (bind (ask (ManagerDehydrate sid reason)) (\<lambda>r. case r of
         FOk \<Rightarrow> ret None
       | FStoreErr m n e \<Rightarrow> ret (Some (m, n, e))
       | _ \<Rightarrow> stop ()))
       (\<lambda>m. ret (Some (m, None, None)))"

text \<open>The value: the data of a lossy handoff, if there was one.\<close>

definition dehydrateSession ::
  "activity_env \<Rightarrow> string \<Rightarrow> string option \<Rightarrow> (string \<times> json) list option \<Rightarrow> (string \<times> json) list option fleetp" where
  "dehydrateSession env sid reason0 eventData =
     (let reason = default_to reason0 ''unknown''; ed = default_to eventData [] in
      bind (managerDehydrate sid reason) (\<lambda>failure. case failure of
        Some (message, n, e) \<Rightarrow>
          if isMissingDehydrateSnapshotErrorMessage message
          then (let lossy = lossy_handoff_fields sid reason ed message n e in
                andThen (recordLossyHandoff env sid lossy) (ret (Some lossy)))
          else andThen (cond (ae_catalog env) (doing [
                 attempt (recordEvents sid ''session.error'' (spread ed
                   ([(''reason'', JStr reason), (''message'', JStr message)] @ store_error_fields n e))),
                 attempt (ask_unit (CatalogUpdate sid (no_update\<lparr>ru_lastError := Some (Some message)\<rparr>)))]))
               (throw message)
      | None \<Rightarrow>
          andThen (cond (ae_catalog env) (bind (tryReadSnapshotSizeBytes sid) (\<lambda>size. doing [
            attempt (ask_unit (UpsertMetrics sid (size @ [(''dehydrationCountIncrement'', JNum 1),
              (''lastDehydratedAt'', JBool True)]))),
            attempt (recordEvents sid ''session.dehydrated'' (spread [(''reason'', JStr reason)] ed))])))
          (ret None)))"

definition needsHydrationSession :: "string \<Rightarrow> bool fleetp" where
  "needsHydrationSession sid = bind (ask (ManagerNeedsHydration sid)) (\<lambda>r. case r of
     FBool b \<Rightarrow> ret b | _ \<Rightarrow> stop ())"

definition hydrateSession :: "activity_env \<Rightarrow> string \<Rightarrow> unit fleetp" where
  "hydrateSession env sid = doing [
     ask_unit (ManagerHydrate sid),
     cond (ae_catalog env) (doing [
       attempt (ask_unit (UpsertMetrics sid [(''hydrationCountIncrement'', JNum 1), (''lastHydratedAt'', JBool True)])),
       attempt (recordEvents sid ''session.hydrated'' [])])]"

definition destroySessionActivity :: "string \<Rightarrow> unit fleetp" where
  "destroySessionActivity sid = ask_unit (ManagerDestroy sid)"

definition checkpointSession :: "activity_env \<Rightarrow> string \<Rightarrow> unit fleetp" where
  "checkpointSession env sid = doing [
     ask_unit (ManagerCheckpoint sid),
     cond (ae_catalog env) (bind (tryReadSnapshotSizeBytes sid) (\<lambda>size.
       attempt (ask_unit (UpsertMetrics sid (size @ [(''lastCheckpointAt'', JBool True)])))))]"

subsection \<open>Titles\<close>

text \<open>\<open>s.split(": ")[0]\<close>\<close>

fun before_colon :: "string \<Rightarrow> string" where
  "before_colon [] = []"
| "before_colon (c # s) = (if starts_with (c # s) '': '' then [] else c # before_colon s)"

definition agentTitlePrefix :: "session_row option \<Rightarrow> string option" where
  "agentTitlePrefix row = (case row of None \<Rightarrow> None
     | Some r \<Rightarrow> if truthy (rw_agentId r) \<and> str_includes (or_str (rw_title r) []) '': ''
                 then Some (before_colon (or_str (rw_title r) [])) else None)"

text \<open>The messages of a kind, trimmed, without the empty ones.\<close>

definition messages_of :: "string \<Rightarrow> (string \<times> string option) list \<Rightarrow> string list" where
  "messages_of t events =
     filter (\<lambda>s. s \<noteq> []) (map (\<lambda>(_, c). trim (or_str c [])) (filter (\<lambda>(e, _). e = t) events))"

definition transcript_lines :: "(string \<times> string option) list \<Rightarrow> string list" where
  "transcript_lines events = concat (map (\<lambda>(t, c).
     let s = trim (or_str c []) in
     if s = [] then []
     else if t = ''user.message'' then [''User: '' @ take 200 s]
     else if t = ''assistant.message'' then [''Assistant: '' @ take 200 s]
     else []) events)"

definition is_alnum :: "char \<Rightarrow> bool" where
  "is_alnum c = (let n = (of_char c :: nat) in
     (65 \<le> n \<and> n \<le> 90) \<or> (97 \<le> n \<and> n \<le> 122) \<or> (48 \<le> n \<and> n \<le> 57))"

definition clean_word :: "string \<Rightarrow> string" where
  "clean_word w = rev (dropWhile (\<lambda>c. \<not> is_alnum c) (rev (dropWhile (\<lambda>c. \<not> is_alnum c) w)))"

text \<open>Runs of white space become one blank.\<close>

fun squeeze :: "string \<Rightarrow> string" where
  "squeeze [] = []"
| "squeeze [c] = (if is_ws c then '' '' else [c])"
| "squeeze (c # d # s) =
     (if is_ws c then (if is_ws d then squeeze (d # s) else CHR '' '' # squeeze (d # s)) else c # squeeze (d # s))"

definition buildFallbackSummaryTitle :: "(string \<times> string option) list \<Rightarrow> string" where
  "buildFallbackSummaryTitle events =
     (let users = messages_of ''user.message'' events;
          assistants = messages_of ''assistant.message'' events;
          sourceText = (if users \<noteq> [] then hd users else if assistants \<noteq> [] then hd assistants
                        else join [nl] (transcript_lines events));
          cleanedWords = filter (\<lambda>w. w \<noteq> []) (map clean_word (split_on (CHR '' '') (trim (squeeze sourceText))));
          n = length cleanedWords;
          desired = min 5 (max 3 (if 3 \<le> n then 3 else n))
      in if n = 0 then ''Recent Conversation''
         else (let summary = join '' '' (take desired cleanedWords)
               in if summary = [] then ''Recent Conversation'' else summary))"

text \<open>The empty string says that nothing was written.\<close>

definition persistSummaryTitle :: "string \<Rightarrow> session_row option \<Rightarrow> string \<Rightarrow> string fleetp" where
  "persistSummaryTitle sid row rawTitle =
     (let title = trim (take 60 rawTitle) in
      if title = [] then ret []
      else (let finalTitle = (case keep_truthy (agentTitlePrefix row) of
                  Some p \<Rightarrow> p @ '': '' @ title | None \<Rightarrow> title) in
            if Some finalTitle = (case row of None \<Rightarrow> None | Some r \<Rightarrow> rw_title r) then ret []
            else andThen (ask_unit (CatalogUpdate sid (no_update\<lparr>ru_title := Some finalTitle\<rparr>))) (ret title)))"

definition summaryPrompt :: "(string \<times> string option) list \<Rightarrow> string" where
  "summaryPrompt events =
     ''Summarize the following conversation in exactly 3-5 words. '' @
     ''Return ONLY the summary, nothing else. No quotes, no punctuation at the end.'' @ [nl, nl] @
     join [nl] (transcript_lines events)"

definition summarizeSession :: "activity_env \<Rightarrow> string \<Rightarrow> string fleetp" where
  "summarizeSession env sid =
     bind (catalogGet sid) (\<lambda>row.
       if (case row of None \<Rightarrow> False | Some r \<Rightarrow> rw_isSystem r \<or> rw_titleLocked r)
       then ret (case row of None \<Rightarrow> [] | Some r \<Rightarrow> or_str (rw_title r) [])
       else bind (bind (ask (GetEvents sid 50)) (\<lambda>r. case r of FEvents es \<Rightarrow> ret es | _ \<Rightarrow> stop ())) (\<lambda>events.
         if transcript_lines events = [] then ret []
         else (let fallback = persistSummaryTitle sid row (buildFallbackSummaryTitle events) in
           try_catch
             (andThen (ask_unit SummaryStart)
               (if \<not> ae_summaryProvider env then ret []
                else bind (bind (ask (SummaryModel (summaryPrompt events)))
                       (\<lambda>r. case r of FStr t \<Rightarrow> ret (trim t) | _ \<Rightarrow> stop ())) (\<lambda>title.
                     bind (persistSummaryTitle sid row title) (\<lambda>saved.
                       if saved \<noteq> [] then ret saved else fallback))))
             (\<lambda>_. fallback))))"

subsection \<open>A client for one activity\<close>

text \<open>\<open>try { m } finally { f }\<close>\<close>

definition finalizing :: "'a fleetp \<Rightarrow> unit fleetp \<Rightarrow> 'a fleetp" where
  "finalizing m f =
     bind (try_catch (bind m (\<lambda>x. ret (Inr x))) (\<lambda>e. ret (Inl e)))
       (\<lambda>r. andThen f (case r of Inl e \<Rightarrow> throw e | Inr x \<Rightarrow> ret x))"

definition with_client :: "activity_env \<Rightarrow> 'a fleetp \<Rightarrow> 'a fleetp" where
  "with_client env m =
     (if \<not> ae_storeUrl env then throw ''No storeUrl - cannot create PilotSwarmClient''
      else andThen (modify new_client) (finalizing (andThen start m) close_client))"

text \<open>The client of an activity is made without a policy and with the default options.\<close>

definition activity_options :: client_options where
  "activity_options = \<lparr> co_waitThreshold = 30, co_dehydrateThreshold = None, co_dehydrateOnIdle = None,
     co_dehydrateOnInputRequired = None, co_checkpointInterval = None, co_rehydrationMessage = None,
     co_policy = None, co_allowedAgentNames = [] \<rparr>"

subsection \<open>Child sessions\<close>

record spawn_input =
  si_parentSessionId :: string
  si_config :: session_config
  si_task :: string
  si_nestingLevel :: "nat option"
  si_isSystem :: bool
  si_title :: "string option"
  si_agentId :: "string option"
  si_splash :: "string option"
  si_titleIsExplicit :: bool

text \<open>The reasoning effort of the configuration is not handed on.\<close>

definition spawned_request :: "spawn_input \<Rightarrow> string \<Rightarrow> string option \<Rightarrow> create_request" where
  "spawned_request i sid model =
     \<lparr> rq_sessionId = Some sid, rq_parentSessionId = Some (si_parentSessionId i),
       rq_nestingLevel = si_nestingLevel i, rq_agentId = si_agentId i,
       rq_config = blank_config\<lparr>c_model := model, c_systemMessage := c_systemMessage (si_config i),
         c_boundAgentName := c_boundAgentName (si_config i),
         c_promptLayering := c_promptLayering (si_config i), c_toolNames := c_toolNames (si_config i),
         c_waitThreshold := c_waitThreshold (si_config i)\<rparr> \<rparr>"

definition spawn_meta :: "spawn_input \<Rightarrow> string \<Rightarrow> row_update option" where
  "spawn_meta i sid =
     (let u = no_update
        \<lparr>ru_isSystem := si_isSystem i,
         ru_title := (if truthy (si_title i)
           then Some (if si_titleIsExplicit i \<or> si_isSystem i then or_str (si_title i) []
                      else or_str (si_title i) [] @ '': '' @ take 8 sid) else None),
         ru_agentId := keep_truthy (si_agentId i), ru_splash := keep_truthy (si_splash i)\<rparr>
      in if u = no_update then None else Some u)"

definition live_system_child :: "session_row option \<Rightarrow> bool" where
  "live_system_child row = (case row of None \<Rightarrow> False
     | Some r \<Rightarrow> rw_state r \<notin> {''completed'', ''failed'', ''terminated''})"

definition spawnChildSession :: "activity_env \<Rightarrow> spawn_input \<Rightarrow> string fleetp" where
  "spawnChildSession env i =
     (let deterministic = si_isSystem i \<and> truthy (si_agentId i) in
      bind (if deterministic then ret (ae_childUUID env (si_parentSessionId i) (or_str (si_agentId i) []))
            else randomUUID) (\<lambda>sid.
      with_client env
        (bind (if deterministic \<and> ae_catalog env then catalogGet sid else ret None) (\<lambda>existing.
         if live_system_child existing then ret sid
         else andThen (cond (si_isSystem i) (modify (\<lambda>w. w\<lparr>fl_system := sid # fl_system w\<rparr>)))
           (case normalizeModelRef (ae_registry env) (c_model (si_config i)) False of
              Inl e \<Rightarrow> throw e
            | Inr normalizedModel \<Rightarrow>
                (let model = (if truthy normalizedModel then normalizedModel else c_model (si_config i)) in
                 bind (createSession activity_options (spawned_request i sid model)) (\<lambda>_.
                 andThen (doing [
                   cond (ae_catalog env) (case spawn_meta i sid of
                     None \<Rightarrow> ret () | Some u \<Rightarrow> ask_unit (CatalogUpdate sid u)),
                   send activity_options sid (si_task i) True])
                 (ret sid))))))))"

subsection \<open>Reaching other sessions\<close>

definition failed_terminal :: "string \<Rightarrow> string \<Rightarrow> string" where
  "failed_terminal sid what = ''Session '' @ take 8 sid @ '' is a '' @ what @
     '' terminal orchestration and cannot accept new messages.''"

definition sendToSession :: "activity_env \<Rightarrow> string \<Rightarrow> string \<Rightarrow> unit fleetp" where
  "sendToSession env sid text = with_client env
     (bind (getSessionInfo sid) (\<lambda>i.
       if dt_status i = ''failed'' then throw (failed_terminal sid ''failed'')
       else if dt_status i = ''completed'' \<and> truthy (dt_parentSessionId i) \<and> \<not> dt_isSystem i \<and>
               \<not> dt_cronActive i \<and> default_to (dt_cronInterval i) 0 = 0
       then throw (failed_terminal sid ''completed'')
       else ask_unit (EnqueueEvent (orch_id sid) ''messages'' (prompt_message text False None))))"

definition sendCommandToSession :: "activity_env \<Rightarrow> string \<Rightarrow> message \<Rightarrow> unit fleetp" where
  "sendCommandToSession env sid cmd =
     with_client env (ask_unit (EnqueueEvent (orch_id sid) ''messages'' cmd))"

definition getSessionStatus :: "activity_env \<Rightarrow> string \<Rightarrow> string fleetp" where
  "getSessionStatus env sid = with_client env (bind (getSessionInfo sid) (\<lambda>i.
     ret (stringify (JObj ([(''sessionId'', JStr (dt_sessionId i)), (''status'', JStr (dt_status i))] @
       opt_field ''title'' JStr (dt_title i) @ [(''iterations'', JNum (int (dt_iterations i)))] @
       opt_field ''result'' JStr (dt_result i) @ opt_field ''error'' JStr (dt_error i))))))"

definition listed_json :: "session_row \<Rightarrow> json" where
  "listed_json r = JObj ([(''sessionId'', JStr (rw_sessionId r))] @ opt_field ''title'' JStr (rw_title r) @
     [(''status'', JStr (rw_state r)), (''iterations'', JNum (int (rw_iteration r)))] @
     opt_field ''parentSessionId'' JStr (rw_parentSessionId r) @ opt_field ''error'' JStr (rw_lastError r))"

definition listSessionsActivity :: "activity_env \<Rightarrow> string fleetp" where
  "listSessionsActivity env = with_client env (bind listRows (\<lambda>rows.
     ret (stringify (JArr (map listed_json rows)))))"

text \<open>The list that is handed on as JSON.\<close>

definition listChildSessions :: "activity_env \<Rightarrow> string \<Rightarrow> managed_child list fleetp" where
  "listChildSessions env parentId = with_client env (bind listRows (\<lambda>rows.
     collect (filter (\<lambda>r. rw_parentSessionId r = Some parentId) rows)
       (\<lambda>r. bind (getSessionInfo (rw_sessionId r)) (\<lambda>i. ret (managed_child_of r i)))))"

definition notifyParentActivity :: "activity_env \<Rightarrow> string \<Rightarrow> string \<Rightarrow> string \<Rightarrow> (string \<times> json) list \<Rightarrow> unit fleetp" where
  "notifyParentActivity env parentOrchId childOrchId childSessionId update =
     (if \<not> ae_provider env then throw ''No provider available''
      else ask_unit (EnqueueUpdate parentOrchId
        (spread [(''childOrchId'', JStr childOrchId), (''childSessionId'', JStr childSessionId)] update)))"

definition getDescendantSessionIds :: "activity_env \<Rightarrow> string \<Rightarrow> string list fleetp" where
  "getDescendantSessionIds env sid =
     (if \<not> ae_catalog env then ret []
      else bind (ask (GetDescendants sid)) (\<lambda>r. case r of FStrs xs \<Rightarrow> ret xs | _ \<Rightarrow> stop ()))"

definition cancelSession :: "activity_env \<Rightarrow> string \<Rightarrow> string option \<Rightarrow> unit fleetp" where
  "cancelSession env sid reason = with_client env (doing [
     ask_unit (CancelInstance (orch_id sid) (default_to reason ''Cancelled by parent'')),
     cond (ae_catalog env) (ask_unit (CatalogUpdate sid (no_update\<lparr>ru_state := Some ''cancelled'',
       ru_lastError := Some (Some (if truthy reason then ''Cancelled: '' @ or_str reason [] else ''Cancelled'')),
       ru_waitReason := Some None\<rparr>)))])"

definition deleteSessionActivity :: "activity_env \<Rightarrow> string \<Rightarrow> unit fleetp" where
  "deleteSessionActivity env sid = with_client env (deleteSession sid)"

subsection \<open>The session's own row\<close>

text \<open>A column that the input does not name is left alone.\<close>

definition updateCmsStateActivity ::
  "string \<Rightarrow> string \<Rightarrow> string option option \<Rightarrow> string option option \<Rightarrow> unit fleetp" where
  "updateCmsStateActivity sid state lastError waitReason =
     ask_unit (CatalogUpdate sid (no_update\<lparr>ru_state := Some state, ru_lastError := lastError,
       ru_waitReason := waitReason\<rparr>))"

definition getWorkerSessionPolicy :: "activity_env \<Rightarrow> creation_policy option \<times> string list" where
  "getWorkerSessionPolicy env = (ae_policy env, ae_allowedAgentNames env)"

definition recordSessionEventActivity :: "activity_env \<Rightarrow> string \<Rightarrow> captured_event list \<Rightarrow> unit fleetp" where
  "recordSessionEventActivity env sid events = cond (ae_catalog env) (ask_unit (RecordEvents sid events))"

end
