(* ===== verification/FleetLogic.thy ===== *)
theory FleetLogic
  imports SdkClient
begin

text \<open>
  A program logic for code that works through the client: \<open>wp m C Q E w\<close> says that \<open>m\<close>, run from
  \<open>w\<close>, makes only requests that satisfy \<open>C\<close>, and ends - unless the replies run out - in a state that
  satisfies \<open>Q\<close> with the value returned, or \<open>E\<close> with the error thrown. One rule per combinator
  pushes it through a program; \<open>kept_client\<close> is the frame of an operation that leaves the client's maps
  alone.
\<close>

definition wp ::
  "'a fleetp \<Rightarrow> (fleet_call \<Rightarrow> bool) \<Rightarrow> ('a \<Rightarrow> fleet \<Rightarrow> bool) \<Rightarrow> (string \<Rightarrow> fleet \<Rightarrow> bool) \<Rightarrow> fleet \<Rightarrow> bool" where
  "wp m C Q E w \<longleftrightarrow>
     (\<exists>new. fl_calls (snd (m w)) = fl_calls w @ new \<and> list_all C new) \<and>
     (case fst (m w) of Ret x \<Rightarrow> Q x (snd (m w)) | Throw e \<Rightarrow> E e (snd (m w)) | Stop _ \<Rightarrow> True)"

lemma wp_ret: "Q x w \<Longrightarrow> wp (ret x) C Q E w"
  by (simp add: wp_def ret_def)

lemma wp_throw: "E e w \<Longrightarrow> wp (throw e) C Q E w"
  by (simp add: wp_def throw_def)

lemma wp_stop: "wp (stop h) C Q E w"
  by (simp add: wp_def stop_def)

lemma wp_modify: "fl_calls (f w) = fl_calls w \<Longrightarrow> Q () (f w) \<Longrightarrow> wp (modify f) C Q E w"
  by (simp add: wp_def modify_def)

lemma wp_inspect: "wp (f w) C Q E w \<Longrightarrow> wp (inspect f) C Q E w"
  unfolding wp_def inspect_def by simp

lemma wp_bind:
  assumes "wp m C (\<lambda>x. wp (f x) C Q E) E w"
  shows "wp (bind m f) C Q E w"
proof (cases "m w")
  case (Pair r s)
  have "bind m f w = (case r of Ret x \<Rightarrow> f x s | Throw e \<Rightarrow> (Throw e, s) | Stop h \<Rightarrow> (Stop h, s))"
    unfolding bind_def Pair by simp
  then show ?thesis using assms unfolding wp_def Pair
    by (cases r) (auto split: outcome.splits)
qed

lemma wp_andThen: "wp m C (\<lambda>_. wp n C Q E) E w \<Longrightarrow> wp (andThen m n) C Q E w"
  unfolding andThen_def by (rule wp_bind)

lemma wp_catch:
  assumes "wp m C Q (\<lambda>e. wp (h e) C Q E) w"
  shows "wp (try_catch m h) C Q E w"
proof (cases "m w")
  case (Pair r s)
  have "try_catch m h w = (case r of Throw e \<Rightarrow> h e s | _ \<Rightarrow> (r, s))"
    unfolding try_catch_def Pair by (cases r) simp_all
  then show ?thesis using assms unfolding wp_def Pair
    by (cases r) (auto split: outcome.splits)
qed

lemma wp_if:
  "(b \<Longrightarrow> wp m C Q E w) \<Longrightarrow> (\<not> b \<Longrightarrow> wp n C Q E w) \<Longrightarrow> wp (if b then m else n) C Q E w"
  by simp

lemma wp_cond: "(b \<Longrightarrow> wp m C Q E w) \<Longrightarrow> (\<not> b \<Longrightarrow> Q () w) \<Longrightarrow> wp (cond b m) C Q E w"
  by (simp add: cond_def wp_ret)

lemma wp_option:
  "(y = None \<Longrightarrow> wp m C Q E w) \<Longrightarrow> (\<And>x. y = Some x \<Longrightarrow> wp (f x) C Q E w) \<Longrightarrow>
     wp (case y of None \<Rightarrow> m | Some x \<Rightarrow> f x) C Q E w"
  by (cases y) auto

lemma wp_sum:
  "(\<And>x. y = Inl x \<Longrightarrow> wp (f x) C Q E w) \<Longrightarrow> (\<And>x. y = Inr x \<Longrightarrow> wp (g x) C Q E w) \<Longrightarrow>
     wp (case y of Inl x \<Rightarrow> f x | Inr x \<Rightarrow> g x) C Q E w"
  by (cases y) auto

lemma wp_doing_Nil: "Q () w \<Longrightarrow> wp (doing []) C Q E w"
  by (simp add: wp_ret)

lemma wp_doing_Cons: "wp m C (\<lambda>_. wp (doing ms) C Q E) E w \<Longrightarrow> wp (doing (m # ms)) C Q E w"
  by (simp add: wp_andThen)

lemma wp_let: "wp (f e) C Q E w \<Longrightarrow> wp (let x = e in f x) C Q E w"
  by simp

lemma wp_mono:
  assumes "wp m C Q E w" "\<And>x v. Q x v \<Longrightarrow> Q' x v" "\<And>e v. E e v \<Longrightarrow> E' e v"
  shows "wp m C Q' E' w"
  using assms by (auto simp: wp_def split: outcome.splits)

lemmas wp_rules = wp_ret wp_throw wp_stop wp_modify wp_inspect wp_bind wp_andThen wp_catch wp_if
  wp_cond wp_option wp_sum wp_doing_Nil wp_doing_Cons wp_let

subsection \<open>Requests\<close>

text \<open>The client's maps are unchanged; requests are only added and answers only used up.\<close>

definition kept_client :: "fleet \<Rightarrow> fleet \<Rightarrow> bool" where
  "kept_client w v \<longleftrightarrow>
     (\<exists>cs rs. v = w\<lparr>fl_calls := fl_calls w @ cs, fl_replies := rs\<rparr> \<and> set rs \<subseteq> set (fl_replies w))"

lemma kept_client_refl [simp]: "kept_client w w"
  unfolding kept_client_def by (rule exI [of _ "[]"], rule exI [of _ "fl_replies w"]) simp

lemma kept_client_trans [trans]: "kept_client u v \<Longrightarrow> kept_client v w \<Longrightarrow> kept_client u w"
  unfolding kept_client_def by fastforce

lemma kept_client_fields:
  assumes "kept_client w v"
  shows "fl_started v = fl_started w" "fl_configs v = fl_configs w" "fl_parents v = fl_parents w"
    "fl_levels v = fl_levels w" "fl_system v = fl_system w" "fl_agentIds v = fl_agentIds w"
    "fl_active v = fl_active w" "fl_guids v = fl_guids w" "fl_events v = fl_events w"
    "set (fl_replies v) \<subseteq> set (fl_replies w)" "set (fl_calls w) \<subseteq> set (fl_calls v)"
  using assms by (auto simp: kept_client_def)

lemma wp_ask:
  assumes "C c" "\<And>r v. r \<in> set (fl_replies w) \<Longrightarrow> kept_client w v \<Longrightarrow> (case r of FErr e \<Rightarrow> E e v | _ \<Rightarrow> Q r v)"
  shows "wp (ask c) C Q E w"
proof (cases "fl_replies w")
  case (Cons r rs)
  have "kept_client w (w\<lparr>fl_calls := fl_calls w @ [c], fl_replies := rs\<rparr>)"
    using Cons by (auto simp: kept_client_def)
  then have "(case r of FErr e \<Rightarrow> E e (w\<lparr>fl_calls := fl_calls w @ [c], fl_replies := rs\<rparr>)
      | _ \<Rightarrow> Q r (w\<lparr>fl_calls := fl_calls w @ [c], fl_replies := rs\<rparr>))"
    using assms(2) [of r] Cons by simp
  then show ?thesis using Cons assms(1) by (cases r) (auto simp: wp_def ask_def)
qed (simp add: wp_def ask_def assms(1))

lemma wp_ask_unit:
  assumes "C c" "\<And>v. kept_client w v \<Longrightarrow> Q () v" "\<And>e v. kept_client w v \<Longrightarrow> E e v"
  shows "wp (ask_unit c) C Q E w"
  unfolding ask_unit_def
  by (rule wp_bind, rule wp_ask) (auto intro: wp_ret wp_stop assms split: fleet_reply.split)

lemma wp_attempt:
  "wp m C Q (\<lambda>e v. Q () v) w \<Longrightarrow> wp (attempt m) C Q E w"
  unfolding attempt_def by (rule wp_catch, erule wp_mono) (auto intro: wp_ret)

lemma wp_listRows:
  assumes "C CatalogList" "\<And>xs v. FRows xs \<in> set (fl_replies w) \<Longrightarrow> kept_client w v \<Longrightarrow> Q xs v"
    "\<And>e v. kept_client w v \<Longrightarrow> E e v"
  shows "wp listRows C Q E w"
  unfolding listRows_def
  by (rule wp_bind, rule wp_ask) (auto intro: wp_ret wp_stop assms split: fleet_reply.split)

lemma wp_catalogGet:
  assumes "C (CatalogGet sid)" "\<And>row v. FRow row \<in> set (fl_replies w) \<Longrightarrow> kept_client w v \<Longrightarrow> Q row v"
    "\<And>e v. kept_client w v \<Longrightarrow> E e v"
  shows "wp (catalogGet sid) C Q E w"
  unfolding catalogGet_def
  by (rule wp_bind, rule wp_ask) (auto intro: wp_ret wp_stop assms split: fleet_reply.split)

lemma wp_instanceStatus:
  assumes "C (InstanceStatus o1)" "\<And>x v. kept_client w v \<Longrightarrow> Q x v" "\<And>e v. kept_client w v \<Longrightarrow> E e v"
  shows "wp (instanceStatus o1) C Q E w"
  unfolding instanceStatus_def
  by (rule wp_bind, rule wp_ask) (auto intro: wp_ret wp_stop assms split: fleet_reply.split)

lemma wp_getSessionInfo:
  assumes "C (CatalogGet sid)" "C (InstanceStatus (orch_id sid))" "\<And>u. C (CatalogUpdate sid u)"
    and "\<And>row rep v. kept_client w v \<Longrightarrow> Q (detail_of sid row rep) v" "\<And>e v. kept_client w v \<Longrightarrow> E e v"
  shows "wp (getSessionInfo sid) C Q E w"
  unfolding getSessionInfo_def
  by (intro wp_rules wp_catalogGet wp_instanceStatus wp_attempt wp_ask_unit assms(1-3) assms(4) assms(5))
     (blast intro: kept_client_trans)+

lemma wp_randomUUID:
  assumes "\<And>g gs. fl_guids w = g # gs \<Longrightarrow> Q g (w\<lparr>fl_guids := gs\<rparr>)"
  shows "wp randomUUID C Q E w"
  using assms by (cases "fl_guids w") (simp_all add: wp_def randomUUID_def)

text \<open>A loop that keeps an assertion, with what each step establishes of its element.\<close>

lemma wp_collect:
  assumes "I w" "\<And>x v. x \<in> set xs \<Longrightarrow> I v \<Longrightarrow> wp (f x) C (\<lambda>y u. I u \<and> P x y) (\<lambda>e u. I u) v"
    and "\<And>ys v. I v \<Longrightarrow> list_all2 P xs ys \<Longrightarrow> Q ys v" "\<And>e v. I v \<Longrightarrow> E e v"
  shows "wp (collect xs f) C Q E w"
proof -
  have "wp (collect xs f) C (\<lambda>ys v. I v \<and> list_all2 P xs ys) (\<lambda>e v. I v) w"
    using assms(1,2)
  proof (induction xs arbitrary: w)
    case (Cons x xs)
    have "wp (f x) C (\<lambda>y u. I u \<and> P x y) (\<lambda>e u. I u) w" using Cons.prems by simp
    then show ?case
      by (simp, intro wp_bind) (erule wp_mono, auto intro!: wp_bind wp_ret elim!: wp_mono [OF Cons.IH] simp: Cons.prems)
  qed (simp add: wp_ret)
  then show ?thesis by (rule wp_mono) (auto intro: assms)
qed

end
