(* ===== verification/ClientGuarantees.thy ===== *)
theory ClientGuarantees
  imports FleetLogic
begin

text \<open>
  What the client promises: its admission check agrees with the one the orchestration makes, what a
  caller asks for is what the orchestration is started with, its reading of a session repairs the row
  as the reconciliation of SessionStatus does, terminal children take no prompt, system sessions are
  not deleted and are created once, and an instance the runtime knows is not started again.
\<close>

lemmas fleet_simps = bind_def andThen_def doing.simps ret_def throw_def stop_def modify_def inspect_def
  try_catch_def cond_def ask_def ask_unit_def catalogGet_def attempt_def

text \<open>A request that is answered leaves exactly itself behind.\<close>

lemma wp_ask_unit_exact:
  assumes "C c" "\<And>rs. Q () (w\<lparr>fl_calls := fl_calls w @ [c], fl_replies := rs\<rparr>)"
    and "\<And>e rs. E e (w\<lparr>fl_calls := fl_calls w @ [c], fl_replies := rs\<rparr>)"
  shows "wp (ask_unit c) C Q E w"
  using assms by (cases "fl_replies w") (auto simp: wp_def fleet_simps split: fleet_reply.splits)

lemma wp_result: "wp m C Q E w \<Longrightarrow> m w = (Ret x, v) \<Longrightarrow> Q x v"
  by (simp add: wp_def)

subsection \<open>Admission\<close>

text \<open>
  The client's check of the session policy admits a top-level session exactly when the
  orchestration's own check does, with two exceptions: it also refuses the overlay named default, and
  under an allow-list with no names it refuses every named agent, where the orchestration lets all pass.
\<close>

theorem client_policy_agrees_with_worker:
  "clientPolicyError opts False a = None \<longleftrightarrow>
     policyVerdict (co_policy opts) (co_allowedAgentNames opts) a = None \<and> a \<noteq> Some ''default'' \<and>
     \<not> (truthy a \<and> co_allowedAgentNames opts = [] \<and> map_option pol_allowlist (co_policy opts) = Some True)"
  by (auto simp: clientPolicyError_def policyVerdict_def split: option.splits)

subsection \<open>Starting\<close>

definition startCreateSend ::
  "client_options \<Rightarrow> create_request \<Rightarrow> string \<Rightarrow> bool \<Rightarrow> string option \<Rightarrow> string fleetp" where
  "startCreateSend opts rq prompt bootstrap tool =
     andThen start (bind (createSession opts rq) (\<lambda>sid.
       ensureOrchestrationAndSend opts sid prompt bootstrap tool))"

definition requested_input :: "client_options \<Rightarrow> create_request \<Rightarrow> string \<Rightarrow> orch_input" where
  "requested_input opts rq sid =
     (let child = truthy (rq_parentSessionId rq) in
      (blank_input sid)
       \<lparr>in_config := serializable_config opts (Some (client_config opts (rq_config rq))),
        in_sourceOrchestrationVersion := Some DURABLE_SESSION_LATEST_VERSION,
        in_iteration := Some 0, in_blobEnabled := Some True,
        in_dehydrateThreshold := Some (default_to (co_dehydrateThreshold opts) 29),
        in_idleTimeout := Some (if child then -1 else default_to (co_dehydrateOnIdle opts) 60),
        in_inputGracePeriod := Some (if child then -1 else default_to (co_dehydrateOnInputRequired opts) 30),
        in_checkpointInterval := Some (default_to (co_checkpointInterval opts) (- 1)),
        in_rehydrationMessage := co_rehydrationMessage opts,
        in_parentSessionId := keep_truthy (rq_parentSessionId rq),
        in_nestingLevel := rq_nestingLevel rq, in_isSystem := None,
        in_agentId := keep_truthy (rq_agentId rq)\<rparr>)"

lemma wp_refuse_terminal:
  assumes "C (CatalogGet sid)" "C (InstanceStatus (orch_id sid))" "\<And>u. C (CatalogUpdate sid u)"
    and "\<And>v. kept_client w v \<Longrightarrow> Q () v" "\<And>e v. kept_client w v \<Longrightarrow> E e v"
  shows "wp (refuse_terminal sid) C Q E w"
  unfolding refuse_terminal_def
  by (intro wp_rules wp_catalogGet wp_getSessionInfo assms(1-3) assms(4) assms(5))
     (blast intro: kept_client_trans)+


text \<open>The client knows \<open>sid\<close> as it was requested, and has not started it.\<close>

definition requested :: "client_options \<Rightarrow> create_request \<Rightarrow> string \<Rightarrow> fleet \<Rightarrow> bool" where
  "requested opts rq sid w \<longleftrightarrow>
     fl_started w \<and> fl_active w sid = None \<and> sid \<notin> set (fl_system w) \<and>
     fl_configs w sid = Some (client_config opts (rq_config rq)) \<and>
     fl_parents w sid = keep_truthy (rq_parentSessionId rq) \<and>
     fl_levels w sid = rq_nestingLevel rq \<and> fl_agentIds w sid = keep_truthy (rq_agentId rq)"

lemma requested_kept_client: "kept_client w v \<Longrightarrow> requested opts rq sid v = requested opts rq sid w"
  by (simp add: requested_def kept_client_fields)

lemma requested_start: "requested opts rq sid w \<Longrightarrow> start_input opts w sid = requested_input opts rq sid"
  by (cases "truthy (rq_parentSessionId rq)")
     (simp_all add: requested_def start_input_def requested_input_def Let_def keep_truthy_def truthy_def)

lemma wp_createSession:
  assumes "fl_started w" "fl_active w = Map.empty" "fl_system w = []" "fl_parents w = Map.empty"
    "fl_levels w = Map.empty" "fl_agentIds w = Map.empty"
  shows "wp (createSession opts rq) (\<lambda>_. True) (\<lambda>sid v. requested opts rq sid v) (\<lambda>e v. True) w"
  unfolding createSession_def
  apply (intro wp_rules wp_randomUUID wp_ask_unit; simp)
  apply (auto simp: requested_def kept_client_fields assms keep_truthy_def truthy_def or_str_def split: option.splits)
  done

definition running_update :: "string \<Rightarrow> row_update" where
  "running_update sid = no_update\<lparr>ru_orchestrationId := Some (orch_id sid),
     ru_state := Some ''running'', ru_lastError := Some None, ru_waitReason := Some None\<rparr>"

lemma wp_ensure_new:
  assumes "requested opts rq sid w"
  shows "wp (ensureOrchestrationAndSend opts sid prompt bootstrap tool) (\<lambda>_. True)
     (\<lambda>o1 v. o1 = orch_id sid \<and> (\<exists>pre. fl_calls v = pre @
        [StartOrchestration (orch_id sid) (requested_input opts rq sid) DURABLE_SESSION_LATEST_VERSION,
         CatalogUpdate sid (running_update sid),
         EnqueueEvent (orch_id sid) ''messages'' (prompt_message prompt bootstrap tool)])) (\<lambda>e v. True) w"
proof -
  have a: "requested opts rq sid v \<Longrightarrow> fl_active v sid = None" for v by (simp add: requested_def)
  have s: "fl_started w" using assms by (simp add: requested_def)
  show ?thesis
    unfolding ensureOrchestrationAndSend_def
    by (intro wp_rules wp_refuse_terminal wp_ask_unit_exact; (simp add: s)?)
       (auto simp: running_update_def a requested_start assms requested_kept_client)
qed

text \<open>
  What is asked for is what is started: when a new client starts, creates a session and sends its
  first prompt, and nothing throws, its last three requests start the session's orchestration with the
  requested configuration, parent, nesting level and agent - a child with idle eviction switched
  off -, mark its row running and queue the prompt, in this order.
\<close>

theorem session_starts_as_requested:
  assumes "startCreateSend opts rq prompt bootstrap tool (new_client w) = (Ret o1, v)"
  shows "\<exists>sid pre. o1 = orch_id sid \<and> fl_calls v = pre @
     [StartOrchestration (orch_id sid) (requested_input opts rq sid) DURABLE_SESSION_LATEST_VERSION,
      CatalogUpdate sid (running_update sid),
      EnqueueEvent (orch_id sid) ''messages'' (prompt_message prompt bootstrap tool)]"
proof -
  have "wp (startCreateSend opts rq prompt bootstrap tool) (\<lambda>_. True)
     (\<lambda>o1 v. \<exists>sid pre. o1 = orch_id sid \<and> fl_calls v = pre @
     [StartOrchestration (orch_id sid) (requested_input opts rq sid) DURABLE_SESSION_LATEST_VERSION,
      CatalogUpdate sid (running_update sid),
      EnqueueEvent (orch_id sid) ''messages'' (prompt_message prompt bootstrap tool)]) (\<lambda>_ _. True)
     (new_client w)"
    unfolding startCreateSend_def start_def
    by (intro wp_rules wp_ask_unit wp_mono [OF wp_createSession]; simp add: new_client_def kept_client_fields)
       (auto intro!: wp_mono [OF wp_ensure_new])
  from wp_result [OF this assms] show ?thesis .
qed

definition sample_options :: client_options where
  "sample_options = \<lparr> co_waitThreshold = 30, co_dehydrateThreshold = None, co_dehydrateOnIdle = None,
     co_dehydrateOnInputRequired = None, co_checkpointInterval = None, co_rehydrationMessage = None,
     co_policy = None, co_allowedAgentNames = [] \<rparr>"

definition sample_fleet :: "fleet_reply list \<Rightarrow> fleet" where
  "sample_fleet rs = \<lparr> fl_replies = rs, fl_calls = [], fl_guids = [''g1''], fl_started = False,
     fl_configs = Map.empty, fl_parents = Map.empty, fl_levels = Map.empty, fl_system = [],
     fl_agentIds = Map.empty, fl_active = Map.empty, fl_seenVersion = Map.empty,
     fl_seenIteration = Map.empty, fl_seenResponse = Map.empty, fl_events = [] \<rparr>"

definition sample_row :: "string \<Rightarrow> string option \<Rightarrow> bool \<Rightarrow> session_row" where
  "sample_row state parent system = \<lparr> rw_sessionId = ''c1'', rw_state = state, rw_title = None,
     rw_parentSessionId = parent, rw_isSystem = system, rw_agentId = None, rw_iteration = 0,
     rw_lastError = None, rw_orchestrationId = None, rw_model = None, rw_titleLocked = False \<rparr>"

definition sample_request :: create_request where
  "sample_request = \<lparr> rq_sessionId = None, rq_parentSessionId = Some ''p'', rq_nestingLevel = Some 1,
     rq_agentId = None, rq_config = blank_config \<rparr>"

lemma sample_start:
  "case startCreateSend sample_options sample_request ''go'' True None
     (new_client (sample_fleet [FOk, FOk, FRow None, FOk, FOk, FOk])) of
     (Ret o1, v) \<Rightarrow> o1 = ''session-g1'' | _ \<Rightarrow> False"
  by code_simp

theorem session_starts_as_requested_witness:
  "\<exists>o1 v sid pre. startCreateSend sample_options sample_request ''go'' True None
     (new_client (sample_fleet [FOk, FOk, FRow None, FOk, FOk, FOk])) = (Ret o1, v) \<and> o1 = orch_id sid \<and>
   fl_calls v = pre @
     [StartOrchestration (orch_id sid) (requested_input sample_options sample_request sid)
        DURABLE_SESSION_LATEST_VERSION,
      CatalogUpdate sid (running_update sid),
      EnqueueEvent (orch_id sid) ''messages'' (prompt_message ''go'' True None)]"
proof -
  obtain o1 v where "startCreateSend sample_options sample_request ''go'' True None
     (new_client (sample_fleet [FOk, FOk, FRow None, FOk, FOk, FOk])) = (Ret o1, v)"
    using sample_start by (auto split: prod.splits outcome.splits)
  then show ?thesis using session_starts_as_requested by blast
qed

subsection \<open>Reading a session\<close>

text \<open>What an update makes of the columns the reconciliation knows.\<close>

definition apply_update :: "row_update \<Rightarrow> catalog_row \<Rightarrow> catalog_row" where
  "apply_update u r = r\<lparr>row_state := default_to (ru_state u) (row_state r),
     row_lastError := default_to (ru_lastError u) (row_lastError r),
     row_waitReason := default_to (ru_waitReason u) (row_waitReason r)\<rparr>"

text \<open>
  The update a client writes while it reads a session does to the row what the reconciliation of
  row and runtime asks for, and it writes nothing when they agree.
\<close>

theorem client_writes_the_reconciliation:
  "sync_row v r = (case reconcile_update v r of None \<Rightarrow> r | Some u \<Rightarrow> apply_update u r)"
proof -
  consider "shouldSyncCompletedStatus (terminal_input v (Some r))"
    | "\<not> shouldSyncCompletedStatus (terminal_input v (Some r))" "shouldSyncFailedStatus (terminal_input v (Some r))"
    | "\<not> shouldSyncCompletedStatus (terminal_input v (Some r))" "\<not> shouldSyncFailedStatus (terminal_input v (Some r))"
    by blast
  then show ?thesis
    by cases (simp_all add: sync_row_def reconcile_update_def apply_update_def no_update_def
      completed_row_def failed_row_def recovered_row_def or_else_def split: option.split)
qed

subsection \<open>Refusals\<close>

text \<open>
  A child session that has ended takes no prompt: the client reads its row, throws, and asks for
  nothing else - nothing is started and nothing is queued.
\<close>

theorem terminal_child_takes_no_prompt:
  assumes "fl_started w" "fl_replies w = FRow (Some r) # rs" "truthy (rw_parentSessionId r)"
    "\<not> rw_isSystem r" "rw_state r = ''completed'' \<or> rw_state r = ''cancelled''"
  shows "ensureOrchestrationAndSend opts sid prompt bootstrap tool w =
     (Throw (terminal_message sid), w\<lparr>fl_calls := fl_calls w @ [CatalogGet sid], fl_replies := rs\<rparr>)"
  using assms by (auto simp: ensureOrchestrationAndSend_def refuse_terminal_def fleet_simps)

theorem terminal_child_takes_no_prompt_witness:
  "ensureOrchestrationAndSend sample_options ''c1'' ''hi'' False None
     ((sample_fleet [FRow (Some (sample_row ''completed'' (Some ''p'') False))])\<lparr>fl_started := True\<rparr>) =
   (Throw (terminal_message ''c1''), (sample_fleet [])\<lparr>fl_started := True, fl_calls := [CatalogGet ''c1'']\<rparr>)"
  by (subst terminal_child_takes_no_prompt [of _ "sample_row ''completed'' (Some ''p'') False" "[]"])
     (simp_all add: sample_fleet_def sample_row_def truthy_def)

text \<open>
  A system session is never deleted: the client throws after reading its row. Any other session is
  deleted with its facts and its instance cancelled, in this order, whatever becomes of the last two
  requests, and is no longer active for the client.
\<close>

theorem deletion_spares_system_sessions:
  assumes "fl_replies w = FRow row # FOk # a # b # rs" "a \<in> {FOk, FErr e}" "b \<in> {FOk, FErr e}"
  shows "if map_option rw_isSystem row = Some True
     then deleteSession sid w = (Throw ''Cannot delete system session'',
            w\<lparr>fl_calls := fl_calls w @ [CatalogGet sid], fl_replies := FOk # a # b # rs\<rparr>)
     else fst (deleteSession sid w) = Ret () \<and> fl_active (snd (deleteSession sid w)) sid = None \<and>
          fl_configs (snd (deleteSession sid w)) sid = None \<and>
          fl_calls (snd (deleteSession sid w)) = fl_calls w @
            [CatalogGet sid, CatalogDelete sid, DeleteFacts sid, CancelInstance (orch_id sid) ''Session deleted'']"
  using assms by (cases row) (auto simp: deleteSession_def fleet_simps)

theorem deletion_spares_system_sessions_witness:
  "deleteSession ''c1'' (sample_fleet [FRow (Some (sample_row ''idle'' None True)), FOk, FOk, FOk]) =
     (Throw ''Cannot delete system session'', (sample_fleet [FOk, FOk, FOk])\<lparr>fl_calls := [CatalogGet ''c1'']\<rparr>)"
  using deletion_spares_system_sessions [of "sample_fleet [FRow (Some (sample_row ''idle'' None True)), FOk, FOk, FOk]"
      "Some (sample_row ''idle'' None True)" FOk FOk "[]" "[]" "''c1''"]
  by (simp add: sample_fleet_def sample_row_def)

subsection \<open>Instances are started once\<close>

definition starts_nothing :: "fleet_call \<Rightarrow> bool" where
  "starts_nothing c = (case c of StartOrchestration _ _ _ \<Rightarrow> False | CatalogCreate _ _ _ _ \<Rightarrow> False | _ \<Rightarrow> True)"

lemma starts_nothing_simps [simp]:
  "starts_nothing ConnectClient" "starts_nothing CatalogList" "starts_nothing (CatalogGet s)"
  "starts_nothing (CatalogUpdate s u)" "starts_nothing (InstanceStatus s)" "starts_nothing (InstanceInfo s)"
  "starts_nothing (EnqueueEvent s q m)"
  by (simp_all add: starts_nothing_def)

definition new_calls :: "'a fleetp \<Rightarrow> fleet \<Rightarrow> fleet_call list" where
  "new_calls m w = drop (length (fl_calls w)) (fl_calls (snd (m w)))"

lemma wp_new_calls: "wp m C Q E w \<Longrightarrow> list_all C (new_calls m w)"
  by (auto simp: wp_def new_calls_def)

lemma wp_ensure_active:
  assumes "fl_active w sid \<noteq> None"
  shows "wp (ensureOrchestrationAndSend opts sid prompt bootstrap tool) starts_nothing
     (\<lambda>o1 v. True) (\<lambda>e v. True) w"
proof -
  have a: "kept_client w v \<Longrightarrow> fl_active v sid \<noteq> None" for v using assms by (simp add: kept_client_fields)
  show ?thesis
    unfolding ensureOrchestrationAndSend_def
    by (intro wp_rules wp_refuse_terminal wp_ask_unit) (use a in \<open>auto\<close>)
qed

text \<open>What a resumed client believes of an instance, when the runtime answers and when it does not.\<close>

lemma resume_with_answer:
  assumes "fl_replies w = FRow row # FKnown st # FReport rep # rs"
  shows "\<exists>v. resumeSession opts sid config w = (Ret sid, v) \<and>
     fl_active v sid = (if truthy st \<and> st \<noteq> Some ''Unknown'' then Some (orch_id sid) else None)"
  using assms
  by (cases config) (simp_all add: resumeSession_def fleet_simps instanceStatus_def note_seen_def)

lemma resume_without_answer:
  assumes "fl_replies w = FRow row # FErr e # rs"
  shows "\<exists>v. resumeSession opts sid config w = (Ret sid, v) \<and>
     fl_active v sid = (case row of None \<Rightarrow> None | Some r \<Rightarrow>
       if rw_orchestrationId r = Some (orch_id sid) \<and> rw_state r \<noteq> ''pending'' then Some (orch_id sid) else None)"
  using assms
  by (cases config; cases row) (auto simp: resumeSession_def fleet_simps)

text \<open>
  A client that resumes a session whose instance the runtime knows does not start it again: the
  prompt that follows makes no start request and creates no row, whatever the row says and whatever
  the requests in between answer.
\<close>

theorem known_instance_is_not_restarted:
  assumes "fl_replies w = FRow row # FKnown st # FReport rep # rs" "truthy st" "st \<noteq> Some ''Unknown''"
    and "resumeSession opts sid config w = (r, v)"
  shows "r = Ret sid \<and>
     list_all starts_nothing (new_calls (ensureOrchestrationAndSend opts sid prompt bootstrap tool) v)"
proof -
  have "r = Ret sid" "fl_active v sid \<noteq> None"
    using resume_with_answer [OF assms(1), of opts sid config] assms(2,3,4) by auto
  then show ?thesis using wp_new_calls [OF wp_ensure_active] by blast
qed

definition sample_report :: runtime_report where
  "sample_report = no_report\<lparr>rr_statusVersion := 3\<rparr>"

theorem known_instance_is_not_restarted_witness:
  "list_all starts_nothing (new_calls (ensureOrchestrationAndSend sample_options ''c1'' ''hi'' False None)
     (snd (resumeSession sample_options ''c1'' None
       (sample_fleet [FRow None, FKnown (Some ''Running''), FReport sample_report, FRow None, FOk, FOk]))))"
  using known_instance_is_not_restarted [of
      "sample_fleet [FRow None, FKnown (Some ''Running''), FReport sample_report, FRow None, FOk, FOk]"
      None "Some ''Running''" sample_report "[FRow None, FOk, FOk]" sample_options "''c1''" None
      "fst (resumeSession sample_options ''c1'' None
       (sample_fleet [FRow None, FKnown (Some ''Running''), FReport sample_report, FRow None, FOk, FOk]))"
      "snd (resumeSession sample_options ''c1'' None
       (sample_fleet [FRow None, FKnown (Some ''Running''), FReport sample_report, FRow None, FOk, FOk]))"]
  by (simp add: sample_fleet_def truthy_def)

lemma wp_resumeSession: "wp (resumeSession opts sid config) starts_nothing (\<lambda>s v. s = sid) (\<lambda>e v. True) w"
  unfolding resumeSession_def
  by (intro wp_rules wp_catalogGet wp_ask) (auto split: option.split fleet_reply.split
      intro!: wp_rules wp_instanceStatus wp_ask simp: note_seen_def simp del: doing.simps)

lemma wp_listRows_reply:
  assumes "fl_replies w = FRows rows # rs" "C CatalogList"
    "\<And>v. kept_client w v \<Longrightarrow> fl_replies v = rs \<Longrightarrow> Q rows v"
  shows "wp listRows C Q E w"
proof -
  have "kept_client w (w\<lparr>fl_calls := fl_calls w @ [CatalogList], fl_replies := rs\<rparr>)"
    using assms(1) by (auto simp: kept_client_def)
  then show ?thesis using assms by (simp add: wp_def listRows_def fleet_simps)
qed

text \<open>
  There is one system session: while the catalog lists one, asking for it starts and creates nothing.
\<close>

theorem system_session_is_created_once:
  assumes "fl_replies w = FRows rows # rs" "list_ex rw_isSystem rows"
  shows "list_all starts_nothing (new_calls (createSystemSession opts config title) w)"
proof -
  obtain r where r: "find rw_isSystem rows = Some r"
    using assms(2) by (cases "find rw_isSystem rows") (auto simp: list_ex_iff find_None_iff)
  have "wp (createSystemSession opts config title) starts_nothing (\<lambda>_ _. True) (\<lambda>_ _. True) w"
    unfolding createSystemSession_def Let_def
    by (rule wp_bind, rule wp_listRows_reply [OF assms(1)])
       (auto simp: r intro!: wp_rules wp_mono [OF wp_resumeSession])
  then show ?thesis by (rule wp_new_calls)
qed

end
