(* ===== verification/BridgeGuarantees.thy ===== *)
theory BridgeGuarantees
  imports ControlBridge ClientGuarantees
begin

text \<open>
  What the control bridge may do: an operation on sub-agents, carried out at once inside a turn, only
  reaches children of the turn's own session - and creates only children of it, within the limits -
  and answers the model, unless the children it is to wait for cannot be read; and a child spawned through the bridge is configured like
  one that the orchestration spawns.
\<close>

subsection \<open>Rights\<close>

text \<open>A row of a listing that the catalog answers with.\<close>

definition listed :: "fleet \<Rightarrow> (session_row \<Rightarrow> bool) \<Rightarrow> bool" where
  "listed w P = list_ex (\<lambda>x. case x of FRows rows \<Rightarrow> list_ex P rows | _ \<Rightarrow> False) (fl_replies w)"

definition direct_child :: "bridge_env \<Rightarrow> fleet \<Rightarrow> string \<Rightarrow> bool" where
  "direct_child env w sid =
     listed w (\<lambda>r. rw_sessionId r = sid \<and> rw_parentSessionId r = Some (be_sessionId env))"

definition own_agent :: "bridge_env \<Rightarrow> fleet \<Rightarrow> string \<Rightarrow> bool" where
  "own_agent env w sid =
     listed w (\<lambda>r. rw_sessionId r = sid \<and> rw_parentSessionId r = Some (be_sessionId env) \<and> \<not> rw_isSystem r)"

text \<open>An orchestration id names the session behind its \<open>session-\<close> prefix.\<close>

definition session_of :: "string \<Rightarrow> string" where
  "session_of o1 = drop 8 o1"

lemma session_of_orch_id [simp]: "session_of (orch_id s) = s"
  by (simp add: session_of_def orch_id_def)

definition may_read :: "bridge_env \<Rightarrow> fleet \<Rightarrow> fleet_call \<Rightarrow> bool" where
  "may_read env w c = (case c of
       ConnectClient \<Rightarrow> True | CatalogList \<Rightarrow> True | CatalogGet _ \<Rightarrow> True | InstanceStatus _ \<Rightarrow> True
     | CatalogUpdate s u \<Rightarrow> direct_child env w s
     | _ \<Rightarrow> False)"

definition may_manage :: "bridge_env \<Rightarrow> fleet \<Rightarrow> fleet_call \<Rightarrow> bool" where
  "may_manage env w c = (may_read env w c \<or> (case c of
       EnqueueEvent o1 q m \<Rightarrow> q = ''messages'' \<and> own_agent env w (session_of o1)
     | CatalogDelete s \<Rightarrow> own_agent env w s
     | DeleteFacts s \<Rightarrow> own_agent env w s
     | CancelInstance o1 r \<Rightarrow> own_agent env w (session_of o1)
     | _ \<Rightarrow> False))"

definition may_spawn :: "bridge_env \<Rightarrow> fleet \<Rightarrow> fleet_call \<Rightarrow> bool" where
  "may_spawn env w c = (may_read env w c \<or> be_nestingLevel env < MAX_NESTING_LEVEL \<and> (case c of
       CatalogCreate s model parent system \<Rightarrow>
         s \<in> set (fl_guids w) \<and> parent = Some (be_sessionId env) \<and> \<not> system
     | CatalogUpdate s u \<Rightarrow> s \<in> set (fl_guids w)
     | StartOrchestration o1 i v \<Rightarrow> session_of o1 \<in> set (fl_guids w) \<and>
         in_nestingLevel i = Some (be_nestingLevel env + 1) \<and>
         (be_sessionId env = [] \<or> in_parentSessionId i = Some (be_sessionId env))
     | EnqueueEvent o1 q m \<Rightarrow> q = ''messages'' \<and> session_of o1 \<in> set (fl_guids w)
     | _ \<Rightarrow> False))"

subsection \<open>The frame\<close>

text \<open>As \<open>kept_client\<close>, but the client may have been started.\<close>

definition reached :: "fleet \<Rightarrow> fleet \<Rightarrow> bool" where
  "reached w v \<longleftrightarrow> (\<exists>b cs rs. v = w\<lparr>fl_started := b, fl_calls := fl_calls w @ cs, fl_replies := rs\<rparr> \<and>
     set rs \<subseteq> set (fl_replies w))"

lemma reachedI:
  "v = w\<lparr>fl_started := b, fl_calls := fl_calls w @ cs, fl_replies := rs\<rparr> \<Longrightarrow>
     set rs \<subseteq> set (fl_replies w) \<Longrightarrow> reached w v"
  unfolding reached_def by blast

lemma reached_refl [simp]: "reached w w"
  by (rule reachedI [where b = "fl_started w" and cs = "[]" and rs = "fl_replies w"]) simp_all

lemma reached_kept:
  assumes "reached w v" "kept_client v u"
  shows "reached w u"
proof -
  obtain b cs rs where v: "v = w\<lparr>fl_started := b, fl_calls := fl_calls w @ cs, fl_replies := rs\<rparr>"
    "set rs \<subseteq> set (fl_replies w)" using assms(1) unfolding reached_def by blast
  obtain cs' rs' where u: "u = v\<lparr>fl_calls := fl_calls v @ cs', fl_replies := rs'\<rparr>"
    "set rs' \<subseteq> set (fl_replies v)" using assms(2) unfolding kept_client_def by blast
  show ?thesis
    by (rule reachedI [where b = b and cs = "cs @ cs'" and rs = rs']) (use u v in \<open>auto\<close>)
qed

lemma reached_start:
  assumes "reached w v"
  shows "reached w (v\<lparr>fl_started := True\<rparr>)"
proof -
  obtain b cs rs where v: "v = w\<lparr>fl_started := b, fl_calls := fl_calls w @ cs, fl_replies := rs\<rparr>"
    "set rs \<subseteq> set (fl_replies w)" using assms unfolding reached_def by blast
  show ?thesis
    by (rule reachedI [where b = True and cs = cs and rs = rs]) (use v in \<open>simp_all\<close>)
qed

lemma reached_fields:
  assumes "reached w v"
  shows "fl_guids v = fl_guids w" "set (fl_replies v) \<subseteq> set (fl_replies w)"
  using assms by (auto simp: reached_def)

lemma wp_getInlineClient:
  assumes "C ConnectClient" "reached w0 w" "\<And>v. reached w0 v \<Longrightarrow> Q () v" "\<And>e v. reached w0 v \<Longrightarrow> E e v"
  shows "wp (getInlineClient env) C Q E w"
  unfolding getInlineClient_def start_def
  by (intro wp_rules wp_ask_unit)
     (simp_all add: assms kept_client_fields reached_kept [OF assms(2)] reached_start)

lemma listed_replies: "FRows rows \<in> set (fl_replies w) \<Longrightarrow> r \<in> set rows \<Longrightarrow> P r \<Longrightarrow> listed w P"
  unfolding listed_def list_ex_iff by (rule bexI [of _ "FRows rows"]) auto

text \<open>What is known of a child record that the bridge holds.\<close>

definition child_of_listing :: "bridge_env \<Rightarrow> fleet \<Rightarrow> managed_child \<Rightarrow> bool" where
  "child_of_listing env w c \<longleftrightarrow> ch_orchId c = orch_id (ch_sessionId c) \<and>
     direct_child env w (ch_sessionId c) \<and> (ch_isSystem c \<or> own_agent env w (ch_sessionId c))"

lemma child_of_listing_row:
  assumes "FRows rows \<in> set (fl_replies w)" "r \<in> set rows" "rw_parentSessionId r = Some (be_sessionId env)"
  shows "direct_child env w (rw_sessionId r)" "child_of_listing env w (managed_child_of r i)"
proof -
  show d: "direct_child env w (rw_sessionId r)"
    unfolding direct_child_def by (rule listed_replies [OF assms(1,2)]) (simp add: assms(3))
  have "own_agent env w (rw_sessionId r)" if "\<not> rw_isSystem r"
    unfolding own_agent_def by (rule listed_replies [OF assms(1,2)]) (simp add: assms(3) that)
  then show "child_of_listing env w (managed_child_of r i)"
    using d by (auto simp: child_of_listing_def managed_child_of_def)
qed

lemma wp_one_child:
  assumes "\<And>c. may_read env w0 c \<Longrightarrow> C c" "FRows rows \<in> set (fl_replies w0)"
    "r \<in> set (filter (\<lambda>r. rw_parentSessionId r = Some (be_sessionId env)) rows)" "reached w0 v"
  shows "wp (bind (getSessionInfo (rw_sessionId r)) (\<lambda>i. ret (managed_child_of r i))) C
      (\<lambda>y u. reached w0 u \<and> child_of_listing env w0 y) (\<lambda>e u. reached w0 u) v"
proof -
  have r: "direct_child env w0 (rw_sessionId r)" "\<And>i. child_of_listing env w0 (managed_child_of r i)"
    using child_of_listing_row [OF assms(2), of r env] assms(3) by simp_all
  show ?thesis
    by (rule wp_bind, rule wp_getSessionInfo)
       (simp_all add: assms(1) may_read_def r wp_ret reached_kept [OF assms(4)])
qed

lemma wp_loadDirectChildSessions:
  assumes "\<And>c. may_read env w0 c \<Longrightarrow> C c" "reached w0 w"
    and "\<And>cs v. list_all (child_of_listing env w0) cs \<Longrightarrow> reached w0 v \<Longrightarrow> Q cs v"
    and "\<And>e v. reached w0 v \<Longrightarrow> E e v"
  shows "wp (loadDirectChildSessions env) C Q E w"
proof -
  have cs: "list_all2 (\<lambda>_ y. child_of_listing env w0 y) xs ys \<Longrightarrow> list_all (child_of_listing env w0) ys"
    for xs :: "session_row list" and ys
    by (auto simp: list_all2_conv_all_nth list_all_length)
  have rows: "wp (collect (filter (\<lambda>r. rw_parentSessionId r = Some (be_sessionId env)) rows)
      (\<lambda>r. bind (getSessionInfo (rw_sessionId r)) (\<lambda>i. ret (managed_child_of r i)))) C Q E u"
    if "FRows rows \<in> set (fl_replies v)" "kept_client v u" "reached w0 v" for rows u v
  proof (rule wp_collect [where I = "reached w0" and P = "\<lambda>_ y. child_of_listing env w0 y"])
    show "reached w0 u" using that reached_kept by blast
    show "wp (bind (getSessionInfo (rw_sessionId r)) (\<lambda>i. ret (managed_child_of r i))) C
        (\<lambda>y u. reached w0 u \<and> child_of_listing env w0 y) (\<lambda>e u. reached w0 u) v'"
      if "r \<in> set (filter (\<lambda>r. rw_parentSessionId r = Some (be_sessionId env)) rows)" "reached w0 v'" for r v'
      by (rule wp_one_child [OF assms(1) _ that(1) that(2)])
         (use \<open>FRows rows \<in> _\<close> reached_fields(2) [OF \<open>reached w0 v\<close>] in blast)+
  qed (auto intro: assms(3,4) cs)
  show ?thesis
    unfolding loadDirectChildSessions_def
    by (intro wp_andThen wp_bind wp_getInlineClient [OF _ assms(2)] wp_listRows)
       (simp_all add: assms(1) assms(4) may_read_def rows reached_kept)
qed

subsection \<open>Managing children\<close>

lemma wp_resolveManagedChild:
  assumes "\<And>c. may_read env w0 c \<Longrightarrow> C c" "reached w0 w"
    and "\<And>c v. ch_orchId c = orch_id (ch_sessionId c) \<Longrightarrow> own_agent env w0 (ch_sessionId c) \<Longrightarrow>
           reached w0 v \<Longrightarrow> Q c v"
    and "\<And>e v. reached w0 v \<Longrightarrow> E e v"
  shows "wp (resolveManagedChild env agentId) C Q E w"
proof -
  have ok: "ch_orchId c = orch_id (ch_sessionId c) \<and> own_agent env w0 (ch_sessionId c)"
    if "list_all (child_of_listing env w0) cs" "find P cs = Some c" "\<not> ch_isSystem c" for cs P c
  proof -
    have "c \<in> set cs" using that(2) by (auto simp: find_Some_iff)
    then show ?thesis using that(1,3) by (auto simp: list_all_iff child_of_listing_def)
  qed
  show ?thesis
    unfolding resolveManagedChild_def Let_def
    by (intro wp_bind wp_loadDirectChildSessions [OF assms(1) assms(2)] wp_option wp_if wp_throw wp_ret)
       (simp_all add: assms(3,4) ok)
qed

lemma manage_own:
  "may_read env w c \<Longrightarrow> may_manage env w c"
  "own_agent env w s \<Longrightarrow> may_manage env w (EnqueueEvent (orch_id s) ''messages'' m)"
  "own_agent env w s \<Longrightarrow> may_manage env w (CatalogDelete s)"
  "own_agent env w s \<Longrightarrow> may_manage env w (DeleteFacts s)"
  "own_agent env w s \<Longrightarrow> may_manage env w (CancelInstance (orch_id s) r)"
  "may_manage env w ConnectClient" "may_manage env w CatalogList" "may_manage env w (CatalogGet s)"
  by (simp_all add: may_manage_def may_read_def)

definition bracketed :: "string \<Rightarrow> bool" where
  "bracketed s \<longleftrightarrow> starts_with s ''[SYSTEM: ''"

lemma bracketed_simps [simp]: "bracketed (''[SYSTEM: '' @ s)"
  "bracketed (CHR ''['' # CHR ''S'' # CHR ''Y'' # CHR ''S'' # CHR ''T'' # CHR ''E'' # CHR ''M'' # CHR '':'' # CHR '' '' # s)"
  by (simp_all add: bracketed_def starts_with_def)

lemma wp_failing:
  assumes "wp m C (\<lambda>x _. bracketed x) (\<lambda>_ _. True) w"
  shows "wp (failing tool m) C (\<lambda>x _. bracketed x) (\<lambda>_ _. False) w"
  unfolding failing_def by (rule wp_catch, rule wp_mono [OF assms]) (auto intro: wp_ret)

lemma wp_client:
  assumes "C ConnectClient" "\<And>v. Q () v" "\<And>e v. E e v"
  shows "wp (getInlineClient env) C Q E w"
proof (rule wp_getInlineClient)
  show "reached w w" by simp
qed (simp_all add: assms)

lemma wp_with_child:
  assumes "\<And>c v. ch_orchId c = orch_id (ch_sessionId c) \<Longrightarrow> own_agent env w (ch_sessionId c) \<Longrightarrow>
     wp (f c) (may_manage env w) (\<lambda>x _. bracketed x) (\<lambda>_ _. True) v"
  shows "wp (failing tool (bind (resolveManagedChild env agentId) f)) (may_manage env w)
     (\<lambda>x _. bracketed x) (\<lambda>_ _. False) w"
  by (rule wp_failing, rule wp_bind, rule wp_resolveManagedChild [OF manage_own(1) reached_refl])
     (simp_all add: assms)

lemma wp_inlineMessage:
  "wp (inlineMessage env agentId msg) (may_manage env w) (\<lambda>x _. bracketed x) (\<lambda>_ _. False) w"
  unfolding inlineMessage_def
  by (rule wp_with_child, intro wp_rules wp_client wp_ask_unit) (simp_all add: manage_own)

lemma wp_inlineComplete:
  "wp (inlineComplete env now agentId) (may_manage env w) (\<lambda>x _. bracketed x) (\<lambda>_ _. False) w"
  unfolding inlineComplete_def inlineCommand_def
  by (rule wp_with_child, intro wp_rules wp_client wp_ask_unit) (simp_all add: manage_own)

lemma wp_inlineCancel:
  "wp (inlineCancel env now agentId r) (may_manage env w) (\<lambda>x _. bracketed x) (\<lambda>_ _. False) w"
  unfolding inlineCancel_def inlineCommand_def
  by (rule wp_with_child, intro wp_rules wp_client wp_ask_unit) (simp_all add: manage_own)

lemma wp_ask_dropped:
  assumes "C c" "\<And>v. Q () v" "\<And>e v. E e v"
  shows "wp (bind (ask c) (\<lambda>_. ret ())) C Q E w"
  by (rule wp_bind, rule wp_ask) (auto intro: wp_ret assms split: fleet_reply.split)

lemma wp_deleteSession:
  assumes "C (CatalogGet sid)" "C (CatalogDelete sid)" "C (DeleteFacts sid)"
    "C (CancelInstance (orch_id sid) ''Session deleted'')" "\<And>v. Q () v" "\<And>e v. E e v"
  shows "wp (deleteSession sid) C Q E w"
  unfolding deleteSession_def
  by (intro wp_ask_dropped wp_rules wp_catalogGet wp_ask_unit wp_attempt) (simp_all add: assms)

lemma wp_inlineDelete:
  "wp (inlineDelete env now agentId r) (may_manage env w) (\<lambda>x _. bracketed x) (\<lambda>_ _. False) w"
  unfolding inlineDelete_def inlineCommand_def
  by (rule wp_with_child, intro wp_rules wp_client wp_ask_unit wp_deleteSession) (simp_all add: manage_own)

lemma wp_inlineCheck: "wp (inlineCheck env) (may_manage env w) (\<lambda>x _. bracketed x) (\<lambda>_ _. False) w"
  unfolding inlineCheck_def Let_def
  by (rule wp_failing, rule wp_bind, rule wp_loadDirectChildSessions [OF manage_own(1) reached_refl])
     (auto intro!: wp_rules)

lemma wp_inlineListSessions:
  "wp (inlineListSessions env) (may_manage env w) (\<lambda>x _. bracketed x) (\<lambda>_ _. False) w"
  unfolding inlineListSessions_def
  by (rule wp_failing, intro wp_rules wp_client wp_listRows) (simp_all add: manage_own)

subsection \<open>Spawning children\<close>

lemma wp_ensure_child:
  assumes "C (CatalogGet sid)" "C (InstanceStatus (orch_id sid))" "\<And>u. C (CatalogUpdate sid u)"
    "\<And>m. C (EnqueueEvent (orch_id sid) ''messages'' m)"
    "\<And>i v. in_nestingLevel i = fl_levels w sid \<Longrightarrow> in_parentSessionId i = keep_truthy (fl_parents w sid) \<Longrightarrow>
       C (StartOrchestration (orch_id sid) i v)"
    "\<And>x v. Q x v" "\<And>e v. E e v"
  shows "wp (ensureOrchestrationAndSend opts sid prompt bootstrap tool) C Q E w"
proof -
  have st: "C (StartOrchestration (orch_id sid) (start_input opts v sid) x)" if "kept_client w v" for v x
    by (rule assms(5)) (simp_all add: start_input_def kept_client_fields [OF that])
  show ?thesis
    unfolding ensureOrchestrationAndSend_def
    by (intro wp_rules wp_refuse_terminal wp_ask_unit) (simp_all add: assms st)
qed

lemma wp_create_child:
  assumes "\<And>g model. g \<in> set (fl_guids w) \<Longrightarrow> C (CatalogCreate g model (rq_parentSessionId rq) False)"
    and "rq_sessionId rq = None" "rq_nestingLevel rq = Some n"
    and "\<And>g v. g \<in> set (fl_guids w) \<Longrightarrow> fl_levels v g = Some n \<Longrightarrow>
       (truthy (rq_parentSessionId rq) \<Longrightarrow> fl_parents v g = rq_parentSessionId rq) \<Longrightarrow> Q g v"
    and "\<And>e v. E e v"
  shows "wp (createSession opts rq) C Q E w"
  unfolding createSession_def assms(2)
  by (simp only: option.case, intro wp_rules wp_randomUUID wp_ask_unit)
     (auto simp: assms(1,3,5) kept_client_fields truthy_def or_str_def split: option.splits intro!: assms(4))

lemma spawn_own:
  "may_read env w c \<Longrightarrow> may_spawn env w c"
  "may_spawn env w ConnectClient" "may_spawn env w CatalogList" "may_spawn env w (CatalogGet s)"
  "may_spawn env w (InstanceStatus s)"
  by (simp_all add: may_spawn_def may_read_def)

lemma spawn_new:
  assumes "g \<in> set (fl_guids w)" "be_nestingLevel env < MAX_NESTING_LEVEL"
  shows "may_spawn env w (CatalogCreate g m (Some (be_sessionId env)) False)"
    "may_spawn env w (CatalogUpdate g u)" "may_spawn env w (EnqueueEvent (orch_id g) ''messages'' msg)"
    "in_nestingLevel i = Some (Suc (be_nestingLevel env)) \<Longrightarrow>
     be_sessionId env = [] \<or> in_parentSessionId i = Some (be_sessionId env) \<Longrightarrow>
       may_spawn env w (StartOrchestration (orch_id g) i v)"
  using assms by (simp_all add: may_spawn_def)

lemma wp_inlineLaunch:
  assumes "be_nestingLevel env < MAX_NESTING_LEVEL" "reached w0 w"
  shows "wp (inlineLaunch env r b) (may_spawn env w0) (\<lambda>x _. bracketed x) (\<lambda>_ _. True) w"
proof -
  have g: "reached w0 v \<Longrightarrow> g \<in> set (fl_guids v) \<Longrightarrow> g \<in> set (fl_guids w0)" for g v
    by (simp add: reached_fields)
  have start: "may_spawn env w0 (StartOrchestration (orch_id sid) i v)"
    if "sid \<in> set (fl_guids w0)" "in_nestingLevel i = Some (Suc (be_nestingLevel env))"
      "in_parentSessionId i = keep_truthy p" "be_sessionId env \<noteq> [] \<Longrightarrow> p = Some (be_sessionId env)"
    for sid i v p
    by (rule spawn_new(4) [OF that(1) assms(1) that(2)])
       (cases "be_sessionId env = []", use that(3,4) in \<open>simp_all add: keep_truthy_def truthy_def\<close>)
  have send: "wp (send (be_opts env) sid (sb_task b) True) (may_spawn env w0) (\<lambda>_ v. Q v) (\<lambda>_ _. True) v"
    if "sid \<in> set (fl_guids w0)" "fl_levels v sid = Some (Suc (be_nestingLevel env))"
      "be_sessionId env \<noteq> [] \<Longrightarrow> fl_parents v sid = Some (be_sessionId env)" "\<And>v. Q v" for sid v Q
    unfolding send_def
    by (intro wp_rules wp_ensure_child)
       (simp_all add: that spawn_own spawn_new [OF that(1) assms(1)] start [OF that(1)])
  have go: "wp (andThen (doing [
        cond (be_catalog env) (case child_meta b e sid of None \<Rightarrow> ret () | Some u \<Rightarrow> ask_unit (CatalogUpdate sid u)),
        send (be_opts env) sid (sb_task b) True, bufferEvent env t d]) (ret (inlineSpawned (orch_id sid) r b)))
      (may_spawn env w0) (\<lambda>x _. bracketed x) (\<lambda>_ _. True) v"
    if "sid \<in> set (fl_guids w0)" "fl_levels v sid = Some (Suc (be_nestingLevel env))"
      "be_sessionId env \<noteq> [] \<Longrightarrow> fl_parents v sid = Some (be_sessionId env)" for sid v e t d
    unfolding bufferEvent_def inlineSpawned_def
    by (intro send wp_rules wp_ask_unit) (simp_all add: kept_client_fields that spawn_new [OF that(1) assms(1)])
  show ?thesis
    unfolding inlineLaunch_def Let_def
    apply (rule wp_andThen, rule wp_getInlineClient [OF _ assms(2)], rule spawn_own(2), rule wp_sum)
      apply (rule wp_throw, simp)
     apply (rule wp_bind, rule wp_create_child [where n = "Suc (be_nestingLevel env)"])
         apply (simp add: child_request_def spawn_new [OF g assms(1)])
        apply (simp add: child_request_def)
       apply (simp add: child_request_def)
      apply (rule go)
        apply (simp_all add: child_request_def g truthy_def)
    done
qed

lemma wp_inlineGuard:
  assumes "be_nestingLevel env < MAX_NESTING_LEVEL" "reached w0 w"
  shows "wp (inlineGuard env r existing b) (may_spawn env w0) (\<lambda>x _. bracketed x) (\<lambda>_ _. True) w"
  unfolding inlineGuard_def
  by (intro wp_if wp_option wp_inlineLaunch [OF assms] wp_ret) simp_all

lemma wp_inlineSpawn:
  "wp (inlineSpawn env r) (may_spawn env w) (\<lambda>x _. bracketed x) (\<lambda>_ _. False) w"
proof -
  have "wp (let existing = filter (\<lambda>c. \<not> ch_isSystem c) children; n = length (filter is_running existing) in
       if MAX_SUB_AGENTS \<le> n then ret (note1 n)
       else if truthy (sp_agentName r)
       then (let name = or_str (sp_agentName r) [] in
         case resolveAgentConfigInline (be_userAgents env) (be_systemAgents env) name of
           None \<Rightarrow> ret (note2 name)
         | Some def \<Rightarrow> if worker_managed def then ret (note3 name)
             else inlineGuard env r existing (applyAgentDef r def False (unbound r)))
       else inlineGuard env r existing (unbound r))
      (may_spawn env w) (\<lambda>x _. bracketed x) (\<lambda>e v. wp (ret (note4 e)) (may_spawn env w) (\<lambda>x _. bracketed x) (\<lambda>_ _. False) v) v"
    if "be_nestingLevel env < MAX_NESTING_LEVEL" "reached w v"
      "\<And>n. bracketed (note1 n)" "\<And>n. bracketed (note2 n)" "\<And>n. bracketed (note3 n)" "\<And>n. bracketed (note4 n)"
    for children v note1 note2 note3 note4
    unfolding Let_def
    by (intro wp_if wp_option wp_mono [OF wp_inlineGuard [OF that(1,2)]] wp_ret) (simp_all add: that)
  note body = this
  show ?thesis
    unfolding inlineSpawn_def Let_def
    apply (rule wp_catch, rule wp_if, rule wp_ret, simp)
    apply (rule wp_bind, rule wp_loadDirectChildSessions [OF spawn_own(1) reached_refl], assumption)
     apply (rule body [unfolded Let_def]; simp)
    apply (rule wp_ret, simp)
    done
qed

subsection \<open>Waiting for children\<close>

text \<open>
  The agents a turn is made to wait for are children of its session.
\<close>

lemma wp_resolveWaitForAgents:
  "wp (resolveWaitForAgents env ids) (may_read env w)
     (\<lambda>os _. list_all (\<lambda>o1. own_agent env w (session_of o1)) os) (\<lambda>_ _. True) w"
proof -
  have own: "list_all (\<lambda>c. own_agent env w (session_of (ch_orchId c))) (filter P cs)"
    if "list_all (child_of_listing env w) cs" "\<And>c. P c \<Longrightarrow> \<not> ch_isSystem c" for cs P
    using that by (auto simp: list_all_iff child_of_listing_def)
  have asked: "wp (collect is (\<lambda>i. bind (resolveManagedChild env i) (\<lambda>c. ret (ch_orchId c)))) (may_read env w)
     (\<lambda>os _. list_all (\<lambda>o1. own_agent env w (session_of o1)) os) (\<lambda>_ _. True) v"
    if "reached w v" for "is" v
  proof (rule wp_collect [where I = "reached w" and P = "\<lambda>_ o1. own_agent env w (session_of o1)"])
    show "wp (bind (resolveManagedChild env i) (\<lambda>c. ret (ch_orchId c))) (may_read env w)
       (\<lambda>o1 u. reached w u \<and> own_agent env w (session_of o1)) (\<lambda>e u. reached w u) u" if "reached w u" for i u
      by (rule wp_bind, rule wp_resolveManagedChild [OF _ that]) (auto intro: wp_ret)
  qed (use that in \<open>auto simp: list_all2_conv_all_nth list_all_length\<close>)
  show ?thesis
    unfolding resolveWaitForAgents_def Let_def
    by (rule wp_bind, rule wp_loadDirectChildSessions [OF _ reached_refl])
       (auto intro!: wp_ret asked own simp: list.pred_map o_def)
qed

subsection \<open>The bridge as a whole\<close>

text \<open>
  An operation answers with a note for the model; only the one behind \<open>wait_for_agents\<close> answers
  with the orchestration ids the turn is to wait for.
\<close>

datatype bridge_call =
    BSpawn spawn_args
  | BMessage string string
  | BCheck
  | BWaitForAgents "string list option"
  | BListSessions
  | BComplete string
  | BCancel string "string option"
  | BDelete string "string option"

datatype bridge_answer = BText string | BAgents "string list"

definition bridgeCall :: "bridge_env \<Rightarrow> nat \<Rightarrow> bridge_call \<Rightarrow> bridge_answer fleetp" where
  "bridgeCall env now c = (let note = (\<lambda>m. bind m (\<lambda>x. ret (BText x))) in case c of
       BSpawn r \<Rightarrow> note (inlineSpawn env r)
     | BMessage a msg \<Rightarrow> note (inlineMessage env a msg)
     | BCheck \<Rightarrow> note (inlineCheck env)
     | BWaitForAgents ids \<Rightarrow> bind (resolveWaitForAgents env ids) (\<lambda>os. ret (BAgents os))
     | BListSessions \<Rightarrow> note (inlineListSessions env)
     | BComplete a \<Rightarrow> note (inlineComplete env now a)
     | BCancel a r \<Rightarrow> note (inlineCancel env now a r)
     | BDelete a r \<Rightarrow> note (inlineDelete env now a r))"

definition permitted :: "bridge_env \<Rightarrow> fleet \<Rightarrow> bridge_call \<Rightarrow> fleet_call \<Rightarrow> bool" where
  "permitted env w c = (case c of
       BSpawn _ \<Rightarrow> may_spawn env w
     | BWaitForAgents _ \<Rightarrow> may_read env w
     | _ \<Rightarrow> may_manage env w)"

text \<open>What an operation may answer with, and which operation may fail.\<close>

definition awaits :: "bridge_call \<Rightarrow> bool" where
  "awaits c = (case c of BWaitForAgents _ \<Rightarrow> True | _ \<Rightarrow> False)"

definition proper_answer :: "bridge_env \<Rightarrow> fleet \<Rightarrow> bridge_call \<Rightarrow> bridge_answer \<Rightarrow> bool" where
  "proper_answer env w c a = (case a of
       BText note \<Rightarrow> \<not> awaits c \<and> starts_with note ''[SYSTEM: ''
     | BAgents os \<Rightarrow> awaits c \<and> list_all (\<lambda>o1. own_agent env w (session_of o1)) os)"

lemma wp_note:
  assumes "wp m C (\<lambda>x _. bracketed x) (\<lambda>_ _. False) w" "\<not> awaits c"
  shows "wp (bind m (\<lambda>x. ret (BText x))) C (\<lambda>a _. proper_answer env w0 c a) (\<lambda>_ _. False) w"
  by (rule wp_bind, rule wp_mono [OF assms(1)])
     (auto intro!: wp_ret simp: proper_answer_def assms(2) bracketed_def)

lemma wp_bridgeCall:
  "wp (bridgeCall env now c) (permitted env w c) (\<lambda>a _. proper_answer env w c a) (\<lambda>_ _. awaits c) w"
proof (cases "awaits c")
  case True
  then obtain ids where c: "c = BWaitForAgents ids" by (auto simp: awaits_def split: bridge_call.splits)
  have "permitted env w c = may_read env w" by (simp add: c permitted_def)
  then show ?thesis
    unfolding bridgeCall_def c Let_def bridge_call.case
    by (simp only:, intro wp_bind wp_mono [OF wp_resolveWaitForAgents])
       (auto intro!: wp_ret simp: proper_answer_def awaits_def)
next
  case False
  note ops = wp_inlineSpawn wp_inlineMessage wp_inlineCheck wp_inlineListSessions wp_inlineComplete
    wp_inlineCancel wp_inlineDelete
  show ?thesis
    unfolding bridgeCall_def Let_def
    using False by (cases c) (simp_all add: ops [THEN wp_note] permitted_def,
        simp_all add: ops [THEN wp_note] awaits_def)
qed

text \<open>
  C14: The bridge stays in the family: every event it queues, every row it deletes, every instance it
  cancels belongs to a session that the catalog lists as a child of the turn's own session and not as
  a system session, and what it creates is a child of this session, one level deeper and within the
  deepest level - whatever agent the model names and however catalog and runtime answer.
\<close>

theorem bridge_stays_in_the_family:
  "list_all (permitted env w c) (new_calls (bridgeCall env now c) w)"
  by (rule wp_new_calls [OF wp_bridgeCall])

text \<open>
  C34: What the bridge answers. Seven of its eight operations never throw, whatever fails behind them:
  each returns a note in the [SYSTEM: ...] form, unless an answer is still outstanding. The eighth,
  resolveWaitForAgents, has no catch of its own and is the only one that may throw into the turn; when
  it returns, every orchestration the turn is made to wait for belongs to a session that the catalog
  lists as a child of the turn's own session and not as a system session.
\<close>

theorem bridge_always_answers:
  "case fst (bridgeCall env now c w) of
     Ret a \<Rightarrow> proper_answer env w c a
   | Throw e \<Rightarrow> (\<exists>ids. c = BWaitForAgents ids)
   | Stop h \<Rightarrow> True"
  using wp_bridgeCall [of env now c w] unfolding wp_def awaits_def
  by (auto split: outcome.splits bridge_call.splits)

text \<open>
  With twenty children running a spawn through the bridge is refused right after the listing, and
  at the deepest level before it: no agent definition is resolved and nothing is created.
\<close>

theorem bridge_limits_spawning:
  assumes "loadDirectChildSessions env w = (Ret cs, v)"
    and "MAX_SUB_AGENTS \<le> length (filter is_running (filter (\<lambda>c. \<not> ch_isSystem c) cs))"
  shows "\<exists>note. inlineSpawn env r w =
     (Ret note, if be_nestingLevel env < MAX_NESTING_LEVEL then v else w)"
  using assms by (simp add: inlineSpawn_def try_catch_def bind_def ret_def Let_def)

definition parent_env :: bridge_env where
  "parent_env = \<lparr> be_sessionId = ''p'', be_nestingLevel = 0, be_config = blank_config, be_storeUrl = True,
     be_catalog = True, be_userAgents = [], be_systemAgents = [], be_registry = None,
     be_opts = sample_options \<rparr>"

definition busy_fleet :: fleet where
  "busy_fleet = (let r = sample_row ''running'' (Some ''p'') False;
       rep = no_report\<lparr>rr_view := (rr_view no_report)\<lparr>rv_status := Some ''running''\<rparr>\<rparr> in
     (sample_fleet (FRows (replicate 20 r) # concat (replicate 20 [FRow (Some r), FReport rep])))
       \<lparr>fl_started := True\<rparr>)"

text \<open>
  The eighth operation does throw: an agent that the catalog does not list fails the whole call.
\<close>

definition childless_fleet :: fleet where
  "childless_fleet = (sample_fleet [FRows [], FRows []])\<lparr>fl_started := True\<rparr>"

theorem waiting_for_a_stranger_throws:
  "case fst (bridgeCall parent_env 0 (BWaitForAgents (Some [''x''])) childless_fleet) of
     Throw e \<Rightarrow> True | _ \<Rightarrow> False"
  by code_simp

definition sample_spawn :: spawn_args where
  "sample_spawn = \<lparr> sp_task = ''t'', sp_model = None, sp_reasoningEffort = None, sp_systemMessage = None,
     sp_toolNames = None, sp_agentName = None, sp_title = None \<rparr>"

lemma busy_children:
  "case loadDirectChildSessions parent_env busy_fleet of
     (Ret cs, v) \<Rightarrow> MAX_SUB_AGENTS \<le> length (filter is_running (filter (\<lambda>c. \<not> ch_isSystem c) cs))
   | _ \<Rightarrow> False"
  by code_simp

theorem bridge_limits_spawning_witness:
  "\<exists>note. inlineSpawn parent_env sample_spawn busy_fleet =
     (Ret note, snd (loadDirectChildSessions parent_env busy_fleet))"
proof -
  obtain cs v where "loadDirectChildSessions parent_env busy_fleet = (Ret cs, v)"
    "MAX_SUB_AGENTS \<le> length (filter is_running (filter (\<lambda>c. \<not> ch_isSystem c) cs))"
    using busy_children by (auto split: prod.splits outcome.splits)
  from bridge_limits_spawning [OF this] this(1) show ?thesis
    by (simp add: parent_env_def MAX_NESTING_LEVEL_def)
qed

end
