(* ===== verification/ActivityGuarantees.thy ===== *)
theory ActivityGuarantees
  imports SessionActivities BridgeGuarantees "HOL-Library.Sublist"
begin

text \<open>
  What the activities promise: a client made for an activity is closed again, a dehydration reports its
  outcome whatever becomes of the catalog, a child is started as the orchestration asked for - but
  without its reasoning effort -, a live system child is reused, locked and system titles are left
  alone and written titles are short and keep the agent's prefix.
\<close>

subsection \<open>Clients of one activity\<close>

lemma wp_finalizing:
  assumes "wp m C (\<lambda>x. wp f C (\<lambda>_. Q x) E) (\<lambda>e. wp f C (\<lambda>_. E e) E) w"
  shows "wp (finalizing m f) C Q E w"
  unfolding finalizing_def
  by (rule wp_bind, rule wp_catch, rule wp_bind, rule wp_mono [OF assms])
     (auto intro!: wp_ret wp_andThen wp_throw elim!: wp_mono)

text \<open>What the body of an activity finds: a started client that knows nothing.\<close>

definition fresh_client :: "fleet \<Rightarrow> fleet \<Rightarrow> bool" where
  "fresh_client w v \<longleftrightarrow> fl_started v \<and> fl_guids v = fl_guids w \<and> fl_active v = Map.empty \<and>
     fl_configs v = Map.empty \<and> fl_parents v = Map.empty \<and> fl_levels v = Map.empty \<and>
     fl_system v = [] \<and> fl_agentIds v = Map.empty"

lemma wp_with_client:
  assumes "C ConnectClient" "C CloseClient"
    "\<And>v. fresh_client w v \<Longrightarrow> wp m C (\<lambda>x _. Q x) (\<lambda>_ _. True) v"
  shows "wp (with_client env m) C (\<lambda>x _. Q x) (\<lambda>_ _. True) w"
proof -
  have close: "wp close_client C (\<lambda>_ _. P) E v" if P for P E v
    unfolding close_client_def by (intro wp_rules wp_attempt wp_ask_unit) (simp_all add: assms(2) that)
  have start: "wp start C (\<lambda>_ v. fresh_client w v) (\<lambda>_ _. True) (new_client w)"
    unfolding start_def
    by (intro wp_rules wp_ask_unit) (simp_all add: assms(1) fresh_client_def kept_client_fields, simp_all add: new_client_def)
  show ?thesis
    unfolding with_client_def
    by (intro wp_if wp_throw wp_andThen wp_modify wp_finalizing wp_mono [OF start] wp_mono [OF assms(3)])
       (simp_all add: close new_client_def)
qed

text \<open>
  A client made for an activity is always closed: whatever the activity does with it, and also when
  connecting fails, the activity's last request closes the client and the client is stopped, unless the
  activity is still waiting for an answer.
\<close>

theorem activity_closes_its_client:
  assumes "ae_storeUrl env"
  shows "case with_client env m w of
     (Stop h, v) \<Rightarrow> True
   | (_, v) \<Rightarrow> last (fl_calls v) = CloseClient \<and> \<not> fl_started v"
proof -
  have c: "close_client v = (Ret x, u) \<Longrightarrow> last (fl_calls u) = CloseClient \<and> \<not> fl_started u"
    "close_client v \<noteq> (Throw e, u)" for v x u e
    by (cases "fl_replies v"; auto simp: close_client_def fleet_simps split: fleet_reply.splits)+
  show ?thesis
    using assms
    by (auto simp: with_client_def finalizing_def andThen_def bind_def modify_def ret_def throw_def
        try_catch_def c dest!: c(1) split: prod.splits outcome.splits)
qed

definition sample_activity :: activity_env where
  "sample_activity = \<lparr> ae_storeUrl = True, ae_catalog = True, ae_provider = True, ae_summaryProvider = True,
     ae_registry = None, ae_childUUID = (\<lambda>p a. p @ ''/'' @ a), ae_policy = None,
     ae_allowedAgentNames = [] \<rparr>"

theorem activity_closes_its_client_witness:
  "case cancelSession sample_activity ''c1'' None (sample_fleet [FOk, FErr ''gone'', FOk]) of
     (Stop h, v) \<Rightarrow> True
   | (_, v) \<Rightarrow> last (fl_calls v) = CloseClient \<and> \<not> fl_started v"
  unfolding cancelSession_def by (rule activity_closes_its_client) (simp add: sample_activity_def)

subsection \<open>Children\<close>

text \<open>The requests a spawn may make, besides reading and connecting.\<close>

abbreviation child_ids :: "activity_env \<Rightarrow> spawn_input \<Rightarrow> fleet \<Rightarrow> string list" where
  "child_ids env i w \<equiv> (if si_isSystem i \<and> truthy (si_agentId i)
     then [ae_childUUID env (si_parentSessionId i) (or_str (si_agentId i) [])] else fl_guids w)"

definition spawns_as_asked :: "activity_env \<Rightarrow> spawn_input \<Rightarrow> fleet \<Rightarrow> fleet_call \<Rightarrow> bool" where
  "spawns_as_asked env i w c =
     (let sids = child_ids env i w
      in case c of
        CatalogCreate s m p b \<Rightarrow> s \<in> set sids \<and> p = Some (si_parentSessionId i) \<and> \<not> b
      | CatalogUpdate s u \<Rightarrow> s \<in> set sids
      | StartOrchestration o1 j v \<Rightarrow> session_of o1 \<in> set sids \<and>
          in_parentSessionId j = keep_truthy (Some (si_parentSessionId i)) \<and>
          in_nestingLevel j = si_nestingLevel i \<and> in_agentId j = keep_truthy (si_agentId i) \<and>
          in_isSystem j = (if si_isSystem i then Some True else None) \<and>
          c_systemMessage (in_config j) = c_systemMessage (si_config i) \<and>
          c_reasoningEffort (in_config j) = None
      | EnqueueEvent o1 q m \<Rightarrow> session_of o1 \<in> set sids \<and> m = prompt_message (si_task i) True None
      | ConnectClient \<Rightarrow> True | CloseClient \<Rightarrow> True | CatalogGet s \<Rightarrow> True | InstanceStatus s \<Rightarrow> True
      | _ \<Rightarrow> False)"

text \<open>The client knows the child as asked for.\<close>

definition child_known :: "spawn_input \<Rightarrow> string \<Rightarrow> fleet \<Rightarrow> bool" where
  "child_known i sid w \<longleftrightarrow>
     fl_parents w sid = keep_truthy (Some (si_parentSessionId i)) \<and> fl_levels w sid = si_nestingLevel i \<and>
     fl_agentIds w sid = keep_truthy (si_agentId i) \<and> (sid \<in> set (fl_system w) \<longleftrightarrow> si_isSystem i) \<and>
     (\<exists>c. fl_configs w sid = Some c \<and> c_systemMessage c = c_systemMessage (si_config i) \<and>
        c_reasoningEffort c = None)"

lemma child_known_kept: "child_known i sid w \<Longrightarrow> kept_client w v \<Longrightarrow> child_known i sid v"
  by (simp add: child_known_def kept_client_fields)

lemma child_known_start:
  assumes "child_known i sid w" "session_of o1 = sid"
    "sid \<in> set (child_ids env i u)"
  shows "spawns_as_asked env i u (StartOrchestration o1 (start_input opts w sid) v)"
  using assms by (auto simp: spawns_as_asked_def child_known_def start_input_def serializable_config_def
      client_config_def Let_def)

lemma wp_create_spawned:
  assumes "fl_started w" "fl_active w = Map.empty" "fl_parents w = Map.empty" "fl_levels w = Map.empty"
    "fl_agentIds w = Map.empty" "sid \<in> set (fl_system w) \<longleftrightarrow> si_isSystem i"
    and "\<And>m. C (CatalogCreate sid m (Some (si_parentSessionId i)) False)"
    and "\<And>v. child_known i sid v \<Longrightarrow> fl_started v \<Longrightarrow> fl_active v = Map.empty \<Longrightarrow> Q sid v"
    and "\<And>e v. E e v"
  shows "wp (createSession opts (spawned_request i sid model)) C Q E w"
  unfolding createSession_def
  apply (intro wp_rules wp_randomUUID wp_ask_unit; (clarsimp simp: spawned_request_def assms(7,9))?)
  apply (auto intro!: assms(8) simp: child_known_def kept_client_fields assms(1-6) client_config_def
      keep_truthy_def truthy_def or_str_def blank_config_def split: option.splits)
  done

lemma wp_send_child:
  assumes "child_known i sid w" "\<And>o1 m. session_of o1 = sid \<Longrightarrow> C (EnqueueEvent o1 ''messages'' (prompt_message p b None))"
    "\<And>o1 v x. session_of o1 = sid \<Longrightarrow> child_known i sid v \<Longrightarrow> C (StartOrchestration o1 (start_input opts v sid) x)"
    "C (CatalogGet sid)" "C (InstanceStatus (orch_id sid))" "\<And>u. C (CatalogUpdate sid u)"
    "\<And>v. Q () v" "\<And>e v. E e v"
  shows "wp (send opts sid p b) C Q E w"
  unfolding send_def ensureOrchestrationAndSend_def
  by (intro wp_rules wp_refuse_terminal wp_ask_unit)
     (simp_all add: assms child_known_kept [OF assms(1)])

text \<open>The body of a spawn, from the configuration on and from the client on.\<close>

abbreviation spawn_launch :: "activity_env \<Rightarrow> spawn_input \<Rightarrow> string \<Rightarrow> string fleetp" where
  "spawn_launch env i sid \<equiv>
     (case normalizeModelRef (ae_registry env) (c_model (si_config i)) False of
        Inl e \<Rightarrow> throw e
      | Inr normalizedModel \<Rightarrow>
          bind (createSession activity_options (spawned_request i sid
             (if truthy normalizedModel then normalizedModel else c_model (si_config i)))) (\<lambda>_.
           andThen (doing [
             cond (ae_catalog env) (case spawn_meta i sid of
               None \<Rightarrow> ret () | Some u \<Rightarrow> ask_unit (CatalogUpdate sid u)),
             send activity_options sid (si_task i) True])
           (ret sid)))"

abbreviation spawn_body :: "activity_env \<Rightarrow> spawn_input \<Rightarrow> string \<Rightarrow> string fleetp" where
  "spawn_body env i sid \<equiv>
     bind (if (si_isSystem i \<and> truthy (si_agentId i)) \<and> ae_catalog env then catalogGet sid else ret None) (\<lambda>existing.
       if live_system_child existing then ret sid
       else andThen (cond (si_isSystem i) (modify (\<lambda>w. w\<lparr>fl_system := sid # fl_system w\<rparr>))) (spawn_launch env i sid))"

lemma wp_spawnChildSession:
  "wp (spawnChildSession env i) (spawns_as_asked env i w) (\<lambda>_ _. True) (\<lambda>_ _. True) w"
proof -
  let ?det = "si_isSystem i \<and> truthy (si_agentId i)"
  let ?C = "spawns_as_asked env i w"
  let ?sids = "child_ids env i w"
  have reads: "?C ConnectClient" "?C CloseClient" "\<And>s. ?C (CatalogGet s)" "\<And>s. ?C (InstanceStatus s)"
    by (simp_all add: spawns_as_asked_def)
  have "wp (with_client env m) ?C (\<lambda>_ _. True) (\<lambda>_ _. True) u"
    if "\<And>v. fresh_client u v \<Longrightarrow> wp m ?C (\<lambda>_ _. True) (\<lambda>_ _. True) v" for m :: "string fleetp" and u
    by (rule wp_with_client) (simp_all add: reads that)
  note body = this
  have launch: "wp (spawn_launch env i sid) ?C (\<lambda>_ _. True) (\<lambda>_ _. True) v"
    if "sid \<in> set ?sids" "fl_started v" "fl_active v = Map.empty" "fl_parents v = Map.empty"
      "fl_levels v = Map.empty" "fl_agentIds v = Map.empty" "sid \<in> set (fl_system v) \<longleftrightarrow> si_isSystem i" for sid v
  proof -
    have may: "\<And>m. ?C (CatalogCreate sid m (Some (si_parentSessionId i)) False)" "\<And>u. ?C (CatalogUpdate sid u)"
      "\<And>o1. session_of o1 = sid \<Longrightarrow> ?C (EnqueueEvent o1 ''messages'' (prompt_message (si_task i) True None))"
      "\<And>o1 v x. session_of o1 = sid \<Longrightarrow> child_known i sid v \<Longrightarrow>
         ?C (StartOrchestration o1 (start_input activity_options v sid) x)"
      using that(1) child_known_start [OF _ _ that(1)] by (simp_all add: spawns_as_asked_def Let_def)
    have go: "wp (send activity_options sid (si_task i) True) ?C (\<lambda>_ _. True) (\<lambda>_ _. True) u"
      if "child_known i sid u" for u
      by (rule wp_send_child [OF that]) (simp_all add: reads may)
    show ?thesis
      by (intro wp_sum wp_throw wp_bind wp_create_spawned wp_andThen wp_doing_Cons wp_doing_Nil wp_cond
            wp_option wp_ret wp_ask_unit wp_mono [OF go])
         (simp_all add: may that child_known_kept)
  qed
  have one: "wp (spawn_body env i sid) ?C (\<lambda>_ _. True) (\<lambda>_ _. True) v"
    if "fresh_client u v" "sid \<in> set ?sids" for u v sid
    using that
    by (intro wp_bind wp_if wp_ret wp_andThen wp_cond wp_modify wp_catalogGet launch)
       (simp_all add: reads fresh_client_def kept_client_fields)
  show ?thesis
    unfolding spawnChildSession_def Let_def
    by (intro wp_bind wp_if wp_ret wp_randomUUID body one) auto
qed

text \<open>
  The other half: what a spawn that returns has asked for. \<open>asked n w cs\<close> says that past the first
  \<open>n\<close> requests the requests \<open>cs\<close> were made in this order.
\<close>

definition asked :: "nat \<Rightarrow> fleet \<Rightarrow> fleet_call list \<Rightarrow> bool" where
  "asked n w cs \<longleftrightarrow> n \<le> length (fl_calls w) \<and> subseq cs (drop n (fl_calls w))"

lemma asked_grows: "asked n w cs \<Longrightarrow> fl_calls v = fl_calls w @ es \<Longrightarrow> asked n v cs"
  by (auto simp: asked_def intro: list_emb_prefix)

lemma asked_more: "asked n w cs \<Longrightarrow> fl_calls v = fl_calls w @ [c] \<Longrightarrow> asked n v (cs @ [c])"
  by (auto simp: asked_def intro: list_emb_append_mono)

lemma asked_kept: "asked n w cs \<Longrightarrow> kept_client w v \<Longrightarrow> asked n v cs"
  by (auto simp: kept_client_def intro: asked_grows)

definition child_started :: "spawn_input \<Rightarrow> string \<Rightarrow> fleet_call list \<Rightarrow> bool" where
  "child_started i sid cs \<longleftrightarrow> (\<exists>model j v. subseq
     [CatalogCreate sid model (Some (si_parentSessionId i)) False, StartOrchestration (orch_id sid) j v,
      EnqueueEvent (orch_id sid) ''messages'' (prompt_message (si_task i) True None)] cs)"

definition child_reused :: "activity_env \<Rightarrow> spawn_input \<Rightarrow> string \<Rightarrow> fleet \<Rightarrow> fleet_call list \<Rightarrow> bool" where
  "child_reused env i sid w cs \<longleftrightarrow> si_isSystem i \<and> truthy (si_agentId i) \<and> ae_catalog env \<and>
     (\<exists>r. FRow (Some r) \<in> set (fl_replies w) \<and> live_system_child (Some r)) \<and>
     cs = [ConnectClient, CatalogGet sid, CloseClient]"

lemma wp_create_asked:
  assumes "asked n w []" "fl_started w" "fl_active w = Map.empty"
    and "\<And>m v. asked n v [CatalogCreate sid m (Some (si_parentSessionId i)) False] \<Longrightarrow> fl_started v \<Longrightarrow>
       fl_active v = Map.empty \<Longrightarrow> Q sid v"
  shows "wp (createSession opts (spawned_request i sid model)) (\<lambda>_. True) Q (\<lambda>_ _. True) w"
  unfolding createSession_def
  by (intro wp_rules wp_randomUUID wp_ask_unit_exact)
     (auto simp: spawned_request_def assms(2,3) intro!: assms(4) asked_more [OF assms(1), simplified] split: option.splits)

lemma wp_send_asked:
  assumes "asked n w cs" "fl_started w" "fl_active w sid = None"
    and "\<And>j x v. asked n v (cs @ [StartOrchestration (orch_id sid) j x,
       EnqueueEvent (orch_id sid) ''messages'' (prompt_message p b None)]) \<Longrightarrow> Q () v"
  shows "wp (send opts sid p b) (\<lambda>_. True) Q (\<lambda>_ _. True) w"
proof -
  have "Q () v'"
    if "kept_client w v" "fl_calls v' = fl_calls v @ [StartOrchestration (orch_id sid) j x, u,
        EnqueueEvent (orch_id sid) ''messages'' (prompt_message p b None)]" for v v' j x u
    using that(2) by (intro assms(4) [of _ j x]) (use asked_kept [OF assms(1) that(1)] in
      \<open>auto simp: asked_def intro!: list_emb_append_mono\<close>)
  note fin = this
  have act: "fl_active v sid = None" if "kept_client w v" for v
    using assms(3) kept_client_fields(7) [OF that] by simp
  show ?thesis
    unfolding send_def ensureOrchestrationAndSend_def
    by (intro wp_rules wp_refuse_terminal wp_ask_unit_exact; (simp add: assms(2))?) (auto simp: act intro: fin)
qed

text \<open>The client of the activity: what its body asked, and the closing request.\<close>

lemma wp_with_client_asked:
  assumes "\<And>v. fresh_client w v \<Longrightarrow> fl_calls v = fl_calls w @ [ConnectClient] \<Longrightarrow>
       set (fl_replies v) \<subseteq> set (fl_replies w) \<Longrightarrow> wp m (\<lambda>_. True) Q (\<lambda>_ _. True) v"
    and "\<And>x v u. Q x v \<Longrightarrow> fl_calls u = fl_calls v @ [CloseClient] \<Longrightarrow> Q' x u"
  shows "wp (with_client env m) (\<lambda>_. True) Q' (\<lambda>_ _. True) w"
proof -
  have close: "wp close_client (\<lambda>_. True) (\<lambda>_ u. P u) (\<lambda>_ _. False) v"
    if "\<And>u. fl_calls u = fl_calls v @ [CloseClient] \<Longrightarrow> P u" for P v
    unfolding close_client_def by (intro wp_rules wp_attempt wp_ask_unit_exact) (simp_all add: that)
  have start: "wp start (\<lambda>_. True) (\<lambda>_ v. fresh_client w v \<and> fl_calls v = fl_calls w @ [ConnectClient] \<and>
      set (fl_replies v) \<subseteq> set (fl_replies w)) (\<lambda>_ _. True) (new_client w)"
    by (cases "fl_replies w") (auto simp: wp_def start_def new_client_def fresh_client_def fleet_simps split: fleet_reply.splits)
  have body: "wp m (\<lambda>_. True) (\<lambda>x. wp close_client (\<lambda>_. True) (\<lambda>_. Q' x) (\<lambda>_ _. True))
      (\<lambda>e. wp close_client (\<lambda>_. True) (\<lambda>_ _. True) (\<lambda>_ _. True)) v"
    if "fresh_client w v \<and> fl_calls v = fl_calls w @ [ConnectClient] \<and> set (fl_replies v) \<subseteq> set (fl_replies w)" for v
    by (rule wp_mono [OF assms(1)]) (use that in \<open>auto intro: wp_mono [OF close] assms(2)\<close>)
  show ?thesis
    unfolding with_client_def
    by (intro wp_if wp_throw wp_andThen wp_modify wp_finalizing wp_mono [OF start] body)
       (simp_all add: new_client_def wp_mono [OF close])
qed

lemma wp_catalogGet_exact:
  assumes "\<And>row rs. FRow row \<in> set (fl_replies w) \<Longrightarrow>
     Q row (w\<lparr>fl_calls := fl_calls w @ [CatalogGet sid], fl_replies := rs\<rparr>)"
  shows "wp (catalogGet sid) (\<lambda>_. True) Q (\<lambda>_ _. True) w"
  using assms by (cases "fl_replies w") (auto simp: wp_def fleet_simps split: fleet_reply.splits)

lemma wp_spawn_asked:
  "wp (spawnChildSession env i) (\<lambda>_. True)
     (\<lambda>sid v. sid \<in> set (child_ids env i w) \<and>
        (child_started i sid (drop (length (fl_calls w)) (fl_calls v)) \<or>
         child_reused env i sid w (drop (length (fl_calls w)) (fl_calls v))))
     (\<lambda>_ _. True) w"
proof -
  let ?n = "length (fl_calls w)"
  let ?Q = "\<lambda>sid x v. x = sid \<and> (let cs = drop ?n (fl_calls v) in ?n \<le> length (fl_calls v) \<and>
     (child_started i sid cs \<or> child_reused env i sid w (cs @ [CloseClient])))"
  have started: "?Q sid sid v" if "asked ?n v ([CatalogCreate sid m (Some (si_parentSessionId i)) False] @
      [StartOrchestration (orch_id sid) j x,
       EnqueueEvent (orch_id sid) ''messages'' (prompt_message (si_task i) True None)])" for sid v m j x
    unfolding Let_def using that by (auto simp: asked_def child_started_def)
  have launch: "wp (spawn_launch env i sid) (\<lambda>_. True) (?Q sid) (\<lambda>_ _. True) v"
    if "asked ?n v []" "fl_started v" "fl_active v = Map.empty" for sid v
  proof -
    have go: "wp (send activity_options sid (si_task i) True) (\<lambda>_. True) (\<lambda>_. ?Q sid sid) (\<lambda>_ _. True) u"
      if "asked ?n u [CatalogCreate sid m (Some (si_parentSessionId i)) False]" "fl_started u" "fl_active u = Map.empty"
      for u m
      by (rule wp_send_asked [OF that(1,2)]) (use that(3) started in auto)
    show ?thesis
      by (intro wp_sum wp_throw wp_bind wp_create_asked [OF that] wp_andThen wp_doing_Cons wp_doing_Nil wp_cond
            wp_option wp_ret wp_ask_unit wp_mono [OF go])
         (auto simp: kept_client_fields intro: asked_kept)
  qed
  have one: "wp (spawn_body env i sid) (\<lambda>_. True) (?Q sid) (\<lambda>_ _. True) v"
    if "fresh_client u v" "fl_calls v = fl_calls w @ [ConnectClient]" "set (fl_replies v) \<subseteq> set (fl_replies w)"
    for u v sid
    using that
    by (intro wp_bind wp_if wp_ret wp_andThen wp_cond wp_modify wp_catalogGet_exact launch)
       (auto simp: fresh_client_def asked_def child_reused_def live_system_child_def split: option.splits)
  have closed: "wp (with_client env (spawn_body env i sid)) (\<lambda>_. True)
     (\<lambda>x v. x \<in> set (child_ids env i w) \<and>
        (child_started i x (drop ?n (fl_calls v)) \<or> child_reused env i x w (drop ?n (fl_calls v))))
     (\<lambda>_ _. True) u"
    if "sid \<in> set (child_ids env i w)" "fl_calls u = fl_calls w" "fl_replies u = fl_replies w" for u sid
    by (rule wp_with_client_asked, rule one, assumption)
       (use that in \<open>auto simp: Let_def child_started_def intro: list_emb_prefix\<close>)
  show ?thesis
    unfolding spawnChildSession_def Let_def
    by (intro wp_bind wp_if wp_ret wp_randomUUID closed) auto
qed

text \<open>
  C15: A child is started as the orchestration asked. Whatever catalog and runtime answer, the activity
  creates a row and starts an orchestration only for the child's own id - the fixed one of a system
  child, a new one otherwise - with the parent, the nesting level, the agent, the system flag and the
  system message of the request, and without a reasoning effort. When it returns an id, it has created
  the row of that id, then started its orchestration, then sent it the task of the request as a
  bootstrap prompt - or the id is that of a system child whose row says that it is alive, and then the
  row has only been read.
\<close>

theorem children_start_as_asked:
  "list_all (spawns_as_asked env i w) (new_calls (spawnChildSession env i) w) \<and>
   (case fst (spawnChildSession env i w) of
      Ret sid \<Rightarrow> sid \<in> set (child_ids env i w) \<and>
        (child_started i sid (new_calls (spawnChildSession env i) w) \<or>
         child_reused env i sid w (new_calls (spawnChildSession env i) w))
    | _ \<Rightarrow> True)"
  using wp_new_calls [OF wp_spawnChildSession] wp_spawn_asked [of env i w]
  by (auto simp: wp_def new_calls_def split: outcome.splits)

text \<open>
  The reasoning effort of a child depends on the path it is spawned by: the durable activity starts
  every child without one, even when the configuration the orchestration computed names it, while a
  child that the control bridge creates keeps it.
\<close>

theorem effort_depends_on_the_path:
  "list_all (\<lambda>c. case c of StartOrchestration o1 j v \<Rightarrow> c_reasoningEffort (in_config j) = None | _ \<Rightarrow> True)
     (new_calls (spawnChildSession env i) w) \<and>
   c_reasoningEffort (in_config (requested_input opts (child_request benv b n cfg) sid)) = c_reasoningEffort cfg"
proof
  have "spawns_as_asked env i w c \<Longrightarrow>
      case c of StartOrchestration o1 j v \<Rightarrow> c_reasoningEffort (in_config j) = None | _ \<Rightarrow> True" for c
    by (cases c) (simp_all add: spawns_as_asked_def Let_def)
  then show "list_all (\<lambda>c. case c of StartOrchestration o1 j v \<Rightarrow> c_reasoningEffort (in_config j) = None | _ \<Rightarrow> True)
     (new_calls (spawnChildSession env i) w)"
    by (rule list.pred_mono_strong [OF wp_new_calls [OF wp_spawnChildSession]])
qed (simp add: requested_input_def child_request_def serializable_config_def client_config_def Let_def)

text \<open>
  A system child is spawned once: while its row says that it is alive - any state but completed,
  failed and terminated, so also cancelled - the activity returns its id after reading the row, and
  creates, starts and sends nothing.
\<close>

theorem live_system_child_is_reused:
  assumes "ae_storeUrl env" "ae_catalog env" "si_isSystem i" "truthy (si_agentId i)"
    "fl_replies w = FOk # FRow (Some r) # FOk # rs" "rw_state r \<notin> {''completed'', ''failed'', ''terminated''}"
  shows "fst (spawnChildSession env i w) =
       Ret (ae_childUUID env (si_parentSessionId i) (or_str (si_agentId i) [])) \<and>
     new_calls (spawnChildSession env i) w =
       [ConnectClient, CatalogGet (ae_childUUID env (si_parentSessionId i) (or_str (si_agentId i) [])), CloseClient]"
  using assms
  by (simp add: spawnChildSession_def Let_def with_client_def finalizing_def start_def close_client_def
      new_client_def fleet_simps live_system_child_def new_calls_def)

definition sweeper_input :: spawn_input where
  "sweeper_input = \<lparr> si_parentSessionId = ''p'', si_config = blank_config\<lparr>c_reasoningEffort := Some ''high''\<rparr>,
     si_task = ''sweep'', si_nestingLevel = Some 1, si_isSystem = True, si_title = None,
     si_agentId = Some ''sweeper'', si_splash = None, si_titleIsExplicit = False \<rparr>"

theorem live_system_child_is_reused_witness:
  "fst (spawnChildSession sample_activity sweeper_input
     (sample_fleet [FOk, FRow (Some (sample_row ''cancelled'' (Some ''p'') True)), FOk])) = Ret ''p/sweeper''"
  using live_system_child_is_reused [of sample_activity sweeper_input
      "sample_fleet [FOk, FRow (Some (sample_row ''cancelled'' (Some ''p'') True)), FOk]"
      "sample_row ''cancelled'' (Some ''p'') True" "[]"]
  by (simp add: sample_activity_def sweeper_input_def sample_fleet_def sample_row_def truthy_def or_str_def)

subsection \<open>Messages to ended sessions\<close>

text \<open>
  The refusal to write to a completed child never takes effect: the information the client returns
  has neither parent nor system flag, so a message to any session whose status is not failed is queued,
  be it the completed child of another session.
\<close>

theorem completed_child_still_gets_messages:
  assumes "ae_storeUrl env" "fl_replies w = FOk # FRow (Some r) # FReport rep # FOk # FOk # rs"
    and "reconcile_update (rr_view rep) (row_of r) = None"
    and "deriveStatusFromCmsAndRuntime (rr_view rep) (Some (row_of r)) \<noteq> ''failed''"
  shows "fst (sendToSession env sid msg w) = Ret () \<and>
     EnqueueEvent (orch_id sid) ''messages'' (prompt_message msg False None) \<in>
       set (fl_calls (snd (sendToSession env sid msg w)))"
  using assms
  by (simp add: sendToSession_def with_client_def finalizing_def start_def close_client_def new_client_def
      fleet_simps getSessionInfo_def instanceStatus_def detail_of_def Let_def)

definition ended_child :: session_row where
  "ended_child = sample_row ''completed'' (Some ''p'') False"

definition ended_report :: runtime_report where
  "ended_report = no_report\<lparr>rr_view := (rr_view no_report)\<lparr>rv_status := Some ''completed'',
     rv_turnResultType := Some ''completed''\<rparr>\<rparr>"

lemma ended_child_facts:
  "reconcile_update (rr_view ended_report) (row_of ended_child) = None"
  "deriveStatusFromCmsAndRuntime (rr_view ended_report) (Some (row_of ended_child)) = ''completed''"
  by code_simp+

theorem completed_child_still_gets_messages_witness:
  "EnqueueEvent ''session-c1'' ''messages'' (prompt_message ''hi'' False None) \<in>
     set (fl_calls (snd (sendToSession sample_activity ''c1'' ''hi''
       (sample_fleet [FOk, FRow (Some ended_child), FReport ended_report, FOk, FOk]))))"
  using completed_child_still_gets_messages [of sample_activity
      "sample_fleet [FOk, FRow (Some ended_child), FReport ended_report, FOk, FOk]" ended_child ended_report "[]"
      "''c1''" "''hi''"]
  by (simp add: sample_activity_def sample_fleet_def ended_child_facts orch_id_def)

subsection \<open>Dehydration\<close>

text \<open>What an answer of the session manager says of a failure.\<close>

definition failure_of :: "fleet_reply \<Rightarrow> (string \<times> nat option \<times> string option) option" where
  "failure_of r = (case r of FErr m \<Rightarrow> Some (m, None, None) | FStoreErr m n e \<Rightarrow> Some (m, n, e) | _ \<Rightarrow> None)"

lemma wp_ask_head:
  assumes "fl_replies w = r # rs" "C c"
    "case r of FErr e \<Rightarrow> E e (w\<lparr>fl_calls := fl_calls w @ [c], fl_replies := rs\<rparr>)
       | _ \<Rightarrow> Q r (w\<lparr>fl_calls := fl_calls w @ [c], fl_replies := rs\<rparr>)"
  shows "wp (ask c) C Q E w"
  using assms by (cases r) (simp_all add: wp_def ask_def)

lemma wp_managerDehydrate:
  assumes "fl_replies w = r # rs" "\<And>v. r = FOk \<or> failure_of r \<noteq> None \<Longrightarrow> Q (failure_of r) v"
  shows "wp (managerDehydrate sid reason) (\<lambda>_. True) Q E w"
  unfolding managerDehydrate_def
  apply (rule wp_catch, rule wp_bind, rule wp_ask_head [OF assms(1)], simp)
  using assms(2) by (cases r) (auto simp: failure_of_def intro!: wp_ret wp_stop)

lemma wp_quiet:
  assumes "\<And>v. Q () v"
  shows "wp (attempt (ask_unit c)) (\<lambda>_. True) Q E w"
  by (rule wp_attempt, rule wp_ask_unit) (simp_all add: assms)

lemma wp_size:
  assumes "\<And>x v. Q x v"
  shows "wp (tryReadSnapshotSizeBytes sid) (\<lambda>_. True) Q E w"
  unfolding tryReadSnapshotSizeBytes_def
  by (rule wp_catch, rule wp_bind, rule wp_ask)
     (auto intro!: wp_ret wp_stop assms split: fleet_reply.split)

text \<open>
  A dehydration reports what the session manager did and nothing else: it succeeds without a value
  exactly on success, turns an unavailable snapshot into a lossy handoff that the orchestration can go
  on from, and throws every other error unchanged - the catalog may fail at every write without
  changing the outcome.
\<close>

theorem dehydration_reports_the_outcome:
  "case fst (dehydrateSession env sid reason ed (w\<lparr>fl_replies := r # rs\<rparr>)) of
     Ret x \<Rightarrow> (case failure_of r of
         None \<Rightarrow> r = FOk \<and> x = None
       | Some (m, n, e) \<Rightarrow> isMissingDehydrateSnapshotErrorMessage m \<and>
           x = Some (lossy_handoff_fields sid (default_to reason ''unknown'') (default_to ed []) m n e))
   | Throw m' \<Rightarrow> (case failure_of r of
         None \<Rightarrow> False
       | Some (m, n, e) \<Rightarrow> m = m' \<and> \<not> isMissingDehydrateSnapshotErrorMessage m)
   | Stop h \<Rightarrow> True"
proof -
  have "wp (dehydrateSession env sid reason ed) (\<lambda>_. True)
     (\<lambda>x v. case failure_of r of
         None \<Rightarrow> r = FOk \<and> x = None
       | Some (m, n, e) \<Rightarrow> isMissingDehydrateSnapshotErrorMessage m \<and>
           x = Some (lossy_handoff_fields sid (default_to reason ''unknown'') (default_to ed []) m n e))
     (\<lambda>m' v. case failure_of r of
         None \<Rightarrow> False
       | Some (m, n, e) \<Rightarrow> m = m' \<and> \<not> isMissingDehydrateSnapshotErrorMessage m) (w\<lparr>fl_replies := r # rs\<rparr>)"
    unfolding dehydrateSession_def Let_def recordLossyHandoff_def recordEvents_def
    by (rule wp_bind, rule wp_managerDehydrate [where r = r and rs = rs], simp)
       (auto split: option.split intro!: wp_rules wp_quiet wp_size)
  then show ?thesis by (auto simp: wp_def split: outcome.splits)
qed

subsection \<open>Titles\<close>

text \<open>The title may be written.\<close>

definition title_free :: "session_row option \<Rightarrow> bool" where
  "title_free row = (case row of None \<Rightarrow> True | Some r \<Rightarrow> \<not> rw_isSystem r \<and> \<not> rw_titleLocked r)"

text \<open>A write of a title: only to an unlocked session, at most sixty characters after the prefix.\<close>

definition title_write :: "string \<Rightarrow> session_row option \<Rightarrow> fleet_call \<Rightarrow> bool" where
  "title_write sid row c = (case c of
     CatalogUpdate s u \<Rightarrow>
       (let p = (case keep_truthy (agentTitlePrefix row) of Some p \<Rightarrow> p @ '': '' | None \<Rightarrow> []);
            t = drop (length p) (or_str (ru_title u) [])
        in s = sid \<and> u = no_update\<lparr>ru_title := Some (p @ t)\<rparr> \<and> t \<noteq> [] \<and> length t \<le> 60 \<and> trimmed t \<and>
           title_free row)
   | CatalogGet s \<Rightarrow> s = sid | GetEvents s n \<Rightarrow> s = sid | SummaryStart \<Rightarrow> True | SummaryModel p \<Rightarrow> True
   | _ \<Rightarrow> False)"

lemma length_trim_le: "length (trim s) \<le> length s"
proof -
  have "length (trim_end t) \<le> length t" for t
    unfolding trim_end_def using length_dropWhile_le [of is_ws "rev t"] by simp
  from this [of "trim_start s"] show ?thesis
    using length_dropWhile_le [of is_ws s] by (simp add: trim_def trim_start_def)
qed

lemma wp_persist:
  assumes "title_free row"
  shows "wp (persistSummaryTitle sid row raw) (title_write sid row) (\<lambda>_ _. True) (\<lambda>_ _. True) w"
proof -
  have "length (trim (take 60 raw)) \<le> 60"
    by (rule order.trans [OF length_trim_le]) simp
  then have "trim (take 60 raw) \<noteq> [] \<Longrightarrow> title_write sid row (CatalogUpdate sid (no_update\<lparr>ru_title :=
      Some (case keep_truthy (agentTitlePrefix row) of Some p \<Rightarrow> p @ '': '' @ trim (take 60 raw)
            | None \<Rightarrow> trim (take 60 raw))\<rparr>))"
    using assms by (auto simp: title_write_def Let_def or_str_def trimmed_trim split: option.split)
  then show ?thesis
    unfolding persistSummaryTitle_def Let_def
    by (intro wp_if wp_ret wp_andThen wp_ask_unit) simp_all
qed

text \<open>
  Summarizing a session writes nothing but its title, and only of a session that is neither a
  system session nor locked by its user; the new part of the title is trimmed, not empty and at most
  sixty characters long, and a named agent's prefix stays in front of it - whatever the model answers.
\<close>

theorem summaries_respect_titles:
  "list_all (title_write sid row) (new_calls (summarizeSession env sid) (w\<lparr>fl_replies := FRow row # rs\<rparr>))"
proof (rule wp_new_calls)
  have reads: "title_write sid row (CatalogGet sid)" "title_write sid row (GetEvents sid n)"
    "title_write sid row SummaryStart" "title_write sid row (SummaryModel p)" for n p
    by (simp_all add: title_write_def)
  have fall: "wp (persistSummaryTitle sid row x) (title_write sid row) (\<lambda>_ _. True)
      (\<lambda>_ v. wp (persistSummaryTitle sid row y) (title_write sid row) (\<lambda>_ _. True) (\<lambda>_ _. True) v) v"
    if "title_free row" for x y v
    by (rule wp_mono [OF wp_persist [OF that]]) (simp_all add: wp_persist [OF that])
  have saved: "wp (bind (persistSummaryTitle sid row x) (\<lambda>t. if t \<noteq> [] then ret t else persistSummaryTitle sid row y))
      (title_write sid row) (\<lambda>_ _. True)
      (\<lambda>_ v. wp (persistSummaryTitle sid row y) (title_write sid row) (\<lambda>_ _. True) (\<lambda>_ _. True) v) v"
    if "title_free row" for x y v
    by (rule wp_bind, rule wp_mono [OF wp_persist [OF that]]) (auto intro!: wp_if wp_ret fall that wp_persist)
  have main: "wp (try_catch (andThen (ask_unit SummaryStart)
        (if \<not> ae_summaryProvider env then ret [] else
         bind (bind (ask (SummaryModel p)) (\<lambda>r. case r of FStr t \<Rightarrow> ret (trim t) | _ \<Rightarrow> stop ())) (\<lambda>title.
         bind (persistSummaryTitle sid row title) (\<lambda>t. if t \<noteq> [] then ret t else persistSummaryTitle sid row y))))
      (\<lambda>_. persistSummaryTitle sid row y)) (title_write sid row) (\<lambda>_ _. True) (\<lambda>_ _. True) v"
    if "title_free row" for p y v
    by (intro wp_catch wp_andThen wp_ask_unit wp_if wp_ret, simp_all add: reads wp_persist that)
       (rule wp_bind, rule wp_bind, rule wp_ask,
        auto simp: reads wp_persist that split: fleet_reply.split intro!: wp_ret wp_stop saved)
  show "wp (summarizeSession env sid) (title_write sid row) (\<lambda>_ _. True) (\<lambda>_ _. True) (w\<lparr>fl_replies := FRow row # rs\<rparr>)"
  proof (cases "title_free row")
    case True
    then have f: "\<not> (case row of None \<Rightarrow> False | Some r \<Rightarrow> rw_isSystem r \<or> rw_titleLocked r)"
      by (auto simp: title_free_def split: option.splits)
    show ?thesis
      unfolding summarizeSession_def catalogGet_def Let_def
      apply (rule wp_bind, rule wp_bind, rule wp_ask_head [where r = "FRow row" and rs = rs])
        apply (simp_all add: reads)
      apply (rule wp_ret, simp add: f)
      apply (rule wp_bind, rule wp_bind, rule wp_ask, simp add: reads)
      apply (auto split: fleet_reply.split split del: if_split intro!: wp_ret wp_stop)
      apply (rule wp_if, rule wp_ret, simp, rule main [OF True])
      done
  next
    case False
    then have f: "case row of None \<Rightarrow> False | Some r \<Rightarrow> rw_isSystem r \<or> rw_titleLocked r"
      by (auto simp: title_free_def split: option.splits)
    show ?thesis
      unfolding summarizeSession_def catalogGet_def Let_def
      apply (rule wp_bind, rule wp_bind, rule wp_ask_head [where r = "FRow row" and rs = rs])
        apply (simp_all add: reads)
      apply (rule wp_ret, simp add: f wp_ret)
      done
  qed
qed

text \<open>
  A summary that confirms the title loses it: when the model answers with exactly the title the
  session has, nothing is saved for it, and the words taken from the first message replace the title.
\<close>

theorem confirmed_title_is_replaced:
  assumes "ae_summaryProvider env" "title_free (Some r)" "agentTitlePrefix (Some r) = None"
    "rw_title r = Some t" "trim (take 60 t) = t" "trim t = t" "transcript_lines events \<noteq> []"
    "trim (take 60 (buildFallbackSummaryTitle events)) \<noteq> []"
    "trim (take 60 (buildFallbackSummaryTitle events)) \<noteq> t"
    "fl_replies w = FRow (Some r) # FEvents events # FOk # FStr t # FOk # rs"
  shows "summarizeSession env sid w = (Ret (trim (take 60 (buildFallbackSummaryTitle events))),
     w\<lparr>fl_calls := fl_calls w @ [CatalogGet sid, GetEvents sid 50, SummaryStart, SummaryModel (summaryPrompt events),
         CatalogUpdate sid (no_update\<lparr>ru_title := Some (trim (take 60 (buildFallbackSummaryTitle events)))\<rparr>)],
       fl_replies := rs\<rparr>)"
  using assms
  by (simp add: summarizeSession_def fleet_simps title_free_def persistSummaryTitle_def Let_def)

definition titled_row :: session_row where
  "titled_row = (sample_row ''idle'' None False)\<lparr>rw_title := Some ''Fixing flaky tests''\<rparr>"

definition talk :: "(string \<times> string option) list" where
  "talk = [(''user.message'', Some ''Hello, can you help me?''), (''assistant.message'', Some ''Sure.'')]"

lemma talk_facts:
  "agentTitlePrefix (Some titled_row) = None" "transcript_lines talk \<noteq> []"
  "trim (take 60 (buildFallbackSummaryTitle talk)) = ''Hello can you''"
  "trim (take 60 ''Fixing flaky tests'') = ''Fixing flaky tests''"
  "title_free (Some titled_row)" "rw_title titled_row = Some ''Fixing flaky tests''"
  by code_simp+

theorem confirmed_title_is_replaced_witness:
  "fst (summarizeSession sample_activity ''c1'' (sample_fleet
     [FRow (Some titled_row), FEvents talk, FOk, FStr ''Fixing flaky tests'', FOk])) = Ret ''Hello can you''"
  by (subst confirmed_title_is_replaced [of _ titled_row "''Fixing flaky tests''" talk _ "[]"])
     (simp_all add: talk_facts sample_activity_def sample_fleet_def talk_facts(4) [simplified])

end
