(* ===== verification/SessionStore.thy ===== *)
theory SessionStore
  imports Json OrchMonad "HOL-Library.Char_ord" "HOL-Library.List_Lexorder"
begin

text \<open>
  Model of the session store on the file system (\<open>packages/sdk/src/session-store.ts\<close>): which session
  ids are allowed and where they resolve to, when the directory of a session is ready to be archived,
  how an archive is written, checked and extracted, and the store's operations. Paths are POSIX paths.
  The \<open>tar\<close> program, \<open>JSON.parse\<close> and the host are arguments. Every step on the file system may fail:
  its outcome is the next one of a list. A failing step leaves everything as it was, except for the
  recursive removal of a directory: what that had removed when it failed is gone. Temporary files that an
  operation creates and removes are not part of the state.
\<close>

subsection \<open>Session ids and paths\<close>

definition invalid_session_id :: "string \<Rightarrow> string \<Rightarrow> string" where
  "invalid_session_id why sid = ''Invalid PilotSwarm session id: '' @ why @ '' (received '' @ quote sid @ '')''"

definition posix_basename :: "string \<Rightarrow> string" where
  "posix_basename s = (case filter (\<lambda>x. x \<noteq> []) (split_on (CHR ''/'') s) of [] \<Rightarrow> [] | xs \<Rightarrow> last xs)"

definition backslash :: char where
  "backslash = CHR 0x5C"

text \<open>The error, if any.\<close>

definition validateSessionId :: "string \<Rightarrow> string option" where
  "validateSessionId sid =
     (if sid = [] then Some (invalid_session_id ''must be a nonempty string'' sid)
      else if sid = ''.'' \<or> sid = ''..'' then Some (invalid_session_id (''must not be '' @ [CHR 0x27] @ ''.'' @ [CHR 0x27] @
        '' or '' @ [CHR 0x27] @ ''..'' @ [CHR 0x27]) sid)
      else if str_includes sid ''/'' \<or> str_includes sid [backslash]
      then Some (invalid_session_id ''must not contain path separators'' sid)
      else if list_ex (\<lambda>c. (of_char c :: nat) \<le> 31) sid
      then Some (invalid_session_id ''must not contain NUL or control characters'' sid)
      else if starts_with sid ''/'' then Some (invalid_session_id ''must not be an absolute path'' sid)
      else if posix_basename sid \<noteq> sid then Some (invalid_session_id ''must be a single path segment'' sid)
      else None)"

text \<open>\<open>path.resolve\<close> for an absolute root: empty and \<open>.\<close> segments vanish, \<open>..\<close> removes one.\<close>

fun norm_segments :: "string list \<Rightarrow> string list \<Rightarrow> string list" where
  "norm_segments acc [] = rev acc"
| "norm_segments acc (s # ss) =
     (if s = [] \<or> s = ''.'' then norm_segments acc ss
      else if s = ''..'' then norm_segments (tl acc) ss
      else norm_segments (s # acc) ss)"

definition path_of :: "string list \<Rightarrow> string" where
  "path_of segs = ''/'' @ join ''/'' segs"

definition segments_of :: "string \<Rightarrow> string list" where
  "segments_of p = norm_segments [] (split_on (CHR ''/'') p)"

definition path_resolve :: "string \<Rightarrow> string \<Rightarrow> string" where
  "path_resolve root p =
     path_of (if starts_with p ''/'' then segments_of p
              else norm_segments (rev (segments_of root)) (split_on (CHR ''/'') p))"

definition resolveContainedSessionDir :: "string \<Rightarrow> string \<Rightarrow> string + string" where
  "resolveContainedSessionDir rootDir sid =
     (case validateSessionId sid of
        Some e \<Rightarrow> Inl e
      | None \<Rightarrow>
          (let rootAbs = path_of (segments_of rootDir);
               targetAbs = path_resolve rootAbs sid;
               rootPrefix = (if ends_with rootAbs ''/'' then rootAbs else rootAbs @ ''/'')
           in if \<not> starts_with (targetAbs @ ''/'') rootPrefix
              then Inl (''Invalid PilotSwarm session id: resolved outside base directory '' @ rootAbs @
                     '' (received '' @ quote sid @ '')'')
              else Inr targetAbs))"

subsection \<open>Session directories\<close>

datatype fs_kind = Regular | Directory | Symlink | HardLinked | Special

record fs_node =
  nd_kind :: fs_kind
  nd_data :: string
  nd_mtime :: nat

text \<open>
  A directory tree: every entry under its relative path, in the order a walk meets them. A hard-linked
  file is one with more than one link.
\<close>

type_synonym tree = "(string \<times> fs_node) list"

definition exists_in :: "tree \<Rightarrow> string \<Rightarrow> bool" where
  "exists_in t p = (map_of t p \<noteq> None)"

definition LEGACY_SESSION_FILES :: "string list" where
  "LEGACY_SESSION_FILES = [''events.jsonl'', ''workspace.yaml'']"

definition REQUIRED_SESSION_FILES :: "string list" where
  "REQUIRED_SESSION_FILES = [''workspace.yaml'']"

text \<open>\<open>/^inuse\..+\.lock$/i\<close> on a base name.\<close>

definition is_lock_name :: "string \<Rightarrow> bool" where
  "is_lock_name s = (let t = map to_lower s in
     starts_with t ''inuse.'' \<and> ends_with t ''.lock'' \<and> length t \<ge> 12)"

definition ignored_segments :: "string list \<Rightarrow> bool" where
  "ignored_segments segs = list_ex is_lock_name segs"

text \<open>A walk leaves out lock files, and what lies under a directory of that name.\<close>

definition snapshot_entry :: "string \<times> fs_node \<Rightarrow> string" where
  "snapshot_entry = (\<lambda>(p, n).
     if nd_kind n = Directory then ''dir:'' @ p @ '':'' @ show_nat (nd_mtime n)
     else ''file:'' @ p @ '':'' @ show_nat (length (nd_data n)) @ '':'' @ show_nat (nd_mtime n))"

definition collectSessionSnapshotEntries :: "tree \<Rightarrow> string list" where
  "collectSessionSnapshotEntries t =
     sort (map snapshot_entry (filter (\<lambda>(p, n). \<not> ignored_segments (split_on (CHR ''/'') p)) t))"

definition CURRENT_LAYOUT_SIGNAL_FILES :: "string list" where
  "CURRENT_LAYOUT_SIGNAL_FILES = [''workspace.yaml'']"

definition CURRENT_LAYOUT_SIGNAL_DIRS :: "string list" where
  "CURRENT_LAYOUT_SIGNAL_DIRS = [''checkpoints'', ''files'', ''research'']"

definition isCompleteJsonlSnapshotContent :: "(string \<Rightarrow> json option) \<Rightarrow> string \<Rightarrow> bool" where
  "isCompleteJsonlSnapshotContent parse raw =
     (if raw = [] \<or> \<not> ends_with raw [nl] then False
      else (case find (\<lambda>l. trim l \<noteq> []) (rev (split_on nl raw)) of
              None \<Rightarrow> False
            | Some l \<Rightarrow> parse l \<noteq> None))"

definition isCompleteJsonlSnapshot :: "(string \<Rightarrow> json option) \<Rightarrow> fs_node option \<Rightarrow> bool" where
  "isCompleteJsonlSnapshot parse node = (case node of
       None \<Rightarrow> False
     | Some n \<Rightarrow> nd_kind n \<in> {Regular, HardLinked} \<and> nd_data n \<noteq> [] \<and>
         isCompleteJsonlSnapshotContent parse (nd_data n))"

subsection \<open>Readiness\<close>

text \<open>What lies at an absolute path in the directory, which is itself a directory.\<close>

definition node_at :: "string \<Rightarrow> tree \<Rightarrow> string \<Rightarrow> fs_node option" where
  "node_at sessionDir t p =
     (let rest = drop (length (segments_of sessionDir)) (segments_of p) in
      if rest = [] then Some \<lparr> nd_kind = Directory, nd_data = [], nd_mtime = 0 \<rparr>
      else map_of t (join ''/'' rest))"

text \<open>
  The rollout that the marker names: a relative path that stays in the session's directory and leads to
  a complete regular file.
\<close>

definition checkRollout ::
  "(string \<Rightarrow> json option) \<Rightarrow> string \<Rightarrow> string \<Rightarrow> tree \<Rightarrow> json \<Rightarrow> bool \<times> string list" where
  "checkRollout parse sessionDir sid t rel = (case rel of
       JStr p \<Rightarrow>
         if p = [] then (True, [])
         else if starts_with p ''/''
         then (False, [sid @ ''/codex-thread.json rolloutSnapshotRelPath must be relative (got '' @ p @ '')''])
         else (let absTarget = path_resolve sessionDir p;
                   dirAbs = path_of (segments_of sessionDir) in
           if \<not> starts_with (absTarget @ ''/'') (dirAbs @ ''/'') \<and> absTarget \<noteq> dirAbs
           then (False, [sid @ ''/'' @ p @ '' escapes session directory''])
           else (case node_at sessionDir t absTarget of
               None \<Rightarrow> (False, [sid @ ''/'' @ p @ '' referenced by codex-thread.json (not found)''])
             | Some n \<Rightarrow>
                 if nd_kind n = Symlink then (False, [sid @ ''/'' @ p @ '' is a symbolic link''])
                 else if nd_kind n \<notin> {Regular, HardLinked}
                 then (False, [sid @ ''/'' @ p @ '' is not a regular file''])
                 else if \<not> isCompleteJsonlSnapshot parse (Some n)
                 then (False, [sid @ ''/'' @ p @ '' is an empty or truncated JSONL rollout''])
                 else (True, [])))
     | JNull \<Rightarrow> (True, [])
     | _ \<Rightarrow> (False, [sid @ ''/codex-thread.json rolloutSnapshotRelPath is not a string'']))"

definition checkCodexMarker ::
  "(string \<Rightarrow> json option) \<Rightarrow> string \<Rightarrow> string \<Rightarrow> tree \<Rightarrow> fs_node \<Rightarrow> bool \<times> string list" where
  "checkCodexMarker parse sessionDir sid t marker =
     (if nd_kind marker = Directory
      then (False, [sid @ ''/codex-thread.json unreadable: EISDIR: illegal operation on a directory, read''])
      else case parse (nd_data marker) of
        None \<Rightarrow> (False, [sid @ ''/codex-thread.json is not valid JSON''])
      | Some meta \<Rightarrow>
          (case meta of
             JObj fs \<Rightarrow>
               (case map_of fs ''codexThreadId'' of
                  Some (JStr threadId) \<Rightarrow>
                    if trim threadId = []
                    then (False, [sid @ ''/codex-thread.json missing nonempty codexThreadId''])
                    else checkRollout parse sessionDir sid t (default_to (map_of fs ''rolloutSnapshotRelPath'') JNull)
                | _ \<Rightarrow> (False, [sid @ ''/codex-thread.json missing nonempty codexThreadId'']))
           | _ \<Rightarrow> (False, [sid @ ''/codex-thread.json is not a JSON object''])))"

definition missing_required :: "string \<Rightarrow> tree \<Rightarrow> string list" where
  "missing_required sid t =
     map (\<lambda>f. sid @ ''/'' @ f) (filter (\<lambda>f. \<not> exists_in t f) REQUIRED_SESSION_FILES)"

definition rel_path_of :: "string \<Rightarrow> string" where
  "rel_path_of e = (case split_on (CHR '':'') e of _ # p # _ \<Rightarrow> p | _ \<Rightarrow> [])"

definition layout_signal :: "string \<Rightarrow> bool" where
  "layout_signal e =
     (let k = hd (split_on (CHR '':'') e @ [[]]); p = rel_path_of e in
      p \<noteq> [] \<and> (k = ''file'' \<and> p \<in> set CURRENT_LAYOUT_SIGNAL_FILES \<or>
                k = ''dir'' \<and> p \<in> set CURRENT_LAYOUT_SIGNAL_DIRS \<or>
                hd (split_on (CHR ''/'') p) \<in> set CURRENT_LAYOUT_SIGNAL_DIRS))"

definition legacy_layout :: "tree \<Rightarrow> bool" where
  "legacy_layout t = list_all (exists_in t) LEGACY_SESSION_FILES"

definition checkSessionSnapshot ::
  "(string \<Rightarrow> json option) \<Rightarrow> string \<Rightarrow> string \<Rightarrow> tree option \<Rightarrow> bool \<times> string list" where
  "checkSessionSnapshot parse sessionDir sid dir = (case dir of
       None \<Rightarrow> (False, [sid @ ''/''])
     | Some t \<Rightarrow>
         (case map_of t ''codex-thread.json'' of
            Some marker \<Rightarrow> checkCodexMarker parse sessionDir sid t marker
          | None \<Rightarrow>
              if missing_required sid t = []
              then (if list_ex layout_signal (collectSessionSnapshotEntries t) then (True, [])
                    else (False, [sid @ ''/workspace.yaml or layout signal or codex-thread.json'']))
              else if legacy_layout t then (True, [])
              else (False, missing_required sid t)))"

text \<open>The signal that the waiting loop asks for.\<close>

definition waiting_signal :: "string \<Rightarrow> bool" where
  "waiting_signal e = (let p = rel_path_of e in
     p = ''workspace.yaml'' \<or> p = ''checkpoints'' \<or> starts_with p ''checkpoints/'' \<or>
     p = ''files'' \<or> starts_with p ''files/'' \<or> p = ''research'' \<or> starts_with p ''research/'')"

text \<open>
  The loop of \<open>waitForSessionSnapshot\<close> over what its polls see before the deadline; three equal polls
  in a row make a Copilot directory ready. The last component is the directory as last seen.
\<close>

fun wait_polls ::
  "(string \<Rightarrow> json option) \<Rightarrow> string \<Rightarrow> string \<Rightarrow> tree option list \<Rightarrow> tree option \<Rightarrow> string list \<Rightarrow>
   string \<Rightarrow> nat \<Rightarrow> bool \<times> string list \<times> tree option" where
  "wait_polls parse sessionDir sid [] cur missing lastSignature stableCount =
     (False, if missing = [] then [sid @ ''/snapshot still changing''] else missing, cur)"
| "wait_polls parse sessionDir sid (dir # polls) cur missing lastSignature stableCount =
     (case dir of
        None \<Rightarrow> wait_polls parse sessionDir sid polls None [sid @ ''/''] [] 0
      | Some t \<Rightarrow>
          if exists_in t ''codex-thread.json''
          then (case checkSessionSnapshot parse sessionDir sid dir of
                  (True, _) \<Rightarrow> (True, [], dir)
                | (False, m) \<Rightarrow> wait_polls parse sessionDir sid polls dir m [] 0)
          else if missing_required sid t \<noteq> []
          then wait_polls parse sessionDir sid polls dir (missing_required sid t) [] 0
          else (let entries = collectSessionSnapshotEntries t in
            if \<not> list_ex waiting_signal entries \<and> \<not> legacy_layout t
            then wait_polls parse sessionDir sid polls dir [sid @ ''/workspace.yaml or legacy session files''] [] 0
            else (let signature = join ''|'' entries;
                      n = (if signature = lastSignature then stableCount + 1 else 1) in
              if 3 \<le> n then (True, [], dir) else wait_polls parse sessionDir sid polls dir [] signature n)))"

subsection \<open>Archives\<close>

text \<open>The \<open>tar\<close> program on archives of some type: creating, the two listings, extraction, the size.\<close>

record 'a tar_tool =
  tr_create :: "string \<Rightarrow> string \<Rightarrow> tree \<Rightarrow> 'a"
  tr_names :: "'a \<Rightarrow> string list"
  tr_verbose :: "'a \<Rightarrow> string list"
  tr_extract :: "'a \<Rightarrow> (string \<times> fs_kind \<times> tree) list"
  tr_size :: "'a \<Rightarrow> nat"

record store_meta =
  md_sessionId :: string
  md_worker :: string
  md_sizeBytes :: nat
  md_reason :: "string option"

text \<open>
  The disk: the directories of the session-state root, what hydrations have moved aside, archives and
  metadata, the coming observations of each wait, the names of coming staging directories and the
  outcomes of the coming steps: none, or an error with the paths that a recursive removal had removed by
  then. When no outcome is left, steps succeed.
\<close>

record 'a store_state =
  ss_dirs :: "string \<rightharpoonup> tree"
  ss_backups :: "string \<rightharpoonup> tree"
  ss_archives :: "string \<rightharpoonup> 'a"
  ss_meta :: "string \<rightharpoonup> store_meta"
  ss_polls :: "tree option list list"
  ss_names :: "string list"
  ss_faults :: "(string \<times> string list) option list"

type_synonym ('a, 'x) storep = "('a store_state, unit, 'x) prog"

record 'a store_env =
  se_stateDir :: string
  se_storeDir :: string
  se_hostname :: string
  se_parse :: "string \<Rightarrow> json option"
  se_tar :: "'a tar_tool"

definition fallible :: "('a store_state \<Rightarrow> 'a store_state) \<Rightarrow> ('a, unit) storep" where
  "fallible f s = (case ss_faults s of
       [] \<Rightarrow> (Ret (), f s)
     | None # fs \<Rightarrow> (Ret (), f (s\<lparr>ss_faults := fs\<rparr>))
     | Some (e, _) # fs \<Rightarrow> (Throw e, s\<lparr>ss_faults := fs\<rparr>))"

text \<open>\<open>fs.rmSync(dir, { recursive: true, force: true })\<close>: entries go one by one, the directory last.\<close>

definition partly_removed :: "string list \<Rightarrow> tree \<Rightarrow> tree" where
  "partly_removed gone t = filter (\<lambda>(p, n). p \<notin> set gone) t"

definition removing ::
  "((tree option \<Rightarrow> tree option) \<Rightarrow> 'a store_state \<Rightarrow> 'a store_state) \<Rightarrow> ('a, unit) storep" where
  "removing change s = (case ss_faults s of
       [] \<Rightarrow> (Ret (), change (\<lambda>_. None) s)
     | None # fs \<Rightarrow> (Ret (), change (\<lambda>_. None) (s\<lparr>ss_faults := fs\<rparr>))
     | Some (e, gone) # fs \<Rightarrow> (Throw e, change (map_option (partly_removed gone)) (s\<lparr>ss_faults := fs\<rparr>)))"

definition remove_dir :: "string \<Rightarrow> ('a, unit) storep" where
  "remove_dir sid = removing (\<lambda>f s. s\<lparr>ss_dirs := (ss_dirs s)(sid := f (ss_dirs s sid))\<rparr>)"

definition remove_backup :: "string \<Rightarrow> ('a, unit) storep" where
  "remove_backup b = removing (\<lambda>f s. s\<lparr>ss_backups := (ss_backups s)(b := f (ss_backups s b))\<rparr>)"

definition lift_error :: "string option \<Rightarrow> ('a, unit) storep" where
  "lift_error e = (case e of None \<Rightarrow> ret () | Some m \<Rightarrow> throw m)"

definition win32_absolute :: "string \<Rightarrow> bool" where
  "win32_absolute s = (case s of
       [] \<Rightarrow> False
     | c # r \<Rightarrow> c = CHR ''/'' \<or> c = backslash \<or>
         (let n = (of_char (to_lower c) :: nat) in 97 \<le> n \<and> n \<le> 122) \<and>
         (case r of d # e # _ \<Rightarrow> d = CHR '':'' \<and> (e = CHR ''/'' \<or> e = backslash) | _ \<Rightarrow> False))"

definition without_trailing_slash :: "string \<Rightarrow> string" where
  "without_trailing_slash s = (if ends_with s ''/'' then butlast s else s)"

definition entry_error :: "string \<Rightarrow> string list \<Rightarrow> string \<Rightarrow> string \<Rightarrow> string option" where
  "entry_error expectedSessionId seen rawName line =
     (let type = (case line of [] \<Rightarrow> None | c # _ \<Rightarrow> Some c);
          segments = split_on (CHR ''/'') (without_trailing_slash rawName) in
      if type = Some (CHR ''l'') \<or> type = Some (CHR ''h'')
      then Some (''Session archive contains a link entry: '' @ rawName)
      else if type \<noteq> Some (CHR ''-'') \<and> type \<noteq> Some (CHR ''d'')
      then Some (''Session archive contains unsupported entry type '' @ [CHR 0x22] @
        (case type of None \<Rightarrow> ''unknown'' | Some c \<Rightarrow> [c]) @ [CHR 0x22] @ '': '' @ rawName)
      else if CHR 0x00 \<in> set rawName \<or> CHR 0x0D \<in> set rawName \<or> nl \<in> set rawName
      then Some ''Session archive contains a control character in an entry name''
      else if starts_with rawName ''/'' \<or> win32_absolute rawName \<or> starts_with rawName [backslash] \<or>
              str_includes rawName [backslash]
      then Some (''Session archive contains an absolute or platform-ambiguous entry: '' @ rawName)
      else if without_trailing_slash rawName = [] \<or> list_ex (\<lambda>s. s = [] \<or> s = ''.'' \<or> s = ''..'') segments
      then Some (''Session archive contains a traversal entry: '' @ rawName)
      else if hd segments \<noteq> expectedSessionId
      then Some (''Session archive top-level root must be exactly '' @ [CHR 0x22] @ expectedSessionId @ [CHR 0x22] @
        '' (got '' @ [CHR 0x22] @ hd segments @ [CHR 0x22] @ '')'')
      else if rawName \<in> set seen then Some (''Session archive contains a duplicate entry: '' @ rawName)
      else None)"

fun preflight_entries :: "string \<Rightarrow> string list \<Rightarrow> (string \<times> string) list \<Rightarrow> string option" where
  "preflight_entries sid seen [] = None"
| "preflight_entries sid seen ((rawName, line) # es) =
     (case entry_error sid seen rawName line of
        Some e \<Rightarrow> Some e
      | None \<Rightarrow> preflight_entries sid (rawName # seen) es)"

definition preflightSessionArchive :: "string list \<Rightarrow> string list \<Rightarrow> string \<Rightarrow> string \<Rightarrow> string option" where
  "preflightSessionArchive names verbose tarPath sid =
     (if names = [] then Some (''Session archive is empty: '' @ tarPath)
      else if length verbose \<noteq> length names then Some (''Session archive listing mismatch: '' @ tarPath)
      else preflight_entries sid [] (zip names verbose))"

text \<open>The first offending entry decides; the source meets the entries in another order.\<close>

definition node_error :: "string \<times> fs_node \<Rightarrow> string option" where
  "node_error = (\<lambda>(p, n). case nd_kind n of
       Symlink \<Rightarrow> Some (''Extracted session archive contains a symbolic link: '' @ p)
     | Special \<Rightarrow> Some (''Extracted session archive contains a non-regular file: '' @ p)
     | HardLinked \<Rightarrow> Some (''Extracted session archive contains a hard-linked file: '' @ p)
     | _ \<Rightarrow> None)"

definition validateExtractedSessionTree :: "tree \<Rightarrow> string option" where
  "validateExtractedSessionTree t =
     (case filter (\<lambda>e. e \<noteq> None) (map node_error t) of [] \<Rightarrow> None | e # _ \<Rightarrow> e)"

definition tar_path :: "'a store_env \<Rightarrow> string \<Rightarrow> string" where
  "tar_path env sid = path_resolve (se_storeDir env) (sid @ ''.tar.gz'')"

definition LOCK_GLOB :: string where
  "LOCK_GLOB = ''inuse.*.lock''"

subsection \<open>Writing an archive\<close>

definition finish_with :: "('a, 'x) storep \<Rightarrow> ('a, unit) storep \<Rightarrow> ('a, 'x) storep" where
  "finish_with m f =
     bind (try_catch (bind m (\<lambda>x. ret (Inr x))) (\<lambda>e. ret (Inl e)))
       (\<lambda>r. andThen f (case r of Inl e \<Rightarrow> throw e | Inr x \<Rightarrow> ret x))"

text \<open>
  \<open>tar\<close> into a temporary file, the test that it exists, and the renaming over the final path: only the
  last step changes the archive.
\<close>

definition archiveSessionDirAtomic :: "'a store_env \<Rightarrow> string \<Rightarrow> ('a, unit) storep" where
  "archiveSessionDirAtomic env sid = doing [
     fallible id,
     fallible id,
     inspect (\<lambda>s. fallible (\<lambda>s. s\<lparr>ss_archives := (ss_archives s)(sid \<mapsto>
       tr_create (se_tar env) LOCK_GLOB sid (default_to (ss_dirs s sid) []))\<rparr>))]"

definition buildMetadata :: "'a store_env \<Rightarrow> 'a \<Rightarrow> string \<Rightarrow> string option \<Rightarrow> store_meta" where
  "buildMetadata env arc sid reason =
     \<lparr> md_sessionId = sid, md_worker = se_hostname env, md_sizeBytes = tr_size (se_tar env) arc,
       md_reason = reason \<rparr>"

definition writeMetadataAtomic :: "string \<Rightarrow> store_meta \<Rightarrow> ('a, unit) storep" where
  "writeMetadataAtomic sid m = doing [
     fallible id,
     fallible (\<lambda>s. s\<lparr>ss_meta := (ss_meta s)(sid \<mapsto> m)\<rparr>)]"

text \<open>Each poll sees what the live session has made of the directory by then.\<close>

definition waitForSessionSnapshot :: "'a store_env \<Rightarrow> string \<Rightarrow> ('a, bool \<times> string list) storep" where
  "waitForSessionSnapshot env sid s =
     (case ss_polls s of
        [] \<Rightarrow> (Ret (False, [sid @ ''/'']), s)
      | polls # rest \<Rightarrow>
          (case wait_polls (se_parse env) (path_resolve (se_stateDir env) sid) sid polls (ss_dirs s sid)
                  [sid @ ''/''] [] 0 of
             (r, m, dir) \<Rightarrow> (Ret (r, m), s\<lparr>ss_polls := rest, ss_dirs := (ss_dirs s)(sid := dir)\<rparr>)))"

definition containedDir :: "'a store_env \<Rightarrow> string \<Rightarrow> ('a, string) storep" where
  "containedDir env sid =
     (case resolveContainedSessionDir (se_stateDir env) sid of Inl e \<Rightarrow> throw e | Inr d \<Rightarrow> ret d)"

text \<open>The size of the archive is read once it is in place.\<close>

definition storeMetadata :: "'a store_env \<Rightarrow> string \<Rightarrow> string option \<Rightarrow> ('a, unit) storep" where
  "storeMetadata env sid reason = andThen (fallible id)
     (inspect (\<lambda>s. case ss_archives s sid of
         None \<Rightarrow> throw (''ENOENT: no such file or directory, stat '' @ tar_path env sid)
       | Some arc \<Rightarrow> writeMetadataAtomic sid (buildMetadata env arc sid reason)))"

definition not_ready :: "string \<Rightarrow> string \<Rightarrow> string \<Rightarrow> string list \<Rightarrow> string" where
  "not_ready phase sid dir missing =
     ''Session state directory not ready during '' @ phase @ '': '' @ sid @ '' ('' @ dir @ ''). Missing: '' @
     or_str (Some (join '', '' missing)) ''unknown''"

definition store_dehydrate :: "'a store_env \<Rightarrow> string \<Rightarrow> string option \<Rightarrow> ('a, unit) storep" where
  "store_dehydrate env sid reason =
     bind (containedDir env sid) (\<lambda>sessionDir.
     bind (waitForSessionSnapshot env sid) (\<lambda>(ready, missing).
       if \<not> ready then throw (not_ready ''dehydrate'' sid sessionDir missing)
       else doing [
         archiveSessionDirAtomic env sid,
         inspect (\<lambda>s. cond (ss_archives s sid = None)
           (throw (''Session archive was not created during dehydrate: '' @ sid @ '' ('' @ tar_path env sid @ '')''))),
         storeMetadata env sid reason,
         remove_dir sid]))"

definition store_checkpoint :: "'a store_env \<Rightarrow> string \<Rightarrow> ('a, unit) storep" where
  "store_checkpoint env sid =
     bind (containedDir env sid) (\<lambda>sessionDir.
     inspect (\<lambda>s. if ss_dirs s sid = None then ret ()
       else bind (waitForSessionSnapshot env sid) (\<lambda>(ready, missing).
         if \<not> ready then throw (not_ready ''checkpoint'' sid sessionDir missing)
         else doing [archiveSessionDirAtomic env sid, storeMetadata env sid (Some ''checkpoint'')])))"

subsection \<open>Extracting an archive\<close>

text \<open>What lies in the staging directory after extraction must be the session's directory alone.\<close>

definition staged_tree :: "string \<Rightarrow> (string \<times> fs_kind \<times> tree) list \<Rightarrow> string + tree" where
  "staged_tree sid layout =
     (case layout of
        [(name, kind, t)] \<Rightarrow>
          if name \<noteq> sid
          then Inl (''Session archive extracted an unexpected top-level layout: '' @ name)
          else if kind \<noteq> Directory
          then Inl (''Session archive root is not a regular directory: '' @ sid)
          else (case validateExtractedSessionTree t of Some e \<Rightarrow> Inl e | None \<Rightarrow> Inr t)
      | _ \<Rightarrow> Inl (''Session archive extracted an unexpected top-level layout: '' @
          or_str (Some (join '', '' (map fst layout))) ''<empty>''))"

text \<open>
  The existing directory is moved aside, the staged one is moved in; when that fails and nothing is in
  its place, the first is moved back.
\<close>

definition installStaged :: "string \<Rightarrow> string \<Rightarrow> tree \<Rightarrow> ('a, unit) storep" where
  "installStaged backup sid t =
     inspect (\<lambda>s0.
       let move_in = fallible (\<lambda>s. s\<lparr>ss_dirs := (ss_dirs s)(sid \<mapsto> t)\<rparr>) in
       (case ss_dirs s0 sid of
          None \<Rightarrow> move_in
        | Some old \<Rightarrow> doing [
            fallible (\<lambda>s. s\<lparr>ss_dirs := (ss_dirs s)(sid := None), ss_backups := (ss_backups s)(backup \<mapsto> old)\<rparr>),
            try_catch move_in (\<lambda>e. andThen
              (fallible (\<lambda>s. s\<lparr>ss_dirs := (ss_dirs s)(sid \<mapsto> old), ss_backups := (ss_backups s)(backup := None)\<rparr>))
              (throw e)),
            remove_backup backup]))"

text \<open>The name of the staging directory is the host's choice.\<close>

definition mkdtemp :: "('a, string) storep" where
  "mkdtemp = andThen (fallible id)
     (inspect (\<lambda>s. case ss_names s of
        [] \<Rightarrow> stop () | n # ns \<Rightarrow> andThen (modify (\<lambda>s. s\<lparr>ss_names := ns\<rparr>)) (ret n)))"

text \<open>
  The \<open>finally\<close> block: the staging directory goes, and a backup of which the replacement is in place.
\<close>

definition cleanStaging :: "string \<Rightarrow> string \<Rightarrow> ('a, unit) storep" where
  "cleanStaging backup sid = doing [
     fallible id,
     inspect (\<lambda>s. cond (ss_dirs s sid \<noteq> None \<and> ss_backups s backup \<noteq> None)
       (remove_backup backup))]"

definition extractSessionArchive :: "'a store_env \<Rightarrow> string \<Rightarrow> 'a \<Rightarrow> ('a, unit) storep" where
  "extractSessionArchive env sid arc =
     bind (containedDir env sid) (\<lambda>_.
     andThen (doing [
       fallible id,
       lift_error (preflightSessionArchive (tr_names (se_tar env) arc) (tr_verbose (se_tar env) arc)
         (tar_path env sid) sid),
       fallible id])
     (bind mkdtemp (\<lambda>stage.
       finish_with
         (andThen (fallible id)
           (case staged_tree sid (tr_extract (se_tar env) arc) of
              Inl e \<Rightarrow> throw e
            | Inr t \<Rightarrow> installStaged (stage @ ''.backup'') sid t))
         (cleanStaging (stage @ ''.backup'') sid))))"

definition store_hydrate :: "'a store_env \<Rightarrow> string \<Rightarrow> ('a, unit) storep" where
  "store_hydrate env sid =
     bind (containedDir env sid) (\<lambda>_.
     inspect (\<lambda>s. case ss_archives s sid of
         None \<Rightarrow> throw (''Session archive not found: '' @ sid)
       | Some arc \<Rightarrow> extractSessionArchive env sid arc))"

subsection \<open>Looking up and deleting\<close>

definition store_exists :: "string \<Rightarrow> ('a, bool) storep" where
  "store_exists sid =
     (case validateSessionId sid of Some e \<Rightarrow> throw e | None \<Rightarrow> inspect (\<lambda>s. ret (ss_archives s sid \<noteq> None)))"

definition store_delete :: "string \<Rightarrow> ('a, unit) storep" where
  "store_delete sid =
     (case validateSessionId sid of
        Some e \<Rightarrow> throw e
      | None \<Rightarrow> doing [
          try_catch (fallible (\<lambda>s. s\<lparr>ss_archives := (ss_archives s)(sid := None)\<rparr>)) (\<lambda>_. ret ()),
          try_catch (fallible (\<lambda>s. s\<lparr>ss_meta := (ss_meta s)(sid := None)\<rparr>)) (\<lambda>_. ret ())])"

text \<open>From the metadata, else from the archive; a failing read counts as nothing.\<close>

definition getSnapshotSizeBytes :: "'a store_env \<Rightarrow> string \<Rightarrow> ('a, nat option) storep" where
  "getSnapshotSizeBytes env sid =
     (case validateSessionId sid of
        Some e \<Rightarrow> throw e
      | None \<Rightarrow>
          bind (try_catch (andThen (fallible id) (inspect (\<lambda>s. ret (map_option md_sizeBytes (ss_meta s sid)))))
             (\<lambda>_. ret None)) (\<lambda>size.
          if size \<noteq> None then ret size
          else try_catch (andThen (fallible id)
                 (inspect (\<lambda>s. ret (map_option (tr_size (se_tar env)) (ss_archives s sid))))) (\<lambda>_. ret None)))"

end
