(* ===== verification/StoreGuarantees.thy ===== *)
theory StoreGuarantees
  imports SessionStore
begin

text \<open>
  What the session store promises: a valid id names a direct child of the root, an accepted archive
  lies under the session's own name, only resumable directories are archived, a directory is removed
  only when its archive is in place, hydration installs plain files or loses nothing, and dehydrating
  and hydrating a directory of plainly named files gives it back; and two ways to lose state: a retry
  after a removal that broke off, and links.
\<close>

subsection \<open>A logic of two ends\<close>

definition ends :: "('s, 'h, 'a) prog \<Rightarrow> ('a \<Rightarrow> 's \<Rightarrow> bool) \<Rightarrow> (string \<Rightarrow> 's \<Rightarrow> bool) \<Rightarrow> 's \<Rightarrow> bool" where
  "ends m Q E s = (case m s of (Ret x, v) \<Rightarrow> Q x v | (Throw e, v) \<Rightarrow> E e v | (Stop h, v) \<Rightarrow> True)"

lemma ends_ret: "Q x s \<Longrightarrow> ends (ret x) Q E s"
  by (simp add: ends_def ret_def)

lemma ends_throw: "E e s \<Longrightarrow> ends (throw e) Q E s"
  by (simp add: ends_def throw_def)

lemma ends_stop: "ends (stop h) Q E s"
  by (simp add: ends_def stop_def)

lemma ends_modify: "Q () (f s) \<Longrightarrow> ends (modify f) Q E s"
  by (simp add: ends_def modify_def)

lemma ends_inspect: "ends (f s) Q E s \<Longrightarrow> ends (inspect f) Q E s"
  by (simp add: ends_def inspect_def)

lemma ends_bind: "ends m (\<lambda>x. ends (f x) Q E) E s \<Longrightarrow> ends (bind m f) Q E s"
  by (auto simp: ends_def bind_def split: prod.splits outcome.splits)

lemma ends_andThen: "ends m (\<lambda>_. ends n Q E) E s \<Longrightarrow> ends (andThen m n) Q E s"
  unfolding andThen_def by (rule ends_bind)

lemma ends_catch: "ends m Q (\<lambda>e. ends (h e) Q E) s \<Longrightarrow> ends (try_catch m h) Q E s"
  by (auto simp: ends_def try_catch_def split: prod.splits outcome.splits)

lemma ends_if: "(b \<Longrightarrow> ends m Q E s) \<Longrightarrow> (\<not> b \<Longrightarrow> ends n Q E s) \<Longrightarrow> ends (if b then m else n) Q E s"
  by simp

lemma ends_cond: "(b \<Longrightarrow> ends m Q E s) \<Longrightarrow> (\<not> b \<Longrightarrow> Q () s) \<Longrightarrow> ends (cond b m) Q E s"
  by (simp add: cond_def ends_ret)

lemma ends_option:
  "(y = None \<Longrightarrow> ends m Q E s) \<Longrightarrow> (\<And>x. y = Some x \<Longrightarrow> ends (f x) Q E s) \<Longrightarrow>
     ends (case y of None \<Rightarrow> m | Some x \<Rightarrow> f x) Q E s"
  by (cases y) auto

lemma ends_sum:
  "(\<And>x. y = Inl x \<Longrightarrow> ends (f x) Q E s) \<Longrightarrow> (\<And>x. y = Inr x \<Longrightarrow> ends (g x) Q E s) \<Longrightarrow>
     ends (case y of Inl x \<Rightarrow> f x | Inr x \<Rightarrow> g x) Q E s"
  by (cases y) auto

lemma ends_pair: "(\<And>a b. p = (a, b) \<Longrightarrow> ends (f a b) Q E s) \<Longrightarrow> ends (case p of (a, b) \<Rightarrow> f a b) Q E s"
  by (cases p) auto

lemma ends_list:
  "(y = [] \<Longrightarrow> ends m Q E s) \<Longrightarrow> (\<And>x xs. y = x # xs \<Longrightarrow> ends (f x xs) Q E s) \<Longrightarrow>
     ends (case y of [] \<Rightarrow> m | x # xs \<Rightarrow> f x xs) Q E s"
  by (cases y) auto

lemma ends_doing_Nil: "Q () s \<Longrightarrow> ends (doing []) Q E s"
  by (simp add: ends_ret)

lemma ends_doing_Cons: "ends m (\<lambda>_. ends (doing ms) Q E) E s \<Longrightarrow> ends (doing (m # ms)) Q E s"
  by (simp add: ends_andThen)

lemma ends_mono:
  "ends m Q E s \<Longrightarrow> (\<And>x v. Q x v \<Longrightarrow> Q' x v) \<Longrightarrow> (\<And>e v. E e v \<Longrightarrow> E' e v) \<Longrightarrow> ends m Q' E' s"
  by (auto simp: ends_def split: prod.splits outcome.splits)

lemma ends_finish_with:
  "ends m (\<lambda>x. ends f (\<lambda>_. Q x) E) (\<lambda>e. ends f (\<lambda>_. E e) E) s \<Longrightarrow> ends (finish_with m f) Q E s"
  unfolding finish_with_def
  by (intro ends_bind ends_catch) (auto intro!: ends_ret ends_andThen ends_throw elim!: ends_mono)

text \<open>A step happens or fails; the state then differs in the outcomes left.\<close>

lemma ends_fallible:
  assumes "\<And>fs. Q () (f (s\<lparr>ss_faults := fs\<rparr>))" "\<And>e fs. E e (s\<lparr>ss_faults := fs\<rparr>)"
  shows "ends (fallible f) Q E s"
  using assms(1) [of "ss_faults s"] assms
  by (auto simp: ends_def fallible_def split: list.splits option.splits)

text \<open>A recursive removal succeeds, or fails with some of the entries gone.\<close>

lemma ends_removing:
  assumes "\<And>fs. Q () (change (\<lambda>_. None) (s\<lparr>ss_faults := fs\<rparr>))"
    and "\<And>e gone fs. E e (change (map_option (partly_removed gone)) (s\<lparr>ss_faults := fs\<rparr>))"
  shows "ends (removing change) Q E s"
  using assms(1) [of "ss_faults s"] assms
  by (auto simp: ends_def removing_def split: list.splits option.splits)

lemma ends_remove_dir:
  assumes "\<And>fs. Q () (s\<lparr>ss_faults := fs, ss_dirs := (ss_dirs s)(sid := None)\<rparr>)"
    and "\<And>e gone fs. E e (s\<lparr>ss_faults := fs,
       ss_dirs := (ss_dirs s)(sid := map_option (partly_removed gone) (ss_dirs s sid))\<rparr>)"
  shows "ends (remove_dir sid) Q E s"
  unfolding remove_dir_def by (rule ends_removing) (use assms in simp_all)

lemma ends_remove_backup:
  assumes "\<And>fs. Q () (s\<lparr>ss_faults := fs, ss_backups := (ss_backups s)(b := None)\<rparr>)"
    and "\<And>e gone fs. E e (s\<lparr>ss_faults := fs,
       ss_backups := (ss_backups s)(b := map_option (partly_removed gone) (ss_backups s b))\<rparr>)"
  shows "ends (remove_backup b) Q E s"
  unfolding remove_backup_def by (rule ends_removing) (use assms in simp_all)

lemmas ends_rules = ends_ret ends_throw ends_stop ends_modify ends_inspect ends_bind ends_andThen ends_catch
  ends_if ends_cond ends_option ends_sum ends_pair ends_list ends_doing_Nil ends_doing_Cons ends_finish_with ends_fallible
  ends_remove_dir ends_remove_backup

subsection \<open>Paths\<close>

definition clean_segment :: "string \<Rightarrow> bool" where
  "clean_segment s \<longleftrightarrow> s \<noteq> [] \<and> s \<noteq> ''.'' \<and> s \<noteq> ''..'' \<and> CHR ''/'' \<notin> set s"

lemma split_on_parts: "list_all (\<lambda>x. d \<notin> set x) (split_on d s)"
proof (induction s)
  case (Cons c s)
  then show ?case by (cases "split_on d s") auto
qed simp

lemma split_on_none: "d \<notin> set s \<Longrightarrow> split_on d s = [s]"
  by (induction s) auto

lemma split_on_join:
  "xs \<noteq> [] \<Longrightarrow> list_all (\<lambda>x. d \<notin> set x) xs \<Longrightarrow> split_on d (join [d] xs) = xs"
proof (induction "[d]" xs rule: join.induct)
  case (3 x y ys)
  have "split_on d (x @ d # t) = x # split_on d t" if "d \<notin> set x" for t
    using that by (induction x) auto
  then show ?case using 3 by simp
qed (auto simp: split_on_none)

lemma norm_segments_clean:
  "list_all clean_segment acc \<Longrightarrow> list_all (\<lambda>x. CHR ''/'' \<notin> set x) ss \<Longrightarrow> list_all clean_segment (norm_segments acc ss)"
proof (induction acc ss rule: norm_segments.induct)
  case (2 acc s ss)
  moreover have "list_all clean_segment (tl acc)" using 2(4) by (cases acc) auto
  moreover have "clean_segment s" if "s \<noteq> []" "s \<noteq> ''.''" "s \<noteq> ''..''"
    using that 2(5) by (simp add: clean_segment_def)
  ultimately show ?case by simp
qed simp

lemma norm_segments_id: "list_all clean_segment ss \<Longrightarrow> norm_segments acc ss = rev acc @ ss"
  by (induction ss arbitrary: acc) (auto simp: clean_segment_def)

lemma segments_of_clean: "list_all clean_segment (segments_of p)"
  unfolding segments_of_def by (rule norm_segments_clean) (simp_all add: split_on_parts)

lemma segments_of_path_of:
  assumes "list_all clean_segment segs"
  shows "segments_of (path_of segs) = segs"
proof (cases "segs = []")
  case False
  have "list_all (\<lambda>x. CHR ''/'' \<notin> set x) segs"
    using assms by (auto simp: list_all_iff clean_segment_def)
  then have "split_on (CHR ''/'') (join ''/'' segs) = segs"
    using split_on_join [OF False] by simp
  then show ?thesis
    using norm_segments_id [OF assms, of "[]"] by (simp add: segments_of_def path_of_def)
qed (simp add: segments_of_def path_of_def)

lemma valid_id_clean: "validateSessionId sid = None \<Longrightarrow> clean_segment sid"
  by (auto simp: validateSessionId_def clean_segment_def str_includes_char split: if_splits)

lemma path_of_prefix: "xs \<noteq> [] \<Longrightarrow> path_of (xs @ [y]) = path_of xs @ ''/'' @ y"
  by (simp add: path_of_def join_append)

lemma session_dir_child:
  "resolveContainedSessionDir root sid =
     (case validateSessionId sid of
        Some e \<Rightarrow> Inl e
      | None \<Rightarrow> Inr (path_of (segments_of root @ [sid])))"
proof (cases "validateSessionId sid")
  case None
  then have c: "clean_segment sid" by (rule valid_id_clean)
  then have ns: "CHR ''/'' \<notin> set sid" by (simp add: clean_segment_def)
  then have n: "\<not> starts_with sid ''/''" "split_on (CHR ''/'') sid = [sid]"
    by (cases sid, auto simp: starts_with_def)[1] (rule split_on_none [OF ns])
  have t: "path_resolve (path_of (segments_of root)) sid = path_of (segments_of root @ [sid])"
    using c by (simp add: path_resolve_def n segments_of_path_of segments_of_clean clean_segment_def)
  have pre: "starts_with (p @ q) p" for p q :: string
    by (simp add: starts_with_def)
  have "starts_with (path_of (segments_of root @ [sid]) @ ''/'') (path_of (segments_of root))"
  proof (cases "segments_of root = []")
    case True
    then show ?thesis using pre [of "''/''" "sid @ ''/''"] by (simp add: path_of_def)
  next
    case False
    show ?thesis unfolding path_of_prefix [OF False] append_assoc by (rule pre)
  qed
  moreover have "starts_with (path_of (segments_of root @ [sid]) @ ''/'') (path_of (segments_of root) @ ''/'')"
    if "\<not> ends_with (path_of (segments_of root)) ''/''"
  proof (cases "segments_of root = []")
    case True
    then show ?thesis using that by (simp add: path_of_def ends_with_def starts_with_def)
  next
    case False
    then show ?thesis
      unfolding path_of_prefix [OF False] using pre [of "path_of (segments_of root) @ ''/''" "sid @ ''/''"] by simp
  qed
  ultimately show ?thesis
    using None by (simp add: resolveContainedSessionDir_def Let_def t)
qed (simp add: resolveContainedSessionDir_def)

text \<open>
  A session id that the store accepts names a direct child of the session-state root, whatever the
  root is: the resolved directory is the root followed by the id, so the second check - that it lies
  inside the root - never refuses anything the first one let pass.
\<close>

theorem session_dirs_are_children:
  "resolveContainedSessionDir root sid =
     (case validateSessionId sid of
        Some e \<Rightarrow> Inl e
      | None \<Rightarrow> Inr (path_of (segments_of root @ [sid])))"
  by (rule session_dir_child)

subsection \<open>Archives that are accepted\<close>

definition harmless_entry :: "string \<Rightarrow> string \<times> string \<Rightarrow> bool" where
  "harmless_entry sid = (\<lambda>(name, line). (case line of c # _ \<Rightarrow> c = CHR ''-'' \<or> c = CHR ''d'' | [] \<Rightarrow> False) \<and>
     (\<exists>rest. split_on (CHR ''/'') (without_trailing_slash name) = sid # rest \<and>
        list_all (\<lambda>s. s \<noteq> [] \<and> s \<noteq> ''.'' \<and> s \<noteq> ''..'') (sid # rest)) \<and>
     backslash \<notin> set name \<and> \<not> starts_with name ''/'' \<and> CHR 0x00 \<notin> set name)"

lemma entry_error_none:
  assumes "entry_error sid seen name line = None"
  shows "harmless_entry sid (name, line) \<and> name \<notin> set seen"
proof -
  have "split_on (CHR ''/'') (without_trailing_slash name) \<noteq> []"
    by (induction "without_trailing_slash name") (auto split: list.splits)
  then obtain h rest where r: "split_on (CHR ''/'') (without_trailing_slash name) = h # rest"
    by (cases "split_on (CHR ''/'') (without_trailing_slash name)") auto
  show ?thesis
    using assms unfolding entry_error_def Let_def r
    by (cases line) (auto simp: harmless_entry_def r str_includes_char list_ex_iff list_all_iff split: if_splits)
qed

lemma preflight_entries_none:
  "preflight_entries sid seen es = None \<Longrightarrow>
     list_all (harmless_entry sid) es \<and> distinct (map fst es) \<and> set (map fst es) \<inter> set seen = {}"
proof (induction sid seen es rule: preflight_entries.induct)
  case (2 sid seen name line es)
  then have e: "entry_error sid seen name line = None"
    by (auto split: option.splits)
  then show ?case using 2 entry_error_none [OF e] by auto
qed simp

text \<open>
  An archive that passes the check lies under the session's own name: every entry is a plain file
  or a directory, its path begins with the session id and has no empty, dot or dot-dot segment and no
  backslash, and no entry occurs twice.
\<close>

theorem accepted_archives_are_harmless:
  assumes "preflightSessionArchive names verbose tarPath sid = None"
  shows "names \<noteq> [] \<and> distinct names \<and> list_all (harmless_entry sid) (zip names verbose)"
  using assms preflight_entries_none [of sid "[]" "zip names verbose"]
  by (auto simp: preflightSessionArchive_def split: if_splits)

lemma good_listing: "preflightSessionArchive [''s1/'', ''s1/workspace.yaml''] [''drwx'', ''-rw-''] ''t'' ''s1'' = None"
  by code_simp

theorem accepted_archives_are_harmless_witness:
  "list_all (harmless_entry ''s1'') (zip [''s1/'', ''s1/workspace.yaml''] [''drwx'', ''-rw-''])"
  using accepted_archives_are_harmless [OF good_listing] by blast

subsection \<open>Hydration\<close>

lemma tree_error_none:
  "validateExtractedSessionTree t = None \<longleftrightarrow> list_all (\<lambda>(p, n). nd_kind n \<in> {Regular, Directory}) t"
proof -
  have "node_error (p, n) = None \<longleftrightarrow> nd_kind n \<in> {Regular, Directory}" for p n
    by (cases "nd_kind n") (simp_all add: node_error_def)
  then show ?thesis
    by (induction t) (auto simp: validateExtractedSessionTree_def split: list.splits)
qed

lemma staged_tree_ok:
  "staged_tree sid layout = Inr t \<Longrightarrow>
     layout = [(sid, Directory, t)] \<and> list_all (\<lambda>(p, n). nd_kind n \<in> {Regular, Directory}) t"
  unfolding tree_error_none [symmetric]
  by (auto simp: staged_tree_def split: list.splits if_splits option.splits)

text \<open>What a hydration of \<open>sid\<close> may have done to the disk.\<close>

definition other_dirs_kept :: "string \<Rightarrow> 'a store_state \<Rightarrow> 'a store_state \<Rightarrow> bool" where
  "other_dirs_kept sid s v \<longleftrightarrow>
     (\<forall>x. x \<noteq> sid \<longrightarrow> ss_dirs v x = ss_dirs s x) \<and> ss_archives v = ss_archives s \<and> ss_meta v = ss_meta s"

definition installed_plain :: "'a store_env \<Rightarrow> string \<Rightarrow> 'a store_state \<Rightarrow> 'a store_state \<Rightarrow> bool" where
  "installed_plain env sid s v \<longleftrightarrow>
     (\<exists>arc t. ss_archives s sid = Some arc \<and> tr_extract (se_tar env) arc = [(sid, Directory, t)] \<and>
        preflightSessionArchive (tr_names (se_tar env) arc) (tr_verbose (se_tar env) arc) (tar_path env sid) sid = None \<and>
        list_all (\<lambda>(p, n). nd_kind n \<in> {Regular, Directory}) t \<and> ss_dirs v sid = Some t)"

definition nothing_lost :: "string \<Rightarrow> 'a store_state \<Rightarrow> 'a store_state \<Rightarrow> bool" where
  "nothing_lost sid s v \<longleftrightarrow> ss_dirs v sid = ss_dirs s sid \<or> (\<exists>n. ss_backups v n = ss_dirs s sid)"

lemma ends_installStaged:
  assumes "other_dirs_kept sid s0 s" "ss_dirs s sid = ss_dirs s0 sid"
    and "\<And>v. other_dirs_kept sid s0 v \<Longrightarrow> ss_dirs v sid = Some t \<Longrightarrow> Q () v"
    and "\<And>e v. other_dirs_kept sid s0 v \<Longrightarrow> ss_dirs v sid = ss_dirs s0 sid \<or>
        (ss_dirs v sid = None \<and> ss_backups v b = ss_dirs s0 sid) \<or> ss_dirs v sid = Some t \<Longrightarrow> E e v"
  shows "ends (installStaged b sid t) Q E s"
  unfolding installStaged_def Let_def
  by (intro ends_rules) (use assms(1,2) in \<open>auto simp: other_dirs_kept_def intro!: assms(3,4)\<close>)

lemma ends_cleanStaging:
  assumes "P s" "\<And>v fs. P v \<Longrightarrow> P (v\<lparr>ss_faults := fs\<rparr>)"
    and "\<And>v x. P v \<Longrightarrow> ss_dirs v sid \<noteq> None \<Longrightarrow> P (v\<lparr>ss_backups := (ss_backups v)(b := x)\<rparr>)"
    and "\<And>v. P v \<Longrightarrow> Q () v" "\<And>e v. P v \<Longrightarrow> E e v"
  shows "ends (cleanStaging b sid) Q E s"
proof -
  have "P (s\<lparr>ss_faults := fs, ss_backups := (ss_backups s)(b := x)\<rparr>)" if "ss_dirs s sid \<noteq> None" for fs x
    using assms(3) [of "s\<lparr>ss_faults := fs\<rparr>"] assms(2) [OF assms(1)] that by simp
  then show ?thesis
    unfolding cleanStaging_def
    by (intro ends_rules) (simp_all add: assms)
qed

lemma other_dirs_kept_irrelevant [simp]:
  "other_dirs_kept sid s (v\<lparr>ss_faults := fs\<rparr>) = other_dirs_kept sid s v"
  "other_dirs_kept sid s (v\<lparr>ss_backups := bs\<rparr>) = other_dirs_kept sid s v"
  "other_dirs_kept sid s (v\<lparr>ss_names := ns\<rparr>) = other_dirs_kept sid s v"
  "other_dirs_kept sid s s"
  by (simp_all add: other_dirs_kept_def)

lemma installed_plain_irrelevant [simp]:
  "installed_plain env sid s (v\<lparr>ss_faults := fs\<rparr>) = installed_plain env sid s v"
  "installed_plain env sid s (v\<lparr>ss_backups := bs\<rparr>) = installed_plain env sid s v"
  "installed_plain env sid s v \<Longrightarrow> ss_dirs v sid \<noteq> None"
  by (auto simp: installed_plain_def)

lemma ends_extractSessionArchive:
  assumes "ss_archives s sid = Some arc"
  shows "ends (extractSessionArchive env sid arc)
     (\<lambda>_ v. installed_plain env sid s v \<and> other_dirs_kept sid s v)
     (\<lambda>e v. (nothing_lost sid s v \<or> installed_plain env sid s v) \<and> other_dirs_kept sid s v) s"
proof -
  have clean: "ends (cleanStaging b sid) Q E v"
    if "installed_plain env sid s v" "other_dirs_kept sid s v"
      "\<And>u. installed_plain env sid s u \<Longrightarrow> other_dirs_kept sid s u \<Longrightarrow> Q () u"
      "\<And>e u. installed_plain env sid s u \<Longrightarrow> other_dirs_kept sid s u \<Longrightarrow> E e u" for b v Q E
    by (rule ends_cleanStaging [where P = "\<lambda>u. installed_plain env sid s u \<and> other_dirs_kept sid s u"])
       (simp_all add: that)
  have clean_up: "ends (cleanStaging b sid) Q E v"
    if "ss_dirs v sid = ss_dirs s sid \<or> (ss_dirs v sid = None \<and> ss_backups v b = ss_dirs s sid) \<or>
        installed_plain env sid s v" "other_dirs_kept sid s v"
      "\<And>u. nothing_lost sid s u \<or> installed_plain env sid s u \<Longrightarrow> other_dirs_kept sid s u \<Longrightarrow> Q () u"
      "\<And>e u. nothing_lost sid s u \<or> installed_plain env sid s u \<Longrightarrow> other_dirs_kept sid s u \<Longrightarrow> E e u" for b v Q E
    by (rule ends_cleanStaging [where P = "\<lambda>v. (ss_dirs v sid = ss_dirs s sid \<or>
          (ss_dirs v sid = None \<and> ss_backups v b = ss_dirs s sid) \<or> installed_plain env sid s v) \<and> other_dirs_kept sid s v"])
       (use that(1,2) in \<open>auto simp: nothing_lost_def intro!: that(3,4)\<close>)
  have install: "ends (installStaged b sid t) Q E u"
    if "staged_tree sid (tr_extract (se_tar env) arc) = Inr t"
      "preflightSessionArchive (tr_names (se_tar env) arc) (tr_verbose (se_tar env) arc) (tar_path env sid) sid = None"
      "ss_dirs u = ss_dirs s" "other_dirs_kept sid s u"
      "\<And>v. installed_plain env sid s v \<Longrightarrow> other_dirs_kept sid s v \<Longrightarrow> Q () v"
      "\<And>e v. ss_dirs v sid = ss_dirs s sid \<or> (ss_dirs v sid = None \<and> ss_backups v b = ss_dirs s sid) \<or>
         installed_plain env sid s v \<Longrightarrow> other_dirs_kept sid s v \<Longrightarrow> E e v" for b t Q E u
    by (rule ends_installStaged)
       (use that(1-4) staged_tree_ok [OF that(1)] assms in \<open>auto intro!: that(5,6) simp: installed_plain_def\<close>)
  show ?thesis
    unfolding extractSessionArchive_def containedDir_def mkdtemp_def lift_error_def
    by (intro ends_rules install clean clean_up) (auto simp: nothing_lost_def)
qed

lemma ends_hydrate:
  "ends (store_hydrate env sid) (\<lambda>_ v. installed_plain env sid s v \<and> other_dirs_kept sid s v)
     (\<lambda>e v. (nothing_lost sid s v \<or> installed_plain env sid s v) \<and> other_dirs_kept sid s v) s"
  unfolding store_hydrate_def containedDir_def
  by (intro ends_bind ends_sum ends_throw ends_ret ends_inspect ends_option ends_extractSessionArchive)
     (auto simp: nothing_lost_def)

text \<open>
  C32: Hydration installs or preserves: on success the session's directory is what the archive of the
  session contained, nothing but plain files and directories; on failure, wherever it strikes, the
  directory that was there is still in place, has been moved to the backup of the operation, or has
  been replaced by the checked one. No other session's directory and no archive is touched.
\<close>

theorem hydration_installs_or_preserves:
  "case store_hydrate env sid s of
     (Ret x, v) \<Rightarrow> installed_plain env sid s v \<and> other_dirs_kept sid s v
   | (Throw e, v) \<Rightarrow> (nothing_lost sid s v \<or> installed_plain env sid s v) \<and> other_dirs_kept sid s v
   | (Stop h, v) \<Rightarrow> True"
  using ends_hydrate [of env sid s] by (simp add: ends_def)

subsection \<open>Readiness\<close>

text \<open>
  A directory that a session can go on from: with a Codex marker, a JSON object that names a thread and,
  if it names a rollout, names it by a relative path that leads to a complete file of the directory; else
  a Copilot workspace.
\<close>

definition holds_rollout :: "(string \<Rightarrow> json option) \<Rightarrow> string \<Rightarrow> tree \<Rightarrow> string \<Rightarrow> bool" where
  "holds_rollout parse d t p \<longleftrightarrow> \<not> starts_with p ''/'' \<and>
     (\<exists>rest n. segments_of (path_resolve d p) = segments_of d @ rest \<and> rest \<noteq> [] \<and>
        map_of t (join ''/'' rest) = Some n \<and> nd_kind n \<in> {Regular, HardLinked} \<and>
        isCompleteJsonlSnapshotContent parse (nd_data n))"

definition codex_resumable :: "(string \<Rightarrow> json option) \<Rightarrow> string \<Rightarrow> tree \<Rightarrow> fs_node \<Rightarrow> bool" where
  "codex_resumable parse d t marker \<longleftrightarrow>
     (\<exists>fs thread. parse (nd_data marker) = Some (JObj fs) \<and> map_of fs ''codexThreadId'' = Some (JStr thread) \<and>
        trim thread \<noteq> [] \<and>
        (case default_to (map_of fs ''rolloutSnapshotRelPath'') JNull of
           JNull \<Rightarrow> True | JStr p \<Rightarrow> p = [] \<or> holds_rollout parse d t p | _ \<Rightarrow> False))"

definition resumable :: "(string \<Rightarrow> json option) \<Rightarrow> string \<Rightarrow> tree \<Rightarrow> bool" where
  "resumable parse d t \<longleftrightarrow> (case map_of t ''codex-thread.json'' of
       Some marker \<Rightarrow> codex_resumable parse d t marker
     | None \<Rightarrow> exists_in t ''workspace.yaml'')"

abbreviation resumable_in :: "'a store_env \<Rightarrow> string \<Rightarrow> tree \<Rightarrow> bool" where
  "resumable_in env sid \<equiv> resumable (se_parse env) (path_resolve (se_stateDir env) sid)"

text \<open>A path that begins with another one and a slash lies below it.\<close>

lemma split_on_append: "split_on d (x @ d # y) = split_on d x @ split_on d y"
proof (induction x)
  case (Cons c x)
  have "split_on d x \<noteq> []" by (induction x) (auto split: list.splits)
  then show ?case using Cons by (cases "split_on d x") auto
qed simp

lemma below_segments:
  assumes "list_all clean_segment a" "list_all clean_segment b"
    and "starts_with (path_of a @ ''/'') (path_of b @ ''/'')"
  shows "\<exists>rest. a = b @ rest"
proof (cases "a = [] \<or> b = []")
  case False
  have sp: "split_on (CHR ''/'') (path_of x) = [] # x" if "list_all clean_segment x" "x \<noteq> []" for x
  proof -
    have "list_all (\<lambda>s. CHR ''/'' \<notin> set s) x" using that(1) by (auto simp: list_all_iff clean_segment_def)
    then show ?thesis using split_on_join [OF that(2), of "CHR ''/''"] by (simp add: path_of_def)
  qed
  obtain r where r: "path_of a @ ''/'' = path_of b @ CHR ''/'' # r"
    using assms(3) unfolding starts_with_def by (metis append_Cons append_assoc append_eq_conv_conj append_take_drop_id append_Nil)
  have "split_on (CHR ''/'') (path_of a @ CHR ''/'' # []) = split_on (CHR ''/'') (path_of b @ CHR ''/'' # r)"
    using r by simp
  then have "a @ [[]] = b @ split_on (CHR ''/'') r"
    using False sp assms(1,2) by (simp add: split_on_append)
  moreover have "split_on (CHR ''/'') r \<noteq> []" by (induction r) (auto split: list.splits)
  ultimately have "a = b @ butlast (split_on (CHR ''/'') r)"
    by (metis butlast_append butlast_snoc)
  then show ?thesis ..
next
  case True
  then show ?thesis
  proof
    assume "a = []"
    moreover have "b = []"
    proof (rule ccontr)
      assume b: "b \<noteq> []"
      then obtain x xs where bx: "b = x # xs" "x \<noteq> []" "CHR ''/'' \<notin> set x"
        using assms(2) by (cases b) (auto simp: clean_segment_def)
      then show False using assms(3) \<open>a = []\<close>
        by (cases x; cases xs) (auto simp: path_of_def starts_with_def)
    qed
    ultimately show ?thesis by simp
  qed simp
qed

lemma checkRollout_true:
  assumes "fst (checkRollout parse d sid t rel)"
  shows "case rel of JNull \<Rightarrow> True | JStr p \<Rightarrow> p = [] \<or> holds_rollout parse d t p | _ \<Rightarrow> False"
proof (cases rel)
  case (JStr p)
  have "holds_rollout parse d t p" if p: "p \<noteq> []"
  proof -
    let ?a = "path_resolve d p"
    have rel: "\<not> starts_with p ''/''" and inside: "starts_with (?a @ ''/'') (path_of (segments_of d) @ ''/'') \<or> ?a = path_of (segments_of d)"
      and node: "\<exists>n. node_at d t ?a = Some n \<and> nd_kind n \<in> {Regular, HardLinked} \<and> isCompleteJsonlSnapshot parse (Some n)"
      using assms p unfolding JStr checkRollout_def Let_def by (auto split: if_splits option.splits)
    obtain n where n: "node_at d t ?a = Some n" "nd_kind n \<in> {Regular, HardLinked}" "isCompleteJsonlSnapshot parse (Some n)"
      using node by blast
    have path: "?a = path_of (segments_of ?a)" "list_all clean_segment (segments_of ?a)"
    proof -
      have c: "list_all clean_segment (norm_segments (rev (segments_of d)) (split_on (CHR ''/'') p))"
        by (rule norm_segments_clean) (simp_all add: segments_of_clean split_on_parts)
      show "?a = path_of (segments_of ?a)" "list_all clean_segment (segments_of ?a)"
        using c rel by (simp_all add: path_resolve_def segments_of_path_of)
    qed
    obtain rest where rest: "segments_of ?a = segments_of d @ rest"
      using inside below_segments [OF path(2) segments_of_clean] path(1) segments_of_path_of [OF segments_of_clean, of d]
      by (metis append_Nil2)
    then have nn: "rest \<noteq> []" "map_of t (join ''/'' rest) = Some n"
      using n(1,2) by (auto simp: node_at_def split: if_splits)
    show ?thesis
      unfolding holds_rollout_def using rel rest nn n by (auto simp: isCompleteJsonlSnapshot_def)
  qed
  then show ?thesis by (auto simp: JStr)
qed (use assms in \<open>auto simp: checkRollout_def\<close>)

lemma checkCodexMarker_true:
  assumes "fst (checkCodexMarker parse d sid t marker)"
  shows "codex_resumable parse d t marker"
proof -
  obtain fs thread where f: "parse (nd_data marker) = Some (JObj fs)"
      "map_of fs ''codexThreadId'' = Some (JStr thread)" "trim thread \<noteq> []"
      "fst (checkRollout parse d sid t (default_to (map_of fs ''rolloutSnapshotRelPath'') JNull))"
    using assms by (auto simp: checkCodexMarker_def split: if_splits option.splits json.splits)
  from f(1-3) checkRollout_true [OF f(4)] show ?thesis
    unfolding codex_resumable_def by blast
qed

lemma missing_required_none: "missing_required sid t = [] \<longleftrightarrow> exists_in t ''workspace.yaml''"
  by (simp add: missing_required_def REQUIRED_SESSION_FILES_def)

text \<open>The fallback to the older layout, asked only when a required file is missing, never applies.\<close>

lemma legacy_fallback_is_dead: "missing_required sid t \<noteq> [] \<Longrightarrow> \<not> legacy_layout t"
  by (simp add: missing_required_none legacy_layout_def LEGACY_SESSION_FILES_def)

lemma wait_polls_ready:
  assumes "wait_polls parse d sid polls cur missing sig n = (True, m, dir)"
  shows "m = [] \<and> (\<exists>t. dir = Some t \<and> Some t \<in> set polls \<and> resumable parse d t)"
  using assms
proof (induction polls arbitrary: cur missing sig n)
  case (Cons p polls)
  have later: "wait_polls parse d sid polls c k g i = (True, m, dir) \<Longrightarrow>
      m = [] \<and> (\<exists>t. dir = Some t \<and> Some t \<in> set (p # polls) \<and> resumable parse d t)" for c k g i
    by (drule Cons.IH) auto
  show ?case
  proof (cases p)
    case None
    then show ?thesis using Cons.prems later by simp
  next
    case (Some t)
    show ?thesis
    proof (cases "map_of t ''codex-thread.json''")
      case None
      then have "exists_in t ''workspace.yaml'' \<Longrightarrow> resumable parse d t"
        by (simp add: resumable_def)
      then show ?thesis
        using Cons.prems later Some None
        by (auto simp: exists_in_def [of t "''codex-thread.json''"] missing_required_none Let_def split: if_splits)
    next
      case marker: (Some marker)
      have "fst (checkSessionSnapshot parse d sid (Some t)) \<Longrightarrow> resumable parse d t"
        using checkCodexMarker_true by (simp add: checkSessionSnapshot_def marker resumable_def)
      then show ?thesis
        using Cons.prems later Some
        by (cases "checkSessionSnapshot parse d sid (Some t)")
           (auto simp: exists_in_def [of t "''codex-thread.json''"] marker split: bool.splits)
    qed
  qed
qed simp

text \<open>
  Only a directory that a session can go on from is ever reported ready: a Copilot workspace, or a
  Codex marker that names its thread and whose rollout, if it has one, is a complete file inside the
  directory - whatever the polls saw before.
\<close>

theorem ready_directories_are_resumable:
  assumes "wait_polls parse d sid polls cur missing sig n = (True, m, dir)"
  shows "m = [] \<and> (\<exists>t. dir = Some t \<and> Some t \<in> set polls \<and> resumable parse d t)"
  using assms by (rule wait_polls_ready)

definition workspace :: tree where
  "workspace = [(''workspace.yaml'', \<lparr> nd_kind = Regular, nd_data = ''id: 1'', nd_mtime = 7 \<rparr>),
     (''inuse.4.lock'', \<lparr> nd_kind = Regular, nd_data = [], nd_mtime = 9 \<rparr>)]"

lemma stable_workspace:
  "wait_polls (\<lambda>_. None) ''/state/s1'' ''s1'' [None, Some workspace, Some workspace, Some workspace] None [''s1/''] [] 0 =
     (True, [], Some workspace)"
  by code_simp

theorem ready_directories_are_resumable_witness: "resumable (\<lambda>_. None) ''/state/s1'' workspace"
  using ready_directories_are_resumable [OF stable_workspace] by simp

subsection \<open>Dehydration and checkpoints\<close>

definition waited :: "'a store_env \<Rightarrow> string \<Rightarrow> 'a store_state \<Rightarrow> bool \<times> string list \<times> tree option" where
  "waited env sid s = (case ss_polls s of
       [] \<Rightarrow> (False, [sid @ ''/''], ss_dirs s sid)
     | polls # _ \<Rightarrow> wait_polls (se_parse env) (path_resolve (se_stateDir env) sid) sid polls (ss_dirs s sid)
         [sid @ ''/''] [] 0)"

definition snapshot_of :: "'a store_env \<Rightarrow> string \<Rightarrow> tree \<Rightarrow> 'a" where
  "snapshot_of env sid t = tr_create (se_tar env) LOCK_GLOB sid t"

text \<open>The archive is as before, or the snapshot of a resumable directory just seen.\<close>

definition archive_kept_or_fresh :: "'a store_env \<Rightarrow> string \<Rightarrow> 'a store_state \<Rightarrow> 'a store_state \<Rightarrow> bool" where
  "archive_kept_or_fresh env sid s v \<longleftrightarrow> ss_archives v sid = ss_archives s sid \<or>
     (\<exists>t. snd (snd (waited env sid s)) = Some t \<and> resumable_in env sid t \<and>
          ss_archives v sid = Some (snapshot_of env sid t))"

lemma ends_wait:
  assumes "\<And>r m dir rest. waited env sid s = (r, m, dir) \<Longrightarrow>
      (r \<Longrightarrow> \<exists>t. dir = Some t \<and> resumable_in env sid t) \<Longrightarrow>
      Q (r, m) (s\<lparr>ss_polls := rest, ss_dirs := (ss_dirs s)(sid := dir)\<rparr>)"
  shows "ends (waitForSessionSnapshot env sid) Q E s"
proof (cases "ss_polls s")
  case Nil
  have e: "s\<lparr>ss_polls := [], ss_dirs := (ss_dirs s)(sid := ss_dirs s sid)\<rparr> = s" by (cases s) (use Nil in simp)
  have "Q (False, [sid @ ''/'']) (s\<lparr>ss_polls := [], ss_dirs := (ss_dirs s)(sid := ss_dirs s sid)\<rparr>)"
    by (rule assms) (simp_all add: waited_def Nil)
  then have "Q (False, [sid @ ''/'']) s" unfolding e .
  then show ?thesis using Nil by (simp add: ends_def waitForSessionSnapshot_def)
next
  case (Cons polls rest)
  obtain r m dir where w: "waited env sid s = (r, m, dir)" by (cases "waited env sid s")
  have "\<exists>t. dir = Some t \<and> resumable_in env sid t" if r
  proof -
    have "wait_polls (se_parse env) (path_resolve (se_stateDir env) sid) sid polls (ss_dirs s sid)
        [sid @ ''/''] [] 0 = (True, m, dir)"
      using w that by (simp add: waited_def Cons)
    from wait_polls_ready [OF this] show ?thesis by blast
  qed
  then show ?thesis
    using assms [OF w, of rest] w Cons by (simp add: ends_def waitForSessionSnapshot_def waited_def)
qed

text \<open>The directory and the archives while a snapshot of \<open>t\<close> is written.\<close>

definition writing :: "'a store_env \<Rightarrow> string \<Rightarrow> 'a store_state \<Rightarrow> 'a store_state \<Rightarrow> bool" where
  "writing env sid s v \<longleftrightarrow> ss_dirs v = (ss_dirs s)(sid := snd (snd (waited env sid s))) \<and>
     (\<forall>x. x \<noteq> sid \<longrightarrow> ss_archives v x = ss_archives s x) \<and> archive_kept_or_fresh env sid s v"

lemma writing_irrelevant [simp]:
  "writing env sid s (v\<lparr>ss_faults := fs\<rparr>) = writing env sid s v"
  "writing env sid s (v\<lparr>ss_meta := m\<rparr>) = writing env sid s v"
  by (simp_all add: writing_def archive_kept_or_fresh_def)

lemma writing_dirs: "writing env sid s v \<Longrightarrow> ss_dirs v = (ss_dirs s)(sid := snd (snd (waited env sid s)))"
  by (simp add: writing_def)

lemma ends_archive:
  assumes "writing env sid s v" "snd (snd (waited env sid s)) = Some t" "resumable_in env sid t"
    and "\<And>u. writing env sid s u \<Longrightarrow> ss_archives u sid = Some (snapshot_of env sid t) \<Longrightarrow> Q () u"
    and "\<And>e u. writing env sid s u \<Longrightarrow> E e u"
  shows "ends (archiveSessionDirAtomic env sid) Q E v"
  unfolding archiveSessionDirAtomic_def
  by (intro ends_rules)
     (use assms(1-3) in \<open>auto intro!: assms(4,5) simp: writing_def archive_kept_or_fresh_def snapshot_of_def\<close>)

lemma ends_storeMetadata:
  assumes "P v" "\<And>u fs. P u \<Longrightarrow> P (u\<lparr>ss_faults := fs\<rparr>)"
    and "\<And>u m. P u \<Longrightarrow> P (u\<lparr>ss_meta := (ss_meta u)(sid \<mapsto> m)\<rparr>)"
    and "\<And>u. P u \<Longrightarrow> Q () u" "\<And>e u. P u \<Longrightarrow> E e u"
  shows "ends (storeMetadata env sid reason) Q E v"
proof -
  have m: "P (u\<lparr>ss_faults := fs, ss_meta := (ss_meta u)(sid \<mapsto> m)\<rparr>)" if "P u" for u fs m
    using assms(3) [OF assms(2) [OF that]] by simp
  show ?thesis
    unfolding storeMetadata_def writeMetadataAtomic_def
    by (intro ends_rules) (simp_all add: assms(1,2,4,5) m)
qed

text \<open>
  The one failure past the archive that touches the directory: its removal broke off. The archive is the
  snapshot by then, and part of the directory is left.
\<close>

definition removal_failed :: "'a store_env \<Rightarrow> string \<Rightarrow> 'a store_state \<Rightarrow> 'a store_state \<Rightarrow> bool" where
  "removal_failed env sid s v \<longleftrightarrow>
     (\<exists>t gone. snd (snd (waited env sid s)) = Some t \<and> resumable_in env sid t \<and>
        ss_archives v = (ss_archives s)(sid \<mapsto> snapshot_of env sid t) \<and>
        ss_dirs v = (ss_dirs s)(sid \<mapsto> partly_removed gone t))"

lemma ends_dehydrate:
  "ends (store_dehydrate env sid reason)
   (\<lambda>x v. \<exists>t. snd (snd (waited env sid s)) = Some t \<and> resumable_in env sid t \<and>
       ss_archives v = (ss_archives s)(sid \<mapsto> snapshot_of env sid t) \<and> ss_dirs v = (ss_dirs s)(sid := None))
   (\<lambda>e v. writing env sid s v \<or> v = s \<or> removal_failed env sid s v) s"
  unfolding store_dehydrate_def containedDir_def
proof (intro ends_bind ends_sum ends_throw ends_ret ends_wait ends_pair ends_if)
  fix r m dir rest missing ready
  assume w: "waited env sid s = (r, m, dir)" "r \<Longrightarrow> \<exists>t. dir = Some t \<and> resumable_in env sid t"
    "(r, m) = (ready, missing)"
  let ?s = "s\<lparr>ss_polls := rest, ss_dirs := (ss_dirs s)(sid := dir)\<rparr>"
  have start: "writing env sid s ?s" by (simp add: writing_def archive_kept_or_fresh_def w)
  then show "writing env sid s ?s \<or> ?s = s \<or> removal_failed env sid s ?s" by simp
  assume "\<not> \<not> ready"
  then obtain t where t: "dir = Some t" "resumable_in env sid t" using w by auto
  then have d: "snd (snd (waited env sid s)) = Some t" using w by simp
  let ?P = "\<lambda>u. writing env sid s u \<and> ss_archives u sid = Some (snapshot_of env sid t)"
  have P: "ss_archives u = (ss_archives s)(sid \<mapsto> snapshot_of env sid t)" if "?P u" for u
    using that by (auto simp: writing_def)
  have D: "ss_dirs u = (ss_dirs s)(sid \<mapsto> t)" if "?P u" for u
    using that d by (simp add: writing_def)
  show "ends (doing [archiveSessionDirAtomic env sid,
       inspect (\<lambda>s. cond (ss_archives s sid = None)
         (throw (''Session archive was not created during dehydrate: '' @ sid @ '' ('' @ tar_path env sid @ '')''))),
       storeMetadata env sid reason,
       remove_dir sid])
    (\<lambda>x v. \<exists>t. snd (snd (waited env sid s)) = Some t \<and> resumable_in env sid t \<and>
       ss_archives v = (ss_archives s)(sid \<mapsto> snapshot_of env sid t) \<and> ss_dirs v = (ss_dirs s)(sid := None))
    (\<lambda>e v. writing env sid s v \<or> v = s \<or> removal_failed env sid s v) ?s"
    apply (intro ends_doing_Cons ends_doing_Nil ends_archive [OF start d t(2)] ends_inspect ends_cond ends_throw
        ends_storeMetadata [where P = ?P] ends_remove_dir)
    apply (simp_all add: d t(2) P)
    apply (auto simp: d D removal_failed_def t(2) P)
    done
qed auto


lemma ends_checkpoint:
  "ends (store_checkpoint env sid)
   (\<lambda>x v. ss_dirs s sid = None \<and> v = s \<or> writing env sid s v \<and> ss_archives v sid \<noteq> None) (\<lambda>e v. writing env sid s v \<or> v = s) s"
  unfolding store_checkpoint_def containedDir_def
proof (intro ends_bind ends_sum ends_throw ends_ret ends_inspect ends_wait ends_pair ends_if)
  fix r m dir rest missing ready
  assume w: "waited env sid s = (r, m, dir)" "r \<Longrightarrow> \<exists>t. dir = Some t \<and> resumable_in env sid t"
    "(r, m) = (ready, missing)"
  let ?s = "s\<lparr>ss_polls := rest, ss_dirs := (ss_dirs s)(sid := dir)\<rparr>"
  have start: "writing env sid s ?s" by (simp add: writing_def archive_kept_or_fresh_def w)
  then show "writing env sid s ?s \<or> ?s = s" by simp
  assume "\<not> \<not> ready"
  then obtain t where t: "dir = Some t" "resumable_in env sid t" using w by auto
  then have d: "snd (snd (waited env sid s)) = Some t" using w by simp
  let ?P = "\<lambda>u. writing env sid s u \<and> ss_archives u sid = Some (snapshot_of env sid t)"
  show "ends (doing [archiveSessionDirAtomic env sid, storeMetadata env sid (Some ''checkpoint'')])
    (\<lambda>x v. ss_dirs s sid = None \<and> v = s \<or> writing env sid s v \<and> ss_archives v sid \<noteq> None) (\<lambda>e v. writing env sid s v \<or> v = s) ?s"
    by (intro ends_doing_Cons ends_doing_Nil ends_archive [OF start d t(2)] ends_storeMetadata [where P = ?P])
       simp_all
qed auto

text \<open>
  A checkpoint never costs anything: it leaves the directory as last seen in place and either keeps
  the archive or replaces it by the snapshot of that directory, if a session can go on from it; without
  a directory it does nothing.
\<close>

theorem checkpoint_keeps_a_good_archive:
  "case store_checkpoint env sid s of
     (Ret x, v) \<Rightarrow> ss_dirs s sid = None \<and> v = s \<or> writing env sid s v \<and> ss_archives v sid \<noteq> None
   | (Throw e, v) \<Rightarrow> writing env sid s v \<or> v = s
   | (Stop h, v) \<Rightarrow> True"
  using ends_checkpoint [of env sid s] unfolding ends_def .

subsection \<open>The round trip\<close>

text \<open>
  What \<open>tar\<close> is documented to do with a directory and the pattern \<open>inuse.*.lock\<close>: the matching
  files, and what lies under a directory of such a name, are left out.
\<close>

definition excluded_name :: "string \<Rightarrow> bool" where
  "excluded_name s \<longleftrightarrow> starts_with s ''inuse.'' \<and> ends_with s ''.lock'' \<and> length s \<ge> 11"

definition unlocked :: "tree \<Rightarrow> tree" where
  "unlocked t = filter (\<lambda>(p, n). \<not> list_ex excluded_name (split_on (CHR ''/'') p)) t"

text \<open>
  The two listings: the name of each entry below the session's, with a slash after a directory, and a line
  whose first character is the type.
\<close>

definition entry_name :: "string \<Rightarrow> string \<times> fs_node \<Rightarrow> string" where
  "entry_name sid = (\<lambda>(p, n). sid @ ''/'' @ p @ (if nd_kind n = Directory then ''/'' else []))"

definition entry_type :: "string \<times> fs_node \<Rightarrow> string" where
  "entry_type = (\<lambda>(p, n). if nd_kind n = Directory then ''d'' else ''-'')"

definition tar_restores :: "'a store_env \<Rightarrow> string \<Rightarrow> tree \<Rightarrow> bool" where
  "tar_restores env sid t \<longleftrightarrow> (let arc = snapshot_of env sid t in
     tr_extract (se_tar env) arc = [(sid, Directory, unlocked t)] \<and>
     tr_names (se_tar env) arc = (sid @ ''/'') # map (entry_name sid) (unlocked t) \<and>
     map (take 1) (tr_verbose (se_tar env) arc) = ''d'' # map entry_type (unlocked t))"

text \<open>
  The names that \<open>tar\<close> lists as they are: printable ASCII without a backslash; every path is a plain
  relative one and occurs once.
\<close>

definition plain_name :: "string \<Rightarrow> bool" where
  "plain_name s \<longleftrightarrow> list_all (\<lambda>c. 32 \<le> (of_char c :: nat) \<and> (of_char c :: nat) \<le> 126 \<and> c \<noteq> backslash) s"

definition plain_tree :: "tree \<Rightarrow> bool" where
  "plain_tree t \<longleftrightarrow> distinct (map fst t) \<and> list_all (\<lambda>(p, n). plain_name p \<and>
     list_all clean_segment (split_on (CHR ''/'') p) \<and> nd_kind n \<in> {Regular, Directory}) t"

text \<open>A session id that is not read as a drive letter.\<close>

definition plain_id :: "string \<Rightarrow> bool" where
  "plain_id sid \<longleftrightarrow> plain_name sid \<and> \<not> win32_absolute (sid @ ''/'')"

lemma plain_name_chars:
  assumes "plain_name s"
  shows "CHR 0x00 \<notin> set s" "CHR 0x0D \<notin> set s" "nl \<notin> set s" "backslash \<notin> set s"
proof -
  have "c \<in> set s \<Longrightarrow> 32 \<le> (of_char c :: nat)" for c
    using assms by (simp add: plain_name_def list_all_iff)
  then show "CHR 0x00 \<notin> set s" "CHR 0x0D \<notin> set s" "nl \<notin> set s" by force+
  show "backslash \<notin> set s" using assms by (auto simp: plain_name_def list_all_iff)
qed

lemma win32_prefix:
  assumes "clean_segment sid" "backslash \<notin> set sid"
  shows "win32_absolute (sid @ ''/'' @ x) = win32_absolute (sid @ ''/'')"
proof -
  obtain c r where sid: "sid = c # r" using assms(1) by (cases sid) (auto simp: clean_segment_def)
  show ?thesis
  proof (cases r)
    case (Cons d r')
    then show ?thesis using assms sid by (cases r') (auto simp: win32_absolute_def clean_segment_def Let_def)
  qed (simp add: sid win32_absolute_def split: list.split)
qed

lemma entry_accepted:
  assumes "clean_segment sid" "plain_id sid" "plain_name rest" "line = ''d'' @ l \<or> line = ''-'' @ l"
    and "without_trailing_slash (sid @ ''/'' @ rest) = join ''/'' (sid # segs)" "list_all clean_segment segs"
    and "sid @ ''/'' @ rest \<notin> set seen"
  shows "entry_error sid seen (sid @ ''/'' @ rest) line = None"
proof -
  let ?n = "sid @ ''/'' @ rest"
  have pn: "plain_name ?n" using assms(2,3) by (simp add: plain_id_def plain_name_def backslash_def)
  have b: "backslash \<notin> set sid" using assms(2) plain_name_chars(4) by (simp add: plain_id_def)
  have w: "\<not> win32_absolute ?n" using win32_prefix [OF assms(1) b] assms(2) by (simp add: plain_id_def)
  have nost: "\<not> starts_with ?n ''/''" "\<not> starts_with ?n [backslash]"
    using assms(1) b by (cases sid; auto simp: clean_segment_def starts_with_def)+
  have cl: "list_all clean_segment (sid # segs)" using assms(1,6) by simp
  then have "list_all (\<lambda>x. CHR ''/'' \<notin> set x) (sid # segs)" by (auto simp: list_all_iff clean_segment_def)
  then have sp: "split_on (CHR ''/'') (without_trailing_slash ?n) = sid # segs"
    unfolding assms(5) by (intro split_on_join) simp_all
  have ne: "without_trailing_slash ?n \<noteq> []"
    using assms(1) unfolding assms(5) by (cases segs) (auto simp: clean_segment_def)
  have dots: "\<not> list_ex (\<lambda>s. s = [] \<or> s = ''.'' \<or> s = ''..'') (sid # segs)"
    using cl by (auto simp: list_ex_iff list_all_iff clean_segment_def)
  show ?thesis
    unfolding entry_error_def Let_def sp
    using assms(4,7) plain_name_chars [OF pn] w nost ne dots
    by (auto simp: str_includes_char simp del: append_assoc)
qed

lemma preflight_entries_ok:
  assumes "\<And>seen name line. (name, line) \<in> set es \<Longrightarrow> name \<notin> set seen \<Longrightarrow> entry_error sid seen name line = None"
    and "distinct (map fst es)" "set (map fst es) \<inter> set seen = {}"
  shows "preflight_entries sid seen es = None"
  using assms
proof (induction es arbitrary: seen)
  case (Cons e es)
  obtain name line where e: "e = (name, line)" by (cases e)
  have "entry_error sid seen name line = None" using Cons.prems e by auto
  moreover have "preflight_entries sid (name # seen) es = None"
    by (rule Cons.IH) (use Cons.prems e in auto)
  ultimately show ?case by (simp add: e)
qed simp

lemma slash_last: "without_trailing_slash (x @ ''/'') = x"
  by (simp add: without_trailing_slash_def butlast_append)

lemma no_slash_last:
  assumes "list_all clean_segment segs" "segs \<noteq> []"
  shows "without_trailing_slash (join ''/'' segs) = join ''/'' segs"
proof -
  have "\<not> ends_with (join ''/'' segs) ''/''"
  proof
    assume "ends_with (join ''/'' segs) ''/''"
    then obtain x where "join ''/'' segs = x @ ''/''"
      unfolding ends_with_def starts_with_def
      by (metis append_take_drop_id rev_append rev_rev_ident)
    then have "split_on (CHR ''/'') (join ''/'' segs) = split_on (CHR ''/'') x @ [[]]"
      using split_on_append [of "CHR ''/''" x "[]"] by simp
    moreover have "split_on (CHR ''/'') (join ''/'' segs) = segs"
      by (rule split_on_join [OF assms(2)]) (use assms(1) in \<open>auto simp: list_all_iff clean_segment_def\<close>)
    ultimately show False using assms(1) by (auto simp: clean_segment_def)
  qed
  then show ?thesis by (simp add: without_trailing_slash_def)
qed

lemma plain_entry:
  assumes "plain_name p" "list_all clean_segment (split_on (CHR ''/'') p)" "clean_segment sid"
  shows "without_trailing_slash (entry_name sid (p, n)) = join ''/'' (sid # split_on (CHR ''/'') p)"
proof -
  have "join ''/'' (sid # split_on (CHR ''/'') p) = sid @ ''/'' @ p"
    using join_split [of "CHR ''/''" p] by (cases "split_on (CHR ''/'') p") auto
  moreover have "list_all clean_segment (sid # split_on (CHR ''/'') p)" using assms by simp
  ultimately show ?thesis
    using no_slash_last [of "sid # split_on (CHR ''/'') p"] slash_last [of "sid @ ''/'' @ p"]
    by (simp add: entry_name_def)
qed

lemma plain_archive_accepted:
  assumes "validateSessionId sid = None" "plain_id sid" "plain_tree t"
    and "names = (sid @ ''/'') # map (entry_name sid) t" "map (take 1) verbose = ''d'' # map entry_type t"
  shows "preflightSessionArchive names verbose path sid = None"
proof -
  have c: "clean_segment sid" using assms(1) by (rule valid_id_clean)
  have len: "length verbose = length names" using arg_cong [OF assms(5), of length] assms(4) by simp
  have pairs: "zip names (map (take 1) verbose) = (sid @ ''/'', ''d'') # map (\<lambda>e. (entry_name sid e, entry_type e)) t"
    unfolding assms(4,5) by (simp add: zip_map_map zip_same_conv_map)
  have plain: "plain_name p" "list_all clean_segment (split_on (CHR ''/'') p)" "p \<noteq> []" if "(p, n) \<in> set t" for p n
  proof -
    show "plain_name p" "list_all clean_segment (split_on (CHR ''/'') p)"
      using assms(3) that by (auto simp: plain_tree_def list_all_iff)
    then show "p \<noteq> []" by (auto simp: clean_segment_def)
  qed
  have stripped: "without_trailing_slash (entry_name sid (p, n)) = join ''/'' (sid # split_on (CHR ''/'') p)"
    if "(p, n) \<in> set t" for p n
    by (rule plain_entry [OF plain(1,2) [OF that] c])
  have ok: "entry_error sid seen name line = None" if "(name, line) \<in> set (zip names verbose)" "name \<notin> set seen"
    for seen name line
  proof -
    have "(name, take 1 line) \<in> set (zip names (map (take 1) verbose))"
      using that(1) by (auto simp: zip_map2 image_iff intro!: bexI [of _ "(name, line)"])
    then consider "name = sid @ ''/''" "take 1 line = ''d''"
      | p n where "(p, n) \<in> set t" "name = entry_name sid (p, n)" "take 1 line = entry_type (p, n)"
      unfolding pairs by auto
    then show ?thesis
    proof cases
      case 1
      then have l: "line = ''d'' @ drop 1 line \<or> line = ''-'' @ drop 1 line" by (metis append_take_drop_id)
      show ?thesis
        using entry_accepted [OF c assms(2) _ l, of "[]" "[]" seen] 1(1) that(2)
        by (simp add: plain_name_def slash_last)
    next
      case 2
      then have "take 1 line = ''d'' \<or> take 1 line = ''-''" by (simp add: entry_type_def)
      then have l: "line = ''d'' @ drop 1 line \<or> line = ''-'' @ drop 1 line" by (metis append_take_drop_id)
      have "plain_name (p @ (if nd_kind n = Directory then ''/'' else []))"
        using plain(1) [OF 2(1)] by (simp add: plain_name_def backslash_def)
      from entry_accepted [OF c assms(2) this l, of "split_on (CHR ''/'') p" seen] show ?thesis
        using stripped [OF 2(1)] plain(2) [OF 2(1)] that(2) 2(2) by (simp add: entry_name_def)
    qed
  qed
  have inj: "inj_on (entry_name sid) (set t)"
  proof (rule inj_onI, clarify)
    fix p n q m assume e: "(p, n) \<in> set t" "(q, m) \<in> set t" "entry_name sid (p, n) = entry_name sid (q, m)"
    have "join ''/'' (sid # split_on (CHR ''/'') x) = sid @ ''/'' @ x" for x
      using join_split [of "CHR ''/''" x] by (cases "split_on (CHR ''/'') x") auto
    then have "p = q" using stripped [OF e(1)] stripped [OF e(2)] e(3) by simp
    then show "p = q \<and> n = m"
      using e(1,2) assms(3) by (auto simp: plain_tree_def dest: eq_key_imp_eq_value)
  qed
  have "distinct names"
    unfolding assms(4) using inj assms(3) plain(3)
    by (auto simp: distinct_map plain_tree_def entry_name_def)
  then have "preflight_entries sid [] (zip names verbose) = None"
    by (intro preflight_entries_ok ok) (simp_all add: len)
  then show ?thesis by (simp add: preflightSessionArchive_def len assms(4))
qed

lemma hydrate_clean:
  assumes "ss_archives s sid = Some arc" "tr_extract (se_tar env) arc = [(sid, Directory, t)]"
    "preflightSessionArchive (tr_names (se_tar env) arc) (tr_verbose (se_tar env) arc) (tar_path env sid) sid = None"
    "list_all (\<lambda>(p, n). nd_kind n \<in> {Regular, Directory}) t" "validateSessionId sid = None"
    "ss_faults s = []" "ss_names s = n # ns" "ss_dirs s sid = None" "ss_backups s (n @ ''.backup'') = None"
  shows "\<exists>v. store_hydrate env sid s = (Ret (), v) \<and> ss_dirs v sid = Some t"
proof -
  have st: "staged_tree sid (tr_extract (se_tar env) arc) = Inr t"
    using assms(2) tree_error_none [of t] assms(4) by (simp add: staged_tree_def)
  show ?thesis
    using assms st
    by (simp add: store_hydrate_def containedDir_def session_dir_child extractSessionArchive_def
        mkdtemp_def lift_error_def finish_with_def installStaged_def cleanStaging_def fallible_def
        bind_def andThen_def ret_def throw_def inspect_def try_catch_def cond_def modify_def Let_def)
qed

lemma dehydrate_clean:
  assumes "validateSessionId sid = None" "waited env sid s = (True, m, Some t)" "ss_faults s = []"
  shows "\<exists>v. store_dehydrate env sid reason s = (Ret (), v) \<and> ss_dirs v sid = None \<and>
    ss_archives v sid = Some (snapshot_of env sid t) \<and> ss_faults v = [] \<and> ss_names v = ss_names s \<and>
    ss_backups v = ss_backups s"
proof -
  obtain polls rest where p: "ss_polls s = polls # rest"
      "wait_polls (se_parse env) (path_resolve (se_stateDir env) sid) sid polls (ss_dirs s sid) [sid @ ''/''] [] 0
        = (True, m, Some t)"
    using assms(2) by (cases "ss_polls s") (auto simp: waited_def)
  show ?thesis
    using assms(1,3) p
    by (simp add: store_dehydrate_def containedDir_def session_dir_child waitForSessionSnapshot_def
        archiveSessionDirAtomic_def storeMetadata_def writeMetadataAtomic_def fallible_def snapshot_of_def
        remove_dir_def removing_def bind_def andThen_def ret_def inspect_def cond_def)
qed

text \<open>
  C17: Dehydrating a session and hydrating it later gives its directory back, without the lock files of
  the process that held it - when the directory was ready, no step fails, \<open>tar\<close> lists and restores as
  documented, and the names are ones that both sides read alike: everything left is a plain file or a
  directory, every path occurs once, has no empty, dot or dot-dot segment and consists of printable ASCII
  characters other than the backslash, and so does the id, which is also not a drive letter with a colon.
  That hydration accepts the archive is part of what is shown.
\<close>

theorem dehydrate_then_hydrate:
  assumes "validateSessionId sid = None" "waited env sid s = (True, m, Some t)" "tar_restores env sid t"
    and "plain_id sid" "plain_tree (unlocked t)"
    and "ss_faults s = []" "ss_names s = n # ns" "ss_backups s (n @ ''.backup'') = None"
  shows "\<exists>v w. store_dehydrate env sid reason s = (Ret (), v) \<and> ss_dirs v sid = None \<and>
    store_hydrate env sid v = (Ret (), w) \<and> ss_dirs w sid = Some (unlocked t)"
proof -
  have p: "list_all (\<lambda>(p, n). nd_kind n \<in> {Regular, Directory}) (unlocked t)"
    using assms(5) by (auto simp: list_all_iff plain_tree_def)
  have tar: "tr_extract (se_tar env) (snapshot_of env sid t) = [(sid, Directory, unlocked t)]"
    "preflightSessionArchive (tr_names (se_tar env) (snapshot_of env sid t))
       (tr_verbose (se_tar env) (snapshot_of env sid t)) (tar_path env sid) sid = None"
    using assms(3) plain_archive_accepted [OF assms(1,4,5)] by (simp_all add: tar_restores_def Let_def)
  obtain v where v: "store_dehydrate env sid reason s = (Ret (), v)" "ss_dirs v sid = None"
      "ss_archives v sid = Some (snapshot_of env sid t)" "ss_faults v = []" "ss_names v = n # ns"
      "ss_backups v (n @ ''.backup'') = None"
    using dehydrate_clean [OF assms(1,2,6)] assms(7,8) by metis
  have "\<exists>w. store_hydrate env sid v = (Ret (), w) \<and> ss_dirs w sid = Some (unlocked t)"
    by (rule hydrate_clean [OF v(3) tar p assms(1) v(4,5,2,6)])
  with v(1,2) show ?thesis by blast
qed

text \<open>A \<open>tar\<close> that keeps the name and the tree as they are.\<close>

definition plain_tar :: "(string \<times> tree) tar_tool" where
  "plain_tar = \<lparr> tr_create = (\<lambda>_ sid t. (sid, unlocked t)),
     tr_names = (\<lambda>(sid, t). (sid @ ''/'') # map (entry_name sid) t),
     tr_verbose = (\<lambda>(sid, t). ''drwx'' # map (\<lambda>(p, n). if nd_kind n = Directory then ''drwx'' else ''-rw-'') t),
     tr_extract = (\<lambda>(sid, t). [(sid, Directory, t)]), tr_size = (\<lambda>(sid, t). length t) \<rparr>"

definition plain_env :: "(string \<times> tree) store_env" where
  "plain_env = \<lparr> se_stateDir = ''/state'', se_storeDir = ''/store'', se_hostname = ''w1'', se_parse = (\<lambda>_. None),
     se_tar = plain_tar \<rparr>"

definition live_store :: "(string \<times> tree) store_state" where
  "live_store = \<lparr> ss_dirs = [''s1'' \<mapsto> workspace], ss_backups = Map.empty, ss_archives = Map.empty, ss_meta = Map.empty,
     ss_polls = [[Some workspace, Some workspace, Some workspace]], ss_names = [''stage''], ss_faults = [] \<rparr>"

lemma live_store_waited: "waited plain_env ''s1'' live_store = (True, [], Some workspace)"
  by code_simp

lemma plain_tar_restores: "tar_restores plain_env ''s1'' workspace"
  by code_simp

theorem dehydrate_then_hydrate_witness:
  "\<exists>v w. store_dehydrate plain_env ''s1'' None live_store = (Ret (), v) \<and> ss_dirs v ''s1'' = None \<and>
    store_hydrate plain_env ''s1'' v = (Ret (), w) \<and> ss_dirs w ''s1'' = Some (unlocked workspace)"
  by (rule dehydrate_then_hydrate [OF _ live_store_waited plain_tar_restores]) (code_simp | simp add: live_store_def)+

subsection \<open>A removal that breaks off\<close>

text \<open>
  C33: A removal that breaks off can cost state on the retry. When a dehydration has written archive and
  metadata - its first six steps on the disk - and the removal of the directory, the seventh, breaks off
  with the entries \<open>gone\<close> removed, it fails, with the complete archive in place. When what is left still
  passes for a complete workspace, the next try of the session manager (it makes three), if no step of it
  fails, archives what is left and puts it in place of the complete archive: the removed entries exist
  nowhere any more, and the dehydration reports success.
\<close>

theorem retry_replaces_the_archive:
  assumes "validateSessionId sid = None" "waited env sid s = (True, m, Some t)"
    and "ss_faults s = replicate 6 None @ [Some (e, gone)]" "ss_polls s = polls # again # rest"
    and "wait_polls (se_parse env) (path_resolve (se_stateDir env) sid) sid again
       (Some (partly_removed gone t)) [sid @ ''/''] [] 0 = (True, m', Some (partly_removed gone t))"
  shows "\<exists>v w. store_dehydrate env sid reason s = (Throw e, v) \<and>
     ss_archives v sid = Some (snapshot_of env sid t) \<and> ss_dirs v sid = Some (partly_removed gone t) \<and>
     store_dehydrate env sid reason v = (Ret (), w) \<and>
     ss_archives w sid = Some (snapshot_of env sid (partly_removed gone t)) \<and> ss_dirs w sid = None"
proof -
  have w: "wait_polls (se_parse env) (path_resolve (se_stateDir env) sid) sid polls (ss_dirs s sid) [sid @ ''/''] [] 0
      = (True, m, Some t)"
    using assms(2,4) by (simp add: waited_def)
  have f: "ss_faults s = [None, None, None, None, None, None, Some (e, gone)]"
    using assms(3) by (simp add: numeral_eq_Suc)
  obtain v where v: "store_dehydrate env sid reason s = (Throw e, v)" "ss_archives v sid = Some (snapshot_of env sid t)"
    "ss_dirs v sid = Some (partly_removed gone t)" "ss_polls v = again # rest" "ss_faults v = []"
    using assms(1,4) w f
    by (simp add: store_dehydrate_def containedDir_def session_dir_child waitForSessionSnapshot_def
        archiveSessionDirAtomic_def storeMetadata_def writeMetadataAtomic_def fallible_def snapshot_of_def
        remove_dir_def removing_def bind_def andThen_def ret_def inspect_def cond_def)
  have "waited env sid v = (True, m', Some (partly_removed gone t))"
    using assms(5) v(3,4) by (simp add: waited_def)
  from dehydrate_clean [OF assms(1) this v(5)] v(1-3) show ?thesis by blast
qed

definition notes_workspace :: tree where
  "notes_workspace = workspace @ [(''files'', \<lparr> nd_kind = Directory, nd_data = [], nd_mtime = 7 \<rparr>),
     (''files/notes.md'', \<lparr> nd_kind = Regular, nd_data = ''notes'', nd_mtime = 8 \<rparr>)]"

definition stuck_store :: "(string \<times> tree) store_state" where
  "stuck_store = live_store
     \<lparr>ss_polls := [replicate 3 (Some notes_workspace), replicate 3 (Some (partly_removed [''files/notes.md''] notes_workspace))],
      ss_faults := replicate 6 None @ [Some (''EBUSY'', [''files/notes.md''])]\<rparr>"

lemma stuck_store_waits:
  "waited plain_env ''s1'' stuck_store = (True, [], Some notes_workspace)"
  "wait_polls (se_parse plain_env) (path_resolve (se_stateDir plain_env) ''s1'') ''s1''
     (replicate 3 (Some (partly_removed [''files/notes.md''] notes_workspace)))
     (Some (partly_removed [''files/notes.md''] notes_workspace)) [''s1'' @ ''/''] [] 0 =
   (True, [], Some (partly_removed [''files/notes.md''] notes_workspace))"
  by code_simp+

theorem retry_replaces_the_archive_witness:
  "\<exists>v w. store_dehydrate plain_env ''s1'' None stuck_store = (Throw ''EBUSY'', v) \<and>
     ss_archives v ''s1'' = Some (snapshot_of plain_env ''s1'' notes_workspace) \<and>
     ss_dirs v ''s1'' = Some (partly_removed [''files/notes.md''] notes_workspace) \<and>
     store_dehydrate plain_env ''s1'' None v = (Ret (), w) \<and>
     ss_archives w ''s1'' = Some (snapshot_of plain_env ''s1'' (partly_removed [''files/notes.md''] notes_workspace)) \<and>
     ss_dirs w ''s1'' = None"
  by (rule retry_replaces_the_archive [OF _ stuck_store_waits(1) _ _ stuck_store_waits(2)])
     (code_simp | simp add: stuck_store_def)+

subsection \<open>Directories with links\<close>

definition unwelcome :: "tree \<Rightarrow> bool" where
  "unwelcome t \<longleftrightarrow> list_ex (\<lambda>(p, n). nd_kind n \<in> {Symlink, HardLinked, Special}) t"

lemma unwelcome_rejected:
  assumes "unwelcome t"
  shows "\<exists>e. staged_tree sid [(sid, Directory, t)] = Inl e"
proof -
  have "validateExtractedSessionTree t \<noteq> None"
    using assms unfolding tree_error_none unwelcome_def list_ex_iff list_all_iff by fastforce
  then show ?thesis by (auto simp: staged_tree_def)
qed

lemma hydrate_rejects:
  assumes "ss_archives s sid = Some arc" "tr_extract (se_tar env) arc = [(sid, Directory, t)]" "unwelcome t"
    "validateSessionId sid = None" "ss_faults s = []" "ss_names s = n # ns"
    "ss_dirs s sid = None"
  shows "\<exists>e v. store_hydrate env sid s = (Throw e, v) \<and> ss_dirs v sid = None"
proof -
  obtain e where e: "staged_tree sid (tr_extract (se_tar env) arc) = Inl e"
    using unwelcome_rejected [OF assms(3)] assms(2) by metis
  show ?thesis
    using assms e
    by (cases "preflightSessionArchive (tr_names (se_tar env) arc) (tr_verbose (se_tar env) arc) (tar_path env sid) sid")
       (simp_all add: store_hydrate_def containedDir_def session_dir_child extractSessionArchive_def
        mkdtemp_def lift_error_def finish_with_def installStaged_def cleanStaging_def fallible_def
        bind_def andThen_def ret_def throw_def inspect_def try_catch_def cond_def modify_def Let_def)
qed

text \<open>
  Dehydration does not look for what hydration refuses: a session whose ready directory holds a
  symbolic link, a hard-linked or a special file is archived and its directory removed, and the archive
  can then not be hydrated - when \<open>tar\<close> restores such entries as they were and no step fails.
\<close>

theorem linked_session_cannot_come_back:
  assumes "validateSessionId sid = None" "waited env sid s = (True, m, Some t)" "unwelcome (unlocked t)"
    and "tr_extract (se_tar env) (snapshot_of env sid t) = [(sid, Directory, unlocked t)]"
    and "ss_faults s = []" "ss_names s = n # ns"
  shows "\<exists>v e u. store_dehydrate env sid reason s = (Ret (), v) \<and> ss_dirs v sid = None \<and>
    store_hydrate env sid v = (Throw e, u) \<and> ss_dirs u sid = None"
proof -
  obtain v where v: "store_dehydrate env sid reason s = (Ret (), v)" "ss_dirs v sid = None"
      "ss_archives v sid = Some (snapshot_of env sid t)" "ss_faults v = []" "ss_names v = n # ns"
    using dehydrate_clean [OF assms(1,2,5)] assms(6) by metis
  with hydrate_rejects [OF v(3) assms(4,3,1) v(4,5,2)] show ?thesis by blast
qed

definition linked_workspace :: tree where
  "linked_workspace = workspace @ [(''files'', \<lparr> nd_kind = Directory, nd_data = [], nd_mtime = 7 \<rparr>),
     (''files/latest'', \<lparr> nd_kind = Symlink, nd_data = ''report.md'', nd_mtime = 8 \<rparr>)]"

definition linked_store :: "(string \<times> tree) store_state" where
  "linked_store = live_store\<lparr>ss_polls := [[Some linked_workspace, Some linked_workspace, Some linked_workspace]]\<rparr>"

lemma linked_store_waited: "waited plain_env ''s1'' linked_store = (True, [], Some linked_workspace)"
  by code_simp

theorem linked_session_cannot_come_back_witness:
  "\<exists>v e u. store_dehydrate plain_env ''s1'' None linked_store = (Ret (), v) \<and> ss_dirs v ''s1'' = None \<and>
    store_hydrate plain_env ''s1'' v = (Throw e, u) \<and> ss_dirs u ''s1'' = None"
  by (rule linked_session_cannot_come_back [OF _ linked_store_waited])
     (code_simp | simp add: linked_store_def live_store_def)+

end
