(* ===== verification/ArtifactStore.thy ===== *)
theory ArtifactStore
  imports StoreGuarantees "HOL-Library.AList"
begin

text \<open>
  The artifact store on the file system (\<open>FilesystemArtifactStore\<close> of \<open>packages/sdk/src/session-store.ts\<close>),
  over a small file system of absolute POSIX paths, and what it promises: an artifact comes back as it
  was written, and no operation on one session touches a file of another. Host errors other than the
  ones that follow from what is where are the outcomes of a list.
\<close>

subsection \<open>The file system\<close>

record art_state =
  as_dirs :: "string list"
  as_files :: "(string \<times> string) list"
  as_faults :: "string option list"

type_synonym 'x artp = "(art_state, unit, 'x) prog"

definition host_step :: "unit artp" where
  "host_step s = (case as_faults s of
       [] \<Rightarrow> (Ret (), s)
     | None # fs \<Rightarrow> (Ret (), s\<lparr>as_faults := fs\<rparr>)
     | Some e # fs \<Rightarrow> (Throw e, s\<lparr>as_faults := fs\<rparr>))"

definition is_file :: "art_state \<Rightarrow> string \<Rightarrow> bool" where
  "is_file s p = (map_of (as_files s) p \<noteq> None)"

definition is_dir :: "art_state \<Rightarrow> string \<Rightarrow> bool" where
  "is_dir s p = (p \<in> set (as_dirs s))"

definition existsSync :: "art_state \<Rightarrow> string \<Rightarrow> bool" where
  "existsSync s p = (is_dir s p \<or> is_file s p)"

definition ancestors :: "string \<Rightarrow> string list" where
  "ancestors p = map (\<lambda>i. path_of (take i (segments_of p))) [0..<Suc (length (segments_of p))]"

definition dirname :: "string \<Rightarrow> string" where
  "dirname p = path_of (butlast (segments_of p))"

text \<open>\<open>mkdirSync\<close> with \<open>recursive\<close>: a file on the way is an error.\<close>

definition mkdir_p :: "string \<Rightarrow> unit artp" where
  "mkdir_p p = andThen host_step (inspect (\<lambda>s.
     if is_file s p then throw (''EEXIST: file already exists, mkdir '' @ p)
     else if list_ex (is_file s) (ancestors p) then throw (''ENOTDIR: not a directory, mkdir '' @ p)
     else modify (\<lambda>s. s\<lparr>as_dirs := as_dirs s @ filter (\<lambda>d. \<not> is_dir s d) (ancestors p)\<rparr>)))"

definition writeFileSync :: "string \<Rightarrow> string \<Rightarrow> unit artp" where
  "writeFileSync p content = andThen host_step (inspect (\<lambda>s.
     if is_dir s p then throw (''EISDIR: illegal operation on a directory, open '' @ p)
     else modify (\<lambda>s. s\<lparr>as_files := AList.update p content (as_files s)\<rparr>)))"

definition readFileSync :: "string \<Rightarrow> string artp" where
  "readFileSync p = andThen host_step (inspect (\<lambda>s.
     case map_of (as_files s) p of Some c \<Rightarrow> ret c
     | None \<Rightarrow> throw (if is_dir s p then ''EISDIR: illegal operation on a directory, read''
                      else ''ENOENT: no such file or directory, open '' @ p)))"

text \<open>The names in a directory; the order is the host's.\<close>

definition readdirSync :: "string \<Rightarrow> string list artp" where
  "readdirSync p = andThen host_step (inspect (\<lambda>s.
     if is_file s p then throw (''ENOTDIR: not a directory, scandir '' @ p)
     else ret (map (\<lambda>q. last (segments_of q))
       (filter (\<lambda>q. segments_of q \<noteq> [] \<and> butlast (segments_of q) = segments_of p)
          (as_dirs s @ map fst (as_files s))))))"

definition unlinkSync :: "string \<Rightarrow> unit artp" where
  "unlinkSync p = andThen host_step (inspect (\<lambda>s.
     if is_dir s p then throw (''EISDIR: illegal operation on a directory, unlink '' @ p)
     else modify (\<lambda>s. s\<lparr>as_files := AList.delete p (as_files s)\<rparr>)))"

subsection \<open>The store\<close>

definition safe_name :: "string \<Rightarrow> string" where
  "safe_name filename = map (\<lambda>c. if c = CHR ''/'' \<or> c = backslash then CHR ''_'' else c) filename"

definition safePath :: "string \<Rightarrow> string \<Rightarrow> string \<Rightarrow> string + string" where
  "safePath artifactDir sid filename =
     (case resolveContainedSessionDir artifactDir sid of
        Inl e \<Rightarrow> Inl e
      | Inr sessionRoot \<Rightarrow> Inr (path_resolve sessionRoot (safe_name filename)))"

definition at_path :: "string + string \<Rightarrow> (string \<Rightarrow> 'x artp) \<Rightarrow> 'x artp" where
  "at_path p f = (case p of Inl e \<Rightarrow> throw e | Inr q \<Rightarrow> f q)"

definition valid_first :: "string \<Rightarrow> 'x artp \<Rightarrow> 'x artp" where
  "valid_first sid m = (case validateSessionId sid of Some e \<Rightarrow> throw e | None \<Rightarrow> m)"

definition MAX_SIZE :: nat where
  "MAX_SIZE = 1048576"

text \<open>The limit counts the characters of the text.\<close>

definition uploadArtifact :: "string \<Rightarrow> string \<Rightarrow> string \<Rightarrow> string \<Rightarrow> string artp" where
  "uploadArtifact root sid filename content = valid_first sid
     (if length content > MAX_SIZE
      then throw (''Artifact too large: '' @ show_nat (length content) @ '' bytes (max '' @ show_nat MAX_SIZE @ '')'')
      else at_path (safePath root sid filename) (\<lambda>p.
        andThen (mkdir_p (dirname p)) (andThen (writeFileSync p content) (ret p))))"

definition downloadArtifact :: "string \<Rightarrow> string \<Rightarrow> string \<Rightarrow> string artp" where
  "downloadArtifact root sid filename = valid_first sid
     (at_path (safePath root sid filename) (\<lambda>p. inspect (\<lambda>s.
        if \<not> existsSync s p then throw (''Artifact not found: '' @ filename @ '' in session '' @ sid)
        else readFileSync p)))"

definition downloadArtifactText :: "string \<Rightarrow> string \<Rightarrow> string \<Rightarrow> string artp" where
  "downloadArtifactText root sid filename = valid_first sid (downloadArtifact root sid filename)"

definition listArtifacts :: "string \<Rightarrow> string \<Rightarrow> string list artp" where
  "listArtifacts root sid = at_path (resolveContainedSessionDir root sid) (\<lambda>dir. inspect (\<lambda>s.
     if \<not> existsSync s dir then ret []
     else bind (readdirSync dir) (\<lambda>names. ret (filter (\<lambda>f. \<not> starts_with f ''.'') names))))"

definition deleteArtifact :: "string \<Rightarrow> string \<Rightarrow> string \<Rightarrow> bool artp" where
  "deleteArtifact root sid filename = valid_first sid
     (at_path (safePath root sid filename) (\<lambda>p. inspect (\<lambda>s.
        if existsSync s p then andThen (unlinkSync p) (ret True) else ret False)))"

definition artifactExists :: "string \<Rightarrow> string \<Rightarrow> string \<Rightarrow> bool artp" where
  "artifactExists root sid filename = valid_first sid
     (at_path (safePath root sid filename) (\<lambda>p. inspect (\<lambda>s. ret (existsSync s p))))"

subsection \<open>Where an artifact lies\<close>

definition artifact_segments :: "string \<Rightarrow> string \<Rightarrow> string \<Rightarrow> string list" where
  "artifact_segments root sid filename =
     segments_of root @ (let n = safe_name filename in
       if n = [] \<or> n = ''.'' then [sid] else if n = ''..'' then [] else [sid, n])"

lemma safe_name_plain: "CHR ''/'' \<notin> set (safe_name filename)"
  by (auto simp: safe_name_def)

lemma safePath_segments:
  assumes "validateSessionId sid = None"
  shows "safePath root sid filename = Inr (path_of (artifact_segments root sid filename))"
proof -
  have c: "clean_segment sid" by (rule valid_id_clean [OF assms])
  then have "list_all clean_segment (segments_of root @ [sid])" using segments_of_clean by simp
  then have "segments_of (path_of (segments_of root @ [sid])) = segments_of root @ [sid]" by (rule segments_of_path_of)
  moreover have "\<not> starts_with (safe_name filename) ''/''"
    using safe_name_plain [of filename] by (cases "safe_name filename") (auto simp: starts_with_def)
  ultimately show ?thesis
    using split_on_none [OF safe_name_plain [of filename]]
    by (simp add: safePath_def session_dir_child assms path_resolve_def artifact_segments_def Let_def)
qed

lemma artifact_segments_clean:
  assumes "validateSessionId sid = None"
  shows "list_all clean_segment (artifact_segments root sid filename)"
  using valid_id_clean [OF assms] segments_of_clean [of root] safe_name_plain [of filename]
  by (auto simp: artifact_segments_def Let_def clean_segment_def)

lemma segments_of_artifact:
  "validateSessionId sid = None \<Longrightarrow>
     segments_of (path_of (artifact_segments root sid filename)) = artifact_segments root sid filename"
  by (rule segments_of_path_of [OF artifact_segments_clean])

subsection \<open>What the steps do\<close>

definition same_files_but :: "string \<Rightarrow> art_state \<Rightarrow> art_state \<Rightarrow> bool" where
  "same_files_but p s v \<longleftrightarrow> (\<forall>q. q \<noteq> p \<longrightarrow> map_of (as_files v) q = map_of (as_files s) q) \<and>
     (is_dir s p \<longrightarrow> as_files v = as_files s) \<and> set (as_dirs s) \<subseteq> set (as_dirs v)"

lemma same_files_refl: "same_files_but p s s"
  by (simp add: same_files_but_def)

lemma same_files_trans: "same_files_but p s u \<Longrightarrow> same_files_but p u v \<Longrightarrow> same_files_but p s v"
  by (auto simp: same_files_but_def is_dir_def)

definition touches_only :: "string \<Rightarrow> 'x artp \<Rightarrow> bool" where
  "touches_only p m \<longleftrightarrow> (\<forall>s. same_files_but p s (snd (m s)))"

lemma touches_ret: "touches_only p (ret x)"
  by (simp add: touches_only_def ret_def same_files_refl)

lemma touches_throw: "touches_only p (throw e)"
  by (simp add: touches_only_def throw_def same_files_refl)

lemma touches_bind: "touches_only p m \<Longrightarrow> (\<And>x. touches_only p (f x)) \<Longrightarrow> touches_only p (bind m f)"
  unfolding touches_only_def bind_def
  by (auto split: prod.splits outcome.splits) (metis same_files_trans snd_conv)+

lemma touches_andThen: "touches_only p m \<Longrightarrow> touches_only p n \<Longrightarrow> touches_only p (andThen m n)"
  unfolding andThen_def by (rule touches_bind)

lemma touches_inspect: "(\<And>u. touches_only p (f u)) \<Longrightarrow> touches_only p (inspect f)"
  by (simp add: touches_only_def inspect_def)

lemma touches_if: "touches_only p m \<Longrightarrow> touches_only p n \<Longrightarrow> touches_only p (if b then m else n)"
  by simp

lemma touches_step: "touches_only p host_step"
  by (auto simp: touches_only_def host_step_def same_files_but_def split: list.splits option.splits)

lemma touches_mkdir: "touches_only p (mkdir_p q)"
  unfolding mkdir_p_def
  by (intro touches_andThen touches_step)
     (auto simp: touches_only_def inspect_def throw_def modify_def same_files_but_def)

lemma touches_write: "touches_only p (writeFileSync p c)"
  unfolding writeFileSync_def
  by (intro touches_andThen touches_step)
     (auto simp: touches_only_def inspect_def throw_def modify_def same_files_but_def update_conv')

lemma touches_unlink: "touches_only p (unlinkSync p)"
  unfolding unlinkSync_def
  by (intro touches_andThen touches_step)
     (auto simp: touches_only_def inspect_def throw_def modify_def same_files_but_def delete_conv')

lemmas touches_rules = touches_ret touches_throw touches_bind touches_andThen touches_inspect touches_if
  touches_step touches_mkdir touches_write touches_unlink

lemma upload_touches:
  assumes "validateSessionId sid = None"
  shows "touches_only (path_of (artifact_segments root sid filename)) (uploadArtifact root sid filename content)"
  unfolding uploadArtifact_def valid_first_def safePath_segments [OF assms] at_path_def
  by (simp add: assms) (intro conjI impI touches_rules)

lemma delete_touches:
  assumes "validateSessionId sid = None"
  shows "touches_only (path_of (artifact_segments root sid filename)) (deleteArtifact root sid filename)"
  unfolding deleteArtifact_def valid_first_def safePath_segments [OF assms] at_path_def
  by (simp add: assms) (intro touches_rules)

lemma invalid_does_nothing: "validateSessionId sid \<noteq> None \<Longrightarrow> snd (valid_first sid m s) = s"
  by (auto simp: valid_first_def throw_def)

lemma touched_file_stays_inside:
  assumes "validateSessionId sid = None" "is_dir s (path_of (segments_of root))"
    and "\<nexists>rest. segments_of p = segments_of root @ sid # rest"
    and "touches_only (path_of (artifact_segments root sid filename)) m"
  shows "map_of (as_files (snd (m s))) p = map_of (as_files s) p"
proof (cases "p = path_of (artifact_segments root sid filename)")
  case True
  then have "segments_of p = artifact_segments root sid filename" using segments_of_artifact [OF assms(1)] by simp
  then have "artifact_segments root sid filename = segments_of root"
    using assms(3) by (auto simp: artifact_segments_def Let_def split: if_splits)
  then show ?thesis using assms(2,4) True by (simp add: touches_only_def same_files_but_def)
next
  case False
  then show ?thesis using assms(4) by (simp add: touches_only_def same_files_but_def)
qed

text \<open>
  No artifact operation reaches out of its session: whatever the session id and the file name are,
  uploading and deleting leave every file as it was that does not lie under the session's own directory
  of the artifact root.
\<close>

theorem artifacts_stay_in_their_session:
  assumes "is_dir s (path_of (segments_of root))" "\<nexists>rest. segments_of p = segments_of root @ sid # rest"
  shows "map_of (as_files (snd (uploadArtifact root sid filename content s))) p = map_of (as_files s) p \<and>
    map_of (as_files (snd (deleteArtifact root sid filename s))) p = map_of (as_files s) p"
proof (cases "validateSessionId sid = None")
  case True
  show ?thesis
    using touched_file_stays_inside [OF True assms upload_touches [OF True]]
      touched_file_stays_inside [OF True assms delete_touches [OF True]] by blast
next
  case False
  then show ?thesis by (simp add: uploadArtifact_def deleteArtifact_def invalid_does_nothing)
qed

definition tidy_root :: "art_state" where
  "tidy_root = \<lparr> as_dirs = [''/'', ''/art''], as_files = [], as_faults = [] \<rparr>"

theorem artifacts_stay_in_their_session_witness:
  "map_of (as_files (snd (uploadArtifact ''/art'' ''s1'' ''../s2/notes.md'' ''x''
     (tidy_root\<lparr>as_files := [(''/art/s2/notes.md'', ''y'')]\<rparr>)))) ''/art/s2/notes.md'' = Some ''y''"
proof -
  have "segments_of ''/art/s2/notes.md'' = [''art'', ''s2'', ''notes.md'']" "segments_of ''/art'' = [''art'']"
    by code_simp+
  moreover have "is_dir (tidy_root\<lparr>as_files := [(''/art/s2/notes.md'', ''y'')]\<rparr>) (path_of (segments_of ''/art''))"
    by code_simp
  ultimately show ?thesis
    using artifacts_stay_in_their_session [of "tidy_root\<lparr>as_files := [(''/art/s2/notes.md'', ''y'')]\<rparr>" "''/art''"
        "''/art/s2/notes.md''" "''s1''" "''../s2/notes.md''" "''x''"] by simp
qed

subsection \<open>Reading back\<close>

text \<open>Nothing on the way to the session's directory is a file.\<close>

definition room_for :: "art_state \<Rightarrow> string \<Rightarrow> bool" where
  "room_for s dir \<longleftrightarrow> list_all (\<lambda>p. \<not> is_file s p) (ancestors dir)"

lemma upload_returns:
  assumes "validateSessionId sid = None" "length content \<le> MAX_SIZE" "as_faults s = []"
    and "room_for s (dirname (path_of (artifact_segments root sid filename)))"
    and "\<not> is_file s (dirname (path_of (artifact_segments root sid filename)))"
    and "\<not> is_dir s (path_of (artifact_segments root sid filename))"
    and "path_of (artifact_segments root sid filename) \<notin> set (ancestors (dirname (path_of (artifact_segments root sid filename))))"
  shows "\<exists>v. uploadArtifact root sid filename content s = (Ret (path_of (artifact_segments root sid filename)), v) \<and>
    as_faults v = [] \<and> as_files v = AList.update (path_of (artifact_segments root sid filename)) content (as_files s)"
proof -
  let ?p = "path_of (artifact_segments root sid filename)"
  have f: "\<not> list_ex (is_file s) (ancestors (dirname ?p))"
    using assms(4) by (auto simp: room_for_def list_all_iff list_ex_iff)
  define s' where "s' = s\<lparr>as_dirs := as_dirs s @ filter (\<lambda>d. \<not> is_dir s d) (ancestors (dirname ?p))\<rparr>"
  have m: "mkdir_p (dirname ?p) s = (Ret (), s')"
    using assms(3,5) f
    by (simp add: mkdir_p_def andThen_def bind_def host_step_def inspect_def modify_def s'_def)
  have nd: "\<not> is_dir s' ?p" using assms(6,7) by (auto simp: is_dir_def s'_def)
  have w: "writeFileSync ?p content s' = (Ret (), s'\<lparr>as_files := AList.update ?p content (as_files s)\<rparr>)"
    using nd assms(3)
    by (simp add: writeFileSync_def andThen_def bind_def host_step_def inspect_def modify_def s'_def)
  show ?thesis
    using assms(1-3) m w
    by (simp add: uploadArtifact_def valid_first_def safePath_segments at_path_def andThen_def bind_def ret_def s'_def)
qed

lemma download_reads:
  assumes "validateSessionId sid = None" "as_faults v = []"
    "map_of (as_files v) (path_of (artifact_segments root sid filename)) = Some content"
  shows "downloadArtifact root sid filename v = (Ret content, v)"
  using assms
  by (simp add: downloadArtifact_def valid_first_def safePath_segments at_path_def inspect_def existsSync_def
      is_file_def readFileSync_def andThen_def bind_def host_step_def ret_def)

lemma ordinary_segments:
  assumes "safe_name filename \<notin> {[], ''.'', ''..''}"
  shows "artifact_segments root sid filename = segments_of root @ [sid, safe_name filename]"
  using assms by (simp add: artifact_segments_def Let_def)

lemma ordinary_dirname:
  assumes "validateSessionId sid = None" "safe_name filename \<notin> {[], ''.'', ''..''}"
  shows "dirname (path_of (artifact_segments root sid filename)) = path_of (segments_of root @ [sid])"
  using segments_of_artifact [OF assms(1), of root filename] ordinary_segments [OF assms(2), of root sid]
  by (simp add: dirname_def butlast_append)

lemma path_of_inject:
  "list_all clean_segment xs \<Longrightarrow> list_all clean_segment ys \<Longrightarrow> path_of xs = path_of ys \<longleftrightarrow> xs = ys"
  by (metis segments_of_path_of)

lemma ancestors_of_dir:
  assumes "list_all clean_segment segs"
  shows "ancestors (path_of segs) = map (\<lambda>i. path_of (take i segs)) [0..<Suc (length segs)]"
  by (simp add: ancestors_def segments_of_path_of [OF assms])

lemma below_no_ancestor:
  assumes "list_all clean_segment (xs @ [y])"
  shows "path_of (xs @ [y]) \<notin> set (ancestors (path_of xs))"
proof
  assume "path_of (xs @ [y]) \<in> set (ancestors (path_of xs))"
  then obtain i where "path_of (xs @ [y]) = path_of (take i xs)"
    using assms by (auto simp: ancestors_of_dir simp del: upt_Suc)
  then have "xs @ [y] = take i xs"
    using assms path_of_inject [of "xs @ [y]" "take i xs"] by (auto simp: list_all_iff dest: in_set_takeD)
  then have "length (xs @ [y]) = length (take i xs)" by simp
  then show False by simp
qed

text \<open>
  An artifact that was uploaded is read back as it was written, also under any name that differs
  only in its separators: when the session id is valid, the name is an ordinary one, the text is not
  too large, no file stands in the place of a directory and no directory in the place of the artifact.
\<close>

theorem artifact_round_trip:
  assumes "validateSessionId sid = None" "safe_name filename \<notin> {[], ''.'', ''..''}" "length content \<le> MAX_SIZE"
    and "as_faults s = []" "room_for s (path_of (segments_of root @ [sid]))"
    and "\<not> is_dir s (path_of (segments_of root @ [sid, safe_name filename]))"
    and "safe_name other = safe_name filename"
  shows "\<exists>p v. uploadArtifact root sid filename content s = (Ret p, v) \<and>
    downloadArtifact root sid other v = (Ret content, v)"
proof -
  have c: "list_all clean_segment (segments_of root @ [sid, safe_name filename])"
    using artifact_segments_clean [OF assms(1), of root filename] ordinary_segments [OF assms(2), of root sid] by simp
  have d: "dirname (path_of (artifact_segments root sid filename)) = path_of (segments_of root @ [sid])"
    by (rule ordinary_dirname [OF assms(1,2)])
  have r: "list_all (\<lambda>p. \<not> is_file s p) (ancestors (path_of (segments_of root @ [sid])))"
    using assms(5) by (simp add: room_for_def)
  have self: "path_of (segments_of root @ [sid]) \<in> set (ancestors (path_of (segments_of root @ [sid])))"
    using c by (simp add: ancestors_of_dir)
  have nf: "\<not> is_file s (path_of (segments_of root @ [sid]))"
    using r self by (auto simp: list_all_iff)
  have o: "artifact_segments root sid other = artifact_segments root sid filename"
    by (simp add: artifact_segments_def assms(7))
  have "\<exists>v. uploadArtifact root sid filename content s = (Ret (path_of (artifact_segments root sid filename)), v) \<and>
    as_faults v = [] \<and> as_files v = AList.update (path_of (artifact_segments root sid filename)) content (as_files s)"
    using below_no_ancestor [of "segments_of root @ [sid]" "safe_name filename"] c assms(5,6) nf
    by (intro upload_returns assms(1,3,4)) (simp_all only: d, simp_all add: ordinary_segments [OF assms(2)])
  then obtain v where v: "uploadArtifact root sid filename content s = (Ret (path_of (artifact_segments root sid filename)), v)"
      "as_faults v = []" "as_files v = AList.update (path_of (artifact_segments root sid filename)) content (as_files s)"
    by blast
  have "downloadArtifact root sid other v = (Ret content, v)"
    by (rule download_reads [OF assms(1) v(2)]) (simp add: v(3) o update_conv')
  with v(1) show ?thesis by blast
qed

theorem artifact_round_trip_witness:
  "\<exists>p v. uploadArtifact ''/art'' ''s1'' ''docs/plan.md'' ''x'' tidy_root = (Ret p, v) \<and>
    downloadArtifact ''/art'' ''s1'' ''docs_plan.md'' v = (Ret ''x'', v)"
  by (rule artifact_round_trip) (simp add: MAX_SIZE_def | code_simp)+

text \<open>
  The file names that sanitising leaves alone are not harmless: uploading under the name \<open>.\<close> before
  a session has artifacts turns the session's directory into a file, after which no ordinary artifact of
  the session can be uploaded any more; and the name \<open>..\<close> names the artifact root, which every session
  therefore reports as an existing artifact.
\<close>

theorem dot_artifact_blocks_the_session:
  assumes "validateSessionId sid = None" "length content \<le> MAX_SIZE" "as_faults s = []"
    and "room_for s (path_of (segments_of root))" "\<not> is_dir s (path_of (segments_of root @ [sid]))"
    and "is_dir s (path_of (segments_of root))" "safe_name filename \<notin> {[], ''.'', ''..''}" "length text \<le> MAX_SIZE"
  shows "\<exists>p v e. uploadArtifact root sid ''.'' content s = (Ret p, v) \<and>
    fst (uploadArtifact root sid filename text v) = Throw e \<and>
    artifactExists root sid ''..'' s = (Ret True, s)"
proof -
  let ?d = "path_of (segments_of root @ [sid])"
  have c: "list_all clean_segment (segments_of root @ [sid])"
    using valid_id_clean [OF assms(1)] segments_of_clean [of root] by simp
  have dot: "artifact_segments root sid ''.'' = segments_of root @ [sid]"
    by (simp add: artifact_segments_def safe_name_def backslash_def)
  have up: "artifact_segments root sid ''..'' = segments_of root"
    by (simp add: artifact_segments_def safe_name_def backslash_def)
  have d: "dirname ?d = path_of (segments_of root)"
    using segments_of_path_of [OF c] by (simp add: dirname_def)
  have self: "path_of (segments_of root) \<in> set (ancestors (path_of (segments_of root)))"
    by (simp add: ancestors_of_dir segments_of_clean)
  have "\<not> is_file s (path_of (segments_of root))"
    using assms(4) self by (auto simp: room_for_def list_all_iff)
  then have "\<exists>v. uploadArtifact root sid ''.'' content s = (Ret (path_of (artifact_segments root sid ''.'')), v) \<and>
    as_faults v = [] \<and> as_files v = AList.update (path_of (artifact_segments root sid ''.'')) content (as_files s)"
    using below_no_ancestor [OF c] assms(4,5)
    by (intro upload_returns assms(1-3)) (simp_all add: dot d)
  then obtain v where v: "uploadArtifact root sid ''.'' content s = (Ret ?d, v)" "as_faults v = []"
      "is_file v ?d"
    by (auto simp: dot is_file_def update_conv')
  have "fst (uploadArtifact root sid filename text v) = Throw (''EEXIST: file already exists, mkdir '' @ ?d)"
    using assms(1,8) v(2,3)
    by (simp add: uploadArtifact_def valid_first_def safePath_segments at_path_def ordinary_dirname [OF assms(1,7)]
        mkdir_p_def andThen_def bind_def host_step_def inspect_def throw_def)
  moreover have "artifactExists root sid ''..'' s = (Ret True, s)"
    using assms(1,6) by (simp add: artifactExists_def valid_first_def safePath_segments at_path_def up inspect_def
        ret_def existsSync_def)
  ultimately show ?thesis using v(1) by blast
qed

theorem dot_artifact_blocks_the_session_witness:
  "\<exists>p v e. uploadArtifact ''/art'' ''s1'' ''.'' ''x'' tidy_root = (Ret p, v) \<and>
    fst (uploadArtifact ''/art'' ''s1'' ''plan.md'' ''y'' v) = Throw e \<and>
    artifactExists ''/art'' ''s1'' ''..'' tidy_root = (Ret True, tidy_root)"
  by (rule dot_artifact_blocks_the_session) (simp add: MAX_SIZE_def | code_simp)+

end
