(* ===== verification/SessionManager.thy ===== *)
theory SessionManager
  imports SessionStore ModelRegistry PromptLayering "HOL-Library.AList"
begin

text \<open>
  Model of the session manager of a worker (\<open>packages/sdk/src/session-manager.ts\<close>): how a live session is
  obtained - reused, resumed, hydrated or created - and released, persisted, reset and shut down. The
  session-state store is any implementation of \<open>SessionStateStore\<close>, the local disk and the two runtimes
  are outside: a call of a runtime is recorded, takes the next reply, and may change the disk. A live
  session is what \<open>ManagedSession\<close> remembers of it. Warnings, traces and pauses are left out.
\<close>

subsection \<open>Interfaces\<close>

text \<open>The interface \<open>SessionStateStore\<close>, over a disk of any type.\<close>

record 's session_store =
  so_dehydrate :: "string \<Rightarrow> string option \<Rightarrow> ('s, unit, unit) prog"
  so_hydrate :: "string \<Rightarrow> ('s, unit, unit) prog"
  so_checkpoint :: "string \<Rightarrow> ('s, unit, unit) prog"
  so_exists :: "string \<Rightarrow> ('s, unit, bool) prog"
  so_delete :: "string \<Rightarrow> ('s, unit, unit) prog"

text \<open>
  What the manager sees of the local disk: whether the session's directory and its Codex marker are
  there, whether the marker is usable, and the recursive removal of the directory.
\<close>

record 's local_disk =
  ld_exists :: "'s \<Rightarrow> string \<Rightarrow> bool"
  ld_marker :: "'s \<Rightarrow> string \<Rightarrow> bool"
  ld_usable :: "'s \<Rightarrow> string \<Rightarrow> bool"
  ld_remove :: "string \<Rightarrow> ('s, unit, unit) prog"

datatype runtime_kind = CopilotKind | CodexKind

record tool_def =
  tl_name :: string
  tl_handler :: string

record managed_config = session_config +
  c_tools :: "tool_def list option"
  c_turnTimeoutMs :: "nat option"

record managed =
  mn_runtimeKind :: runtime_kind
  mn_boundModel :: string
  mn_boundReasoningEffort :: "string option"
  mn_config :: managed_config

record sdk_session_config =
  sc_tools :: "tool_def list"
  sc_model :: string
  sc_reasoningEffort :: "string option"
  sc_systemMessage :: "(prompt_sections option \<times> string option) option"
  sc_workingDirectory :: "string option"
  sc_provider :: "sdk_provider option"

record codex_session_config =
  xc_model :: "string option"
  xc_cwd :: "string option"
  xc_developerInstructions :: "string option"
  xc_reasoningEffort :: "string option"
  xc_tools :: "tool_def list"

text \<open>Everything the manager asks of the runtimes and of the store, in order.\<close>

datatype manager_call =
    DestroySession runtime_kind string
  | SnapshotSession string
  | CopilotClientStart "string option"
  | CopilotCreate string sdk_session_config
  | CopilotResume string sdk_session_config
  | CopilotDelete string
  | CopilotStop
  | CodexCreate string string codex_session_config
  | CodexResume string string codex_session_config
  | CodexDelete string string
  | CodexStop string
  | StoreDehydrate string
  | StoreHydrate string
  | StoreCheckpoint string
  | StoreDelete string

record 's manager_env =
  mv_sessionStateDir :: string
  mv_githubToken :: "string option"
  mv_defaults :: worker_defaults
  mv_frameworkBaseToolNames :: "string list"
  mv_appDefaultToolNames :: "string list"
  mv_turnTimeoutMs :: "nat option"
  mv_registry :: "registry option"
  mv_processEnv :: process_env
  mv_legacyProvider :: "sdk_provider option"
  mv_toolRegistry :: "string \<rightharpoonup> tool_def"
  mv_systemTools :: "tool_def list"
  mv_subAgentTools :: "tool_def list"
  mv_factTools :: "string option \<Rightarrow> tool_def list"
  mv_inspectTools :: "string option \<Rightarrow> tool_def list"
  mv_askBlock :: "string option"
  mv_skillBlock :: "string option"
  mv_store :: "'s session_store option"
  mv_disk :: "'s local_disk"

text \<open>
  The maps of the manager. The object of a session is never replaced behind its back: the manager is
  called for one session at a time.
\<close>

record 's manager_state =
  mg_sessions :: "(string \<times> managed) list"
  mg_configs :: "string \<rightharpoonup> managed_config"
  mg_clientStarted :: bool
  mg_codexClients :: "string list"
  mg_disk :: 's
  mg_calls :: "manager_call list"
  mg_replies :: "(string option \<times> ('s \<Rightarrow> 's)) list"

type_synonym ('s, 'x) managerp = "('s manager_state, unit, 'x) prog"

definition log_call :: "manager_call \<Rightarrow> ('s, unit) managerp" where
  "log_call c = modify (\<lambda>w. w\<lparr>mg_calls := mg_calls w @ [c]\<rparr>)"

text \<open>A call of a runtime: recorded, then answered by the next reply, which may have changed the disk.\<close>

definition answer :: "('s, unit) managerp" where
  "answer w = (case mg_replies w of
       [] \<Rightarrow> (Stop (), w)
     | (e, f) # rs \<Rightarrow> (case e of None \<Rightarrow> Ret () | Some m \<Rightarrow> Throw m, w\<lparr>mg_replies := rs, mg_disk := f (mg_disk w)\<rparr>))"

definition call_runtime :: "manager_call \<Rightarrow> ('s, unit) managerp" where
  "call_runtime c = andThen (log_call c) answer"

definition on_disk :: "('s, unit, 'x) prog \<Rightarrow> ('s, 'x) managerp" where
  "on_disk m w = (case m (mg_disk w) of (r, d) \<Rightarrow> (r, w\<lparr>mg_disk := d\<rparr>))"

definition call_store :: "manager_call \<Rightarrow> ('s, unit, unit) prog \<Rightarrow> ('s, unit) managerp" where
  "call_store c m = andThen (log_call c) (on_disk m)"

definition ignoring :: "('s, 'h, unit) prog \<Rightarrow> ('s, 'h, unit) prog" where
  "ignoring m = try_catch m (\<lambda>_. ret ())"

definition warm_of :: "'s manager_state \<Rightarrow> string \<Rightarrow> managed option" where
  "warm_of w sid = map_of (mg_sessions w) sid"

definition keep_warm :: "string \<Rightarrow> managed \<Rightarrow> ('s, unit) managerp" where
  "keep_warm sid m = modify (\<lambda>w. w\<lparr>mg_sessions := AList.update sid m (mg_sessions w)\<rparr>)"

definition forget_warm :: "string \<Rightarrow> ('s, unit) managerp" where
  "forget_warm sid = modify (\<lambda>w. w\<lparr>mg_sessions := AList.delete sid (mg_sessions w)\<rparr>)"

definition dir_exists :: "'s manager_env \<Rightarrow> string \<Rightarrow> 's manager_state \<Rightarrow> bool" where
  "dir_exists env sid w = ld_exists (mv_disk env) (mg_disk w) sid"

subsection \<open>Clients\<close>

text \<open>The explicit token, else that of the first GitHub provider with models.\<close>

definition clientToken :: "'s manager_env \<Rightarrow> string option" where
  "clientToken env =
     (if truthy (mv_githubToken env) then mv_githubToken env
      else case mv_registry env of None \<Rightarrow> mv_githubToken env
      | Some g \<Rightarrow>
          (case find (\<lambda>p. pc_type p = Github \<and> pc_models p \<noteq> []) (rg_providers g) of
             None \<Rightarrow> mv_githubToken env
           | Some p \<Rightarrow>
               (case resolve_model (mv_processEnv env) g
                   (Some (pc_id p @ '':'' @ me_name (entry_of (hd (pc_models p))))) of
                  None \<Rightarrow> None | Some r \<Rightarrow> rp_githubToken r)))"

definition ensureClient :: "'s manager_env \<Rightarrow> ('s, unit) managerp" where
  "ensureClient env = inspect (\<lambda>w. cond (\<not> mg_clientStarted w)
     (andThen (log_call (CopilotClientStart (keep_truthy (clientToken env))))
        (modify (\<lambda>w. w\<lparr>mg_clientStarted := True\<rparr>))))"

definition ensureCodexClient :: "string \<Rightarrow> ('s, unit) managerp" where
  "ensureCodexClient home = inspect (\<lambda>w. cond (home \<notin> set (mg_codexClients w))
     (modify (\<lambda>w. w\<lparr>mg_codexClients := mg_codexClients w @ [home]\<rparr>)))"

text \<open>The provider handed to the Copilot SDK.\<close>

definition resolveProviderConfig :: "'s manager_env \<Rightarrow> string \<Rightarrow> sdk_provider option" where
  "resolveProviderConfig env model =
     (let legacy = map_option (\<lambda>p.
            if sd_type p = Azure \<and> model \<noteq> [] \<and> \<not> str_includes (sd_baseUrl p) ''/deployments/''
            then p\<lparr>sd_baseUrl := strip_slashes (sd_baseUrl p) @ ''/deployments/'' @ model\<rparr> else p)
            (mv_legacyProvider env) in
      case mv_registry env of
        None \<Rightarrow> legacy
      | Some g \<Rightarrow>
          (case resolve_model (mv_processEnv env) g (Some model) of
             None \<Rightarrow> legacy
           | Some r \<Rightarrow> if rp_type r = Github then None
                       else (case rp_sdkProvider r of Some p \<Rightarrow> Some p | None \<Rightarrow> legacy)))"

definition missingSessionStateError :: "string \<Rightarrow> nat \<Rightarrow> string \<Rightarrow> string" where
  "missingSessionStateError sid turnIndex detail =
     SESSION_STATE_MISSING_PREFIX @ '' turn '' @ show_nat turnIndex @
     '' expected resumable Copilot session state for '' @ sid @
     '', but none was found in memory, on disk, or in the session store.'' @
     (if detail = [] then [] else '' '' @ detail)"

subsection \<open>The configuration of a session\<close>

text \<open>The first of each name stays, as in a \<open>Set\<close>.\<close>

definition first_of_each :: "('a \<Rightarrow> 'b) \<Rightarrow> 'a list \<Rightarrow> 'a list" where
  "first_of_each f xs = rev (foldl (\<lambda>acc x. if f x \<in> set (map f acc) then acc else x # acc) [] xs)"

definition inheritedToolNames :: "'s manager_env \<Rightarrow> session_config \<Rightarrow> string list" where
  "inheritedToolNames env c = first_of_each id
     (mv_frameworkBaseToolNames env @ mv_appDefaultToolNames env @ default_to (c_toolNames c) [])"

definition resolveTools :: "'s manager_env \<Rightarrow> managed_config option \<Rightarrow> session_config \<Rightarrow> tool_def list" where
  "resolveTools env stored c =
     first_of_each tl_name
       ((case stored of None \<Rightarrow> [] | Some sc \<Rightarrow> default_to (c_tools sc) []) @
        List.map_filter (mv_toolRegistry env) (default_to (c_toolNames c) []))"

text \<open>A field that is absent from the new configuration keeps the stored value.\<close>

definition merge_configs :: "managed_config option \<Rightarrow> session_config \<Rightarrow> session_config" where
  "merge_configs stored c = (case stored of None \<Rightarrow> c | Some o' \<Rightarrow>
     c\<lparr>c_model := or_else (c_model c) (c_model o'),
       c_systemMessage := or_else (c_systemMessage c) (c_systemMessage o'),
       c_turnSystemPrompt := or_else (c_turnSystemPrompt c) (c_turnSystemPrompt o'),
       c_workingDirectory := or_else (c_workingDirectory c) (c_workingDirectory o'),
       c_waitThreshold := or_else (c_waitThreshold c) (c_waitThreshold o'),
       c_boundAgentName := or_else (c_boundAgentName c) (c_boundAgentName o'),
       c_promptLayering := or_else (c_promptLayering c) (c_promptLayering o'),
       c_toolNames := or_else (c_toolNames c) (c_toolNames o'),
       c_reasoningEffort := or_else (c_reasoningEffort c) (c_reasoningEffort o'),
       c_agentIdentity := or_else (c_agentIdentity c) (c_agentIdentity o')\<rparr>)"

definition with_tools :: "session_config \<Rightarrow> tool_def list option \<Rightarrow> nat option \<Rightarrow> managed_config" where
  "with_tools c tools timeout = session_config.extend c \<lparr> c_tools = tools, c_turnTimeoutMs = timeout \<rparr>"

definition effectiveConfig :: "'s manager_env \<Rightarrow> managed_config option \<Rightarrow> session_config \<Rightarrow> managed_config" where
  "effectiveConfig env stored c0 =
     (let names = inheritedToolNames env c0;
          c = (if names \<noteq> [] then c0\<lparr>c_toolNames := Some names\<rparr> else c0);
          tools = resolveTools env stored c in
      with_tools (merge_configs stored c) (if tools \<noteq> [] then Some tools else None) (mv_turnTimeoutMs env))"

text \<open>The tools that are always there, for the identity of the agent that the caller names.\<close>

definition subAgentToolsFor :: "'s manager_env \<Rightarrow> string option \<Rightarrow> tool_def list" where
  "subAgentToolsFor env ident = (if ident = Some ''agent-tuner'' then [] else mv_subAgentTools env)"

definition systemToolNames :: "'s manager_env \<Rightarrow> string option \<Rightarrow> string set" where
  "systemToolNames env ident = set (map tl_name
     (mv_systemTools env @ subAgentToolsFor env ident @ mv_factTools env ident @ mv_inspectTools env ident))"

definition persistentSessionTools :: "'s manager_env \<Rightarrow> string option \<Rightarrow> tool_def list \<Rightarrow> tool_def list" where
  "persistentSessionTools env ident userTools =
     filter (\<lambda>t. tl_name t \<notin> systemToolNames env ident) userTools @ mv_factTools env ident @ mv_inspectTools env ident"

definition allTools :: "'s manager_env \<Rightarrow> string option \<Rightarrow> tool_def list \<Rightarrow> tool_def list" where
  "allTools env ident userTools =
     filter (\<lambda>t. tl_name t \<notin> systemToolNames env ident) (persistentSessionTools env ident userTools) @
     mv_systemTools env @ subAgentToolsFor env ident @ mv_factTools env ident @ mv_inspectTools env ident"

text \<open>What a turn asks for: the runtime, the model and effort, and the configurations for the runtimes.\<close>

record session_request =
  rs_kind :: runtime_kind
  rs_model :: string
  rs_effort :: "string option"
  rs_config :: managed_config
  rs_resolved :: "resolved_provider option"
  rs_copilot :: sdk_session_config
  rs_codex :: codex_session_config

definition COPILOT_SDK_REASONING_EFFORTS :: "string list" where
  "COPILOT_SDK_REASONING_EFFORTS = [''low'', ''medium'', ''high'', ''xhigh'']"

definition sessionRequest ::
  "'s manager_env \<Rightarrow> managed_config option \<Rightarrow> session_config \<Rightarrow> string \<Rightarrow> session_request" where
  "sessionRequest env stored c0 effectiveModel =
     (let config0 = effectiveConfig env stored c0;
          ident = c_agentIdentity c0;
          userTools = default_to (c_tools config0) [];
          tools = allTools env ident userTools;
          resolved = (case mv_registry env of None \<Rightarrow> None
            | Some g \<Rightarrow> resolve_model (mv_processEnv env) g (Some effectiveModel));
          sdkModelName = (case mv_registry env of None \<Rightarrow> effectiveModel
            | Some g \<Rightarrow> if effectiveModel = [] then effectiveModel
                else (case getDescriptor g (Some effectiveModel) of None \<Rightarrow> effectiveModel | Some d \<Rightarrow> md_modelName d));
          effort = resolveEffectiveReasoningEffort (mv_registry env) effectiveModel (c_reasoningEffort config0);
          config = config0\<lparr>c_tools := Some (persistentSessionTools env ident userTools), c_reasoningEffort := effort\<rparr>
      in \<lparr> rs_kind = (if map_option rp_type resolved = Some Codex then CodexKind else CopilotKind),
           rs_model = effectiveModel, rs_effort = effort, rs_config = config, rs_resolved = resolved,
           rs_copilot = \<lparr> sc_tools = tools, sc_model = sdkModelName,
             sc_reasoningEffort = (case effort of None \<Rightarrow> None
               | Some e \<Rightarrow> if e \<in> set COPILOT_SDK_REASONING_EFFORTS then Some e else None),
             sc_systemMessage = buildSystemMessage (mv_defaults env) (session_config.truncate config0)
               (mv_askBlock env) (mv_skillBlock env),
             sc_workingDirectory = c_workingDirectory config,
             sc_provider = resolveProviderConfig env effectiveModel \<rparr>,
           rs_codex = \<lparr> xc_model = (if sdkModelName = [] then None else Some sdkModelName),
             xc_cwd = keep_truthy (c_workingDirectory config),
             xc_developerInstructions = keep_truthy (buildFlatSystemPrompt (mv_defaults env) (session_config.truncate config0)),
             xc_reasoningEffort = keep_truthy effort, xc_tools = tools \<rparr> \<rparr>)"

subsection \<open>Releasing and resetting\<close>

text \<open>\<open>_resetSessionState\<close>: nothing of the session stays, live, on disk or in the store.\<close>

definition purgeSessionState :: "'s manager_env \<Rightarrow> string \<Rightarrow> runtime_kind option \<Rightarrow> ('s, unit) managerp" where
  "purgeSessionState env sid kind =
     (case resolveContainedSessionDir (mv_sessionStateDir env) sid of
        Inl e \<Rightarrow> throw e
      | Inr _ \<Rightarrow> inspect (\<lambda>w.
          let existing = warm_of w sid;
              runtimeKind = default_to kind (case existing of None \<Rightarrow> CopilotKind | Some m \<Rightarrow> mn_runtimeKind m) in
          doing [
            (case existing of None \<Rightarrow> ret ()
             | Some m \<Rightarrow> andThen (ignoring (call_runtime (DestroySession (mn_runtimeKind m) sid))) (forget_warm sid)),
            (if runtimeKind = CodexKind
             then inspect (\<lambda>w. for_each (mg_codexClients w) (\<lambda>home. ignoring (call_runtime (CodexDelete home sid))))
             else ignoring (andThen (ensureClient env) (call_runtime (CopilotDelete sid)))),
            inspect (\<lambda>w. cond (dir_exists env sid w) (on_disk (ld_remove (mv_disk env) sid))),
            (case mv_store env of None \<Rightarrow> ret ()
             | Some so \<Rightarrow> ignoring (call_store (StoreDelete sid) (so_delete so sid)))]))"

definition resetSessionState :: "'s manager_env \<Rightarrow> string \<Rightarrow> ('s, unit) managerp" where
  "resetSessionState env sid =
     (case validateSessionId sid of Some e \<Rightarrow> throw e | None \<Rightarrow> purgeSessionState env sid None)"

definition warmBindingMatches :: "managed \<Rightarrow> session_request \<Rightarrow> bool" where
  "warmBindingMatches m rq \<longleftrightarrow> mn_runtimeKind m = rs_kind rq \<and> mn_boundModel m = rs_model rq \<and>
     mn_boundReasoningEffort m = rs_effort rq"

definition recycleWarmSession :: "string \<Rightarrow> managed \<Rightarrow> ('s, unit) managerp" where
  "recycleWarmSession sid m =
     andThen (ignoring (call_runtime (DestroySession (mn_runtimeKind m) sid))) (forget_warm sid)"

definition destroyWarm :: "string \<Rightarrow> ('s, unit) managerp" where
  "destroyWarm sid = inspect (\<lambda>w. case warm_of w sid of None \<Rightarrow> ret ()
     | Some m \<Rightarrow> andThen (call_runtime (DestroySession (mn_runtimeKind m) sid)) (forget_warm sid))"

definition invalidateWarmSession :: "string \<Rightarrow> ('s, unit) managerp" where
  "invalidateWarmSession sid = inspect (\<lambda>w. case warm_of w sid of None \<Rightarrow> ret ()
     | Some m \<Rightarrow> recycleWarmSession sid m)"

text \<open>\<open>updateConfig\<close> and \<open>snapshotForCheckpoint\<close> of the live session; only Codex has something to copy.\<close>

definition updateConfig :: "managed \<Rightarrow> managed_config \<Rightarrow> managed" where
  "updateConfig m c = m\<lparr>mn_config := (mn_config m)\<lparr>
     c_model := or_else (c_model c) (c_model (mn_config m)),
     c_reasoningEffort := or_else (c_reasoningEffort c) (c_reasoningEffort (mn_config m)),
     c_tools := or_else (c_tools c) (c_tools (mn_config m)),
     c_systemMessage := or_else (c_systemMessage c) (c_systemMessage (mn_config m)),
     c_turnSystemPrompt := or_else (c_turnSystemPrompt c) (c_turnSystemPrompt (mn_config m)),
     c_waitThreshold := or_else (c_waitThreshold c) (c_waitThreshold (mn_config m))\<rparr>\<rparr>"

definition snapshotForCheckpoint :: "string \<Rightarrow> ('s, unit) managerp" where
  "snapshotForCheckpoint sid = inspect (\<lambda>w. case warm_of w sid of
       None \<Rightarrow> ret ()
     | Some m \<Rightarrow> cond (mn_runtimeKind m = CodexKind) (ignoring (call_runtime (SnapshotSession sid))))"

subsection \<open>Obtaining a session\<close>

text \<open>
  A warm session that is bound to another runtime, model or effort is let go; when the runtime differs,
  everything persisted goes with it, and the session is to start afresh.
\<close>

definition recycleIfDrifted ::
  "'s manager_env \<Rightarrow> string \<Rightarrow> nat option \<Rightarrow> session_request \<Rightarrow> ('s, bool) managerp" where
  "recycleIfDrifted env sid turnIndex rq = inspect (\<lambda>w.
     case (if turnIndex = Some 0 then None else warm_of w sid) of
       None \<Rightarrow> ret False
     | Some m \<Rightarrow>
         if warmBindingMatches m rq then ret False
         else (let fresh = (mn_runtimeKind m \<noteq> rs_kind rq) in
           andThen (recycleWarmSession sid m)
             (andThen (cond fresh (purgeSessionState env sid (Some (mn_runtimeKind m)))) (ret fresh))))"

definition bound_session :: "session_request \<Rightarrow> managed" where
  "bound_session rq = \<lparr> mn_runtimeKind = rs_kind rq, mn_boundModel = rs_model rq,
     mn_boundReasoningEffort = rs_effort rq, mn_config = rs_config rq \<rparr>"

text \<open>A failing probe of the store counts as nothing stored.\<close>

definition probe_stored :: "'s manager_env \<Rightarrow> string \<Rightarrow> ('s, bool) managerp" where
  "probe_stored env sid = (case mv_store env of
       None \<Rightarrow> ret False
     | Some so \<Rightarrow> try_catch (on_disk (so_exists so sid)) (\<lambda>_. ret False))"

definition hydrate_store :: "'s manager_env \<Rightarrow> string \<Rightarrow> ('s, unit) managerp" where
  "hydrate_store env sid = (case mv_store env of
       None \<Rightarrow> ret () | Some so \<Rightarrow> call_store (StoreHydrate sid) (so_hydrate so sid))"

text \<open>
  Where the session comes from when it is not warm; \<open>usable\<close> tells whether what lies on the disk can be
  resumed. The two branches differ in how they discard, and whether the permissive path of older
  orchestrations asks for a stored copy first.
\<close>

definition obtain_runtime_session ::
  "('s manager_state \<Rightarrow> bool) \<Rightarrow> ('s, unit) managerp \<Rightarrow> ('s, unit) managerp \<Rightarrow> ('s, unit) managerp \<Rightarrow> ('s, unit) managerp \<Rightarrow>
   bool \<Rightarrow> bool \<Rightarrow> bool \<Rightarrow> string \<Rightarrow> string \<Rightarrow> string \<Rightarrow> nat option \<Rightarrow> ('s, unit) managerp" where
  "obtain_runtime_session usable discard create resume hydrate stored ask fresh sid notRestored notFound turnIndex =
     (if turnIndex = Some 0 \<or> fresh then andThen discard create
      else inspect (\<lambda>w. case turnIndex of
        Some n \<Rightarrow>
          if usable w then resume
          else if stored then doing [
            hydrate,
            inspect (\<lambda>w. cond (\<not> usable w) (throw (missingSessionStateError sid n notRestored))),
            resume]
          else throw (missingSessionStateError sid n notFound)
      | None \<Rightarrow>
          if usable w then resume
          else if ask then try_catch (andThen hydrate (inspect (\<lambda>w. if usable w then resume else create))) (\<lambda>_. create)
          else create))"

definition codex_marker_path :: "'s manager_env \<Rightarrow> string \<Rightarrow> string" where
  "codex_marker_path env sid = path_resolve (mv_sessionStateDir env) (sid @ ''/codex-thread.json'')"

definition codexBranch ::
  "'s manager_env \<Rightarrow> string \<Rightarrow> nat option \<Rightarrow> bool \<Rightarrow> session_request \<Rightarrow> resolved_provider \<Rightarrow> ('s, managed) managerp" where
  "codexBranch env sid turnIndex fresh rq provider =
     (case validateSessionId sid of Some e \<Rightarrow> throw e | None \<Rightarrow>
      let home = (case rp_codexRuntime provider of None \<Rightarrow> [] | Some (h, _) \<Rightarrow> h) in
      if home = [] then throw (''Codex provider '' @ [CHR 0x22] @ rp_providerId provider @ [CHR 0x22] @
        '' is missing a resolved CODEX_HOME. Set codexHome in the provider config.'')
      else andThen (ensureCodexClient home)
        (let usable = (\<lambda>w. ld_usable (mv_disk env) (mg_disk w) sid);
             obtain = bind (probe_stored env sid) (\<lambda>stored. inspect (\<lambda>w.
               let localExists = ld_marker (mv_disk env) (mg_disk w) sid in
               andThen (obtain_runtime_session usable
                   (cond (localExists \<or> stored)
                     (andThen (ignoring (call_runtime (CodexDelete home sid)))
                       (case mv_store env of None \<Rightarrow> ret ()
                        | Some so \<Rightarrow> cond stored (ignoring (call_store (StoreDelete sid) (so_delete so sid))))))
                   (call_runtime (CodexCreate home sid (rs_codex rq)))
                   (call_runtime (CodexResume home sid (rs_codex rq)))
                   (hydrate_store env sid) stored stored fresh sid
                   ('' Hydration completed but '' @ codex_marker_path env sid @ '' is missing or invalid.'')
                   ('' No persisted Codex thread mapping was found at '' @ codex_marker_path env sid @ ''.'') turnIndex)
                 (andThen (keep_warm sid (bound_session rq)) (ret (bound_session rq)))))
         in inspect (\<lambda>w. case warm_of w sid of
              None \<Rightarrow> obtain
            | Some m \<Rightarrow>
                if turnIndex = Some 0
                then andThen (doing [ignoring (call_runtime (DestroySession (mn_runtimeKind m) sid)), forget_warm sid,
                       ignoring (call_runtime (CodexDelete home sid))]) obtain
                else (let m' = updateConfig m (rs_config rq) in andThen (keep_warm sid m') (ret m')))))"

definition copilotBranch ::
  "'s manager_env \<Rightarrow> string \<Rightarrow> nat option \<Rightarrow> bool \<Rightarrow> session_request \<Rightarrow> ('s, managed) managerp" where
  "copilotBranch env sid turnIndex fresh rq =
     (case (case rs_resolved rq of None \<Rightarrow> None
        | Some p \<Rightarrow> if rp_type p = Github \<and> \<not> truthy (mv_githubToken env) \<and> \<not> truthy (rp_githubToken p)
                    then Some (rp_providerId p) else None) of
       Some providerId \<Rightarrow> throw (''GitHub Copilot key not configured for provider '' @ [CHR 0x22] @ providerId @
         [CHR 0x22] @ ''. Set githubToken in the provider configuration or pass a GitHub Copilot key to the worker.'')
     | None \<Rightarrow> andThen (ensureClient env)
        (let usable = dir_exists env sid;
             obtain = inspect (\<lambda>w. let localExists = usable w in
               bind (probe_stored env sid) (\<lambda>stored.
               andThen (obtain_runtime_session usable
                   (cond (localExists \<or> stored) (purgeSessionState env sid None))
                   (call_runtime (CopilotCreate sid (rs_copilot rq)))
                   (call_runtime (CopilotResume sid (rs_copilot rq)))
                   (hydrate_store env sid) stored (mv_store env \<noteq> None) fresh sid
                   '' Hydration completed but no local session directory was restored.'' [] turnIndex)
                 (andThen (keep_warm sid (bound_session rq)) (ret (bound_session rq)))))
         in inspect (\<lambda>w. case warm_of w sid of
              None \<Rightarrow> obtain
            | Some m \<Rightarrow>
                if turnIndex = Some 0 then andThen (purgeSessionState env sid None) obtain
                else (let m' = updateConfig m (rs_config rq) in andThen (keep_warm sid m') (ret m')))))"

definition acquire ::
  "'s manager_env \<Rightarrow> string \<Rightarrow> nat option \<Rightarrow> session_request \<Rightarrow> ('s, managed) managerp" where
  "acquire env sid turnIndex rq =
     bind (recycleIfDrifted env sid turnIndex rq) (\<lambda>fresh.
       case (rs_kind rq, rs_resolved rq) of
         (CodexKind, Some provider) \<Rightarrow> codexBranch env sid turnIndex fresh rq provider
       | _ \<Rightarrow> copilotBranch env sid turnIndex fresh rq)"

text \<open>The configuration is stored before the model is looked up, and completed after.\<close>

definition getOrCreateManaged ::
  "'s manager_env \<Rightarrow> string \<Rightarrow> session_config \<Rightarrow> nat option \<Rightarrow> ('s, managed) managerp" where
  "getOrCreateManaged env sid c0 turnIndex =
     (case validateSessionId sid of Some e \<Rightarrow> throw e | None \<Rightarrow> inspect (\<lambda>w.
        let stored = mg_configs w sid;
            config = effectiveConfig env stored c0;
            userTools = default_to (c_tools config) [];
            store_config = (\<lambda>c. modify (\<lambda>w. w\<lparr>mg_configs := (mg_configs w)(sid \<mapsto> c)\<rparr>)) in
        andThen (store_config config)
          (if \<not> wd_factStore (mv_defaults env)
           then throw ''PilotSwarm invariant violated: factStore must be initialized before creating sessions.''
           else andThen (store_config (config\<lparr>c_tools := Some (persistentSessionTools env (c_agentIdentity c0) userTools)\<rparr>))
             (case normalizeModelRef (mv_registry env) (c_model config) False of
                Inl e \<Rightarrow> throw e
              | Inr model \<Rightarrow>
                  (let rq = sessionRequest env stored c0 (or_str model []) in
                   andThen (store_config (rs_config rq)) (acquire env sid turnIndex rq))))))"

subsection \<open>Persisting\<close>

definition DESTROY_MAX_RETRIES :: nat where
  "DESTROY_MAX_RETRIES = 3"

definition DEHYDRATE_STORE_MAX_RETRIES :: nat where
  "DEHYDRATE_STORE_MAX_RETRIES = 3"

definition blank_sdk_config :: "tool_def list \<Rightarrow> sdk_session_config" where
  "blank_sdk_config tools = \<lparr> sc_tools = tools, sc_model = [], sc_reasoningEffort = None, sc_systemMessage = None,
     sc_workingDirectory = None, sc_provider = None \<rparr>"

definition empty_config :: managed_config where
  "empty_config = \<lparr> c_model = None, c_systemMessage = None, c_turnSystemPrompt = None, c_workingDirectory = None,
     c_waitThreshold = None, c_boundAgentName = None, c_promptLayering = None, c_toolNames = None,
     c_reasoningEffort = None, c_agentIdentity = None, c_tools = None, c_turnTimeoutMs = None \<rparr>"

text \<open>
  After a failed destruction the session is resumed from its files, to be destroyed again: whether that
  could be done.
\<close>

definition resumeForDestroy :: "'s manager_env \<Rightarrow> string \<Rightarrow> ('s, bool) managerp" where
  "resumeForDestroy env sid = inspect (\<lambda>w.
     if \<not> dir_exists env sid w then ret False
     else try_catch
       (andThen (ensureClient env)
       (andThen (call_runtime (CopilotResume sid (blank_sdk_config (mv_systemTools env @ mv_subAgentTools env))))
       (andThen (inspect (\<lambda>w. keep_warm sid \<lparr> mn_runtimeKind = CopilotKind, mn_boundModel = [],
            mn_boundReasoningEffort = None, mn_config = default_to (mg_configs w sid) empty_config \<rparr>))
         (ret True))))
       (\<lambda>_. ret False))"

text \<open>The attempts that are left, and the last error; a success does not clear it.\<close>

fun destroy_attempts :: "'s manager_env \<Rightarrow> string \<Rightarrow> nat \<Rightarrow> string option \<Rightarrow> ('s, string option) managerp" where
  "destroy_attempts env sid 0 err = ret err"
| "destroy_attempts env sid (Suc n) err = inspect (\<lambda>w. case warm_of w sid of
       None \<Rightarrow> ret err
     | Some m \<Rightarrow>
         try_catch (andThen (call_runtime (DestroySession (mn_runtimeKind m) sid))
                     (andThen (forget_warm sid) (ret err)))
           (\<lambda>e. andThen (forget_warm sid)
              (if n = 0 \<or> mn_runtimeKind m \<noteq> CopilotKind then ret (Some e)
               else bind (resumeForDestroy env sid) (\<lambda>again.
                 if again then destroy_attempts env sid n (Some e) else ret (Some e)))))"

fun store_attempts :: "'s session_store \<Rightarrow> string \<Rightarrow> string \<Rightarrow> nat \<Rightarrow> string option \<Rightarrow> ('s, string option) managerp" where
  "store_attempts so sid reason 0 err = ret err"
| "store_attempts so sid reason (Suc n) err =
     try_catch (andThen (call_store (StoreDehydrate sid) (so_dehydrate so sid (Some reason))) (ret None))
       (\<lambda>e. store_attempts so sid reason n (Some e))"

text \<open>\<open>/Session state directory not ready during dehydrate/i\<close>\<close>

definition isMissingDehydrateSnapshotError :: "string \<Rightarrow> bool" where
  "isMissingDehydrateSnapshotError message =
     str_includes (map to_lower message) ''session state directory not ready during dehydrate''"

definition preDehydrateCheckpoint :: "'s manager_env \<Rightarrow> string \<Rightarrow> ('s, bool) managerp" where
  "preDehydrateCheckpoint env sid = (case mv_store env of
       None \<Rightarrow> ret False
     | Some so \<Rightarrow> inspect (\<lambda>w. if \<not> dir_exists env sid w then ret False
         else andThen (snapshotForCheckpoint sid)
           (try_catch (andThen (call_store (StoreCheckpoint sid) (so_checkpoint so sid)) (ret True)) (\<lambda>_. ret False))))"

definition not_persisted :: "string \<Rightarrow> string \<Rightarrow> string option \<Rightarrow> string \<Rightarrow> string" where
  "not_persisted sid reason destroyError storeError = (case destroyError of
       Some d \<Rightarrow> ''Session '' @ sid @ '' is not dehydratable (reason='' @ reason @ ''): destroy failed ('' @ d @
         ''), session-store persistence failed after '' @ show_nat DEHYDRATE_STORE_MAX_RETRIES @ '' attempts ('' @
         storeError @ ''). Session state may be lost on worker recycle.''
     | None \<Rightarrow> ''Session-store persistence failed after '' @ show_nat DEHYDRATE_STORE_MAX_RETRIES @
         '' attempts during dehydrate for '' @ sid @ '' (reason='' @ reason @ ''): '' @ storeError)"

definition dehydrateManaged :: "'s manager_env \<Rightarrow> string \<Rightarrow> string \<Rightarrow> ('s, unit) managerp" where
  "dehydrateManaged env sid reason =
     (case validateSessionId sid of Some e \<Rightarrow> throw e | None \<Rightarrow>
      bind (preDehydrateCheckpoint env sid) (\<lambda>checkpointPrepared.
      bind (destroy_attempts env sid DESTROY_MAX_RETRIES None) (\<lambda>destroyError.
        case mv_store env of
          None \<Rightarrow> ret ()
        | Some so \<Rightarrow>
            bind (store_attempts so sid reason DEHYDRATE_STORE_MAX_RETRIES None) (\<lambda>storeError.
              case storeError of
                None \<Rightarrow> ret ()
              | Some e \<Rightarrow>
                  if destroyError = None \<and> checkpointPrepared \<and> isMissingDehydrateSnapshotError e
                  then ignoring (on_disk (ld_remove (mv_disk env) sid))
                  else throw (not_persisted sid reason destroyError e)))))"

definition hydrateManaged :: "'s manager_env \<Rightarrow> string \<Rightarrow> ('s, unit) managerp" where
  "hydrateManaged env sid = hydrate_store env sid"

definition needsHydration :: "'s manager_env \<Rightarrow> string \<Rightarrow> ('s, bool) managerp" where
  "needsHydration env sid = (case mv_store env of
       None \<Rightarrow> ret False
     | Some so \<Rightarrow> inspect (\<lambda>w.
         if warm_of w sid \<noteq> None \<or> dir_exists env sid w then ret False
         else try_catch (on_disk (so_exists so sid)) (\<lambda>_. ret False)))"

definition checkpointManaged :: "'s manager_env \<Rightarrow> string \<Rightarrow> ('s, unit) managerp" where
  "checkpointManaged env sid = andThen (snapshotForCheckpoint sid)
     (case mv_store env of None \<Rightarrow> ret () | Some so \<Rightarrow> call_store (StoreCheckpoint sid) (so_checkpoint so sid))"

definition activeSessionIds :: "'s manager_state \<Rightarrow> string list" where
  "activeSessionIds w = map fst (mg_sessions w)"

definition shutdownManager :: "('s, unit) managerp" where
  "shutdownManager = inspect (\<lambda>w. doing [
     for_each (mg_sessions w) (\<lambda>(sid, m). ignoring (call_runtime (DestroySession (mn_runtimeKind m) sid))),
     modify (\<lambda>w. w\<lparr>mg_sessions := []\<rparr>),
     inspect (\<lambda>w. cond (mg_clientStarted w)
       (andThen (call_runtime CopilotStop) (modify (\<lambda>w. w\<lparr>mg_clientStarted := False\<rparr>)))),
     inspect (\<lambda>w. for_each (mg_codexClients w) (\<lambda>home. ignoring (call_runtime (CodexStop home)))),
     modify (\<lambda>w. w\<lparr>mg_codexClients := []\<rparr>)])"

end
