(* ===== verification/CodexState.thy ===== *)
theory CodexState
  imports SessionStore "HOL-Library.AList"
begin

text \<open>
  What the Codex runtime keeps of a session on disk (\<open>packages/sdk/src/codex-runtime.ts\<close>): the marker file
  with the thread, the copy of the thread's transcript, where the transcript is found, and the purge of a
  fresh thread. Writes go to a temporary file that is renamed; each step of the host may fail.
\<close>

definition CODEX_THREAD_STATE_FILENAME :: string where
  "CODEX_THREAD_STATE_FILENAME = ''codex-thread.json''"

definition CODEX_ROLLOUT_SNAPSHOT_FILENAME :: string where
  "CODEX_ROLLOUT_SNAPSHOT_FILENAME = ''codex-rollout.jsonl''"

record thread_state =
  th_codexThreadId :: string
  th_codexHome :: "string option"
  th_model :: "string option"
  th_rolloutSnapshotRelPath :: "string option"

definition str_of :: "json option \<Rightarrow> string option" where
  "str_of j = (case j of Some (JStr s) \<Rightarrow> Some s | _ \<Rightarrow> None)"

text \<open>Whether the transcript that the marker names, if any, can be resumed from.\<close>

definition rollout_usable :: "(string \<Rightarrow> json option) \<Rightarrow> string \<Rightarrow> tree \<Rightarrow> json \<Rightarrow> bool" where
  "rollout_usable parse sessionDir t rollout = (case rollout of
       JNull \<Rightarrow> True
     | JStr p \<Rightarrow> p = [] \<or> \<not> starts_with p ''/'' \<and>
         (let rolloutPath = path_resolve sessionDir p;
              dirPrefix = path_of (segments_of sessionDir) @ ''/'' in
          starts_with rolloutPath dirPrefix \<and>
          (case node_at sessionDir t rolloutPath of
             None \<Rightarrow> False
           | Some n \<Rightarrow> nd_kind n \<in> {Regular, HardLinked} \<and> isCompleteJsonlSnapshot parse (Some n)))
     | _ \<Rightarrow> False)"

definition readThreadState ::
  "(string \<Rightarrow> json option) \<Rightarrow> string \<Rightarrow> tree option \<Rightarrow> thread_state option" where
  "readThreadState parse sessionDir dir =
     (case (case dir of None \<Rightarrow> None | Some t \<Rightarrow> map_of t CODEX_THREAD_STATE_FILENAME) of
        None \<Rightarrow> None
      | Some n \<Rightarrow>
          if nd_kind n \<notin> {Regular, HardLinked} then None
          else (case parse (nd_data n) of
             Some (JObj fs) \<Rightarrow>
               (case str_of (map_of fs ''codexThreadId'') of
                  None \<Rightarrow> None
                | Some i \<Rightarrow>
                    if trim i = [] then None
                    else if \<not> rollout_usable parse sessionDir (the dir)
                           (default_to (map_of fs ''rolloutSnapshotRelPath'') JNull) then None
                    else Some \<lparr> th_codexThreadId = i, th_codexHome = str_of (map_of fs ''codexHome''),
                        th_model = str_of (map_of fs ''model''),
                        th_rolloutSnapshotRelPath = keep_truthy (str_of (map_of fs ''rolloutSnapshotRelPath'')) \<rparr>)
           | _ \<Rightarrow> None))"

definition hasUsableThreadState :: "(string \<Rightarrow> json option) \<Rightarrow> string \<Rightarrow> tree option \<Rightarrow> bool" where
  "hasUsableThreadState parse sessionDir dir = (readThreadState parse sessionDir dir \<noteq> None)"

subsection \<open>Writing the marker\<close>

record codex_env =
  ce_codexHome :: string
  ce_parse :: "string \<Rightarrow> json option"
  ce_render :: "json \<Rightarrow> string"
  ce_now :: nat

text \<open>The fields before, with the new ones over them; a rollout is set, removed or left as it is.\<close>

definition markerPayload ::
  "codex_env \<Rightarrow> (string \<times> json) list \<Rightarrow> string \<Rightarrow> string option \<Rightarrow> string option option \<Rightarrow> (string \<times> json) list" where
  "markerPayload env previous threadId model rollout =
     (let p1 = AList.update ''codexHome'' (JStr (ce_codexHome env))
                 (AList.update ''codexThreadId'' (JStr threadId) previous);
          p2 = (if truthy model then AList.update ''model'' (JStr (or_str model [])) p1 else p1);
          p3 = AList.update ''savedAt'' (JStr (show_nat (ce_now env))) p2 in
      case rollout of
        None \<Rightarrow> p3
      | Some r \<Rightarrow> if truthy r then AList.update ''rolloutSnapshotRelPath'' (JStr (or_str r [])) p3
                  else AList.delete ''rolloutSnapshotRelPath'' p3)"

text \<open>
  The own properties that \<open>{ ...value }\<close> copies: those of an object, the elements of an array and the
  characters of a string under their indices, nothing else.
\<close>

definition own_properties :: "json \<Rightarrow> (string \<times> json) list" where
  "own_properties j = (case j of
       JObj fs \<Rightarrow> fs
     | JArr xs \<Rightarrow> map (\<lambda>i. (show_nat i, xs ! i)) [0..<length xs]
     | JStr s \<Rightarrow> map (\<lambda>i. (show_nat i, JStr [s ! i])) [0..<length s]
     | _ \<Rightarrow> [])"

definition previousMarker :: "codex_env \<Rightarrow> tree \<Rightarrow> (string \<times> json) list" where
  "previousMarker env t = (case map_of t CODEX_THREAD_STATE_FILENAME of
       None \<Rightarrow> []
     | Some n \<Rightarrow> (case ce_parse env (nd_data n) of Some j \<Rightarrow> own_properties j | None \<Rightarrow> []))"

definition write_file :: "codex_env \<Rightarrow> string \<Rightarrow> string \<Rightarrow> tree \<Rightarrow> tree" where
  "write_file env name content t =
     AList.update name \<lparr> nd_kind = Regular, nd_data = content, nd_mtime = ce_now env \<rparr> t"

definition the_dir :: "'a store_state \<Rightarrow> string \<Rightarrow> tree" where
  "the_dir s sid = default_to (ss_dirs s sid) []"

definition make_dir :: "string \<Rightarrow> ('a, unit) storep" where
  "make_dir sid = fallible (\<lambda>s. s\<lparr>ss_dirs := (ss_dirs s)(sid \<mapsto> the_dir s sid)\<rparr>)"

text \<open>The temporary file is written and made private before it is renamed over the old one.\<close>

definition replace_file :: "codex_env \<Rightarrow> string \<Rightarrow> string \<Rightarrow> ('a store_state \<Rightarrow> string) \<Rightarrow> ('a, unit) storep" where
  "replace_file env sid name content = doing [
     fallible id,
     fallible id,
     fallible (\<lambda>s. s\<lparr>ss_dirs := (ss_dirs s)(sid \<mapsto> write_file env name (content s) (the_dir s sid))\<rparr>)]"

definition persistThreadState ::
  "codex_env \<Rightarrow> string \<Rightarrow> string \<Rightarrow> string \<Rightarrow> string option \<Rightarrow> string option option \<Rightarrow> ('a, unit) storep" where
  "persistThreadState env stateDir sid threadId model rollout =
     (case resolveContainedSessionDir stateDir sid of
        Inl e \<Rightarrow> throw e
      | Inr _ \<Rightarrow> andThen (make_dir sid)
          (replace_file env sid CODEX_THREAD_STATE_FILENAME (\<lambda>s. ce_render env
             (JObj (markerPayload env (previousMarker env (the_dir s sid)) threadId model rollout)))))"

subsection \<open>The transcript\<close>

definition children_of :: "tree \<Rightarrow> string list \<Rightarrow> (string \<times> string list \<times> fs_node) list" where
  "children_of t dir = List.map_filter (\<lambda>(p, n). let segs = split_on (CHR ''/'') p in
     if segs \<noteq> [] \<and> butlast segs = dir then Some (last segs, segs, n) else None) t"

text \<open>One directory: the first matching file, or the directories to look into.\<close>

fun scan_entries :: "string \<Rightarrow> nat \<Rightarrow> (string \<times> string list \<times> fs_node) list \<Rightarrow> (string list \<times> nat) list \<Rightarrow>
    (string list \<times> fs_node) + (string list \<times> nat) list" where
  "scan_entries suffix depth [] stack = Inr stack"
| "scan_entries suffix depth ((name, segs, n) # es) stack =
     (if nd_kind n = Symlink then scan_entries suffix depth es stack
      else if nd_kind n = Directory
      then scan_entries suffix depth es (if depth < 5 then (segs, depth + 1) # stack else stack)
      else if nd_kind n = Special then scan_entries suffix depth es stack
      else if \<not> ends_with name suffix then scan_entries suffix depth es stack
      else Inl (segs, n))"

text \<open>Every directory of the tree is looked into at most once, so its size is fuel enough.\<close>

fun find_rollout :: "tree \<Rightarrow> string \<Rightarrow> nat \<Rightarrow> (string list \<times> nat) list \<Rightarrow> (string list \<times> fs_node) option" where
  "find_rollout t suffix 0 stack = None"
| "find_rollout t suffix (Suc fuel) [] = None"
| "find_rollout t suffix (Suc fuel) ((dir, depth) # stack) =
     (case scan_entries suffix depth (children_of t dir) stack of
        Inl found \<Rightarrow> Some found
      | Inr stack' \<Rightarrow> find_rollout t suffix fuel stack')"

definition findCodexRolloutPath :: "tree option \<Rightarrow> string \<Rightarrow> (string list \<times> fs_node) option" where
  "findCodexRolloutPath sessions threadId = (case sessions of
       None \<Rightarrow> None
     | Some t \<Rightarrow> find_rollout t (''-'' @ threadId @ ''.jsonl'') (length t + 2) [([], 0)])"

definition snapshotRolloutIfPresent ::
  "codex_env \<Rightarrow> string \<Rightarrow> tree option \<Rightarrow> string \<Rightarrow> string \<Rightarrow> ('a, bool) storep" where
  "snapshotRolloutIfPresent env stateDir sessions sid threadId =
     (case resolveContainedSessionDir stateDir sid of
        Inl e \<Rightarrow> throw e
      | Inr _ \<Rightarrow>
          (case findCodexRolloutPath sessions threadId of
             None \<Rightarrow> ret False
           | Some (_, n) \<Rightarrow>
               bind (try_catch (andThen (fallible id) (ret True)) (\<lambda>_. ret False)) (\<lambda>readable.
               if \<not> readable \<or> \<not> isCompleteJsonlSnapshotContent (ce_parse env) (nd_data n) then ret False
               else andThen (make_dir sid)
                 (bind (try_catch (andThen (replace_file env sid CODEX_ROLLOUT_SNAPSHOT_FILENAME (\<lambda>_. nd_data n)) (ret True))
                          (\<lambda>_. ret False)) (\<lambda>written.
                  if \<not> written then ret False
                  else andThen (persistThreadState env stateDir sid threadId None
                         (Some (Some CODEX_ROLLOUT_SNAPSHOT_FILENAME))) (ret True))))))"

end
