(* ===== verification/CodexGuarantees.thy ===== *)
theory CodexGuarantees
  imports CodexState StoreGuarantees
begin

text \<open>
  What the Codex files promise: the readiness gate of the store and the runtime agree on what can be
  resumed, a snapshot leaves a directory that both accept, and the transcript that is copied is a plain
  file below the directory of sessions.
\<close>

subsection \<open>The gate and the runtime\<close>

lemma starts_with_iff: "starts_with s p \<longleftrightarrow> (\<exists>r. s = p @ r)"
  unfolding starts_with_def by (metis append_eq_conv_conj append_take_drop_id)

lemma inside_dir:
  assumes "a \<noteq> d"
  shows "starts_with (a @ ''/'') (d @ ''/'') \<longleftrightarrow> starts_with a (d @ ''/'')"
proof
  assume "starts_with (a @ ''/'') (d @ ''/'')"
  then obtain r where r: "a @ ''/'' = d @ ''/'' @ r" by (auto simp: starts_with_iff)
  then obtain r' where "r = r' @ ''/''"
    using assms by (cases r rule: rev_cases) auto
  with r show "starts_with a (d @ ''/'')" by (auto simp: starts_with_iff)
qed (auto simp: starts_with_iff)

lemma not_below_itself: "\<not> starts_with d (d @ ''/'')"
  by (auto simp: starts_with_iff)

lemma root_is_directory: "node_at d t (path_of (segments_of d)) = Some \<lparr> nd_kind = Directory, nd_data = [], nd_mtime = 0 \<rparr>"
  by (simp add: node_at_def segments_of_path_of segments_of_clean)

lemma checkRollout_usable: "fst (checkRollout parse d sid t rel) = rollout_usable parse d t rel"
proof (cases rel)
  case (JStr p)
  consider "p = []" | "p \<noteq> []" "path_resolve d p = path_of (segments_of d)" | "p \<noteq> []" "path_resolve d p \<noteq> path_of (segments_of d)"
    by blast
  then show ?thesis
  proof cases
    case 2
    then show ?thesis
      using JStr by (simp add: checkRollout_def rollout_usable_def Let_def not_below_itself root_is_directory)
  next
    case 3
    then show ?thesis
      using JStr inside_dir [OF 3(2)]
      by (auto simp: checkRollout_def rollout_usable_def Let_def split: option.splits)
  qed (simp add: JStr checkRollout_def rollout_usable_def)
qed (simp_all add: checkRollout_def rollout_usable_def)

lemma checkCodexMarker_usable:
  assumes "map_of t CODEX_THREAD_STATE_FILENAME = Some n" "nd_kind n \<in> {Regular, HardLinked}"
  shows "fst (checkCodexMarker parse d sid t n) = hasUsableThreadState parse d (Some t)"
proof -
  have k: "nd_kind n \<noteq> Directory" using assms(2) by auto
  show ?thesis
  proof (cases "parse (nd_data n)")
    case None
    then show ?thesis using assms k
      by (simp add: checkCodexMarker_def hasUsableThreadState_def readThreadState_def)
  next
    case (Some j)
    show ?thesis
    proof (cases j)
      case (JObj fs)
      show ?thesis
      proof (cases "map_of fs ''codexThreadId''")
        case None
        then show ?thesis using assms k Some JObj
          by (simp add: checkCodexMarker_def hasUsableThreadState_def readThreadState_def str_of_def)
      next
        case (Some i)
        then show ?thesis using assms k \<open>parse (nd_data n) = Some j\<close> JObj
          by (cases i) (simp_all add: checkCodexMarker_def hasUsableThreadState_def readThreadState_def str_of_def
              checkRollout_usable)
      qed
    qed (use assms k Some in \<open>simp_all add: checkCodexMarker_def hasUsableThreadState_def readThreadState_def\<close>)
  qed
qed

text \<open>
  C24: The gate that decides whether a Codex session may be archived and the runtime that resumes it
  agree, although they are written independently: a directory whose marker is a file is ready exactly if
  the runtime can use its marker - so nothing is archived that could not be resumed, and nothing that
  could be is refused.
\<close>

theorem gate_agrees_with_runtime:
  assumes "map_of t CODEX_THREAD_STATE_FILENAME = Some n" "nd_kind n \<in> {Regular, HardLinked}"
  shows "fst (checkSessionSnapshot parse d sid (Some t)) = hasUsableThreadState parse d (Some t)"
  using assms(1) checkCodexMarker_usable [OF assms] by (simp add: checkSessionSnapshot_def CODEX_THREAD_STATE_FILENAME_def)

definition plain_marker :: fs_node where
  "plain_marker = \<lparr> nd_kind = Regular, nd_data = ''marker'', nd_mtime = 3 \<rparr>"

definition marker_parse :: "string \<Rightarrow> json option" where
  "marker_parse s = (if s = ''marker''
     then Some (JObj [(''codexThreadId'', JStr ''t1''), (''rolloutSnapshotRelPath'', JStr ''../other/x'')])
     else None)"

theorem gate_agrees_with_runtime_witness:
  "\<not> fst (checkSessionSnapshot marker_parse ''/state/s1'' ''s1'' (Some [(CODEX_THREAD_STATE_FILENAME, plain_marker)])) \<and>
   \<not> hasUsableThreadState marker_parse ''/state/s1'' (Some [(CODEX_THREAD_STATE_FILENAME, plain_marker)])"
proof -
  have "\<not> hasUsableThreadState marker_parse ''/state/s1'' (Some [(CODEX_THREAD_STATE_FILENAME, plain_marker)])"
    by code_simp
  then show ?thesis
    using gate_agrees_with_runtime [of "[(CODEX_THREAD_STATE_FILENAME, plain_marker)]" plain_marker marker_parse
        "''/state/s1''" "''s1''"]
    by (simp add: plain_marker_def)
qed

subsection \<open>A snapshot can be resumed\<close>

definition marker_of :: "codex_env \<Rightarrow> tree \<Rightarrow> (string \<times> json) list option" where
  "marker_of env t = (case map_of t CODEX_THREAD_STATE_FILENAME of
       Some n \<Rightarrow> if nd_kind n = Regular
                 then (case ce_parse env (nd_data n) of Some (JObj fs) \<Rightarrow> Some fs | _ \<Rightarrow> None) else None
     | None \<Rightarrow> None)"

lemma resolve_in_dir:
  assumes "clean_segment p"
  shows "path_resolve d p = path_of (segments_of d @ [p])"
proof -
  have "CHR ''/'' \<notin> set p" using assms by (simp add: clean_segment_def)
  then have "\<not> starts_with p ''/''" "split_on (CHR ''/'') p = [p]"
    by (cases p, auto simp: starts_with_def)[1] (rule split_on_none [OF \<open>CHR ''/'' \<notin> set p\<close>])
  then show ?thesis using assms by (simp add: path_resolve_def clean_segment_def)
qed

lemma node_in_dir:
  assumes "clean_segment p"
  shows "node_at d t (path_of (segments_of d @ [p])) = map_of t p"
proof -
  have "list_all clean_segment (segments_of d @ [p])" using assms segments_of_clean by simp
  then have "segments_of (path_of (segments_of d @ [p])) = segments_of d @ [p]" by (rule segments_of_path_of)
  then show ?thesis by (simp add: node_at_def)
qed

lemma below_dir: "starts_with (path_of (segments_of d @ [p])) (path_of (segments_of d) @ ''/'')" if "segments_of d \<noteq> []"
  unfolding path_of_prefix [OF that] by (auto simp: starts_with_iff)

lemma snapshot_usable:
  assumes "marker_of env t = Some fs" "map_of fs ''codexThreadId'' = Some (JStr i)" "trim i \<noteq> []"
    and "map_of fs ''rolloutSnapshotRelPath'' = Some (JStr CODEX_ROLLOUT_SNAPSHOT_FILENAME)"
    and "map_of t CODEX_ROLLOUT_SNAPSHOT_FILENAME = Some n" "nd_kind n = Regular"
    and "isCompleteJsonlSnapshotContent (ce_parse env) (nd_data n)" "segments_of d \<noteq> []"
  shows "hasUsableThreadState (ce_parse env) d (Some t)"
proof -
  have c: "clean_segment CODEX_ROLLOUT_SNAPSHOT_FILENAME"
    by (simp add: clean_segment_def CODEX_ROLLOUT_SNAPSHOT_FILENAME_def)
  have nonempty: "nd_data n \<noteq> []"
    using assms(7) by (auto simp: isCompleteJsonlSnapshotContent_def)
  have "\<not> starts_with CODEX_ROLLOUT_SNAPSHOT_FILENAME ''/''"
    by (simp add: CODEX_ROLLOUT_SNAPSHOT_FILENAME_def starts_with_def)
  then have r: "rollout_usable (ce_parse env) d t (JStr CODEX_ROLLOUT_SNAPSHOT_FILENAME)"
    using assms(5-7) nonempty below_dir [OF assms(8)]
    by (simp add: rollout_usable_def resolve_in_dir [OF c] node_in_dir [OF c] isCompleteJsonlSnapshot_def)
  then show ?thesis
    using assms(1-4) by (auto simp: marker_of_def hasUsableThreadState_def readThreadState_def str_of_def
        split: option.splits if_splits json.splits)
qed

text \<open>\<open>JSON.parse\<close> reads the marker that is written as it was meant.\<close>

definition newMarker :: "codex_env \<Rightarrow> string \<Rightarrow> tree \<Rightarrow> json" where
  "newMarker env i t =
     JObj (markerPayload env (previousMarker env t) i None (Some (Some CODEX_ROLLOUT_SNAPSHOT_FILENAME)))"

definition renders :: "codex_env \<Rightarrow> string \<Rightarrow> tree \<Rightarrow> bool" where
  "renders env i t \<longleftrightarrow> ce_parse env (ce_render env (newMarker env i t)) = Some (newMarker env i t)"

lemma renders_other_file:
  "name \<noteq> CODEX_THREAD_STATE_FILENAME \<Longrightarrow> renders env i (write_file env name c t) = renders env i t"
  by (simp add: renders_def newMarker_def previousMarker_def write_file_def update_conv')

lemma marker_payload_facts:
  "map_of (markerPayload env previous i model (Some (Some r))) ''codexThreadId'' = Some (JStr i)"
  "r \<noteq> [] \<Longrightarrow> map_of (markerPayload env previous i model (Some (Some r))) ''rolloutSnapshotRelPath'' = Some (JStr r)"
  by (simp_all add: markerPayload_def Let_def update_conv' truthy_def or_str_def)

text \<open>Writing the marker leaves the other files of the directory alone.\<close>

definition marked :: "codex_env \<Rightarrow> string \<Rightarrow> string \<Rightarrow> fs_node option \<Rightarrow> 'a store_state \<Rightarrow> bool" where
  "marked env sid i rollout v \<longleftrightarrow> (\<exists>t fs. ss_dirs v sid = Some t \<and> marker_of env t = Some fs \<and>
     map_of fs ''codexThreadId'' = Some (JStr i) \<and>
     map_of fs ''rolloutSnapshotRelPath'' = Some (JStr CODEX_ROLLOUT_SNAPSHOT_FILENAME) \<and>
     map_of t CODEX_ROLLOUT_SNAPSHOT_FILENAME = rollout)"

lemma markedI:
  assumes "renders env i t" "ss_dirs v sid = Some (write_file env CODEX_THREAD_STATE_FILENAME
      (ce_render env (newMarker env i t)) t)"
  shows "marked env sid i (map_of t CODEX_ROLLOUT_SNAPSHOT_FILENAME) v"
proof -
  have n: "CODEX_ROLLOUT_SNAPSHOT_FILENAME \<noteq> CODEX_THREAD_STATE_FILENAME" "CODEX_ROLLOUT_SNAPSHOT_FILENAME \<noteq> []"
    by (simp_all add: CODEX_ROLLOUT_SNAPSHOT_FILENAME_def CODEX_THREAD_STATE_FILENAME_def)
  show ?thesis
    using assms n by (simp add: marked_def marker_of_def write_file_def update_conv' renders_def newMarker_def
        marker_payload_facts)
qed

lemma ends_persist:
  assumes "renders env i (the_dir s sid)"
  shows "ends (persistThreadState env stateDir sid i None (Some (Some CODEX_ROLLOUT_SNAPSHOT_FILENAME)))
    (\<lambda>_. marked env sid i (map_of (the_dir s sid) CODEX_ROLLOUT_SNAPSHOT_FILENAME)) (\<lambda>_ _. True) s"
  unfolding persistThreadState_def make_dir_def replace_file_def
  by (intro ends_rules) (simp_all add: the_dir_def newMarker_def markedI [OF assms, unfolded the_dir_def newMarker_def])

lemma ends_snapshot:
  assumes "renders env i (the_dir s sid)"
  shows "ends (snapshotRolloutIfPresent env stateDir sessions sid i)
    (\<lambda>b v. b \<longrightarrow> (\<exists>n. nd_kind n = Regular \<and> isCompleteJsonlSnapshotContent (ce_parse env) (nd_data n) \<and>
        marked env sid i (Some n) v)) (\<lambda>_ _. True) s"
proof -
  have n: "CODEX_ROLLOUT_SNAPSHOT_FILENAME \<noteq> CODEX_THREAD_STATE_FILENAME"
    by (simp add: CODEX_ROLLOUT_SNAPSHOT_FILENAME_def CODEX_THREAD_STATE_FILENAME_def)
  have r: "renders env i (write_file env CODEX_ROLLOUT_SNAPSHOT_FILENAME c (the_dir s sid))" for c
    using assms by (simp add: renders_other_file [OF n])
  have d: "the_dir (u\<lparr>ss_dirs := (ss_dirs w)(sid \<mapsto> t)\<rparr>) sid = t" for u w :: "'a store_state" and t
    by (simp add: the_dir_def)
  have k: "map_of (write_file env CODEX_ROLLOUT_SNAPSHOT_FILENAME c t) CODEX_ROLLOUT_SNAPSHOT_FILENAME =
      Some \<lparr> nd_kind = Regular, nd_data = c, nd_mtime = ce_now env \<rparr>" for c t
    by (simp add: write_file_def update_conv')
  have w: "(\<exists>n. nd_kind n = Regular \<and> isCompleteJsonlSnapshotContent (ce_parse env) (nd_data n) \<and>
        marked env sid i (Some n) v)"
    if "isCompleteJsonlSnapshotContent (ce_parse env) c"
      "marked env sid i (Some \<lparr> nd_kind = Regular, nd_data = c, nd_mtime = ce_now env \<rparr>) v" for c and v :: "'a store_state"
    using that by (intro exI [of _ "\<lparr> nd_kind = Regular, nd_data = c, nd_mtime = ce_now env \<rparr>"]) simp
  show ?thesis
    unfolding snapshotRolloutIfPresent_def make_dir_def replace_file_def
    by (intro ends_rules ends_mono [OF ends_persist]) (use r in \<open>auto simp: d k the_dir_def intro: w\<close>)
qed

text \<open>
  C23: A snapshot of the transcript that reports success leaves a session directory that can be resumed:
  both the gate of the store and the runtime accept it, whatever was in the directory before and
  whichever steps of the host failed on the way.
\<close>

theorem snapshot_can_be_resumed:
  assumes "snapshotRolloutIfPresent env stateDir sessions sid i s = (Ret True, v)" "renders env i (the_dir s sid)" "trim i \<noteq> []"
    and "segments_of d \<noteq> []"
  shows "fst (checkSessionSnapshot (ce_parse env) d sid (ss_dirs v sid)) \<and>
    hasUsableThreadState (ce_parse env) d (ss_dirs v sid)"
proof -
  obtain n where n: "nd_kind n = Regular" "isCompleteJsonlSnapshotContent (ce_parse env) (nd_data n)" "marked env sid i (Some n) v"
    using ends_snapshot [OF assms(2), of stateDir sessions] assms(1) by (auto simp: ends_def)
  then obtain t fs where t: "ss_dirs v sid = Some t" "marker_of env t = Some fs" "map_of fs ''codexThreadId'' = Some (JStr i)"
      "map_of fs ''rolloutSnapshotRelPath'' = Some (JStr CODEX_ROLLOUT_SNAPSHOT_FILENAME)"
      "map_of t CODEX_ROLLOUT_SNAPSHOT_FILENAME = Some n"
    by (auto simp: marked_def)
  have u: "hasUsableThreadState (ce_parse env) d (Some t)"
    by (rule snapshot_usable [OF t(2,3) assms(3) t(4,5) n(1,2) assms(4)])
  obtain m where m: "map_of t CODEX_THREAD_STATE_FILENAME = Some m" "nd_kind m \<in> {Regular, HardLinked}"
    using t(2) by (auto simp: marker_of_def split: option.splits if_splits)
  show ?thesis
    using u m checkCodexMarker_usable [OF m, of "ce_parse env" d sid] t(1)
    by (simp add: checkSessionSnapshot_def CODEX_THREAD_STATE_FILENAME_def)
qed

definition sample_payload :: json where
  "sample_payload = JObj (markerPayload
     \<lparr> ce_codexHome = ''/codex'', ce_parse = (\<lambda>_. None), ce_render = (\<lambda>_. []), ce_now = 5 \<rparr>
     [] ''t1'' None (Some (Some CODEX_ROLLOUT_SNAPSHOT_FILENAME)))"

definition sample_codex :: codex_env where
  "sample_codex = \<lparr> ce_codexHome = ''/codex'',
     ce_parse = (\<lambda>s. if s = ''{}'' then Some (JObj []) else if s = ''marker'' then Some sample_payload else None),
     ce_render = (\<lambda>_. ''marker''), ce_now = 5 \<rparr>"

definition sample_sessions :: tree where
  "sample_sessions = [(''2026'', \<lparr> nd_kind = Directory, nd_data = [], nd_mtime = 1 \<rparr>),
     (''2026/rollout-t1.jsonl'', \<lparr> nd_kind = Regular, nd_data = ''{}'' @ [nl], nd_mtime = 1 \<rparr>)]"

definition no_dirs :: "nat store_state" where
  "no_dirs = \<lparr> ss_dirs = Map.empty, ss_backups = Map.empty, ss_archives = Map.empty, ss_meta = Map.empty,
     ss_polls = [], ss_names = [], ss_faults = [] \<rparr>"

lemma sample_snapshot:
  "fst (snapshotRolloutIfPresent sample_codex ''/state'' (Some sample_sessions) ''s1'' ''t1'' no_dirs) = Ret True"
  by code_simp

theorem snapshot_can_be_resumed_witness:
  "\<exists>v. snapshotRolloutIfPresent sample_codex ''/state'' (Some sample_sessions) ''s1'' ''t1'' no_dirs = (Ret True, v) \<and>
     hasUsableThreadState (ce_parse sample_codex) ''/state/s1'' (ss_dirs v ''s1'')"
proof -
  obtain v where v: "snapshotRolloutIfPresent sample_codex ''/state'' (Some sample_sessions) ''s1'' ''t1'' no_dirs = (Ret True, v)"
    using sample_snapshot by (metis prod.collapse)
  have "renders sample_codex ''t1'' (the_dir no_dirs ''s1'')" "trim ''t1'' \<noteq> []" "segments_of ''/state/s1'' \<noteq> []"
    by code_simp+
  with snapshot_can_be_resumed [OF v] v show ?thesis by blast
qed

subsection \<open>The transcript that is found\<close>

definition proper_dir :: "tree \<Rightarrow> string list \<Rightarrow> bool" where
  "proper_dir t segs \<longleftrightarrow> (\<forall>i. 0 < i \<and> i \<le> length segs \<longrightarrow>
     (\<exists>n. (join ''/'' (take i segs), n) \<in> set t \<and> nd_kind n = Directory))"

definition proper_rollout :: "tree \<Rightarrow> string \<Rightarrow> string list \<times> fs_node \<Rightarrow> bool" where
  "proper_rollout t suffix = (\<lambda>(segs, n). segs \<noteq> [] \<and> length segs \<le> 6 \<and> proper_dir t (butlast segs) \<and>
     (join ''/'' segs, n) \<in> set t \<and> nd_kind n \<in> {Regular, HardLinked} \<and> ends_with (last segs) suffix)"

lemma children_of_set:
  assumes "(name, segs, n) \<in> set (children_of t dir)"
  shows "(join ''/'' segs, n) \<in> set t \<and> segs \<noteq> [] \<and> butlast segs = dir \<and> name = last segs"
  using assms by (auto simp: children_of_def List.map_filter_def Let_def join_split split: if_splits)

lemma proper_dir_child:
  assumes "proper_dir t (butlast segs)" "(join ''/'' segs, n) \<in> set t" "nd_kind n = Directory"
  shows "proper_dir t segs"
  unfolding proper_dir_def
proof (intro allI impI)
  fix i assume i: "0 < i \<and> i \<le> length segs"
  show "\<exists>n. (join ''/'' (take i segs), n) \<in> set t \<and> nd_kind n = Directory"
  proof (cases "i = length segs")
    case False
    then have le: "i \<le> length segs - 1" using i by linarith
    then have "take i segs = take i (butlast segs)" "i \<le> length (butlast segs)"
      by (auto simp: butlast_conv_take min_def)
    then show ?thesis using assms(1) i by (simp add: proper_dir_def)
  qed (use assms(2,3) in auto)
qed

lemma scan_entries_proper:
  assumes "\<And>name segs n. (name, segs, n) \<in> set es \<Longrightarrow>
      (join ''/'' segs, n) \<in> set t \<and> segs \<noteq> [] \<and> proper_dir t (butlast segs) \<and> length segs = Suc depth \<and> name = last segs"
    and "\<And>d k. (d, k) \<in> set stack \<Longrightarrow> proper_dir t d \<and> length d = k \<and> k \<le> 5" "depth \<le> 5"
  shows "case scan_entries suffix depth es stack of
      Inl found \<Rightarrow> proper_rollout t suffix found
    | Inr stack' \<Rightarrow> \<forall>(d, k) \<in> set stack'. proper_dir t d \<and> length d = k \<and> k \<le> 5"
  using assms
proof (induction suffix depth es stack rule: scan_entries.induct)
  case (1 suffix depth stack)
  then show ?case by auto
next
  case (2 suffix depth name segs n es stack)
  have e: "(join ''/'' segs, n) \<in> set t" "segs \<noteq> []" "proper_dir t (butlast segs)" "length segs = Suc depth" "name = last segs"
    using "2.prems"(1) [of name segs n] by simp_all
  have rest: "\<And>name segs n. (name, segs, n) \<in> set es \<Longrightarrow>
      (join ''/'' segs, n) \<in> set t \<and> segs \<noteq> [] \<and> proper_dir t (butlast segs) \<and> length segs = Suc depth \<and> name = last segs"
    by (rule "2.prems"(1)) simp
  have push: "\<And>d k. (d, k) \<in> set (if depth < 5 then (segs, depth + 1) # stack else stack) \<Longrightarrow>
      proper_dir t d \<and> length d = k \<and> k \<le> 5" if "nd_kind n = Directory"
    using "2.prems"(2) e proper_dir_child [OF e(3,1) that] by (auto split: if_splits)
  consider "nd_kind n = Symlink" | "nd_kind n = Directory" | "nd_kind n = Special" | "nd_kind n \<in> {Regular, HardLinked}"
    by (cases "nd_kind n") auto
  then show ?case
  proof cases
    case 1
    then show ?thesis using "2.IH"(1) [OF 1 rest "2.prems"(2,3)] by simp
  next
    case d: 2
    then have ns: "nd_kind n \<noteq> Symlink" by simp
    show ?thesis using "2.IH"(2) [OF ns d rest push [OF d] "2.prems"(3)] d by simp
  next
    case d: 3
    then have ns: "nd_kind n \<noteq> Symlink" "nd_kind n \<noteq> Directory" by simp_all
    show ?thesis using "2.IH"(3) [OF ns d rest "2.prems"(2,3)] d by simp
  next
    case d: 4
    then have ns: "nd_kind n \<noteq> Symlink" "nd_kind n \<noteq> Directory" "nd_kind n \<noteq> Special" by auto
    show ?thesis
    proof (cases "ends_with name suffix")
      case True
      then show ?thesis using d ns e "2.prems"(3) by (simp add: proper_rollout_def)
    next
      case False
      then show ?thesis using "2.IH"(4) [OF ns False rest "2.prems"(2,3)] ns by simp
    qed
  qed
qed

lemma find_rollout_proper:
  assumes "find_rollout t suffix fuel stack = Some found"
    and "\<forall>(d, k) \<in> set stack. proper_dir t d \<and> length d = k \<and> k \<le> 5"
  shows "proper_rollout t suffix found"
  using assms
proof (induction t suffix fuel stack rule: find_rollout.induct)
  case (3 t suffix fuel dir depth stack)
  have s: "case scan_entries suffix depth (children_of t dir) stack of
      Inl found \<Rightarrow> proper_rollout t suffix found
    | Inr stack' \<Rightarrow> \<forall>(d, k) \<in> set stack'. proper_dir t d \<and> length d = k \<and> k \<le> 5"
    by (rule scan_entries_proper) (use "3.prems"(2) children_of_set in \<open>auto dest: children_of_set\<close>)
  show ?case
    using "3.prems"(1) s "3.IH"
    by (cases "scan_entries suffix depth (children_of t dir) stack") auto
qed simp_all

text \<open>
  The transcript that goes into a session's archive is never anything else of the Codex home: what is
  found is a regular file whose name ends in the thread's own id, at most six levels below the directory
  of sessions, and no directory on the way is a link.
\<close>

theorem transcript_is_the_threads_own:
  assumes "findCodexRolloutPath (Some t) threadId = Some found"
  shows "proper_rollout t (''-'' @ threadId @ ''.jsonl'') found"
  using assms unfolding findCodexRolloutPath_def option.case
  by (rule find_rollout_proper) (simp add: proper_dir_def)

lemma sample_found: "findCodexRolloutPath (Some sample_sessions) ''t1'' =
    Some ([''2026'', ''rollout-t1.jsonl''], \<lparr> nd_kind = Regular, nd_data = ''{}'' @ [nl], nd_mtime = 1 \<rparr>)"
  by code_simp

theorem transcript_is_the_threads_own_witness:
  "proper_rollout sample_sessions ''-t1.jsonl''
     ([''2026'', ''rollout-t1.jsonl''], \<lparr> nd_kind = Regular, nd_data = ''{}'' @ [nl], nd_mtime = 1 \<rparr>)"
  using transcript_is_the_threads_own [OF sample_found] by simp

end
