(* ===== verification/ManagerGuarantees.thy ===== *)
theory ManagerGuarantees
  imports SessionManager CodexGuarantees
begin

text \<open>
  What the session manager promises: a later turn never silently starts a blank session and a first turn
  never takes up an old one, and the session handed out is bound to what was asked for.
\<close>

subsection \<open>Counting calls\<close>

text \<open>At most \<open>k\<close> of the calls a program makes are of a kind.\<close>

definition at_most :: "(manager_call \<Rightarrow> bool) \<Rightarrow> nat \<Rightarrow> ('s, 'x) managerp \<Rightarrow> bool" where
  "at_most P k m \<longleftrightarrow> (\<forall>w. \<exists>cs. mg_calls (snd (m w)) = mg_calls w @ cs \<and> length (filter P cs) \<le> k)"

lemma at_mostI:
  "(\<And>w. \<exists>cs. mg_calls (snd (m w)) = mg_calls w @ cs \<and> length (filter P cs) \<le> k) \<Longrightarrow> at_most P k m"
  by (simp add: at_most_def)

lemma at_mostE:
  assumes "at_most P k m"
  obtains cs where "mg_calls (snd (m w)) = mg_calls w @ cs" "length (filter P cs) \<le> k"
  using assms by (auto simp: at_most_def)

lemma at_most_same: "(\<And>w. mg_calls (snd (m w)) = mg_calls w) \<Longrightarrow> at_most P k m"
  by (simp add: at_most_def)

lemma at_most_weaken: "at_most P i m \<Longrightarrow> i \<le> k \<Longrightarrow> at_most P k m"
  unfolding at_most_def by (meson order_trans)

lemma at_most_bind:
  assumes "at_most P i m" "\<And>x. at_most P j (f x)"
  shows "at_most P (i + j) (bind m f)"
proof (rule at_mostI)
  fix w
  obtain cs where c: "mg_calls (snd (m w)) = mg_calls w @ cs" "length (filter P cs) \<le> i"
    by (rule at_mostE [OF assms(1)])
  show "\<exists>cs. mg_calls (snd (bind m f w)) = mg_calls w @ cs \<and> length (filter P cs) \<le> i + j"
  proof (cases "m w")
    case (Pair r v)
    show ?thesis
    proof (cases r)
      case (Ret x)
      obtain ds where "mg_calls (snd (f x v)) = mg_calls v @ ds" "length (filter P ds) \<le> j"
        by (rule at_mostE [OF assms(2)])
      then show ?thesis using c Pair Ret by (intro exI [of _ "cs @ ds"]) (simp add: bind_def)
    qed (use c Pair in \<open>auto simp: bind_def intro!: exI [of _ cs]\<close>)
  qed
qed

lemma at_most_catch:
  assumes "at_most P i m" "\<And>e. at_most P j (h e)"
  shows "at_most P (i + j) (try_catch m h)"
proof (rule at_mostI)
  fix w
  obtain cs where c: "mg_calls (snd (m w)) = mg_calls w @ cs" "length (filter P cs) \<le> i"
    by (rule at_mostE [OF assms(1)])
  show "\<exists>cs. mg_calls (snd (try_catch m h w)) = mg_calls w @ cs \<and> length (filter P cs) \<le> i + j"
  proof (cases "m w")
    case (Pair r v)
    show ?thesis
    proof (cases r)
      case (Throw e)
      obtain ds where "mg_calls (snd (h e v)) = mg_calls v @ ds" "length (filter P ds) \<le> j"
        by (rule at_mostE [OF assms(2)])
      then show ?thesis using c Pair Throw by (intro exI [of _ "cs @ ds"]) (simp add: try_catch_def)
    qed (use c Pair in \<open>auto simp: try_catch_def intro!: exI [of _ cs]\<close>)
  qed
qed

lemma at_most_inspect: "(\<And>w. at_most P k (f w)) \<Longrightarrow> at_most P k (inspect f)"
  unfolding at_most_def inspect_def by blast

lemma at_most_ret: "at_most P k (ret x)" and at_most_throw: "at_most P k (throw e)"
  by (rule at_most_same, simp add: ret_def throw_def)+

lemma at_most_modify: "(\<And>w. mg_calls (f w) = mg_calls w) \<Longrightarrow> at_most P k (modify f)"
  by (rule at_most_same) (simp add: modify_def)

lemma at_most_on_disk: "at_most P k (on_disk m)"
  by (rule at_most_same) (simp add: on_disk_def split: prod.split)

lemma at_most_answer: "at_most P k answer"
  by (rule at_most_same) (auto simp: answer_def split: list.splits)

lemma at_most_log: "at_most P (if P c then 1 else 0) (log_call c)"
  by (rule at_mostI) (auto simp: log_call_def modify_def)

lemma at_most_andThen: "at_most P i m \<Longrightarrow> at_most P j n \<Longrightarrow> at_most P (i + j) (andThen m n)"
  unfolding andThen_def by (rule at_most_bind)

lemma at_most_if: "(b \<Longrightarrow> at_most P k m) \<Longrightarrow> (\<not> b \<Longrightarrow> at_most P k n) \<Longrightarrow> at_most P k (if b then m else n)"
  by simp

lemma at_most_cond: "(b \<Longrightarrow> at_most P k m) \<Longrightarrow> at_most P k (cond b m)"
  by (simp add: cond_def at_most_ret)

lemma at_most_option:
  "(y = None \<Longrightarrow> at_most P k m) \<Longrightarrow> (\<And>x. y = Some x \<Longrightarrow> at_most P k (f x)) \<Longrightarrow>
     at_most P k (case y of None \<Rightarrow> m | Some x \<Rightarrow> f x)"
  by (cases y) auto

lemma at_most_sum:
  "(\<And>x. y = Inl x \<Longrightarrow> at_most P k (f x)) \<Longrightarrow> (\<And>x. y = Inr x \<Longrightarrow> at_most P k (g x)) \<Longrightarrow>
     at_most P k (case y of Inl x \<Rightarrow> f x | Inr x \<Rightarrow> g x)"
  by (cases y) auto

text \<open>For none at all, the rules go through every combinator.\<close>

lemma none_bind: "at_most P 0 m \<Longrightarrow> (\<And>x. at_most P 0 (f x)) \<Longrightarrow> at_most P 0 (bind m f)"
  using at_most_bind [of P 0 m 0 f] by simp

lemma none_andThen: "at_most P 0 m \<Longrightarrow> at_most P 0 n \<Longrightarrow> at_most P 0 (andThen m n)"
  unfolding andThen_def by (rule none_bind)

lemma none_catch: "at_most P 0 m \<Longrightarrow> (\<And>e. at_most P 0 (h e)) \<Longrightarrow> at_most P 0 (try_catch m h)"
  using at_most_catch [of P 0 m 0 h] by simp

lemma none_ignoring: "at_most P 0 m \<Longrightarrow> at_most P 0 (ignoring m)"
  unfolding ignoring_def by (intro none_catch at_most_ret)

lemma none_doing_Nil: "at_most P 0 (doing [])"
  by (simp add: at_most_ret)

lemma none_doing_Cons: "at_most P 0 m \<Longrightarrow> at_most P 0 (doing ms) \<Longrightarrow> at_most P 0 (doing (m # ms))"
  by (simp add: none_andThen)

lemma none_for_each: "(\<And>x. at_most P 0 (f x)) \<Longrightarrow> at_most P 0 (for_each xs f)"
  by (induction xs) (simp_all add: at_most_ret none_andThen)

lemma none_log: "\<not> P c \<Longrightarrow> at_most P 0 (log_call c)"
  using at_most_log [of P c] by simp

lemma none_call: "\<not> P c \<Longrightarrow> at_most P 0 (call_runtime c)"
  unfolding call_runtime_def by (intro none_andThen none_log at_most_answer)

lemma none_store: "\<not> P c \<Longrightarrow> at_most P 0 (call_store c m)"
  unfolding call_store_def by (intro none_andThen none_log at_most_on_disk)

lemma none_warm: "at_most P k (keep_warm sid m)" "at_most P k (forget_warm sid)"
  unfolding keep_warm_def forget_warm_def by (rule at_most_modify, simp)+

lemmas none_rules = none_bind none_andThen none_catch none_ignoring none_doing_Nil none_doing_Cons none_for_each
  none_log none_call none_store none_warm at_most_inspect at_most_ret at_most_throw at_most_on_disk at_most_if
  at_most_cond at_most_option at_most_sum

lemma none_ensureClient: "(\<And>t. \<not> P (CopilotClientStart t)) \<Longrightarrow> at_most P 0 (ensureClient env)"
  unfolding ensureClient_def by (intro none_rules at_most_modify) simp_all

lemma none_ensureCodexClient: "at_most P 0 (ensureCodexClient home)"
  unfolding ensureCodexClient_def by (intro none_rules at_most_modify) simp_all

lemma none_probe: "at_most P 0 (probe_stored env sid)"
  unfolding probe_stored_def by (intro none_rules)

text \<open>Kinds of calls.\<close>

definition creates :: "manager_call \<Rightarrow> bool" where
  "creates c = (case c of CopilotCreate _ _ \<Rightarrow> True | CodexCreate _ _ _ \<Rightarrow> True | _ \<Rightarrow> False)"

definition resumes :: "manager_call \<Rightarrow> bool" where
  "resumes c = (case c of CopilotResume _ _ \<Rightarrow> True | CodexResume _ _ _ \<Rightarrow> True | StoreHydrate _ \<Rightarrow> True | _ \<Rightarrow> False)"

definition to_copilot :: "manager_call \<Rightarrow> bool" where
  "to_copilot c = (case c of CopilotClientStart _ \<Rightarrow> True | CopilotCreate _ _ \<Rightarrow> True | CopilotResume _ _ \<Rightarrow> True
     | CopilotDelete _ \<Rightarrow> True | CopilotStop \<Rightarrow> True | DestroySession k _ \<Rightarrow> k = CopilotKind | _ \<Rightarrow> False)"

definition destroys :: "manager_call \<Rightarrow> bool" where
  "destroys c = (case c of DestroySession _ _ \<Rightarrow> True | _ \<Rightarrow> False)"

definition archives :: "manager_call \<Rightarrow> bool" where
  "archives c = (case c of StoreDehydrate _ \<Rightarrow> True | _ \<Rightarrow> False)"

lemmas call_kinds = creates_def resumes_def to_copilot_def destroys_def archives_def

lemma none_purge:
  assumes "\<And>k. \<not> P (DestroySession k sid)" "\<And>h. \<not> P (CodexDelete h sid)" "\<not> P (CopilotDelete sid)"
    "\<not> P (StoreDelete sid)" "\<And>t. \<not> P (CopilotClientStart t)"
  shows "at_most P 0 (purgeSessionState env sid kind)"
  unfolding purgeSessionState_def Let_def
  by (intro none_rules none_ensureClient assms)

subsection \<open>First and later turns\<close>

lemma later_obtain:
  "at_most P 0 resume \<Longrightarrow> at_most P 0 hydrate \<Longrightarrow>
     at_most P 0 (obtain_runtime_session usable discard create resume hydrate stored ask False sid a b (Some (Suc n)))"
  unfolding obtain_runtime_session_def
  by (intro none_rules) simp_all

lemma first_obtain:
  "at_most P 0 discard \<Longrightarrow> at_most P 0 create \<Longrightarrow>
     at_most P 0 (obtain_runtime_session usable discard create resume hydrate stored ask fresh sid a b (Some 0))"
  unfolding obtain_runtime_session_def
  by (intro none_rules) simp_all

lemma none_hydrate: "\<not> P (StoreHydrate sid) \<Longrightarrow> at_most P 0 (hydrate_store env sid)"
  unfolding hydrate_store_def by (intro none_rules)

lemma later_codex: "at_most creates 0 (codexBranch env sid (Some (Suc n)) False rq p)"
  unfolding codexBranch_def Let_def
  by (intro none_rules none_ensureCodexClient none_probe later_obtain none_hydrate) (simp_all add: call_kinds)

lemma later_copilot: "at_most creates 0 (copilotBranch env sid (Some (Suc n)) False rq)"
  unfolding copilotBranch_def Let_def
  by (intro none_rules none_ensureClient none_probe later_obtain none_hydrate none_purge) (simp_all add: call_kinds)

lemma first_codex: "at_most resumes 0 (codexBranch env sid (Some 0) fresh rq p)"
  unfolding codexBranch_def Let_def
  by (intro none_rules none_ensureCodexClient none_probe first_obtain) (simp_all add: call_kinds)

lemma first_copilot: "at_most resumes 0 (copilotBranch env sid (Some 0) fresh rq)"
  unfolding copilotBranch_def Let_def
  by (intro none_rules none_ensureClient none_probe first_obtain none_purge) (simp_all add: call_kinds)

lemma none_recycle:
  assumes "\<And>k. \<not> P (DestroySession k sid)" "\<And>h. \<not> P (CodexDelete h sid)" "\<not> P (CopilotDelete sid)"
    "\<not> P (StoreDelete sid)" "\<And>t. \<not> P (CopilotClientStart t)"
  shows "at_most P 0 (recycleIfDrifted env sid turnIndex rq)"
  unfolding recycleIfDrifted_def recycleWarmSession_def Let_def
  by (intro none_rules none_purge assms)

text \<open>The calls of one run.\<close>

definition none_made :: "(manager_call \<Rightarrow> bool) \<Rightarrow> ('s, 'x) managerp \<Rightarrow> 's manager_state \<Rightarrow> bool" where
  "none_made P m w \<longleftrightarrow> (\<exists>cs. mg_calls (snd (m w)) = mg_calls w @ cs \<and> filter P cs = [])"

lemma none_madeI: "at_most P 0 m \<Longrightarrow> none_made P m w"
  unfolding at_most_def none_made_def by (metis le_zero_eq length_0_conv)

lemma none_made_bind:
  assumes "at_most P 0 m" "ends m (\<lambda>x _. R x) (\<lambda>_ _. True) w" "\<And>x. R x \<Longrightarrow> at_most P 0 (f x)"
  shows "none_made P (bind m f) w"
proof -
  obtain cs where c: "mg_calls (snd (m w)) = mg_calls w @ cs" "filter P cs = []"
    using none_madeI [OF assms(1)] by (auto simp: none_made_def)
  show ?thesis
  proof (cases "m w")
    case (Pair r v)
    show ?thesis
    proof (cases r)
      case (Ret x)
      then have "R x" using assms(2) Pair by (simp add: ends_def)
      then obtain ds where "mg_calls (snd (f x v)) = mg_calls v @ ds" "filter P ds = []"
        using none_madeI [OF assms(3)] by (auto simp: none_made_def)
      then show ?thesis using c Pair Ret unfolding none_made_def
        by (intro exI [of _ "cs @ ds"]) (simp add: bind_def)
    qed (use c Pair in \<open>auto simp: none_made_def bind_def intro!: exI [of _ cs]\<close>)
  qed
qed

lemma none_made_modify:
  "mg_calls (f w) = mg_calls w \<Longrightarrow> none_made P n (f w) \<Longrightarrow> none_made P (andThen (modify f) n) w"
  by (simp add: none_made_def andThen_def bind_def modify_def)

lemma same_kind_not_fresh:
  assumes "\<And>m. warm_of w sid = Some m \<Longrightarrow> mn_runtimeKind m = rs_kind rq"
  shows "ends (recycleIfDrifted env sid turnIndex rq) (\<lambda>b _. \<not> b) (\<lambda>_ _. True) w"
proof -
  have any: "ends m (\<lambda>_ _. True) (\<lambda>_ _. True) s" for m :: "('s, 'x) managerp" and s
    by (simp add: ends_def split: prod.split outcome.split)
  show ?thesis
    unfolding recycleIfDrifted_def Let_def
    by (intro ends_inspect ends_option ends_if ends_ret ends_andThen)
       (use assms in \<open>auto split: if_splits outcome.splits intro!: ends_mono [OF any]
         simp: cond_def ends_def orch_defs\<close>)
qed

lemma acquire_later:
  assumes "\<And>m. warm_of w sid = Some m \<Longrightarrow> mn_runtimeKind m = rs_kind rq"
  shows "none_made creates (acquire env sid (Some (Suc n)) rq) w"
  unfolding acquire_def
proof (rule none_made_bind [OF _ same_kind_not_fresh [OF assms]])
  show "at_most creates 0 (recycleIfDrifted env sid (Some (Suc n)) rq)"
    by (rule none_recycle) (simp_all add: call_kinds)
next
  fix fresh :: bool
  assume "\<not> fresh"
  then show "at_most creates 0 (case (rs_kind rq, rs_resolved rq) of
         (CodexKind, Some provider) \<Rightarrow> codexBranch env sid (Some (Suc n)) fresh rq provider
       | _ \<Rightarrow> copilotBranch env sid (Some (Suc n)) fresh rq)"
    by (auto split: runtime_kind.split option.split intro: later_codex later_copilot)
qed

lemma acquire_first: "at_most resumes 0 (acquire env sid (Some 0) rq)"
  unfolding acquire_def
  by (intro none_bind none_recycle)
     (auto simp: call_kinds split: runtime_kind.split option.split intro: first_codex first_copilot)

text \<open>What a call of \<open>getOrCreate\<close> asks for.\<close>

definition requested_session :: "'s manager_env \<Rightarrow> 's manager_state \<Rightarrow> string \<Rightarrow> session_config \<Rightarrow> session_request option" where
  "requested_session env w sid c0 =
     (case normalizeModelRef (mv_registry env) (c_model (effectiveConfig env (mg_configs w sid) c0)) False of
        Inl e \<Rightarrow> None
      | Inr model \<Rightarrow> Some (sessionRequest env (mg_configs w sid) c0 (or_str model [])))"

text \<open>Everything but the request is decided before; the configuration is all that changes till then.\<close>

lemma getOrCreateManaged_cases:
  obtains (refused) e where "fst (getOrCreateManaged env sid c0 turnIndex w) = Throw e"
      "mg_calls (snd (getOrCreateManaged env sid c0 turnIndex w)) = mg_calls w"
  | (acquired) rq c where "requested_session env w sid c0 = Some rq"
      "getOrCreateManaged env sid c0 turnIndex w = acquire env sid turnIndex rq (w\<lparr>mg_configs := c\<rparr>)"
proof (cases "validateSessionId sid")
  case (Some e)
  then show ?thesis by (intro refused) (simp_all add: getOrCreateManaged_def throw_def)
next
  case valid: None
  show ?thesis
  proof (cases "wd_factStore (mv_defaults env)")
    case False
    then show ?thesis using valid
      by (intro refused) (simp_all add: getOrCreateManaged_def orch_defs Let_def)
  next
    case facts: True
    show ?thesis
    proof (cases "normalizeModelRef (mv_registry env) (c_model (effectiveConfig env (mg_configs w sid) c0)) False")
      case (Inl e)
      then show ?thesis using valid facts
        by (intro refused) (simp_all add: getOrCreateManaged_def orch_defs Let_def)
    next
      case (Inr model)
      then show ?thesis using valid facts
        by (intro acquired [of "sessionRequest env (mg_configs w sid) c0 (or_str model [])"])
           (simp_all add: requested_session_def getOrCreateManaged_def orch_defs Let_def)
    qed
  qed
qed

lemma later_turn_run:
  assumes "\<And>m rq. warm_of w sid = Some m \<Longrightarrow> requested_session env w sid c0 = Some rq \<Longrightarrow> mn_runtimeKind m = rs_kind rq"
  shows "none_made creates (getOrCreateManaged env sid c0 (Some (Suc n))) w"
proof (cases rule: getOrCreateManaged_cases [of env sid c0 "Some (Suc n)" w])
  case (acquired rq c)
  have "none_made creates (acquire env sid (Some (Suc n)) rq) (w\<lparr>mg_configs := c\<rparr>)"
    by (rule acquire_later) (use assms acquired(1) in \<open>simp add: warm_of_def\<close>)
  then show ?thesis by (simp add: none_made_def acquired(2))
qed (simp add: none_made_def)

subsection \<open>A sample worker\<close>

text \<open>The store and the disk of \<open>session-store.ts\<close>, as the manager uses them.\<close>

definition fs_store :: "'a store_env \<Rightarrow> 'a store_state session_store" where
  "fs_store senv = \<lparr> so_dehydrate = store_dehydrate senv, so_hydrate = store_hydrate senv,
     so_checkpoint = store_checkpoint senv, so_exists = store_exists, so_delete = store_delete \<rparr>"

definition fs_disk :: "'a store_env \<Rightarrow> 'a store_state local_disk" where
  "fs_disk senv = \<lparr> ld_exists = (\<lambda>s sid. ss_dirs s sid \<noteq> None),
     ld_marker = (\<lambda>s sid. case ss_dirs s sid of None \<Rightarrow> False | Some t \<Rightarrow> exists_in t CODEX_THREAD_STATE_FILENAME),
     ld_usable = (\<lambda>s sid. hasUsableThreadState (se_parse senv) (path_resolve (se_stateDir senv) sid) (ss_dirs s sid)),
     ld_remove = remove_dir \<rparr>"

definition plain_worker :: "registry option \<Rightarrow> (string \<times> tree) store_state manager_env" where
  "plain_worker reg = \<lparr> mv_sessionStateDir = ''/state'', mv_githubToken = Some ''tok'',
     mv_defaults = sample_defaults, mv_frameworkBaseToolNames = [], mv_appDefaultToolNames = [],
     mv_turnTimeoutMs = None, mv_registry = reg, mv_processEnv = Map.empty, mv_legacyProvider = None,
     mv_toolRegistry = Map.empty, mv_systemTools = [], mv_subAgentTools = [], mv_factTools = (\<lambda>_. []),
     mv_inspectTools = (\<lambda>_. []), mv_askBlock = None, mv_skillBlock = None,
     mv_store = Some (fs_store plain_env), mv_disk = fs_disk plain_env \<rparr>"

definition codex_registry :: registry where
  "codex_registry = filled_registry Map.empty \<lparr> pf_providers = [\<lparr> pc_id = ''x'', pc_type = Codex, pc_githubToken = None,
     pc_baseUrl = None, pc_apiKey = None, pc_apiVersion = None, pc_codexHome = Some ''/codex'',
     pc_codexBinaryPath = None, pc_models = [BareName ''g''] \<rparr>], pf_defaultModel = Some ''x:g'' \<rparr>"

definition warm_manager :: "runtime_kind \<Rightarrow> string \<Rightarrow> (string \<times> tree) store_state manager_state" where
  "warm_manager kind model = \<lparr> mg_sessions = [(''s1'', \<lparr> mn_runtimeKind = kind, mn_boundModel = model,
       mn_boundReasoningEffort = None, mn_config = empty_config \<rparr>)],
     mg_configs = Map.empty, mg_clientStarted = True, mg_codexClients = [''/codex''], mg_disk = live_store,
     mg_calls = [], mg_replies = [(None, id)] \<rparr>"

lemma sample_requests:
  "map_option (\<lambda>rq. (rs_kind rq, rs_resolved rq = None, rs_model rq, rs_effort rq))
     (requested_session (plain_worker None) (warm_manager CopilotKind ''m'') ''s1'' (blank_config\<lparr>c_model := Some ''m''\<rparr>)) =
   Some (CopilotKind, True, ''m'', None)"
  "map_option rs_kind (requested_session (plain_worker (Some codex_registry)) (warm_manager CodexKind ''x:g'') ''s1''
     (blank_config\<lparr>c_model := Some ''g''\<rparr>)) = Some CodexKind"
  by code_simp+

lemma warm_kind: "warm_of (warm_manager kind model) ''s1'' = Some m \<Longrightarrow> mn_runtimeKind m = kind"
  by (auto simp: warm_of_def warm_manager_def)

lemma warm_copilot_run:
  assumes "validateSessionId sid = None" "wd_factStore (mv_defaults env)" "requested_session env w sid c0 = Some rq"
    "rs_kind rq = CopilotKind" "rs_resolved rq = None" "warm_of w sid = Some m" "warmBindingMatches m rq" "mg_clientStarted w"
  shows "fst (getOrCreateManaged env sid c0 (Some (Suc n)) w) = Ret (updateConfig m (rs_config rq))"
  using assms
  by (auto simp: requested_session_def getOrCreateManaged_def acquire_def recycleIfDrifted_def copilotBranch_def ensureClient_def
      keep_warm_def warm_of_def orch_defs Let_def split: sum.splits)

lemma sample_turn_run:
  "\<exists>m. fst (getOrCreateManaged (plain_worker None) ''s1'' (blank_config\<lparr>c_model := Some ''m''\<rparr>) (Some (Suc 0))
     (warm_manager CopilotKind ''m'')) = Ret m"
proof -
  obtain rq where rq: "requested_session (plain_worker None) (warm_manager CopilotKind ''m'') ''s1''
      (blank_config\<lparr>c_model := Some ''m''\<rparr>) = Some rq"
    "rs_kind rq = CopilotKind" "rs_resolved rq = None" "rs_model rq = ''m''" "rs_effort rq = None"
    using sample_requests(1) by auto
  have "validateSessionId ''s1'' = None" by code_simp
  then show ?thesis
    by (intro exI, rule warm_copilot_run [OF _ _ rq(1-3)])
       (auto simp: plain_worker_def sample_defaults_def warm_of_def warm_manager_def warmBindingMatches_def rq)
qed

subsection \<open>The turns\<close>

text \<open>
  C18: A later turn never starts a blank session behind the user's back: when a session is obtained for a
  turn after the first, nothing is created in either runtime - it is reused, resumed from the disk, or
  resumed after hydration, or the turn fails - unless a warm session has to move to the other runtime.
\<close>

theorem later_turns_never_start_blank:
  assumes "\<And>m rq. warm_of w sid = Some m \<Longrightarrow> requested_session env w sid c0 = Some rq \<Longrightarrow> mn_runtimeKind m = rs_kind rq"
  shows "\<exists>cs. mg_calls (snd (getOrCreateManaged env sid c0 (Some (Suc n)) w)) = mg_calls w @ cs \<and> filter creates cs = []"
  using later_turn_run [OF assms] unfolding none_made_def .

theorem later_turns_never_start_blank_witness:
  "\<exists>cs. mg_calls (snd (getOrCreateManaged (plain_worker None) ''s1'' (blank_config\<lparr>c_model := Some ''m''\<rparr>) (Some (Suc 3))
      (warm_manager CopilotKind ''m''))) = mg_calls (warm_manager CopilotKind ''m'') @ cs \<and> filter creates cs = []"
  by (rule later_turns_never_start_blank) (use sample_requests(1) in \<open>auto dest: warm_kind\<close>)

text \<open>
  A first turn never takes up what an earlier session of the same id left behind: nothing is resumed
  and nothing is hydrated for it, in either runtime and whatever is warm, on the disk or in the store.
\<close>

theorem first_turns_start_afresh:
  "\<exists>cs. mg_calls (snd (getOrCreateManaged env sid c0 (Some 0) w)) = mg_calls w @ cs \<and> filter resumes cs = []"
proof (cases rule: getOrCreateManaged_cases [of env sid c0 "Some 0" w])
  case (acquired rq c)
  have "none_made resumes (acquire env sid (Some 0) rq) (w\<lparr>mg_configs := c\<rparr>)"
    by (rule none_madeI [OF acquire_first])
  then show ?thesis by (simp add: none_made_def acquired(2))
qed simp

subsection \<open>The session that is handed out\<close>

definition tame :: "string \<Rightarrow> ('s, 'x) managerp \<Rightarrow> bool" where
  "tame sid m \<longleftrightarrow> (\<forall>w. warm_of (snd (m w)) sid = None \<or> warm_of (snd (m w)) sid = warm_of w sid)"

lemma tame_same: "(\<And>w. mg_sessions (snd (m w)) = mg_sessions w) \<Longrightarrow> tame sid m"
  by (simp add: tame_def warm_of_def)

lemma tame_bind: "tame sid m \<Longrightarrow> (\<And>x. tame sid (f x)) \<Longrightarrow> tame sid (bind m f)"
  unfolding tame_def bind_def
  by (auto split: prod.splits outcome.splits) (metis snd_conv)+

lemma tame_catch: "tame sid m \<Longrightarrow> (\<And>x. tame sid (h x)) \<Longrightarrow> tame sid (try_catch m h)"
  unfolding tame_def try_catch_def
  by (auto split: prod.splits outcome.splits) (metis snd_conv)+

lemma tame_andThen: "tame sid m \<Longrightarrow> tame sid n \<Longrightarrow> tame sid (andThen m n)"
  unfolding andThen_def by (rule tame_bind)

lemma tame_simple:
  "tame sid (ret x)" "tame sid (throw e)" "tame sid (on_disk d)" "tame sid answer" "tame sid (log_call c)"
  by (rule tame_same, auto simp: orch_defs on_disk_def answer_def log_call_def split: prod.split list.split)+

lemma tame_inspect: "(\<And>w. tame sid (f w)) \<Longrightarrow> tame sid (inspect f)"
  by (simp add: tame_def inspect_def)

lemma tame_cond: "tame sid m \<Longrightarrow> tame sid (cond b m)"
  by (simp add: cond_def tame_simple)

lemma tame_if: "tame sid m \<Longrightarrow> tame sid n \<Longrightarrow> tame sid (if b then m else n)"
  by simp

lemma tame_modify: "(\<And>w. mg_sessions (f w) = mg_sessions w) \<Longrightarrow> tame sid (modify f)"
  by (rule tame_same) (simp add: modify_def)

lemma tame_option: "tame sid m \<Longrightarrow> (\<And>x. tame sid (f x)) \<Longrightarrow> tame sid (case y of None \<Rightarrow> m | Some x \<Rightarrow> f x)"
  by (cases y) auto

lemma tame_sum: "(\<And>x. tame sid (f x)) \<Longrightarrow> (\<And>x. tame sid (g x)) \<Longrightarrow> tame sid (case y of Inl x \<Rightarrow> f x | Inr x \<Rightarrow> g x)"
  by (cases y) auto

lemma tame_call: "tame sid (call_runtime c)" "tame sid (call_store c d)"
  unfolding call_runtime_def call_store_def by (intro tame_andThen tame_simple)+

lemma tame_ignoring: "tame sid m \<Longrightarrow> tame sid (ignoring m)"
  unfolding ignoring_def by (intro tame_catch tame_simple)

lemma tame_forget: "tame sid (forget_warm x)"
  by (auto simp: tame_def forget_warm_def modify_def warm_of_def delete_conv')

lemma tame_doing: "list_all (tame sid) ms \<Longrightarrow> tame sid (doing ms)"
  by (induction ms) (simp_all add: tame_simple tame_andThen)

lemma tame_for_each: "(\<And>x. tame sid (f x)) \<Longrightarrow> tame sid (for_each xs f)"
  by (induction xs) (simp_all add: tame_simple tame_andThen)

lemmas tame_rules = tame_bind tame_andThen tame_catch tame_simple tame_inspect tame_cond tame_if tame_option tame_sum
  tame_call tame_ignoring tame_forget tame_for_each tame_modify

lemma tame_ensureClient: "tame sid (ensureClient env)"
  unfolding ensureClient_def by (intro tame_rules) simp

lemma tame_ensureCodexClient: "tame sid (ensureCodexClient home)"
  unfolding ensureCodexClient_def by (intro tame_rules) simp

lemma tame_purge: "tame sid (purgeSessionState env x kind)"
  unfolding purgeSessionState_def Let_def
  by (intro tame_rules tame_doing) (simp, intro conjI impI tame_rules tame_ensureClient)

text \<open>Once a session is not warm, it stays so; a warm one that is kept is the one that was asked for.\<close>

definition fits :: "string \<Rightarrow> nat option \<Rightarrow> session_request \<Rightarrow> 's manager_state \<Rightarrow> bool" where
  "fits sid turnIndex rq w \<longleftrightarrow> turnIndex = Some 0 \<or> (\<forall>m. warm_of w sid = Some m \<longrightarrow> warmBindingMatches m rq)"

lemma tame_ends:
  assumes "tame sid m" "fits sid turnIndex rq w"
  shows "ends m (\<lambda>_. fits sid turnIndex rq) (\<lambda>_ _. True) w"
  using assms unfolding tame_def fits_def ends_def
  by (auto split: prod.splits outcome.splits) (metis option.simps(3) snd_conv)

lemma ends_forget: "ends (forget_warm sid) (\<lambda>_. fits sid turnIndex rq) (\<lambda>_ _. True) w"
  by (simp add: ends_def forget_warm_def modify_def fits_def warm_of_def delete_conv')

lemma ends_any: "ends m (\<lambda>_ _. True) (\<lambda>_ _. True) w"
  by (simp add: ends_def split: prod.split outcome.split)

lemma recycle_fits: "ends (recycleIfDrifted env sid turnIndex rq) (\<lambda>_. fits sid turnIndex rq) (\<lambda>_ _. True) w"
  unfolding recycleIfDrifted_def recycleWarmSession_def Let_def
  apply (intro ends_inspect ends_option ends_if ends_ret ends_andThen)
    apply (auto simp: fits_def split: if_splits)[2]
  apply (rule ends_mono [OF ends_any])
   apply (rule ends_mono [OF ends_forget [where turnIndex = turnIndex and rq = rq]])
    apply (rule ends_mono [OF tame_ends [where sid = sid and turnIndex = turnIndex and rq = rq]])
       apply (intro tame_rules tame_purge)
      apply simp_all
  done

text \<open>The session that is asked for is in the hands of the manager.\<close>

definition handed_out :: "string \<Rightarrow> session_request \<Rightarrow> managed \<Rightarrow> 's manager_state \<Rightarrow> bool" where
  "handed_out sid rq m w \<longleftrightarrow> warmBindingMatches m rq \<and> warm_of w sid = Some m"

lemma bound_matches: "warmBindingMatches (bound_session rq) rq"
  by (simp add: warmBindingMatches_def bound_session_def)

lemma update_matches: "warmBindingMatches (updateConfig m c) rq = warmBindingMatches m rq"
  by (simp add: warmBindingMatches_def updateConfig_def)

lemma ends_keep:
  "warmBindingMatches m rq \<Longrightarrow> ends (andThen (keep_warm sid m) (ret m)) (handed_out sid rq) (\<lambda>_ _. True) w"
  by (simp add: ends_def keep_warm_def modify_def andThen_def bind_def ret_def handed_out_def warm_of_def update_conv')

lemma ends_then_any:
  "(\<And>v. ends n Q (\<lambda>_ _. True) v) \<Longrightarrow> ends (andThen m n) Q (\<lambda>_ _. True) w"
  by (rule ends_andThen [OF ends_mono [OF ends_any]])

lemma ends_bind_any:
  "(\<And>x v. ends (f x) Q (\<lambda>_ _. True) v) \<Longrightarrow> ends (bind m f) Q (\<lambda>_ _. True) w"
  by (rule ends_bind [OF ends_mono [OF ends_any]])

lemma codex_hands_out:
  assumes "fits sid turnIndex rq w"
  shows "ends (codexBranch env sid turnIndex fresh rq p) (handed_out sid rq) (\<lambda>_ _. True) w"
proof -
  have new: "ends (bind (probe_stored env sid) (\<lambda>stored. inspect (\<lambda>w. andThen (f stored w)
      (andThen (keep_warm sid (bound_session rq)) (ret (bound_session rq)))))) (handed_out sid rq) (\<lambda>_ _. True) v" for f v
    by (intro ends_bind_any ends_inspect ends_then_any ends_keep bound_matches)
  show ?thesis
    unfolding codexBranch_def Let_def
    apply (intro ends_option ends_if ends_throw ends_andThen TrueI)
    apply (rule ends_mono [OF tame_ends [OF tame_ensureCodexClient assms]])
     apply (intro ends_inspect ends_option new ends_if)
      apply (intro ends_then_any new)
     apply (intro ends_keep)
     apply (simp_all add: update_matches fits_def)
    done
qed

lemma copilot_hands_out:
  assumes "fits sid turnIndex rq w"
  shows "ends (copilotBranch env sid turnIndex fresh rq) (handed_out sid rq) (\<lambda>_ _. True) w"
proof -
  have new: "ends (inspect (\<lambda>w. bind (probe_stored env sid) (\<lambda>stored. andThen (f stored w)
      (andThen (keep_warm sid (bound_session rq)) (ret (bound_session rq)))))) (handed_out sid rq) (\<lambda>_ _. True) v" for f v
    by (intro ends_bind_any ends_inspect ends_then_any ends_keep bound_matches)
  show ?thesis
    unfolding copilotBranch_def Let_def
    apply (rule ends_option)
     apply (intro ends_andThen)
     apply (rule ends_mono [OF tame_ends [OF tame_ensureClient assms]])
      apply (intro ends_inspect [where f = "\<lambda>w. case warm_of w sid of None \<Rightarrow> _ w | Some m \<Rightarrow> _ w m"] ends_option new ends_if)
       apply (intro ends_then_any new)
      apply (intro ends_keep)
      apply (simp_all add: update_matches fits_def ends_throw)
    done
qed

lemma acquire_hands_out: "ends (acquire env sid turnIndex rq) (handed_out sid rq) (\<lambda>_ _. True) w"
  unfolding acquire_def
  by (rule ends_bind, rule ends_mono [OF recycle_fits])
     (auto split: runtime_kind.split option.split intro: codex_hands_out copilot_hands_out)

text \<open>
  C19: The session that a turn gets is the one it asked for: it is bound to the runtime, the model and the
  reasoning effort that the configuration resolves to - a warm session that is bound otherwise is never
  handed out - and it is the one the manager keeps under the id.
\<close>

theorem session_is_bound_as_requested:
  assumes "getOrCreateManaged env sid c0 turnIndex w = (Ret m, v)"
  shows "\<exists>rq. requested_session env w sid c0 = Some rq \<and> mn_runtimeKind m = rs_kind rq \<and>
    mn_boundModel m = rs_model rq \<and> mn_boundReasoningEffort m = rs_effort rq \<and> warm_of v sid = Some m"
proof (cases rule: getOrCreateManaged_cases [of env sid c0 turnIndex w])
  case (acquired rq c)
  have "handed_out sid rq m v"
    using acquire_hands_out [of env sid turnIndex rq "w\<lparr>mg_configs := c\<rparr>"] assms acquired(2) by (simp add: ends_def)
  then show ?thesis using acquired(1) by (auto simp: handed_out_def warmBindingMatches_def)
qed (use assms in simp)

theorem session_is_bound_as_requested_witness:
  "\<exists>m v rq. getOrCreateManaged (plain_worker None) ''s1'' (blank_config\<lparr>c_model := Some ''m''\<rparr>) (Some (Suc 0))
       (warm_manager CopilotKind ''m'') = (Ret m, v) \<and>
     requested_session (plain_worker None) (warm_manager CopilotKind ''m'') ''s1'' (blank_config\<lparr>c_model := Some ''m''\<rparr>) = Some rq \<and>
     mn_boundModel m = rs_model rq"
proof -
  obtain m v where r: "getOrCreateManaged (plain_worker None) ''s1'' (blank_config\<lparr>c_model := Some ''m''\<rparr>) (Some (Suc 0))
      (warm_manager CopilotKind ''m'') = (Ret m, v)"
    using sample_turn_run by (metis prod.collapse)
  show ?thesis using session_is_bound_as_requested [OF r] r by blast
qed

end
