(* ===== verification/DehydrationGuarantees.thy ===== *)
theory DehydrationGuarantees
  imports ManagerGuarantees
begin

text \<open>
  What the session manager promises when it releases a session: over any store that keeps the laws of its
  interface dehydration persists before it lets go, retries are bounded, and a Codex session never
  touches the Copilot client.
\<close>

subsection \<open>Dehydration\<close>

text \<open>
  The runtimes change the disk, but remove no archive: that is the store's. A call may remove the directory
  of a session - its destruction may - with one exception: the first call of a dehydration, in which the
  runtime copies what it has into the directory before the checkpoint.
\<close>

definition gentle :: "('s \<Rightarrow> string \<Rightarrow> bool) \<Rightarrow> 's manager_state \<Rightarrow> bool" where
  "gentle stored w \<longleftrightarrow> (\<forall>(e, f) \<in> set (mg_replies w). \<forall>s x. stored s x \<longrightarrow> stored (f s) x)"

definition first_call_spares_dir :: "'s local_disk \<Rightarrow> string \<Rightarrow> 's manager_state \<Rightarrow> bool" where
  "first_call_spares_dir ld sid w \<longleftrightarrow> (case mg_replies w of
       [] \<Rightarrow> True
     | (e, f) # _ \<Rightarrow> ld_exists ld (mg_disk w) sid \<longrightarrow> ld_exists ld (f (mg_disk w)) sid)"

text \<open>
  The contract of a store of session states: a copy is there after a dehydration and, when there is
  something to copy, after a checkpoint; hydration puts it on the disk; no failure costs a copy.
\<close>

locale session_state_store =
  fixes so :: "'s session_store" and ld :: "'s local_disk" and stored :: "'s \<Rightarrow> string \<Rightarrow> bool"
  assumes dehydrate_stores: "ends (so_dehydrate so sid reason) (\<lambda>_ v. stored v sid) (\<lambda>_ v. stored s sid \<longrightarrow> stored v sid) s"
    and checkpoint_stores: "ends (so_checkpoint so sid)
      (\<lambda>_ v. (ld_exists ld s sid \<longrightarrow> stored v sid) \<and> (stored s sid \<longrightarrow> stored v sid)) (\<lambda>_ v. stored s sid \<longrightarrow> stored v sid) s"
    and hydrate_restores: "ends (so_hydrate so sid) (\<lambda>_ v. stored v sid \<and> ld_exists ld v sid)
      (\<lambda>_ v. stored s sid \<longrightarrow> stored v sid) s"
    and exists_tells: "ends (so_exists so sid) (\<lambda>b v. b = stored s sid \<and> v = s) (\<lambda>_ v. v = s) s"
    and remove_keeps: "ends (ld_remove ld sid) (\<lambda>_ v. stored v = stored s) (\<lambda>_ v. stored v = stored s) s"
begin

definition safe :: "string \<Rightarrow> bool \<Rightarrow> 's manager_state \<Rightarrow> bool" where
  "safe sid b v \<longleftrightarrow> gentle stored v \<and> (b \<longrightarrow> stored (mg_disk v) sid)"

definition steady :: "string \<Rightarrow> ('s, 'x) managerp \<Rightarrow> bool" where
  "steady sid m \<longleftrightarrow> (\<forall>b v. safe sid b v \<longrightarrow> ends m (\<lambda>_. safe sid b) (\<lambda>_. safe sid b) v)"

lemma steadyI: "(\<And>b v. safe sid b v \<Longrightarrow> ends m (\<lambda>_. safe sid b) (\<lambda>_. safe sid b) v) \<Longrightarrow> steady sid m"
  by (simp add: steady_def)

lemma steadyD: "steady sid m \<Longrightarrow> safe sid b v \<Longrightarrow> ends m (\<lambda>_. safe sid b) (\<lambda>_. safe sid b) v"
  by (simp add: steady_def)

lemma steady_bind: "steady sid m \<Longrightarrow> (\<And>x. steady sid (f x)) \<Longrightarrow> steady sid (bind m f)"
  by (rule steadyI, rule ends_bind, rule ends_mono [OF steadyD]) (auto intro: steadyD)

lemma steady_catch: "steady sid m \<Longrightarrow> (\<And>x. steady sid (h x)) \<Longrightarrow> steady sid (try_catch m h)"
  by (rule steadyI, rule ends_catch, rule ends_mono [OF steadyD]) (auto intro: steadyD)

lemma steady_andThen: "steady sid m \<Longrightarrow> steady sid n \<Longrightarrow> steady sid (andThen m n)"
  unfolding andThen_def by (rule steady_bind)

lemma steady_inspect: "(\<And>w. steady sid (f w)) \<Longrightarrow> steady sid (inspect f)"
  by (rule steadyI, rule ends_inspect) (auto intro: steadyD)

lemma steady_ret: "steady sid (ret x)"
  by (rule steadyI, rule ends_ret)

lemma steady_if: "steady sid m \<Longrightarrow> steady sid n \<Longrightarrow> steady sid (if b then m else n)"
  by simp

lemma steady_cond: "steady sid m \<Longrightarrow> steady sid (cond b m)"
  by (simp add: cond_def steady_ret)

lemma steady_option: "steady sid m \<Longrightarrow> (\<And>x. steady sid (f x)) \<Longrightarrow> steady sid (case y of None \<Rightarrow> m | Some x \<Rightarrow> f x)"
  by (cases y) auto

lemma steady_modify: "(\<And>w. mg_replies (f w) = mg_replies w \<and> mg_disk (f w) = mg_disk w) \<Longrightarrow> steady sid (modify f)"
  by (rule steadyI, rule ends_modify) (simp add: safe_def gentle_def)

lemma steady_call: "steady sid (call_runtime c)"
proof (rule steadyI)
  fix b v assume "safe sid b v"
  then show "ends (call_runtime c) (\<lambda>_. safe sid b) (\<lambda>_. safe sid b) v"
    by (auto simp: call_runtime_def andThen_def bind_def log_call_def modify_def answer_def ends_def safe_def gentle_def
        split: list.split option.split)
qed

lemma steady_on_disk:
  assumes "\<And>d. ends m (\<lambda>_ d'. stored d sid \<longrightarrow> stored d' sid) (\<lambda>_ d'. stored d sid \<longrightarrow> stored d' sid) d"
  shows "steady sid (on_disk m)"
proof (rule steadyI)
  fix b v assume "safe sid b v"
  with assms [of "mg_disk v"] show "ends (on_disk m) (\<lambda>_. safe sid b) (\<lambda>_. safe sid b) v"
    by (cases "m (mg_disk v)") (auto simp: ends_def on_disk_def safe_def gentle_def split: outcome.splits)
qed

lemma steady_log: "steady sid (log_call c)"
  unfolding log_call_def by (rule steady_modify) simp

lemmas steady_rules = steady_bind steady_catch steady_andThen steady_inspect steady_ret steady_if steady_cond
  steady_option steady_call steady_log steady_modify

lemma steady_snapshot: "steady sid (snapshotForCheckpoint sid)"
  unfolding snapshotForCheckpoint_def ignoring_def by (intro steady_rules)

lemma steady_resume: "steady sid (resumeForDestroy env sid)"
  unfolding resumeForDestroy_def ensureClient_def keep_warm_def by (intro steady_rules) simp_all

lemma steady_destroy: "steady sid (destroy_attempts env sid n err)"
proof (induction n arbitrary: err)
  case (Suc n)
  show ?case unfolding destroy_attempts.simps forget_warm_def
    by (intro steady_rules steady_resume Suc.IH) simp_all
qed (simp add: steady_ret)

lemma snapshot_keeps_dir:
  assumes "safe sid b v" "ld_exists ld (mg_disk v) sid" "first_call_spares_dir ld sid v"
  shows "ends (snapshotForCheckpoint sid) (\<lambda>_ u. safe sid b u \<and> ld_exists ld (mg_disk u) sid) (\<lambda>_ _. False) v"
  using assms
  by (auto simp: first_call_spares_dir_def snapshotForCheckpoint_def ignoring_def call_runtime_def andThen_def bind_def log_call_def modify_def
      answer_def ends_def safe_def gentle_def inspect_def cond_def ret_def try_catch_def
      split: list.split option.split)

lemma checkpoint_prepared:
  assumes "mv_store env = Some so" "mv_disk env = ld" "safe sid b v" "first_call_spares_dir ld sid v"
  shows "ends (preDehydrateCheckpoint env sid) (\<lambda>prep. safe sid (b \<or> prep)) (\<lambda>_ _. False) v"
proof -
  have c: "ends (call_store c (so_checkpoint so sid)) (\<lambda>_. safe sid True) (\<lambda>_. safe sid b) u"
    if "safe sid b u" "ld_exists ld (mg_disk u) sid" for u c
    using checkpoint_stores [of sid "mg_disk u"] that
    by (auto simp: call_store_def andThen_def bind_def log_call_def modify_def on_disk_def ends_def safe_def gentle_def
        split: prod.splits outcome.splits)
  show ?thesis
    unfolding preDehydrateCheckpoint_def assms(1) option.case
    apply (intro ends_inspect ends_if ends_ret ends_andThen)
     apply (simp add: assms(3))
    apply (rule ends_mono [OF snapshot_keeps_dir [OF assms(3) _ assms(4)]])
      apply (simp add: dir_exists_def assms(2))
     apply (intro ends_catch ends_andThen)
     apply (rule ends_mono [OF c])
        apply (auto intro!: ends_ret)
    done
qed

lemma steady_store_call: "steady sid (call_store c (so_dehydrate so sid reason))"
  unfolding call_store_def
  by (intro steady_andThen steady_log steady_on_disk) (rule ends_mono [OF dehydrate_stores], simp_all)

lemma stored_by_call:
  assumes "safe sid b v"
  shows "ends (call_store c (so_dehydrate so sid reason)) (\<lambda>_. safe sid True) (\<lambda>_. safe sid b) v"
  using dehydrate_stores [of sid reason "mg_disk v"] assms
  by (cases "so_dehydrate so sid reason (mg_disk v)")
     (auto simp: call_store_def andThen_def bind_def log_call_def modify_def on_disk_def ends_def safe_def gentle_def
       split: outcome.splits)

lemma store_attempts_end:
  assumes "safe sid b v" "err \<noteq> None \<or> 0 < n"
  shows "ends (store_attempts so sid reason n err) (\<lambda>r. safe sid (b \<or> r = None)) (\<lambda>_ _. False) v"
  using assms
proof (induction n arbitrary: err v)
  case (Suc n)
  have again: "ends (store_attempts so sid reason n (Some e)) (\<lambda>r. safe sid (b \<or> r = None)) (\<lambda>_ _. False) u"
    if "safe sid b u" for e u
    by (rule Suc.IH) (use that in simp_all)
  show ?case
    unfolding store_attempts.simps
    by (intro ends_catch ends_andThen, rule ends_mono [OF stored_by_call [OF Suc.prems(1)]])
       (simp_all add: again ends_ret)
qed (auto intro: ends_ret simp: safe_def)

end

text \<open>What goes on does not bring a session back that was let go.\<close>

lemma tame_store_attempts: "tame x (store_attempts so sid reason n err)"
proof (induction n arbitrary: err)
  case (Suc n)
  show ?case unfolding store_attempts.simps by (intro tame_rules Suc.IH)
qed (simp add: tame_simple)

lemma tame_snapshot: "tame x (snapshotForCheckpoint sid)"
  unfolding snapshotForCheckpoint_def by (intro tame_rules)

lemma tame_preDehydrate: "tame x (preDehydrateCheckpoint env sid)"
  unfolding preDehydrateCheckpoint_def by (intro tame_rules tame_snapshot)

definition let_go :: "string \<Rightarrow> 's manager_state \<Rightarrow> bool" where
  "let_go sid w \<longleftrightarrow> warm_of w sid = None"

lemma tame_let_go: "tame sid m \<Longrightarrow> let_go sid w \<Longrightarrow> ends m (\<lambda>_. let_go sid) (\<lambda>_. let_go sid) w"
  unfolding tame_def let_go_def ends_def by (auto split: prod.splits outcome.splits) (metis snd_conv)+

lemma forget_lets_go: "ends (forget_warm sid) (\<lambda>_. let_go sid) E w"
  by (simp add: ends_def forget_warm_def modify_def let_go_def warm_of_def delete_conv')

lemma call_any: "ends (call_runtime c) (\<lambda>_ _. True) (\<lambda>_ _. True) w"
  by (rule ends_any)

lemma resume_let_go:
  assumes "let_go sid w"
  shows "ends (resumeForDestroy env sid) (\<lambda>again v. again \<or> let_go sid v) (\<lambda>_ _. False) w"
proof -
  have call: "tame sid (call_runtime c)" for c
    by (intro tame_rules)
  show ?thesis
    unfolding resumeForDestroy_def
    apply (intro ends_inspect ends_if ends_ret ends_catch ends_andThen)
     apply (simp add: assms)
    apply (rule ends_mono [OF tame_let_go [OF tame_ensureClient assms]])
     apply (rule ends_andThen, erule ends_mono [OF tame_let_go [OF call]])
      apply (simp_all add: keep_warm_def orch_defs ends_def)
    done
qed

lemma destroyed_is_let_go: "0 < n \<Longrightarrow> ends (destroy_attempts env sid n err) (\<lambda>_. let_go sid) (\<lambda>_ _. False) w"
proof (induction n arbitrary: err w)
  case (Suc n)
  have f: "ends (andThen (forget_warm sid) m) Q (\<lambda>_ _. False) v"
    if "\<And>u. let_go sid u \<Longrightarrow> ends m Q (\<lambda>_ _. False) u" for m and Q :: "string option \<Rightarrow> 's manager_state \<Rightarrow> bool" and v
    by (rule ends_andThen, rule ends_mono [OF forget_lets_go [where E = "\<lambda>_ _. False"]]) (use that in auto)
  show ?case
    unfolding destroy_attempts.simps
    apply (intro ends_inspect ends_option ends_ret ends_catch ends_andThen)
     apply (simp add: let_go_def)
    apply (rule ends_mono [OF call_any])
     apply (rule ends_andThen, rule ends_mono [OF forget_lets_go])
      apply (erule ends_ret)
     apply assumption
    apply (rule f)
    apply (intro ends_if ends_bind)
     apply (erule ends_ret)
    apply (rule ends_mono [OF resume_let_go], assumption)
     apply (auto intro!: Suc.IH ends_ret split: if_splits)
    done
qed simp

context session_state_store
begin

lemma dehydration_keeps_state:
  assumes "mv_store env = Some so" "mv_disk env = ld" "gentle stored w" "first_call_spares_dir ld sid w"
  shows "ends (dehydrateManaged env sid reason) (\<lambda>_. safe sid True)
    (\<lambda>_. safe sid (stored (mg_disk w) sid)) w"
proof -
  let ?b = "stored (mg_disk w) sid"
  have s: "safe sid ?b w" using assms(3) by (simp add: safe_def)
  have weak: "safe sid (?b \<or> c) v \<Longrightarrow> safe sid ?b v" for c v by (simp add: safe_def)
  have remove: "ends (ignoring (on_disk (ld_remove ld sid))) (\<lambda>_. safe sid True) (\<lambda>_. safe sid ?b) v"
    if "safe sid True v" for v
    using remove_keeps [of sid "mg_disk v"] that
    by (cases "ld_remove ld sid (mg_disk v)")
       (auto simp: ignoring_def on_disk_def try_catch_def ret_def ends_def safe_def gentle_def split: outcome.splits)
  show ?thesis
    unfolding dehydrateManaged_def assms(1,2) option.case
    apply (rule ends_option)
     apply (intro ends_bind)
     apply (rule ends_mono [OF checkpoint_prepared [OF assms(1,2) s assms(4)]])
      apply (rule ends_bind, rule ends_mono [OF steadyD [OF steady_destroy]], assumption)
       apply (rule ends_bind, rule ends_mono [OF store_attempts_end], assumption)
        apply (simp add: DEHYDRATE_STORE_MAX_RETRIES_def)
       apply (intro ends_option ends_ret ends_if ends_throw remove)
         apply (simp_all add: weak ends_throw s)
    done
qed

end

lemma ends_conj: "ends m Q E w \<Longrightarrow> ends m Q' E' w \<Longrightarrow> ends m (\<lambda>x v. Q x v \<and> Q' x v) (\<lambda>e v. E e v \<and> E' e v) w"
  by (auto simp: ends_def split: prod.splits outcome.splits)

lemma dehydrated_is_let_go: "ends (dehydrateManaged env sid reason) (\<lambda>_. let_go sid) (\<lambda>_ _. True) w"
proof -
  have gone: "ends (store_attempts so sid reason n err) (\<lambda>_. let_go sid) (\<lambda>_. let_go sid) v"
    if "let_go sid v" for so n err v
    by (rule tame_let_go [OF tame_store_attempts that])
  have remove: "ends (ignoring (on_disk m)) (\<lambda>_. let_go sid) (\<lambda>_ _. True) v" if "let_go sid v" for m v
    using that by (auto simp: ignoring_def on_disk_def try_catch_def ret_def ends_def let_go_def warm_of_def
        split: prod.splits outcome.splits)
  show ?thesis
    unfolding dehydrateManaged_def
    apply (rule ends_option)
     apply (rule ends_bind_any, rule ends_bind)
     apply (rule ends_mono [OF destroyed_is_let_go])
       apply (simp add: DESTROY_MAX_RETRIES_def)
      apply (intro ends_option ends_ret ends_bind)
       apply assumption
      apply (rule ends_mono [OF gone], assumption)
       apply (intro ends_option ends_ret ends_if ends_throw remove)
         apply (simp_all add: ends_throw)
    done
qed


text \<open>The store and the disk of \<open>session-store.ts\<close> keep the contract.\<close>

definition fs_stored :: "'a store_state \<Rightarrow> string \<Rightarrow> bool" where
  "fs_stored s sid \<longleftrightarrow> ss_archives s sid \<noteq> None"

lemma writing_keeps_archive: "writing senv sid s v \<Longrightarrow> ss_archives s sid = Some y \<Longrightarrow> \<exists>y. ss_archives v sid = Some y"
  by (auto simp: writing_def archive_kept_or_fresh_def fs_stored_def)

interpretation fs: session_state_store "fs_store senv" "fs_disk senv" fs_stored for senv :: "'a store_env"
proof unfold_locales
  fix sid reason and s :: "'a store_state"
  show "ends (so_dehydrate (fs_store senv) sid reason) (\<lambda>_ v. fs_stored v sid) (\<lambda>_ v. fs_stored s sid \<longrightarrow> fs_stored v sid) s"
    unfolding fs_store_def session_store.simps
    by (rule ends_mono [OF ends_dehydrate]) (auto simp: fs_stored_def removal_failed_def dest: writing_keeps_archive)
  show "ends (so_checkpoint (fs_store senv) sid)
      (\<lambda>_ v. (ld_exists (fs_disk senv) s sid \<longrightarrow> fs_stored v sid) \<and> (fs_stored s sid \<longrightarrow> fs_stored v sid))
      (\<lambda>_ v. fs_stored s sid \<longrightarrow> fs_stored v sid) s"
    unfolding fs_store_def session_store.simps
    by (rule ends_mono [OF ends_checkpoint]) (auto simp: fs_stored_def fs_disk_def dest: writing_keeps_archive)
  show "ends (so_hydrate (fs_store senv) sid) (\<lambda>_ v. fs_stored v sid \<and> ld_exists (fs_disk senv) v sid)
      (\<lambda>_ v. fs_stored s sid \<longrightarrow> fs_stored v sid) s"
    unfolding fs_store_def session_store.simps
    by (rule ends_mono [OF ends_hydrate]) (auto simp: fs_stored_def fs_disk_def other_dirs_kept_def installed_plain_def)
  show "ends (so_exists (fs_store senv) sid) (\<lambda>b v. b = fs_stored s sid \<and> v = s) (\<lambda>_ v. v = s) s"
    by (simp add: fs_store_def store_exists_def fs_stored_def ends_def orch_defs split: option.split)
  show "ends (ld_remove (fs_disk senv) sid) (\<lambda>_ v. fs_stored v = fs_stored s) (\<lambda>_ v. fs_stored v = fs_stored s) s"
    unfolding fs_disk_def local_disk.simps by (rule ends_remove_dir) (auto simp: fs_stored_def fun_eq_iff)
qed



subsection \<open>Bounded retries\<close>

lemma resume_calls:
  "at_most destroys 0 (resumeForDestroy env sid)" "at_most archives 0 (resumeForDestroy env sid)"
  "at_most resumes 1 (resumeForDestroy env sid)"
proof -
  have c: "at_most resumes 1 (call_runtime c)" for c :: manager_call
    unfolding call_runtime_def
    by (rule at_most_weaken [OF at_most_andThen [OF at_most_log at_most_answer [where k = 0]]]) simp
  have "at_most resumes (0 + (1 + 0) + 0) (try_catch (andThen (ensureClient env) (andThen (call_runtime d)
      (andThen (inspect (\<lambda>w. keep_warm sid (f w))) (ret True)))) (\<lambda>_. ret False))" for d f
    by (intro at_most_catch at_most_andThen c none_rules none_ensureClient) (simp_all add: call_kinds)
  then show "at_most resumes 1 (resumeForDestroy env sid)"
    unfolding resumeForDestroy_def by (intro at_most_inspect at_most_if at_most_ret) simp
qed (unfold resumeForDestroy_def, (intro none_rules none_ensureClient; simp add: call_kinds)+)

lemma destroy_calls:
  "at_most destroys n (destroy_attempts env sid n err)" (is ?d)
  "at_most archives 0 (destroy_attempts env sid n err)" (is ?a)
  "at_most resumes (n - 1) (destroy_attempts env sid n err)" (is ?r)
proof -
  show ?d
  proof (induction n arbitrary: err)
    case (Suc n)
    have c: "at_most destroys (1 + 0) (andThen (call_runtime c) (andThen (forget_warm sid) (ret err)))" for c :: manager_call
      by (intro at_most_andThen none_rules, unfold call_runtime_def,
          rule at_most_weaken [OF at_most_andThen [OF at_most_log at_most_answer [where k = 0]]]) simp
    have h: "at_most destroys (0 + n) (andThen (forget_warm sid) (if b then ret (Some e) else
        bind (resumeForDestroy env sid) (\<lambda>again. if again then destroy_attempts env sid n (Some e) else ret (Some e))))"
      for b e
      by (intro at_most_andThen none_warm at_most_if at_most_ret,
          rule at_most_weaken [OF at_most_bind [OF resume_calls(1)]])
         (auto intro: at_most_if Suc.IH at_most_ret)
    show ?case
      using at_most_catch [OF c h] by (auto intro!: at_most_inspect at_most_option at_most_ret)
  qed (simp add: at_most_ret)
  show ?a
  proof (induction n arbitrary: err)
    case (Suc n)
    show ?case unfolding destroy_attempts.simps
      by (intro none_rules resume_calls Suc.IH) (simp_all add: call_kinds)
  qed (simp add: at_most_ret)
  show ?r
  proof (induction n arbitrary: err)
    case (Suc n)
    have c: "at_most resumes 0 (andThen (call_runtime (DestroySession k sid)) (andThen (forget_warm sid) (ret err)))" for k
      by (intro none_rules) (simp add: call_kinds)
    have h: "at_most resumes (0 + n) (andThen (forget_warm sid) (if n = 0 \<or> b then ret (Some e) else
        bind (resumeForDestroy env sid) (\<lambda>again. if again then destroy_attempts env sid n (Some e) else ret (Some e))))"
      for b e
      by (intro at_most_andThen none_warm at_most_if at_most_ret,
          rule at_most_weaken [OF at_most_bind [OF resume_calls(3), where j = "n - 1"]])
         (auto intro: at_most_if Suc.IH [simplified] at_most_ret)
    show ?case
      using at_most_catch [OF c h] by (auto intro!: at_most_inspect at_most_option at_most_ret)
  qed (simp add: at_most_ret)
qed

lemma store_calls:
  "at_most archives n (store_attempts so sid reason n err)"
  "at_most destroys 0 (store_attempts so sid reason n err)" "at_most resumes 0 (store_attempts so sid reason n err)"
proof -
  show "at_most archives n (store_attempts so sid reason n err)"
  proof (induction n arbitrary: err)
    case (Suc n)
    have c: "at_most archives (1 + 0) (andThen (call_store c m) (ret None))" for c :: manager_call and m :: "('s, unit, unit) prog"
      by (intro at_most_andThen at_most_ret, unfold call_store_def,
          rule at_most_weaken [OF at_most_andThen [OF at_most_log at_most_on_disk [where k = 0]]]) simp
    show ?case using at_most_catch [OF c Suc.IH] by simp
  qed (simp add: at_most_ret)
  show "at_most destroys 0 (store_attempts so sid reason n err)"
    by (induction n arbitrary: err) (auto intro!: none_rules simp: call_kinds)
  show "at_most resumes 0 (store_attempts so sid reason n err)"
    by (induction n arbitrary: err) (auto intro!: none_rules simp: call_kinds)
qed

lemma prepare_calls:
  "(\<And>c. \<not> P (StoreCheckpoint c)) \<Longrightarrow> (\<And>c. \<not> P (SnapshotSession c)) \<Longrightarrow> at_most P 0 (preDehydrateCheckpoint env sid)"
  unfolding preDehydrateCheckpoint_def snapshotForCheckpoint_def by (intro none_rules)

lemma dehydrate_calls:
  fixes env :: "'s manager_env"
  assumes "at_most P 0 (preDehydrateCheckpoint env sid)" "\<And>err. at_most P i (destroy_attempts env sid DESTROY_MAX_RETRIES err)"
    "\<And>(so :: 's session_store) err. at_most P j (store_attempts so sid reason DEHYDRATE_STORE_MAX_RETRIES err)"
  shows "at_most P (i + j) (dehydrateManaged env sid reason)"
proof -
  have "at_most P (0 + (i + (j + 0))) (bind (preDehydrateCheckpoint env sid) (\<lambda>checkpointPrepared.
      bind (destroy_attempts env sid DESTROY_MAX_RETRIES None) (\<lambda>destroyError.
        case mv_store env of None \<Rightarrow> ret () | Some so \<Rightarrow>
            bind (store_attempts so sid reason DEHYDRATE_STORE_MAX_RETRIES None) (\<lambda>storeError.
              case storeError of None \<Rightarrow> ret () | Some e \<Rightarrow>
                  if destroyError = None \<and> checkpointPrepared \<and> isMissingDehydrateSnapshotError e
                  then ignoring (on_disk (ld_remove (mv_disk env) sid))
                  else throw (not_persisted sid reason destroyError e)))))"
    by (intro at_most_bind assms at_most_option at_most_ret none_rules)
  then show ?thesis
    unfolding dehydrateManaged_def by (intro at_most_option at_most_throw) simp
qed

text \<open>
  C22: Whatever fails and however it fails, dehydrating a session destroys it at most three times,
  resumes it for another try at most twice, and hands it to the store at most three times.
\<close>

theorem dehydration_is_bounded:
  "at_most destroys 3 (dehydrateManaged env sid reason) \<and> at_most resumes 2 (dehydrateManaged env sid reason) \<and>
   at_most archives 3 (dehydrateManaged env sid reason)"
proof (intro conjI)
  show "at_most destroys 3 (dehydrateManaged env sid reason)"
    using dehydrate_calls [OF prepare_calls destroy_calls(1) store_calls(2)]
    by (simp add: call_kinds DESTROY_MAX_RETRIES_def)
  show "at_most resumes 2 (dehydrateManaged env sid reason)"
    using dehydrate_calls [OF prepare_calls destroy_calls(3) store_calls(3)]
    by (simp add: call_kinds DESTROY_MAX_RETRIES_def)
  show "at_most archives 3 (dehydrateManaged env sid reason)"
    using dehydrate_calls [OF prepare_calls destroy_calls(2) store_calls(1)]
    by (simp add: call_kinds DEHYDRATE_STORE_MAX_RETRIES_def)
qed

text \<open>
  A successful retry does not clear the error of the attempt before: the caller is told that the
  destruction failed, and the checkpoint taken before is not used as a fallback.
\<close>

theorem destroy_error_is_sticky:
  "ends (destroy_attempts env sid n (Some e)) (\<lambda>r _. r \<noteq> None) (\<lambda>_ _. True) w"
proof (induction n arbitrary: e w)
  case (Suc n)
  have skip: "ends (andThen m p) Q E v" if "\<And>u. ends p Q E u" "\<And>f u. E f u" for m and p :: "('a, 'b) managerp" and Q E v
    by (rule ends_andThen, rule ends_mono [OF ends_any]) (use that in auto)
  show ?case
    unfolding destroy_attempts.simps
    by (intro ends_inspect ends_option ends_catch skip ends_if ends_bind_any ends_ret Suc.IH) simp_all
qed (simp add: ends_ret)

subsection \<open>Codex sessions and the Copilot client\<close>

lemma none_made_bindI:
  assumes "none_made P m w" "ends m (\<lambda>x. none_made P (f x)) (\<lambda>_ _. True) w"
  shows "none_made P (bind m f) w"
proof -
  obtain cs where c: "mg_calls (snd (m w)) = mg_calls w @ cs" "filter P cs = []"
    using assms(1) by (auto simp: none_made_def)
  show ?thesis
  proof (cases "m w")
    case (Pair r v)
    show ?thesis
    proof (cases r)
      case (Ret x)
      then obtain ds where "mg_calls (snd (f x v)) = mg_calls v @ ds" "filter P ds = []"
        using assms(2) Pair by (auto simp: none_made_def ends_def)
      then show ?thesis using c Pair Ret unfolding none_made_def
        by (intro exI [of _ "cs @ ds"]) (simp add: bind_def)
    qed (use c Pair in \<open>auto simp: none_made_def bind_def intro!: exI [of _ cs]\<close>)
  qed
qed

lemma none_made_inspect: "none_made P (f w) w \<Longrightarrow> none_made P (inspect f) w"
  by (simp add: none_made_def inspect_def)

lemma none_made_if:
  "(b \<Longrightarrow> none_made P m w) \<Longrightarrow> (\<not> b \<Longrightarrow> none_made P n w) \<Longrightarrow> none_made P (if b then m else n) w"
  by simp

text \<open>Not live, or live in the Codex runtime.\<close>

definition codex_only :: "string \<Rightarrow> 's manager_state \<Rightarrow> bool" where
  "codex_only sid w \<longleftrightarrow> (\<forall>m. warm_of w sid = Some m \<longrightarrow> mn_runtimeKind m = CodexKind)"

lemma tame_codex_only: "tame sid m \<Longrightarrow> codex_only sid w \<Longrightarrow> ends m (\<lambda>_. codex_only sid) (\<lambda>_. codex_only sid) w"
  unfolding tame_def codex_only_def ends_def
  by (auto split: prod.splits outcome.splits) (metis option.simps(3) snd_conv)+

lemma codex_destroy:
  "codex_only sid w \<Longrightarrow> none_made to_copilot (destroy_attempts env sid n err) w"
proof (cases n)
  case (Suc k)
  assume c: "codex_only sid w"
  have "at_most to_copilot 0 (case warm_of w sid of None \<Rightarrow> ret err
     | Some m \<Rightarrow> try_catch (andThen (call_runtime (DestroySession (mn_runtimeKind m) sid)) (andThen (forget_warm sid) (ret err)))
         (\<lambda>e. andThen (forget_warm sid) (if k = 0 \<or> mn_runtimeKind m \<noteq> CopilotKind then ret (Some e)
            else bind (resumeForDestroy env sid) (\<lambda>again. if again then destroy_attempts env sid k (Some e) else ret (Some e)))))"
    by (intro none_rules) (use c in \<open>simp_all add: codex_only_def call_kinds\<close>)
  then show ?thesis unfolding Suc destroy_attempts.simps by (intro none_made_inspect none_madeI)
qed (simp add: none_madeI at_most_ret)

lemma codex_dehydrate:
  assumes "codex_only sid w"
  shows "none_made to_copilot (dehydrateManaged env sid reason) w"
proof -
  have rest: "at_most to_copilot 0 (case mv_store env of None \<Rightarrow> ret ()
      | Some so \<Rightarrow> bind (store_attempts so sid reason DEHYDRATE_STORE_MAX_RETRIES None) (\<lambda>storeError.
          case storeError of None \<Rightarrow> ret () | Some e \<Rightarrow>
              if d = None \<and> p \<and> isMissingDehydrateSnapshotError e then ignoring (on_disk (ld_remove (mv_disk env) sid))
              else throw (not_persisted sid reason d e)))" for d p
  proof -
    have "at_most to_copilot 0 (store_attempts so sid reason n err)" for so :: "'a session_store" and n err
      by (induction n arbitrary: err) (auto intro!: none_rules simp: call_kinds)
    then show ?thesis by (intro none_rules)
  qed
  show ?thesis
    unfolding dehydrateManaged_def
    apply (cases "validateSessionId sid")
     apply (simp_all only: option.case none_madeI [OF at_most_throw])
    apply (rule none_made_bindI [OF none_madeI [OF prepare_calls]])
      apply (simp_all add: call_kinds)[2]
    apply (rule ends_mono [OF tame_codex_only [OF tame_preDehydrate assms]])
     apply (erule none_made_bindI [OF codex_destroy])
     apply (rule ends_mono [OF ends_any])
      apply (rule none_madeI, rule rest)
     apply simp_all
    done
qed

text \<open>What the Codex branch does with a session that is not warm.\<close>

lemma codex_obtain_stays:
  "at_most to_copilot 0 discard \<Longrightarrow> at_most to_copilot 0 create \<Longrightarrow> at_most to_copilot 0 resume \<Longrightarrow>
     at_most to_copilot 0 hydrate \<Longrightarrow>
     at_most to_copilot 0 (obtain_runtime_session usable discard create resume hydrate stored ask fresh sid a b turnIndex)"
  unfolding obtain_runtime_session_def by (intro none_rules)

lemma codexBranch_stays:
  assumes "codex_only sid w"
  shows "none_made to_copilot (codexBranch env sid turnIndex fresh rq p) w"
proof -
  have obtain_new: "at_most to_copilot 0 (bind (probe_stored env sid) (\<lambda>stored. inspect (\<lambda>w.
      andThen (obtain_runtime_session usable (cond (l w stored)
             (andThen (ignoring (call_runtime (CodexDelete h sid)))
               (case mv_store env of None \<Rightarrow> ret ()
                | Some so \<Rightarrow> cond stored (ignoring (call_store (StoreDelete sid) (so_delete so sid))))))
           (call_runtime (CodexCreate h sid x)) (call_runtime (CodexResume h sid x))
           (hydrate_store env sid) stored stored fresh sid e f turnIndex)
         (andThen (keep_warm sid b) (ret b)))))" for usable l h x e f b
    by (intro none_rules none_probe codex_obtain_stays none_hydrate) (simp_all add: call_kinds)
  have client: "ends (ensureCodexClient h) (\<lambda>_. codex_only sid) (\<lambda>_ _. True) w" for h
    by (rule ends_mono [OF tame_codex_only [OF tame_ensureCodexClient assms]]) simp_all
  show ?thesis
    unfolding codexBranch_def Let_def
    apply (cases "validateSessionId sid")
     apply (simp_all only: option.case none_madeI [OF at_most_throw])
    apply (rule none_made_if, rule none_madeI [OF at_most_throw])
    apply (unfold andThen_def [of "ensureCodexClient _"])
    apply (rule none_made_bindI [OF none_madeI [OF none_ensureCodexClient]])
    apply (rule ends_mono [OF client])
     apply (intro none_made_inspect none_madeI at_most_option obtain_new at_most_if none_andThen none_rules)
         apply (simp_all add: codex_only_def call_kinds)
    done
qed

lemma recycle_stays:
  assumes "codex_only sid w" "rs_kind rq = CodexKind"
  shows "none_made to_copilot (recycleIfDrifted env sid turnIndex rq) w"
  unfolding recycleIfDrifted_def recycleWarmSession_def Let_def
  by (intro none_made_inspect none_madeI none_rules)
     (use assms in \<open>auto simp: codex_only_def call_kinds split: if_splits\<close>)

lemma codex_request_resolved: "requested_session env w sid c0 = Some rq \<Longrightarrow> rs_kind rq = CodexKind \<Longrightarrow> rs_resolved rq \<noteq> None"
  by (auto simp: requested_session_def sessionRequest_def Let_def split: sum.splits if_splits)

lemma tame_recycle: "tame sid (recycleIfDrifted env sid turnIndex rq)"
  unfolding recycleIfDrifted_def recycleWarmSession_def Let_def
  by (intro tame_rules tame_purge)

lemma acquire_stays:
  assumes "codex_only sid w" "rs_kind rq = CodexKind" "rs_resolved rq = Some p"
  shows "none_made to_copilot (acquire env sid turnIndex rq) w"
  unfolding acquire_def assms(2,3) prod.case runtime_kind.case option.case
  by (rule none_made_bindI [OF recycle_stays [OF assms(1,2)]],
      rule ends_mono [OF tame_codex_only [OF tame_recycle assms(1)]], erule codexBranch_stays, simp)

lemma codex_get_stays:
  assumes "codex_only sid w" "\<And>rq. requested_session env w sid c0 = Some rq \<Longrightarrow> rs_kind rq = CodexKind"
  shows "none_made to_copilot (getOrCreateManaged env sid c0 turnIndex) w"
proof (cases rule: getOrCreateManaged_cases [of env sid c0 turnIndex w])
  case (acquired rq c)
  then obtain p where p: "rs_resolved rq = Some p" using codex_request_resolved assms(2) by blast
  have "none_made to_copilot (acquire env sid turnIndex rq) (w\<lparr>mg_configs := c\<rparr>)"
    by (rule acquire_stays [OF _ assms(2) p]) (use assms(1) acquired(1) in \<open>simp_all add: codex_only_def warm_of_def\<close>)
  then show ?thesis by (simp add: none_made_def acquired(2))
qed (simp add: none_made_def)

text \<open>
  C21: A session on the Codex runtime never touches the Copilot client: for a session that is not warm or
  warm in the Codex runtime, neither obtaining it for any turn, when the model asked for is one of a Codex
  provider, nor dehydrating it, whatever fails, starts that client or makes a call of it.
\<close>

theorem codex_sessions_stay_off_copilot:
  assumes "\<And>m. warm_of w sid = Some m \<Longrightarrow> mn_runtimeKind m = CodexKind"
    and "\<And>rq. requested_session env w sid c0 = Some rq \<Longrightarrow> rs_kind rq = CodexKind"
  shows "(\<exists>cs. mg_calls (snd (getOrCreateManaged env sid c0 turnIndex w)) = mg_calls w @ cs \<and> filter to_copilot cs = []) \<and>
    (\<exists>cs. mg_calls (snd (dehydrateManaged env sid reason w)) = mg_calls w @ cs \<and> filter to_copilot cs = [])"
  using codex_get_stays [of sid w env c0 turnIndex] codex_dehydrate [of sid w env reason] assms
  unfolding codex_only_def none_made_def by blast

theorem codex_sessions_stay_off_copilot_witness:
  "(\<exists>cs. mg_calls (snd (getOrCreateManaged (plain_worker (Some codex_registry)) ''s1'' (blank_config\<lparr>c_model := Some ''g''\<rparr>) (Some 2)
       (warm_manager CodexKind ''x:g''))) = mg_calls (warm_manager CodexKind ''x:g'') @ cs \<and> filter to_copilot cs = []) \<and>
   (\<exists>cs. mg_calls (snd (dehydrateManaged (plain_worker (Some codex_registry)) ''s1'' ''idle''
       (warm_manager CodexKind ''x:g''))) = mg_calls (warm_manager CodexKind ''x:g'') @ cs \<and> filter to_copilot cs = [])"
  by (rule codex_sessions_stay_off_copilot) (use sample_requests(2) in \<open>auto dest: warm_kind\<close>)

end
