(* ===== verification/SessionTools.thy ===== *)
theory SessionTools
  imports SessionManager
begin

text \<open>
  The tools that a session is offered: where the application's end and the built-in ones begin.
\<close>

subsection \<open>The tools of a session\<close>

definition built_in_tools :: "'s manager_env \<Rightarrow> string option \<Rightarrow> tool_def list" where
  "built_in_tools env ident = mv_systemTools env @ subAgentToolsFor env ident @ mv_factTools env ident @ mv_inspectTools env ident"

lemma first_of_each_snoc:
  "first_of_each f (xs @ [x]) = (if f x \<in> f ` set (first_of_each f xs) then first_of_each f xs else first_of_each f xs @ [x])"
  by (simp add: first_of_each_def)

lemma first_of_each_Nil: "first_of_each f [] = []"
  by (simp add: first_of_each_def)

lemma first_of_each_images: "f ` set (first_of_each f xs) = f ` set xs"
  by (induction xs rule: rev_induct) (auto simp: first_of_each_snoc first_of_each_Nil)

lemma first_of_each_distinct: "distinct (map f (first_of_each f xs))"
  by (induction xs rule: rev_induct) (auto simp: first_of_each_snoc first_of_each_Nil)

lemma first_of_each_filter:
  "first_of_each f (filter (\<lambda>x. P (f x)) xs) = filter (\<lambda>x. P (f x)) (first_of_each f xs)"
proof (induction xs rule: rev_induct)
  case (snoc x xs)
  have "f x \<in> f ` set (filter (\<lambda>x. P (f x)) (first_of_each f xs)) \<longleftrightarrow> f x \<in> f ` set (first_of_each f xs)" if "P (f x)"
    using that by auto
  then show ?case using snoc by (auto simp: first_of_each_snoc)
qed (simp add: first_of_each_Nil)

lemma first_of_each_id: "distinct (map f xs) \<Longrightarrow> first_of_each f xs = xs"
proof (induction xs rule: rev_induct)
  case (snoc x xs)
  then show ?case by (auto simp: first_of_each_snoc)
qed (simp add: first_of_each_Nil)

lemma first_of_each_seen: "f ` set ys \<subseteq> f ` set xs \<Longrightarrow> first_of_each f (xs @ ys) = first_of_each f xs"
proof (induction ys rule: rev_induct)
  case (snoc y ys)
  then have "f y \<in> f ` set (first_of_each f (xs @ ys))" by (auto simp: first_of_each_images)
  with snoc show ?case by (simp add: append_assoc [symmetric] first_of_each_snoc del: append_assoc)
qed simp

lemma allTools_split:
  "allTools env ident userTools = filter (\<lambda>t. tl_name t \<notin> systemToolNames env ident) userTools @ built_in_tools env ident"
proof -
  have own: "filter (\<lambda>t. tl_name t \<notin> systemToolNames env ident) (mv_factTools env ident @ mv_inspectTools env ident) = []"
    by (auto simp: systemToolNames_def filter_empty_conv)
  show ?thesis
    using own by (simp add: allTools_def persistentSessionTools_def built_in_tools_def)
qed

lemma user_tools_once:
  "filter (\<lambda>t. tl_name t \<notin> systemToolNames env ident)
     (first_of_each tl_name (persistentSessionTools env ident (first_of_each tl_name rs) @ rs)) =
   filter (\<lambda>t. tl_name t \<notin> systemToolNames env ident) (first_of_each tl_name rs)"
proof -
  let ?P = "\<lambda>n. n \<notin> systemToolNames env ident"
  let ?own = "filter (\<lambda>t. ?P (tl_name t)) (first_of_each tl_name rs)"
  have none: "filter (\<lambda>t. ?P (tl_name t)) (mv_factTools env ident @ mv_inspectTools env ident) = []"
    by (auto simp: systemToolNames_def filter_empty_conv)
  have "filter (\<lambda>t. ?P (tl_name t)) (first_of_each tl_name (persistentSessionTools env ident (first_of_each tl_name rs) @ rs)) =
      first_of_each tl_name (?own @ filter (\<lambda>t. ?P (tl_name t)) rs)"
    using none by (simp add: first_of_each_filter [where f = tl_name and P = ?P, symmetric] persistentSessionTools_def)
  also have "\<dots> = first_of_each tl_name ?own"
  proof (rule first_of_each_seen)
    have "tl_name ` set ?own = {n \<in> tl_name ` set (first_of_each tl_name rs). ?P n}" by auto
    then show "tl_name ` set (filter (\<lambda>t. ?P (tl_name t)) rs) \<subseteq> tl_name ` set ?own"
      by (auto simp: first_of_each_images)
  qed
  also have "\<dots> = ?own"
    by (rule first_of_each_id)
       (simp add: first_of_each_filter [where f = tl_name and P = ?P, symmetric] first_of_each_distinct)
  finally show ?thesis .
qed

definition asked_tools :: "'s manager_env \<Rightarrow> session_config \<Rightarrow> session_config" where
  "asked_tools env c = (if inheritedToolNames env c \<noteq> [] then c\<lparr>c_toolNames := Some (inheritedToolNames env c)\<rparr> else c)"

lemma request_tools:
  "sc_tools (rs_copilot (sessionRequest env stored c model)) =
     allTools env (c_agentIdentity c) (resolveTools env stored (asked_tools env c))"
  "xc_tools (rs_codex (sessionRequest env stored c model)) = sc_tools (rs_copilot (sessionRequest env stored c model))"
  "c_tools (rs_config (sessionRequest env stored c model)) =
     Some (persistentSessionTools env (c_agentIdentity c) (resolveTools env stored (asked_tools env c)))"
  by (simp_all add: sessionRequest_def effectiveConfig_def with_tools_def asked_tools_def session_config.defs Let_def)

text \<open>
  C31: The tools offered to a session are unambiguous and lasting: both runtimes get the same list, which
  ends with all the built-in tools; before them come tools of the application with different names, none
  of them the name of a built-in tool; and a later request that finds the configuration the first one
  stored is offered the same tools again.
\<close>

theorem offered_tools_are_unambiguous:
  "(let rq = sessionRequest env stored c model; tools = sc_tools (rs_copilot rq);
        built_in = built_in_tools env (c_agentIdentity c) in
    xc_tools (rs_codex rq) = tools \<and>
    (\<exists>own. tools = own @ built_in \<and> distinct (map tl_name own) \<and> tl_name ` set own \<inter> tl_name ` set built_in = {})) \<and>
   sc_tools (rs_copilot (sessionRequest env (Some (rs_config (sessionRequest env None c model))) c model')) =
     sc_tools (rs_copilot (sessionRequest env None c model))"
proof -
  have names: "tl_name ` set (built_in_tools env i) = systemToolNames env i" for i
    by (simp add: built_in_tools_def systemToolNames_def image_Un)
  have own: "distinct (map tl_name (filter (\<lambda>t. tl_name t \<notin> S) (resolveTools env stored c')))" for S c'
    unfolding resolveTools_def
    by (simp add: first_of_each_filter [where f = tl_name and P = "\<lambda>n. n \<notin> S", symmetric] first_of_each_distinct)
  have again: "allTools env i (resolveTools env (Some (rs_config rq)) c') = allTools env i (resolveTools env None c')"
    if "c_tools (rs_config rq) = Some (persistentSessionTools env i (resolveTools env None c'))" for i c' and rq :: session_request
    using that by (simp add: allTools_split resolveTools_def user_tools_once)
  have apart: "tl_name ` {t \<in> T. tl_name t \<notin> systemToolNames env i} \<inter> systemToolNames env i = {}" for i T
    by auto
  show ?thesis
    unfolding request_tools(1,2) again [OF request_tools(3)] Let_def
    by (simp add: allTools_split names own apart)
qed

end
