(* ===== verification/CodexTurn.thy ===== *)
theory CodexTurn
  imports CodexState
begin

text \<open>
  The turns of the Codex runtime (\<open>packages/sdk/src/codex-runtime.ts\<close>): one client multiplexes the
  sessions of a home over one app-server process, and a queue lets one turn run at a time. A call or a
  message of the process is an atomic step up to its next \<open>await\<close>; what is awaited is a phase or a list of
  the state. The handshake with a new process is one step: what reaches the client between the start of the
  process and its answer, the loss of the process included, is not modelled. Token usage, message texts
  and deltas are left out, and so is the copying of the transcript (CodexState).
\<close>

subsection \<open>State\<close>

datatype ack = Accepted | Refused string

text \<open>\<open>PerTurnState\<close>, with the promise that \<open>send\<close> returned and the one its queued function awaits.\<close>

record per_turn =
  pt_session :: nat
  pt_prompt :: string
  pt_aborted :: bool
  pt_terminal :: bool
  pt_respTurnId :: "string option"
  pt_ack :: "ack option"
  pt_completed :: bool

datatype codex_event =
    SessionError string
  | TurnStart "string option"
  | TurnEnd "string option"
  | SessionIdle

text \<open>
  \<open>CodexRuntimeSession\<close>; \<open>cx_turnResolver\<close> is the turn whose promise the stored function resolves, and
  \<open>cx_opened\<close> counts the turns whose lifecycle was opened.
\<close>

record codex_session =
  cx_sessionId :: string
  cx_threadId :: string
  cx_activeTurnId :: "string option"
  cx_turnResolver :: "nat option"
  cx_turnEndFired :: bool
  cx_currentTurn :: "nat option"
  cx_attachedGeneration :: nat
  cx_listening :: bool
  cx_events :: "codex_event list"
  cx_opened :: nat

text \<open>Where the queued function of the running turn waits.\<close>

datatype turn_phase =
    Connecting bool
  | Resuming nat
  | Attached
  | Starting nat
  | Completing

datatype codex_request =
    ThreadResume nat string
  | ThreadDelete nat string
  | ThreadUnsubscribe nat string
  | TurnStartRequest nat string string
  | TurnInterrupt nat string string

text \<open>Closings that wait for an answer, and the progress of \<open>stop\<close>.\<close>

datatype closing = Disconnecting nat | Deleting string "nat option"

datatype stop_phase =
    NotStopping
  | ClosingTransport "nat list" "nat option"
  | Draining "nat list" "nat option"
  | Stopped

record codex_client =
  cc_transport :: "nat option"
  cc_nextTransport :: nat
  cc_initialized :: bool
  cc_generation :: nat
  cc_sessions :: "(string \<times> nat) list"
  cc_session :: "nat \<Rightarrow> codex_session"
  cc_nextSession :: nat
  cc_turn :: "nat \<Rightarrow> per_turn"
  cc_nextTurn :: nat
  cc_queue :: "nat list"
  cc_running :: "(nat \<times> turn_phase) option"
  cc_closing :: "closing list"
  cc_stop :: stop_phase
  cc_requests :: "codex_request list"

definition no_turn :: per_turn where
  "no_turn = \<lparr> pt_session = 0, pt_prompt = [], pt_aborted = False, pt_terminal = False, pt_respTurnId = None,
     pt_ack = None, pt_completed = False \<rparr>"

definition no_session :: codex_session where
  "no_session = \<lparr> cx_sessionId = [], cx_threadId = [], cx_activeTurnId = None, cx_turnResolver = None,
     cx_turnEndFired = False, cx_currentTurn = None, cx_attachedGeneration = 0, cx_listening = True, cx_events = [],
     cx_opened = 0 \<rparr>"

definition new_codex_client :: codex_client where
  "new_codex_client = \<lparr> cc_transport = None, cc_nextTransport = 0, cc_initialized = False, cc_generation = 0,
     cc_sessions = [], cc_session = (\<lambda>_. no_session), cc_nextSession = 0, cc_turn = (\<lambda>_. no_turn), cc_nextTurn = 0,
     cc_queue = [], cc_running = None, cc_closing = [], cc_stop = NotStopping, cc_requests = [] \<rparr>"

definition on_session :: "nat \<Rightarrow> (codex_session \<Rightarrow> codex_session) \<Rightarrow> codex_client \<Rightarrow> codex_client" where
  "on_session h f c = c\<lparr>cc_session := (cc_session c)(h := f (cc_session c h))\<rparr>"

definition on_turn :: "nat \<Rightarrow> (per_turn \<Rightarrow> per_turn) \<Rightarrow> codex_client \<Rightarrow> codex_client" where
  "on_turn t f c = c\<lparr>cc_turn := (cc_turn c)(t := f (cc_turn c t))\<rparr>"

definition request :: "codex_request \<Rightarrow> codex_client \<Rightarrow> codex_client" where
  "request r c = c\<lparr>cc_requests := cc_requests c @ [r]\<rparr>"

text \<open>What is emitted after the listeners are gone is emitted all the same, and not heard.\<close>

definition emitEvent :: "nat \<Rightarrow> codex_event \<Rightarrow> codex_client \<Rightarrow> codex_client" where
  "emitEvent h e = on_session h (\<lambda>s. s\<lparr>cx_events := cx_events s @ [e]\<rparr>)"

definition settleAck :: "nat \<Rightarrow> ack \<Rightarrow> codex_client \<Rightarrow> codex_client" where
  "settleAck t a = on_turn t (\<lambda>p. p\<lparr>pt_ack := (case pt_ack p of None \<Rightarrow> Some a | Some b \<Rightarrow> Some b)\<rparr>)"

subsection \<open>The end of a turn\<close>

definition markTurnTerminal :: "bool \<Rightarrow> nat \<Rightarrow> codex_client \<Rightarrow> codex_client" where
  "markTurnTerminal emitEnd h c =
     (let s = cc_session c h;
          already = cx_turnEndFired s;
          c1 = (case cx_currentTurn s of None \<Rightarrow> c | Some t \<Rightarrow> on_turn t (\<lambda>p. p\<lparr>pt_terminal := True\<rparr>) c);
          c2 = (if emitEnd \<and> \<not> already then emitEvent h (TurnEnd (cx_activeTurnId s)) c1 else c1);
          c3 = (if \<not> already then emitEvent h SessionIdle c2 else c2);
          c4 = on_session h (\<lambda>s. s\<lparr>cx_activeTurnId := None, cx_turnEndFired := True, cx_turnResolver := None\<rparr>) c3
      in case cx_turnResolver s of None \<Rightarrow> c4 | Some t \<Rightarrow> on_turn t (\<lambda>p. p\<lparr>pt_completed := True\<rparr>) c4)"

definition handleTransportClosed :: "nat \<Rightarrow> codex_client \<Rightarrow> codex_client" where
  "handleTransportClosed h c =
     markTurnTerminal False h (emitEvent h (SessionError ''Codex app-server transport closed'') c)"

text \<open>The session forgets the turn if it is still its current one.\<close>

definition release_turn :: "nat \<Rightarrow> codex_client \<Rightarrow> codex_client" where
  "release_turn t c = on_session (pt_session (cc_turn c t))
     (\<lambda>s. if cx_currentTurn s = Some t then s\<lparr>cx_currentTurn := None\<rparr> else s) c"

subsection \<open>Sending\<close>

definition STOPPED_ERROR :: string where
  "STOPPED_ERROR = ''Codex runtime stopped''"

definition sendTurn :: "nat \<Rightarrow> string \<Rightarrow> codex_client \<Rightarrow> (string + nat) \<times> codex_client" where
  "sendTurn h prompt c =
     (if cc_stop c \<noteq> NotStopping then (Inl STOPPED_ERROR, c)
      else (let t = cc_nextTurn c in
        (Inr t, on_session h (\<lambda>s. s\<lparr>cx_currentTurn := Some t\<rparr>)
           (c\<lparr>cc_nextTurn := t + 1, cc_turn := (cc_turn c)(t := no_turn\<lparr>pt_session := h, pt_prompt := prompt\<rparr>),
              cc_queue := cc_queue c @ [t]\<rparr>))))"

text \<open>The queued function of the turn \<open>t\<close> from its start to its first \<open>await\<close>.\<close>

definition run_turn :: "nat \<Rightarrow> codex_client \<Rightarrow> codex_client" where
  "run_turn t c =
     (let p = cc_turn c t; h = pt_session p in
      if pt_aborted p \<and> pt_terminal p then settleAck t Accepted (release_turn t c)
      else
        (let c1 = on_session h (\<lambda>s. s\<lparr>cx_turnEndFired := False, cx_opened := cx_opened s + 1\<rparr>) c in
         if pt_aborted p then settleAck t Accepted (release_turn t (markTurnTerminal False h c1))
         else c1\<lparr>cc_running := Some (t,
           if cc_transport c \<noteq> None \<and> cc_generation c = cx_attachedGeneration (cc_session c h) then Attached
           else Connecting (cc_transport c \<noteq> None))\<rparr>))"

definition startNext :: "codex_client \<Rightarrow> codex_client option" where
  "startNext c = (case (cc_running c, cc_queue c) of
       (None, t # ts) \<Rightarrow> Some (run_turn t (c\<lparr>cc_queue := ts\<rparr>))
     | _ \<Rightarrow> None)"

definition failTurn :: "string \<Rightarrow> nat \<Rightarrow> codex_client \<Rightarrow> codex_client" where
  "failTurn message t c =
     (let h = pt_session (cc_turn c t) in
      (settleAck t (Refused message) (markTurnTerminal False h (emitEvent h (SessionError message) c)))\<lparr>cc_running := None\<rparr>)"

definition NOT_CONNECTED :: string where
  "NOT_CONNECTED = ''Codex transport is not connected''"

text \<open>
  \<open>_ensureInitialized\<close>, when there is no initialized process: a new one is started and greeted, or that
  fails with a message.
\<close>

definition ensureInitialized :: "string option \<Rightarrow> codex_client \<Rightarrow> string option \<times> codex_client" where
  "ensureInitialized failure c =
     (if cc_initialized c \<and> cc_transport c \<noteq> None then (None, c)
      else case failure of
        Some e \<Rightarrow> (Some e, c\<lparr>cc_initialized := False, cc_transport := None\<rparr>)
      | None \<Rightarrow> (None, c\<lparr>cc_transport := Some (default_to (cc_transport c) (cc_nextTransport c)),
          cc_nextTransport := (if cc_transport c = None then cc_nextTransport c + 1 else cc_nextTransport c),
          cc_initialized := True, cc_generation := cc_generation c + 1\<rparr>))"

definition connectTurn :: "string option \<Rightarrow> codex_client \<Rightarrow> codex_client option" where
  "connectTurn failure c = (case cc_running c of
       Some (t, Connecting present) \<Rightarrow>
         (let h = pt_session (cc_turn c t) in
          case ensureInitialized failure c of
            (Some e, c1) \<Rightarrow> Some (failTurn e t c1)
          | (None, c1) \<Rightarrow>
              if cx_attachedGeneration (cc_session c1 h) = cc_generation c1 \<and> present
              then Some (c1\<lparr>cc_running := Some (t, Attached)\<rparr>)
              else (case cc_transport c1 of
                  None \<Rightarrow> Some (failTurn NOT_CONNECTED t c1)
                | Some n \<Rightarrow> Some ((request (ThreadResume n (cx_threadId (cc_session c1 h))) c1)
                    \<lparr>cc_running := Some (t, Resuming n)\<rparr>)))
     | _ \<Rightarrow> None)"

definition resume_failed :: "codex_session \<Rightarrow> string \<Rightarrow> string" where
  "resume_failed s e = ''Codex thread/resume failed for session '' @ cx_sessionId s @ '' thread '' @ cx_threadId s @
     '': '' @ e"

definition threadResumed :: "string option \<Rightarrow> codex_client \<Rightarrow> codex_client option" where
  "threadResumed failure c = (case cc_running c of
       Some (t, Resuming n) \<Rightarrow>
         (let h = pt_session (cc_turn c t) in
          case failure of
            Some e \<Rightarrow> Some (failTurn (resume_failed (cc_session c h) e) t c)
          | None \<Rightarrow> Some ((on_session h (\<lambda>s. s\<lparr>cx_attachedGeneration := cc_generation c\<rparr>) c)
              \<lparr>cc_running := Some (t, Attached)\<rparr>))
     | _ \<Rightarrow> None)"

definition launchTurn :: "codex_client \<Rightarrow> codex_client option" where
  "launchTurn c = (case cc_running c of
       Some (t, Attached) \<Rightarrow>
         (let h = pt_session (cc_turn c t) in
          case cc_transport c of
            None \<Rightarrow> Some (failTurn NOT_CONNECTED t c)
          | Some n \<Rightarrow> Some ((request (TurnStartRequest n (cx_threadId (cc_session c h)) (pt_prompt (cc_turn c t)))
              (on_session h (\<lambda>s. s\<lparr>cx_turnResolver := Some t\<rparr>) c))\<lparr>cc_running := Some (t, Starting n)\<rparr>))
     | _ \<Rightarrow> None)"

text \<open>
  The process accepted the turn: its id is kept with the turn, and with the session while the turn is
  still the session's own and open; a turn aborted meanwhile is interrupted.
\<close>

definition acknowledgeTurn :: "nat \<Rightarrow> nat \<Rightarrow> string option \<Rightarrow> codex_client \<Rightarrow> codex_client" where
  "acknowledgeTurn n t i c =
     (let p = cc_turn c t; h = pt_session p; s = cc_session c h;
          c1 = (if truthy i then on_turn t (\<lambda>p. p\<lparr>pt_respTurnId := i\<rparr>) c else c);
          c2 = (if truthy i \<and> cx_currentTurn s = Some t \<and> \<not> pt_terminal p \<and> \<not> pt_aborted p
                then on_session h (\<lambda>s. s\<lparr>cx_activeTurnId := i\<rparr>) c1 else c1);
          c3 = settleAck t Accepted c2;
          known = (if truthy i then i else pt_respTurnId p)
      in if pt_aborted p \<and> truthy known then request (TurnInterrupt n (cx_threadId s) (or_str known [])) c3 else c3)"

text \<open>The answer to \<open>turn/start\<close>: an error, or the id of the turn if it has one.\<close>

definition turnStarted :: "string + string option \<Rightarrow> codex_client \<Rightarrow> codex_client option" where
  "turnStarted response c = (case cc_running c of
       Some (t, Starting n) \<Rightarrow>
         (case response of
            Inl e \<Rightarrow> Some (failTurn e t c)
          | Inr i \<Rightarrow> Some ((acknowledgeTurn n t i c)\<lparr>cc_running := Some (t, Completing)\<rparr>))
     | _ \<Rightarrow> None)"

definition turnFinished :: "codex_client \<Rightarrow> codex_client option" where
  "turnFinished c = (case cc_running c of
       Some (t, Completing) \<Rightarrow>
         if pt_completed (cc_turn c t) then Some ((release_turn t c)\<lparr>cc_running := None\<rparr>) else None
     | _ \<Rightarrow> None)"

subsection \<open>Aborting and closing\<close>

definition abort :: "nat \<Rightarrow> codex_client \<Rightarrow> codex_client" where
  "abort h c =
     (let s = cc_session c h;
          c1 = (case cx_currentTurn s of None \<Rightarrow> c | Some t \<Rightarrow> on_turn t (\<lambda>p. p\<lparr>pt_aborted := True\<rparr>) c);
          turnId = (case cx_activeTurnId s of Some i \<Rightarrow> Some i
            | None \<Rightarrow> (case cx_currentTurn s of None \<Rightarrow> None | Some t \<Rightarrow> pt_respTurnId (cc_turn c t)))
      in if (case cx_currentTurn s of None \<Rightarrow> False | Some t \<Rightarrow> pt_terminal (cc_turn c t)) then c1
         else (case cc_transport c of
             None \<Rightarrow> c1
           | Some n \<Rightarrow> if truthy turnId then request (TurnInterrupt n (cx_threadId s) (or_str turnId [])) c1 else c1))"

definition settleActiveTurnForClose :: "string \<Rightarrow> nat \<Rightarrow> codex_client \<Rightarrow> codex_client" where
  "settleActiveTurnForClose reason h c = (case cx_currentTurn (cc_session c h) of
       None \<Rightarrow> c
     | Some t \<Rightarrow>
         (let c1 = settleAck t (Refused reason) (on_turn t (\<lambda>p. p\<lparr>pt_aborted := True\<rparr>) c) in
          if pt_terminal (cc_turn c t) then c1
          else markTurnTerminal False h (emitEvent h (SessionError reason) c1)))"

definition teardown :: "nat \<Rightarrow> codex_client \<Rightarrow> codex_client" where
  "teardown h = on_session h (\<lambda>s. s\<lparr>cx_listening := False\<rparr>)"

definition isCurrentSession :: "nat \<Rightarrow> codex_client \<Rightarrow> bool" where
  "isCurrentSession h c \<longleftrightarrow> map_of (cc_sessions c) (cx_sessionId (cc_session c h)) = Some h"

definition unregisterSession :: "nat \<Rightarrow> codex_client \<Rightarrow> codex_client" where
  "unregisterSession h c =
     (if isCurrentSession h c then c\<lparr>cc_sessions := AList.delete (cx_sessionId (cc_session c h)) (cc_sessions c)\<rparr> else c)"

definition finishDisconnect :: "nat \<Rightarrow> codex_client \<Rightarrow> codex_client" where
  "finishDisconnect h c = teardown h (unregisterSession h c)"

text \<open>The copying of the transcript may throw; then, and without a process, nothing is awaited.\<close>

definition disconnect :: "bool \<Rightarrow> nat \<Rightarrow> codex_client \<Rightarrow> codex_client" where
  "disconnect snapshotFails h c =
     (let c1 = settleActiveTurnForClose (''Codex session '' @ cx_sessionId (cc_session c h) @ '' disconnected'') h (abort h c)
      in case (if isCurrentSession h c1 \<and> snapshotFails then None else cc_transport c1) of
           None \<Rightarrow> finishDisconnect h c1
         | Some n \<Rightarrow> (request (ThreadUnsubscribe n (cx_threadId (cc_session c h))) c1)
             \<lparr>cc_closing := cc_closing c1 @ [Disconnecting h]\<rparr>)"

definition finishDelete :: "string \<Rightarrow> nat option \<Rightarrow> codex_client \<Rightarrow> codex_client" where
  "finishDelete sid active c = (case active of
       None \<Rightarrow> c
     | Some h \<Rightarrow> (teardown h c)\<lparr>cc_sessions := AList.delete sid (cc_sessions c)\<rparr>)"

text \<open>\<open>stored\<close> is the thread that the marker on disk names.\<close>

definition deleteCodexSession :: "string option \<Rightarrow> string \<Rightarrow> codex_client \<Rightarrow> codex_client" where
  "deleteCodexSession stored sid c =
     (let active = map_of (cc_sessions c) sid;
          c1 = (case active of None \<Rightarrow> c
            | Some h \<Rightarrow> settleActiveTurnForClose (''Codex session '' @ sid @ '' deleted'') h (abort h c));
          thread = (case active of Some h \<Rightarrow> Some (cx_threadId (cc_session c h)) | None \<Rightarrow> stored)
      in case (cc_transport c1, keep_truthy thread) of
           (Some n, Some i) \<Rightarrow> (request (ThreadDelete n i) c1)\<lparr>cc_closing := cc_closing c1 @ [Deleting sid active]\<rparr>
         | _ \<Rightarrow> finishDelete sid active c1)"

definition closed_answer :: "closing \<Rightarrow> codex_client \<Rightarrow> codex_client" where
  "closed_answer k c =
     (let c1 = c\<lparr>cc_closing := remove1 k (cc_closing c)\<rparr> in
      case k of Disconnecting h \<Rightarrow> finishDisconnect h c1 | Deleting sid active \<Rightarrow> finishDelete sid active c1)"

definition registerSession :: "string \<Rightarrow> string \<Rightarrow> codex_client \<Rightarrow> codex_client" where
  "registerSession sid thread c =
     (let h = cc_nextSession c in
      c\<lparr>cc_nextSession := h + 1, cc_sessions := AList.update sid h (cc_sessions c),
        cc_session := (cc_session c)(h := no_session\<lparr>cx_sessionId := sid, cx_threadId := thread,
          cx_attachedGeneration := cc_generation c\<rparr>)\<rparr>)"

subsection \<open>Messages of the process\<close>

datatype note_kind = TurnStartedNote | TurnCompletedNote | ErrorNote string | OtherNote

record notification =
  nt_kind :: note_kind
  nt_threadId :: "string option"
  nt_turnId :: "string option"
  nt_turn_id :: "string option"

definition live_sessions :: "codex_client \<Rightarrow> nat list" where
  "live_sessions c = filter (\<lambda>h. cx_activeTurnId (cc_session c h) \<noteq> None) (map snd (cc_sessions c))"

definition sole_live :: "codex_client \<Rightarrow> nat option" where
  "sole_live c = (case live_sessions c of [h] \<Rightarrow> Some h | _ \<Rightarrow> None)"

definition session_of_thread :: "string \<Rightarrow> codex_client \<Rightarrow> nat option" where
  "session_of_thread i c = find (\<lambda>h. cx_threadId (cc_session c h) = i) (map snd (cc_sessions c))"

definition session_of_turn :: "string \<Rightarrow> codex_client \<Rightarrow> nat option" where
  "session_of_turn i c = find (\<lambda>h. cx_activeTurnId (cc_session c h) = Some i) (map snd (cc_sessions c))"

definition routeNotification :: "notification \<Rightarrow> codex_client \<Rightarrow> nat option" where
  "routeNotification n c =
     (let turnId = or_else (nt_turnId n) (nt_turn_id n) in
      if truthy (nt_threadId n) then session_of_thread (or_str (nt_threadId n) []) c
      else if truthy turnId then session_of_turn (or_str turnId []) c
      else sole_live c)"

definition routeServerRequest :: "string option \<Rightarrow> string option \<Rightarrow> codex_client \<Rightarrow> nat option" where
  "routeServerRequest threadId turnId c =
     (if truthy threadId then session_of_thread (or_str threadId []) c
      else case (if truthy turnId then session_of_turn (or_str turnId []) c else None) of
        Some h \<Rightarrow> Some h
      | None \<Rightarrow> sole_live c)"

definition handleNotification :: "notification \<Rightarrow> nat \<Rightarrow> codex_client \<Rightarrow> codex_client" where
  "handleNotification n h c = (case nt_kind n of
       TurnStartedNote \<Rightarrow>
         (let i = or_else (nt_turn_id n) (nt_turnId n) in
          emitEvent h (TurnStart i) (on_session h (\<lambda>s. s\<lparr>cx_activeTurnId := i\<rparr>) c))
     | TurnCompletedNote \<Rightarrow> markTurnTerminal True h c
     | ErrorNote m \<Rightarrow> markTurnTerminal False h (emitEvent h (SessionError m) c)
     | OtherNote \<Rightarrow> c)"

definition notified :: "nat \<Rightarrow> notification \<Rightarrow> codex_client \<Rightarrow> codex_client" where
  "notified transport n c =
     (if cc_transport c \<noteq> Some transport then c
      else case routeNotification n c of None \<Rightarrow> c | Some h \<Rightarrow> handleNotification n h c)"

definition transportClosed :: "nat \<Rightarrow> codex_client \<Rightarrow> codex_client" where
  "transportClosed n c =
     (if cc_transport c \<noteq> Some n then c
      else fold handleTransportClosed (map snd (cc_sessions c)) (c\<lparr>cc_initialized := False, cc_transport := None\<rparr>))"

subsection \<open>Tool calls\<close>

record tool_result =
  to_text :: string
  to_success :: bool
  to_resultType :: "string option"
  to_error :: "string option"

text \<open>What a handler returned, \<open>None\<close> for \<open>undefined\<close>.\<close>

definition normalizeToolResult :: "json option \<Rightarrow> tool_result" where
  "normalizeToolResult raw =
     (let plain = (\<lambda>s. \<lparr> to_text = s, to_success = True, to_resultType = None, to_error = None \<rparr>) in
      case raw of
        None \<Rightarrow> plain []
      | Some JNull \<Rightarrow> plain []
      | Some (JStr s) \<Rightarrow> plain s
      | Some (JObj fs) \<Rightarrow>
          (case str_of (map_of fs ''textResultForLlm'') of
             None \<Rightarrow> plain (stringify (JObj fs))
           | Some s \<Rightarrow>
               (let resultType = str_of (map_of fs ''resultType'') in
                \<lparr> to_text = s, to_success = (resultType = Some ''success''), to_resultType = keep_truthy resultType,
                  to_error = keep_truthy (str_of (map_of fs ''error'')) \<rparr>))
      | Some j \<Rightarrow> plain (stringify j))"

datatype server_answer = ToolAnswer bool string | ErrorAnswer int string

text \<open>
  A request of the process, for the session \<open>h\<close>: the tools of a session are its handlers by name, each of
  which returns or throws.
\<close>

type_synonym tool_table = "nat \<Rightarrow> string \<Rightarrow> (json \<Rightarrow> string + json option) option"

definition handleServerRequest :: "tool_table \<Rightarrow> nat \<Rightarrow> string \<Rightarrow> string \<Rightarrow> json \<Rightarrow> server_answer" where
  "handleServerRequest tools h method tool args =
     (if method = ''item/tool/call'' then
        (case tools h tool of
           None \<Rightarrow> ToolAnswer False (''Unknown tool: '' @ tool)
         | Some handler \<Rightarrow>
             (case handler args of
                Inl e \<Rightarrow> ToolAnswer False e
              | Inr raw \<Rightarrow> (let r = normalizeToolResult raw in ToolAnswer (to_success r) (to_text r))))
      else ErrorAnswer (- 32601) (''Method '' @ method @ '' not implemented by PilotSwarm Codex runtime''))"

definition serverRequest ::
  "tool_table \<Rightarrow> codex_client \<Rightarrow> string option \<Rightarrow> string option \<Rightarrow> string \<Rightarrow> string \<Rightarrow> json \<Rightarrow> server_answer" where
  "serverRequest tools c threadId turnId method tool args =
     (case routeServerRequest threadId turnId c of
        None \<Rightarrow> ErrorAnswer (- 32601) (''PilotSwarm cannot route server-request '' @ method @ '': no matching session'')
      | Some h \<Rightarrow> handleServerRequest tools h method tool args)"

subsection \<open>Stopping\<close>

definition prepareForClientStop :: "nat \<Rightarrow> codex_client \<Rightarrow> codex_client" where
  "prepareForClientStop h c = (case cx_currentTurn (cc_session c h) of
       None \<Rightarrow> c
     | Some t \<Rightarrow> settleAck t (Refused STOPPED_ERROR) (on_turn t (\<lambda>p. p\<lparr>pt_aborted := True\<rparr>) c))"

definition settleForClientStop :: "nat \<Rightarrow> codex_client \<Rightarrow> codex_client" where
  "settleForClientStop h c = (case cx_currentTurn (cc_session c h) of
       None \<Rightarrow> c
     | Some t \<Rightarrow> if pt_terminal (cc_turn c t) then c else handleTransportClosed h c)"

definition stopBegin :: "codex_client \<Rightarrow> codex_client" where
  "stopBegin c =
     (if cc_stop c \<noteq> NotStopping then c
      else (let hs = map snd (cc_sessions c) in
        (fold prepareForClientStop hs c)\<lparr>cc_stop := ClosingTransport hs (cc_transport c)\<rparr>))"

definition stopSettle :: "codex_client \<Rightarrow> codex_client option" where
  "stopSettle c = (case cc_stop c of
       ClosingTransport hs n \<Rightarrow> Some ((fold settleForClientStop hs c)\<lparr>cc_stop := Draining hs n\<rparr>)
     | _ \<Rightarrow> None)"

definition stopEnd :: "codex_client \<Rightarrow> codex_client option" where
  "stopEnd c = (case cc_stop c of
       Draining hs n \<Rightarrow>
         if cc_running c = None \<and> cc_queue c = []
         then Some ((fold teardown hs c)\<lparr>cc_sessions := [], cc_initialized := False,
           cc_transport := (if cc_transport c = n then None else cc_transport c), cc_stop := Stopped\<rparr>)
         else None
     | _ \<Rightarrow> None)"

subsection \<open>Steps\<close>

text \<open>
  One step of the client: a call of its user, an answer or a message of the process, or the queue going
  on. A new session is registered by \<open>createSession\<close> or \<open>resumeSession\<close> once there is a process.
\<close>

inductive codex_step :: "codex_client \<Rightarrow> codex_client \<Rightarrow> bool" where
  register: "codex_step c (registerSession sid thread c')" if "ensureInitialized None c = (None, c')" for c c' sid thread
| sent: "codex_step c (snd (sendTurn h prompt c))" if "h < cc_nextSession c" for c h prompt
| start: "codex_step c c'" if "startNext c = Some c'" for c c'
| connect: "codex_step c c'" if "connectTurn failure c = Some c'" for c c' failure
| resumed: "codex_step c c'" if "threadResumed failure c = Some c'" for c c' failure
| launch: "codex_step c c'" if "launchTurn c = Some c'" for c c'
| started: "codex_step c c'" if "turnStarted response c = Some c'" for c c' response
| finish: "codex_step c c'" if "turnFinished c = Some c'" for c c'
| aborted: "codex_step c (abort h c)" if "h < cc_nextSession c" for c h
| disconnected: "codex_step c (disconnect snapshotFails h c)" if "h < cc_nextSession c" for c h snapshotFails
| deleted: "codex_step c (deleteCodexSession stored sid c)" for c stored sid
| closed: "codex_step c (closed_answer k c)" if "k \<in> set (cc_closing c)" for c k
| notification: "codex_step c (notified n m c)" for c n m
| transport: "codex_step c (transportClosed n c)" for c n
| stop: "codex_step c (stopBegin c)" for c
| settle: "codex_step c c'" if "stopSettle c = Some c'" for c c'
| stopped: "codex_step c c'" if "stopEnd c = Some c'" for c c'

inductive_cases codex_stepE: "codex_step c c'"

text \<open>The states a client gets into.\<close>

inductive codex_reachable :: "codex_client \<Rightarrow> bool" where
  fresh: "codex_reachable new_codex_client"
| more: "codex_reachable c'" if "codex_reachable c" "codex_step c c'" for c c'

end
