(* ===== verification/CodexTurnGuarantees.thy ===== *)
theory CodexTurnGuarantees
  imports CodexTurn
begin

text \<open>
  What holds of the turns of a Codex client in every state it gets into: every turn that is opened ends
  with one \<open>session.idle\<close>, no \<open>send\<close> stays unanswered, what ends a turn lets the queue go on - and the two
  situations in which the queue is blocked for good.
\<close>

subsection \<open>The primitives\<close>

lemmas turn_primitives = on_session_def on_turn_def request_def emitEvent_def settleAck_def

lemma on_session_simps [simp]:
  "cc_transport (on_session h f c) = cc_transport c" "cc_initialized (on_session h f c) = cc_initialized c"
  "cc_generation (on_session h f c) = cc_generation c" "cc_sessions (on_session h f c) = cc_sessions c"
  "cc_nextSession (on_session h f c) = cc_nextSession c" "cc_turn (on_session h f c) = cc_turn c"
  "cc_nextTurn (on_session h f c) = cc_nextTurn c" "cc_queue (on_session h f c) = cc_queue c"
  "cc_running (on_session h f c) = cc_running c" "cc_closing (on_session h f c) = cc_closing c"
  "cc_stop (on_session h f c) = cc_stop c" "cc_requests (on_session h f c) = cc_requests c"
  "cc_session (on_session h f c) x = (if x = h then f (cc_session c h) else cc_session c x)"
  by (simp_all add: on_session_def)

lemma on_turn_simps [simp]:
  "cc_transport (on_turn t g c) = cc_transport c" "cc_initialized (on_turn t g c) = cc_initialized c"
  "cc_generation (on_turn t g c) = cc_generation c" "cc_sessions (on_turn t g c) = cc_sessions c"
  "cc_nextSession (on_turn t g c) = cc_nextSession c" "cc_session (on_turn t g c) = cc_session c"
  "cc_nextTurn (on_turn t g c) = cc_nextTurn c" "cc_queue (on_turn t g c) = cc_queue c"
  "cc_running (on_turn t g c) = cc_running c" "cc_closing (on_turn t g c) = cc_closing c"
  "cc_stop (on_turn t g c) = cc_stop c" "cc_requests (on_turn t g c) = cc_requests c"
  "cc_turn (on_turn t g c) u = (if u = t then g (cc_turn c t) else cc_turn c u)"
  by (simp_all add: on_turn_def)

lemma request_simps [simp]:
  "cc_transport (request r c) = cc_transport c" "cc_initialized (request r c) = cc_initialized c"
  "cc_generation (request r c) = cc_generation c" "cc_sessions (request r c) = cc_sessions c"
  "cc_nextSession (request r c) = cc_nextSession c" "cc_session (request r c) = cc_session c"
  "cc_nextTurn (request r c) = cc_nextTurn c" "cc_queue (request r c) = cc_queue c"
  "cc_running (request r c) = cc_running c" "cc_closing (request r c) = cc_closing c"
  "cc_stop (request r c) = cc_stop c" "cc_turn (request r c) = cc_turn c"
  "cc_requests (request r c) = cc_requests c @ [r]"
  by (simp_all add: request_def)

definition ended_turn :: "nat \<Rightarrow> codex_client \<Rightarrow> nat \<Rightarrow> per_turn" where
  "ended_turn h c t = (cc_turn c t)\<lparr>
     pt_terminal := pt_terminal (cc_turn c t) \<or> cx_currentTurn (cc_session c h) = Some t,
     pt_completed := pt_completed (cc_turn c t) \<or> cx_turnResolver (cc_session c h) = Some t\<rparr>"

definition ended_session :: "bool \<Rightarrow> codex_session \<Rightarrow> codex_session" where
  "ended_session emitEnd s = s\<lparr>cx_activeTurnId := None, cx_turnEndFired := True, cx_turnResolver := None,
     cx_events := cx_events s @ (if cx_turnEndFired s then []
       else (if emitEnd then [TurnEnd (cx_activeTurnId s)] else []) @ [SessionIdle])\<rparr>"

lemma markTurnTerminal_simps [simp]:
  "cc_transport (markTurnTerminal e h c) = cc_transport c" "cc_initialized (markTurnTerminal e h c) = cc_initialized c"
  "cc_generation (markTurnTerminal e h c) = cc_generation c" "cc_sessions (markTurnTerminal e h c) = cc_sessions c"
  "cc_nextSession (markTurnTerminal e h c) = cc_nextSession c" "cc_nextTurn (markTurnTerminal e h c) = cc_nextTurn c"
  "cc_queue (markTurnTerminal e h c) = cc_queue c" "cc_running (markTurnTerminal e h c) = cc_running c"
  "cc_closing (markTurnTerminal e h c) = cc_closing c" "cc_stop (markTurnTerminal e h c) = cc_stop c"
  "cc_requests (markTurnTerminal e h c) = cc_requests c"
  "cc_turn (markTurnTerminal e h c) t = ended_turn h c t"
  "cc_session (markTurnTerminal e h c) x = (if x = h then ended_session e (cc_session c h) else cc_session c x)"
  by (simp_all add: markTurnTerminal_def Let_def emitEvent_def ended_turn_def ended_session_def split: option.split)

subsection \<open>The invariant\<close>

definition idles :: "codex_session \<Rightarrow> nat" where
  "idles s = count_list (cx_events s) SessionIdle"

definition launched :: "turn_phase \<Rightarrow> bool" where
  "launched ph = (case ph of Starting _ \<Rightarrow> True | Completing \<Rightarrow> True | _ \<Rightarrow> False)"

lemma launched_simps [simp]:
  "launched (Starting n)" "launched Completing" "\<not> launched (Connecting b)" "\<not> launched (Resuming n)" "\<not> launched Attached"
  by (simp_all add: launched_def)

text \<open>The function that a session stores resolves the promise of the running turn, if that is still open.\<close>

definition resolver_ok :: "codex_client \<Rightarrow> bool" where
  "resolver_ok c \<longleftrightarrow> (\<forall>h t. cx_turnResolver (cc_session c h) = Some t \<longrightarrow>
     pt_session (cc_turn c t) = h \<and> \<not> pt_completed (cc_turn c t) \<and> (\<exists>ph. cc_running c = Some (t, ph) \<and> launched ph))"

definition running_ok :: "codex_client \<Rightarrow> bool" where
  "running_ok c \<longleftrightarrow> (\<forall>t ph. cc_running c = Some (t, ph) \<longrightarrow> t < cc_nextTurn c \<and> t \<notin> set (cc_queue c) \<and>
     (if launched ph then pt_completed (cc_turn c t) \<or> cx_turnResolver (cc_session c (pt_session (cc_turn c t))) = Some t
      else \<not> pt_completed (cc_turn c t)) \<and>
     (pt_completed (cc_turn c t) \<longrightarrow> cx_turnEndFired (cc_session c (pt_session (cc_turn c t)))))"

definition queue_ok :: "codex_client \<Rightarrow> bool" where
  "queue_ok c \<longleftrightarrow> distinct (cc_queue c) \<and> (\<forall>t \<in> set (cc_queue c). t < cc_nextTurn c \<and> \<not> pt_completed (cc_turn c t)) \<and>
     (\<forall>t < cc_nextTurn c. pt_session (cc_turn c t) < cc_nextSession c)"

text \<open>The idles of a session are as many as its opened turns, but for one before the first or one to come.\<close>

definition idle_ok :: "codex_session \<Rightarrow> bool" where
  "idle_ok s \<longleftrightarrow> cx_opened s \<le> idles s + (if cx_turnEndFired s then 0 else 1) \<and>
     idles s + (if cx_turnEndFired s then 0 else 1) \<le> cx_opened s + 1"

definition idles_ok :: "codex_client \<Rightarrow> bool" where
  "idles_ok c \<longleftrightarrow> (\<forall>h. idle_ok (cc_session c h) \<and> (cx_turnEndFired (cc_session c h) \<or> cx_opened (cc_session c h) = 0 \<or>
     (\<exists>t ph. cc_running c = Some (t, ph) \<and> pt_session (cc_turn c t) = h)))"

definition acks_ok :: "codex_client \<Rightarrow> bool" where
  "acks_ok c \<longleftrightarrow> (\<forall>t < cc_nextTurn c. t \<in> set (cc_queue c) \<or> (\<exists>ph. cc_running c = Some (t, ph) \<and> ph \<noteq> Completing) \<or>
     pt_ack (cc_turn c t) \<noteq> None)"

definition turn_inv :: "codex_client \<Rightarrow> bool" where
  "turn_inv c \<longleftrightarrow> resolver_ok c \<and> running_ok c \<and> queue_ok c \<and> idles_ok c \<and> acks_ok c"

lemmas inv_defs = resolver_ok_def running_ok_def queue_ok_def idles_ok_def acks_ok_def

text \<open>A change that none of this depends on.\<close>

definition untouched :: "codex_client \<Rightarrow> codex_client \<Rightarrow> bool" where
  "untouched c d \<longleftrightarrow> cc_running d = cc_running c \<and> cc_queue d = cc_queue c \<and> cc_nextTurn d = cc_nextTurn c \<and>
     cc_nextSession d = cc_nextSession c \<and>
     (\<forall>t. pt_session (cc_turn d t) = pt_session (cc_turn c t) \<and> pt_completed (cc_turn d t) = pt_completed (cc_turn c t) \<and>
        (pt_ack (cc_turn c t) \<noteq> None \<longrightarrow> pt_ack (cc_turn d t) \<noteq> None)) \<and>
     (\<forall>h. cx_turnResolver (cc_session d h) = cx_turnResolver (cc_session c h) \<and>
        cx_turnEndFired (cc_session d h) = cx_turnEndFired (cc_session c h) \<and>
        cx_opened (cc_session d h) = cx_opened (cc_session c h) \<and> idles (cc_session d h) = idles (cc_session c h))"

lemma quiet_inv: "turn_inv c \<Longrightarrow> untouched c d \<Longrightarrow> turn_inv d"
  unfolding turn_inv_def inv_defs untouched_def idle_ok_def by auto

lemma quiet_trans: "untouched c d \<Longrightarrow> untouched d e \<Longrightarrow> untouched c e"
  unfolding untouched_def by auto

lemma quiet_refl [simp]: "untouched c c"
  by (simp add: untouched_def)

lemma quiet_primitives [simp]:
  "untouched c (request r d) = untouched c d"
  "e \<noteq> SessionIdle \<Longrightarrow> untouched c (emitEvent h e d) = untouched c d"
  "untouched c (teardown h d) = untouched c d"
  by (auto simp: untouched_def emitEvent_def idles_def teardown_def)

lemma resolverD:
  assumes "resolver_ok c" "cx_turnResolver (cc_session c h) = Some t"
  shows "pt_session (cc_turn c t) = h" "\<not> pt_completed (cc_turn c t)" "\<exists>ph. cc_running c = Some (t, ph) \<and> launched ph"
  using assms by (auto simp: resolver_ok_def)

lemma ended_idle: "idle_ok s \<Longrightarrow> idle_ok (ended_session e s)"
  by (auto simp: idle_ok_def ended_session_def idles_def)

lemma ended_simps [simp]:
  "pt_session (ended_turn h c t) = pt_session (cc_turn c t)" "pt_ack (ended_turn h c t) = pt_ack (cc_turn c t)"
  "pt_completed (ended_turn h c t) \<longleftrightarrow> pt_completed (cc_turn c t) \<or> cx_turnResolver (cc_session c h) = Some t"
  "pt_terminal (ended_turn h c t) \<longleftrightarrow> pt_terminal (cc_turn c t) \<or> cx_currentTurn (cc_session c h) = Some t"
  "pt_aborted (ended_turn h c t) = pt_aborted (cc_turn c t)" "pt_prompt (ended_turn h c t) = pt_prompt (cc_turn c t)"
  "pt_respTurnId (ended_turn h c t) = pt_respTurnId (cc_turn c t)"
  "cx_turnResolver (ended_session e s) = None" "cx_turnEndFired (ended_session e s)" "cx_opened (ended_session e s) = cx_opened s"
  "cx_currentTurn (ended_session e s) = cx_currentTurn s" "cx_activeTurnId (ended_session e s) = None"
  "cx_threadId (ended_session e s) = cx_threadId s" "cx_sessionId (ended_session e s) = cx_sessionId s"
  "cx_attachedGeneration (ended_session e s) = cx_attachedGeneration s" "cx_listening (ended_session e s) = cx_listening s"
  by (simp_all add: ended_turn_def ended_session_def)

lemma terminal_inv:
  assumes "turn_inv c"
  shows "turn_inv (markTurnTerminal e h c)"
proof -
  have r: "resolver_ok c" and u: "running_ok c" and q: "queue_ok c" and i: "idles_ok c" and a: "acks_ok c"
    using assms by (simp_all add: turn_inv_def)
  have "resolver_ok (markTurnTerminal e h c)"
    unfolding resolver_ok_def by (auto dest: resolverD [OF r] split: if_splits)
  moreover have "running_ok (markTurnTerminal e h c)"
    unfolding running_ok_def
    by (auto dest: resolverD [OF r] split: if_splits) (use u in \<open>auto simp: running_ok_def split: if_splits\<close>)
  moreover have "queue_ok (markTurnTerminal e h c)"
    unfolding queue_ok_def
    by (auto dest!: resolverD(3) [OF r]) (use q u in \<open>auto simp: running_ok_def queue_ok_def\<close>)
  moreover have "idles_ok (markTurnTerminal e h c)"
    using i by (auto simp: idles_ok_def ended_idle)
  moreover have "acks_ok (markTurnTerminal e h c)"
    using a by (auto simp: acks_ok_def)
  ultimately show ?thesis by (simp add: turn_inv_def)
qed

subsection \<open>What the steps are made of keeps the invariant\<close>

lemma quiet_settleAck: "untouched c d \<Longrightarrow> untouched c (settleAck t a d)"
  by (auto simp: untouched_def settleAck_def split: option.split)

lemma quiet_release: "untouched c d \<Longrightarrow> untouched c (release_turn t d)"
  by (auto simp: untouched_def release_turn_def idles_def)

lemma quiet_flags:
  "untouched c d \<Longrightarrow> untouched c (on_turn t (\<lambda>p. p\<lparr>pt_aborted := b\<rparr>) d)"
  "untouched c d \<Longrightarrow> untouched c (on_turn t (\<lambda>p. p\<lparr>pt_respTurnId := i\<rparr>) d)"
  "untouched c d \<Longrightarrow> untouched c (on_session h (\<lambda>s. s\<lparr>cx_activeTurnId := i\<rparr>) d)"
  "untouched c d \<Longrightarrow> untouched c (on_session h (\<lambda>s. s\<lparr>cx_attachedGeneration := g\<rparr>) d)"
  "untouched c d \<Longrightarrow> untouched c (d\<lparr>cc_closing := k\<rparr>)" "untouched c d \<Longrightarrow> untouched c (d\<lparr>cc_sessions := ss\<rparr>)"
  "untouched c d \<Longrightarrow> untouched c (d\<lparr>cc_stop := p\<rparr>)" "untouched c d \<Longrightarrow> untouched c (d\<lparr>cc_transport := n\<rparr>)"
  "untouched c d \<Longrightarrow> untouched c (d\<lparr>cc_initialized := b\<rparr>)"
  by (auto simp: untouched_def idles_def)

lemma quiet_abort: "untouched c (abort h c)"
  unfolding abort_def Let_def
  by (auto intro!: quiet_flags split: option.split)

lemma quiet_finish: "untouched c d \<Longrightarrow> untouched c (finishDisconnect h d)" "untouched c d \<Longrightarrow> untouched c (finishDelete sid a d)"
  unfolding finishDisconnect_def unregisterSession_def finishDelete_def
  by (auto intro!: quiet_flags split: option.split)

lemma quiet_ensure: "ensureInitialized f c = (r, d) \<Longrightarrow> untouched c d"
  by (auto simp: ensureInitialized_def untouched_def split: if_splits option.splits)

lemma closed_inv: "turn_inv c \<Longrightarrow> turn_inv (handleTransportClosed h c)"
  unfolding handleTransportClosed_def
  by (rule terminal_inv) (erule quiet_inv, simp)

lemma settle_inv:
  assumes "turn_inv c"
  shows "turn_inv (settleActiveTurnForClose m h c)"
proof (cases "cx_currentTurn (cc_session c h)")
  case (Some t)
  let ?c = "settleAck t (Refused m) (on_turn t (\<lambda>p. p\<lparr>pt_aborted := True\<rparr>) c)"
  have c: "turn_inv ?c"
    by (rule quiet_inv [OF assms]) (intro quiet_settleAck quiet_flags quiet_refl)
  moreover have "turn_inv (markTurnTerminal False h (emitEvent h (SessionError m) ?c))"
    by (rule terminal_inv, rule quiet_inv [OF c]) simp
  ultimately show ?thesis using Some by (simp add: settleActiveTurnForClose_def Let_def)
qed (simp add: settleActiveTurnForClose_def assms)

lemma fold_inv: "(\<And>x d. turn_inv d \<Longrightarrow> turn_inv (f x d)) \<Longrightarrow> turn_inv c \<Longrightarrow> turn_inv (fold f xs c)"
  by (induction xs arbitrary: c) auto

text \<open>The running turn ends.\<close>

lemma end_running:
  assumes "turn_inv c" "cc_running c = Some (t, ph)" "cx_turnEndFired (cc_session c (pt_session (cc_turn c t)))"
    "cx_turnResolver (cc_session c (pt_session (cc_turn c t))) \<noteq> Some t" "pt_ack (cc_turn c t) \<noteq> None"
  shows "turn_inv (c\<lparr>cc_running := None\<rparr>)"
proof -
  have r: "resolver_ok c" and u: "running_ok c" and q: "queue_ok c" and i: "idles_ok c" and a: "acks_ok c"
    using assms(1) by (simp_all add: turn_inv_def)
  have "cx_turnResolver (cc_session c x) = None" for x
  proof (rule ccontr)
    assume "cx_turnResolver (cc_session c x) \<noteq> None"
    then obtain v where v: "cx_turnResolver (cc_session c x) = Some v" by auto
    show False using resolverD [OF r v] v assms(2,4) by auto
  qed
  then have "resolver_ok (c\<lparr>cc_running := None\<rparr>)" by (simp add: resolver_ok_def)
  moreover have "acks_ok (c\<lparr>cc_running := None\<rparr>)"
    using a assms(2,5) by (fastforce simp: acks_ok_def)
  moreover have "idles_ok (c\<lparr>cc_running := None\<rparr>)"
    using i assms(2,3) by (auto simp: idles_ok_def)
  ultimately show ?thesis using q by (simp add: turn_inv_def running_ok_def queue_ok_def)
qed

lemma fail_inv:
  assumes "turn_inv c" "cc_running c = Some (t, ph)"
  shows "turn_inv (failTurn m t c)"
proof -
  let ?d = "settleAck t (Refused m) (markTurnTerminal False (pt_session (cc_turn c t))
    (emitEvent (pt_session (cc_turn c t)) (SessionError m) c))"
  have "turn_inv (emitEvent (pt_session (cc_turn c t)) (SessionError m) c)"
    by (rule quiet_inv [OF assms(1)]) simp
  then have "turn_inv ?d"
    by (rule quiet_inv [OF terminal_inv]) (rule quiet_settleAck [OF quiet_refl])
  then have "turn_inv (?d\<lparr>cc_running := None\<rparr>)"
    by (rule end_running) (auto simp: assms(2) settleAck_def emitEvent_def split: option.split)
  then show ?thesis by (simp add: failTurn_def Let_def)
qed

lemma phase_inv:
  assumes "turn_inv c" "cc_running c = Some (t, ph)" "\<not> launched ph" "\<not> launched ph'"
  shows "turn_inv (c\<lparr>cc_running := Some (t, ph')\<rparr>)"
  using assms unfolding turn_inv_def inv_defs
  by (auto simp: launched_def split: turn_phase.splits)

lemma open_inv:
  assumes "turn_inv c" "cc_running c = None" "cc_queue c = t # ts" "\<not> launched ph" "h = pt_session (cc_turn c t)"
  shows "turn_inv ((on_session h (\<lambda>s. s\<lparr>cx_turnEndFired := False, cx_opened := cx_opened s + 1\<rparr>) (c\<lparr>cc_queue := ts\<rparr>))
    \<lparr>cc_running := Some (t, ph)\<rparr>)"
proof -
  have r: "resolver_ok c" and q: "queue_ok c" and i: "idles_ok c" and a: "acks_ok c"
    using assms(1) by (simp_all add: turn_inv_def)
  let ?d = "(on_session h (\<lambda>s. s\<lparr>cx_turnEndFired := False, cx_opened := cx_opened s + 1\<rparr>) (c\<lparr>cc_queue := ts\<rparr>))
    \<lparr>cc_running := Some (t, ph)\<rparr>"
  have none: "cx_turnResolver (cc_session c x) = None" for x
    using resolverD(3) [OF r, of x] assms(2) by fastforce
  have "idle_ok ((cc_session c h)\<lparr>cx_turnEndFired := False, cx_opened := cx_opened (cc_session c h) + 1\<rparr>)"
    using i assms(2) by (auto simp: idles_ok_def idle_ok_def idles_def dest!: spec [of _ h])
  then have "idles_ok ?d"
    using i assms(2,5) by (auto simp: idles_ok_def)
  moreover have "resolver_ok ?d" by (simp add: resolver_ok_def none)
  moreover have "running_ok ?d" "queue_ok ?d"
    using q assms(3-5) by (auto simp: running_ok_def queue_ok_def)
  moreover have "acks_ok ?d"
    using a assms(2-4) by (auto simp: acks_ok_def launched_def split: turn_phase.splits)
  ultimately show ?thesis by (simp add: turn_inv_def)
qed

lemma terminal_running: "(markTurnTerminal e h (c\<lparr>cc_running := r\<rparr>)) = (markTurnTerminal e h c)\<lparr>cc_running := r\<rparr>"
  by (simp add: markTurnTerminal_def Let_def on_session_def on_turn_def emitEvent_def split: option.split)

lemma run_inv:
  assumes "turn_inv c" "cc_running c = None" "cc_queue c = t # ts"
  shows "turn_inv (run_turn t (c\<lparr>cc_queue := ts\<rparr>))"
proof -
  let ?c = "c\<lparr>cc_queue := ts\<rparr>"
  let ?h = "pt_session (cc_turn c t)"
  let ?o = "on_session ?h (\<lambda>s. s\<lparr>cx_turnEndFired := False, cx_opened := cx_opened s + 1\<rparr>) ?c"
  have skip: "turn_inv (settleAck t Accepted (release_turn t ?c))"
  proof -
    have "turn_inv (settleAck t Accepted ?c)"
      using assms unfolding turn_inv_def inv_defs
      by (auto simp: settleAck_def split: option.splits)
    moreover have "settleAck t Accepted (release_turn t ?c) = release_turn t (settleAck t Accepted ?c)"
      by (simp add: settleAck_def release_turn_def on_session_def on_turn_def)
    ultimately show ?thesis by (simp add: quiet_inv [OF _ quiet_release])
  qed
  have opened: "turn_inv (?o\<lparr>cc_running := Some (t, ph)\<rparr>)" if "\<not> launched ph" for ph
    by (rule open_inv) (use assms that in simp_all)
  let ?m = "settleAck t Accepted (release_turn t (markTurnTerminal False ?h (?o\<lparr>cc_running := Some (t, Attached)\<rparr>)))"
  have "turn_inv (?o\<lparr>cc_running := Some (t, Attached)\<rparr>)" by (rule opened) simp
  then have "turn_inv (markTurnTerminal False ?h (?o\<lparr>cc_running := Some (t, Attached)\<rparr>))" by (rule terminal_inv)
  then have "turn_inv ?m"
    by (rule quiet_inv) (intro quiet_settleAck quiet_release quiet_refl)
  then have "turn_inv (?m\<lparr>cc_running := None\<rparr>)"
    by (rule end_running) (auto simp: settleAck_def release_turn_def split: option.split)
  moreover have "?m\<lparr>cc_running := None\<rparr> = settleAck t Accepted (release_turn t (markTurnTerminal False ?h ?o))"
    using assms(2) by (simp add: terminal_running settleAck_def release_turn_def on_session_def on_turn_def)
  ultimately have "turn_inv (settleAck t Accepted (release_turn t (markTurnTerminal False ?h ?o)))" by simp
  then show ?thesis
    using skip opened by (auto simp: run_turn_def Let_def launched_def)
qed

lemma idle_irrelevant [simp]:
  "idle_ok (s\<lparr>cx_turnResolver := r\<rparr>) = idle_ok s" "idle_ok (s\<lparr>cx_currentTurn := r\<rparr>) = idle_ok s"
  "idle_ok (no_session\<lparr>cx_sessionId := i, cx_threadId := j, cx_attachedGeneration := g\<rparr>)" "idle_ok no_session"
  by (simp_all add: idle_ok_def idles_def no_session_def)

lemma connect_inv: "turn_inv c \<Longrightarrow> connectTurn f c = Some d \<Longrightarrow> turn_inv d"
proof -
  assume c: "turn_inv c" and d: "connectTurn f c = Some d"
  then obtain t b where r: "cc_running c = Some (t, Connecting b)"
    by (auto simp: connectTurn_def split: option.splits prod.splits turn_phase.splits)
  obtain e c1 where e: "ensureInitialized f c = (e, c1)" by force
  have q: "untouched c c1" by (rule quiet_ensure [OF e])
  have c1: "turn_inv c1" "cc_running c1 = Some (t, Connecting b)"
    using quiet_inv [OF c q] q r by (simp_all add: untouched_def)
  have phase: "turn_inv (c2\<lparr>cc_running := Some (t, ph)\<rparr>)" if "turn_inv c2" "cc_running c2 = Some (t, Connecting b)" "\<not> launched ph" for c2 ph
    by (rule phase_inv [OF that(1,2) _ that(3)]) simp
  show ?thesis
    using d c1 e r
    by (auto simp: connectTurn_def Let_def split: option.splits if_splits
        intro!: fail_inv phase quiet_inv [of c1 "request _ c1"])
qed

lemma resumed_inv: "turn_inv c \<Longrightarrow> threadResumed f c = Some d \<Longrightarrow> turn_inv d"
proof -
  assume c: "turn_inv c" and d: "threadResumed f c = Some d"
  then obtain t n where r: "cc_running c = Some (t, Resuming n)"
    by (auto simp: threadResumed_def split: option.splits prod.splits turn_phase.splits)
  let ?c = "on_session (pt_session (cc_turn c t)) (\<lambda>s. s\<lparr>cx_attachedGeneration := cc_generation c\<rparr>) c"
  have "turn_inv ?c" by (rule quiet_inv [OF c]) (intro quiet_flags quiet_refl)
  then have "turn_inv (?c\<lparr>cc_running := Some (t, Attached)\<rparr>)"
    by (rule phase_inv [where ph = "Resuming n"]) (simp_all add: r)
  then show ?thesis using d r c by (auto simp: threadResumed_def Let_def split: option.splits intro: fail_inv)
qed

lemma launch_inv: "turn_inv c \<Longrightarrow> launchTurn c = Some d \<Longrightarrow> turn_inv d"
proof -
  assume c: "turn_inv c" and d: "launchTurn c = Some d"
  then obtain t where r: "cc_running c = Some (t, Attached)"
    by (auto simp: launchTurn_def split: option.splits prod.splits turn_phase.splits)
  show ?thesis
  proof (cases "cc_transport c")
    case (Some n)
    have ok: "resolver_ok c" using c by (simp add: turn_inv_def)
    have none: "cx_turnResolver (cc_session c x) = None" for x
      using resolverD(3) [OF ok, of x] r by fastforce
    have "turn_inv ((on_session (pt_session (cc_turn c t)) (\<lambda>s. s\<lparr>cx_turnResolver := Some t\<rparr>) c)
        \<lparr>cc_running := Some (t, Starting n)\<rparr>)"
      using c r none unfolding turn_inv_def inv_defs
      by (auto simp: launched_def)
    then have "turn_inv d"
      by (rule quiet_inv) (use d r Some in \<open>auto simp: launchTurn_def Let_def untouched_def request_def\<close>)
    then show ?thesis .
  qed (use c d r in \<open>auto simp: launchTurn_def Let_def intro: fail_inv\<close>)
qed

lemma quiet_acknowledge: "untouched c (acknowledgeTurn n t i c)"
  unfolding acknowledgeTurn_def Let_def
  by (auto intro!: quiet_settleAck quiet_flags)

lemma acknowledged: "pt_ack (cc_turn (acknowledgeTurn n t i c) t) \<noteq> None"
  by (simp add: acknowledgeTurn_def Let_def settleAck_def split: option.split)

lemma started_inv: "turn_inv c \<Longrightarrow> turnStarted resp c = Some d \<Longrightarrow> turn_inv d"
proof -
  assume c: "turn_inv c" and d: "turnStarted resp c = Some d"
  then obtain t n where r: "cc_running c = Some (t, Starting n)"
    by (auto simp: turnStarted_def split: option.splits prod.splits turn_phase.splits)
  show ?thesis
  proof (cases resp)
    case (Inr i)
    have complete: "turn_inv (e\<lparr>cc_running := Some (t, Completing)\<rparr>)" if "untouched c e" "pt_ack (cc_turn e t) \<noteq> None" for e
    proof -
      have e: "turn_inv e" "cc_running e = Some (t, Starting n)"
        using quiet_inv [OF c that(1)] that(1) r by (simp_all add: untouched_def)
      have r: "resolver_ok e" and u: "running_ok e" and q: "queue_ok e" and i: "idles_ok e" and a: "acks_ok e"
        using e(1) by (simp_all add: turn_inv_def)
      have "resolver_ok (e\<lparr>cc_running := Some (t, Completing)\<rparr>)"
        unfolding resolver_ok_def using e(2) by (auto dest: resolverD [OF r])
      moreover have "running_ok (e\<lparr>cc_running := Some (t, Completing)\<rparr>)" using u e(2) by (simp add: running_ok_def)
      moreover have "queue_ok (e\<lparr>cc_running := Some (t, Completing)\<rparr>)" using q by (simp add: queue_ok_def)
      moreover have "idles_ok (e\<lparr>cc_running := Some (t, Completing)\<rparr>)" using i e(2) by (simp add: idles_ok_def)
      moreover have "acks_ok (e\<lparr>cc_running := Some (t, Completing)\<rparr>)"
        using a e(2) that(2) by (fastforce simp: acks_ok_def)
      ultimately show ?thesis by (simp add: turn_inv_def)
    qed
    show ?thesis
      using d r Inr complete [OF quiet_acknowledge acknowledged] by (auto simp: turnStarted_def)
  qed (use c d r in \<open>auto simp: turnStarted_def Let_def intro: fail_inv\<close>)
qed

lemma finish_inv: "turn_inv c \<Longrightarrow> turnFinished c = Some d \<Longrightarrow> turn_inv d"
proof -
  assume c: "turn_inv c" and d: "turnFinished c = Some d"
  then obtain t where r: "cc_running c = Some (t, Completing)" "pt_completed (cc_turn c t)"
      "d = (release_turn t c)\<lparr>cc_running := None\<rparr>"
    by (auto simp: turnFinished_def split: option.splits prod.splits turn_phase.splits if_splits)
  let ?s = "cc_session c (pt_session (cc_turn c t))"
  have f: "cx_turnEndFired ?s" "cx_turnResolver ?s \<noteq> Some t" "pt_ack (cc_turn c t) \<noteq> None"
    using c r(1,2) by (auto simp: turn_inv_def inv_defs)
  have e: "turn_inv (release_turn t c)" by (rule quiet_inv [OF c quiet_release [OF quiet_refl]])
  show ?thesis unfolding r(3)
    by (rule end_running [OF e, of t Completing]) (use f r(1) in \<open>auto simp: release_turn_def\<close>)
qed

lemma send_inv: "turn_inv c \<Longrightarrow> h < cc_nextSession c \<Longrightarrow> turn_inv (snd (sendTurn h p c))"
proof (cases "cc_stop c = NotStopping")
  case True
  assume c: "turn_inv c" and h: "h < cc_nextSession c"
  have r: "resolver_ok c" and u: "running_ok c" and q: "queue_ok c" and i: "idles_ok c" and a: "acks_ok c"
    using c by (simp_all add: turn_inv_def)
  have fresh: "cc_running c = Some (t, ph) \<Longrightarrow> t < cc_nextTurn c" for t ph
    using u by (simp add: running_ok_def)
  let ?d = "snd (sendTurn h p c)"
  have "resolver_ok ?d"
    unfolding resolver_ok_def
  proof (intro allI impI)
    fix x t
    assume "cx_turnResolver (cc_session ?d x) = Some t"
    then have t: "cx_turnResolver (cc_session c x) = Some t"
      using True by (auto simp: sendTurn_def Let_def split: if_splits)
    with resolverD [OF r t] fresh show "pt_session (cc_turn ?d t) = x \<and> \<not> pt_completed (cc_turn ?d t) \<and>
        (\<exists>ph. cc_running ?d = Some (t, ph) \<and> launched ph)"
      using True by (auto simp: sendTurn_def Let_def)
  qed
  moreover have "running_ok ?d"
    using u fresh True by (auto simp: running_ok_def sendTurn_def Let_def split: if_splits)
  moreover have "queue_ok ?d"
    using q h True by (auto simp: queue_ok_def sendTurn_def Let_def no_turn_def less_Suc_eq)
  moreover have "idles_ok ?d"
    using i fresh True by (fastforce simp: idles_ok_def sendTurn_def Let_def)
  moreover have "acks_ok ?d"
    using a True by (auto simp: acks_ok_def sendTurn_def Let_def less_Suc_eq)
  ultimately show ?thesis by (simp add: turn_inv_def)
qed (simp add: sendTurn_def)

lemma register_inv: "turn_inv c \<Longrightarrow> turn_inv (registerSession sid thread c)"
proof -
  assume c: "turn_inv c"
  have s: "cc_running c = Some (t, ph) \<Longrightarrow> pt_session (cc_turn c t) < cc_nextSession c" for t ph
    using c by (auto simp: turn_inv_def running_ok_def queue_ok_def)
  have r: "resolver_ok c" using c by (simp add: turn_inv_def)
  show ?thesis
    using c s unfolding turn_inv_def
    apply (intro conjI)
    subgoal using r by (auto simp: resolver_ok_def registerSession_def Let_def no_session_def)
    subgoal by (auto simp: running_ok_def registerSession_def Let_def no_session_def split: if_splits)
    subgoal by (auto simp: queue_ok_def registerSession_def Let_def less_Suc_eq)
    subgoal by (auto simp: idles_ok_def registerSession_def Let_def) (auto simp: no_session_def)
    subgoal by (auto simp: acks_ok_def registerSession_def Let_def)
    done
qed

lemma begin_stop_inv: "turn_inv c \<Longrightarrow> turn_inv (stopBegin c)"
proof -
  assume c: "turn_inv c"
  have "turn_inv (prepareForClientStop h d)" if "turn_inv d" for h d
    unfolding prepareForClientStop_def
    by (auto split: option.split intro!: that quiet_inv [OF that quiet_settleAck [OF quiet_flags(1) [OF quiet_refl]]])
  then have "turn_inv (fold prepareForClientStop (map snd (cc_sessions c)) c)" using c by (intro fold_inv) auto
  then have "turn_inv ((fold prepareForClientStop (map snd (cc_sessions c)) c)\<lparr>cc_stop := x\<rparr>)" for x
    by (rule quiet_inv) (rule quiet_flags(7) [OF quiet_refl])
  then show ?thesis using c by (simp add: stopBegin_def Let_def)
qed

lemma stop_settle_inv: "turn_inv c \<Longrightarrow> stopSettle c = Some d \<Longrightarrow> turn_inv d"
proof -
  assume c: "turn_inv c" and d: "stopSettle c = Some d"
  have "turn_inv (settleForClientStop h e)" if "turn_inv e" for h e
    unfolding settleForClientStop_def by (auto split: option.split intro!: that closed_inv)
  then have "turn_inv (fold settleForClientStop hs c)" for hs using c by (intro fold_inv) auto
  then have "turn_inv ((fold settleForClientStop hs c)\<lparr>cc_stop := x\<rparr>)" for hs x
    by (rule quiet_inv) (rule quiet_flags(7) [OF quiet_refl])
  then show ?thesis using d by (auto simp: stopSettle_def split: stop_phase.splits)
qed

lemma stop_end_inv: "turn_inv c \<Longrightarrow> stopEnd c = Some d \<Longrightarrow> turn_inv d"
proof -
  assume c: "turn_inv c" and d: "stopEnd c = Some d"
  have "turn_inv (teardown h e)" if "turn_inv e" for h e
    by (rule quiet_inv [OF that]) simp
  then have f: "turn_inv (fold teardown hs c)" for hs using c by (intro fold_inv) auto
  have "turn_inv ((fold teardown hs c)\<lparr>cc_sessions := a, cc_initialized := b, cc_transport := n, cc_stop := x\<rparr>)"
    for hs a b n x
    by (rule quiet_inv [OF f]) (auto simp: untouched_def)
  then show ?thesis using d by (auto simp: stopEnd_def split: stop_phase.splits if_splits)
qed

lemma inv_finish:
  "turn_inv d \<Longrightarrow> turn_inv (finishDisconnect h d)" "turn_inv d \<Longrightarrow> turn_inv (finishDelete sid a d)"
  "turn_inv d \<Longrightarrow> turn_inv (request r d)" "turn_inv d \<Longrightarrow> turn_inv (d\<lparr>cc_closing := k\<rparr>)"
  by (erule quiet_inv, (intro quiet_finish quiet_flags)?, simp)+

lemma inv_message:
  "turn_inv d \<Longrightarrow> turn_inv (on_session h (\<lambda>s. s\<lparr>cx_activeTurnId := i\<rparr>) d)"
  "turn_inv d \<Longrightarrow> e \<noteq> SessionIdle \<Longrightarrow> turn_inv (emitEvent h e d)"
  by (erule quiet_inv, intro quiet_flags quiet_refl) (erule quiet_inv, simp)

lemma close_inv: "turn_inv c \<Longrightarrow> turn_inv (disconnect b h c)" "turn_inv c \<Longrightarrow> turn_inv (deleteCodexSession stored sid c)"
  "turn_inv c \<Longrightarrow> turn_inv (closed_answer k c)"
proof -
  assume c: "turn_inv c"
  have s: "turn_inv (settleActiveTurnForClose m x (abort x c))" for m x
    by (rule settle_inv [OF quiet_inv [OF c quiet_abort]])
  show "turn_inv (disconnect b h c)"
    unfolding disconnect_def Let_def by (auto split: option.split intro!: inv_finish s)
  show "turn_inv (deleteCodexSession stored sid c)"
    unfolding deleteCodexSession_def Let_def by (auto split: option.split intro!: inv_finish s c)
  show "turn_inv (closed_answer k c)"
    unfolding closed_answer_def Let_def by (auto split: closing.split intro!: inv_finish c)
qed

lemma message_inv: "turn_inv c \<Longrightarrow> turn_inv (notified n m c)" "turn_inv c \<Longrightarrow> turn_inv (transportClosed n c)"
proof -
  assume c: "turn_inv c"
  have "turn_inv (handleNotification m h c)" for h
    unfolding handleNotification_def Let_def
    by (auto split: note_kind.split intro!: c terminal_inv inv_message)
  then show "turn_inv (notified n m c)"
    by (simp add: notified_def c split: option.split)
  have "turn_inv (c\<lparr>cc_initialized := False, cc_transport := None\<rparr>)"
    by (rule quiet_inv [OF c]) (auto simp: untouched_def)
  then have "turn_inv (fold handleTransportClosed hs (c\<lparr>cc_initialized := False, cc_transport := None\<rparr>))" for hs
    by (intro fold_inv closed_inv)
  then show "turn_inv (transportClosed n c)"
    using c by (simp add: transportClosed_def)
qed

lemma step_inv: "codex_step c d \<Longrightarrow> turn_inv c \<Longrightarrow> turn_inv d"
proof (induction rule: codex_step.induct)
  case (register c c' sid thread)
  show ?case by (rule register_inv [OF quiet_inv [OF register.prems quiet_ensure [OF register.hyps]]])
next
  case (start c c')
  then show ?case by (auto simp: startNext_def split: option.splits list.splits intro: run_inv)
next
  case (aborted h c)
  show ?case by (rule quiet_inv [OF aborted.prems quiet_abort])
qed (elim send_inv connect_inv resumed_inv launch_inv started_inv finish_inv close_inv message_inv
    begin_stop_inv stop_settle_inv stop_end_inv; assumption)+

lemma fresh_inv: "turn_inv new_codex_client"
  by (simp add: turn_inv_def inv_defs new_codex_client_def idle_ok_def idles_def) (simp add: no_session_def)

lemma reachable_inv: "codex_reachable c \<Longrightarrow> turn_inv c"
  by (induction rule: codex_reachable.induct) (auto intro: fresh_inv step_inv)

subsection \<open>Every turn ends once, and nobody waits for an answer\<close>

definition busy :: "nat \<Rightarrow> codex_client \<Rightarrow> bool" where
  "busy h c = (case cc_running c of None \<Rightarrow> False | Some (t, _) \<Rightarrow> pt_session (cc_turn c t) = h)"

text \<open>
  C25: Every turn that is opened ends with one \<open>session.idle\<close>: in every state a client gets into, and for
  every session of it, the idles emitted are as many as the turns opened, but for one turn that is still
  running, and for one idle that the loss of the process before the first turn may have caused.
\<close>

theorem every_turn_ends_idle_once:
  assumes "codex_reachable c"
  shows "idles (cc_session c h) \<le> cx_opened (cc_session c h) + 1 \<and>
    cx_opened (cc_session c h) \<le> idles (cc_session c h) +
      (if busy h c then 1 else 0)"
proof -
  have "idles_ok c" using reachable_inv [OF assms] by (simp add: turn_inv_def)
  then have "idle_ok (cc_session c h)" "cx_turnEndFired (cc_session c h) \<or> cx_opened (cc_session c h) = 0 \<or> busy h c"
    by (auto simp: idles_ok_def busy_def)
  then show ?thesis by (auto simp: idle_ok_def split: if_splits)
qed

text \<open>
  C26: No call of \<open>send\<close> waits for ever once its turn has left the queue: in every state, a prompt that was
  sent is still queued, or its turn is on the way to the answer of \<open>turn/start\<close>, or the call has been
  answered - accepted or refused.
\<close>

theorem every_send_is_answered:
  assumes "codex_reachable c" "t < cc_nextTurn c"
  shows "t \<in> set (cc_queue c) \<or> (\<exists>ph. cc_running c = Some (t, ph) \<and> ph \<noteq> Completing) \<or> pt_ack (cc_turn c t) \<noteq> None"
  using reachable_inv [OF assms(1)] assms(2) by (simp add: turn_inv_def acks_ok_def)

text \<open>What ends the running turn.\<close>

lemma release:
  assumes "codex_reachable c" "cc_running c = Some (t, Completing)" "h = pt_session (cc_turn c t)"
  shows "pt_completed (cc_turn (markTurnTerminal e h c) t)"
  using reachable_inv [OF assms(1)] assms(2,3) by (auto simp: turn_inv_def running_ok_def)

lemma completed_kept:
  "pt_completed (cc_turn c t) \<Longrightarrow> pt_completed (cc_turn (markTurnTerminal e x c) t)"
  "pt_completed (cc_turn (settleAck u a c) t) = pt_completed (cc_turn c t)"
  "pt_completed (cc_turn (emitEvent x ev c) t) = pt_completed (cc_turn c t)"
  "pt_completed (cc_turn (abort x c) t) = pt_completed (cc_turn c t)"
  "pt_completed (cc_turn (finishDisconnect x c) t) = pt_completed (cc_turn c t)"
  by (simp_all add: settleAck_def emitEvent_def abort_def Let_def finishDisconnect_def teardown_def unregisterSession_def
      split: option.split)

lemma quiet_terminal:
  assumes "untouched c d" "pt_completed (cc_turn (markTurnTerminal e h c) t)"
  shows "pt_completed (cc_turn (markTurnTerminal e h d) t)"
  using assms by (simp add: untouched_def)

lemma closed_completes:
  "pt_completed (cc_turn (markTurnTerminal False h c) t) \<Longrightarrow> h \<in> set hs \<Longrightarrow> pt_completed (cc_turn (fold handleTransportClosed hs c) t)"
proof (induction hs arbitrary: c)
  case (Cons x hs)
  have keeps: "pt_completed (cc_turn d t) \<Longrightarrow> pt_completed (cc_turn (fold handleTransportClosed xs d) t)" for d xs
    by (induction xs arbitrary: d) (simp_all add: handleTransportClosed_def completed_kept)
  show ?case
  proof (cases "x = h")
    case True
    have "untouched c (emitEvent h (SessionError ''Codex app-server transport closed'') c)" by simp
    from quiet_terminal [OF this Cons.prems(1)] have "pt_completed (cc_turn (handleTransportClosed h c) t)"
      by (simp only: handleTransportClosed_def)
    from keeps [OF this] show ?thesis using True by simp
  next
    case False
    then have "pt_completed (cc_turn (markTurnTerminal False h (handleTransportClosed x c)) t)"
      using Cons.prems(1) by (auto simp: handleTransportClosed_def emitEvent_def)
    with Cons False show ?thesis by simp
  qed
qed simp

text \<open>What ends a turn of the session \<open>h\<close>: a process, a registration and a current turn are still there.\<close>

inductive ends_turn :: "nat \<Rightarrow> codex_client \<Rightarrow> codex_client \<Rightarrow> bool" for h c where
  told: "ends_turn h c (notified n m c)" if "cc_transport c = Some n" "routeNotification m c = Some h"
      "nt_kind m = TurnCompletedNote \<or> nt_kind m = ErrorNote e" for n m e
| lost: "ends_turn h c (transportClosed n c)" if "cc_transport c = Some n" "h \<in> snd ` set (cc_sessions c)" for n
| closing: "ends_turn h c (disconnect b h c)" if "cx_currentTurn (cc_session c h) = Some t" "\<not> pt_terminal (cc_turn c t)" for b t
| deleting: "ends_turn h c (deleteCodexSession stored sid c)" if "map_of (cc_sessions c) sid = Some h"
      "cx_currentTurn (cc_session c h) = Some t" "\<not> pt_terminal (cc_turn c t)" for stored sid t

lemma settle_completes:
  assumes "pt_completed (cc_turn (markTurnTerminal False h c) t)" "cx_currentTurn (cc_session c h) = Some u" "\<not> pt_terminal (cc_turn c u)"
  shows "pt_completed (cc_turn (settleActiveTurnForClose m h (abort h c)) t)"
proof -
  let ?c = "emitEvent h (SessionError m) (settleAck u (Refused m) (on_turn u (\<lambda>p. p\<lparr>pt_aborted := True\<rparr>) (abort h c)))"
  have q: "untouched c ?c"
    by (rule quiet_trans [OF quiet_abort [of c h]]) (simp add: quiet_settleAck quiet_flags)
  have a: "cx_currentTurn (cc_session (abort h c) h) = Some u" "\<not> pt_terminal (cc_turn (abort h c) u)"
    using assms(2,3) by (auto simp: abort_def Let_def split: option.split)
  have e: "settleActiveTurnForClose m h (abort h c) = markTurnTerminal False h ?c"
    using a by (simp add: settleActiveTurnForClose_def Let_def)
  show ?thesis unfolding e by (rule quiet_terminal [OF q assms(1)])
qed

lemma settle_running:
  "cc_running (settleActiveTurnForClose m h (abort h c)) = cc_running c"
  by (simp add: settleActiveTurnForClose_def abort_def Let_def settleAck_def emitEvent_def split: option.split)

lemma finishing: "cc_running d = Some (t, Completing) \<Longrightarrow> pt_completed (cc_turn d t) \<Longrightarrow> turnFinished d \<noteq> None"
  by (simp add: turnFinished_def)

lemma fold_closed_running: "cc_running (fold handleTransportClosed hs c) = cc_running c"
  by (induction hs arbitrary: c) (simp_all add: handleTransportClosed_def emitEvent_def)

text \<open>
  C27: What ends the running turn lets the queue go on, under the conditions of \<open>ends_turn\<close>: when the client
  waits for the end of a turn, each of these makes the wait end, so that the next turn can start: the
  message that the turn is completed or has failed for good, where it comes from the connected process and
  is routed to the session of the turn; the loss of the connected process, where that session is still
  registered; the closing of that session, and its deletion where it is registered, where the turn it
  takes for its current one (its own, or a later one that took its place) is not yet marked as ended.
  Outside these conditions the wait need not end: a session that was closed while its turn was being
  started, and a second turn on a session that still runs one, are the two runs
  \<open>closing_while_reconnecting_blocks_the_client\<close> and \<open>overlapping_turn_cannot_be_stopped\<close> below.
\<close>

theorem ending_a_turn_releases_the_queue:
  assumes "codex_reachable c" "cc_running c = Some (t, Completing)" "ends_turn (pt_session (cc_turn c t)) c d"
  shows "turnFinished d \<noteq> None"
proof -
  let ?h = "pt_session (cc_turn c t)"
  have end_it: "pt_completed (cc_turn (markTurnTerminal e ?h c) t)" for e
    by (rule release [OF assms(1,2) refl])
  from assms(3) show ?thesis
  proof cases
    case (told n m e)
    have "pt_completed (cc_turn (handleNotification m ?h c) t)"
    proof (cases "nt_kind m = TurnCompletedNote")
      case False
      have "untouched c (emitEvent ?h (SessionError e) c)" by simp
      from quiet_terminal [OF this end_it] show ?thesis using told(4) False by (simp add: handleNotification_def)
    qed (use end_it in \<open>simp add: handleNotification_def\<close>)
    moreover have "cc_running (handleNotification m ?h c) = cc_running c"
      by (simp add: handleNotification_def emitEvent_def Let_def split: note_kind.split)
    ultimately show ?thesis using told assms(2) by (intro finishing [where t = t]) (simp_all add: notified_def)
  next
    case (lost n)
    let ?c = "c\<lparr>cc_initialized := False, cc_transport := None\<rparr>"
    have "untouched c ?c" by (simp add: untouched_def)
    from quiet_terminal [OF this end_it] have "pt_completed (cc_turn (fold handleTransportClosed (map snd (cc_sessions c)) ?c) t)"
      by (rule closed_completes) (use lost(3) in auto)
    then show ?thesis using lost(1,2) assms(2)
      by (intro finishing [where t = t]) (simp_all add: transportClosed_def fold_closed_running)
  next
    case (closing b u)
    let ?s = "settleActiveTurnForClose (''Codex session '' @ cx_sessionId (cc_session c ?h) @ '' disconnected'') ?h (abort ?h c)"
    have "pt_completed (cc_turn ?s t)" "cc_running ?s = Some (t, Completing)"
      using settle_completes [OF end_it closing(2,3)] settle_running assms(2) by simp_all
    then show ?thesis unfolding closing(1) disconnect_def Let_def
      by (intro finishing [where t = t])
         (auto simp: finishDisconnect_def teardown_def unregisterSession_def split: option.split)
  next
    case (deleting stored sid u)
    let ?s = "settleActiveTurnForClose (''Codex session '' @ sid @ '' deleted'') ?h (abort ?h c)"
    have "pt_completed (cc_turn ?s t)" "cc_running ?s = Some (t, Completing)"
      using settle_completes [OF end_it deleting(3,4)] settle_running assms(2) by simp_all
    then show ?thesis unfolding deleting(1) deleteCodexSession_def Let_def
      by (intro finishing [where t = t])
         (auto simp: deleting(2) finishDelete_def teardown_def split: option.split)
  qed
qed

subsection \<open>Routing\<close>

lemma find_member: "find P xs = Some x \<Longrightarrow> x \<in> set xs \<and> P x"
  by (induction xs) (auto split: if_splits)

lemma sole_live_Some: "sole_live c = Some h \<Longrightarrow> live_sessions c = [h]"
  by (auto simp: sole_live_def split: list.splits)

lemma live_member: "h \<in> set (live_sessions c) \<longleftrightarrow> h \<in> snd ` set (cc_sessions c) \<and> cx_activeTurnId (cc_session c h) \<noteq> None"
  by (auto simp: live_sessions_def)

lemma routed:
  assumes "routeNotification m c = Some h \<or>
    routeServerRequest (nt_threadId m) (or_else (nt_turnId m) (nt_turn_id m)) c = Some h"
  shows "h \<in> snd ` set (cc_sessions c) \<and>
    (if truthy (nt_threadId m) then Some (cx_threadId (cc_session c h)) = nt_threadId m
     else cx_activeTurnId (cc_session c h) \<noteq> None \<and>
       (cx_activeTurnId (cc_session c h) = or_else (nt_turnId m) (nt_turn_id m) \<or> live_sessions c = [h]))"
proof -
  have thread: "h \<in> snd ` set (cc_sessions c) \<and> Some (cx_threadId (cc_session c h)) = i"
    if "session_of_thread (or_str i []) c = Some h" "truthy i" for i
    using find_member [OF that(1) [unfolded session_of_thread_def]] that(2) by (cases i) auto
  have turn: "h \<in> snd ` set (cc_sessions c) \<and> cx_activeTurnId (cc_session c h) = i"
    if "session_of_turn (or_str i []) c = Some h" "truthy i" for i
    using find_member [OF that(1) [unfolded session_of_turn_def]] that(2) by (cases i) auto
  have sole: "live_sessions c = [h] \<and> h \<in> snd ` set (cc_sessions c) \<and> cx_activeTurnId (cc_session c h) \<noteq> None"
    if "sole_live c = Some h"
    using sole_live_Some [OF that] live_member [of h c] by simp
  show ?thesis
  proof (cases "truthy (nt_threadId m)")
    case True
    then show ?thesis using assms thread by (auto simp: routeNotification_def routeServerRequest_def Let_def)
  next
    case False
    then show ?thesis using assms turn sole
      by (cases "truthy (or_else (nt_turnId m) (nt_turn_id m))")
         (auto simp: routeNotification_def routeServerRequest_def Let_def truthy_def split: option.splits)
  qed
qed

text \<open>
  C28: A message of the process never reaches the wrong session: a notification or a request that names a
  thread goes to the registered session of that thread or to none, and one that names none goes to a
  registered session with a live turn - the one whose turn it names, or the only one there is. An idle
  session is never taken for it.
\<close>

theorem messages_reach_their_session:
  assumes "routeNotification m c = Some h \<or>
    routeServerRequest (nt_threadId m) (or_else (nt_turnId m) (nt_turn_id m)) c = Some h"
  shows "h \<in> snd ` set (cc_sessions c) \<and>
    (if truthy (nt_threadId m) then Some (cx_threadId (cc_session c h)) = nt_threadId m
     else cx_activeTurnId (cc_session c h) \<noteq> None \<and>
       (cx_activeTurnId (cc_session c h) = or_else (nt_turnId m) (nt_turn_id m) \<or> live_sessions c = [h]))"
  using assms by (rule routed)

subsection \<open>A sample client\<close>

definition one_session :: codex_client where
  "one_session = registerSession ''s1'' ''t1'' (snd (ensureInitialized None new_codex_client))"

definition accepted :: "string \<Rightarrow> codex_client \<Rightarrow> codex_client" where
  "accepted i c = the (turnStarted (Inr (Some i)) (the (launchTurn (the (startNext c)))))"

definition first_running :: codex_client where
  "first_running = accepted ''u1'' (snd (sendTurn 0 ''a'' one_session))"

definition succeeds :: "'x option \<Rightarrow> bool" where
  "succeeds x = (case x of None \<Rightarrow> False | Some _ \<Rightarrow> True)"

lemma succeedsD: "succeeds x \<Longrightarrow> x = Some (the x)"
  by (cases x) (simp_all add: succeeds_def)

lemma reach_accepted:
  assumes "codex_reachable c" "succeeds (startNext c)" "succeeds (launchTurn (the (startNext c)))"
    "succeeds (turnStarted (Inr (Some i)) (the (launchTurn (the (startNext c)))))"
  shows "codex_reachable (accepted i c)"
  unfolding accepted_def
  by (rule more [OF more [OF more [OF assms(1) codex_step.start] codex_step.launch] codex_step.started])
     (rule succeedsD, fact)+

lemma reach_one_session: "codex_reachable one_session"
  unfolding one_session_def
  by (rule more [OF fresh codex_step.register], rule prod_eqI) (code_simp, simp)

lemma reach_first_running: "codex_reachable first_running"
  unfolding first_running_def
  by (rule reach_accepted [OF more [OF reach_one_session codex_step.sent]]; code_simp)

lemma first_is_running: "cc_running first_running = Some (0, Completing)"
  by code_simp

definition completed_note :: notification where
  "completed_note = \<lparr> nt_kind = TurnCompletedNote, nt_threadId = Some ''t1'', nt_turnId = None, nt_turn_id = Some ''u1'' \<rparr>"

theorem every_turn_ends_idle_once_witness:
  "idles (cc_session first_running 0) \<le> cx_opened (cc_session first_running 0) + 1 \<and>
    cx_opened (cc_session first_running 0) \<le> idles (cc_session first_running 0) + (if busy 0 first_running then 1 else 0)"
  by (rule every_turn_ends_idle_once [OF reach_first_running])

theorem every_send_is_answered_witness:
  "0 \<in> set (cc_queue first_running) \<or> (\<exists>ph. cc_running first_running = Some (0, ph) \<and> ph \<noteq> Completing) \<or>
    pt_ack (cc_turn first_running 0) \<noteq> None"
  by (rule every_send_is_answered [OF reach_first_running]) code_simp

theorem ending_a_turn_releases_the_queue_witness:
  "turnFinished (notified 0 completed_note first_running) \<noteq> None"
  by (rule ending_a_turn_releases_the_queue [OF reach_first_running first_is_running], rule told [where e = "[]"]) code_simp+

theorem messages_reach_their_session_witness:
  "0 \<in> snd ` set (cc_sessions first_running)"
  by (rule messages_reach_their_session [where m = completed_note, THEN conjunct1], rule disjI1) code_simp

subsection \<open>How the queue can be blocked for good\<close>

text \<open>
  The client waits for the end of a turn that its session, no longer registered, takes for ended.
\<close>

definition blocked :: "nat \<Rightarrow> nat \<Rightarrow> codex_client \<Rightarrow> bool" where
  "blocked h t c \<longleftrightarrow> cc_running c = Some (t, Completing) \<and> \<not> pt_completed (cc_turn c t) \<and> pt_terminal (cc_turn c t) \<and>
     cx_currentTurn (cc_session c h) = Some t \<and> h \<notin> snd ` set (cc_sessions c) \<and>
     h < cc_nextSession c \<and> t < cc_nextTurn c \<and> (\<forall>x. x \<noteq> h \<longrightarrow> cx_turnResolver (cc_session c x) \<noteq> Some t)"

text \<open>What goes on without a further prompt on the session \<open>h\<close>.\<close>

inductive undisturbed :: "nat \<Rightarrow> codex_client \<Rightarrow> codex_client \<Rightarrow> bool" for h c where
  here: "undisturbed h c c"
| on: "undisturbed h c e" if "undisturbed h c d" "codex_step d e"
    "cx_currentTurn (cc_session e h) = cx_currentTurn (cc_session d h)" for d e

lemma blocked_terminal: "blocked h t c \<Longrightarrow> x \<noteq> h \<Longrightarrow> blocked h t (markTurnTerminal e x c)"
  by (auto simp: blocked_def)

lemma blocked_flags:
  "blocked h t c \<Longrightarrow> blocked h t (request r c)" "blocked h t c \<Longrightarrow> blocked h t (emitEvent x ev c)"
  "blocked h t c \<Longrightarrow> blocked h t (settleAck u a c)" "blocked h t c \<Longrightarrow> blocked h t (teardown x c)"
  "blocked h t c \<Longrightarrow> blocked h t (on_turn u (\<lambda>p. p\<lparr>pt_aborted := b\<rparr>) c)"
  "blocked h t c \<Longrightarrow> blocked h t (on_session x (\<lambda>s. s\<lparr>cx_activeTurnId := i\<rparr>) c)"
  "blocked h t c \<Longrightarrow> blocked h t (c\<lparr>cc_closing := k\<rparr>)" "blocked h t c \<Longrightarrow> blocked h t (c\<lparr>cc_stop := p\<rparr>)"
  "blocked h t c \<Longrightarrow> blocked h t (c\<lparr>cc_initialized := b, cc_transport := n\<rparr>)"
  by (auto simp: blocked_def emitEvent_def settleAck_def teardown_def)

lemma blocked_unregister:
  "blocked h t c \<Longrightarrow> blocked h t (c\<lparr>cc_sessions := AList.delete sid (cc_sessions c)\<rparr>)"
  by (auto simp: blocked_def AList.delete_eq image_iff)

lemma blocked_finish:
  assumes "blocked h t c"
  shows "blocked h t (finishDisconnect x c)" "blocked h t (finishDelete sid a c)"
proof -
  show "blocked h t (finishDisconnect x c)"
    using assms by (auto simp: finishDisconnect_def unregisterSession_def intro: blocked_flags blocked_unregister)
  have "blocked h t ((teardown y c)\<lparr>cc_sessions := AList.delete sid (cc_sessions c)\<rparr>)" for y
    using blocked_unregister [OF blocked_flags(4) [OF assms], of sid y] by (simp add: teardown_def)
  then show "blocked h t (finishDelete sid a c)"
    using assms by (simp add: finishDelete_def split: option.split)
qed

lemma blocked_abort: "blocked h t c \<Longrightarrow> blocked h t (abort x c)"
  by (auto simp: abort_def Let_def intro: blocked_flags split: option.split)

lemma blocked_closed: "blocked h t c \<Longrightarrow> x \<noteq> h \<Longrightarrow> blocked h t (handleTransportClosed x c)"
  unfolding handleTransportClosed_def by (intro blocked_terminal blocked_flags)

lemma blocked_current: "blocked h t c \<Longrightarrow> cx_currentTurn (cc_session c h) = Some t \<and> pt_terminal (cc_turn c t)"
  by (simp add: blocked_def)

lemma blocked_settle: "blocked h t c \<Longrightarrow> blocked h t (settleActiveTurnForClose m x c)"
  by (cases "x = h")
     (auto simp: settleActiveTurnForClose_def Let_def blocked_current intro: blocked_flags blocked_terminal split: option.split)

lemma fold_blocked:
  "(\<And>x d. x \<in> set xs \<Longrightarrow> blocked h t d \<Longrightarrow> blocked h t (f x d)) \<Longrightarrow> blocked h t c \<Longrightarrow> blocked h t (fold f xs c)"
  by (induction xs arbitrary: c) auto

lemma blocked_notified: "blocked h t c \<Longrightarrow> blocked h t (notified n m c)"
proof (cases "routeNotification m c")
  case (Some x)
  assume b: "blocked h t c"
  have "x \<in> snd ` set (cc_sessions c)"
    using routed [of m c x] Some by simp
  with b have "x \<noteq> h" by (auto simp: blocked_def)
  then show ?thesis using Some b
    by (auto simp: notified_def handleNotification_def Let_def intro: blocked_flags blocked_terminal split: note_kind.split)
qed (simp add: notified_def)

lemma blocked_transport: "blocked h t c \<Longrightarrow> blocked h t (transportClosed n c)"
proof -
  assume b: "blocked h t c"
  then have "x \<noteq> h" if "x \<in> snd ` set (cc_sessions c)" for x using that by (auto simp: blocked_def)
  then have "blocked h t (fold handleTransportClosed (map snd (cc_sessions c)) (c\<lparr>cc_initialized := False, cc_transport := None\<rparr>))"
    by (intro fold_blocked blocked_closed blocked_flags b) auto
  then show ?thesis using b by (simp add: transportClosed_def)
qed

lemma blocked_stop:
  assumes "blocked h t c"
  shows "blocked h t (stopBegin c)" "stopSettle c = Some d \<Longrightarrow> blocked h t d" "stopEnd c = None"
proof -
  have p: "blocked h t (prepareForClientStop x d)" if "blocked h t d" for x d
    using that by (auto simp: prepareForClientStop_def intro: blocked_flags split: option.split)
  have s: "blocked h t (settleForClientStop x d)" if "blocked h t d" for x d
    using that by (cases "x = h") (auto simp: settleForClientStop_def blocked_current intro: blocked_closed split: option.split)
  have "blocked h t (fold prepareForClientStop hs c)" for hs by (intro fold_blocked p assms)
  then show "blocked h t (stopBegin c)" using assms by (auto simp: stopBegin_def Let_def intro: blocked_flags)
  have "blocked h t (fold settleForClientStop hs c)" for hs by (intro fold_blocked s assms)
  then show "blocked h t d" if "stopSettle c = Some d"
    using that by (auto simp: stopSettle_def intro: blocked_flags split: stop_phase.splits)
  show "stopEnd c = None"
    using assms by (auto simp: stopEnd_def blocked_def split: stop_phase.split)
qed

lemma blocked_waits:
  assumes "blocked h t c"
  shows "startNext c = None" "connectTurn f c = None" "threadResumed f c = None" "launchTurn c = None"
    "turnStarted r c = None" "turnFinished c = None"
  using assms
  by (simp_all add: blocked_def startNext_def connectTurn_def threadResumed_def launchTurn_def turnStarted_def turnFinished_def)

lemma update_values: "x \<in> snd ` set (AList.update k v xs) \<Longrightarrow> x = v \<or> x \<in> snd ` set xs"
  by (induction xs) (auto split: if_splits)

lemma blocked_register:
  assumes "ensureInitialized f c = (e, c')" "blocked h t c"
  shows "blocked h t (registerSession sid thread c')"
proof -
  have "blocked h t c'"
    using assms by (auto simp: ensureInitialized_def blocked_def split: if_splits option.splits)
  then show ?thesis
    by (auto simp: blocked_def registerSession_def Let_def no_session_def dest!: update_values)
qed

lemma blocked_send:
  assumes "blocked h t c" "cx_currentTurn (cc_session (snd (sendTurn x p c)) h) = cx_currentTurn (cc_session c h)"
  shows "blocked h t (snd (sendTurn x p c))"
  using assms by (auto simp: blocked_def sendTurn_def Let_def split: if_splits)

lemma blocked_step:
  assumes "codex_step c d" "blocked h t c" "cx_currentTurn (cc_session d h) = cx_currentTurn (cc_session c h)"
  shows "blocked h t d"
  using assms
proof cases
  case (sent x p)
  with assms(2,3) show ?thesis by (simp add: blocked_send)
next
  case (disconnected x b)
  then show ?thesis using assms(2)
    by (auto simp: disconnect_def Let_def intro!: blocked_finish blocked_flags blocked_settle blocked_abort split: option.split)
next
  case (deleted stored sid)
  then show ?thesis using assms(2)
    by (auto simp: deleteCodexSession_def Let_def intro!: blocked_finish blocked_flags blocked_settle blocked_abort split: option.split)
next
  case (closed k)
  then show ?thesis using assms(2)
    by (auto simp: closed_answer_def Let_def intro!: blocked_finish blocked_flags split: closing.split)
qed (use assms(2) blocked_waits [OF assms(2)] blocked_stop [OF assms(2)] in
  \<open>simp_all add: blocked_register blocked_abort blocked_notified blocked_transport\<close>)

lemma blocked_for_good: "undisturbed h c d \<Longrightarrow> blocked h t c \<Longrightarrow> blocked h t d"
  by (induction rule: undisturbed.induct) (auto intro: blocked_step)

lemma nothing_but_waiting:
  "blocked h t c \<Longrightarrow> {d. undisturbed h c d} \<subseteq> {d. cc_running d = Some (t, Completing)}"
  using blocked_for_good by (fastforce simp: blocked_def)

text \<open>Only the session of a turn can end it.\<close>

lemma blockedI:
  assumes "codex_reachable c" "cc_running c = Some (t, Completing)" "\<not> pt_completed (cc_turn c t)" "pt_terminal (cc_turn c t)"
    "cx_currentTurn (cc_session c h) = Some t" "h \<notin> snd ` set (cc_sessions c)" "h < cc_nextSession c" "t < cc_nextTurn c"
    "pt_session (cc_turn c t) = h"
  shows "blocked h t c"
proof -
  have r: "resolver_ok c" using reachable_inv [OF assms(1)] by (simp add: turn_inv_def)
  then show ?thesis using assms(2-9) resolverD(1) [OF r] by (auto simp: blocked_def)
qed

text \<open>The process is lost; the session is closed while its next turn waits for a new one.\<close>

definition reconnecting :: codex_client where
  "reconnecting = the (startNext (snd (sendTurn 0 ''a'' (transportClosed 0 one_session))))"

definition reconnected :: codex_client where
  "reconnected = the (turnStarted (Inr (Some ''u1'')) (the (launchTurn (the (threadResumed None
     (the (connectTurn None (disconnect False 0 reconnecting))))))))"

lemma reach_reconnecting: "codex_reachable reconnecting"
proof -
  have "codex_reachable (transportClosed 0 one_session)"
    by (rule more [OF reach_one_session codex_step.transport])
  then have "codex_reachable (snd (sendTurn 0 ''a'' (transportClosed 0 one_session)))"
    by (rule more [OF _ codex_step.sent]) code_simp
  then show ?thesis
    unfolding reconnecting_def by (rule more [OF _ codex_step.start [OF succeedsD]]) code_simp
qed

lemma reach_reconnected: "codex_reachable reconnected"
proof -
  have "codex_reachable (disconnect False 0 reconnecting)"
    by (rule more [OF reach_reconnecting codex_step.disconnected]) code_simp
  then have "codex_reachable (the (connectTurn None (disconnect False 0 reconnecting)))"
    by (rule more [OF _ codex_step.connect [OF succeedsD]]) code_simp
  then have "codex_reachable (the (threadResumed None (the (connectTurn None (disconnect False 0 reconnecting)))))"
    by (rule more [OF _ codex_step.resumed [OF succeedsD]]) code_simp
  then have "codex_reachable (the (launchTurn (the (threadResumed None (the (connectTurn None (disconnect False 0 reconnecting)))))))"
    by (rule more [OF _ codex_step.launch [OF succeedsD]]) code_simp
  then show ?thesis
    unfolding reconnected_def by (rule more [OF _ codex_step.started [OF succeedsD]]) code_simp
qed

lemma reconnected_blocked: "blocked 0 0 reconnected"
  by (rule blockedI [OF reach_reconnected]) code_simp+

text \<open>
  C29: Closing a session while its turn waits for a new process blocks the client for good: the turn has
  been refused and has ended for the session, yet it is started once the process is there, and then the
  client waits for an end that reaches no registered session - whatever the process, the other sessions
  or \<open>stop\<close> do, short of a further prompt on the closed session, no other turn ever starts.
\<close>

theorem closing_while_reconnecting_blocks_the_client:
  "codex_reachable reconnecting \<and> cc_running reconnecting = Some (0, Connecting False) \<and>
   pt_ack (cc_turn (disconnect False 0 reconnecting) 0) = Some (Refused ''Codex session s1 disconnected'') \<and>
   {d. undisturbed 0 reconnected d} \<subseteq> {d. cc_running d = Some (0, Completing)}"
proof (intro conjI)
  show "cc_running reconnecting = Some (0, Connecting False)" by code_simp
  show "pt_ack (cc_turn (disconnect False 0 reconnecting) 0) = Some (Refused ''Codex session s1 disconnected'')"
    by code_simp
qed (fact reach_reconnecting, rule nothing_but_waiting [OF reconnected_blocked])

text \<open>A second prompt is sent before the end of the first turn, as after a timeout.\<close>

definition second_running :: codex_client where
  "second_running = accepted ''u2'' (the (turnFinished (notified 0 completed_note
     (snd (sendTurn 0 ''b'' (abort 0 first_running))))))"

definition second_closed :: codex_client where
  "second_closed = closed_answer (Disconnecting 0) (disconnect False 0 second_running)"

lemma reach_second_running: "codex_reachable second_running"
proof -
  have "codex_reachable (abort 0 first_running)"
    by (rule more [OF reach_first_running codex_step.aborted]) code_simp
  then have "codex_reachable (snd (sendTurn 0 ''b'' (abort 0 first_running)))"
    by (rule more [OF _ codex_step.sent]) code_simp
  then have "codex_reachable (notified 0 completed_note (snd (sendTurn 0 ''b'' (abort 0 first_running))))"
    by (rule more [OF _ codex_step.notification])
  then have "codex_reachable (the (turnFinished (notified 0 completed_note (snd (sendTurn 0 ''b'' (abort 0 first_running))))))"
    by (rule more [OF _ codex_step.finish [OF succeedsD]]) code_simp
  then show ?thesis
    unfolding second_running_def by (rule reach_accepted) code_simp+
qed

lemma reach_second_closed: "codex_reachable second_closed"
proof -
  have "codex_reachable (disconnect False 0 second_running)"
    by (rule more [OF reach_second_running codex_step.disconnected]) code_simp
  then show ?thesis
    unfolding second_closed_def by (rule more [OF _ codex_step.closed]) code_simp
qed

lemma second_blocked: "blocked 0 1 second_closed"
  by (rule blockedI [OF reach_second_closed]) code_simp+

text \<open>
  C30: A turn that is sent while another one of its session still runs, as after a timeout, cannot be
  stopped: the end of the first turn marks the second one as ended, so aborting it sends no interrupt, and
  closing the session does not release the queue - the client is blocked as above.
\<close>

theorem overlapping_turn_cannot_be_stopped:
  "codex_reachable second_running \<and> cc_running second_running = Some (1, Completing) \<and>
   pt_ack (cc_turn second_running 1) = Some Accepted \<and> cc_requests (abort 0 second_running) = cc_requests second_running \<and>
   {d. undisturbed 0 second_closed d} \<subseteq> {d. cc_running d = Some (1, Completing)}"
proof (intro conjI)
  show "cc_running second_running = Some (1, Completing)" by code_simp
  show "pt_ack (cc_turn second_running 1) = Some Accepted" by code_simp
  show "cc_requests (abort 0 second_running) = cc_requests second_running" by code_simp
qed (fact reach_second_running, rule nothing_but_waiting [OF second_blocked])

end
