(* ===== verification/Spec2Isabelle.thy ===== *)
theory Spec2Isabelle
  imports MainLoop Guarantees SessionStatus TurnTools FactTools TurnRecovery ActivityGuarantees ArtifactStore
    DehydrationGuarantees SessionTools CodexTurnGuarantees
begin

text \<open>
  PilotSwarm: a verification library for the TypeScript SDK under \<open>packages/sdk/src\<close>.

  The program. A PilotSwarm session is a durable orchestration: a generator that the external
  runtime (duroxide) replays from its history, that takes messages from a queue, runs turns of a
  language model through activities, waits on timers, spawns and supervises child sessions, and now
  and then restarts itself with \<open>continue-as-new\<close>. Around it are the \<open>runTurn\<close> activity with the
  prompt guardrails and the recovery of lost sessions (\<open>session-proxy.ts\<close>), the tools a turn offers
  to the model (\<open>managed-session.ts\<close>), the layered system prompts (\<open>prompt-layering.ts\<close>,
  \<open>session-manager.ts\<close>), the facts the agents share (\<open>facts-store.ts\<close>, \<open>facts-tools.ts\<close>) and the
  catalog rows that clients reconcile with the runtime's status (\<open>session-status.ts\<close>), and the client with which users,
  activities and turns reach sessions (\<open>client.ts\<close>).

  How the parts interact. The generator (\<open>durableSession\<close>) rebuilds its variables from the input
  (ContinueAsNew), enforces the session policy and then loops (MainLoop): \<open>drain\<close> moves messages
  and timer fires into the key-value work buffer (EventLoop, FifoBuffer, Commands, SubAgents),
  \<open>decide\<close> takes one item and processes a prompt, a timer or an answer (PromptTurn, EventLoop), a
  turn's result is dispatched (TurnResult, SpawnAgent, TurnFailure), shutdown and deletion cascade
  to children (Shutdown). Everything a client sees goes through Publishing. A turn itself is
  \<open>runTurnActivity\<close> (TurnRecovery) over the guard (TurnGuard, PromptGuardrails, RegExp), whose live
  session calls tools (TurnTools, FactTools).

  Shared theories.
  \<^item> JsPrelude: JavaScript strings and numbers as the source uses them, the collections of
    simplification rules (\<open>js_defs\<close>, \<open>orch_defs\<close>).
  \<^item> Json: JSON values and \<open>JSON.stringify\<close>.
  \<^item> OrchMonad: a program is a state transformer that returns, throws or stops (the runtime has not
    answered yet, or the execution ends); \<open>try_catch\<close>, \<open>for_each\<close>, and the locale
    \<open>step_contract\<close>: a relation on states and a predicate on halts that every primitive keeps is
    kept by every program built from them. Its interpretations carry most invariants.
  \<^item> RegExp: regular expressions as a datatype with an executable matcher.

  The orchestration, \<open>orchestration.ts\<close> version 1.0.44.
  \<^item> DataModel (\<open>types.ts\<close>): turn actions and results, configuration, context usage, messages,
    records of input, commands and responses, the keys of the store.
  \<^item> OrchState: the generator's variables as a record, the effects it yields (timers, queue, the
    two proxies of \<open>session-proxy.ts\<close>), the key-value store, the trace. The runtime and the
    activities are the history: a list of answers consumed in order.
  \<^item> WaitAffinity (\<open>wait-affinity.ts\<close>), PromptText (prompt conventions), ContextUsage
    (\<open>updateContextUsageFromEvents\<close>), Publishing (counters, responses, status).
  \<^item> WorkQueue, FifoBuffer: the abstract queue between \<open>drain\<close> and \<open>decide\<close> as a locale, and the
    bucketed buffer of the code that implements it (\<open>interpretation fq\<close>).
  \<^item> ContinueAsNew: \<open>continueInput\<close>, \<open>versionedContinueAsNew\<close>, timer carrying, the task context,
    cron actions; SubAgents: child updates and digest, dehydration; Shutdown; Commands; SpawnAgent;
    TurnFailure; TurnResult; PromptTurn; EventLoop; MainLoop: the handlers of the same names.
  \<^item> Contracts: the locale \<open>orch_contract\<close> lists what a relation must allow at each primitive and
    walks once through all handlers up to \<open>orchestrate\<close>; Guarantees interprets it twice (\<open>run\<close>,
    \<open>state\<close>) and obtains the theorems on whole executions and on chains of executions: safe
    effects, publications under new versions, permanent identity, what continue-as-new hands over,
    one digest entry per child, consistent usage, the session proxy following the affinity key.

  The turn.
  \<^item> PromptGuardrails (\<open>prompt-guardrails.ts\<close>): rules, decision, trust boundary. TurnGuard: the
    pipeline around a turn. TurnTools (\<open>managed-session.ts\<close>): the control tools and the end of a
    turn. PromptLayering (\<open>prompt-layering.ts\<close> and the prompts of \<open>session-manager.ts\<close>).
  \<^item> TurnRecovery: the \<open>runTurn\<close> activity over lists of replies of the session manager and the live
    session. Its lemmas bound what reaches the model (\<open>limited\<close>), count the summaries
    (\<open>counts\<close>) and follow the returned result (\<open>returns\<close>) compositionally.

  The facts.
  \<^item> FactStore (\<open>facts-store.ts\<close> with the stored procedures of \<open>facts-migrations.ts\<close>): the table as a
    list of rows, the procedures as functions on it; the locale \<open>fact_table\<close> states that a store is
    a map from owner and key, and \<open>interpretation pg\<close> proves it of the code's store.
  \<^item> FactTools (\<open>facts-tools.ts\<close>): the tools over it, for sequences of calls by many sessions.

  The rest of the session proxy.
  \<^item> AgentLookup: how an agent definition is found by name. ControlBridge: the operations on
    sub-agents that a turn carries out at once through a client of its own. SessionActivities: the
    activities the orchestration calls - persistence of the live session, titles, children, messages to
    other sessions, the session's row. ModelRegistry (\<open>model-providers.ts\<close> with the model and effort
    resolution of \<open>session-manager.ts\<close>).

  The clients.
  \<^item> SdkClient (\<open>client.ts\<close>): creating, resuming, deleting and reading sessions and sending prompts;
    catalog, facts store and runtime answer from a list of replies, and every request is recorded.
    FleetLogic is the program logic over it: \<open>wp m C Q E w\<close> bounds the requests a program makes and
    describes its two ends, with one rule per combinator. ClientGuarantees, BridgeGuarantees and
    ActivityGuarantees prove with it what client, bridge and activities may request, when the
    bridge answers, and with which requests a session is started.
  \<^item> SessionStatus (\<open>session-status.ts\<close>, with the reads of \<open>client.ts\<close> and
    \<open>management-client.ts\<close>): reconciliation of a catalog row with the runtime's status.

  The stores.
  \<^item> SessionStore (\<open>session-store.ts\<close>): which ids are allowed and where they resolve to, when the
    directory of a session may be archived, writing, checking and extracting archives. The disk is a
    record; every step on it may fail, the removal of a directory also halfway (\<open>partly_removed\<close>), and
    \<open>tar\<close> is an argument. StoreGuarantees has a program logic of
    the two ends of a program (\<open>ends\<close>) and proves with it that a dehydration or a hydration that runs
    once loses nothing at any failure, the round trip for plainly named files (\<open>plain_tree\<close>) under the
    documented behaviour of \<open>tar\<close> (\<open>tar_restores\<close>), and what a retry after a broken-off removal loses.
  \<^item> SessionManager (\<open>session-manager.ts\<close>): configuration and tools of a session, obtaining it for a
    turn in the Copilot or the Codex branch, letting it go. The store is a record of the operations of
    \<open>SessionStateStore\<close>; a call of a runtime is recorded and answered by the next reply.
    ManagerGuarantees counts the calls a program can make (\<open>at_most\<close>) and shows which session a turn
    gets; DehydrationGuarantees states the contract of a store as the locale \<open>session_state_store\<close>, proves
    over it that dehydration persists before it lets go, also where destroying the live session removes
    its directory, and interprets it (\<open>fs\<close>) on SessionStore;
    SessionTools is about the offered tools.
  \<^item> CodexState (\<open>codex-runtime.ts\<close>): the marker file and the copied transcript of a Codex session.
    CodexGuarantees shows that the gate of the store and the runtime accept the same markers and that a
    copied transcript can be resumed.
  \<^item> CodexTurn (\<open>codex-runtime.ts\<close>): the turns of a Codex client as a state machine - the queue that lets
    one turn of a home run at a time, sending, reconnecting, abort, closing, deleting, the loss of the
    process, stopping, and the routing of its messages; a step goes up to the next \<open>await\<close>, except
    that the handshake with a new process is one step. CodexTurnGuarantees
    has the invariant of the reachable states (\<open>turn_inv\<close>), what follows from it, and two schedules that block
    a client (\<open>blocked\<close>).
  \<^item> ArtifactStore (\<open>FilesystemArtifactStore\<close>): files by path; no operation leaves its session.

  Bounds. The loop bounds are the code's own and are written as fuel that decreases: 50 drain
  steps per iteration, 10 iterations per execution before continue-as-new, 3 hydration attempts,
  20 buckets. No further fuel is needed, so every definition is total and every theorem speaks of
  complete runs. A run that stops because the history has no more answers is an execution still
  waiting; a theorem about what an execution did holds of it as well.

  Conventions. Strings are lists of code units below 256, and typographic dashes of messages are
  written as hyphens. Numbers are integers (\<open>nat\<close> where the code cannot produce a negative one),
  ratios are rationals. The values of the key-value store are denoted, and where the code measures
  their JSON text, by the length of \<open>stringify\<close>. An optional field is an option; the truth tests of
  JavaScript are \<open>truthy\<close>, \<open>or_str\<close>, \<open>default_to\<close>. A tool is called with the arguments its schema
  requires. Trace messages are left out. Catalog calls whose
  errors the code swallows succeed.

  Not modelled, and why.
  \<^item> The runtime, the language model, PostgreSQL and blob storage are outside the sources; they are
    histories, replies or arguments.
  \<^item> The parts of \<open>client.ts\<close> that poll for results and deliver events, the fleet operations of
    \<open>management-client.ts\<close>, the workers, the framing of
    Codex' messages, catalog SQL and migrations, the blob store,
    configuration loaders: input and output around small decisions.
  \<^item> The frozen copies \<open>orchestration_1_0_*.ts\<close>, kept for replay of running sessions; the current
    version is the one modelled.
  \<^item> The user interfaces, command line, portal and evaluation harness.
\<close>

end
